(* ===== verification/Prelude.thy ===== *)
theory Prelude
  imports Main "HOL-Library.Word"
begin

text \<open>
  Shared vocabulary of the development: bytes and Go strings, machine words, the result types of
  Go code that can panic or fail, and the generic lemmas on lists and options that the component
  theories use. Nothing here is specific to one component.
\<close>

section \<open>Values\<close>

text \<open>
  A byte is a \<open>char\<close> (eight bits), so that Go strings, byte slices and string literals are all
  lists of bytes. A Go slice that may be \<open>nil\<close> is an \<open>option\<close>: \<open>None\<close> is the nil slice.
\<close>

type_synonym byte = char
type_synonym bytes = "byte list"
type_synonym gostring = "char list"
type_synonym u64 = "64 word"
type_synonym u32 = "32 word"
type_synonym i32 = "32 word"

text \<open>Pointers are 64-bit addresses; the null pointer is address 0.\<close>

type_synonym ptr = "64 word"

text \<open>The result of Go code that may panic, and of Go code that returns \<open>(value, error)\<close>.\<close>

datatype 'a go = Panic gostring | Ret 'a

type_synonym ('e, 'a) go_result = "'e + 'a"

fun go_bind :: "'a go \<Rightarrow> ('a \<Rightarrow> 'b go) \<Rightarrow> 'b go" where
  "go_bind (Panic s) f = Panic s"
| "go_bind (Ret x) f = f x"

lemma go_bind_Ret [simp]: "go_bind m Ret = m"
  by (cases m) simp_all

lemma go_bind_assoc: "go_bind (go_bind m f) g = go_bind m (\<lambda>x. go_bind (f x) g)"
  by (cases m) simp_all

lemma go_bind_eq_Ret: "go_bind m f = Ret y \<longleftrightarrow> (\<exists>x. m = Ret x \<and> f x = Ret y)"
  by (cases m) auto

fun panics :: "'a go \<Rightarrow> bool" where
  "panics (Panic s) = True"
| "panics (Ret x) = False"

section \<open>Lists\<close>

text \<open>The last \<open>n\<close> elements of a list.\<close>

definition lastn :: "nat \<Rightarrow> 'a list \<Rightarrow> 'a list" where
  "lastn n xs = drop (length xs - n) xs"

named_theorems list_facts \<open>facts about prefixes, suffixes and copies\<close>

lemma lastn_Nil [simp]: "lastn n [] = []"
  by (simp add: lastn_def)

lemma lastn_0 [simp]: "lastn 0 xs = []"
  by (simp add: lastn_def)

lemma length_lastn [simp]: "length (lastn n xs) = min n (length xs)"
  by (auto simp: lastn_def)

lemma lastn_all [list_facts]: "length xs \<le> n \<Longrightarrow> lastn n xs = xs"
  by (simp add: lastn_def)

lemma lastn_append [list_facts]: "lastn n (xs @ ys) = lastn (n - length ys) xs @ lastn n ys"
  by (cases "length ys \<le> n") (auto simp: lastn_def add.commute)

lemma lastn_lastn_append: "lastn n (lastn n xs @ ys) = lastn n (xs @ ys)"
  by (cases "n \<le> length xs") (simp_all add: lastn_def add.commute)

lemma lastn_append_ge: "n \<le> length ys \<Longrightarrow> lastn n (xs @ ys) = lastn n ys"
  by (simp add: lastn_append)

text \<open>Go's \<open>copy(dst[pos:], src)\<close>: overwrites in place and returns how many were copied.\<close>

definition go_copy_at :: "'a list \<Rightarrow> nat \<Rightarrow> 'a list \<Rightarrow> 'a list \<times> nat" where
  "go_copy_at dst pos src =
     (let n = min (length dst - pos) (length src)
      in (take pos dst @ take n src @ drop (pos + n) dst, n))"

lemma length_go_copy_at [simp]:
  "pos \<le> length dst \<Longrightarrow> length (fst (go_copy_at dst pos src)) = length dst"
  by (auto simp: go_copy_at_def Let_def)

lemma go_copy_at_count [simp]:
  "snd (go_copy_at dst pos src) = min (length dst - pos) (length src)"
  by (simp add: go_copy_at_def Let_def)

lemma take_go_copy_at:
  "pos \<le> length dst \<Longrightarrow>
   take (pos + min (length dst - pos) (length src)) (fst (go_copy_at dst pos src)) =
     take pos dst @ take (length dst - pos) src"
  by (auto simp: go_copy_at_def Let_def min_def)

lemma drop_go_copy_at:
  "pos \<le> length dst \<Longrightarrow>
   drop (pos + min (length dst - pos) (length src)) (fst (go_copy_at dst pos src)) =
     drop (pos + min (length dst - pos) (length src)) dst"
  by (auto simp: go_copy_at_def Let_def min_def)

text \<open>A loop over a slice whose body may not return.\<close>

fun fold_opt :: "('s \<Rightarrow> 'a \<Rightarrow> 's option) \<Rightarrow> 's \<Rightarrow> 'a list \<Rightarrow> 's option" where
  "fold_opt f s [] = Some s"
| "fold_opt f s (x # xs) = Option.bind (f s x) (\<lambda>s'. fold_opt f s' xs)"

lemma fold_opt_append:
  "fold_opt f s (xs @ ys) = Option.bind (fold_opt f s xs) (\<lambda>s'. fold_opt f s' ys)"
  by (induction xs arbitrary: s) (auto simp: Option.bind_assoc)

text \<open>First position of an element, as used for C and Go enumerators numbered by position.\<close>

fun position :: "'a \<Rightarrow> 'a list \<Rightarrow> nat" where
  "position x [] = 0"
| "position x (y # ys) = (if x = y then 0 else Suc (position x ys))"

lemma position_less: "x \<in> set xs \<Longrightarrow> position x xs < length xs"
  by (induction xs) auto

lemma nth_position: "x \<in> set xs \<Longrightarrow> xs ! position x xs = x"
  by (induction xs) auto

lemma position_nth: "distinct xs \<Longrightarrow> i < length xs \<Longrightarrow> position (xs ! i) xs = i"
proof (induction xs arbitrary: i)
  case Nil
  then show ?case by simp
next
  case (Cons x xs)
  then show ?case by (cases i) auto
qed

lemma map_nth_tail: "map ((!) (x # xs)) [1..<length (x # xs)] = xs"
proof -
  have "map ((!) (x # xs)) (drop 1 [0..<length (x # xs)]) = drop 1 (x # xs)"
    by (simp only: map_nth flip: drop_map)
  then show ?thesis by (simp only: drop_upt add_0 One_nat_def drop_Suc_Cons drop0)
qed

lemma position_map: "inj f \<Longrightarrow> position (f x) (map f xs) = position x xs"
  by (induction xs) (auto dest: injD)

section \<open>Machine integers\<close>

lemma unat_of_nat_u64: "n < 2 ^ 64 \<Longrightarrow> unat (of_nat n :: u64) = n"
  by (simp add: unat_of_nat)

lemma of_nat_u64_inject:
  "m < 2 ^ 64 \<Longrightarrow> n < 2 ^ 64 \<Longrightarrow> (of_nat m :: u64) = of_nat n \<longleftrightarrow> m = n"
  using unat_of_nat_u64 by metis

lemma unat_u64_less: "unat (x :: u64) < 2 ^ 64"
  using unsigned_less [where ?'a = nat and w = x] by simp

lemma of_nat_u64_eq_0: "n < 2 ^ 64 \<Longrightarrow> (of_nat n :: u64) = 0 \<longleftrightarrow> n = 0"
  using of_nat_u64_inject [of n 0] by simp

end
