(* ===== verification/Shared.thy ===== *)
theory Shared
  imports Prelude
begin

text \<open>
  The value types of package \<open>shared\<close> (shared/base.go): the view struct
  \<open>UnsafeEnvoyBuffer\<close> and its four readers. Envoy's memory is an explicit map from addresses to
  bytes, so that a view (a pointer and a length) and a copy can be told apart.
\<close>

section \<open>Envoy-owned memory and views into it\<close>

type_synonym mem = "ptr \<Rightarrow> byte"

definition read_mem :: "mem \<Rightarrow> ptr \<Rightarrow> nat \<Rightarrow> bytes" where
  "read_mem m p n = map (\<lambda>i. m (p + of_nat i)) [0..<n]"

lemma length_read_mem [simp]: "length (read_mem m p n) = n"
  by (simp add: read_mem_def)

lemma read_mem_0 [simp]: "read_mem m p 0 = []"
  by (simp add: read_mem_def)

record UnsafeEnvoyBuffer =
  Ptr :: ptr
  Len :: u64

definition empty_buffer :: UnsafeEnvoyBuffer where
  "empty_buffer = \<lparr>Ptr = 0, Len = 0\<rparr>"

definition ToUnsafeBytes :: "mem \<Rightarrow> UnsafeEnvoyBuffer \<Rightarrow> bytes option" where
  "ToUnsafeBytes m b =
     (if Ptr b = 0 \<or> Len b = 0 then None else Some (read_mem m (Ptr b) (unat (Len b))))"

definition ToBytes :: "mem \<Rightarrow> UnsafeEnvoyBuffer \<Rightarrow> bytes option" where
  "ToBytes m b =
     (if Ptr b = 0 \<or> Len b = 0 then None
      else (let owned = replicate (unat (Len b)) (CHR 0x00);
                src = read_mem m (Ptr b) (unat (Len b))
            in Some (fst (go_copy_at owned 0 src))))"

definition ToUnsafeString :: "mem \<Rightarrow> UnsafeEnvoyBuffer \<Rightarrow> gostring" where
  "ToUnsafeString m b =
     (if Ptr b = 0 \<or> Len b = 0 then [] else read_mem m (Ptr b) (unat (Len b)))"

definition ToString :: "mem \<Rightarrow> UnsafeEnvoyBuffer \<Rightarrow> gostring" where
  "ToString m b = (if Ptr b = 0 \<or> Len b = 0 then [] else ToUnsafeString m b)"

text \<open>A nil slice has length 0 and appends nothing.\<close>

definition slice_bytes :: "bytes option \<Rightarrow> bytes" where
  "slice_bytes s = (case s of None \<Rightarrow> [] | Some b \<Rightarrow> b)"

lemma slice_bytes_simps [simp]: "slice_bytes None = []" "slice_bytes (Some b) = b"
  by (simp_all add: slice_bytes_def)

lemma ToBytes_eq_ToUnsafeBytes: "ToBytes m b = ToUnsafeBytes m b"
  by (simp add: ToBytes_def ToUnsafeBytes_def go_copy_at_def Let_def)

lemma ToString_eq_ToUnsafeString: "ToString m b = ToUnsafeString m b"
  by (simp add: ToString_def ToUnsafeString_def)

lemma slice_ToUnsafeBytes: "slice_bytes (ToUnsafeBytes m b) = ToUnsafeString m b"
  by (simp add: ToUnsafeBytes_def ToUnsafeString_def)

lemma slice_ToBytes: "slice_bytes (ToBytes m b) = ToUnsafeString m b"
  by (simp add: ToBytes_eq_ToUnsafeBytes slice_ToUnsafeBytes)

lemma ToUnsafeString_empty [simp]: "ToUnsafeString m empty_buffer = []"
  by (simp add: ToUnsafeString_def empty_buffer_def)

end
