(* ===== verification/RingBuffer.thy ===== *)
theory RingBuffer
  imports Shared
begin

text \<open>
  Package \<open>buffer\<close> (buffer/buffer.go): the fixed-size \<open>Ring\<close> that keeps the last bytes of a
  stream, and \<open>HeadTail\<close>, which keeps the first and the last bytes. The write loop has no bound
  in the code; it is a \<open>partial_function\<close>, so that not returning is the value \<open>None\<close>.
\<close>

section \<open>Ring\<close>

record Ring =
  rb_data :: bytes
  rb_size :: nat
  rb_pos :: nat
  rb_full :: bool

text \<open>\<open>make([]byte, size)\<close> panics for a negative size.\<close>

definition NewRing :: "int \<Rightarrow> Ring go" where
  "NewRing n =
     (if n < 0 then Panic ''makeslice: len out of range''
      else Ret \<lparr>rb_data = replicate (nat n) (CHR 0x00), rb_size = nat n, rb_pos = 0,
               rb_full = False\<rparr>)"

partial_function (option) ring_write :: "Ring \<Rightarrow> bytes \<Rightarrow> Ring option" where
  "ring_write rb p =
     (if p = [] then Some rb
      else (let r = go_copy_at (rb_data rb) (rb_pos rb) p;
                n = snd r;
                rb1 = rb\<lparr>rb_data := fst r, rb_pos := rb_pos rb + n\<rparr>;
                p1 = drop n p
            in if rb_pos rb1 \<ge> rb_size rb1
               then ring_write (rb1\<lparr>rb_pos := 0, rb_full := True\<rparr>) p1
               else ring_write rb1 p1))"

definition ring_write_chunks :: "mem \<Rightarrow> Ring \<Rightarrow> UnsafeEnvoyBuffer list \<Rightarrow> Ring option" where
  "ring_write_chunks m rb chunks =
     fold_opt (\<lambda>rb c. ring_write rb (slice_bytes (ToUnsafeBytes m c))) rb chunks"

text \<open>\<open>slices.Reverse\<close> of a sub-slice reverses that part of the backing array.\<close>

definition reverse_range :: "nat \<Rightarrow> nat \<Rightarrow> 'a list \<Rightarrow> 'a list" where
  "reverse_range i j xs = take i xs @ rev (take (j - i) (drop i xs)) @ drop j xs"

definition ring_bytes :: "Ring \<Rightarrow> bytes \<times> Ring" where
  "ring_bytes rb =
     (if \<not> rb_full rb then (take (rb_pos rb) (rb_data rb), rb)
      else (let d1 = reverse_range 0 (rb_pos rb) (rb_data rb);
                d2 = reverse_range (rb_pos rb) (rb_size rb) d1;
                d3 = reverse_range 0 (rb_size rb) d2
            in (take (rb_size rb) d3,
                rb\<lparr>rb_data := d3, rb_pos := 0, rb_full := False\<rparr>)))"

definition ring_reset :: "Ring \<Rightarrow> Ring" where
  "ring_reset rb = rb\<lparr>rb_pos := 0, rb_full := False\<rparr>"

definition ring_len :: "Ring \<Rightarrow> nat" where
  "ring_len rb = (if rb_full rb then rb_size rb else rb_pos rb)"

section \<open>HeadTail\<close>

record HeadTail =
  ht_head :: bytes
  ht_headN :: nat
  ht_headSize :: nat
  ht_tail :: Ring

definition NewHeadTail :: "int \<Rightarrow> int \<Rightarrow> HeadTail go" where
  "NewHeadTail headSize tailSize =
     (if headSize < 0 then Panic ''makeslice: len out of range''
      else go_bind (NewRing tailSize) (\<lambda>t.
        Ret \<lparr>ht_head = replicate (nat headSize) (CHR 0x00), ht_headN = 0,
             ht_headSize = nat headSize, ht_tail = t\<rparr>))"

definition ht_write :: "HeadTail \<Rightarrow> bytes \<Rightarrow> HeadTail option" where
  "ht_write ht p =
     (let ht1 = (if ht_headN ht < ht_headSize ht
                 then (let r = go_copy_at (ht_head ht) (ht_headN ht) p
                       in ht\<lparr>ht_head := fst r, ht_headN := ht_headN ht + snd r\<rparr>)
                 else ht)
      in Option.bind (ring_write (ht_tail ht1) p) (\<lambda>t. Some (ht1\<lparr>ht_tail := t\<rparr>)))"

definition ht_write_chunks ::
    "mem \<Rightarrow> HeadTail \<Rightarrow> UnsafeEnvoyBuffer list \<Rightarrow> HeadTail option" where
  "ht_write_chunks m ht chunks =
     fold_opt (\<lambda>ht c. ht_write ht (slice_bytes (ToUnsafeBytes m c))) ht chunks"

definition ht_Head :: "HeadTail \<Rightarrow> bytes" where
  "ht_Head ht = take (ht_headN ht) (ht_head ht)"

definition ht_Tail :: "HeadTail \<Rightarrow> bytes \<times> HeadTail" where
  "ht_Tail ht = (let r = ring_bytes (ht_tail ht) in (fst r, ht\<lparr>ht_tail := snd r\<rparr>))"

definition ht_reset :: "HeadTail \<Rightarrow> HeadTail" where
  "ht_reset ht = ht\<lparr>ht_headN := 0, ht_tail := ring_reset (ht_tail ht)\<rparr>"

section \<open>The ring keeps the last bytes of the stream\<close>

definition ring_inv :: "Ring \<Rightarrow> bool" where
  "ring_inv rb \<longleftrightarrow> length (rb_data rb) = rb_size rb \<and> rb_pos rb < rb_size rb"

text \<open>What the ring holds, oldest byte first, without touching it.\<close>

definition ring_contents :: "Ring \<Rightarrow> bytes" where
  "ring_contents rb =
     (if rb_full rb then drop (rb_pos rb) (rb_data rb) @ take (rb_pos rb) (rb_data rb)
      else take (rb_pos rb) (rb_data rb))"

lemma length_ring_contents: "ring_inv rb \<Longrightarrow> length (ring_contents rb) = ring_len rb"
  by (auto simp: ring_inv_def ring_contents_def ring_len_def)

lemma ring_contents_bound: "ring_inv rb \<Longrightarrow> length (ring_contents rb) \<le> rb_size rb"
  by (auto simp: ring_inv_def ring_contents_def)

lemma NewRing_inv:
  "0 < n \<Longrightarrow> \<exists>rb. NewRing n = Ret rb \<and> ring_inv rb \<and> rb_size rb = nat n \<and> ring_contents rb = []"
  by (auto simp: NewRing_def ring_inv_def ring_contents_def)

text \<open>One iteration of the write loop: how far it copies and the ring it continues with.\<close>

definition ring_room :: "Ring \<Rightarrow> bytes \<Rightarrow> nat" where
  "ring_room rb p = min (length (rb_data rb) - rb_pos rb) (length p)"

definition ring_iter :: "Ring \<Rightarrow> bytes \<Rightarrow> Ring" where
  "ring_iter rb p =
     (let rb1 = rb\<lparr>rb_data := fst (go_copy_at (rb_data rb) (rb_pos rb) p),
                  rb_pos := rb_pos rb + ring_room rb p\<rparr>
      in if rb_pos rb1 \<ge> rb_size rb1 then rb1\<lparr>rb_pos := 0, rb_full := True\<rparr> else rb1)"

lemma ring_write_Nil [simp]: "ring_write rb [] = Some rb"
  by (simp add: ring_write.simps)

lemma ring_write_unfold:
  "p \<noteq> [] \<Longrightarrow> ring_write rb p = ring_write (ring_iter rb p) (drop (ring_room rb p) p)"
  by (subst ring_write.simps) (simp add: ring_iter_def ring_room_def Let_def)

lemma ring_iter_inv: "ring_inv rb \<Longrightarrow> ring_inv (ring_iter rb p)"
  by (auto simp: ring_inv_def ring_iter_def Let_def)

lemma ring_iter_size [simp]: "rb_size (ring_iter rb p) = rb_size rb"
  by (simp add: ring_iter_def Let_def)

lemma ring_iter_contents_wrap:
  assumes inv: "ring_inv rb" and wrap: "rb_size rb - rb_pos rb \<le> length p"
  shows "ring_contents (ring_iter rb p) =
    lastn (rb_size rb) (ring_contents rb @ take (ring_room rb p) p)"
proof -
  have room: "ring_room rb p = rb_size rb - rb_pos rb"
    using inv wrap by (simp add: ring_room_def ring_inv_def)
  have iter: "ring_contents (ring_iter rb p) =
      take (rb_pos rb) (rb_data rb) @ take (rb_size rb - rb_pos rb) p"
    using inv wrap by (simp add: ring_iter_def ring_contents_def ring_inv_def go_copy_at_def
        Let_def ring_room_def min_def)
  show ?thesis
    unfolding iter room using inv wrap by (auto simp: lastn_def ring_contents_def ring_inv_def)
qed

lemma ring_iter_contents_fit:
  assumes inv: "ring_inv rb" and fit: "length p < rb_size rb - rb_pos rb"
  shows "ring_contents (ring_iter rb p) =
    lastn (rb_size rb) (ring_contents rb @ take (ring_room rb p) p)"
proof -
  have room: "ring_room rb p = length p"
    using inv fit by (simp add: ring_room_def ring_inv_def)
  have iter: "ring_iter rb p = rb\<lparr>rb_data := take (rb_pos rb) (rb_data rb) @ p @
        drop (rb_pos rb + length p) (rb_data rb), rb_pos := rb_pos rb + length p\<rparr>"
    using inv fit by (simp add: ring_iter_def ring_inv_def go_copy_at_def Let_def room min_def)
  show ?thesis
    using inv fit
    by (auto simp: iter room lastn_def ring_contents_def ring_inv_def add.commute)
qed

lemma ring_iter_contents:
  "ring_inv rb \<Longrightarrow> ring_contents (ring_iter rb p) =
     lastn (rb_size rb) (ring_contents rb @ take (ring_room rb p) p)"
  using ring_iter_contents_wrap ring_iter_contents_fit by (meson not_le)

lemma ring_room_pos: "ring_inv rb \<Longrightarrow> p \<noteq> [] \<Longrightarrow> 0 < ring_room rb p"
  by (auto simp: ring_inv_def ring_room_def)

lemma ring_write_contents:
  "ring_inv rb \<Longrightarrow>
   \<exists>rb'. ring_write rb p = Some rb' \<and> ring_inv rb' \<and> rb_size rb' = rb_size rb \<and>
     ring_contents rb' = lastn (rb_size rb) (ring_contents rb @ p)"
proof (induction "length p" arbitrary: rb p rule: less_induct)
  case less
  show ?case
  proof (cases "p = []")
    case True
    then show ?thesis
      using less.prems ring_contents_bound by (auto simp: lastn_all)
  next
    case False
    let ?n = "ring_room rb p"
    have "length (drop ?n p) < length p"
      using False less.prems ring_room_pos by simp
    from less.hyps [OF this ring_iter_inv [OF less.prems]]
    obtain rb' where "ring_write (ring_iter rb p) (drop ?n p) = Some rb'" "ring_inv rb'"
      "rb_size rb' = rb_size rb"
      "ring_contents rb' = lastn (rb_size rb) (ring_contents (ring_iter rb p) @ drop ?n p)"
      by auto
    then show ?thesis
      using False less.prems
      by (simp add: ring_write_unfold ring_iter_contents lastn_lastn_append)
  qed
qed

text \<open>A ring of capacity 0 never makes progress: the loop of \<open>Write\<close> does not end.\<close>

lemma ring_iter_zero: "ring_iter \<lparr>rb_data = [], rb_size = 0, rb_pos = 0, rb_full = f\<rparr> p =
    \<lparr>rb_data = [], rb_size = 0, rb_pos = 0, rb_full = True\<rparr>"
  by (simp add: ring_iter_def ring_room_def go_copy_at_def Let_def)

lemma ring_write_zero_empty:
  assumes "ring_write rb p = Some r"
  shows "rb_data rb = [] \<and> rb_size rb = 0 \<and> rb_pos rb = 0 \<longrightarrow> p = []"
proof (rule ring_write.raw_induct [where P = "\<lambda>rb p r. rb_data rb = [] \<and> rb_size rb = 0 \<and>
    rb_pos rb = 0 \<longrightarrow> p = []", OF _ assms])
  fix f rb p r
  assume IH: "\<And>rb p r. f rb p = Some r \<Longrightarrow>
      rb_data rb = [] \<and> rb_size rb = 0 \<and> rb_pos rb = 0 \<longrightarrow> p = []"
    and eq: "(if p = [] then Some rb
      else let r = go_copy_at (rb_data rb) (rb_pos rb) p; n = snd r;
             rb1 = rb\<lparr>rb_data := fst r, rb_pos := rb_pos rb + n\<rparr>; p1 = drop n p
           in if rb_pos rb1 \<ge> rb_size rb1 then f (rb1\<lparr>rb_pos := 0, rb_full := True\<rparr>) p1
              else f rb1 p1) = Some r"
  show "rb_data rb = [] \<and> rb_size rb = 0 \<and> rb_pos rb = 0 \<longrightarrow> p = []"
  proof (intro impI, rule ccontr)
    assume zero: "rb_data rb = [] \<and> rb_size rb = 0 \<and> rb_pos rb = 0" and "p \<noteq> []"
    with eq have "f (rb\<lparr>rb_data := [], rb_pos := 0, rb_full := True\<rparr>) p = Some r"
      by (simp add: go_copy_at_def Let_def)
    from IH [OF this] zero \<open>p \<noteq> []\<close> show False by simp
  qed
qed

section \<open>Reading\<close>

lemma reverse_range_thrice:
  assumes "i \<le> length xs"
  shows "reverse_range 0 (length xs) (reverse_range i (length xs) (reverse_range 0 i xs)) =
    drop i xs @ take i xs"
  using assms by (simp add: reverse_range_def)

lemma ring_bytes_contents: "ring_inv rb \<Longrightarrow> fst (ring_bytes rb) = ring_contents rb"
  using reverse_range_thrice [of "rb_pos rb" "rb_data rb"]
  by (auto simp: ring_bytes_def ring_contents_def ring_inv_def Let_def)

lemma ring_bytes_inv: "ring_inv rb \<Longrightarrow> ring_inv (snd (ring_bytes rb))"
  by (auto simp: ring_bytes_def ring_inv_def reverse_range_def Let_def)

lemma ring_bytes_after:
  "snd (ring_bytes rb) = rb \<or> ring_contents (snd (ring_bytes rb)) = []"
  by (simp add: ring_bytes_def ring_contents_def Let_def)

section \<open>A sink that is fed a stream in chunks\<close>

text \<open>
  \<open>Ring\<close> and \<open>HeadTail\<close> share one contract with the response observers that feed them: every
  chunk is accepted, and what the sink represents is the stream so far followed by the chunk.
  The client facts (any list of chunks, and the chunk views of a body buffer) follow once.
\<close>

locale chunk_sink =
  fixes feed :: "'s \<Rightarrow> bytes \<Rightarrow> 's option"
    and rep :: "'s \<Rightarrow> bytes \<Rightarrow> bool"
  assumes write_rep: "rep s xs \<Longrightarrow> \<exists>s'. feed s p = Some s' \<and> rep s' (xs @ p)"
begin

lemma write_all_rep:
  "rep s xs \<Longrightarrow> \<exists>s'. fold_opt feed s ps = Some s' \<and> rep s' (xs @ concat ps)"
proof (induction ps arbitrary: s xs)
  case Nil
  then show ?case by simp
next
  case (Cons p ps)
  from write_rep [OF Cons.prems, of p] obtain s1 where
    s1: "feed s p = Some s1" "rep s1 (xs @ p)" by blast
  from Cons.IH [OF s1(2)] show ?case by (simp add: s1(1))
qed

lemma fold_opt_views:
  "fold_opt (\<lambda>s c. feed s (slice_bytes (ToUnsafeBytes m c))) s cs =
   fold_opt feed s (map (ToUnsafeString m) cs)"
  by (induction cs arbitrary: s) (auto simp: slice_ToUnsafeBytes)

lemma write_views_rep:
  "rep s xs \<Longrightarrow>
   \<exists>s'. fold_opt (\<lambda>s c. feed s (slice_bytes (ToUnsafeBytes m c))) s cs = Some s' \<and>
     rep s' (xs @ concat (map (ToUnsafeString m) cs))"
  using write_all_rep [of s xs "map (ToUnsafeString m) cs"] by (simp only: fold_opt_views)

end

definition ring_rep :: "nat \<Rightarrow> Ring \<Rightarrow> bytes \<Rightarrow> bool" where
  "ring_rep n rb xs \<longleftrightarrow> ring_inv rb \<and> rb_size rb = n \<and> ring_contents rb = lastn n xs"

lemma ring_write_rep: "ring_rep n rb xs \<Longrightarrow> \<exists>rb'. ring_write rb p = Some rb' \<and> ring_rep n rb' (xs @ p)"
  using ring_write_contents [of rb p] by (auto simp: ring_rep_def lastn_lastn_append)

interpretation ring_sink: chunk_sink ring_write "ring_rep n" for n
  by unfold_locales (rule ring_write_rep)

lemma ring_rep_new: "0 < n \<Longrightarrow> \<exists>rb. NewRing n = Ret rb \<and> ring_rep (nat n) rb []"
  using NewRing_inv [of n] by (auto simp: ring_rep_def)

lemma ring_rep_bytes: "ring_rep n rb xs \<Longrightarrow> fst (ring_bytes rb) = lastn n xs"
  by (simp add: ring_rep_def ring_bytes_contents)

lemma ring_rep_len: "ring_rep n rb xs \<Longrightarrow> ring_len rb = min n (length xs)"
  using length_ring_contents [of rb] by (simp add: ring_rep_def)

lemma ring_rep_reset: "ring_rep n rb xs \<Longrightarrow> ring_rep n (ring_reset rb) []"
  by (auto simp: ring_rep_def ring_reset_def ring_inv_def ring_contents_def)

definition ht_rep :: "nat \<Rightarrow> nat \<Rightarrow> HeadTail \<Rightarrow> bytes \<Rightarrow> bool" where
  "ht_rep h t ht xs \<longleftrightarrow>
     length (ht_head ht) = h \<and> ht_headSize ht = h \<and> ht_headN ht = min h (length xs) \<and>
     ht_Head ht = take h xs \<and> ring_rep t (ht_tail ht) xs"

lemma ht_write_rep:
  assumes rep: "ht_rep h t ht xs"
  shows "\<exists>ht'. ht_write ht p = Some ht' \<and> ht_rep h t ht' (xs @ p)"
proof -
  from rep have "ring_rep t (ht_tail ht) xs" by (simp add: ht_rep_def)
  from ring_write_rep [OF this, of p] obtain tl' where
    tl': "ring_write (ht_tail ht) p = Some tl'" "ring_rep t tl' (xs @ p)" by blast
  show ?thesis
  proof (cases "ht_headN ht < ht_headSize ht")
    case True
    with rep have "length xs < h" by (simp add: ht_rep_def)
    with rep True tl' show ?thesis
      using take_go_copy_at [of "ht_headN ht" "ht_head ht" p]
      by (auto simp: ht_write_def ht_rep_def ht_Head_def Let_def min_def split: if_splits)
  next
    case False
    with rep have "h \<le> length xs" by (simp add: ht_rep_def)
    with rep False tl' show ?thesis
      by (auto simp: ht_write_def ht_rep_def ht_Head_def)
  qed
qed

interpretation ht_sink: chunk_sink ht_write "ht_rep h t" for h t
  by unfold_locales (rule ht_write_rep)

lemma ht_rep_new:
  "0 \<le> h \<Longrightarrow> 0 < t \<Longrightarrow> \<exists>ht. NewHeadTail h t = Ret ht \<and> ht_rep (nat h) (nat t) ht []"
  using ring_rep_new [of t] by (auto simp: NewHeadTail_def ht_rep_def ht_Head_def)

lemma ht_rep_reads:
  "ht_rep h t ht xs \<Longrightarrow> ht_Head ht = take h xs \<and> fst (ht_Tail ht) = lastn t xs"
  by (simp add: ht_rep_def ht_Tail_def Let_def ring_rep_bytes)

lemma ht_rep_reset: "ht_rep h t ht xs \<Longrightarrow> ht_rep h t (ht_reset ht) []"
  using ring_rep_reset by (auto simp: ht_rep_def ht_reset_def ht_Head_def)

lemma ring_rep_new_Suc: "\<exists>rb. NewRing (int (Suc k)) = Ret rb \<and> ring_rep (Suc k) rb []"
  using ring_rep_new [of "int (Suc k)"] by (simp only: nat_int)

lemma ht_rep_new_Suc:
  "\<exists>ht. NewHeadTail (int h) (int (Suc t)) = Ret ht \<and> ht_rep h (Suc t) ht []"
  using ht_rep_new [of "int h" "int (Suc t)"] by (simp only: nat_int)

section \<open>Properties of the buffers\<close>

text \<open>C26: a ring of any positive capacity accepts every sequence of body chunks (the write loop
  ends), and what \<open>Bytes\<close> then returns is exactly the last \<open>size\<close> bytes of the stream, in order,
  however the stream was cut into chunks; \<open>Len\<close> is the number of bytes kept.\<close>

theorem ring_keeps_last_bytes:
  "\<exists>rb0 rb. NewRing (int (Suc k)) = Ret rb0 \<and> ring_write_chunks m rb0 cs = Some rb \<and>
     fst (ring_bytes rb) = lastn (Suc k) (concat (map (ToUnsafeString m) cs)) \<and>
     ring_len rb = min (Suc k) (length (concat (map (ToUnsafeString m) cs)))"
proof -
  obtain rb0 where new: "NewRing (int (Suc k)) = Ret rb0" "ring_rep (Suc k) rb0 []"
    using ring_rep_new_Suc by blast
  obtain rb where "ring_write_chunks m rb0 cs = Some rb"
      "ring_rep (Suc k) rb (concat (map (ToUnsafeString m) cs))"
    using ring_sink.write_views_rep [OF new(2), of m cs] by (auto simp: ring_write_chunks_def)
  with new(1) show ?thesis by (blast intro: ring_rep_bytes ring_rep_len)
qed

text \<open>C27: \<open>HeadTail\<close> keeps the first \<open>headSize\<close> and the last \<open>tailSize\<close> bytes of the stream, for
  every sequence of body chunks, and writing to it always returns.\<close>

theorem head_tail_keeps_both_ends:
  "\<exists>ht0 ht. NewHeadTail (int h) (int (Suc t)) = Ret ht0 \<and> ht_write_chunks m ht0 cs = Some ht \<and>
     ht_Head ht = take h (concat (map (ToUnsafeString m) cs)) \<and>
     fst (ht_Tail ht) = lastn (Suc t) (concat (map (ToUnsafeString m) cs))"
proof -
  obtain ht0 where new: "NewHeadTail (int h) (int (Suc t)) = Ret ht0" "ht_rep h (Suc t) ht0 []"
    using ht_rep_new_Suc by blast
  obtain ht where "ht_write_chunks m ht0 cs = Some ht"
      "ht_rep h (Suc t) ht (concat (map (ToUnsafeString m) cs))"
    using ht_sink.write_views_rep [OF new(2), of m cs] by (auto simp: ht_write_chunks_def)
  with new(1) show ?thesis by (blast dest: ht_rep_reads)
qed

text \<open>C28: a ring created with capacity 0 accepts the empty chunk only: \<open>Write\<close> of any non-empty
  chunk never returns.\<close>

theorem ring_zero_write_diverges:
  "\<exists>rb0. NewRing 0 = Ret rb0 \<and> (ring_write rb0 p = None \<longleftrightarrow> p \<noteq> [])"
  using ring_write_zero_empty [of "\<lparr>rb_data = [], rb_size = 0, rb_pos = 0, rb_full = False\<rparr>" p]
  by (cases "ring_write \<lparr>rb_data = [], rb_size = 0, rb_pos = 0, rb_full = False\<rparr> p")
    (auto simp: NewRing_def)

text \<open>Reading a full ring linearises it and marks it empty: after \<open>Bytes\<close> has returned the
  whole capacity, \<open>Len\<close> is 0 and a second \<open>Bytes\<close> returns nothing, although nothing was written
  or reset in between.\<close>

theorem ring_second_read_empty:
  assumes "ring_inv rb" "rb_full rb"
  shows "length (fst (ring_bytes rb)) = rb_size rb \<and> ring_len (snd (ring_bytes rb)) = 0 \<and>
    fst (ring_bytes (snd (ring_bytes rb))) = []"
proof (intro conjI)
  show "length (fst (ring_bytes rb)) = rb_size rb"
    using assms by (simp add: ring_bytes_contents length_ring_contents ring_len_def)
  show "ring_len (snd (ring_bytes rb)) = 0"
    using assms by (simp add: ring_len_def ring_bytes_def Let_def)
  show "fst (ring_bytes (snd (ring_bytes rb))) = []"
    using assms by (simp add: ring_bytes_contents ring_bytes_inv)
      (simp add: ring_contents_def ring_bytes_def Let_def)
qed

theorem ring_second_read_empty_witness:
  "fst (ring_bytes \<lparr>rb_data = ''cdab'', rb_size = 4, rb_pos = 2, rb_full = True\<rparr>) = ''abcd'' \<and>
   fst (ring_bytes (snd (ring_bytes
     \<lparr>rb_data = ''cdab'', rb_size = 4, rb_pos = 2, rb_full = True\<rparr>))) = []"
  using ring_second_read_empty [of "\<lparr>rb_data = ''cdab'', rb_size = 4, rb_pos = 2, rb_full = True\<rparr>"]
  by (simp add: ring_inv_def) (simp add: ring_bytes_def reverse_range_def Let_def)

text \<open>\<open>Reset\<close> makes a used \<open>HeadTail\<close> indistinguishable from a fresh one for its readers:
  after any earlier stream, a reset and a second stream, \<open>Head\<close> and \<open>Tail\<close> depend on the second
  stream alone.\<close>

theorem head_tail_reset_forgets:
  "\<exists>ht0 ht1 ht2. NewHeadTail (int h) (int (Suc t)) = Ret ht0 \<and>
     ht_write_chunks m ht0 cs = Some ht1 \<and> ht_write_chunks m' (ht_reset ht1) ds = Some ht2 \<and>
     ht_Head ht2 = take h (concat (map (ToUnsafeString m') ds)) \<and>
     fst (ht_Tail ht2) = lastn (Suc t) (concat (map (ToUnsafeString m') ds))"
proof -
  obtain ht0 where new: "NewHeadTail (int h) (int (Suc t)) = Ret ht0" "ht_rep h (Suc t) ht0 []"
    using ht_rep_new_Suc by blast
  obtain ht1 where one: "ht_write_chunks m ht0 cs = Some ht1"
      "ht_rep h (Suc t) ht1 (concat (map (ToUnsafeString m) cs))"
    using ht_sink.write_views_rep [OF new(2), of m cs] by (auto simp: ht_write_chunks_def)
  obtain ht2 where "ht_write_chunks m' (ht_reset ht1) ds = Some ht2"
      "ht_rep h (Suc t) ht2 (concat (map (ToUnsafeString m') ds))"
    using ht_sink.write_views_rep [OF ht_rep_reset [OF one(2)], of m' ds]
    by (auto simp: ht_write_chunks_def)
  with new(1) one(1) show ?thesis by (blast dest: ht_rep_reads)
qed

end
