(* ===== verification/AbiEnums.thy ===== *)
theory AbiEnums
  imports Prelude
begin

text \<open>
  Every enumeration of the ABI header abi/abi.h, as a datatype with the header's enumerators (the
  common prefix \<open>envoy_dynamic_module_type_\<close> dropped) and the list of its enumerators in
  declaration order. An enumerator's C value is its position in that list; where the header writes
  the values out they are the positions, except for \<open>file_watcher_event\<close>, whose values are
  bit flags. \<open>c_encode\<close> and \<open>c_decode\<close> are the conversions between an enumerator and the integer
  that crosses the ABI.
\<close>

section \<open>Integers that cross the ABI\<close>

definition c_encode :: "'a list \<Rightarrow> 'a \<Rightarrow> nat" where
  "c_encode order x = position x order"

definition c_decode :: "'a list \<Rightarrow> nat \<Rightarrow> 'a option" where
  "c_decode order n = (if n < length order then Some (order ! n) else None)"

text \<open>What every enumeration guarantees to the code that converts its values.\<close>

locale c_enum =
  fixes order :: "'a list"
  assumes distinct_order: "distinct order"
    and all_listed: "x \<in> set order"
begin

lemma encode_bound: "c_encode order x < length order"
  using all_listed by (simp add: c_encode_def position_less)

lemma decode_encode: "c_decode order (c_encode order x) = Some x"
  using encode_bound [of x] all_listed [of x]
  by (simp add: c_decode_def c_encode_def nth_position)

lemma encode_decode: "c_decode order n = Some x \<Longrightarrow> c_encode order x = n"
  using distinct_order by (auto simp: c_decode_def c_encode_def position_nth split: if_splits)

lemma encode_inject: "c_encode order x = c_encode order y \<longleftrightarrow> x = y"
  using decode_encode by (metis option.inject)

lemma decode_defined: "(\<exists>x. c_decode order n = Some x) \<longleftrightarrow> n < length order"
  by (simp add: c_decode_def)

end

section \<open>The enumerations\<close>

datatype http_header_type =
    http_header_type_RequestHeader | http_header_type_RequestTrailer
    | http_header_type_ResponseHeader | http_header_type_ResponseTrailer

definition http_header_type_order :: "http_header_type list" where
  "http_header_type_order =
   [http_header_type_RequestHeader, http_header_type_RequestTrailer,
    http_header_type_ResponseHeader, http_header_type_ResponseTrailer]"

interpretation http_header_type: c_enum http_header_type_order
proof
  show "distinct http_header_type_order" by (simp add: http_header_type_order_def)
  show "x \<in> set http_header_type_order" for x 
    unfolding http_header_type_order_def by (cases x; hypsubst; (rule list.set_intros)+)
qed

datatype log_level =
    log_level_Trace | log_level_Debug | log_level_Info | log_level_Warn | log_level_Error
    | log_level_Critical | log_level_Off

definition log_level_order :: "log_level list" where
  "log_level_order =
   [log_level_Trace, log_level_Debug, log_level_Info, log_level_Warn, log_level_Error,
    log_level_Critical, log_level_Off]"

interpretation log_level: c_enum log_level_order
proof
  show "distinct log_level_order" by (simp add: log_level_order_def)
  show "x \<in> set log_level_order" for x 
    unfolding log_level_order_def by (cases x; hypsubst; (rule list.set_intros)+)
qed

datatype http_callout_init_result =
    http_callout_init_result_Success | http_callout_init_result_MissingRequiredHeaders
    | http_callout_init_result_ClusterNotFound | http_callout_init_result_DuplicateCalloutId
    | http_callout_init_result_CannotCreateRequest

definition http_callout_init_result_order :: "http_callout_init_result list" where
  "http_callout_init_result_order =
   [http_callout_init_result_Success, http_callout_init_result_MissingRequiredHeaders,
    http_callout_init_result_ClusterNotFound, http_callout_init_result_DuplicateCalloutId,
    http_callout_init_result_CannotCreateRequest]"

interpretation http_callout_init_result: c_enum http_callout_init_result_order
proof
  show "distinct http_callout_init_result_order" by (simp add: http_callout_init_result_order_def)
  show "x \<in> set http_callout_init_result_order" for x 
    unfolding http_callout_init_result_order_def by (cases x; hypsubst; (rule list.set_intros)+)
qed

datatype http_callout_result =
    http_callout_result_Success | http_callout_result_Reset
    | http_callout_result_ExceedResponseBufferLimit

definition http_callout_result_order :: "http_callout_result list" where
  "http_callout_result_order =
   [http_callout_result_Success, http_callout_result_Reset,
    http_callout_result_ExceedResponseBufferLimit]"

interpretation http_callout_result: c_enum http_callout_result_order
proof
  show "distinct http_callout_result_order" by (simp add: http_callout_result_order_def)
  show "x \<in> set http_callout_result_order" for x 
    unfolding http_callout_result_order_def by (cases x; hypsubst; (rule list.set_intros)+)
qed

datatype http_stream_reset_reason =
    http_stream_reset_reason_ConnectionFailure | http_stream_reset_reason_ConnectionTermination
    | http_stream_reset_reason_LocalReset | http_stream_reset_reason_LocalRefusedStreamReset
    | http_stream_reset_reason_Overflow | http_stream_reset_reason_RemoteReset
    | http_stream_reset_reason_RemoteRefusedStreamReset
    | http_stream_reset_reason_ProtocolError

definition http_stream_reset_reason_order :: "http_stream_reset_reason list" where
  "http_stream_reset_reason_order =
   [http_stream_reset_reason_ConnectionFailure, http_stream_reset_reason_ConnectionTermination,
    http_stream_reset_reason_LocalReset, http_stream_reset_reason_LocalRefusedStreamReset,
    http_stream_reset_reason_Overflow, http_stream_reset_reason_RemoteReset,
    http_stream_reset_reason_RemoteRefusedStreamReset, http_stream_reset_reason_ProtocolError]"

interpretation http_stream_reset_reason: c_enum http_stream_reset_reason_order
proof
  show "distinct http_stream_reset_reason_order" by (simp add: http_stream_reset_reason_order_def)
  show "x \<in> set http_stream_reset_reason_order" for x 
    unfolding http_stream_reset_reason_order_def by (cases x; hypsubst; (rule list.set_intros)+)
qed

datatype metrics_result =
    metrics_result_Success | metrics_result_MetricNotFound | metrics_result_InvalidLabels
    | metrics_result_Frozen

definition metrics_result_order :: "metrics_result list" where
  "metrics_result_order =
   [metrics_result_Success, metrics_result_MetricNotFound, metrics_result_InvalidLabels,
    metrics_result_Frozen]"

interpretation metrics_result: c_enum metrics_result_order
proof
  show "distinct metrics_result_order" by (simp add: metrics_result_order_def)
  show "x \<in> set metrics_result_order" for x 
    unfolding metrics_result_order_def by (cases x; hypsubst; (rule list.set_intros)+)
qed

datatype metadata_source =
    metadata_source_Dynamic | metadata_source_Route | metadata_source_Cluster
    | metadata_source_Host | metadata_source_HostLocality

definition metadata_source_order :: "metadata_source list" where
  "metadata_source_order =
   [metadata_source_Dynamic, metadata_source_Route, metadata_source_Cluster,
    metadata_source_Host, metadata_source_HostLocality]"

interpretation metadata_source: c_enum metadata_source_order
proof
  show "distinct metadata_source_order" by (simp add: metadata_source_order_def)
  show "x \<in> set metadata_source_order" for x 
    unfolding metadata_source_order_def by (cases x; hypsubst; (rule list.set_intros)+)
qed

datatype (plugins only:) attribute_id =
    attribute_id_RequestPath | attribute_id_RequestUrlPath | attribute_id_RequestHost
    | attribute_id_RequestScheme | attribute_id_RequestMethod | attribute_id_RequestHeaders
    | attribute_id_RequestReferer | attribute_id_RequestUserAgent | attribute_id_RequestTime
    | attribute_id_RequestId | attribute_id_RequestProtocol | attribute_id_RequestQuery
    | attribute_id_RequestDuration | attribute_id_RequestSize | attribute_id_RequestTotalSize
    | attribute_id_ResponseCode | attribute_id_ResponseCodeDetails | attribute_id_ResponseFlags
    | attribute_id_ResponseGrpcStatus | attribute_id_ResponseHeaders
    | attribute_id_ResponseTrailers | attribute_id_ResponseSize
    | attribute_id_ResponseTotalSize | attribute_id_ResponseBackendLatency
    | attribute_id_SourceAddress | attribute_id_SourcePort | attribute_id_DestinationAddress
    | attribute_id_DestinationPort | attribute_id_ConnectionId | attribute_id_ConnectionMtls
    | attribute_id_ConnectionRequestedServerName | attribute_id_ConnectionTlsVersion
    | attribute_id_ConnectionSubjectLocalCertificate
    | attribute_id_ConnectionSubjectPeerCertificate
    | attribute_id_ConnectionDnsSanLocalCertificate
    | attribute_id_ConnectionDnsSanPeerCertificate
    | attribute_id_ConnectionUriSanLocalCertificate
    | attribute_id_ConnectionUriSanPeerCertificate
    | attribute_id_ConnectionSha256PeerCertificateDigest
    | attribute_id_ConnectionTransportFailureReason | attribute_id_ConnectionTerminationDetails
    | attribute_id_UpstreamAddress | attribute_id_UpstreamPort
    | attribute_id_UpstreamTlsVersion | attribute_id_UpstreamSubjectLocalCertificate
    | attribute_id_UpstreamSubjectPeerCertificate | attribute_id_UpstreamDnsSanLocalCertificate
    | attribute_id_UpstreamDnsSanPeerCertificate | attribute_id_UpstreamUriSanLocalCertificate
    | attribute_id_UpstreamUriSanPeerCertificate
    | attribute_id_UpstreamSha256PeerCertificateDigest | attribute_id_UpstreamLocalAddress
    | attribute_id_UpstreamTransportFailureReason | attribute_id_UpstreamRequestAttemptCount
    | attribute_id_UpstreamCxPoolReadyDuration | attribute_id_UpstreamLocality
    | attribute_id_XdsNode | attribute_id_XdsClusterName | attribute_id_XdsClusterMetadata
    | attribute_id_XdsListenerDirection | attribute_id_XdsListenerMetadata
    | attribute_id_XdsRouteName | attribute_id_XdsRouteMetadata
    | attribute_id_XdsVirtualHostName | attribute_id_XdsVirtualHostMetadata
    | attribute_id_XdsUpstreamHostMetadata | attribute_id_XdsFilterChainName
    | attribute_id_HealthCheck

definition attribute_id_order :: "attribute_id list" where
  "attribute_id_order =
   [attribute_id_RequestPath, attribute_id_RequestUrlPath, attribute_id_RequestHost,
    attribute_id_RequestScheme, attribute_id_RequestMethod, attribute_id_RequestHeaders,
    attribute_id_RequestReferer, attribute_id_RequestUserAgent, attribute_id_RequestTime,
    attribute_id_RequestId, attribute_id_RequestProtocol, attribute_id_RequestQuery,
    attribute_id_RequestDuration, attribute_id_RequestSize, attribute_id_RequestTotalSize,
    attribute_id_ResponseCode, attribute_id_ResponseCodeDetails, attribute_id_ResponseFlags,
    attribute_id_ResponseGrpcStatus, attribute_id_ResponseHeaders,
    attribute_id_ResponseTrailers, attribute_id_ResponseSize, attribute_id_ResponseTotalSize,
    attribute_id_ResponseBackendLatency, attribute_id_SourceAddress, attribute_id_SourcePort,
    attribute_id_DestinationAddress, attribute_id_DestinationPort, attribute_id_ConnectionId,
    attribute_id_ConnectionMtls, attribute_id_ConnectionRequestedServerName,
    attribute_id_ConnectionTlsVersion, attribute_id_ConnectionSubjectLocalCertificate,
    attribute_id_ConnectionSubjectPeerCertificate,
    attribute_id_ConnectionDnsSanLocalCertificate,
    attribute_id_ConnectionDnsSanPeerCertificate,
    attribute_id_ConnectionUriSanLocalCertificate,
    attribute_id_ConnectionUriSanPeerCertificate,
    attribute_id_ConnectionSha256PeerCertificateDigest,
    attribute_id_ConnectionTransportFailureReason, attribute_id_ConnectionTerminationDetails,
    attribute_id_UpstreamAddress, attribute_id_UpstreamPort, attribute_id_UpstreamTlsVersion,
    attribute_id_UpstreamSubjectLocalCertificate, attribute_id_UpstreamSubjectPeerCertificate,
    attribute_id_UpstreamDnsSanLocalCertificate, attribute_id_UpstreamDnsSanPeerCertificate,
    attribute_id_UpstreamUriSanLocalCertificate, attribute_id_UpstreamUriSanPeerCertificate,
    attribute_id_UpstreamSha256PeerCertificateDigest, attribute_id_UpstreamLocalAddress,
    attribute_id_UpstreamTransportFailureReason, attribute_id_UpstreamRequestAttemptCount,
    attribute_id_UpstreamCxPoolReadyDuration, attribute_id_UpstreamLocality,
    attribute_id_XdsNode, attribute_id_XdsClusterName, attribute_id_XdsClusterMetadata,
    attribute_id_XdsListenerDirection, attribute_id_XdsListenerMetadata,
    attribute_id_XdsRouteName, attribute_id_XdsRouteMetadata, attribute_id_XdsVirtualHostName,
    attribute_id_XdsVirtualHostMetadata, attribute_id_XdsUpstreamHostMetadata,
    attribute_id_XdsFilterChainName, attribute_id_HealthCheck]"

interpretation attribute_id: c_enum attribute_id_order
proof
  show "distinct attribute_id_order" by (simp add: attribute_id_order_def)
  show "x \<in> set attribute_id_order" for x 
    unfolding attribute_id_order_def by (cases x; hypsubst; (rule list.set_intros)+)
qed

datatype socket_option_state =
    socket_option_state_Prebind | socket_option_state_Bound | socket_option_state_Listening

definition socket_option_state_order :: "socket_option_state list" where
  "socket_option_state_order =
   [socket_option_state_Prebind, socket_option_state_Bound, socket_option_state_Listening]"

interpretation socket_option_state: c_enum socket_option_state_order
proof
  show "distinct socket_option_state_order" by (simp add: socket_option_state_order_def)
  show "x \<in> set socket_option_state_order" for x 
    unfolding socket_option_state_order_def by (cases x; hypsubst; (rule list.set_intros)+)
qed

datatype socket_option_value_type =
    socket_option_value_type_Int | socket_option_value_type_Bytes

definition socket_option_value_type_order :: "socket_option_value_type list" where
  "socket_option_value_type_order =
   [socket_option_value_type_Int, socket_option_value_type_Bytes]"

interpretation socket_option_value_type: c_enum socket_option_value_type_order
proof
  show "distinct socket_option_value_type_order" by (simp add: socket_option_value_type_order_def)
  show "x \<in> set socket_option_value_type_order" for x 
    unfolding socket_option_value_type_order_def by (cases x; hypsubst; (rule list.set_intros)+)
qed

datatype address_type =
    address_type_Unknown | address_type_Ip | address_type_Pipe | address_type_EnvoyInternal

definition address_type_order :: "address_type list" where
  "address_type_order =
   [address_type_Unknown, address_type_Ip, address_type_Pipe, address_type_EnvoyInternal]"

interpretation address_type: c_enum address_type_order
proof
  show "distinct address_type_order" by (simp add: address_type_order_def)
  show "x \<in> set address_type_order" for x 
    unfolding address_type_order_def by (cases x; hypsubst; (rule list.set_intros)+)
qed

datatype socket_direction =
    socket_direction_Upstream | socket_direction_Downstream

definition socket_direction_order :: "socket_direction list" where
  "socket_direction_order =
   [socket_direction_Upstream, socket_direction_Downstream]"

interpretation socket_direction: c_enum socket_direction_order
proof
  show "distinct socket_direction_order" by (simp add: socket_direction_order_def)
  show "x \<in> set socket_direction_order" for x 
    unfolding socket_direction_order_def by (cases x; hypsubst; (rule list.set_intros)+)
qed

datatype http_body_type =
    http_body_type_ReceivedRequestBody | http_body_type_BufferedRequestBody
    | http_body_type_ReceivedResponseBody | http_body_type_BufferedResponseBody

definition http_body_type_order :: "http_body_type list" where
  "http_body_type_order =
   [http_body_type_ReceivedRequestBody, http_body_type_BufferedRequestBody,
    http_body_type_ReceivedResponseBody, http_body_type_BufferedResponseBody]"

interpretation http_body_type: c_enum http_body_type_order
proof
  show "distinct http_body_type_order" by (simp add: http_body_type_order_def)
  show "x \<in> set http_body_type_order" for x 
    unfolding http_body_type_order_def by (cases x; hypsubst; (rule list.set_intros)+)
qed

datatype on_http_filter_request_headers_status =
    on_http_filter_request_headers_status_Continue
    | on_http_filter_request_headers_status_StopIteration
    | on_http_filter_request_headers_status_ContinueAndDontEndStream
    | on_http_filter_request_headers_status_StopAllIterationAndBuffer
    | on_http_filter_request_headers_status_StopAllIterationAndWatermark

definition on_http_filter_request_headers_status_order :: "on_http_filter_request_headers_status list" where
  "on_http_filter_request_headers_status_order =
   [on_http_filter_request_headers_status_Continue,
    on_http_filter_request_headers_status_StopIteration,
    on_http_filter_request_headers_status_ContinueAndDontEndStream,
    on_http_filter_request_headers_status_StopAllIterationAndBuffer,
    on_http_filter_request_headers_status_StopAllIterationAndWatermark]"

interpretation on_http_filter_request_headers_status: c_enum on_http_filter_request_headers_status_order
proof
  show "distinct on_http_filter_request_headers_status_order" by (simp add: on_http_filter_request_headers_status_order_def)
  show "x \<in> set on_http_filter_request_headers_status_order" for x 
    unfolding on_http_filter_request_headers_status_order_def by (cases x; hypsubst; (rule list.set_intros)+)
qed

datatype on_http_filter_request_body_status =
    on_http_filter_request_body_status_Continue
    | on_http_filter_request_body_status_StopIterationAndBuffer
    | on_http_filter_request_body_status_StopIterationAndWatermark
    | on_http_filter_request_body_status_StopIterationNoBuffer

definition on_http_filter_request_body_status_order :: "on_http_filter_request_body_status list" where
  "on_http_filter_request_body_status_order =
   [on_http_filter_request_body_status_Continue,
    on_http_filter_request_body_status_StopIterationAndBuffer,
    on_http_filter_request_body_status_StopIterationAndWatermark,
    on_http_filter_request_body_status_StopIterationNoBuffer]"

interpretation on_http_filter_request_body_status: c_enum on_http_filter_request_body_status_order
proof
  show "distinct on_http_filter_request_body_status_order" by (simp add: on_http_filter_request_body_status_order_def)
  show "x \<in> set on_http_filter_request_body_status_order" for x 
    unfolding on_http_filter_request_body_status_order_def by (cases x; hypsubst; (rule list.set_intros)+)
qed

datatype on_http_filter_request_trailers_status =
    on_http_filter_request_trailers_status_Continue
    | on_http_filter_request_trailers_status_StopIteration

definition on_http_filter_request_trailers_status_order :: "on_http_filter_request_trailers_status list" where
  "on_http_filter_request_trailers_status_order =
   [on_http_filter_request_trailers_status_Continue,
    on_http_filter_request_trailers_status_StopIteration]"

interpretation on_http_filter_request_trailers_status: c_enum on_http_filter_request_trailers_status_order
proof
  show "distinct on_http_filter_request_trailers_status_order" by (simp add: on_http_filter_request_trailers_status_order_def)
  show "x \<in> set on_http_filter_request_trailers_status_order" for x 
    unfolding on_http_filter_request_trailers_status_order_def by (cases x; hypsubst; (rule list.set_intros)+)
qed

datatype on_http_filter_response_headers_status =
    on_http_filter_response_headers_status_Continue
    | on_http_filter_response_headers_status_StopIteration
    | on_http_filter_response_headers_status_ContinueAndDontEndStream
    | on_http_filter_response_headers_status_StopAllIterationAndBuffer
    | on_http_filter_response_headers_status_StopAllIterationAndWatermark

definition on_http_filter_response_headers_status_order :: "on_http_filter_response_headers_status list" where
  "on_http_filter_response_headers_status_order =
   [on_http_filter_response_headers_status_Continue,
    on_http_filter_response_headers_status_StopIteration,
    on_http_filter_response_headers_status_ContinueAndDontEndStream,
    on_http_filter_response_headers_status_StopAllIterationAndBuffer,
    on_http_filter_response_headers_status_StopAllIterationAndWatermark]"

interpretation on_http_filter_response_headers_status: c_enum on_http_filter_response_headers_status_order
proof
  show "distinct on_http_filter_response_headers_status_order" by (simp add: on_http_filter_response_headers_status_order_def)
  show "x \<in> set on_http_filter_response_headers_status_order" for x 
    unfolding on_http_filter_response_headers_status_order_def by (cases x; hypsubst; (rule list.set_intros)+)
qed

datatype on_http_filter_response_body_status =
    on_http_filter_response_body_status_Continue
    | on_http_filter_response_body_status_StopIterationAndBuffer
    | on_http_filter_response_body_status_StopIterationAndWatermark
    | on_http_filter_response_body_status_StopIterationNoBuffer

definition on_http_filter_response_body_status_order :: "on_http_filter_response_body_status list" where
  "on_http_filter_response_body_status_order =
   [on_http_filter_response_body_status_Continue,
    on_http_filter_response_body_status_StopIterationAndBuffer,
    on_http_filter_response_body_status_StopIterationAndWatermark,
    on_http_filter_response_body_status_StopIterationNoBuffer]"

interpretation on_http_filter_response_body_status: c_enum on_http_filter_response_body_status_order
proof
  show "distinct on_http_filter_response_body_status_order" by (simp add: on_http_filter_response_body_status_order_def)
  show "x \<in> set on_http_filter_response_body_status_order" for x 
    unfolding on_http_filter_response_body_status_order_def by (cases x; hypsubst; (rule list.set_intros)+)
qed

datatype on_http_filter_response_trailers_status =
    on_http_filter_response_trailers_status_Continue
    | on_http_filter_response_trailers_status_StopIteration

definition on_http_filter_response_trailers_status_order :: "on_http_filter_response_trailers_status list" where
  "on_http_filter_response_trailers_status_order =
   [on_http_filter_response_trailers_status_Continue,
    on_http_filter_response_trailers_status_StopIteration]"

interpretation on_http_filter_response_trailers_status: c_enum on_http_filter_response_trailers_status_order
proof
  show "distinct on_http_filter_response_trailers_status_order" by (simp add: on_http_filter_response_trailers_status_order_def)
  show "x \<in> set on_http_filter_response_trailers_status_order" for x 
    unfolding on_http_filter_response_trailers_status_order_def by (cases x; hypsubst; (rule list.set_intros)+)
qed

datatype on_http_filter_local_reply_status =
    on_http_filter_local_reply_status_Continue
    | on_http_filter_local_reply_status_ContinueAndResetStream

definition on_http_filter_local_reply_status_order :: "on_http_filter_local_reply_status list" where
  "on_http_filter_local_reply_status_order =
   [on_http_filter_local_reply_status_Continue,
    on_http_filter_local_reply_status_ContinueAndResetStream]"

interpretation on_http_filter_local_reply_status: c_enum on_http_filter_local_reply_status_order
proof
  show "distinct on_http_filter_local_reply_status_order" by (simp add: on_http_filter_local_reply_status_order_def)
  show "x \<in> set on_http_filter_local_reply_status_order" for x 
    unfolding on_http_filter_local_reply_status_order_def by (cases x; hypsubst; (rule list.set_intros)+)
qed

datatype http_filter_stream_reset_reason =
    http_filter_stream_reset_reason_LocalReset
    | http_filter_stream_reset_reason_LocalRefusedStreamReset

definition http_filter_stream_reset_reason_order :: "http_filter_stream_reset_reason list" where
  "http_filter_stream_reset_reason_order =
   [http_filter_stream_reset_reason_LocalReset,
    http_filter_stream_reset_reason_LocalRefusedStreamReset]"

interpretation http_filter_stream_reset_reason: c_enum http_filter_stream_reset_reason_order
proof
  show "distinct http_filter_stream_reset_reason_order" by (simp add: http_filter_stream_reset_reason_order_def)
  show "x \<in> set http_filter_stream_reset_reason_order" for x 
    unfolding http_filter_stream_reset_reason_order_def by (cases x; hypsubst; (rule list.set_intros)+)
qed

datatype on_network_filter_data_status =
    on_network_filter_data_status_Continue | on_network_filter_data_status_StopIteration

definition on_network_filter_data_status_order :: "on_network_filter_data_status list" where
  "on_network_filter_data_status_order =
   [on_network_filter_data_status_Continue, on_network_filter_data_status_StopIteration]"

interpretation on_network_filter_data_status: c_enum on_network_filter_data_status_order
proof
  show "distinct on_network_filter_data_status_order" by (simp add: on_network_filter_data_status_order_def)
  show "x \<in> set on_network_filter_data_status_order" for x 
    unfolding on_network_filter_data_status_order_def by (cases x; hypsubst; (rule list.set_intros)+)
qed

datatype network_connection_close_type =
    network_connection_close_type_FlushWrite | network_connection_close_type_NoFlush
    | network_connection_close_type_FlushWriteAndDelay | network_connection_close_type_Abort
    | network_connection_close_type_AbortReset

definition network_connection_close_type_order :: "network_connection_close_type list" where
  "network_connection_close_type_order =
   [network_connection_close_type_FlushWrite, network_connection_close_type_NoFlush,
    network_connection_close_type_FlushWriteAndDelay, network_connection_close_type_Abort,
    network_connection_close_type_AbortReset]"

interpretation network_connection_close_type: c_enum network_connection_close_type_order
proof
  show "distinct network_connection_close_type_order" by (simp add: network_connection_close_type_order_def)
  show "x \<in> set network_connection_close_type_order" for x 
    unfolding network_connection_close_type_order_def by (cases x; hypsubst; (rule list.set_intros)+)
qed

datatype network_connection_event =
    network_connection_event_RemoteClose | network_connection_event_LocalClose
    | network_connection_event_Connected | network_connection_event_ConnectedZeroRtt

definition network_connection_event_order :: "network_connection_event list" where
  "network_connection_event_order =
   [network_connection_event_RemoteClose, network_connection_event_LocalClose,
    network_connection_event_Connected, network_connection_event_ConnectedZeroRtt]"

interpretation network_connection_event: c_enum network_connection_event_order
proof
  show "distinct network_connection_event_order" by (simp add: network_connection_event_order_def)
  show "x \<in> set network_connection_event_order" for x 
    unfolding network_connection_event_order_def by (cases x; hypsubst; (rule list.set_intros)+)
qed

datatype network_connection_state =
    network_connection_state_Open | network_connection_state_Closing
    | network_connection_state_Closed

definition network_connection_state_order :: "network_connection_state list" where
  "network_connection_state_order =
   [network_connection_state_Open, network_connection_state_Closing,
    network_connection_state_Closed]"

interpretation network_connection_state: c_enum network_connection_state_order
proof
  show "distinct network_connection_state_order" by (simp add: network_connection_state_order_def)
  show "x \<in> set network_connection_state_order" for x 
    unfolding network_connection_state_order_def by (cases x; hypsubst; (rule list.set_intros)+)
qed

datatype network_read_disable_status =
    network_read_disable_status_NoTransition | network_read_disable_status_StillReadDisabled
    | network_read_disable_status_TransitionedToReadEnabled
    | network_read_disable_status_TransitionedToReadDisabled

definition network_read_disable_status_order :: "network_read_disable_status list" where
  "network_read_disable_status_order =
   [network_read_disable_status_NoTransition, network_read_disable_status_StillReadDisabled,
    network_read_disable_status_TransitionedToReadEnabled,
    network_read_disable_status_TransitionedToReadDisabled]"

interpretation network_read_disable_status: c_enum network_read_disable_status_order
proof
  show "distinct network_read_disable_status_order" by (simp add: network_read_disable_status_order_def)
  show "x \<in> set network_read_disable_status_order" for x 
    unfolding network_read_disable_status_order_def by (cases x; hypsubst; (rule list.set_intros)+)
qed

datatype on_listener_filter_status =
    on_listener_filter_status_Continue | on_listener_filter_status_StopIteration

definition on_listener_filter_status_order :: "on_listener_filter_status list" where
  "on_listener_filter_status_order =
   [on_listener_filter_status_Continue, on_listener_filter_status_StopIteration]"

interpretation on_listener_filter_status: c_enum on_listener_filter_status_order
proof
  show "distinct on_listener_filter_status_order" by (simp add: on_listener_filter_status_order_def)
  show "x \<in> set on_listener_filter_status_order" for x 
    unfolding on_listener_filter_status_order_def by (cases x; hypsubst; (rule list.set_intros)+)
qed

datatype on_udp_listener_filter_status =
    on_udp_listener_filter_status_Continue | on_udp_listener_filter_status_StopIteration

definition on_udp_listener_filter_status_order :: "on_udp_listener_filter_status list" where
  "on_udp_listener_filter_status_order =
   [on_udp_listener_filter_status_Continue, on_udp_listener_filter_status_StopIteration]"

interpretation on_udp_listener_filter_status: c_enum on_udp_listener_filter_status_order
proof
  show "distinct on_udp_listener_filter_status_order" by (simp add: on_udp_listener_filter_status_order_def)
  show "x \<in> set on_udp_listener_filter_status_order" for x 
    unfolding on_udp_listener_filter_status_order_def by (cases x; hypsubst; (rule list.set_intros)+)
qed

datatype access_log_type =
    access_log_type_NotSet | access_log_type_TcpUpstreamConnected | access_log_type_TcpPeriodic
    | access_log_type_TcpConnectionEnd | access_log_type_DownstreamStart
    | access_log_type_DownstreamPeriodic | access_log_type_DownstreamEnd
    | access_log_type_UpstreamPoolReady | access_log_type_UpstreamPeriodic
    | access_log_type_UpstreamEnd | access_log_type_DownstreamTunnelSuccessfullyEstablished
    | access_log_type_UdpTunnelUpstreamConnected | access_log_type_UdpPeriodic
    | access_log_type_UdpSessionEnd

definition access_log_type_order :: "access_log_type list" where
  "access_log_type_order =
   [access_log_type_NotSet, access_log_type_TcpUpstreamConnected, access_log_type_TcpPeriodic,
    access_log_type_TcpConnectionEnd, access_log_type_DownstreamStart,
    access_log_type_DownstreamPeriodic, access_log_type_DownstreamEnd,
    access_log_type_UpstreamPoolReady, access_log_type_UpstreamPeriodic,
    access_log_type_UpstreamEnd, access_log_type_DownstreamTunnelSuccessfullyEstablished,
    access_log_type_UdpTunnelUpstreamConnected, access_log_type_UdpPeriodic,
    access_log_type_UdpSessionEnd]"

interpretation access_log_type: c_enum access_log_type_order
proof
  show "distinct access_log_type_order" by (simp add: access_log_type_order_def)
  show "x \<in> set access_log_type_order" for x 
    unfolding access_log_type_order_def by (cases x; hypsubst; (rule list.set_intros)+)
qed

datatype (plugins only:) response_flag =
    response_flag_FailedLocalHealthCheck | response_flag_NoHealthyUpstream
    | response_flag_UpstreamRequestTimeout | response_flag_LocalReset
    | response_flag_UpstreamRemoteReset | response_flag_UpstreamConnectionFailure
    | response_flag_UpstreamConnectionTermination | response_flag_UpstreamOverflow
    | response_flag_NoRouteFound | response_flag_DelayInjected | response_flag_FaultInjected
    | response_flag_RateLimited | response_flag_UnauthorizedExternalService
    | response_flag_RateLimitServiceError | response_flag_DownstreamConnectionTermination
    | response_flag_UpstreamRetryLimitExceeded | response_flag_StreamIdleTimeout
    | response_flag_InvalidEnvoyRequestHeaders | response_flag_DownstreamProtocolError
    | response_flag_UpstreamMaxStreamDurationReached | response_flag_ResponseFromCacheFilter
    | response_flag_NoFilterConfigFound | response_flag_DurationTimeout
    | response_flag_UpstreamProtocolError | response_flag_NoClusterFound
    | response_flag_OverloadManager | response_flag_DnsResolutionFailed
    | response_flag_DropOverLoad | response_flag_DownstreamRemoteReset
    | response_flag_UnconditionalDropOverload

definition response_flag_order :: "response_flag list" where
  "response_flag_order =
   [response_flag_FailedLocalHealthCheck, response_flag_NoHealthyUpstream,
    response_flag_UpstreamRequestTimeout, response_flag_LocalReset,
    response_flag_UpstreamRemoteReset, response_flag_UpstreamConnectionFailure,
    response_flag_UpstreamConnectionTermination, response_flag_UpstreamOverflow,
    response_flag_NoRouteFound, response_flag_DelayInjected, response_flag_FaultInjected,
    response_flag_RateLimited, response_flag_UnauthorizedExternalService,
    response_flag_RateLimitServiceError, response_flag_DownstreamConnectionTermination,
    response_flag_UpstreamRetryLimitExceeded, response_flag_StreamIdleTimeout,
    response_flag_InvalidEnvoyRequestHeaders, response_flag_DownstreamProtocolError,
    response_flag_UpstreamMaxStreamDurationReached, response_flag_ResponseFromCacheFilter,
    response_flag_NoFilterConfigFound, response_flag_DurationTimeout,
    response_flag_UpstreamProtocolError, response_flag_NoClusterFound,
    response_flag_OverloadManager, response_flag_DnsResolutionFailed,
    response_flag_DropOverLoad, response_flag_DownstreamRemoteReset,
    response_flag_UnconditionalDropOverload]"

interpretation response_flag: c_enum response_flag_order
proof
  show "distinct response_flag_order" by (simp add: response_flag_order_def)
  show "x \<in> set response_flag_order" for x 
    unfolding response_flag_order_def by (cases x; hypsubst; (rule list.set_intros)+)
qed

datatype file_watcher_event =
    file_watcher_event_MovedTo | file_watcher_event_Modified

definition file_watcher_event_order :: "file_watcher_event list" where
  "file_watcher_event_order =
   [file_watcher_event_MovedTo, file_watcher_event_Modified]"

interpretation file_watcher_event: c_enum file_watcher_event_order
proof
  show "distinct file_watcher_event_order" by (simp add: file_watcher_event_order_def)
  show "x \<in> set file_watcher_event_order" for x 
    unfolding file_watcher_event_order_def by (cases x; hypsubst; (rule list.set_intros)+)
qed

datatype cert_validator_validation_status =
    cert_validator_validation_status_Successful | cert_validator_validation_status_Failed

definition cert_validator_validation_status_order :: "cert_validator_validation_status list" where
  "cert_validator_validation_status_order =
   [cert_validator_validation_status_Successful, cert_validator_validation_status_Failed]"

interpretation cert_validator_validation_status: c_enum cert_validator_validation_status_order
proof
  show "distinct cert_validator_validation_status_order" by (simp add: cert_validator_validation_status_order_def)
  show "x \<in> set cert_validator_validation_status_order" for x 
    unfolding cert_validator_validation_status_order_def by (cases x; hypsubst; (rule list.set_intros)+)
qed

datatype cert_validator_client_validation_status =
    cert_validator_client_validation_status_NotValidated
    | cert_validator_client_validation_status_NoClientCertificate
    | cert_validator_client_validation_status_Validated
    | cert_validator_client_validation_status_Failed

definition cert_validator_client_validation_status_order :: "cert_validator_client_validation_status list" where
  "cert_validator_client_validation_status_order =
   [cert_validator_client_validation_status_NotValidated,
    cert_validator_client_validation_status_NoClientCertificate,
    cert_validator_client_validation_status_Validated,
    cert_validator_client_validation_status_Failed]"

interpretation cert_validator_client_validation_status: c_enum cert_validator_client_validation_status_order
proof
  show "distinct cert_validator_client_validation_status_order" by (simp add: cert_validator_client_validation_status_order_def)
  show "x \<in> set cert_validator_client_validation_status_order" for x 
    unfolding cert_validator_client_validation_status_order_def by (cases x; hypsubst; (rule list.set_intros)+)
qed

datatype trace_reason =
    trace_reason_NotTraceable | trace_reason_HealthCheck | trace_reason_Sampling
    | trace_reason_ServiceForced | trace_reason_ClientForced

definition trace_reason_order :: "trace_reason list" where
  "trace_reason_order =
   [trace_reason_NotTraceable, trace_reason_HealthCheck, trace_reason_Sampling,
    trace_reason_ServiceForced, trace_reason_ClientForced]"

interpretation trace_reason: c_enum trace_reason_order
proof
  show "distinct trace_reason_order" by (simp add: trace_reason_order_def)
  show "x \<in> set trace_reason_order" for x 
    unfolding trace_reason_order_def by (cases x; hypsubst; (rule list.set_intros)+)
qed

datatype dns_lookup_family =
    dns_lookup_family_V4Only | dns_lookup_family_V6Only | dns_lookup_family_Auto
    | dns_lookup_family_V4Preferred | dns_lookup_family_All

definition dns_lookup_family_order :: "dns_lookup_family list" where
  "dns_lookup_family_order =
   [dns_lookup_family_V4Only, dns_lookup_family_V6Only, dns_lookup_family_Auto,
    dns_lookup_family_V4Preferred, dns_lookup_family_All]"

interpretation dns_lookup_family: c_enum dns_lookup_family_order
proof
  show "distinct dns_lookup_family_order" by (simp add: dns_lookup_family_order_def)
  show "x \<in> set dns_lookup_family_order" for x 
    unfolding dns_lookup_family_order_def by (cases x; hypsubst; (rule list.set_intros)+)
qed

datatype dns_resolution_status =
    dns_resolution_status_Completed | dns_resolution_status_Failure

definition dns_resolution_status_order :: "dns_resolution_status list" where
  "dns_resolution_status_order =
   [dns_resolution_status_Completed, dns_resolution_status_Failure]"

interpretation dns_resolution_status: c_enum dns_resolution_status_order
proof
  show "distinct dns_resolution_status_order" by (simp add: dns_resolution_status_order_def)
  show "x \<in> set dns_resolution_status_order" for x 
    unfolding dns_resolution_status_order_def by (cases x; hypsubst; (rule list.set_intros)+)
qed

datatype transport_socket_post_io_action =
    transport_socket_post_io_action_KeepOpen | transport_socket_post_io_action_Close

definition transport_socket_post_io_action_order :: "transport_socket_post_io_action list" where
  "transport_socket_post_io_action_order =
   [transport_socket_post_io_action_KeepOpen, transport_socket_post_io_action_Close]"

interpretation transport_socket_post_io_action: c_enum transport_socket_post_io_action_order
proof
  show "distinct transport_socket_post_io_action_order" by (simp add: transport_socket_post_io_action_order_def)
  show "x \<in> set transport_socket_post_io_action_order" for x 
    unfolding transport_socket_post_io_action_order_def by (cases x; hypsubst; (rule list.set_intros)+)
qed

text \<open>The one enumeration whose values are not positions.\<close>

fun file_watcher_event_flag :: "file_watcher_event \<Rightarrow> u32" where
  "file_watcher_event_flag file_watcher_event_MovedTo = 0x1"
| "file_watcher_event_flag file_watcher_event_Modified = 0x2"

end
