(* ===== verification/AbiStructs.thy ===== *)
theory AbiStructs
  imports AbiEnums Shared
begin

text \<open>
  The types of abi/abi.h other than its enumerations: the opaque pointers that name objects of
  Envoy and of the module, and the structs that cross the ABI by value or by pointer.
\<close>

section \<open>Scalars\<close>

text \<open>
  An enumeration crosses the ABI as an unsigned 32-bit integer. The type argument only records which
  enumeration the integer is read as: the casts of the Go code accept every 32-bit value.
\<close>

datatype 'e c_val = CVal (c_raw: u32)

definition c_const :: "'e list \<Rightarrow> 'e \<Rightarrow> 'e c_val" where
  "c_const order x = CVal (of_nat (c_encode order x))"

definition c_meaning :: "'e list \<Rightarrow> 'e c_val \<Rightarrow> 'e option" where
  "c_meaning order v = c_decode order (unat (c_raw v))"

type_synonym u8 = "8 word"
type_synonym u16 = "16 word"
type_synonym i64 = "64 word"

text \<open>A \<open>double\<close> is its 64-bit pattern: no code of the repository computes with one.\<close>

type_synonym f64 = "64 word"

section \<open>Opaque pointers\<close>

text \<open>
  All of them are addresses; the names say which side owns the object and for how long the pointer
  may be used (see the comments of abi.h).
\<close>

type_synonym abi_version_module_ptr = ptr
type_synonym buffer_module_ptr = ptr
type_synonym buffer_envoy_ptr = ptr
type_synonym http_filter_config_envoy_ptr = ptr
type_synonym http_filter_config_module_ptr = ptr
type_synonym http_filter_per_route_config_module_ptr = ptr
type_synonym http_filter_envoy_ptr = ptr
type_synonym http_filter_module_ptr = ptr
type_synonym http_filter_scheduler_module_ptr = ptr
type_synonym http_filter_config_scheduler_module_ptr = ptr
type_synonym span_envoy_ptr = ptr
type_synonym child_span_module_ptr = ptr
type_synonym network_filter_config_envoy_ptr = ptr
type_synonym network_filter_config_module_ptr = ptr
type_synonym network_filter_envoy_ptr = ptr
type_synonym network_filter_module_ptr = ptr
type_synonym network_filter_scheduler_module_ptr = ptr
type_synonym network_filter_config_scheduler_module_ptr = ptr
type_synonym access_logger_config_envoy_ptr = ptr
type_synonym access_logger_config_module_ptr = ptr
type_synonym access_logger_envoy_ptr = ptr
type_synonym access_logger_module_ptr = ptr

section \<open>Structs\<close>

text \<open>Memory owned by Envoy: an address and a length.\<close>

record envoy_buffer =
  eb_ptr :: buffer_envoy_ptr
  eb_length :: u64

text \<open>
  Memory owned by the module, which Envoy reads during the call only: whether the pointer is null,
  and the bytes it points to.
\<close>

datatype module_buffer = ModuleBuffer (mb_nil: bool) (mb_bytes: bytes)

record module_http_header =
  mh_key :: module_buffer
  mh_value :: module_buffer

record envoy_http_header =
  eh_key_ptr :: buffer_envoy_ptr
  eh_key_length :: u64
  eh_value_ptr :: buffer_envoy_ptr
  eh_value_length :: u64

record socket_option =
  so_level :: i64
  so_name :: i64
  so_state :: "socket_option_state c_val"
  so_value_type :: "socket_option_value_type c_val"
  so_int_value :: i64
  so_byte_value :: envoy_buffer

record timing_info =
  ti_start_time_unix_ns :: i64
  ti_request_complete_duration_ns :: i64
  ti_first_upstream_tx_byte_sent_ns :: i64
  ti_last_upstream_tx_byte_sent_ns :: i64
  ti_first_upstream_rx_byte_received_ns :: i64
  ti_last_upstream_rx_byte_received_ns :: i64
  ti_first_downstream_tx_byte_sent_ns :: i64
  ti_last_downstream_tx_byte_sent_ns :: i64

record bytes_info =
  bi_bytes_received :: u64
  bi_bytes_sent :: u64
  bi_wire_bytes_received :: u64
  bi_wire_bytes_sent :: u64

end
