(* ===== verification/GoEnums.thy ===== *)
theory GoEnums
  imports Prelude
begin

text \<open>
  The enumerations of package \<open>shared\<close> (shared/api.go, shared/base.go, shared/network_base.go,
  shared/access_logger.go). A const block is a datatype of its names; the value of a name is the
  number the Go compiler gives it: its position for an \<open>iota\<close> block, the written number where
  the block writes one. Constants that alias another one are definitions.
\<close>

datatype HeadersStatus =
    HeadersStatusContinue | HeadersStatusStop | HeadersStatusStopAllAndBuffer
    | HeadersStatusStopAllAndWatermark

fun HeadersStatus_value :: "HeadersStatus \<Rightarrow> nat" where
  "HeadersStatus_value HeadersStatusContinue = 0"
| "HeadersStatus_value HeadersStatusStop = 1"
| "HeadersStatus_value HeadersStatusStopAllAndBuffer = 3"
| "HeadersStatus_value HeadersStatusStopAllAndWatermark = 4"

definition HeadersStatusDefault :: HeadersStatus where
  "HeadersStatusDefault = HeadersStatusContinue"

datatype BodyStatus =
    BodyStatusContinue | BodyStatusStopAndBuffer | BodyStatusStopAndWatermark
    | BodyStatusStopNoBuffer

fun BodyStatus_value :: "BodyStatus \<Rightarrow> nat" where
  "BodyStatus_value BodyStatusContinue = 0"
| "BodyStatus_value BodyStatusStopAndBuffer = 1"
| "BodyStatus_value BodyStatusStopAndWatermark = 2"
| "BodyStatus_value BodyStatusStopNoBuffer = 3"

definition BodyStatusDefault :: BodyStatus where
  "BodyStatusDefault = BodyStatusContinue"

datatype TrailersStatus =
    TrailersStatusContinue | TrailersStatusStop

fun TrailersStatus_value :: "TrailersStatus \<Rightarrow> nat" where
  "TrailersStatus_value TrailersStatusContinue = 0"
| "TrailersStatus_value TrailersStatusStop = 1"

definition TrailersStatusDefault :: TrailersStatus where
  "TrailersStatusDefault = TrailersStatusContinue"

datatype LocalReplyStatus =
    LocalReplyStatusContinue | LocalReplyStatusContinueAndResetStream

fun LocalReplyStatus_value :: "LocalReplyStatus \<Rightarrow> nat" where
  "LocalReplyStatus_value LocalReplyStatusContinue = 0"
| "LocalReplyStatus_value LocalReplyStatusContinueAndResetStream = 1"

definition LocalReplyStatusDefault :: LocalReplyStatus where
  "LocalReplyStatusDefault = LocalReplyStatusContinue"

datatype (plugins only:) AttributeID =
    AttributeIDRequestPath | AttributeIDRequestUrlPath | AttributeIDRequestHost
    | AttributeIDRequestScheme | AttributeIDRequestMethod | AttributeIDRequestHeaders
    | AttributeIDRequestReferer | AttributeIDRequestUserAgent | AttributeIDRequestTime
    | AttributeIDRequestId | AttributeIDRequestProtocol | AttributeIDRequestQuery
    | AttributeIDRequestDuration | AttributeIDRequestSize | AttributeIDRequestTotalSize
    | AttributeIDResponseCode | AttributeIDResponseCodeDetails | AttributeIDResponseFlags
    | AttributeIDResponseGrpcStatus | AttributeIDResponseHeaders | AttributeIDResponseTrailers
    | AttributeIDResponseSize | AttributeIDResponseTotalSize
    | AttributeIDResponseBackendLatency | AttributeIDSourceAddress | AttributeIDSourcePort
    | AttributeIDDestinationAddress | AttributeIDDestinationPort | AttributeIDConnectionId
    | AttributeIDConnectionMtls | AttributeIDConnectionRequestedServerName
    | AttributeIDConnectionTlsVersion | AttributeIDConnectionSubjectLocalCertificate
    | AttributeIDConnectionSubjectPeerCertificate | AttributeIDConnectionDnsSanLocalCertificate
    | AttributeIDConnectionDnsSanPeerCertificate | AttributeIDConnectionUriSanLocalCertificate
    | AttributeIDConnectionUriSanPeerCertificate
    | AttributeIDConnectionSha256PeerCertificateDigest
    | AttributeIDConnectionTransportFailureReason | AttributeIDConnectionTerminationDetails
    | AttributeIDUpstreamAddress | AttributeIDUpstreamPort | AttributeIDUpstreamTlsVersion
    | AttributeIDUpstreamSubjectLocalCertificate | AttributeIDUpstreamSubjectPeerCertificate
    | AttributeIDUpstreamDnsSanLocalCertificate | AttributeIDUpstreamDnsSanPeerCertificate
    | AttributeIDUpstreamUriSanLocalCertificate | AttributeIDUpstreamUriSanPeerCertificate
    | AttributeIDUpstreamSha256PeerCertificateDigest | AttributeIDUpstreamLocalAddress
    | AttributeIDUpstreamTransportFailureReason | AttributeIDUpstreamRequestAttemptCount
    | AttributeIDUpstreamCxPoolReadyDuration | AttributeIDUpstreamLocality | AttributeIDXdsNode
    | AttributeIDXdsClusterName | AttributeIDXdsClusterMetadata
    | AttributeIDXdsListenerDirection | AttributeIDXdsListenerMetadata
    | AttributeIDXdsRouteName | AttributeIDXdsRouteMetadata | AttributeIDXdsVirtualHostName
    | AttributeIDXdsVirtualHostMetadata | AttributeIDXdsUpstreamHostMetadata
    | AttributeIDXdsFilterChainName | AttributeIDHealthCheck

definition AttributeID_iota :: "AttributeID list" where
  "AttributeID_iota =
   [AttributeIDRequestPath, AttributeIDRequestUrlPath, AttributeIDRequestHost,
    AttributeIDRequestScheme, AttributeIDRequestMethod, AttributeIDRequestHeaders,
    AttributeIDRequestReferer, AttributeIDRequestUserAgent, AttributeIDRequestTime,
    AttributeIDRequestId, AttributeIDRequestProtocol, AttributeIDRequestQuery,
    AttributeIDRequestDuration, AttributeIDRequestSize, AttributeIDRequestTotalSize,
    AttributeIDResponseCode, AttributeIDResponseCodeDetails, AttributeIDResponseFlags,
    AttributeIDResponseGrpcStatus, AttributeIDResponseHeaders, AttributeIDResponseTrailers,
    AttributeIDResponseSize, AttributeIDResponseTotalSize, AttributeIDResponseBackendLatency,
    AttributeIDSourceAddress, AttributeIDSourcePort, AttributeIDDestinationAddress,
    AttributeIDDestinationPort, AttributeIDConnectionId, AttributeIDConnectionMtls,
    AttributeIDConnectionRequestedServerName, AttributeIDConnectionTlsVersion,
    AttributeIDConnectionSubjectLocalCertificate, AttributeIDConnectionSubjectPeerCertificate,
    AttributeIDConnectionDnsSanLocalCertificate, AttributeIDConnectionDnsSanPeerCertificate,
    AttributeIDConnectionUriSanLocalCertificate, AttributeIDConnectionUriSanPeerCertificate,
    AttributeIDConnectionSha256PeerCertificateDigest,
    AttributeIDConnectionTransportFailureReason, AttributeIDConnectionTerminationDetails,
    AttributeIDUpstreamAddress, AttributeIDUpstreamPort, AttributeIDUpstreamTlsVersion,
    AttributeIDUpstreamSubjectLocalCertificate, AttributeIDUpstreamSubjectPeerCertificate,
    AttributeIDUpstreamDnsSanLocalCertificate, AttributeIDUpstreamDnsSanPeerCertificate,
    AttributeIDUpstreamUriSanLocalCertificate, AttributeIDUpstreamUriSanPeerCertificate,
    AttributeIDUpstreamSha256PeerCertificateDigest, AttributeIDUpstreamLocalAddress,
    AttributeIDUpstreamTransportFailureReason, AttributeIDUpstreamRequestAttemptCount,
    AttributeIDUpstreamCxPoolReadyDuration, AttributeIDUpstreamLocality, AttributeIDXdsNode,
    AttributeIDXdsClusterName, AttributeIDXdsClusterMetadata, AttributeIDXdsListenerDirection,
    AttributeIDXdsListenerMetadata, AttributeIDXdsRouteName, AttributeIDXdsRouteMetadata,
    AttributeIDXdsVirtualHostName, AttributeIDXdsVirtualHostMetadata,
    AttributeIDXdsUpstreamHostMetadata, AttributeIDXdsFilterChainName, AttributeIDHealthCheck]"

definition AttributeID_value :: "AttributeID \<Rightarrow> nat" where
  "AttributeID_value c = position c AttributeID_iota"

datatype LogLevel =
    LogLevelTrace | LogLevelDebug | LogLevelInfo | LogLevelWarn | LogLevelError
    | LogLevelCritical | LogLevelOff

definition LogLevel_iota :: "LogLevel list" where
  "LogLevel_iota =
   [LogLevelTrace, LogLevelDebug, LogLevelInfo, LogLevelWarn, LogLevelError, LogLevelCritical,
    LogLevelOff]"

definition LogLevel_value :: "LogLevel \<Rightarrow> nat" where
  "LogLevel_value c = position c LogLevel_iota"

datatype HttpCalloutInitResult =
    HttpCalloutInitSuccess | HttpCalloutInitMissingRequiredHeaders
    | HttpCalloutInitClusterNotFound | HttpCalloutInitDuplicateCalloutId
    | HttpCalloutInitCannotCreateRequest

definition HttpCalloutInitResult_iota :: "HttpCalloutInitResult list" where
  "HttpCalloutInitResult_iota =
   [HttpCalloutInitSuccess, HttpCalloutInitMissingRequiredHeaders,
    HttpCalloutInitClusterNotFound, HttpCalloutInitDuplicateCalloutId,
    HttpCalloutInitCannotCreateRequest]"

definition HttpCalloutInitResult_value :: "HttpCalloutInitResult \<Rightarrow> nat" where
  "HttpCalloutInitResult_value c = position c HttpCalloutInitResult_iota"

datatype HttpCalloutResult =
    HttpCalloutSuccess | HttpCalloutReset | HttpCalloutExceedResponseBufferLimit

definition HttpCalloutResult_iota :: "HttpCalloutResult list" where
  "HttpCalloutResult_iota =
   [HttpCalloutSuccess, HttpCalloutReset, HttpCalloutExceedResponseBufferLimit]"

definition HttpCalloutResult_value :: "HttpCalloutResult \<Rightarrow> nat" where
  "HttpCalloutResult_value c = position c HttpCalloutResult_iota"

datatype MetadataSourceType =
    MetadataSourceTypeDynamic | MetadataSourceTypeRoute | MetadataSourceTypeCluster
    | MetadataSourceTypeHost | MetadataSourceTypeHostLocality

definition MetadataSourceType_iota :: "MetadataSourceType list" where
  "MetadataSourceType_iota =
   [MetadataSourceTypeDynamic, MetadataSourceTypeRoute, MetadataSourceTypeCluster,
    MetadataSourceTypeHost, MetadataSourceTypeHostLocality]"

definition MetadataSourceType_value :: "MetadataSourceType \<Rightarrow> nat" where
  "MetadataSourceType_value c = position c MetadataSourceType_iota"

datatype HttpStreamResetReason =
    HttpStreamResetReasonConnectionFailure | HttpStreamResetReasonConnectionTermination
    | HttpStreamResetReasonLocalReset | HttpStreamResetReasonLocalRefusedStreamReset
    | HttpStreamResetReasonOverflow | HttpStreamResetReasonRemoteReset
    | HttpStreamResetReasonRemoteRefusedStreamReset | HttpStreamResetReasonProtocolError

definition HttpStreamResetReason_iota :: "HttpStreamResetReason list" where
  "HttpStreamResetReason_iota =
   [HttpStreamResetReasonConnectionFailure, HttpStreamResetReasonConnectionTermination,
    HttpStreamResetReasonLocalReset, HttpStreamResetReasonLocalRefusedStreamReset,
    HttpStreamResetReasonOverflow, HttpStreamResetReasonRemoteReset,
    HttpStreamResetReasonRemoteRefusedStreamReset, HttpStreamResetReasonProtocolError]"

definition HttpStreamResetReason_value :: "HttpStreamResetReason \<Rightarrow> nat" where
  "HttpStreamResetReason_value c = position c HttpStreamResetReason_iota"

datatype HttpFilterStreamResetReason =
    HttpFilterStreamResetReasonLocalReset | HttpFilterStreamResetReasonLocalRefusedStreamReset

definition HttpFilterStreamResetReason_iota :: "HttpFilterStreamResetReason list" where
  "HttpFilterStreamResetReason_iota =
   [HttpFilterStreamResetReasonLocalReset, HttpFilterStreamResetReasonLocalRefusedStreamReset]"

definition HttpFilterStreamResetReason_value :: "HttpFilterStreamResetReason \<Rightarrow> nat" where
  "HttpFilterStreamResetReason_value c = position c HttpFilterStreamResetReason_iota"

datatype SocketOptionState =
    SocketOptionStatePrebind | SocketOptionStateBound | SocketOptionStateListening

definition SocketOptionState_iota :: "SocketOptionState list" where
  "SocketOptionState_iota =
   [SocketOptionStatePrebind, SocketOptionStateBound, SocketOptionStateListening]"

definition SocketOptionState_value :: "SocketOptionState \<Rightarrow> nat" where
  "SocketOptionState_value c = position c SocketOptionState_iota"

datatype SocketDirection =
    SocketDirectionUpstream | SocketDirectionDownstream

definition SocketDirection_iota :: "SocketDirection list" where
  "SocketDirection_iota =
   [SocketDirectionUpstream, SocketDirectionDownstream]"

definition SocketDirection_value :: "SocketDirection \<Rightarrow> nat" where
  "SocketDirection_value c = position c SocketDirection_iota"

datatype MetricsResult =
    MetricsSuccess | MetricsNotFound | MetricsInvalidTags | MetricsFrozen

definition MetricsResult_iota :: "MetricsResult list" where
  "MetricsResult_iota =
   [MetricsSuccess, MetricsNotFound, MetricsInvalidTags, MetricsFrozen]"

definition MetricsResult_value :: "MetricsResult \<Rightarrow> nat" where
  "MetricsResult_value c = position c MetricsResult_iota"

datatype SocketOptionValueType =
    SocketOptionValueTypeInt | SocketOptionValueTypeBytes

definition SocketOptionValueType_iota :: "SocketOptionValueType list" where
  "SocketOptionValueType_iota =
   [SocketOptionValueTypeInt, SocketOptionValueTypeBytes]"

definition SocketOptionValueType_value :: "SocketOptionValueType \<Rightarrow> nat" where
  "SocketOptionValueType_value c = position c SocketOptionValueType_iota"

datatype NetworkFilterStatus =
    NetworkFilterStatusContinue | NetworkFilterStatusStop

fun NetworkFilterStatus_value :: "NetworkFilterStatus \<Rightarrow> nat" where
  "NetworkFilterStatus_value NetworkFilterStatusContinue = 0"
| "NetworkFilterStatus_value NetworkFilterStatusStop = 1"

definition NetworkFilterStatusDefault :: NetworkFilterStatus where
  "NetworkFilterStatusDefault = NetworkFilterStatusContinue"

datatype NetworkConnectionCloseType =
    NetworkConnectionCloseTypeFlushWrite | NetworkConnectionCloseTypeNoFlush
    | NetworkConnectionCloseTypeFlushWriteAndDelay | NetworkConnectionCloseTypeAbort
    | NetworkConnectionCloseTypeAbortReset

definition NetworkConnectionCloseType_iota :: "NetworkConnectionCloseType list" where
  "NetworkConnectionCloseType_iota =
   [NetworkConnectionCloseTypeFlushWrite, NetworkConnectionCloseTypeNoFlush,
    NetworkConnectionCloseTypeFlushWriteAndDelay, NetworkConnectionCloseTypeAbort,
    NetworkConnectionCloseTypeAbortReset]"

definition NetworkConnectionCloseType_value :: "NetworkConnectionCloseType \<Rightarrow> nat" where
  "NetworkConnectionCloseType_value c = position c NetworkConnectionCloseType_iota"

datatype NetworkConnectionEvent =
    NetworkConnectionEventRemoteClose | NetworkConnectionEventLocalClose
    | NetworkConnectionEventConnected | NetworkConnectionEventConnectedZeroRTT

definition NetworkConnectionEvent_iota :: "NetworkConnectionEvent list" where
  "NetworkConnectionEvent_iota =
   [NetworkConnectionEventRemoteClose, NetworkConnectionEventLocalClose,
    NetworkConnectionEventConnected, NetworkConnectionEventConnectedZeroRTT]"

definition NetworkConnectionEvent_value :: "NetworkConnectionEvent \<Rightarrow> nat" where
  "NetworkConnectionEvent_value c = position c NetworkConnectionEvent_iota"

datatype NetworkConnectionState =
    NetworkConnectionStateOpen | NetworkConnectionStateClosing | NetworkConnectionStateClosed

definition NetworkConnectionState_iota :: "NetworkConnectionState list" where
  "NetworkConnectionState_iota =
   [NetworkConnectionStateOpen, NetworkConnectionStateClosing, NetworkConnectionStateClosed]"

definition NetworkConnectionState_value :: "NetworkConnectionState \<Rightarrow> nat" where
  "NetworkConnectionState_value c = position c NetworkConnectionState_iota"

datatype NetworkReadDisableStatus =
    NetworkReadDisableStatusNoTransition | NetworkReadDisableStatusStillReadDisabled
    | NetworkReadDisableStatusTransitionedToReadEnabled
    | NetworkReadDisableStatusTransitionedToReadDisabled

definition NetworkReadDisableStatus_iota :: "NetworkReadDisableStatus list" where
  "NetworkReadDisableStatus_iota =
   [NetworkReadDisableStatusNoTransition, NetworkReadDisableStatusStillReadDisabled,
    NetworkReadDisableStatusTransitionedToReadEnabled,
    NetworkReadDisableStatusTransitionedToReadDisabled]"

definition NetworkReadDisableStatus_value :: "NetworkReadDisableStatus \<Rightarrow> nat" where
  "NetworkReadDisableStatus_value c = position c NetworkReadDisableStatus_iota"

datatype AccessLogType =
    AccessLogTypeNotSet | AccessLogTypeTcpUpstreamConnected | AccessLogTypeTcpPeriodic
    | AccessLogTypeTcpConnectionEnd | AccessLogTypeDownstreamStart
    | AccessLogTypeDownstreamPeriodic | AccessLogTypeDownstreamEnd
    | AccessLogTypeUpstreamPoolReady | AccessLogTypeUpstreamPeriodic | AccessLogTypeUpstreamEnd
    | AccessLogTypeDownstreamTunnelSuccessfullyEstablished
    | AccessLogTypeUdpTunnelUpstreamConnected | AccessLogTypeUdpPeriodic
    | AccessLogTypeUdpSessionEnd

fun AccessLogType_value :: "AccessLogType \<Rightarrow> nat" where
  "AccessLogType_value AccessLogTypeNotSet = 0"
| "AccessLogType_value AccessLogTypeTcpUpstreamConnected = 1"
| "AccessLogType_value AccessLogTypeTcpPeriodic = 2"
| "AccessLogType_value AccessLogTypeTcpConnectionEnd = 3"
| "AccessLogType_value AccessLogTypeDownstreamStart = 4"
| "AccessLogType_value AccessLogTypeDownstreamPeriodic = 5"
| "AccessLogType_value AccessLogTypeDownstreamEnd = 6"
| "AccessLogType_value AccessLogTypeUpstreamPoolReady = 7"
| "AccessLogType_value AccessLogTypeUpstreamPeriodic = 8"
| "AccessLogType_value AccessLogTypeUpstreamEnd = 9"
| "AccessLogType_value AccessLogTypeDownstreamTunnelSuccessfullyEstablished = 10"
| "AccessLogType_value AccessLogTypeUdpTunnelUpstreamConnected = 11"
| "AccessLogType_value AccessLogTypeUdpPeriodic = 12"
| "AccessLogType_value AccessLogTypeUdpSessionEnd = 13"

datatype HttpHeaderType =
    HttpHeaderTypeRequest | HttpHeaderTypeRequestTrailer | HttpHeaderTypeResponse
    | HttpHeaderTypeResponseTrailer

fun HttpHeaderType_value :: "HttpHeaderType \<Rightarrow> nat" where
  "HttpHeaderType_value HttpHeaderTypeRequest = 0"
| "HttpHeaderType_value HttpHeaderTypeRequestTrailer = 1"
| "HttpHeaderType_value HttpHeaderTypeResponse = 2"
| "HttpHeaderType_value HttpHeaderTypeResponseTrailer = 3"

end
