(* ===== verification/Conformance.thy ===== *)
theory Conformance
  imports AbiStructs GoEnums
begin

text \<open>
  The enumerations of package \<open>shared\<close> against those of abi/abi.h. Package \<open>abi_impl\<close> converts
  between them by numeric casts only, so the code is right exactly when a Go constant and the C
  enumerator it is named after have the same number. The correspondence of the names is written out
  here, and one locale carries what a matching pair of enumerations guarantees to the casts.
\<close>

section \<open>A Go enumeration cast to a C enumeration\<close>

text \<open>The cast \<open>(C.envoy_dynamic_module_type_X)(v)\<close> of a Go constant.\<close>

definition go_cast :: "('g \<Rightarrow> nat) \<Rightarrow> 'g \<Rightarrow> 'c c_val" where
  "go_cast val g = CVal (of_nat (val g))"

locale enum_cast = c_enum order for order :: "'c list" +
  fixes val :: "'g \<Rightarrow> nat" and tr :: "'g \<Rightarrow> 'c"
  assumes val_tr: "val g = c_encode order (tr g)"
    and small: "length order \<le> 2 ^ 32"
begin

lemma cast_raw: "unat (c_raw (go_cast val g)) = val g"
proof -
  have "val g < 2 ^ LENGTH(32)"
    using encode_bound [of "tr g"] small val_tr [of g] by simp
  then show ?thesis
    by (simp only: go_cast_def c_val.sel unat_of_nat mod_less)
qed

lemma cast_meaning: "c_meaning order (go_cast val g) = Some (tr g)"
  by (simp only: c_meaning_def cast_raw val_tr decode_encode)

lemma cast_const: "go_cast val g = c_const order (tr g)"
  by (simp add: go_cast_def c_const_def val_tr)

lemma cast_inject: "inj tr \<Longrightarrow> (go_cast val g :: 'c c_val) = go_cast val g' \<longleftrightarrow> g = g'"
  using cast_meaning by (metis injD option.inject)

lemma reading_onto: "surj tr \<Longrightarrow> \<exists>g. go_cast val g = c_const order c"
  using cast_const surjD [of tr c] by blast

end

section \<open>The correspondence of names\<close>

fun abi_http_filter_request_headers_status :: "HeadersStatus \<Rightarrow> on_http_filter_request_headers_status" where
  "abi_http_filter_request_headers_status HeadersStatusContinue =
     on_http_filter_request_headers_status_Continue"
| "abi_http_filter_request_headers_status HeadersStatusStop =
     on_http_filter_request_headers_status_StopIteration"
| "abi_http_filter_request_headers_status HeadersStatusStopAllAndBuffer =
     on_http_filter_request_headers_status_StopAllIterationAndBuffer"
| "abi_http_filter_request_headers_status HeadersStatusStopAllAndWatermark =
     on_http_filter_request_headers_status_StopAllIterationAndWatermark"

fun abi_http_filter_response_headers_status :: "HeadersStatus \<Rightarrow> on_http_filter_response_headers_status" where
  "abi_http_filter_response_headers_status HeadersStatusContinue =
     on_http_filter_response_headers_status_Continue"
| "abi_http_filter_response_headers_status HeadersStatusStop =
     on_http_filter_response_headers_status_StopIteration"
| "abi_http_filter_response_headers_status HeadersStatusStopAllAndBuffer =
     on_http_filter_response_headers_status_StopAllIterationAndBuffer"
| "abi_http_filter_response_headers_status HeadersStatusStopAllAndWatermark =
     on_http_filter_response_headers_status_StopAllIterationAndWatermark"

fun abi_http_filter_request_body_status :: "BodyStatus \<Rightarrow> on_http_filter_request_body_status" where
  "abi_http_filter_request_body_status BodyStatusContinue =
     on_http_filter_request_body_status_Continue"
| "abi_http_filter_request_body_status BodyStatusStopAndBuffer =
     on_http_filter_request_body_status_StopIterationAndBuffer"
| "abi_http_filter_request_body_status BodyStatusStopAndWatermark =
     on_http_filter_request_body_status_StopIterationAndWatermark"
| "abi_http_filter_request_body_status BodyStatusStopNoBuffer =
     on_http_filter_request_body_status_StopIterationNoBuffer"

fun abi_http_filter_response_body_status :: "BodyStatus \<Rightarrow> on_http_filter_response_body_status" where
  "abi_http_filter_response_body_status BodyStatusContinue =
     on_http_filter_response_body_status_Continue"
| "abi_http_filter_response_body_status BodyStatusStopAndBuffer =
     on_http_filter_response_body_status_StopIterationAndBuffer"
| "abi_http_filter_response_body_status BodyStatusStopAndWatermark =
     on_http_filter_response_body_status_StopIterationAndWatermark"
| "abi_http_filter_response_body_status BodyStatusStopNoBuffer =
     on_http_filter_response_body_status_StopIterationNoBuffer"

fun abi_http_filter_request_trailers_status :: "TrailersStatus \<Rightarrow> on_http_filter_request_trailers_status" where
  "abi_http_filter_request_trailers_status TrailersStatusContinue =
     on_http_filter_request_trailers_status_Continue"
| "abi_http_filter_request_trailers_status TrailersStatusStop =
     on_http_filter_request_trailers_status_StopIteration"

fun abi_http_filter_response_trailers_status :: "TrailersStatus \<Rightarrow> on_http_filter_response_trailers_status" where
  "abi_http_filter_response_trailers_status TrailersStatusContinue =
     on_http_filter_response_trailers_status_Continue"
| "abi_http_filter_response_trailers_status TrailersStatusStop =
     on_http_filter_response_trailers_status_StopIteration"

fun abi_http_filter_local_reply_status :: "LocalReplyStatus \<Rightarrow> on_http_filter_local_reply_status" where
  "abi_http_filter_local_reply_status LocalReplyStatusContinue =
     on_http_filter_local_reply_status_Continue"
| "abi_http_filter_local_reply_status LocalReplyStatusContinueAndResetStream =
     on_http_filter_local_reply_status_ContinueAndResetStream"

primrec abi_attribute_id :: "AttributeID \<Rightarrow> attribute_id" where
  "abi_attribute_id AttributeIDRequestPath = attribute_id_RequestPath"
| "abi_attribute_id AttributeIDRequestUrlPath = attribute_id_RequestUrlPath"
| "abi_attribute_id AttributeIDRequestHost = attribute_id_RequestHost"
| "abi_attribute_id AttributeIDRequestScheme = attribute_id_RequestScheme"
| "abi_attribute_id AttributeIDRequestMethod = attribute_id_RequestMethod"
| "abi_attribute_id AttributeIDRequestHeaders = attribute_id_RequestHeaders"
| "abi_attribute_id AttributeIDRequestReferer = attribute_id_RequestReferer"
| "abi_attribute_id AttributeIDRequestUserAgent = attribute_id_RequestUserAgent"
| "abi_attribute_id AttributeIDRequestTime = attribute_id_RequestTime"
| "abi_attribute_id AttributeIDRequestId = attribute_id_RequestId"
| "abi_attribute_id AttributeIDRequestProtocol = attribute_id_RequestProtocol"
| "abi_attribute_id AttributeIDRequestQuery = attribute_id_RequestQuery"
| "abi_attribute_id AttributeIDRequestDuration = attribute_id_RequestDuration"
| "abi_attribute_id AttributeIDRequestSize = attribute_id_RequestSize"
| "abi_attribute_id AttributeIDRequestTotalSize = attribute_id_RequestTotalSize"
| "abi_attribute_id AttributeIDResponseCode = attribute_id_ResponseCode"
| "abi_attribute_id AttributeIDResponseCodeDetails = attribute_id_ResponseCodeDetails"
| "abi_attribute_id AttributeIDResponseFlags = attribute_id_ResponseFlags"
| "abi_attribute_id AttributeIDResponseGrpcStatus = attribute_id_ResponseGrpcStatus"
| "abi_attribute_id AttributeIDResponseHeaders = attribute_id_ResponseHeaders"
| "abi_attribute_id AttributeIDResponseTrailers = attribute_id_ResponseTrailers"
| "abi_attribute_id AttributeIDResponseSize = attribute_id_ResponseSize"
| "abi_attribute_id AttributeIDResponseTotalSize = attribute_id_ResponseTotalSize"
| "abi_attribute_id AttributeIDResponseBackendLatency = attribute_id_ResponseBackendLatency"
| "abi_attribute_id AttributeIDSourceAddress = attribute_id_SourceAddress"
| "abi_attribute_id AttributeIDSourcePort = attribute_id_SourcePort"
| "abi_attribute_id AttributeIDDestinationAddress = attribute_id_DestinationAddress"
| "abi_attribute_id AttributeIDDestinationPort = attribute_id_DestinationPort"
| "abi_attribute_id AttributeIDConnectionId = attribute_id_ConnectionId"
| "abi_attribute_id AttributeIDConnectionMtls = attribute_id_ConnectionMtls"
| "abi_attribute_id AttributeIDConnectionRequestedServerName =
     attribute_id_ConnectionRequestedServerName"
| "abi_attribute_id AttributeIDConnectionTlsVersion = attribute_id_ConnectionTlsVersion"
| "abi_attribute_id AttributeIDConnectionSubjectLocalCertificate =
     attribute_id_ConnectionSubjectLocalCertificate"
| "abi_attribute_id AttributeIDConnectionSubjectPeerCertificate =
     attribute_id_ConnectionSubjectPeerCertificate"
| "abi_attribute_id AttributeIDConnectionDnsSanLocalCertificate =
     attribute_id_ConnectionDnsSanLocalCertificate"
| "abi_attribute_id AttributeIDConnectionDnsSanPeerCertificate =
     attribute_id_ConnectionDnsSanPeerCertificate"
| "abi_attribute_id AttributeIDConnectionUriSanLocalCertificate =
     attribute_id_ConnectionUriSanLocalCertificate"
| "abi_attribute_id AttributeIDConnectionUriSanPeerCertificate =
     attribute_id_ConnectionUriSanPeerCertificate"
| "abi_attribute_id AttributeIDConnectionSha256PeerCertificateDigest =
     attribute_id_ConnectionSha256PeerCertificateDigest"
| "abi_attribute_id AttributeIDConnectionTransportFailureReason =
     attribute_id_ConnectionTransportFailureReason"
| "abi_attribute_id AttributeIDConnectionTerminationDetails =
     attribute_id_ConnectionTerminationDetails"
| "abi_attribute_id AttributeIDUpstreamAddress = attribute_id_UpstreamAddress"
| "abi_attribute_id AttributeIDUpstreamPort = attribute_id_UpstreamPort"
| "abi_attribute_id AttributeIDUpstreamTlsVersion = attribute_id_UpstreamTlsVersion"
| "abi_attribute_id AttributeIDUpstreamSubjectLocalCertificate =
     attribute_id_UpstreamSubjectLocalCertificate"
| "abi_attribute_id AttributeIDUpstreamSubjectPeerCertificate =
     attribute_id_UpstreamSubjectPeerCertificate"
| "abi_attribute_id AttributeIDUpstreamDnsSanLocalCertificate =
     attribute_id_UpstreamDnsSanLocalCertificate"
| "abi_attribute_id AttributeIDUpstreamDnsSanPeerCertificate =
     attribute_id_UpstreamDnsSanPeerCertificate"
| "abi_attribute_id AttributeIDUpstreamUriSanLocalCertificate =
     attribute_id_UpstreamUriSanLocalCertificate"
| "abi_attribute_id AttributeIDUpstreamUriSanPeerCertificate =
     attribute_id_UpstreamUriSanPeerCertificate"
| "abi_attribute_id AttributeIDUpstreamSha256PeerCertificateDigest =
     attribute_id_UpstreamSha256PeerCertificateDigest"
| "abi_attribute_id AttributeIDUpstreamLocalAddress = attribute_id_UpstreamLocalAddress"
| "abi_attribute_id AttributeIDUpstreamTransportFailureReason =
     attribute_id_UpstreamTransportFailureReason"
| "abi_attribute_id AttributeIDUpstreamRequestAttemptCount =
     attribute_id_UpstreamRequestAttemptCount"
| "abi_attribute_id AttributeIDUpstreamCxPoolReadyDuration =
     attribute_id_UpstreamCxPoolReadyDuration"
| "abi_attribute_id AttributeIDUpstreamLocality = attribute_id_UpstreamLocality"
| "abi_attribute_id AttributeIDXdsNode = attribute_id_XdsNode"
| "abi_attribute_id AttributeIDXdsClusterName = attribute_id_XdsClusterName"
| "abi_attribute_id AttributeIDXdsClusterMetadata = attribute_id_XdsClusterMetadata"
| "abi_attribute_id AttributeIDXdsListenerDirection = attribute_id_XdsListenerDirection"
| "abi_attribute_id AttributeIDXdsListenerMetadata = attribute_id_XdsListenerMetadata"
| "abi_attribute_id AttributeIDXdsRouteName = attribute_id_XdsRouteName"
| "abi_attribute_id AttributeIDXdsRouteMetadata = attribute_id_XdsRouteMetadata"
| "abi_attribute_id AttributeIDXdsVirtualHostName = attribute_id_XdsVirtualHostName"
| "abi_attribute_id AttributeIDXdsVirtualHostMetadata = attribute_id_XdsVirtualHostMetadata"
| "abi_attribute_id AttributeIDXdsUpstreamHostMetadata = attribute_id_XdsUpstreamHostMetadata"
| "abi_attribute_id AttributeIDXdsFilterChainName = attribute_id_XdsFilterChainName"
| "abi_attribute_id AttributeIDHealthCheck = attribute_id_HealthCheck"

fun abi_log_level :: "LogLevel \<Rightarrow> log_level" where
  "abi_log_level LogLevelTrace = log_level_Trace"
| "abi_log_level LogLevelDebug = log_level_Debug"
| "abi_log_level LogLevelInfo = log_level_Info"
| "abi_log_level LogLevelWarn = log_level_Warn"
| "abi_log_level LogLevelError = log_level_Error"
| "abi_log_level LogLevelCritical = log_level_Critical"
| "abi_log_level LogLevelOff = log_level_Off"

fun abi_http_callout_init_result :: "HttpCalloutInitResult \<Rightarrow> http_callout_init_result" where
  "abi_http_callout_init_result HttpCalloutInitSuccess = http_callout_init_result_Success"
| "abi_http_callout_init_result HttpCalloutInitMissingRequiredHeaders =
     http_callout_init_result_MissingRequiredHeaders"
| "abi_http_callout_init_result HttpCalloutInitClusterNotFound =
     http_callout_init_result_ClusterNotFound"
| "abi_http_callout_init_result HttpCalloutInitDuplicateCalloutId =
     http_callout_init_result_DuplicateCalloutId"
| "abi_http_callout_init_result HttpCalloutInitCannotCreateRequest =
     http_callout_init_result_CannotCreateRequest"

fun abi_http_callout_result :: "HttpCalloutResult \<Rightarrow> http_callout_result" where
  "abi_http_callout_result HttpCalloutSuccess = http_callout_result_Success"
| "abi_http_callout_result HttpCalloutReset = http_callout_result_Reset"
| "abi_http_callout_result HttpCalloutExceedResponseBufferLimit =
     http_callout_result_ExceedResponseBufferLimit"

fun abi_metadata_source :: "MetadataSourceType \<Rightarrow> metadata_source" where
  "abi_metadata_source MetadataSourceTypeDynamic = metadata_source_Dynamic"
| "abi_metadata_source MetadataSourceTypeRoute = metadata_source_Route"
| "abi_metadata_source MetadataSourceTypeCluster = metadata_source_Cluster"
| "abi_metadata_source MetadataSourceTypeHost = metadata_source_Host"
| "abi_metadata_source MetadataSourceTypeHostLocality = metadata_source_HostLocality"

fun abi_http_stream_reset_reason :: "HttpStreamResetReason \<Rightarrow> http_stream_reset_reason" where
  "abi_http_stream_reset_reason HttpStreamResetReasonConnectionFailure =
     http_stream_reset_reason_ConnectionFailure"
| "abi_http_stream_reset_reason HttpStreamResetReasonConnectionTermination =
     http_stream_reset_reason_ConnectionTermination"
| "abi_http_stream_reset_reason HttpStreamResetReasonLocalReset =
     http_stream_reset_reason_LocalReset"
| "abi_http_stream_reset_reason HttpStreamResetReasonLocalRefusedStreamReset =
     http_stream_reset_reason_LocalRefusedStreamReset"
| "abi_http_stream_reset_reason HttpStreamResetReasonOverflow = http_stream_reset_reason_Overflow"
| "abi_http_stream_reset_reason HttpStreamResetReasonRemoteReset =
     http_stream_reset_reason_RemoteReset"
| "abi_http_stream_reset_reason HttpStreamResetReasonRemoteRefusedStreamReset =
     http_stream_reset_reason_RemoteRefusedStreamReset"
| "abi_http_stream_reset_reason HttpStreamResetReasonProtocolError =
     http_stream_reset_reason_ProtocolError"

fun abi_http_filter_stream_reset_reason :: "HttpFilterStreamResetReason \<Rightarrow> http_filter_stream_reset_reason" where
  "abi_http_filter_stream_reset_reason HttpFilterStreamResetReasonLocalReset =
     http_filter_stream_reset_reason_LocalReset"
| "abi_http_filter_stream_reset_reason HttpFilterStreamResetReasonLocalRefusedStreamReset =
     http_filter_stream_reset_reason_LocalRefusedStreamReset"

fun abi_socket_option_state :: "SocketOptionState \<Rightarrow> socket_option_state" where
  "abi_socket_option_state SocketOptionStatePrebind = socket_option_state_Prebind"
| "abi_socket_option_state SocketOptionStateBound = socket_option_state_Bound"
| "abi_socket_option_state SocketOptionStateListening = socket_option_state_Listening"

fun abi_socket_direction :: "SocketDirection \<Rightarrow> socket_direction" where
  "abi_socket_direction SocketDirectionUpstream = socket_direction_Upstream"
| "abi_socket_direction SocketDirectionDownstream = socket_direction_Downstream"

fun abi_metrics_result :: "MetricsResult \<Rightarrow> metrics_result" where
  "abi_metrics_result MetricsSuccess = metrics_result_Success"
| "abi_metrics_result MetricsNotFound = metrics_result_MetricNotFound"
| "abi_metrics_result MetricsInvalidTags = metrics_result_InvalidLabels"
| "abi_metrics_result MetricsFrozen = metrics_result_Frozen"

fun abi_socket_option_value_type :: "SocketOptionValueType \<Rightarrow> socket_option_value_type" where
  "abi_socket_option_value_type SocketOptionValueTypeInt = socket_option_value_type_Int"
| "abi_socket_option_value_type SocketOptionValueTypeBytes = socket_option_value_type_Bytes"

fun abi_network_filter_data_status :: "NetworkFilterStatus \<Rightarrow> on_network_filter_data_status" where
  "abi_network_filter_data_status NetworkFilterStatusContinue =
     on_network_filter_data_status_Continue"
| "abi_network_filter_data_status NetworkFilterStatusStop =
     on_network_filter_data_status_StopIteration"

fun abi_network_connection_close_type :: "NetworkConnectionCloseType \<Rightarrow> network_connection_close_type" where
  "abi_network_connection_close_type NetworkConnectionCloseTypeFlushWrite =
     network_connection_close_type_FlushWrite"
| "abi_network_connection_close_type NetworkConnectionCloseTypeNoFlush =
     network_connection_close_type_NoFlush"
| "abi_network_connection_close_type NetworkConnectionCloseTypeFlushWriteAndDelay =
     network_connection_close_type_FlushWriteAndDelay"
| "abi_network_connection_close_type NetworkConnectionCloseTypeAbort =
     network_connection_close_type_Abort"
| "abi_network_connection_close_type NetworkConnectionCloseTypeAbortReset =
     network_connection_close_type_AbortReset"

fun abi_network_connection_event :: "NetworkConnectionEvent \<Rightarrow> network_connection_event" where
  "abi_network_connection_event NetworkConnectionEventRemoteClose =
     network_connection_event_RemoteClose"
| "abi_network_connection_event NetworkConnectionEventLocalClose =
     network_connection_event_LocalClose"
| "abi_network_connection_event NetworkConnectionEventConnected =
     network_connection_event_Connected"
| "abi_network_connection_event NetworkConnectionEventConnectedZeroRTT =
     network_connection_event_ConnectedZeroRtt"

fun abi_network_connection_state :: "NetworkConnectionState \<Rightarrow> network_connection_state" where
  "abi_network_connection_state NetworkConnectionStateOpen = network_connection_state_Open"
| "abi_network_connection_state NetworkConnectionStateClosing = network_connection_state_Closing"
| "abi_network_connection_state NetworkConnectionStateClosed = network_connection_state_Closed"

fun abi_network_read_disable_status :: "NetworkReadDisableStatus \<Rightarrow> network_read_disable_status" where
  "abi_network_read_disable_status NetworkReadDisableStatusNoTransition =
     network_read_disable_status_NoTransition"
| "abi_network_read_disable_status NetworkReadDisableStatusStillReadDisabled =
     network_read_disable_status_StillReadDisabled"
| "abi_network_read_disable_status NetworkReadDisableStatusTransitionedToReadEnabled =
     network_read_disable_status_TransitionedToReadEnabled"
| "abi_network_read_disable_status NetworkReadDisableStatusTransitionedToReadDisabled =
     network_read_disable_status_TransitionedToReadDisabled"

fun abi_access_log_type :: "AccessLogType \<Rightarrow> access_log_type" where
  "abi_access_log_type AccessLogTypeNotSet = access_log_type_NotSet"
| "abi_access_log_type AccessLogTypeTcpUpstreamConnected = access_log_type_TcpUpstreamConnected"
| "abi_access_log_type AccessLogTypeTcpPeriodic = access_log_type_TcpPeriodic"
| "abi_access_log_type AccessLogTypeTcpConnectionEnd = access_log_type_TcpConnectionEnd"
| "abi_access_log_type AccessLogTypeDownstreamStart = access_log_type_DownstreamStart"
| "abi_access_log_type AccessLogTypeDownstreamPeriodic = access_log_type_DownstreamPeriodic"
| "abi_access_log_type AccessLogTypeDownstreamEnd = access_log_type_DownstreamEnd"
| "abi_access_log_type AccessLogTypeUpstreamPoolReady = access_log_type_UpstreamPoolReady"
| "abi_access_log_type AccessLogTypeUpstreamPeriodic = access_log_type_UpstreamPeriodic"
| "abi_access_log_type AccessLogTypeUpstreamEnd = access_log_type_UpstreamEnd"
| "abi_access_log_type AccessLogTypeDownstreamTunnelSuccessfullyEstablished =
     access_log_type_DownstreamTunnelSuccessfullyEstablished"
| "abi_access_log_type AccessLogTypeUdpTunnelUpstreamConnected =
     access_log_type_UdpTunnelUpstreamConnected"
| "abi_access_log_type AccessLogTypeUdpPeriodic = access_log_type_UdpPeriodic"
| "abi_access_log_type AccessLogTypeUdpSessionEnd = access_log_type_UdpSessionEnd"

fun abi_http_header_type :: "HttpHeaderType \<Rightarrow> http_header_type" where
  "abi_http_header_type HttpHeaderTypeRequest = http_header_type_RequestHeader"
| "abi_http_header_type HttpHeaderTypeRequestTrailer = http_header_type_RequestTrailer"
| "abi_http_header_type HttpHeaderTypeResponse = http_header_type_ResponseHeader"
| "abi_http_header_type HttpHeaderTypeResponseTrailer = http_header_type_ResponseTrailer"

section \<open>The numbers agree\<close>

interpretation rqh: enum_cast on_http_filter_request_headers_status_order HeadersStatus_value abi_http_filter_request_headers_status
proof
  show "HeadersStatus_value g = c_encode on_http_filter_request_headers_status_order (abi_http_filter_request_headers_status g)" for g
    by (cases g) (simp_all add: c_encode_def on_http_filter_request_headers_status_order_def )
qed (simp add: on_http_filter_request_headers_status_order_def)

interpretation rsh: enum_cast on_http_filter_response_headers_status_order HeadersStatus_value abi_http_filter_response_headers_status
proof
  show "HeadersStatus_value g = c_encode on_http_filter_response_headers_status_order (abi_http_filter_response_headers_status g)" for g
    by (cases g) (simp_all add: c_encode_def on_http_filter_response_headers_status_order_def )
qed (simp add: on_http_filter_response_headers_status_order_def)

interpretation rqb: enum_cast on_http_filter_request_body_status_order BodyStatus_value abi_http_filter_request_body_status
proof
  show "BodyStatus_value g = c_encode on_http_filter_request_body_status_order (abi_http_filter_request_body_status g)" for g
    by (cases g) (simp_all add: c_encode_def on_http_filter_request_body_status_order_def )
qed (simp add: on_http_filter_request_body_status_order_def)

interpretation rsb: enum_cast on_http_filter_response_body_status_order BodyStatus_value abi_http_filter_response_body_status
proof
  show "BodyStatus_value g = c_encode on_http_filter_response_body_status_order (abi_http_filter_response_body_status g)" for g
    by (cases g) (simp_all add: c_encode_def on_http_filter_response_body_status_order_def )
qed (simp add: on_http_filter_response_body_status_order_def)

interpretation rqt: enum_cast on_http_filter_request_trailers_status_order TrailersStatus_value abi_http_filter_request_trailers_status
proof
  show "TrailersStatus_value g = c_encode on_http_filter_request_trailers_status_order (abi_http_filter_request_trailers_status g)" for g
    by (cases g) (simp_all add: c_encode_def on_http_filter_request_trailers_status_order_def )
qed (simp add: on_http_filter_request_trailers_status_order_def)

interpretation rst: enum_cast on_http_filter_response_trailers_status_order TrailersStatus_value abi_http_filter_response_trailers_status
proof
  show "TrailersStatus_value g = c_encode on_http_filter_response_trailers_status_order (abi_http_filter_response_trailers_status g)" for g
    by (cases g) (simp_all add: c_encode_def on_http_filter_response_trailers_status_order_def )
qed (simp add: on_http_filter_response_trailers_status_order_def)

interpretation lrs: enum_cast on_http_filter_local_reply_status_order LocalReplyStatus_value abi_http_filter_local_reply_status
proof
  show "LocalReplyStatus_value g = c_encode on_http_filter_local_reply_status_order (abi_http_filter_local_reply_status g)" for g
    by (cases g) (simp_all add: c_encode_def on_http_filter_local_reply_status_order_def )
qed (simp add: on_http_filter_local_reply_status_order_def)

lemma attr_listed:
  "map abi_attribute_id AttributeID_iota = attribute_id_order"
  by (simp add: AttributeID_iota_def attribute_id_order_def)

lemma AttributeID_iota_distinct: "distinct AttributeID_iota \<and> g \<in> set AttributeID_iota"
proof
  show "distinct AttributeID_iota" by (simp add: AttributeID_iota_def)
  show "g \<in> set AttributeID_iota"
    unfolding AttributeID_iota_def by (cases g; hypsubst; (rule list.set_intros)+)
qed

lemma attr_tr_inj: "inj abi_attribute_id"
  by (rule injI) (metis attr_listed AttributeID_iota_distinct attribute_id.distinct_order distinct_map inj_on_def)

interpretation attr: enum_cast attribute_id_order AttributeID_value abi_attribute_id
proof
  fix g
  have "position (abi_attribute_id g) (map abi_attribute_id AttributeID_iota) = position g AttributeID_iota"
    using attr_tr_inj by (rule position_map)
  then show "AttributeID_value g = c_encode attribute_id_order (abi_attribute_id g)"
    by (simp add: c_encode_def AttributeID_value_def attr_listed)
qed (simp add: attribute_id_order_def)

interpretation lvl: enum_cast log_level_order LogLevel_value abi_log_level
proof
  show "LogLevel_value g = c_encode log_level_order (abi_log_level g)" for g
    by (cases g) (simp_all add: c_encode_def log_level_order_def LogLevel_value_def LogLevel_iota_def)
qed (simp add: log_level_order_def)

interpretation cir: enum_cast http_callout_init_result_order HttpCalloutInitResult_value abi_http_callout_init_result
proof
  show "HttpCalloutInitResult_value g = c_encode http_callout_init_result_order (abi_http_callout_init_result g)" for g
    by (cases g) (simp_all add: c_encode_def http_callout_init_result_order_def HttpCalloutInitResult_value_def HttpCalloutInitResult_iota_def)
qed (simp add: http_callout_init_result_order_def)

interpretation cor: enum_cast http_callout_result_order HttpCalloutResult_value abi_http_callout_result
proof
  show "HttpCalloutResult_value g = c_encode http_callout_result_order (abi_http_callout_result g)" for g
    by (cases g) (simp_all add: c_encode_def http_callout_result_order_def HttpCalloutResult_value_def HttpCalloutResult_iota_def)
qed (simp add: http_callout_result_order_def)

interpretation mds: enum_cast metadata_source_order MetadataSourceType_value abi_metadata_source
proof
  show "MetadataSourceType_value g = c_encode metadata_source_order (abi_metadata_source g)" for g
    by (cases g) (simp_all add: c_encode_def metadata_source_order_def MetadataSourceType_value_def MetadataSourceType_iota_def)
qed (simp add: metadata_source_order_def)

interpretation srr: enum_cast http_stream_reset_reason_order HttpStreamResetReason_value abi_http_stream_reset_reason
proof
  show "HttpStreamResetReason_value g = c_encode http_stream_reset_reason_order (abi_http_stream_reset_reason g)" for g
    by (cases g) (simp_all add: c_encode_def http_stream_reset_reason_order_def HttpStreamResetReason_value_def HttpStreamResetReason_iota_def)
qed (simp add: http_stream_reset_reason_order_def)

interpretation fsr: enum_cast http_filter_stream_reset_reason_order HttpFilterStreamResetReason_value abi_http_filter_stream_reset_reason
proof
  show "HttpFilterStreamResetReason_value g = c_encode http_filter_stream_reset_reason_order (abi_http_filter_stream_reset_reason g)" for g
    by (cases g) (simp_all add: c_encode_def http_filter_stream_reset_reason_order_def HttpFilterStreamResetReason_value_def HttpFilterStreamResetReason_iota_def)
qed (simp add: http_filter_stream_reset_reason_order_def)

interpretation sos: enum_cast socket_option_state_order SocketOptionState_value abi_socket_option_state
proof
  show "SocketOptionState_value g = c_encode socket_option_state_order (abi_socket_option_state g)" for g
    by (cases g) (simp_all add: c_encode_def socket_option_state_order_def SocketOptionState_value_def SocketOptionState_iota_def)
qed (simp add: socket_option_state_order_def)

interpretation sdr: enum_cast socket_direction_order SocketDirection_value abi_socket_direction
proof
  show "SocketDirection_value g = c_encode socket_direction_order (abi_socket_direction g)" for g
    by (cases g) (simp_all add: c_encode_def socket_direction_order_def SocketDirection_value_def SocketDirection_iota_def)
qed (simp add: socket_direction_order_def)

interpretation mtr: enum_cast metrics_result_order MetricsResult_value abi_metrics_result
proof
  show "MetricsResult_value g = c_encode metrics_result_order (abi_metrics_result g)" for g
    by (cases g) (simp_all add: c_encode_def metrics_result_order_def MetricsResult_value_def MetricsResult_iota_def)
qed (simp add: metrics_result_order_def)

interpretation svt: enum_cast socket_option_value_type_order SocketOptionValueType_value abi_socket_option_value_type
proof
  show "SocketOptionValueType_value g = c_encode socket_option_value_type_order (abi_socket_option_value_type g)" for g
    by (cases g) (simp_all add: c_encode_def socket_option_value_type_order_def SocketOptionValueType_value_def SocketOptionValueType_iota_def)
qed (simp add: socket_option_value_type_order_def)

interpretation nfs: enum_cast on_network_filter_data_status_order NetworkFilterStatus_value abi_network_filter_data_status
proof
  show "NetworkFilterStatus_value g = c_encode on_network_filter_data_status_order (abi_network_filter_data_status g)" for g
    by (cases g) (simp_all add: c_encode_def on_network_filter_data_status_order_def )
qed (simp add: on_network_filter_data_status_order_def)

interpretation nct: enum_cast network_connection_close_type_order NetworkConnectionCloseType_value abi_network_connection_close_type
proof
  show "NetworkConnectionCloseType_value g = c_encode network_connection_close_type_order (abi_network_connection_close_type g)" for g
    by (cases g) (simp_all add: c_encode_def network_connection_close_type_order_def NetworkConnectionCloseType_value_def NetworkConnectionCloseType_iota_def)
qed (simp add: network_connection_close_type_order_def)

interpretation nce: enum_cast network_connection_event_order NetworkConnectionEvent_value abi_network_connection_event
proof
  show "NetworkConnectionEvent_value g = c_encode network_connection_event_order (abi_network_connection_event g)" for g
    by (cases g) (simp_all add: c_encode_def network_connection_event_order_def NetworkConnectionEvent_value_def NetworkConnectionEvent_iota_def)
qed (simp add: network_connection_event_order_def)

interpretation ncs: enum_cast network_connection_state_order NetworkConnectionState_value abi_network_connection_state
proof
  show "NetworkConnectionState_value g = c_encode network_connection_state_order (abi_network_connection_state g)" for g
    by (cases g) (simp_all add: c_encode_def network_connection_state_order_def NetworkConnectionState_value_def NetworkConnectionState_iota_def)
qed (simp add: network_connection_state_order_def)

interpretation nrd: enum_cast network_read_disable_status_order NetworkReadDisableStatus_value abi_network_read_disable_status
proof
  show "NetworkReadDisableStatus_value g = c_encode network_read_disable_status_order (abi_network_read_disable_status g)" for g
    by (cases g) (simp_all add: c_encode_def network_read_disable_status_order_def NetworkReadDisableStatus_value_def NetworkReadDisableStatus_iota_def)
qed (simp add: network_read_disable_status_order_def)

interpretation alt: enum_cast access_log_type_order AccessLogType_value abi_access_log_type
proof
  show "AccessLogType_value g = c_encode access_log_type_order (abi_access_log_type g)" for g
    by (cases g) (simp_all add: c_encode_def access_log_type_order_def )
qed (simp add: access_log_type_order_def)

interpretation hht: enum_cast http_header_type_order HttpHeaderType_value abi_http_header_type
proof
  show "HttpHeaderType_value g = c_encode http_header_type_order (abi_http_header_type g)" for g
    by (cases g) (simp_all add: c_encode_def http_header_type_order_def )
qed (simp add: http_header_type_order_def)

lemma cir_surj: "surj abi_http_callout_init_result"
  unfolding surj_def
proof
  show "\<exists>x. y = abi_http_callout_init_result x" for y
    by (cases y) (metis abi_http_callout_init_result.simps)+
qed

lemma cor_surj: "surj abi_http_callout_result"
  unfolding surj_def
proof
  show "\<exists>x. y = abi_http_callout_result x" for y
    by (cases y) (metis abi_http_callout_result.simps)+
qed

lemma srr_surj: "surj abi_http_stream_reset_reason"
  unfolding surj_def
proof
  show "\<exists>x. y = abi_http_stream_reset_reason x" for y
    by (cases y) (metis abi_http_stream_reset_reason.simps)+
qed

lemma mtr_surj: "surj abi_metrics_result"
  unfolding surj_def
proof
  show "\<exists>x. y = abi_metrics_result x" for y
    by (cases y) (metis abi_metrics_result.simps)+
qed

lemma nce_surj: "surj abi_network_connection_event"
  unfolding surj_def
proof
  show "\<exists>x. y = abi_network_connection_event x" for y
    by (cases y) (metis abi_network_connection_event.simps)+
qed

lemma alt_surj: "surj abi_access_log_type"
  unfolding surj_def
proof
  show "\<exists>x. y = abi_access_log_type x" for y
    by (cases y) (metis abi_access_log_type.simps)+
qed

lemma surj_attr: "surj abi_attribute_id"
proof (rule surjI)
  show "abi_attribute_id (AttributeID_iota ! c_encode attribute_id_order c) = c" for c
  proof -
    let ?n = "c_encode attribute_id_order c"
    have "?n < length AttributeID_iota"
      using attribute_id.encode_bound [of c] attr_listed by (metis length_map)
    then have "abi_attribute_id (AttributeID_iota ! ?n) = attribute_id_order ! ?n"
      by (simp flip: attr_listed)
    then show ?thesis
      by (simp add: c_encode_def nth_position attribute_id.all_listed)
  qed
qed

section \<open>Properties of the conversions\<close>

text \<open>C29: every status a filter can return is converted by the numeric cast to the ABI enumerator
  it is named after, in all ten hooks that return one: seven of an HTTP filter, each with an enumeration
  of its own, and the three of a network filter (new connection, read, write), which share one. In particular the gap in the numbering of
  \<open>HeadersStatus\<close> (2 is not used) skips the ABI's \<open>ContinueAndDontEndStream\<close>.\<close>

theorem hook_statuses_conform:
  "c_meaning on_http_filter_request_headers_status_order (go_cast HeadersStatus_value h) =
     Some (abi_http_filter_request_headers_status h) \<and>
   c_meaning on_http_filter_response_headers_status_order (go_cast HeadersStatus_value h) =
     Some (abi_http_filter_response_headers_status h) \<and>
   c_meaning on_http_filter_request_body_status_order (go_cast BodyStatus_value b) =
     Some (abi_http_filter_request_body_status b) \<and>
   c_meaning on_http_filter_response_body_status_order (go_cast BodyStatus_value b) =
     Some (abi_http_filter_response_body_status b) \<and>
   c_meaning on_http_filter_request_trailers_status_order (go_cast TrailersStatus_value t) =
     Some (abi_http_filter_request_trailers_status t) \<and>
   c_meaning on_http_filter_response_trailers_status_order (go_cast TrailersStatus_value t) =
     Some (abi_http_filter_response_trailers_status t) \<and>
   c_meaning on_http_filter_local_reply_status_order (go_cast LocalReplyStatus_value l) =
     Some (abi_http_filter_local_reply_status l) \<and>
   c_meaning on_network_filter_data_status_order (go_cast NetworkFilterStatus_value n) =
     Some (abi_network_filter_data_status n) \<and>
   abi_http_filter_request_headers_status h \<noteq>
     on_http_filter_request_headers_status_ContinueAndDontEndStream"
  by (intro conjI rqh.cast_meaning rsh.cast_meaning rqb.cast_meaning rsb.cast_meaning
      rqt.cast_meaning rst.cast_meaning lrs.cast_meaning nfs.cast_meaning) (cases h; simp)

text \<open>The 68 attribute identifiers of package \<open>shared\<close> are, number for number, the attribute
  identifiers of the ABI: the cast of each has the meaning its name says, and every ABI attribute
  has a Go name.\<close>

theorem attribute_ids_conform:
  "c_meaning attribute_id_order (go_cast AttributeID_value a) = Some (abi_attribute_id a) \<and>
   bij abi_attribute_id"
  using attr_tr_inj surj_attr by (auto simp: attr.cast_meaning bij_def)

text \<open>Every result, reason and event that Envoy can hand to the module has the number of the Go
  constant of the same name: reading the C value as the Go enumeration never falls outside it.\<close>

theorem envoy_results_readable:
  "(\<exists>g. go_cast HttpCalloutInitResult_value g = c_const http_callout_init_result_order cir) \<and>
   (\<exists>g. go_cast HttpCalloutResult_value g = c_const http_callout_result_order cor) \<and>
   (\<exists>g. go_cast HttpStreamResetReason_value g = c_const http_stream_reset_reason_order srr) \<and>
   (\<exists>g. go_cast MetricsResult_value g = c_const metrics_result_order mr) \<and>
   (\<exists>g. go_cast NetworkConnectionEvent_value g = c_const network_connection_event_order ev) \<and>
   (\<exists>g. go_cast AccessLogType_value g = c_const access_log_type_order alt)"
  by (intro conjI cir.reading_onto cor.reading_onto srr.reading_onto mtr.reading_onto
      nce.reading_onto alt.reading_onto cir_surj cor_surj srr_surj mtr_surj nce_surj alt_surj)

end
