(* ===== verification/AbiHttpHost.thy ===== *)
theory AbiHttpHost
  imports AbiStructs
begin

text \<open>
  The callbacks of abi/abi.h that an HTTP filter module calls, one record per section of the
  header. Their implementation is Envoy's and is not in the repository: a value of these records is
  a parameter of the model, and \<open>'h\<close> is Envoy's state. A C array passed with its size is a list; a
  parameter the callback writes through is a component of the result, beside the returned value:
  an array is what was written from its start, and a variable is \<open>None\<close> when it was not written.
\<close>

section \<open>Common callbacks\<close>

record 'h host_log =
  cb_log ::
    "log_level c_val \<Rightarrow> module_buffer \<Rightarrow> 'h \<Rightarrow> unit \<times> 'h"
  cb_log_enabled ::
    "log_level c_val \<Rightarrow> 'h \<Rightarrow> bool \<times> 'h"

record 'h host_process =
  cb_get_concurrency ::
    "'h \<Rightarrow> u32 \<times> 'h"
  cb_is_validation_mode ::
    "'h \<Rightarrow> bool \<times> 'h"
  cb_register_function ::
    "module_buffer \<Rightarrow> ptr \<Rightarrow> 'h \<Rightarrow> bool \<times> 'h"
  cb_get_function ::
    "module_buffer \<Rightarrow> 'h \<Rightarrow> (bool \<times> ptr option) \<times> 'h"
  cb_register_shared_data ::
    "module_buffer \<Rightarrow> ptr \<Rightarrow> 'h \<Rightarrow> bool \<times> 'h"
  cb_get_shared_data ::
    "module_buffer \<Rightarrow> 'h \<Rightarrow> (bool \<times> ptr option) \<times> 'h"

section \<open>Metrics\<close>

record 'h host_metrics_1 =
  cb_http_filter_config_define_counter ::
    "http_filter_config_envoy_ptr \<Rightarrow> module_buffer \<Rightarrow> module_buffer list \<Rightarrow> 'h \<Rightarrow> (metrics_result
      c_val \<times> u64 option) \<times> 'h"
  cb_http_filter_increment_counter ::
    "http_filter_envoy_ptr \<Rightarrow> u64 \<Rightarrow> module_buffer list \<Rightarrow> u64 \<Rightarrow> 'h \<Rightarrow> metrics_result c_val \<times> 'h"
  cb_http_filter_config_define_gauge ::
    "http_filter_config_envoy_ptr \<Rightarrow> module_buffer \<Rightarrow> module_buffer list \<Rightarrow> 'h \<Rightarrow> (metrics_result
      c_val \<times> u64 option) \<times> 'h"
  cb_http_filter_increment_gauge ::
    "http_filter_envoy_ptr \<Rightarrow> u64 \<Rightarrow> module_buffer list \<Rightarrow> u64 \<Rightarrow> 'h \<Rightarrow> metrics_result c_val \<times> 'h"
  cb_http_filter_decrement_gauge ::
    "http_filter_envoy_ptr \<Rightarrow> u64 \<Rightarrow> module_buffer list \<Rightarrow> u64 \<Rightarrow> 'h \<Rightarrow> metrics_result c_val \<times> 'h"
  cb_http_filter_set_gauge ::
    "http_filter_envoy_ptr \<Rightarrow> u64 \<Rightarrow> module_buffer list \<Rightarrow> u64 \<Rightarrow> 'h \<Rightarrow> metrics_result c_val \<times> 'h"

record 'h host_metrics_2 =
  cb_http_filter_config_define_histogram ::
    "http_filter_config_envoy_ptr \<Rightarrow> module_buffer \<Rightarrow> module_buffer list \<Rightarrow> 'h \<Rightarrow> (metrics_result
      c_val \<times> u64 option) \<times> 'h"
  cb_http_filter_record_histogram_value ::
    "http_filter_envoy_ptr \<Rightarrow> u64 \<Rightarrow> module_buffer list \<Rightarrow> u64 \<Rightarrow> 'h \<Rightarrow> metrics_result c_val \<times> 'h"

section \<open>Headers\<close>

record 'h host_headers =
  cb_http_get_header ::
    "http_filter_envoy_ptr \<Rightarrow> http_header_type c_val \<Rightarrow> module_buffer \<Rightarrow> u64 \<Rightarrow> 'h \<Rightarrow> (bool \<times>
      envoy_buffer option \<times> u64 option) \<times> 'h"
  cb_http_get_headers_size ::
    "http_filter_envoy_ptr \<Rightarrow> http_header_type c_val \<Rightarrow> 'h \<Rightarrow> u64 \<times> 'h"
  cb_http_get_headers ::
    "http_filter_envoy_ptr \<Rightarrow> http_header_type c_val \<Rightarrow> 'h \<Rightarrow> (bool \<times> envoy_http_header list) \<times> 'h"
  cb_http_add_header ::
    "http_filter_envoy_ptr \<Rightarrow> http_header_type c_val \<Rightarrow> module_buffer \<Rightarrow> module_buffer \<Rightarrow> 'h \<Rightarrow> bool \<times>
      'h"
  cb_http_set_header ::
    "http_filter_envoy_ptr \<Rightarrow> http_header_type c_val \<Rightarrow> module_buffer \<Rightarrow> module_buffer \<Rightarrow> 'h \<Rightarrow> bool \<times>
      'h"

section \<open>Local responses\<close>

record 'h host_local_response =
  cb_http_send_response ::
    "http_filter_envoy_ptr \<Rightarrow> u32 \<Rightarrow> module_http_header list \<Rightarrow> module_buffer \<Rightarrow> module_buffer \<Rightarrow> 'h \<Rightarrow>
      unit \<times> 'h"
  cb_http_send_response_headers ::
    "http_filter_envoy_ptr \<Rightarrow> module_http_header list \<Rightarrow> bool \<Rightarrow> 'h \<Rightarrow> unit \<times> 'h"
  cb_http_send_response_data ::
    "http_filter_envoy_ptr \<Rightarrow> module_buffer \<Rightarrow> bool \<Rightarrow> 'h \<Rightarrow> unit \<times> 'h"
  cb_http_send_response_trailers ::
    "http_filter_envoy_ptr \<Rightarrow> module_http_header list \<Rightarrow> 'h \<Rightarrow> unit \<times> 'h"

section \<open>Bodies\<close>

record 'h host_body =
  cb_http_get_body_size ::
    "http_filter_envoy_ptr \<Rightarrow> http_body_type c_val \<Rightarrow> 'h \<Rightarrow> u64 \<times> 'h"
  cb_http_get_body_chunks ::
    "http_filter_envoy_ptr \<Rightarrow> http_body_type c_val \<Rightarrow> 'h \<Rightarrow> (bool \<times> envoy_buffer list) \<times> 'h"
  cb_http_get_body_chunks_size ::
    "http_filter_envoy_ptr \<Rightarrow> http_body_type c_val \<Rightarrow> 'h \<Rightarrow> u64 \<times> 'h"
  cb_http_append_body ::
    "http_filter_envoy_ptr \<Rightarrow> http_body_type c_val \<Rightarrow> module_buffer \<Rightarrow> 'h \<Rightarrow> bool \<times> 'h"
  cb_http_drain_body ::
    "http_filter_envoy_ptr \<Rightarrow> http_body_type c_val \<Rightarrow> u64 \<Rightarrow> 'h \<Rightarrow> bool \<times> 'h"
  cb_http_received_buffered_request_body ::
    "http_filter_envoy_ptr \<Rightarrow> 'h \<Rightarrow> bool \<times> 'h"
  cb_http_received_buffered_response_body ::
    "http_filter_envoy_ptr \<Rightarrow> 'h \<Rightarrow> bool \<times> 'h"

section \<open>Dynamic metadata\<close>

record 'h host_metadata_1 =
  cb_http_set_dynamic_metadata_number ::
    "http_filter_envoy_ptr \<Rightarrow> module_buffer \<Rightarrow> module_buffer \<Rightarrow> f64 \<Rightarrow> 'h \<Rightarrow> unit \<times> 'h"
  cb_http_get_metadata_number ::
    "http_filter_envoy_ptr \<Rightarrow> metadata_source c_val \<Rightarrow> module_buffer \<Rightarrow> module_buffer \<Rightarrow> 'h \<Rightarrow> (bool \<times>
      f64 option) \<times> 'h"
  cb_http_set_dynamic_metadata_string ::
    "http_filter_envoy_ptr \<Rightarrow> module_buffer \<Rightarrow> module_buffer \<Rightarrow> module_buffer \<Rightarrow> 'h \<Rightarrow> unit \<times> 'h"
  cb_http_get_metadata_string ::
    "http_filter_envoy_ptr \<Rightarrow> metadata_source c_val \<Rightarrow> module_buffer \<Rightarrow> module_buffer \<Rightarrow> 'h \<Rightarrow> (bool \<times>
      envoy_buffer option) \<times> 'h"
  cb_http_set_dynamic_metadata_bool ::
    "http_filter_envoy_ptr \<Rightarrow> module_buffer \<Rightarrow> module_buffer \<Rightarrow> bool \<Rightarrow> 'h \<Rightarrow> unit \<times> 'h"
  cb_http_get_metadata_bool ::
    "http_filter_envoy_ptr \<Rightarrow> metadata_source c_val \<Rightarrow> module_buffer \<Rightarrow> module_buffer \<Rightarrow> 'h \<Rightarrow> (bool \<times>
      bool option) \<times> 'h"
  cb_http_get_metadata_keys_count ::
    "http_filter_envoy_ptr \<Rightarrow> metadata_source c_val \<Rightarrow> module_buffer \<Rightarrow> 'h \<Rightarrow> u64 \<times> 'h"

record 'h host_metadata_2 =
  cb_http_get_metadata_keys ::
    "http_filter_envoy_ptr \<Rightarrow> metadata_source c_val \<Rightarrow> module_buffer \<Rightarrow> 'h \<Rightarrow> (bool \<times> envoy_buffer
      list) \<times> 'h"
  cb_http_get_metadata_namespaces_count ::
    "http_filter_envoy_ptr \<Rightarrow> metadata_source c_val \<Rightarrow> 'h \<Rightarrow> u64 \<times> 'h"
  cb_http_get_metadata_namespaces ::
    "http_filter_envoy_ptr \<Rightarrow> metadata_source c_val \<Rightarrow> 'h \<Rightarrow> (bool \<times> envoy_buffer list) \<times> 'h"
  cb_http_add_dynamic_metadata_list_number ::
    "http_filter_envoy_ptr \<Rightarrow> module_buffer \<Rightarrow> module_buffer \<Rightarrow> f64 \<Rightarrow> 'h \<Rightarrow> bool \<times> 'h"
  cb_http_add_dynamic_metadata_list_string ::
    "http_filter_envoy_ptr \<Rightarrow> module_buffer \<Rightarrow> module_buffer \<Rightarrow> module_buffer \<Rightarrow> 'h \<Rightarrow> bool \<times> 'h"
  cb_http_add_dynamic_metadata_list_bool ::
    "http_filter_envoy_ptr \<Rightarrow> module_buffer \<Rightarrow> module_buffer \<Rightarrow> bool \<Rightarrow> 'h \<Rightarrow> bool \<times> 'h"
  cb_http_get_metadata_list_size ::
    "http_filter_envoy_ptr \<Rightarrow> metadata_source c_val \<Rightarrow> module_buffer \<Rightarrow> module_buffer \<Rightarrow> 'h \<Rightarrow> (bool \<times>
      u64 option) \<times> 'h"

record 'h host_metadata_3 =
  cb_http_get_metadata_list_number ::
    "http_filter_envoy_ptr \<Rightarrow> metadata_source c_val \<Rightarrow> module_buffer \<Rightarrow> module_buffer \<Rightarrow> u64 \<Rightarrow> 'h \<Rightarrow>
      (bool \<times> f64 option) \<times> 'h"
  cb_http_get_metadata_list_string ::
    "http_filter_envoy_ptr \<Rightarrow> metadata_source c_val \<Rightarrow> module_buffer \<Rightarrow> module_buffer \<Rightarrow> u64 \<Rightarrow> 'h \<Rightarrow>
      (bool \<times> envoy_buffer option) \<times> 'h"
  cb_http_get_metadata_list_bool ::
    "http_filter_envoy_ptr \<Rightarrow> metadata_source c_val \<Rightarrow> module_buffer \<Rightarrow> module_buffer \<Rightarrow> u64 \<Rightarrow> 'h \<Rightarrow>
      (bool \<times> bool option) \<times> 'h"

section \<open>Filter state and custom flags\<close>

record 'h host_filter_state =
  cb_http_set_filter_state_bytes ::
    "http_filter_envoy_ptr \<Rightarrow> module_buffer \<Rightarrow> module_buffer \<Rightarrow> 'h \<Rightarrow> bool \<times> 'h"
  cb_http_get_filter_state_bytes ::
    "http_filter_envoy_ptr \<Rightarrow> module_buffer \<Rightarrow> 'h \<Rightarrow> (bool \<times> envoy_buffer option) \<times> 'h"
  cb_http_set_filter_state_typed ::
    "http_filter_envoy_ptr \<Rightarrow> module_buffer \<Rightarrow> module_buffer \<Rightarrow> 'h \<Rightarrow> bool \<times> 'h"
  cb_http_get_filter_state_typed ::
    "http_filter_envoy_ptr \<Rightarrow> module_buffer \<Rightarrow> 'h \<Rightarrow> (bool \<times> envoy_buffer option) \<times> 'h"
  cb_http_add_custom_flag ::
    "http_filter_envoy_ptr \<Rightarrow> module_buffer \<Rightarrow> 'h \<Rightarrow> unit \<times> 'h"

section \<open>Schedulers\<close>

record 'h host_schedulers =
  cb_http_filter_scheduler_new ::
    "http_filter_envoy_ptr \<Rightarrow> 'h \<Rightarrow> http_filter_scheduler_module_ptr \<times> 'h"
  cb_http_filter_scheduler_commit ::
    "http_filter_scheduler_module_ptr \<Rightarrow> u64 \<Rightarrow> 'h \<Rightarrow> unit \<times> 'h"
  cb_http_filter_scheduler_delete ::
    "http_filter_scheduler_module_ptr \<Rightarrow> 'h \<Rightarrow> unit \<times> 'h"
  cb_http_filter_config_scheduler_new ::
    "http_filter_config_envoy_ptr \<Rightarrow> 'h \<Rightarrow> http_filter_config_scheduler_module_ptr \<times> 'h"
  cb_http_filter_config_scheduler_delete ::
    "http_filter_config_scheduler_module_ptr \<Rightarrow> 'h \<Rightarrow> unit \<times> 'h"
  cb_http_filter_config_scheduler_commit ::
    "http_filter_config_scheduler_module_ptr \<Rightarrow> u64 \<Rightarrow> 'h \<Rightarrow> unit \<times> 'h"

section \<open>Route, attributes, callouts and streams\<close>

record 'h host_stream_1 =
  cb_http_clear_route_cache ::
    "http_filter_envoy_ptr \<Rightarrow> 'h \<Rightarrow> unit \<times> 'h"
  cb_http_filter_get_attribute_string ::
    "http_filter_envoy_ptr \<Rightarrow> attribute_id c_val \<Rightarrow> 'h \<Rightarrow> (bool \<times> envoy_buffer option) \<times> 'h"
  cb_http_filter_get_attribute_int ::
    "http_filter_envoy_ptr \<Rightarrow> attribute_id c_val \<Rightarrow> 'h \<Rightarrow> (bool \<times> u64 option) \<times> 'h"
  cb_http_filter_get_attribute_bool ::
    "http_filter_envoy_ptr \<Rightarrow> attribute_id c_val \<Rightarrow> 'h \<Rightarrow> (bool \<times> bool option) \<times> 'h"
  cb_http_filter_http_callout ::
    "http_filter_envoy_ptr \<Rightarrow> module_buffer \<Rightarrow> module_http_header list \<Rightarrow> module_buffer \<Rightarrow> u64 \<Rightarrow> 'h \<Rightarrow>
      (http_callout_init_result c_val \<times> u64 option) \<times> 'h"
  cb_http_filter_start_http_stream ::
    "http_filter_envoy_ptr \<Rightarrow> module_buffer \<Rightarrow> module_http_header list \<Rightarrow> module_buffer \<Rightarrow> bool \<Rightarrow> u64
      \<Rightarrow> 'h \<Rightarrow> (http_callout_init_result c_val \<times> u64 option) \<times> 'h"
  cb_http_filter_reset_http_stream ::
    "http_filter_envoy_ptr \<Rightarrow> u64 \<Rightarrow> 'h \<Rightarrow> unit \<times> 'h"

record 'h host_stream_2 =
  cb_http_stream_send_data ::
    "http_filter_envoy_ptr \<Rightarrow> u64 \<Rightarrow> module_buffer \<Rightarrow> bool \<Rightarrow> 'h \<Rightarrow> bool \<times> 'h"
  cb_http_stream_send_trailers ::
    "http_filter_envoy_ptr \<Rightarrow> u64 \<Rightarrow> module_http_header list \<Rightarrow> 'h \<Rightarrow> bool \<times> 'h"
  cb_http_filter_config_http_callout ::
    "http_filter_config_envoy_ptr \<Rightarrow> module_buffer \<Rightarrow> module_http_header list \<Rightarrow> module_buffer \<Rightarrow> u64
      \<Rightarrow> 'h \<Rightarrow> (http_callout_init_result c_val \<times> u64 option) \<times> 'h"
  cb_http_filter_config_start_http_stream ::
    "http_filter_config_envoy_ptr \<Rightarrow> module_buffer \<Rightarrow> module_http_header list \<Rightarrow> module_buffer \<Rightarrow>
      bool \<Rightarrow> u64 \<Rightarrow> 'h \<Rightarrow> (http_callout_init_result c_val \<times> u64 option) \<times> 'h"
  cb_http_filter_config_reset_http_stream ::
    "http_filter_config_envoy_ptr \<Rightarrow> u64 \<Rightarrow> 'h \<Rightarrow> unit \<times> 'h"
  cb_http_filter_config_stream_send_data ::
    "http_filter_config_envoy_ptr \<Rightarrow> u64 \<Rightarrow> module_buffer \<Rightarrow> bool \<Rightarrow> 'h \<Rightarrow> bool \<times> 'h"

record 'h host_stream_3 =
  cb_http_filter_config_stream_send_trailers ::
    "http_filter_config_envoy_ptr \<Rightarrow> u64 \<Rightarrow> module_http_header list \<Rightarrow> 'h \<Rightarrow> bool \<times> 'h"
  cb_http_filter_continue_decoding ::
    "http_filter_envoy_ptr \<Rightarrow> 'h \<Rightarrow> unit \<times> 'h"
  cb_http_filter_continue_encoding ::
    "http_filter_envoy_ptr \<Rightarrow> 'h \<Rightarrow> unit \<times> 'h"
  cb_get_most_specific_route_config ::
    "http_filter_envoy_ptr \<Rightarrow> 'h \<Rightarrow> http_filter_per_route_config_module_ptr \<times> 'h"
  cb_http_filter_get_worker_index ::
    "http_filter_envoy_ptr \<Rightarrow> 'h \<Rightarrow> u32 \<times> 'h"

section \<open>Socket options and buffer limits\<close>

record 'h host_socket =
  cb_http_set_socket_option_int ::
    "http_filter_envoy_ptr \<Rightarrow> i64 \<Rightarrow> i64 \<Rightarrow> socket_option_state c_val \<Rightarrow> socket_direction c_val \<Rightarrow> i64
      \<Rightarrow> 'h \<Rightarrow> bool \<times> 'h"
  cb_http_set_socket_option_bytes ::
    "http_filter_envoy_ptr \<Rightarrow> i64 \<Rightarrow> i64 \<Rightarrow> socket_option_state c_val \<Rightarrow> socket_direction c_val \<Rightarrow>
      module_buffer \<Rightarrow> 'h \<Rightarrow> bool \<times> 'h"
  cb_http_get_socket_option_int ::
    "http_filter_envoy_ptr \<Rightarrow> i64 \<Rightarrow> i64 \<Rightarrow> socket_option_state c_val \<Rightarrow> socket_direction c_val \<Rightarrow> 'h
      \<Rightarrow> (bool \<times> i64 option) \<times> 'h"
  cb_http_get_socket_option_bytes ::
    "http_filter_envoy_ptr \<Rightarrow> i64 \<Rightarrow> i64 \<Rightarrow> socket_option_state c_val \<Rightarrow> socket_direction c_val \<Rightarrow> 'h
      \<Rightarrow> (bool \<times> envoy_buffer option) \<times> 'h"
  cb_http_get_buffer_limit ::
    "http_filter_envoy_ptr \<Rightarrow> 'h \<Rightarrow> u64 \<times> 'h"
  cb_http_set_buffer_limit ::
    "http_filter_envoy_ptr \<Rightarrow> u64 \<Rightarrow> 'h \<Rightarrow> unit \<times> 'h"

section \<open>Tracing\<close>

record 'h host_span_1 =
  cb_http_get_active_span ::
    "http_filter_envoy_ptr \<Rightarrow> 'h \<Rightarrow> span_envoy_ptr \<times> 'h"
  cb_http_span_set_tag ::
    "span_envoy_ptr \<Rightarrow> module_buffer \<Rightarrow> module_buffer \<Rightarrow> 'h \<Rightarrow> unit \<times> 'h"
  cb_http_span_set_operation ::
    "span_envoy_ptr \<Rightarrow> module_buffer \<Rightarrow> 'h \<Rightarrow> unit \<times> 'h"
  cb_http_span_log ::
    "http_filter_envoy_ptr \<Rightarrow> span_envoy_ptr \<Rightarrow> module_buffer \<Rightarrow> 'h \<Rightarrow> unit \<times> 'h"
  cb_http_span_set_sampled ::
    "span_envoy_ptr \<Rightarrow> bool \<Rightarrow> 'h \<Rightarrow> unit \<times> 'h"
  cb_http_span_get_baggage ::
    "span_envoy_ptr \<Rightarrow> module_buffer \<Rightarrow> 'h \<Rightarrow> (bool \<times> envoy_buffer option) \<times> 'h"
  cb_http_span_set_baggage ::
    "span_envoy_ptr \<Rightarrow> module_buffer \<Rightarrow> module_buffer \<Rightarrow> 'h \<Rightarrow> unit \<times> 'h"
  cb_http_span_get_trace_id ::
    "span_envoy_ptr \<Rightarrow> 'h \<Rightarrow> (bool \<times> envoy_buffer option) \<times> 'h"
  cb_http_span_get_span_id ::
    "span_envoy_ptr \<Rightarrow> 'h \<Rightarrow> (bool \<times> envoy_buffer option) \<times> 'h"
  cb_http_span_spawn_child ::
    "http_filter_envoy_ptr \<Rightarrow> span_envoy_ptr \<Rightarrow> module_buffer \<Rightarrow> 'h \<Rightarrow> child_span_module_ptr \<times> 'h"

record 'h host_span_2 =
  cb_http_child_span_finish ::
    "child_span_module_ptr \<Rightarrow> 'h \<Rightarrow> unit \<times> 'h"

section \<open>Cluster\<close>

record 'h host_cluster =
  cb_http_get_cluster_name ::
    "http_filter_envoy_ptr \<Rightarrow> 'h \<Rightarrow> (bool \<times> envoy_buffer option) \<times> 'h"
  cb_http_get_cluster_host_count ::
    "http_filter_envoy_ptr \<Rightarrow> u32 \<Rightarrow> 'h \<Rightarrow> (bool \<times> u64 option \<times> u64 option \<times> u64 option) \<times> 'h"
  cb_http_set_upstream_override_host ::
    "http_filter_envoy_ptr \<Rightarrow> module_buffer \<Rightarrow> bool \<Rightarrow> 'h \<Rightarrow> bool \<times> 'h"

section \<open>Stream control\<close>

record 'h host_control =
  cb_http_filter_reset_stream ::
    "http_filter_envoy_ptr \<Rightarrow> http_filter_stream_reset_reason c_val \<Rightarrow> module_buffer \<Rightarrow> 'h \<Rightarrow> unit \<times>
      'h"
  cb_http_filter_send_go_away_and_close ::
    "http_filter_envoy_ptr \<Rightarrow> bool \<Rightarrow> 'h \<Rightarrow> unit \<times> 'h"
  cb_http_filter_recreate_stream ::
    "http_filter_envoy_ptr \<Rightarrow> module_http_header list \<Rightarrow> 'h \<Rightarrow> bool \<times> 'h"
  cb_http_clear_route_cluster_cache ::
    "http_filter_envoy_ptr \<Rightarrow> 'h \<Rightarrow> unit \<times> 'h"

end
