(* ===== verification/AbiHttpHooks.thy ===== *)
theory AbiHttpHooks
  imports AbiStructs
begin

text \<open>
  The event hooks of abi/abi.h that Envoy calls on an HTTP filter module. A value of these records is
  a module: \<open>'m\<close> is the module's state, and a hook that aborts the process is a \<open>Panic\<close>. The model of the Go module is such a value.
\<close>

section \<open>Common hooks\<close>

record 'm hook_program =
  on_program_init ::
    "'m \<Rightarrow> (abi_version_module_ptr \<times> 'm) go"

section \<open>HTTP filter hooks\<close>

record 'm hooks_http_1 =
  on_http_filter_config_new ::
    "http_filter_config_envoy_ptr \<Rightarrow> envoy_buffer \<Rightarrow> envoy_buffer \<Rightarrow> 'm \<Rightarrow>
      (http_filter_config_module_ptr \<times> 'm) go"
  on_http_filter_config_destroy ::
    "http_filter_config_module_ptr \<Rightarrow> 'm \<Rightarrow> (unit \<times> 'm) go"
  on_http_filter_per_route_config_new ::
    "envoy_buffer \<Rightarrow> envoy_buffer \<Rightarrow> 'm \<Rightarrow> (http_filter_per_route_config_module_ptr \<times> 'm) go"
  on_http_filter_per_route_config_destroy ::
    "http_filter_per_route_config_module_ptr \<Rightarrow> 'm \<Rightarrow> (unit \<times> 'm) go"
  on_http_filter_new ::
    "http_filter_config_module_ptr \<Rightarrow> http_filter_envoy_ptr \<Rightarrow> 'm \<Rightarrow> (http_filter_module_ptr \<times> 'm)
      go"
  on_http_filter_request_headers ::
    "http_filter_envoy_ptr \<Rightarrow> http_filter_module_ptr \<Rightarrow> bool \<Rightarrow> 'm \<Rightarrow>
      (on_http_filter_request_headers_status c_val \<times> 'm) go"
  on_http_filter_request_body ::
    "http_filter_envoy_ptr \<Rightarrow> http_filter_module_ptr \<Rightarrow> bool \<Rightarrow> 'm \<Rightarrow>
      (on_http_filter_request_body_status c_val \<times> 'm) go"
  on_http_filter_request_trailers ::
    "http_filter_envoy_ptr \<Rightarrow> http_filter_module_ptr \<Rightarrow> 'm \<Rightarrow>
      (on_http_filter_request_trailers_status c_val \<times> 'm) go"
  on_http_filter_response_headers ::
    "http_filter_envoy_ptr \<Rightarrow> http_filter_module_ptr \<Rightarrow> bool \<Rightarrow> 'm \<Rightarrow>
      (on_http_filter_response_headers_status c_val \<times> 'm) go"
  on_http_filter_response_body ::
    "http_filter_envoy_ptr \<Rightarrow> http_filter_module_ptr \<Rightarrow> bool \<Rightarrow> 'm \<Rightarrow>
      (on_http_filter_response_body_status c_val \<times> 'm) go"

record 'm hooks_http_2 =
  on_http_filter_response_trailers ::
    "http_filter_envoy_ptr \<Rightarrow> http_filter_module_ptr \<Rightarrow> 'm \<Rightarrow>
      (on_http_filter_response_trailers_status c_val \<times> 'm) go"
  on_http_filter_stream_complete ::
    "http_filter_envoy_ptr \<Rightarrow> http_filter_module_ptr \<Rightarrow> 'm \<Rightarrow> (unit \<times> 'm) go"
  on_http_filter_destroy ::
    "http_filter_module_ptr \<Rightarrow> 'm \<Rightarrow> (unit \<times> 'm) go"
  on_http_filter_http_callout_done ::
    "http_filter_envoy_ptr \<Rightarrow> http_filter_module_ptr \<Rightarrow> u64 \<Rightarrow> http_callout_result c_val \<Rightarrow>
      envoy_http_header list \<Rightarrow> envoy_buffer list \<Rightarrow> 'm \<Rightarrow> (unit \<times> 'm) go"
  on_http_filter_http_stream_headers ::
    "http_filter_envoy_ptr \<Rightarrow> http_filter_module_ptr \<Rightarrow> u64 \<Rightarrow> envoy_http_header list \<Rightarrow> bool \<Rightarrow> 'm \<Rightarrow>
      (unit \<times> 'm) go"
  on_http_filter_http_stream_data ::
    "http_filter_envoy_ptr \<Rightarrow> http_filter_module_ptr \<Rightarrow> u64 \<Rightarrow> envoy_buffer list \<Rightarrow> bool \<Rightarrow> 'm \<Rightarrow> (unit
      \<times> 'm) go"
  on_http_filter_http_stream_trailers ::
    "http_filter_envoy_ptr \<Rightarrow> http_filter_module_ptr \<Rightarrow> u64 \<Rightarrow> envoy_http_header list \<Rightarrow> 'm \<Rightarrow> (unit \<times>
      'm) go"
  on_http_filter_http_stream_complete ::
    "http_filter_envoy_ptr \<Rightarrow> http_filter_module_ptr \<Rightarrow> u64 \<Rightarrow> 'm \<Rightarrow> (unit \<times> 'm) go"

record 'm hooks_http_3 =
  on_http_filter_http_stream_reset ::
    "http_filter_envoy_ptr \<Rightarrow> http_filter_module_ptr \<Rightarrow> u64 \<Rightarrow> http_stream_reset_reason c_val \<Rightarrow> 'm \<Rightarrow>
      (unit \<times> 'm) go"
  on_http_filter_scheduled ::
    "http_filter_envoy_ptr \<Rightarrow> http_filter_module_ptr \<Rightarrow> u64 \<Rightarrow> 'm \<Rightarrow> (unit \<times> 'm) go"
  on_http_filter_config_scheduled ::
    "http_filter_config_envoy_ptr \<Rightarrow> http_filter_config_module_ptr \<Rightarrow> u64 \<Rightarrow> 'm \<Rightarrow> (unit \<times> 'm) go"
  on_http_filter_config_http_callout_done ::
    "http_filter_config_envoy_ptr \<Rightarrow> http_filter_config_module_ptr \<Rightarrow> u64 \<Rightarrow> http_callout_result
      c_val \<Rightarrow> envoy_http_header list \<Rightarrow> envoy_buffer list \<Rightarrow> 'm \<Rightarrow> (unit \<times> 'm) go"
  on_http_filter_config_http_stream_headers ::
    "http_filter_config_envoy_ptr \<Rightarrow> http_filter_config_module_ptr \<Rightarrow> u64 \<Rightarrow> envoy_http_header list
      \<Rightarrow> bool \<Rightarrow> 'm \<Rightarrow> (unit \<times> 'm) go"
  on_http_filter_config_http_stream_data ::
    "http_filter_config_envoy_ptr \<Rightarrow> http_filter_config_module_ptr \<Rightarrow> u64 \<Rightarrow> envoy_buffer list \<Rightarrow>
      bool \<Rightarrow> 'm \<Rightarrow> (unit \<times> 'm) go"
  on_http_filter_config_http_stream_trailers ::
    "http_filter_config_envoy_ptr \<Rightarrow> http_filter_config_module_ptr \<Rightarrow> u64 \<Rightarrow> envoy_http_header list
      \<Rightarrow> 'm \<Rightarrow> (unit \<times> 'm) go"
  on_http_filter_config_http_stream_complete ::
    "http_filter_config_envoy_ptr \<Rightarrow> http_filter_config_module_ptr \<Rightarrow> u64 \<Rightarrow> 'm \<Rightarrow> (unit \<times> 'm) go"

record 'm hooks_http_4 =
  on_http_filter_config_http_stream_reset ::
    "http_filter_config_envoy_ptr \<Rightarrow> http_filter_config_module_ptr \<Rightarrow> u64 \<Rightarrow>
      http_stream_reset_reason c_val \<Rightarrow> 'm \<Rightarrow> (unit \<times> 'm) go"
  on_http_filter_downstream_above_write_buffer_high_watermark ::
    "http_filter_envoy_ptr \<Rightarrow> http_filter_module_ptr \<Rightarrow> 'm \<Rightarrow> (unit \<times> 'm) go"
  on_http_filter_downstream_below_write_buffer_low_watermark ::
    "http_filter_envoy_ptr \<Rightarrow> http_filter_module_ptr \<Rightarrow> 'm \<Rightarrow> (unit \<times> 'm) go"
  on_http_filter_local_reply ::
    "http_filter_envoy_ptr \<Rightarrow> http_filter_module_ptr \<Rightarrow> u32 \<Rightarrow> envoy_buffer \<Rightarrow> bool \<Rightarrow> 'm \<Rightarrow>
      (on_http_filter_local_reply_status c_val \<times> 'm) go"

end
