(* ===== verification/AbiNetwork.thy ===== *)
theory AbiNetwork
  imports AbiStructs
begin

text \<open>
  The callbacks of abi/abi.h that a network filter module calls (\<open>'h\<close> is Envoy's
  state).
\<close>

section \<open>Network filter callbacks\<close>

record 'h host_network_1 =
  cb_network_set_socket_option_int ::
    "network_filter_envoy_ptr \<Rightarrow> i64 \<Rightarrow> i64 \<Rightarrow> socket_option_state c_val \<Rightarrow> i64 \<Rightarrow> 'h \<Rightarrow> unit \<times> 'h"
  cb_network_set_socket_option_bytes ::
    "network_filter_envoy_ptr \<Rightarrow> i64 \<Rightarrow> i64 \<Rightarrow> socket_option_state c_val \<Rightarrow> module_buffer \<Rightarrow> 'h \<Rightarrow> unit
      \<times> 'h"
  cb_network_get_socket_option_int ::
    "network_filter_envoy_ptr \<Rightarrow> i64 \<Rightarrow> i64 \<Rightarrow> socket_option_state c_val \<Rightarrow> 'h \<Rightarrow> (bool \<times> i64 option)
      \<times> 'h"
  cb_network_get_socket_option_bytes ::
    "network_filter_envoy_ptr \<Rightarrow> i64 \<Rightarrow> i64 \<Rightarrow> socket_option_state c_val \<Rightarrow> 'h \<Rightarrow> (bool \<times> envoy_buffer
      option) \<times> 'h"
  cb_network_get_socket_options_size ::
    "network_filter_envoy_ptr \<Rightarrow> 'h \<Rightarrow> u64 \<times> 'h"
  cb_network_get_socket_options ::
    "network_filter_envoy_ptr \<Rightarrow> 'h \<Rightarrow> socket_option list \<times> 'h"
  cb_network_filter_get_read_buffer_chunks_size ::
    "network_filter_envoy_ptr \<Rightarrow> 'h \<Rightarrow> u64 \<times> 'h"
  cb_network_filter_get_read_buffer_size ::
    "network_filter_envoy_ptr \<Rightarrow> 'h \<Rightarrow> u64 \<times> 'h"
  cb_network_filter_get_read_buffer_chunks ::
    "network_filter_envoy_ptr \<Rightarrow> 'h \<Rightarrow> (bool \<times> envoy_buffer list) \<times> 'h"
  cb_network_filter_get_write_buffer_chunks_size ::
    "network_filter_envoy_ptr \<Rightarrow> 'h \<Rightarrow> u64 \<times> 'h"

record 'h host_network_2 =
  cb_network_filter_get_write_buffer_size ::
    "network_filter_envoy_ptr \<Rightarrow> 'h \<Rightarrow> u64 \<times> 'h"
  cb_network_filter_get_write_buffer_chunks ::
    "network_filter_envoy_ptr \<Rightarrow> 'h \<Rightarrow> (bool \<times> envoy_buffer list) \<times> 'h"
  cb_network_filter_drain_read_buffer ::
    "network_filter_envoy_ptr \<Rightarrow> u64 \<Rightarrow> 'h \<Rightarrow> bool \<times> 'h"
  cb_network_filter_drain_write_buffer ::
    "network_filter_envoy_ptr \<Rightarrow> u64 \<Rightarrow> 'h \<Rightarrow> bool \<times> 'h"
  cb_network_filter_prepend_read_buffer ::
    "network_filter_envoy_ptr \<Rightarrow> module_buffer \<Rightarrow> 'h \<Rightarrow> bool \<times> 'h"
  cb_network_filter_append_read_buffer ::
    "network_filter_envoy_ptr \<Rightarrow> module_buffer \<Rightarrow> 'h \<Rightarrow> bool \<times> 'h"
  cb_network_filter_prepend_write_buffer ::
    "network_filter_envoy_ptr \<Rightarrow> module_buffer \<Rightarrow> 'h \<Rightarrow> bool \<times> 'h"
  cb_network_filter_append_write_buffer ::
    "network_filter_envoy_ptr \<Rightarrow> module_buffer \<Rightarrow> 'h \<Rightarrow> bool \<times> 'h"
  cb_network_filter_write ::
    "network_filter_envoy_ptr \<Rightarrow> module_buffer \<Rightarrow> bool \<Rightarrow> 'h \<Rightarrow> unit \<times> 'h"
  cb_network_filter_inject_read_data ::
    "network_filter_envoy_ptr \<Rightarrow> module_buffer \<Rightarrow> bool \<Rightarrow> 'h \<Rightarrow> unit \<times> 'h"

record 'h host_network_3 =
  cb_network_filter_inject_write_data ::
    "network_filter_envoy_ptr \<Rightarrow> module_buffer \<Rightarrow> bool \<Rightarrow> 'h \<Rightarrow> unit \<times> 'h"
  cb_network_filter_continue_reading ::
    "network_filter_envoy_ptr \<Rightarrow> 'h \<Rightarrow> unit \<times> 'h"
  cb_network_filter_close ::
    "network_filter_envoy_ptr \<Rightarrow> network_connection_close_type c_val \<Rightarrow> 'h \<Rightarrow> unit \<times> 'h"
  cb_network_filter_get_connection_id ::
    "network_filter_envoy_ptr \<Rightarrow> 'h \<Rightarrow> u64 \<times> 'h"
  cb_network_filter_get_remote_address ::
    "network_filter_envoy_ptr \<Rightarrow> 'h \<Rightarrow> (bool \<times> envoy_buffer option \<times> u32 option) \<times> 'h"
  cb_network_filter_get_local_address ::
    "network_filter_envoy_ptr \<Rightarrow> 'h \<Rightarrow> (bool \<times> envoy_buffer option \<times> u32 option) \<times> 'h"
  cb_network_filter_is_ssl ::
    "network_filter_envoy_ptr \<Rightarrow> 'h \<Rightarrow> bool \<times> 'h"
  cb_network_filter_disable_close ::
    "network_filter_envoy_ptr \<Rightarrow> bool \<Rightarrow> 'h \<Rightarrow> unit \<times> 'h"
  cb_network_filter_close_with_details ::
    "network_filter_envoy_ptr \<Rightarrow> network_connection_close_type c_val \<Rightarrow> module_buffer \<Rightarrow> 'h \<Rightarrow> unit \<times>
      'h"
  cb_network_filter_get_requested_server_name ::
    "network_filter_envoy_ptr \<Rightarrow> 'h \<Rightarrow> (bool \<times> envoy_buffer option) \<times> 'h"

record 'h host_network_4 =
  cb_network_filter_get_direct_remote_address ::
    "network_filter_envoy_ptr \<Rightarrow> 'h \<Rightarrow> (bool \<times> envoy_buffer option \<times> u32 option) \<times> 'h"
  cb_network_filter_get_ssl_uri_sans_size ::
    "network_filter_envoy_ptr \<Rightarrow> 'h \<Rightarrow> u64 \<times> 'h"
  cb_network_filter_get_ssl_uri_sans ::
    "network_filter_envoy_ptr \<Rightarrow> 'h \<Rightarrow> (bool \<times> envoy_buffer list) \<times> 'h"
  cb_network_filter_get_ssl_dns_sans_size ::
    "network_filter_envoy_ptr \<Rightarrow> 'h \<Rightarrow> u64 \<times> 'h"
  cb_network_filter_get_ssl_dns_sans ::
    "network_filter_envoy_ptr \<Rightarrow> 'h \<Rightarrow> (bool \<times> envoy_buffer list) \<times> 'h"
  cb_network_filter_get_ssl_subject ::
    "network_filter_envoy_ptr \<Rightarrow> 'h \<Rightarrow> (bool \<times> envoy_buffer option) \<times> 'h"
  cb_network_set_filter_state_bytes ::
    "network_filter_envoy_ptr \<Rightarrow> module_buffer \<Rightarrow> module_buffer \<Rightarrow> 'h \<Rightarrow> bool \<times> 'h"
  cb_network_get_filter_state_bytes ::
    "network_filter_envoy_ptr \<Rightarrow> module_buffer \<Rightarrow> 'h \<Rightarrow> (bool \<times> envoy_buffer option) \<times> 'h"
  cb_network_set_filter_state_typed ::
    "network_filter_envoy_ptr \<Rightarrow> module_buffer \<Rightarrow> module_buffer \<Rightarrow> 'h \<Rightarrow> bool \<times> 'h"
  cb_network_get_filter_state_typed ::
    "network_filter_envoy_ptr \<Rightarrow> module_buffer \<Rightarrow> 'h \<Rightarrow> (bool \<times> envoy_buffer option) \<times> 'h"

record 'h host_network_5 =
  cb_network_set_dynamic_metadata_string ::
    "network_filter_envoy_ptr \<Rightarrow> module_buffer \<Rightarrow> module_buffer \<Rightarrow> module_buffer \<Rightarrow> 'h \<Rightarrow> unit \<times> 'h"
  cb_network_get_dynamic_metadata_string ::
    "network_filter_envoy_ptr \<Rightarrow> module_buffer \<Rightarrow> module_buffer \<Rightarrow> 'h \<Rightarrow> (bool \<times> envoy_buffer option)
      \<times> 'h"
  cb_network_set_dynamic_metadata_number ::
    "network_filter_envoy_ptr \<Rightarrow> module_buffer \<Rightarrow> module_buffer \<Rightarrow> f64 \<Rightarrow> 'h \<Rightarrow> unit \<times> 'h"
  cb_network_get_dynamic_metadata_number ::
    "network_filter_envoy_ptr \<Rightarrow> module_buffer \<Rightarrow> module_buffer \<Rightarrow> 'h \<Rightarrow> (bool \<times> f64 option) \<times> 'h"
  cb_network_set_dynamic_metadata_bool ::
    "network_filter_envoy_ptr \<Rightarrow> module_buffer \<Rightarrow> module_buffer \<Rightarrow> bool \<Rightarrow> 'h \<Rightarrow> unit \<times> 'h"
  cb_network_get_dynamic_metadata_bool ::
    "network_filter_envoy_ptr \<Rightarrow> module_buffer \<Rightarrow> module_buffer \<Rightarrow> 'h \<Rightarrow> (bool \<times> bool option) \<times> 'h"
  cb_network_filter_http_callout ::
    "network_filter_envoy_ptr \<Rightarrow> module_buffer \<Rightarrow> module_http_header list \<Rightarrow> module_buffer \<Rightarrow> u64 \<Rightarrow>
      'h \<Rightarrow> (http_callout_init_result c_val \<times> u64 option) \<times> 'h"
  cb_network_filter_config_define_counter ::
    "network_filter_config_envoy_ptr \<Rightarrow> module_buffer \<Rightarrow> 'h \<Rightarrow> (metrics_result c_val \<times> u64 option) \<times>
      'h"
  cb_network_filter_increment_counter ::
    "network_filter_envoy_ptr \<Rightarrow> u64 \<Rightarrow> u64 \<Rightarrow> 'h \<Rightarrow> metrics_result c_val \<times> 'h"

record 'h host_network_6 =
  cb_network_filter_config_define_gauge ::
    "network_filter_config_envoy_ptr \<Rightarrow> module_buffer \<Rightarrow> 'h \<Rightarrow> (metrics_result c_val \<times> u64 option) \<times>
      'h"
  cb_network_filter_set_gauge ::
    "network_filter_envoy_ptr \<Rightarrow> u64 \<Rightarrow> u64 \<Rightarrow> 'h \<Rightarrow> metrics_result c_val \<times> 'h"
  cb_network_filter_increment_gauge ::
    "network_filter_envoy_ptr \<Rightarrow> u64 \<Rightarrow> u64 \<Rightarrow> 'h \<Rightarrow> metrics_result c_val \<times> 'h"
  cb_network_filter_decrement_gauge ::
    "network_filter_envoy_ptr \<Rightarrow> u64 \<Rightarrow> u64 \<Rightarrow> 'h \<Rightarrow> metrics_result c_val \<times> 'h"
  cb_network_filter_config_define_histogram ::
    "network_filter_config_envoy_ptr \<Rightarrow> module_buffer \<Rightarrow> 'h \<Rightarrow> (metrics_result c_val \<times> u64 option) \<times>
      'h"
  cb_network_filter_record_histogram_value ::
    "network_filter_envoy_ptr \<Rightarrow> u64 \<Rightarrow> u64 \<Rightarrow> 'h \<Rightarrow> metrics_result c_val \<times> 'h"
  cb_network_filter_get_cluster_host_count ::
    "network_filter_envoy_ptr \<Rightarrow> module_buffer \<Rightarrow> u32 \<Rightarrow> 'h \<Rightarrow> (bool \<times> u64 option \<times> u64 option \<times> u64
      option) \<times> 'h"
  cb_network_filter_get_upstream_host_address ::
    "network_filter_envoy_ptr \<Rightarrow> 'h \<Rightarrow> (bool \<times> envoy_buffer option \<times> u32 option) \<times> 'h"
  cb_network_filter_get_upstream_host_hostname ::
    "network_filter_envoy_ptr \<Rightarrow> 'h \<Rightarrow> (bool \<times> envoy_buffer option) \<times> 'h"
  cb_network_filter_get_upstream_host_cluster ::
    "network_filter_envoy_ptr \<Rightarrow> 'h \<Rightarrow> (bool \<times> envoy_buffer option) \<times> 'h"

record 'h host_network_7 =
  cb_network_filter_has_upstream_host ::
    "network_filter_envoy_ptr \<Rightarrow> 'h \<Rightarrow> bool \<times> 'h"
  cb_network_filter_start_upstream_secure_transport ::
    "network_filter_envoy_ptr \<Rightarrow> 'h \<Rightarrow> bool \<times> 'h"
  cb_network_filter_get_connection_state ::
    "network_filter_envoy_ptr \<Rightarrow> 'h \<Rightarrow> network_connection_state c_val \<times> 'h"
  cb_network_filter_read_disable ::
    "network_filter_envoy_ptr \<Rightarrow> bool \<Rightarrow> 'h \<Rightarrow> network_read_disable_status c_val \<times> 'h"
  cb_network_filter_read_enabled ::
    "network_filter_envoy_ptr \<Rightarrow> 'h \<Rightarrow> bool \<times> 'h"
  cb_network_filter_is_half_close_enabled ::
    "network_filter_envoy_ptr \<Rightarrow> 'h \<Rightarrow> bool \<times> 'h"
  cb_network_filter_enable_half_close ::
    "network_filter_envoy_ptr \<Rightarrow> bool \<Rightarrow> 'h \<Rightarrow> unit \<times> 'h"
  cb_network_filter_get_buffer_limit ::
    "network_filter_envoy_ptr \<Rightarrow> 'h \<Rightarrow> u32 \<times> 'h"
  cb_network_filter_set_buffer_limits ::
    "network_filter_envoy_ptr \<Rightarrow> u32 \<Rightarrow> 'h \<Rightarrow> unit \<times> 'h"
  cb_network_filter_above_high_watermark ::
    "network_filter_envoy_ptr \<Rightarrow> 'h \<Rightarrow> bool \<times> 'h"

record 'h host_network_8 =
  cb_network_filter_scheduler_new ::
    "network_filter_envoy_ptr \<Rightarrow> 'h \<Rightarrow> network_filter_scheduler_module_ptr \<times> 'h"
  cb_network_filter_scheduler_commit ::
    "network_filter_scheduler_module_ptr \<Rightarrow> u64 \<Rightarrow> 'h \<Rightarrow> unit \<times> 'h"
  cb_network_filter_scheduler_delete ::
    "network_filter_scheduler_module_ptr \<Rightarrow> 'h \<Rightarrow> unit \<times> 'h"
  cb_network_filter_config_scheduler_new ::
    "network_filter_config_envoy_ptr \<Rightarrow> 'h \<Rightarrow> network_filter_config_scheduler_module_ptr \<times> 'h"
  cb_network_filter_config_scheduler_delete ::
    "network_filter_config_scheduler_module_ptr \<Rightarrow> 'h \<Rightarrow> unit \<times> 'h"
  cb_network_filter_config_scheduler_commit ::
    "network_filter_config_scheduler_module_ptr \<Rightarrow> u64 \<Rightarrow> 'h \<Rightarrow> unit \<times> 'h"
  cb_network_filter_get_worker_index ::
    "network_filter_envoy_ptr \<Rightarrow> 'h \<Rightarrow> u32 \<times> 'h"

end
