(* ===== verification/AbiNetworkHooks.thy ===== *)
theory AbiNetworkHooks
  imports AbiStructs
begin

text \<open>
  The event hooks of abi/abi.h that Envoy calls on a network filter module or an access logger
  module; \<open>'m\<close> is the module's state, and a hook that aborts the process is a \<open>Panic\<close>.
\<close>

section \<open>Network filter hooks\<close>

record 'm hooks_network_1 =
  on_network_filter_config_new ::
    "network_filter_config_envoy_ptr \<Rightarrow> envoy_buffer \<Rightarrow> envoy_buffer \<Rightarrow> 'm \<Rightarrow>
      (network_filter_config_module_ptr \<times> 'm) go"
  on_network_filter_config_destroy ::
    "network_filter_config_module_ptr \<Rightarrow> 'm \<Rightarrow> (unit \<times> 'm) go"
  on_network_filter_new ::
    "network_filter_config_module_ptr \<Rightarrow> network_filter_envoy_ptr \<Rightarrow> 'm \<Rightarrow>
      (network_filter_module_ptr \<times> 'm) go"
  on_network_filter_new_connection ::
    "network_filter_envoy_ptr \<Rightarrow> network_filter_module_ptr \<Rightarrow> 'm \<Rightarrow> (on_network_filter_data_status
      c_val \<times> 'm) go"
  on_network_filter_read ::
    "network_filter_envoy_ptr \<Rightarrow> network_filter_module_ptr \<Rightarrow> u64 \<Rightarrow> bool \<Rightarrow> 'm \<Rightarrow>
      (on_network_filter_data_status c_val \<times> 'm) go"
  on_network_filter_write ::
    "network_filter_envoy_ptr \<Rightarrow> network_filter_module_ptr \<Rightarrow> u64 \<Rightarrow> bool \<Rightarrow> 'm \<Rightarrow>
      (on_network_filter_data_status c_val \<times> 'm) go"
  on_network_filter_event ::
    "network_filter_envoy_ptr \<Rightarrow> network_filter_module_ptr \<Rightarrow> network_connection_event c_val \<Rightarrow> 'm \<Rightarrow>
      (unit \<times> 'm) go"
  on_network_filter_destroy ::
    "network_filter_module_ptr \<Rightarrow> 'm \<Rightarrow> (unit \<times> 'm) go"
  on_network_filter_http_callout_done ::
    "network_filter_envoy_ptr \<Rightarrow> network_filter_module_ptr \<Rightarrow> u64 \<Rightarrow> http_callout_result c_val \<Rightarrow>
      envoy_http_header list \<Rightarrow> envoy_buffer list \<Rightarrow> 'm \<Rightarrow> (unit \<times> 'm) go"

record 'm hooks_network_2 =
  on_network_filter_scheduled ::
    "network_filter_envoy_ptr \<Rightarrow> network_filter_module_ptr \<Rightarrow> u64 \<Rightarrow> 'm \<Rightarrow> (unit \<times> 'm) go"
  on_network_filter_config_scheduled ::
    "network_filter_config_module_ptr \<Rightarrow> u64 \<Rightarrow> 'm \<Rightarrow> (unit \<times> 'm) go"
  on_network_filter_above_write_buffer_high_watermark ::
    "network_filter_envoy_ptr \<Rightarrow> network_filter_module_ptr \<Rightarrow> 'm \<Rightarrow> (unit \<times> 'm) go"
  on_network_filter_below_write_buffer_low_watermark ::
    "network_filter_envoy_ptr \<Rightarrow> network_filter_module_ptr \<Rightarrow> 'm \<Rightarrow> (unit \<times> 'm) go"

section \<open>Access logger hooks\<close>

record 'm hooks_logger =
  on_access_logger_config_new ::
    "access_logger_config_envoy_ptr \<Rightarrow> envoy_buffer \<Rightarrow> envoy_buffer \<Rightarrow> 'm \<Rightarrow>
      (access_logger_config_module_ptr \<times> 'm) go"
  on_access_logger_config_destroy ::
    "access_logger_config_module_ptr \<Rightarrow> 'm \<Rightarrow> (unit \<times> 'm) go"
  on_access_logger_new ::
    "access_logger_config_module_ptr \<Rightarrow> access_logger_envoy_ptr \<Rightarrow> 'm \<Rightarrow> (access_logger_module_ptr \<times>
      'm) go"
  on_access_logger_log ::
    "access_logger_envoy_ptr \<Rightarrow> access_logger_module_ptr \<Rightarrow> access_log_type c_val \<Rightarrow> 'm \<Rightarrow> (unit \<times>
      'm) go"
  on_access_logger_destroy ::
    "access_logger_module_ptr \<Rightarrow> 'm \<Rightarrow> (unit \<times> 'm) go"
  on_access_logger_flush ::
    "access_logger_module_ptr \<Rightarrow> 'm \<Rightarrow> (unit \<times> 'm) go"

end
