(* ===== verification/AbiLogger.thy ===== *)
theory AbiLogger
  imports AbiStructs
begin

text \<open>
  The callbacks of abi/abi.h that an access logger module calls; \<open>'h\<close> is Envoy's state.
\<close>

section \<open>Access logger callbacks\<close>

record 'h host_logger_1 =
  cb_access_logger_get_headers_size ::
    "access_logger_envoy_ptr \<Rightarrow> http_header_type c_val \<Rightarrow> 'h \<Rightarrow> u64 \<times> 'h"
  cb_access_logger_get_headers ::
    "access_logger_envoy_ptr \<Rightarrow> http_header_type c_val \<Rightarrow> 'h \<Rightarrow> (bool \<times> envoy_http_header list) \<times> 'h"
  cb_access_logger_get_header_value ::
    "access_logger_envoy_ptr \<Rightarrow> http_header_type c_val \<Rightarrow> module_buffer \<Rightarrow> u64 \<Rightarrow> 'h \<Rightarrow> (bool \<times>
      envoy_buffer option \<times> u64 option) \<times> 'h"
  cb_access_logger_get_response_code ::
    "access_logger_envoy_ptr \<Rightarrow> 'h \<Rightarrow> u32 \<times> 'h"
  cb_access_logger_get_response_code_details ::
    "access_logger_envoy_ptr \<Rightarrow> 'h \<Rightarrow> (bool \<times> envoy_buffer option) \<times> 'h"
  cb_access_logger_has_response_flag ::
    "access_logger_envoy_ptr \<Rightarrow> response_flag c_val \<Rightarrow> 'h \<Rightarrow> bool \<times> 'h"
  cb_access_logger_get_response_flags ::
    "access_logger_envoy_ptr \<Rightarrow> 'h \<Rightarrow> u64 \<times> 'h"
  cb_access_logger_get_protocol ::
    "access_logger_envoy_ptr \<Rightarrow> 'h \<Rightarrow> (bool \<times> envoy_buffer option) \<times> 'h"
  cb_access_logger_get_timing_info ::
    "access_logger_envoy_ptr \<Rightarrow> 'h \<Rightarrow> timing_info option \<times> 'h"
  cb_access_logger_get_bytes_info ::
    "access_logger_envoy_ptr \<Rightarrow> 'h \<Rightarrow> bytes_info option \<times> 'h"

record 'h host_logger_2 =
  cb_access_logger_is_health_check ::
    "access_logger_envoy_ptr \<Rightarrow> 'h \<Rightarrow> bool \<times> 'h"
  cb_access_logger_get_route_name ::
    "access_logger_envoy_ptr \<Rightarrow> 'h \<Rightarrow> (bool \<times> envoy_buffer option) \<times> 'h"
  cb_access_logger_get_virtual_cluster_name ::
    "access_logger_envoy_ptr \<Rightarrow> 'h \<Rightarrow> (bool \<times> envoy_buffer option) \<times> 'h"
  cb_access_logger_get_attempt_count ::
    "access_logger_envoy_ptr \<Rightarrow> 'h \<Rightarrow> u32 \<times> 'h"
  cb_access_logger_get_connection_termination_details ::
    "access_logger_envoy_ptr \<Rightarrow> 'h \<Rightarrow> (bool \<times> envoy_buffer option) \<times> 'h"
  cb_access_logger_get_downstream_remote_address ::
    "access_logger_envoy_ptr \<Rightarrow> 'h \<Rightarrow> (bool \<times> envoy_buffer option \<times> u32 option) \<times> 'h"
  cb_access_logger_get_downstream_local_address ::
    "access_logger_envoy_ptr \<Rightarrow> 'h \<Rightarrow> (bool \<times> envoy_buffer option \<times> u32 option) \<times> 'h"
  cb_access_logger_get_downstream_direct_remote_address ::
    "access_logger_envoy_ptr \<Rightarrow> 'h \<Rightarrow> (bool \<times> envoy_buffer option \<times> u32 option) \<times> 'h"
  cb_access_logger_get_downstream_direct_local_address ::
    "access_logger_envoy_ptr \<Rightarrow> 'h \<Rightarrow> (bool \<times> envoy_buffer option \<times> u32 option) \<times> 'h"
  cb_access_logger_get_upstream_remote_address ::
    "access_logger_envoy_ptr \<Rightarrow> 'h \<Rightarrow> (bool \<times> envoy_buffer option \<times> u32 option) \<times> 'h"

record 'h host_logger_3 =
  cb_access_logger_get_upstream_local_address ::
    "access_logger_envoy_ptr \<Rightarrow> 'h \<Rightarrow> (bool \<times> envoy_buffer option \<times> u32 option) \<times> 'h"
  cb_access_logger_get_upstream_cluster ::
    "access_logger_envoy_ptr \<Rightarrow> 'h \<Rightarrow> (bool \<times> envoy_buffer option) \<times> 'h"
  cb_access_logger_get_upstream_host ::
    "access_logger_envoy_ptr \<Rightarrow> 'h \<Rightarrow> (bool \<times> envoy_buffer option) \<times> 'h"
  cb_access_logger_get_upstream_transport_failure_reason ::
    "access_logger_envoy_ptr \<Rightarrow> 'h \<Rightarrow> (bool \<times> envoy_buffer option) \<times> 'h"
  cb_access_logger_get_upstream_connection_id ::
    "access_logger_envoy_ptr \<Rightarrow> 'h \<Rightarrow> u64 \<times> 'h"
  cb_access_logger_get_upstream_tls_cipher ::
    "access_logger_envoy_ptr \<Rightarrow> 'h \<Rightarrow> (bool \<times> envoy_buffer option) \<times> 'h"
  cb_access_logger_get_upstream_tls_session_id ::
    "access_logger_envoy_ptr \<Rightarrow> 'h \<Rightarrow> (bool \<times> envoy_buffer option) \<times> 'h"
  cb_access_logger_get_upstream_tls_version ::
    "access_logger_envoy_ptr \<Rightarrow> 'h \<Rightarrow> (bool \<times> envoy_buffer option) \<times> 'h"
  cb_access_logger_get_upstream_peer_subject ::
    "access_logger_envoy_ptr \<Rightarrow> 'h \<Rightarrow> (bool \<times> envoy_buffer option) \<times> 'h"
  cb_access_logger_get_upstream_peer_issuer ::
    "access_logger_envoy_ptr \<Rightarrow> 'h \<Rightarrow> (bool \<times> envoy_buffer option) \<times> 'h"

record 'h host_logger_4 =
  cb_access_logger_get_upstream_local_subject ::
    "access_logger_envoy_ptr \<Rightarrow> 'h \<Rightarrow> (bool \<times> envoy_buffer option) \<times> 'h"
  cb_access_logger_get_upstream_peer_cert_digest ::
    "access_logger_envoy_ptr \<Rightarrow> 'h \<Rightarrow> (bool \<times> envoy_buffer option) \<times> 'h"
  cb_access_logger_get_upstream_peer_cert_v_start ::
    "access_logger_envoy_ptr \<Rightarrow> 'h \<Rightarrow> i64 \<times> 'h"
  cb_access_logger_get_upstream_peer_cert_v_end ::
    "access_logger_envoy_ptr \<Rightarrow> 'h \<Rightarrow> i64 \<times> 'h"
  cb_access_logger_get_upstream_peer_uri_san_size ::
    "access_logger_envoy_ptr \<Rightarrow> 'h \<Rightarrow> u64 \<times> 'h"
  cb_access_logger_get_upstream_peer_uri_san ::
    "access_logger_envoy_ptr \<Rightarrow> 'h \<Rightarrow> (bool \<times> envoy_buffer list) \<times> 'h"
  cb_access_logger_get_upstream_local_uri_san_size ::
    "access_logger_envoy_ptr \<Rightarrow> 'h \<Rightarrow> u64 \<times> 'h"
  cb_access_logger_get_upstream_local_uri_san ::
    "access_logger_envoy_ptr \<Rightarrow> 'h \<Rightarrow> (bool \<times> envoy_buffer list) \<times> 'h"
  cb_access_logger_get_upstream_peer_dns_san_size ::
    "access_logger_envoy_ptr \<Rightarrow> 'h \<Rightarrow> u64 \<times> 'h"
  cb_access_logger_get_upstream_peer_dns_san ::
    "access_logger_envoy_ptr \<Rightarrow> 'h \<Rightarrow> (bool \<times> envoy_buffer list) \<times> 'h"

record 'h host_logger_5 =
  cb_access_logger_get_upstream_local_dns_san_size ::
    "access_logger_envoy_ptr \<Rightarrow> 'h \<Rightarrow> u64 \<times> 'h"
  cb_access_logger_get_upstream_local_dns_san ::
    "access_logger_envoy_ptr \<Rightarrow> 'h \<Rightarrow> (bool \<times> envoy_buffer list) \<times> 'h"
  cb_access_logger_get_connection_id ::
    "access_logger_envoy_ptr \<Rightarrow> 'h \<Rightarrow> u64 \<times> 'h"
  cb_access_logger_is_mtls ::
    "access_logger_envoy_ptr \<Rightarrow> 'h \<Rightarrow> bool \<times> 'h"
  cb_access_logger_get_requested_server_name ::
    "access_logger_envoy_ptr \<Rightarrow> 'h \<Rightarrow> (bool \<times> envoy_buffer option) \<times> 'h"
  cb_access_logger_get_downstream_tls_version ::
    "access_logger_envoy_ptr \<Rightarrow> 'h \<Rightarrow> (bool \<times> envoy_buffer option) \<times> 'h"
  cb_access_logger_get_downstream_peer_subject ::
    "access_logger_envoy_ptr \<Rightarrow> 'h \<Rightarrow> (bool \<times> envoy_buffer option) \<times> 'h"
  cb_access_logger_get_downstream_peer_cert_digest ::
    "access_logger_envoy_ptr \<Rightarrow> 'h \<Rightarrow> (bool \<times> envoy_buffer option) \<times> 'h"
  cb_access_logger_get_downstream_tls_cipher ::
    "access_logger_envoy_ptr \<Rightarrow> 'h \<Rightarrow> (bool \<times> envoy_buffer option) \<times> 'h"
  cb_access_logger_get_downstream_tls_session_id ::
    "access_logger_envoy_ptr \<Rightarrow> 'h \<Rightarrow> (bool \<times> envoy_buffer option) \<times> 'h"

record 'h host_logger_6 =
  cb_access_logger_get_downstream_peer_issuer ::
    "access_logger_envoy_ptr \<Rightarrow> 'h \<Rightarrow> (bool \<times> envoy_buffer option) \<times> 'h"
  cb_access_logger_get_downstream_peer_serial ::
    "access_logger_envoy_ptr \<Rightarrow> 'h \<Rightarrow> (bool \<times> envoy_buffer option) \<times> 'h"
  cb_access_logger_get_downstream_peer_fingerprint_1 ::
    "access_logger_envoy_ptr \<Rightarrow> 'h \<Rightarrow> (bool \<times> envoy_buffer option) \<times> 'h"
  cb_access_logger_get_downstream_local_subject ::
    "access_logger_envoy_ptr \<Rightarrow> 'h \<Rightarrow> (bool \<times> envoy_buffer option) \<times> 'h"
  cb_access_logger_get_downstream_peer_cert_presented ::
    "access_logger_envoy_ptr \<Rightarrow> 'h \<Rightarrow> bool \<times> 'h"
  cb_access_logger_get_downstream_peer_cert_validated ::
    "access_logger_envoy_ptr \<Rightarrow> 'h \<Rightarrow> bool \<times> 'h"
  cb_access_logger_get_downstream_peer_cert_v_start ::
    "access_logger_envoy_ptr \<Rightarrow> 'h \<Rightarrow> i64 \<times> 'h"
  cb_access_logger_get_downstream_peer_cert_v_end ::
    "access_logger_envoy_ptr \<Rightarrow> 'h \<Rightarrow> i64 \<times> 'h"
  cb_access_logger_get_downstream_peer_uri_san_size ::
    "access_logger_envoy_ptr \<Rightarrow> 'h \<Rightarrow> u64 \<times> 'h"
  cb_access_logger_get_downstream_peer_uri_san ::
    "access_logger_envoy_ptr \<Rightarrow> 'h \<Rightarrow> (bool \<times> envoy_buffer list) \<times> 'h"

record 'h host_logger_7 =
  cb_access_logger_get_downstream_local_uri_san_size ::
    "access_logger_envoy_ptr \<Rightarrow> 'h \<Rightarrow> u64 \<times> 'h"
  cb_access_logger_get_downstream_local_uri_san ::
    "access_logger_envoy_ptr \<Rightarrow> 'h \<Rightarrow> (bool \<times> envoy_buffer list) \<times> 'h"
  cb_access_logger_get_downstream_peer_dns_san_size ::
    "access_logger_envoy_ptr \<Rightarrow> 'h \<Rightarrow> u64 \<times> 'h"
  cb_access_logger_get_downstream_peer_dns_san ::
    "access_logger_envoy_ptr \<Rightarrow> 'h \<Rightarrow> (bool \<times> envoy_buffer list) \<times> 'h"
  cb_access_logger_get_downstream_local_dns_san_size ::
    "access_logger_envoy_ptr \<Rightarrow> 'h \<Rightarrow> u64 \<times> 'h"
  cb_access_logger_get_downstream_local_dns_san ::
    "access_logger_envoy_ptr \<Rightarrow> 'h \<Rightarrow> (bool \<times> envoy_buffer list) \<times> 'h"
  cb_access_logger_get_dynamic_metadata ::
    "access_logger_envoy_ptr \<Rightarrow> module_buffer \<Rightarrow> module_buffer \<Rightarrow> 'h \<Rightarrow> (bool \<times> envoy_buffer option)
      \<times> 'h"
  cb_access_logger_get_filter_state ::
    "access_logger_envoy_ptr \<Rightarrow> module_buffer \<Rightarrow> 'h \<Rightarrow> (bool \<times> envoy_buffer option) \<times> 'h"
  cb_access_logger_get_request_id ::
    "access_logger_envoy_ptr \<Rightarrow> 'h \<Rightarrow> (bool \<times> envoy_buffer option) \<times> 'h"
  cb_access_logger_get_local_reply_body ::
    "access_logger_envoy_ptr \<Rightarrow> 'h \<Rightarrow> (bool \<times> envoy_buffer option) \<times> 'h"

record 'h host_logger_8 =
  cb_access_logger_get_trace_id ::
    "access_logger_envoy_ptr \<Rightarrow> 'h \<Rightarrow> (bool \<times> envoy_buffer option) \<times> 'h"
  cb_access_logger_get_span_id ::
    "access_logger_envoy_ptr \<Rightarrow> 'h \<Rightarrow> (bool \<times> envoy_buffer option) \<times> 'h"
  cb_access_logger_is_trace_sampled ::
    "access_logger_envoy_ptr \<Rightarrow> 'h \<Rightarrow> bool \<times> 'h"
  cb_access_logger_get_ja3_hash ::
    "access_logger_envoy_ptr \<Rightarrow> 'h \<Rightarrow> (bool \<times> envoy_buffer option) \<times> 'h"
  cb_access_logger_get_ja4_hash ::
    "access_logger_envoy_ptr \<Rightarrow> 'h \<Rightarrow> (bool \<times> envoy_buffer option) \<times> 'h"
  cb_access_logger_get_downstream_transport_failure_reason ::
    "access_logger_envoy_ptr \<Rightarrow> 'h \<Rightarrow> (bool \<times> envoy_buffer option) \<times> 'h"
  cb_access_logger_get_request_headers_bytes ::
    "access_logger_envoy_ptr \<Rightarrow> 'h \<Rightarrow> u64 \<times> 'h"
  cb_access_logger_get_response_headers_bytes ::
    "access_logger_envoy_ptr \<Rightarrow> 'h \<Rightarrow> u64 \<times> 'h"
  cb_access_logger_get_response_trailers_bytes ::
    "access_logger_envoy_ptr \<Rightarrow> 'h \<Rightarrow> u64 \<times> 'h"
  cb_access_logger_get_upstream_protocol ::
    "access_logger_envoy_ptr \<Rightarrow> 'h \<Rightarrow> (bool \<times> envoy_buffer option) \<times> 'h"

record 'h host_logger_9 =
  cb_access_logger_get_upstream_pool_ready_duration_ns ::
    "access_logger_envoy_ptr \<Rightarrow> 'h \<Rightarrow> i64 \<times> 'h"
  cb_access_logger_get_attribute_string ::
    "access_logger_envoy_ptr \<Rightarrow> attribute_id c_val \<Rightarrow> 'h \<Rightarrow> (bool \<times> envoy_buffer option) \<times> 'h"
  cb_access_logger_get_attribute_int ::
    "access_logger_envoy_ptr \<Rightarrow> attribute_id c_val \<Rightarrow> 'h \<Rightarrow> (bool \<times> u64 option) \<times> 'h"
  cb_access_logger_get_attribute_bool ::
    "access_logger_envoy_ptr \<Rightarrow> attribute_id c_val \<Rightarrow> 'h \<Rightarrow> (bool \<times> bool option) \<times> 'h"
  cb_access_logger_config_define_counter ::
    "access_logger_config_envoy_ptr \<Rightarrow> module_buffer \<Rightarrow> 'h \<Rightarrow> (metrics_result c_val \<times> u64 option) \<times>
      'h"
  cb_access_logger_increment_counter ::
    "access_logger_config_envoy_ptr \<Rightarrow> u64 \<Rightarrow> u64 \<Rightarrow> 'h \<Rightarrow> metrics_result c_val \<times> 'h"
  cb_access_logger_config_define_gauge ::
    "access_logger_config_envoy_ptr \<Rightarrow> module_buffer \<Rightarrow> 'h \<Rightarrow> (metrics_result c_val \<times> u64 option) \<times>
      'h"
  cb_access_logger_set_gauge ::
    "access_logger_config_envoy_ptr \<Rightarrow> u64 \<Rightarrow> u64 \<Rightarrow> 'h \<Rightarrow> metrics_result c_val \<times> 'h"
  cb_access_logger_increment_gauge ::
    "access_logger_config_envoy_ptr \<Rightarrow> u64 \<Rightarrow> u64 \<Rightarrow> 'h \<Rightarrow> metrics_result c_val \<times> 'h"

record 'h host_logger_10 =
  cb_access_logger_decrement_gauge ::
    "access_logger_config_envoy_ptr \<Rightarrow> u64 \<Rightarrow> u64 \<Rightarrow> 'h \<Rightarrow> metrics_result c_val \<times> 'h"
  cb_access_logger_config_define_histogram ::
    "access_logger_config_envoy_ptr \<Rightarrow> module_buffer \<Rightarrow> 'h \<Rightarrow> (metrics_result c_val \<times> u64 option) \<times>
      'h"
  cb_access_logger_record_histogram_value ::
    "access_logger_config_envoy_ptr \<Rightarrow> u64 \<Rightarrow> u64 \<Rightarrow> 'h \<Rightarrow> metrics_result c_val \<times> 'h"
  cb_access_logger_get_worker_index ::
    "access_logger_envoy_ptr \<Rightarrow> 'h \<Rightarrow> u32 \<times> 'h"

end
