(* ===== verification/AbiListener.thy ===== *)
theory AbiListener
  imports AbiStructs
begin

text \<open>
  The sections of abi/abi.h for listener filters and UDP listener filters: the pointers, the hooks Envoy
  calls and the callbacks a module calls. The Go SDK has no filters of these kinds.
  The conventions are those of AbiHttpHost and AbiHttpHooks: \<open>'h\<close> is Envoy's state, \<open>'m\<close> the module's,
  an array with its size is a list, and what is written through a pointer is part of the result.
  \<open>get_socket_option_bytes\<close> takes the size of the caller's buffer and gives the bytes written to it.
\<close>

section \<open>Listener filters\<close>

type_synonym listener_filter_config_envoy_ptr = ptr
type_synonym listener_filter_config_module_ptr = ptr
type_synonym listener_filter_envoy_ptr = ptr
type_synonym listener_filter_module_ptr = ptr
type_synonym listener_filter_scheduler_module_ptr = ptr
type_synonym listener_filter_config_scheduler_module_ptr = ptr

record 'm hooks_listener_1 =
  on_listener_filter_config_new ::
    "listener_filter_config_envoy_ptr \<Rightarrow> envoy_buffer \<Rightarrow> envoy_buffer \<Rightarrow> 'm \<Rightarrow>
      (listener_filter_config_module_ptr \<times> 'm) go"
  on_listener_filter_config_destroy ::
    "listener_filter_config_module_ptr \<Rightarrow> 'm \<Rightarrow> (unit \<times> 'm) go"
  on_listener_filter_new ::
    "listener_filter_config_module_ptr \<Rightarrow> listener_filter_envoy_ptr \<Rightarrow> 'm \<Rightarrow>
      (listener_filter_module_ptr \<times> 'm) go"
  on_listener_filter_on_accept ::
    "listener_filter_envoy_ptr \<Rightarrow> listener_filter_module_ptr \<Rightarrow> 'm \<Rightarrow> (on_listener_filter_status
      c_val \<times> 'm) go"
  on_listener_filter_on_data ::
    "listener_filter_envoy_ptr \<Rightarrow> listener_filter_module_ptr \<Rightarrow> u64 \<Rightarrow> 'm \<Rightarrow>
      (on_listener_filter_status c_val \<times> 'm) go"
  on_listener_filter_on_close ::
    "listener_filter_envoy_ptr \<Rightarrow> listener_filter_module_ptr \<Rightarrow> 'm \<Rightarrow> (unit \<times> 'm) go"
  on_listener_filter_get_max_read_bytes ::
    "listener_filter_envoy_ptr \<Rightarrow> listener_filter_module_ptr \<Rightarrow> 'm \<Rightarrow> (u64 \<times> 'm) go"
  on_listener_filter_destroy ::
    "listener_filter_module_ptr \<Rightarrow> 'm \<Rightarrow> (unit \<times> 'm) go"
  on_listener_filter_scheduled ::
    "listener_filter_envoy_ptr \<Rightarrow> listener_filter_module_ptr \<Rightarrow> u64 \<Rightarrow> 'm \<Rightarrow> (unit \<times> 'm) go"
  on_listener_filter_config_scheduled ::
    "listener_filter_config_envoy_ptr \<Rightarrow> listener_filter_config_module_ptr \<Rightarrow> u64 \<Rightarrow> 'm \<Rightarrow> (unit \<times>
      'm) go"

record 'm hooks_listener_2 =
  on_listener_filter_http_callout_done ::
    "listener_filter_envoy_ptr \<Rightarrow> listener_filter_module_ptr \<Rightarrow> u64 \<Rightarrow> http_callout_result c_val \<Rightarrow>
      envoy_http_header list \<Rightarrow> envoy_buffer list \<Rightarrow> 'm \<Rightarrow> (unit \<times> 'm) go"

record 'h host_listener_1 =
  cb_listener_filter_get_buffer_chunk ::
    "listener_filter_envoy_ptr \<Rightarrow> 'h \<Rightarrow> (bool \<times> envoy_buffer option) \<times> 'h"
  cb_listener_filter_drain_buffer ::
    "listener_filter_envoy_ptr \<Rightarrow> u64 \<Rightarrow> 'h \<Rightarrow> bool \<times> 'h"
  cb_listener_filter_set_detected_transport_protocol ::
    "listener_filter_envoy_ptr \<Rightarrow> module_buffer \<Rightarrow> 'h \<Rightarrow> unit \<times> 'h"
  cb_listener_filter_set_requested_server_name ::
    "listener_filter_envoy_ptr \<Rightarrow> module_buffer \<Rightarrow> 'h \<Rightarrow> unit \<times> 'h"
  cb_listener_filter_set_requested_application_protocols ::
    "listener_filter_envoy_ptr \<Rightarrow> module_buffer list \<Rightarrow> 'h \<Rightarrow> unit \<times> 'h"
  cb_listener_filter_set_ja3_hash ::
    "listener_filter_envoy_ptr \<Rightarrow> module_buffer \<Rightarrow> 'h \<Rightarrow> unit \<times> 'h"
  cb_listener_filter_set_ja4_hash ::
    "listener_filter_envoy_ptr \<Rightarrow> module_buffer \<Rightarrow> 'h \<Rightarrow> unit \<times> 'h"
  cb_listener_filter_get_requested_server_name ::
    "listener_filter_envoy_ptr \<Rightarrow> 'h \<Rightarrow> (bool \<times> envoy_buffer option) \<times> 'h"
  cb_listener_filter_get_detected_transport_protocol ::
    "listener_filter_envoy_ptr \<Rightarrow> 'h \<Rightarrow> (bool \<times> envoy_buffer option) \<times> 'h"
  cb_listener_filter_get_requested_application_protocols_size ::
    "listener_filter_envoy_ptr \<Rightarrow> 'h \<Rightarrow> u64 \<times> 'h"

record 'h host_listener_2 =
  cb_listener_filter_get_requested_application_protocols ::
    "listener_filter_envoy_ptr \<Rightarrow> 'h \<Rightarrow> (bool \<times> envoy_buffer list) \<times> 'h"
  cb_listener_filter_get_ja3_hash ::
    "listener_filter_envoy_ptr \<Rightarrow> 'h \<Rightarrow> (bool \<times> envoy_buffer option) \<times> 'h"
  cb_listener_filter_get_ja4_hash ::
    "listener_filter_envoy_ptr \<Rightarrow> 'h \<Rightarrow> (bool \<times> envoy_buffer option) \<times> 'h"
  cb_listener_filter_is_ssl ::
    "listener_filter_envoy_ptr \<Rightarrow> 'h \<Rightarrow> bool \<times> 'h"
  cb_listener_filter_get_ssl_uri_sans_size ::
    "listener_filter_envoy_ptr \<Rightarrow> 'h \<Rightarrow> u64 \<times> 'h"
  cb_listener_filter_get_ssl_uri_sans ::
    "listener_filter_envoy_ptr \<Rightarrow> 'h \<Rightarrow> (bool \<times> envoy_buffer list) \<times> 'h"
  cb_listener_filter_get_ssl_dns_sans_size ::
    "listener_filter_envoy_ptr \<Rightarrow> 'h \<Rightarrow> u64 \<times> 'h"
  cb_listener_filter_get_ssl_dns_sans ::
    "listener_filter_envoy_ptr \<Rightarrow> 'h \<Rightarrow> (bool \<times> envoy_buffer list) \<times> 'h"
  cb_listener_filter_get_ssl_subject ::
    "listener_filter_envoy_ptr \<Rightarrow> 'h \<Rightarrow> (bool \<times> envoy_buffer option) \<times> 'h"
  cb_listener_filter_get_remote_address ::
    "listener_filter_envoy_ptr \<Rightarrow> 'h \<Rightarrow> (bool \<times> envoy_buffer option \<times> u32 option) \<times> 'h"

record 'h host_listener_3 =
  cb_listener_filter_get_direct_remote_address ::
    "listener_filter_envoy_ptr \<Rightarrow> 'h \<Rightarrow> (bool \<times> envoy_buffer option \<times> u32 option) \<times> 'h"
  cb_listener_filter_get_local_address ::
    "listener_filter_envoy_ptr \<Rightarrow> 'h \<Rightarrow> (bool \<times> envoy_buffer option \<times> u32 option) \<times> 'h"
  cb_listener_filter_get_direct_local_address ::
    "listener_filter_envoy_ptr \<Rightarrow> 'h \<Rightarrow> (bool \<times> envoy_buffer option \<times> u32 option) \<times> 'h"
  cb_listener_filter_get_original_dst ::
    "listener_filter_envoy_ptr \<Rightarrow> 'h \<Rightarrow> (bool \<times> envoy_buffer option \<times> u32 option) \<times> 'h"
  cb_listener_filter_get_address_type ::
    "listener_filter_envoy_ptr \<Rightarrow> 'h \<Rightarrow> address_type c_val \<times> 'h"
  cb_listener_filter_is_local_address_restored ::
    "listener_filter_envoy_ptr \<Rightarrow> 'h \<Rightarrow> bool \<times> 'h"
  cb_listener_filter_set_remote_address ::
    "listener_filter_envoy_ptr \<Rightarrow> module_buffer \<Rightarrow> u32 \<Rightarrow> bool \<Rightarrow> 'h \<Rightarrow> bool \<times> 'h"
  cb_listener_filter_restore_local_address ::
    "listener_filter_envoy_ptr \<Rightarrow> module_buffer \<Rightarrow> u32 \<Rightarrow> bool \<Rightarrow> 'h \<Rightarrow> bool \<times> 'h"
  cb_listener_filter_continue_filter_chain ::
    "listener_filter_envoy_ptr \<Rightarrow> bool \<Rightarrow> 'h \<Rightarrow> unit \<times> 'h"
  cb_listener_filter_use_original_dst ::
    "listener_filter_envoy_ptr \<Rightarrow> bool \<Rightarrow> 'h \<Rightarrow> unit \<times> 'h"

record 'h host_listener_4 =
  cb_listener_filter_close_socket ::
    "listener_filter_envoy_ptr \<Rightarrow> module_buffer \<Rightarrow> 'h \<Rightarrow> unit \<times> 'h"
  cb_listener_filter_write_to_socket ::
    "listener_filter_envoy_ptr \<Rightarrow> module_buffer \<Rightarrow> 'h \<Rightarrow> i64 \<times> 'h"
  cb_listener_filter_get_socket_fd ::
    "listener_filter_envoy_ptr \<Rightarrow> 'h \<Rightarrow> i64 \<times> 'h"
  cb_listener_filter_set_socket_option_int ::
    "listener_filter_envoy_ptr \<Rightarrow> i64 \<Rightarrow> i64 \<Rightarrow> i64 \<Rightarrow> 'h \<Rightarrow> bool \<times> 'h"
  cb_listener_filter_set_socket_option_bytes ::
    "listener_filter_envoy_ptr \<Rightarrow> i64 \<Rightarrow> i64 \<Rightarrow> module_buffer \<Rightarrow> 'h \<Rightarrow> bool \<times> 'h"
  cb_listener_filter_get_socket_option_int ::
    "listener_filter_envoy_ptr \<Rightarrow> i64 \<Rightarrow> i64 \<Rightarrow> 'h \<Rightarrow> (bool \<times> i64 option) \<times> 'h"
  cb_listener_filter_get_socket_option_bytes ::
    "listener_filter_envoy_ptr \<Rightarrow> i64 \<Rightarrow> i64 \<Rightarrow> u64 \<Rightarrow> 'h \<Rightarrow> (bool \<times> bytes \<times> u64 option) \<times> 'h"
  cb_listener_filter_set_filter_state ::
    "listener_filter_envoy_ptr \<Rightarrow> module_buffer \<Rightarrow> module_buffer \<Rightarrow> 'h \<Rightarrow> bool \<times> 'h"
  cb_listener_filter_get_filter_state ::
    "listener_filter_envoy_ptr \<Rightarrow> module_buffer \<Rightarrow> 'h \<Rightarrow> (bool \<times> envoy_buffer option) \<times> 'h"
  cb_listener_filter_set_downstream_transport_failure_reason ::
    "listener_filter_envoy_ptr \<Rightarrow> module_buffer \<Rightarrow> 'h \<Rightarrow> unit \<times> 'h"

record 'h host_listener_5 =
  cb_listener_filter_get_connection_start_time_ms ::
    "listener_filter_envoy_ptr \<Rightarrow> 'h \<Rightarrow> u64 \<times> 'h"
  cb_listener_filter_get_dynamic_metadata_string ::
    "listener_filter_envoy_ptr \<Rightarrow> module_buffer \<Rightarrow> module_buffer \<Rightarrow> 'h \<Rightarrow> (bool \<times> envoy_buffer
      option) \<times> 'h"
  cb_listener_filter_set_dynamic_metadata_string ::
    "listener_filter_envoy_ptr \<Rightarrow> module_buffer \<Rightarrow> module_buffer \<Rightarrow> module_buffer \<Rightarrow> 'h \<Rightarrow> unit \<times> 'h"
  cb_listener_filter_get_dynamic_metadata_number ::
    "listener_filter_envoy_ptr \<Rightarrow> module_buffer \<Rightarrow> module_buffer \<Rightarrow> 'h \<Rightarrow> (bool \<times> f64 option) \<times> 'h"
  cb_listener_filter_set_dynamic_metadata_number ::
    "listener_filter_envoy_ptr \<Rightarrow> module_buffer \<Rightarrow> module_buffer \<Rightarrow> f64 \<Rightarrow> 'h \<Rightarrow> unit \<times> 'h"
  cb_listener_filter_max_read_bytes ::
    "listener_filter_envoy_ptr \<Rightarrow> 'h \<Rightarrow> u64 \<times> 'h"
  cb_listener_filter_config_define_counter ::
    "listener_filter_config_envoy_ptr \<Rightarrow> module_buffer \<Rightarrow> 'h \<Rightarrow> (metrics_result c_val \<times> u64 option)
      \<times> 'h"
  cb_listener_filter_increment_counter ::
    "listener_filter_envoy_ptr \<Rightarrow> u64 \<Rightarrow> u64 \<Rightarrow> 'h \<Rightarrow> metrics_result c_val \<times> 'h"
  cb_listener_filter_config_define_gauge ::
    "listener_filter_config_envoy_ptr \<Rightarrow> module_buffer \<Rightarrow> 'h \<Rightarrow> (metrics_result c_val \<times> u64 option)
      \<times> 'h"
  cb_listener_filter_set_gauge ::
    "listener_filter_envoy_ptr \<Rightarrow> u64 \<Rightarrow> u64 \<Rightarrow> 'h \<Rightarrow> metrics_result c_val \<times> 'h"

record 'h host_listener_6 =
  cb_listener_filter_increment_gauge ::
    "listener_filter_envoy_ptr \<Rightarrow> u64 \<Rightarrow> u64 \<Rightarrow> 'h \<Rightarrow> metrics_result c_val \<times> 'h"
  cb_listener_filter_decrement_gauge ::
    "listener_filter_envoy_ptr \<Rightarrow> u64 \<Rightarrow> u64 \<Rightarrow> 'h \<Rightarrow> metrics_result c_val \<times> 'h"
  cb_listener_filter_config_define_histogram ::
    "listener_filter_config_envoy_ptr \<Rightarrow> module_buffer \<Rightarrow> 'h \<Rightarrow> (metrics_result c_val \<times> u64 option)
      \<times> 'h"
  cb_listener_filter_record_histogram_value ::
    "listener_filter_envoy_ptr \<Rightarrow> u64 \<Rightarrow> u64 \<Rightarrow> 'h \<Rightarrow> metrics_result c_val \<times> 'h"
  cb_listener_filter_http_callout ::
    "listener_filter_envoy_ptr \<Rightarrow> module_buffer \<Rightarrow> module_http_header list \<Rightarrow> module_buffer \<Rightarrow> u64 \<Rightarrow>
      'h \<Rightarrow> (http_callout_init_result c_val \<times> u64 option) \<times> 'h"
  cb_listener_filter_scheduler_new ::
    "listener_filter_envoy_ptr \<Rightarrow> 'h \<Rightarrow> listener_filter_scheduler_module_ptr \<times> 'h"
  cb_listener_filter_scheduler_commit ::
    "listener_filter_scheduler_module_ptr \<Rightarrow> u64 \<Rightarrow> 'h \<Rightarrow> unit \<times> 'h"
  cb_listener_filter_scheduler_delete ::
    "listener_filter_scheduler_module_ptr \<Rightarrow> 'h \<Rightarrow> unit \<times> 'h"
  cb_listener_filter_config_scheduler_new ::
    "listener_filter_config_envoy_ptr \<Rightarrow> 'h \<Rightarrow> listener_filter_config_scheduler_module_ptr \<times> 'h"

record 'h host_listener_7 =
  cb_listener_filter_config_scheduler_delete ::
    "listener_filter_config_scheduler_module_ptr \<Rightarrow> 'h \<Rightarrow> unit \<times> 'h"
  cb_listener_filter_config_scheduler_commit ::
    "listener_filter_config_scheduler_module_ptr \<Rightarrow> u64 \<Rightarrow> 'h \<Rightarrow> unit \<times> 'h"
  cb_listener_filter_get_worker_index ::
    "listener_filter_envoy_ptr \<Rightarrow> 'h \<Rightarrow> u32 \<times> 'h"

section \<open>UDP listener filters\<close>

type_synonym udp_listener_filter_config_envoy_ptr = ptr
type_synonym udp_listener_filter_config_module_ptr = ptr
type_synonym udp_listener_filter_envoy_ptr = ptr
type_synonym udp_listener_filter_module_ptr = ptr

record 'm hooks_udp_listener =
  on_udp_listener_filter_config_new ::
    "udp_listener_filter_config_envoy_ptr \<Rightarrow> envoy_buffer \<Rightarrow> envoy_buffer \<Rightarrow> 'm \<Rightarrow>
      (udp_listener_filter_config_module_ptr \<times> 'm) go"
  on_udp_listener_filter_config_destroy ::
    "udp_listener_filter_config_module_ptr \<Rightarrow> 'm \<Rightarrow> (unit \<times> 'm) go"
  on_udp_listener_filter_new ::
    "udp_listener_filter_config_module_ptr \<Rightarrow> udp_listener_filter_envoy_ptr \<Rightarrow> 'm \<Rightarrow>
      (udp_listener_filter_module_ptr \<times> 'm) go"
  on_udp_listener_filter_on_data ::
    "udp_listener_filter_envoy_ptr \<Rightarrow> udp_listener_filter_module_ptr \<Rightarrow> 'm \<Rightarrow>
      (on_udp_listener_filter_status c_val \<times> 'm) go"
  on_udp_listener_filter_destroy ::
    "udp_listener_filter_module_ptr \<Rightarrow> 'm \<Rightarrow> (unit \<times> 'm) go"

record 'h host_udp_listener_1 =
  cb_udp_listener_filter_get_datagram_data_chunks_size ::
    "udp_listener_filter_envoy_ptr \<Rightarrow> 'h \<Rightarrow> u64 \<times> 'h"
  cb_udp_listener_filter_get_datagram_data_chunks ::
    "udp_listener_filter_envoy_ptr \<Rightarrow> 'h \<Rightarrow> (bool \<times> envoy_buffer list) \<times> 'h"
  cb_udp_listener_filter_get_datagram_data_size ::
    "udp_listener_filter_envoy_ptr \<Rightarrow> 'h \<Rightarrow> u64 \<times> 'h"
  cb_udp_listener_filter_set_datagram_data ::
    "udp_listener_filter_envoy_ptr \<Rightarrow> module_buffer \<Rightarrow> 'h \<Rightarrow> bool \<times> 'h"
  cb_udp_listener_filter_get_peer_address ::
    "udp_listener_filter_envoy_ptr \<Rightarrow> 'h \<Rightarrow> (bool \<times> envoy_buffer option \<times> u32 option) \<times> 'h"
  cb_udp_listener_filter_get_local_address ::
    "udp_listener_filter_envoy_ptr \<Rightarrow> 'h \<Rightarrow> (bool \<times> envoy_buffer option \<times> u32 option) \<times> 'h"
  cb_udp_listener_filter_send_datagram ::
    "udp_listener_filter_envoy_ptr \<Rightarrow> module_buffer \<Rightarrow> module_buffer \<Rightarrow> u32 \<Rightarrow> 'h \<Rightarrow> bool \<times> 'h"
  cb_udp_listener_filter_config_define_counter ::
    "udp_listener_filter_config_envoy_ptr \<Rightarrow> module_buffer \<Rightarrow> 'h \<Rightarrow> (metrics_result c_val \<times> u64
      option) \<times> 'h"
  cb_udp_listener_filter_increment_counter ::
    "udp_listener_filter_envoy_ptr \<Rightarrow> u64 \<Rightarrow> u64 \<Rightarrow> 'h \<Rightarrow> metrics_result c_val \<times> 'h"
  cb_udp_listener_filter_config_define_gauge ::
    "udp_listener_filter_config_envoy_ptr \<Rightarrow> module_buffer \<Rightarrow> 'h \<Rightarrow> (metrics_result c_val \<times> u64
      option) \<times> 'h"

record 'h host_udp_listener_2 =
  cb_udp_listener_filter_set_gauge ::
    "udp_listener_filter_envoy_ptr \<Rightarrow> u64 \<Rightarrow> u64 \<Rightarrow> 'h \<Rightarrow> metrics_result c_val \<times> 'h"
  cb_udp_listener_filter_increment_gauge ::
    "udp_listener_filter_envoy_ptr \<Rightarrow> u64 \<Rightarrow> u64 \<Rightarrow> 'h \<Rightarrow> metrics_result c_val \<times> 'h"
  cb_udp_listener_filter_decrement_gauge ::
    "udp_listener_filter_envoy_ptr \<Rightarrow> u64 \<Rightarrow> u64 \<Rightarrow> 'h \<Rightarrow> metrics_result c_val \<times> 'h"
  cb_udp_listener_filter_config_define_histogram ::
    "udp_listener_filter_config_envoy_ptr \<Rightarrow> module_buffer \<Rightarrow> 'h \<Rightarrow> (metrics_result c_val \<times> u64
      option) \<times> 'h"
  cb_udp_listener_filter_record_histogram_value ::
    "udp_listener_filter_envoy_ptr \<Rightarrow> u64 \<Rightarrow> u64 \<Rightarrow> 'h \<Rightarrow> metrics_result c_val \<times> 'h"
  cb_udp_listener_filter_get_worker_index ::
    "udp_listener_filter_envoy_ptr \<Rightarrow> 'h \<Rightarrow> u32 \<times> 'h"

end
