(* ===== verification/AbiBootstrap.thy ===== *)
theory AbiBootstrap
  imports AbiStructs
begin

text \<open>
  The section of abi/abi.h for bootstrap extensions, which run with the server and see its statistics,
  timers, files, admin handlers, clusters and listeners.
  The conventions are those of AbiHttpHost and AbiHttpHooks: \<open>'h\<close> is Envoy's state, \<open>'m\<close> the module's,
  an array with its size is a list, and what is written through a pointer is part of the result.
  A completion callback is an address the module keeps. An iterator is a function of the module that
  Envoy calls for every statistic while it runs: it takes and returns the user data.
\<close>

section \<open>Pointers and enumerations\<close>

type_synonym bootstrap_extension_config_envoy_ptr = ptr
type_synonym bootstrap_extension_config_module_ptr = ptr
type_synonym bootstrap_extension_envoy_ptr = ptr
type_synonym bootstrap_extension_module_ptr = ptr
type_synonym bootstrap_extension_config_scheduler_module_ptr = ptr
type_synonym bootstrap_extension_timer_module_ptr = ptr

datatype stats_iteration_action =
    stats_iteration_action_Continue
  | stats_iteration_action_Stop

definition stats_iteration_action_order :: "stats_iteration_action list" where
  "stats_iteration_action_order =
   [stats_iteration_action_Continue,
    stats_iteration_action_Stop]"

interpretation stats_iteration_action: c_enum stats_iteration_action_order
proof
  show "distinct stats_iteration_action_order" by (simp add: stats_iteration_action_order_def)
  show "x \<in> set stats_iteration_action_order" for x 
    unfolding stats_iteration_action_order_def by (cases x; hypsubst; (rule list.set_intros)+)
qed

datatype host_health =
    host_health_Unhealthy
  | host_health_Degraded
  | host_health_Healthy

definition host_health_order :: "host_health list" where
  "host_health_order =
   [host_health_Unhealthy,
    host_health_Degraded,
    host_health_Healthy]"

interpretation host_health: c_enum host_health_order
proof
  show "distinct host_health_order" by (simp add: host_health_order_def)
  show "x \<in> set host_health_order" for x 
    unfolding host_health_order_def by (cases x; hypsubst; (rule list.set_intros)+)
qed

datatype host_stat =
    host_stat_CxConnectFail
  | host_stat_CxTotal
  | host_stat_RqError
  | host_stat_RqSuccess
  | host_stat_RqTimeout
  | host_stat_RqTotal
  | host_stat_CxActive
  | host_stat_RqActive

definition host_stat_order :: "host_stat list" where
  "host_stat_order =
   [host_stat_CxConnectFail,
    host_stat_CxTotal,
    host_stat_RqError,
    host_stat_RqSuccess,
    host_stat_RqTimeout,
    host_stat_RqTotal,
    host_stat_CxActive,
    host_stat_RqActive]"

interpretation host_stat: c_enum host_stat_order
proof
  show "distinct host_stat_order" by (simp add: host_stat_order_def)
  show "x \<in> set host_stat_order" for x 
    unfolding host_stat_order_def by (cases x; hypsubst; (rule list.set_intros)+)
qed

type_synonym event_cb = ptr

type_synonym 'm counter_iterator_fn = "envoy_buffer \<Rightarrow> u64 \<Rightarrow> 'm \<Rightarrow> stats_iteration_action c_val \<times> 'm"

type_synonym 'm gauge_iterator_fn = "envoy_buffer \<Rightarrow> u64 \<Rightarrow> 'm \<Rightarrow> stats_iteration_action c_val \<times> 'm"


section \<open>The hooks\<close>

record 'm hooks_bootstrap_1 =
  on_bootstrap_extension_config_new ::
    "bootstrap_extension_config_envoy_ptr \<Rightarrow> envoy_buffer \<Rightarrow> envoy_buffer \<Rightarrow> 'm \<Rightarrow>
      (bootstrap_extension_config_module_ptr \<times> 'm) go"
  on_bootstrap_extension_config_destroy ::
    "bootstrap_extension_config_module_ptr \<Rightarrow> 'm \<Rightarrow> (unit \<times> 'm) go"
  on_bootstrap_extension_new ::
    "bootstrap_extension_config_module_ptr \<Rightarrow> bootstrap_extension_envoy_ptr \<Rightarrow> 'm \<Rightarrow>
      (bootstrap_extension_module_ptr \<times> 'm) go"
  on_bootstrap_extension_server_initialized ::
    "bootstrap_extension_envoy_ptr \<Rightarrow> bootstrap_extension_module_ptr \<Rightarrow> 'm \<Rightarrow> (unit \<times> 'm) go"
  on_bootstrap_extension_worker_thread_initialized ::
    "bootstrap_extension_envoy_ptr \<Rightarrow> bootstrap_extension_module_ptr \<Rightarrow> 'm \<Rightarrow> (unit \<times> 'm) go"
  on_bootstrap_extension_drain_started ::
    "bootstrap_extension_envoy_ptr \<Rightarrow> bootstrap_extension_module_ptr \<Rightarrow> 'm \<Rightarrow> (unit \<times> 'm) go"
  on_bootstrap_extension_shutdown ::
    "bootstrap_extension_envoy_ptr \<Rightarrow> bootstrap_extension_module_ptr \<Rightarrow> event_cb \<Rightarrow> ptr \<Rightarrow> 'm \<Rightarrow> (unit
      \<times> 'm) go"
  on_bootstrap_extension_destroy ::
    "bootstrap_extension_module_ptr \<Rightarrow> 'm \<Rightarrow> (unit \<times> 'm) go"
  on_bootstrap_extension_config_scheduled ::
    "bootstrap_extension_config_envoy_ptr \<Rightarrow> bootstrap_extension_config_module_ptr \<Rightarrow> u64 \<Rightarrow> 'm \<Rightarrow>
      (unit \<times> 'm) go"

record 'm hooks_bootstrap_2 =
  on_bootstrap_extension_timer_fired ::
    "bootstrap_extension_config_envoy_ptr \<Rightarrow> bootstrap_extension_config_module_ptr \<Rightarrow>
      bootstrap_extension_timer_module_ptr \<Rightarrow> 'm \<Rightarrow> (unit \<times> 'm) go"
  on_bootstrap_extension_file_changed ::
    "bootstrap_extension_config_envoy_ptr \<Rightarrow> bootstrap_extension_config_module_ptr \<Rightarrow> envoy_buffer
      \<Rightarrow> u32 \<Rightarrow> 'm \<Rightarrow> (unit \<times> 'm) go"
  on_bootstrap_extension_cluster_add_or_update ::
    "bootstrap_extension_config_envoy_ptr \<Rightarrow> bootstrap_extension_config_module_ptr \<Rightarrow> envoy_buffer
      \<Rightarrow> 'm \<Rightarrow> (unit \<times> 'm) go"
  on_bootstrap_extension_cluster_removal ::
    "bootstrap_extension_config_envoy_ptr \<Rightarrow> bootstrap_extension_config_module_ptr \<Rightarrow> envoy_buffer
      \<Rightarrow> 'm \<Rightarrow> (unit \<times> 'm) go"
  on_bootstrap_extension_listener_add_or_update ::
    "bootstrap_extension_config_envoy_ptr \<Rightarrow> bootstrap_extension_config_module_ptr \<Rightarrow> envoy_buffer
      \<Rightarrow> 'm \<Rightarrow> (unit \<times> 'm) go"
  on_bootstrap_extension_listener_removal ::
    "bootstrap_extension_config_envoy_ptr \<Rightarrow> bootstrap_extension_config_module_ptr \<Rightarrow> envoy_buffer
      \<Rightarrow> 'm \<Rightarrow> (unit \<times> 'm) go"

record 'm hooks_bootstrap_callout =
  on_bootstrap_extension_http_callout_done ::
    "bootstrap_extension_config_envoy_ptr \<Rightarrow> bootstrap_extension_config_module_ptr \<Rightarrow> u64 \<Rightarrow>
      http_callout_result c_val \<Rightarrow> envoy_http_header list \<Rightarrow> envoy_buffer list \<Rightarrow> 'm \<Rightarrow> (unit \<times> 'm)
      go"

record 'm hooks_bootstrap_admin =
  on_bootstrap_extension_admin_request ::
    "bootstrap_extension_config_envoy_ptr \<Rightarrow> bootstrap_extension_config_module_ptr \<Rightarrow> envoy_buffer
      \<Rightarrow> envoy_buffer \<Rightarrow> envoy_buffer \<Rightarrow> 'm \<Rightarrow> (u32 \<times> 'm) go"

section \<open>The callbacks\<close>

record 'h host_bootstrap_scheduler =
  cb_bootstrap_extension_config_scheduler_new ::
    "bootstrap_extension_config_envoy_ptr \<Rightarrow> 'h \<Rightarrow> bootstrap_extension_config_scheduler_module_ptr
      \<times> 'h"
  cb_bootstrap_extension_config_scheduler_delete ::
    "bootstrap_extension_config_scheduler_module_ptr \<Rightarrow> 'h \<Rightarrow> unit \<times> 'h"
  cb_bootstrap_extension_config_scheduler_commit ::
    "bootstrap_extension_config_scheduler_module_ptr \<Rightarrow> u64 \<Rightarrow> 'h \<Rightarrow> unit \<times> 'h"

record 'h host_bootstrap_stats =
  cb_bootstrap_extension_http_callout ::
    "bootstrap_extension_config_envoy_ptr \<Rightarrow> module_buffer \<Rightarrow> module_http_header list \<Rightarrow>
      module_buffer \<Rightarrow> u64 \<Rightarrow> 'h \<Rightarrow> (http_callout_init_result c_val \<times> u64 option) \<times> 'h"
  cb_bootstrap_extension_config_signal_init_complete ::
    "bootstrap_extension_config_envoy_ptr \<Rightarrow> 'h \<Rightarrow> unit \<times> 'h"
  cb_bootstrap_extension_get_counter_value ::
    "bootstrap_extension_envoy_ptr \<Rightarrow> module_buffer \<Rightarrow> 'h \<Rightarrow> (bool \<times> u64 option) \<times> 'h"
  cb_bootstrap_extension_get_gauge_value ::
    "bootstrap_extension_envoy_ptr \<Rightarrow> module_buffer \<Rightarrow> 'h \<Rightarrow> (bool \<times> u64 option) \<times> 'h"
  cb_bootstrap_extension_get_histogram_summary ::
    "bootstrap_extension_envoy_ptr \<Rightarrow> module_buffer \<Rightarrow> 'h \<Rightarrow> (bool \<times> u64 option \<times> f64 option) \<times> 'h"

record ('m, 'h) host_bootstrap_iterators =
  cb_bootstrap_extension_iterate_counters ::
    "bootstrap_extension_envoy_ptr \<Rightarrow> 'm counter_iterator_fn \<Rightarrow> 'm \<Rightarrow> 'h \<Rightarrow> 'm \<times> 'h"
  cb_bootstrap_extension_iterate_gauges ::
    "bootstrap_extension_envoy_ptr \<Rightarrow> 'm gauge_iterator_fn \<Rightarrow> 'm \<Rightarrow> 'h \<Rightarrow> 'm \<times> 'h"

record 'h host_bootstrap_metrics_1 =
  cb_bootstrap_extension_config_define_counter ::
    "bootstrap_extension_config_envoy_ptr \<Rightarrow> module_buffer \<Rightarrow> module_buffer list \<Rightarrow> 'h \<Rightarrow>
      (metrics_result c_val \<times> u64 option) \<times> 'h"
  cb_bootstrap_extension_config_increment_counter ::
    "bootstrap_extension_config_envoy_ptr \<Rightarrow> u64 \<Rightarrow> module_buffer list \<Rightarrow> u64 \<Rightarrow> 'h \<Rightarrow> metrics_result
      c_val \<times> 'h"
  cb_bootstrap_extension_config_define_gauge ::
    "bootstrap_extension_config_envoy_ptr \<Rightarrow> module_buffer \<Rightarrow> module_buffer list \<Rightarrow> 'h \<Rightarrow>
      (metrics_result c_val \<times> u64 option) \<times> 'h"
  cb_bootstrap_extension_config_set_gauge ::
    "bootstrap_extension_config_envoy_ptr \<Rightarrow> u64 \<Rightarrow> module_buffer list \<Rightarrow> u64 \<Rightarrow> 'h \<Rightarrow> metrics_result
      c_val \<times> 'h"
  cb_bootstrap_extension_config_increment_gauge ::
    "bootstrap_extension_config_envoy_ptr \<Rightarrow> u64 \<Rightarrow> module_buffer list \<Rightarrow> u64 \<Rightarrow> 'h \<Rightarrow> metrics_result
      c_val \<times> 'h"
  cb_bootstrap_extension_config_decrement_gauge ::
    "bootstrap_extension_config_envoy_ptr \<Rightarrow> u64 \<Rightarrow> module_buffer list \<Rightarrow> u64 \<Rightarrow> 'h \<Rightarrow> metrics_result
      c_val \<times> 'h"
  cb_bootstrap_extension_config_define_histogram ::
    "bootstrap_extension_config_envoy_ptr \<Rightarrow> module_buffer \<Rightarrow> module_buffer list \<Rightarrow> 'h \<Rightarrow>
      (metrics_result c_val \<times> u64 option) \<times> 'h"

record 'h host_bootstrap_metrics_2 =
  cb_bootstrap_extension_config_record_histogram_value ::
    "bootstrap_extension_config_envoy_ptr \<Rightarrow> u64 \<Rightarrow> module_buffer list \<Rightarrow> u64 \<Rightarrow> 'h \<Rightarrow> metrics_result
      c_val \<times> 'h"

record 'h host_bootstrap_timer =
  cb_bootstrap_extension_timer_new ::
    "bootstrap_extension_config_envoy_ptr \<Rightarrow> 'h \<Rightarrow> bootstrap_extension_timer_module_ptr \<times> 'h"
  cb_bootstrap_extension_timer_enable ::
    "bootstrap_extension_timer_module_ptr \<Rightarrow> u64 \<Rightarrow> 'h \<Rightarrow> unit \<times> 'h"
  cb_bootstrap_extension_timer_disable ::
    "bootstrap_extension_timer_module_ptr \<Rightarrow> 'h \<Rightarrow> unit \<times> 'h"
  cb_bootstrap_extension_timer_enabled ::
    "bootstrap_extension_timer_module_ptr \<Rightarrow> 'h \<Rightarrow> bool \<times> 'h"
  cb_bootstrap_extension_timer_delete ::
    "bootstrap_extension_timer_module_ptr \<Rightarrow> 'h \<Rightarrow> unit \<times> 'h"
  cb_bootstrap_extension_file_watcher_add_watch ::
    "bootstrap_extension_config_envoy_ptr \<Rightarrow> module_buffer \<Rightarrow> u32 \<Rightarrow> 'h \<Rightarrow> bool \<times> 'h"

record 'h host_bootstrap_lifecycle =
  cb_bootstrap_extension_admin_set_response ::
    "bootstrap_extension_config_envoy_ptr \<Rightarrow> module_buffer \<Rightarrow> 'h \<Rightarrow> unit \<times> 'h"
  cb_bootstrap_extension_register_admin_handler ::
    "bootstrap_extension_config_envoy_ptr \<Rightarrow> module_buffer \<Rightarrow> module_buffer \<Rightarrow> bool \<Rightarrow> bool \<Rightarrow> 'h \<Rightarrow>
      bool \<times> 'h"
  cb_bootstrap_extension_remove_admin_handler ::
    "bootstrap_extension_config_envoy_ptr \<Rightarrow> module_buffer \<Rightarrow> 'h \<Rightarrow> bool \<times> 'h"
  cb_bootstrap_extension_enable_cluster_lifecycle ::
    "bootstrap_extension_config_envoy_ptr \<Rightarrow> 'h \<Rightarrow> bool \<times> 'h"
  cb_bootstrap_extension_enable_listener_lifecycle ::
    "bootstrap_extension_config_envoy_ptr \<Rightarrow> 'h \<Rightarrow> bool \<times> 'h"

end
