(* ===== verification/AbiCluster.thy ===== *)
theory AbiCluster
  imports AbiBootstrap
begin

text \<open>
  The section of abi/abi.h for cluster extensions: a module that keeps the hosts of a cluster and chooses
  among them.
  The conventions are those of AbiHttpHost and AbiHttpHooks: \<open>'h\<close> is Envoy's state, \<open>'m\<close> the module's,
  an array with its size is a list, and what is written through a pointer is part of the result.
  \<open>add_hosts\<close> has five parallel arrays of length \<open>count\<close>, the metadata triples of all hosts in one array
  (the null pointer is the empty list) and gives the host pointers it wrote.
\<close>

section \<open>Pointers\<close>

type_synonym cluster_config_envoy_ptr = ptr
type_synonym cluster_config_module_ptr = ptr
type_synonym cluster_envoy_ptr = ptr
type_synonym cluster_module_ptr = ptr
type_synonym cluster_lb_envoy_ptr = ptr
type_synonym cluster_lb_module_ptr = ptr
type_synonym cluster_host_envoy_ptr = ptr
type_synonym cluster_lb_context_envoy_ptr = ptr
type_synonym cluster_scheduler_module_ptr = ptr
type_synonym cluster_lb_async_handle_module_ptr = ptr

section \<open>The hooks\<close>

record 'm hooks_cluster_1 =
  on_cluster_config_new ::
    "cluster_config_envoy_ptr \<Rightarrow> envoy_buffer \<Rightarrow> envoy_buffer \<Rightarrow> 'm \<Rightarrow> (cluster_config_module_ptr \<times>
      'm) go"
  on_cluster_config_destroy ::
    "cluster_config_module_ptr \<Rightarrow> 'm \<Rightarrow> (unit \<times> 'm) go"
  on_cluster_new ::
    "cluster_config_module_ptr \<Rightarrow> cluster_envoy_ptr \<Rightarrow> 'm \<Rightarrow> (cluster_module_ptr \<times> 'm) go"
  on_cluster_init ::
    "cluster_envoy_ptr \<Rightarrow> cluster_module_ptr \<Rightarrow> 'm \<Rightarrow> (unit \<times> 'm) go"
  on_cluster_destroy ::
    "cluster_module_ptr \<Rightarrow> 'm \<Rightarrow> (unit \<times> 'm) go"
  on_cluster_lb_new ::
    "cluster_module_ptr \<Rightarrow> cluster_lb_envoy_ptr \<Rightarrow> 'm \<Rightarrow> (cluster_lb_module_ptr \<times> 'm) go"
  on_cluster_lb_destroy ::
    "cluster_lb_module_ptr \<Rightarrow> 'm \<Rightarrow> (unit \<times> 'm) go"
  on_cluster_lb_choose_host ::
    "cluster_lb_module_ptr \<Rightarrow> cluster_lb_context_envoy_ptr \<Rightarrow> 'm \<Rightarrow> (cluster_host_envoy_ptr option \<times>
      cluster_lb_async_handle_module_ptr option \<times> 'm) go"
  on_cluster_lb_cancel_host_selection ::
    "cluster_lb_module_ptr \<Rightarrow> cluster_lb_async_handle_module_ptr \<Rightarrow> 'm \<Rightarrow> (unit \<times> 'm) go"
  on_cluster_scheduled ::
    "cluster_envoy_ptr \<Rightarrow> cluster_module_ptr \<Rightarrow> u64 \<Rightarrow> 'm \<Rightarrow> (unit \<times> 'm) go"

record 'm hooks_cluster_2 =
  on_cluster_server_initialized ::
    "cluster_envoy_ptr \<Rightarrow> cluster_module_ptr \<Rightarrow> 'm \<Rightarrow> (unit \<times> 'm) go"
  on_cluster_drain_started ::
    "cluster_envoy_ptr \<Rightarrow> cluster_module_ptr \<Rightarrow> 'm \<Rightarrow> (unit \<times> 'm) go"
  on_cluster_shutdown ::
    "cluster_envoy_ptr \<Rightarrow> cluster_module_ptr \<Rightarrow> event_cb \<Rightarrow> ptr \<Rightarrow> 'm \<Rightarrow> (unit \<times> 'm) go"
  on_cluster_http_callout_done ::
    "cluster_envoy_ptr \<Rightarrow> cluster_module_ptr \<Rightarrow> u64 \<Rightarrow> http_callout_result c_val \<Rightarrow> envoy_http_header
      list \<Rightarrow> envoy_buffer list \<Rightarrow> 'm \<Rightarrow> (unit \<times> 'm) go"

record 'm hooks_cluster_membership =
  on_cluster_lb_on_host_membership_update ::
    "cluster_lb_envoy_ptr \<Rightarrow> cluster_lb_module_ptr \<Rightarrow> u64 \<Rightarrow> u64 \<Rightarrow> 'm \<Rightarrow> (unit \<times> 'm) go"

section \<open>The callbacks\<close>

record 'h host_cluster_1 =
  cb_cluster_add_hosts ::
    "cluster_envoy_ptr \<Rightarrow> u32 \<Rightarrow> module_buffer list \<Rightarrow> u32 list \<Rightarrow> module_buffer list \<Rightarrow> module_buffer
      list \<Rightarrow> module_buffer list \<Rightarrow> module_buffer list \<Rightarrow> u64 \<Rightarrow> u64 \<Rightarrow> 'h \<Rightarrow> (bool \<times>
      cluster_host_envoy_ptr list) \<times> 'h"
  cb_cluster_remove_hosts ::
    "cluster_envoy_ptr \<Rightarrow> cluster_host_envoy_ptr list \<Rightarrow> 'h \<Rightarrow> u64 \<times> 'h"
  cb_cluster_update_host_health ::
    "cluster_envoy_ptr \<Rightarrow> cluster_host_envoy_ptr \<Rightarrow> host_health c_val \<Rightarrow> 'h \<Rightarrow> bool \<times> 'h"
  cb_cluster_find_host_by_address ::
    "cluster_envoy_ptr \<Rightarrow> module_buffer \<Rightarrow> 'h \<Rightarrow> cluster_host_envoy_ptr \<times> 'h"
  cb_cluster_pre_init_complete ::
    "cluster_envoy_ptr \<Rightarrow> 'h \<Rightarrow> unit \<times> 'h"
  cb_cluster_lb_get_healthy_host_count ::
    "cluster_lb_envoy_ptr \<Rightarrow> u32 \<Rightarrow> 'h \<Rightarrow> u64 \<times> 'h"
  cb_cluster_lb_get_healthy_host ::
    "cluster_lb_envoy_ptr \<Rightarrow> u32 \<Rightarrow> u64 \<Rightarrow> 'h \<Rightarrow> cluster_host_envoy_ptr \<times> 'h"

record 'h host_cluster_2 =
  cb_cluster_lb_get_cluster_name ::
    "cluster_lb_envoy_ptr \<Rightarrow> 'h \<Rightarrow> envoy_buffer option \<times> 'h"
  cb_cluster_lb_get_hosts_count ::
    "cluster_lb_envoy_ptr \<Rightarrow> u32 \<Rightarrow> 'h \<Rightarrow> u64 \<times> 'h"
  cb_cluster_lb_get_degraded_hosts_count ::
    "cluster_lb_envoy_ptr \<Rightarrow> u32 \<Rightarrow> 'h \<Rightarrow> u64 \<times> 'h"
  cb_cluster_lb_get_priority_set_size ::
    "cluster_lb_envoy_ptr \<Rightarrow> 'h \<Rightarrow> u64 \<times> 'h"
  cb_cluster_lb_get_healthy_host_address ::
    "cluster_lb_envoy_ptr \<Rightarrow> u32 \<Rightarrow> u64 \<Rightarrow> 'h \<Rightarrow> (bool \<times> envoy_buffer option) \<times> 'h"
  cb_cluster_lb_get_healthy_host_weight ::
    "cluster_lb_envoy_ptr \<Rightarrow> u32 \<Rightarrow> u64 \<Rightarrow> 'h \<Rightarrow> u32 \<times> 'h"
  cb_cluster_lb_get_host_health ::
    "cluster_lb_envoy_ptr \<Rightarrow> u32 \<Rightarrow> u64 \<Rightarrow> 'h \<Rightarrow> host_health c_val \<times> 'h"
  cb_cluster_lb_get_host_health_by_address ::
    "cluster_lb_envoy_ptr \<Rightarrow> module_buffer \<Rightarrow> 'h \<Rightarrow> (bool \<times> host_health c_val option) \<times> 'h"
  cb_cluster_lb_find_host_by_address ::
    "cluster_lb_envoy_ptr \<Rightarrow> module_buffer \<Rightarrow> 'h \<Rightarrow> cluster_host_envoy_ptr \<times> 'h"
  cb_cluster_lb_get_host ::
    "cluster_lb_envoy_ptr \<Rightarrow> u32 \<Rightarrow> u64 \<Rightarrow> 'h \<Rightarrow> cluster_host_envoy_ptr \<times> 'h"

record 'h host_cluster_3 =
  cb_cluster_lb_get_host_address ::
    "cluster_lb_envoy_ptr \<Rightarrow> u32 \<Rightarrow> u64 \<Rightarrow> 'h \<Rightarrow> (bool \<times> envoy_buffer option) \<times> 'h"
  cb_cluster_lb_get_host_weight ::
    "cluster_lb_envoy_ptr \<Rightarrow> u32 \<Rightarrow> u64 \<Rightarrow> 'h \<Rightarrow> u32 \<times> 'h"
  cb_cluster_lb_get_host_stat ::
    "cluster_lb_envoy_ptr \<Rightarrow> u32 \<Rightarrow> u64 \<Rightarrow> host_stat c_val \<Rightarrow> 'h \<Rightarrow> u64 \<times> 'h"
  cb_cluster_lb_get_host_locality ::
    "cluster_lb_envoy_ptr \<Rightarrow> u32 \<Rightarrow> u64 \<Rightarrow> 'h \<Rightarrow> (bool \<times> envoy_buffer option \<times> envoy_buffer option \<times>
      envoy_buffer option) \<times> 'h"
  cb_cluster_lb_set_host_data ::
    "cluster_lb_envoy_ptr \<Rightarrow> u32 \<Rightarrow> u64 \<Rightarrow> u64 \<Rightarrow> 'h \<Rightarrow> bool \<times> 'h"
  cb_cluster_lb_get_host_data ::
    "cluster_lb_envoy_ptr \<Rightarrow> u32 \<Rightarrow> u64 \<Rightarrow> 'h \<Rightarrow> (bool \<times> u64 option) \<times> 'h"
  cb_cluster_lb_get_host_metadata_string ::
    "cluster_lb_envoy_ptr \<Rightarrow> u32 \<Rightarrow> u64 \<Rightarrow> module_buffer \<Rightarrow> module_buffer \<Rightarrow> 'h \<Rightarrow> (bool \<times> envoy_buffer
      option) \<times> 'h"
  cb_cluster_lb_get_host_metadata_number ::
    "cluster_lb_envoy_ptr \<Rightarrow> u32 \<Rightarrow> u64 \<Rightarrow> module_buffer \<Rightarrow> module_buffer \<Rightarrow> 'h \<Rightarrow> (bool \<times> f64 option)
      \<times> 'h"
  cb_cluster_lb_get_host_metadata_bool ::
    "cluster_lb_envoy_ptr \<Rightarrow> u32 \<Rightarrow> u64 \<Rightarrow> module_buffer \<Rightarrow> module_buffer \<Rightarrow> 'h \<Rightarrow> (bool \<times> bool option)
      \<times> 'h"

record 'h host_cluster_4 =
  cb_cluster_lb_get_locality_count ::
    "cluster_lb_envoy_ptr \<Rightarrow> u32 \<Rightarrow> 'h \<Rightarrow> u64 \<times> 'h"
  cb_cluster_lb_get_locality_host_count ::
    "cluster_lb_envoy_ptr \<Rightarrow> u32 \<Rightarrow> u64 \<Rightarrow> 'h \<Rightarrow> u64 \<times> 'h"
  cb_cluster_lb_get_locality_host_address ::
    "cluster_lb_envoy_ptr \<Rightarrow> u32 \<Rightarrow> u64 \<Rightarrow> u64 \<Rightarrow> 'h \<Rightarrow> (bool \<times> envoy_buffer option) \<times> 'h"
  cb_cluster_lb_get_locality_weight ::
    "cluster_lb_envoy_ptr \<Rightarrow> u32 \<Rightarrow> u64 \<Rightarrow> 'h \<Rightarrow> u32 \<times> 'h"
  cb_cluster_scheduler_new ::
    "cluster_envoy_ptr \<Rightarrow> 'h \<Rightarrow> cluster_scheduler_module_ptr \<times> 'h"
  cb_cluster_scheduler_delete ::
    "cluster_scheduler_module_ptr \<Rightarrow> 'h \<Rightarrow> unit \<times> 'h"
  cb_cluster_scheduler_commit ::
    "cluster_scheduler_module_ptr \<Rightarrow> u64 \<Rightarrow> 'h \<Rightarrow> unit \<times> 'h"
  cb_cluster_config_define_counter ::
    "cluster_config_envoy_ptr \<Rightarrow> module_buffer \<Rightarrow> module_buffer list \<Rightarrow> 'h \<Rightarrow> (metrics_result c_val \<times>
      u64 option) \<times> 'h"
  cb_cluster_config_increment_counter ::
    "cluster_config_envoy_ptr \<Rightarrow> u64 \<Rightarrow> module_buffer list \<Rightarrow> u64 \<Rightarrow> 'h \<Rightarrow> metrics_result c_val \<times> 'h"

record 'h host_cluster_5 =
  cb_cluster_config_define_gauge ::
    "cluster_config_envoy_ptr \<Rightarrow> module_buffer \<Rightarrow> module_buffer list \<Rightarrow> 'h \<Rightarrow> (metrics_result c_val \<times>
      u64 option) \<times> 'h"
  cb_cluster_config_set_gauge ::
    "cluster_config_envoy_ptr \<Rightarrow> u64 \<Rightarrow> module_buffer list \<Rightarrow> u64 \<Rightarrow> 'h \<Rightarrow> metrics_result c_val \<times> 'h"
  cb_cluster_config_increment_gauge ::
    "cluster_config_envoy_ptr \<Rightarrow> u64 \<Rightarrow> module_buffer list \<Rightarrow> u64 \<Rightarrow> 'h \<Rightarrow> metrics_result c_val \<times> 'h"
  cb_cluster_config_decrement_gauge ::
    "cluster_config_envoy_ptr \<Rightarrow> u64 \<Rightarrow> module_buffer list \<Rightarrow> u64 \<Rightarrow> 'h \<Rightarrow> metrics_result c_val \<times> 'h"
  cb_cluster_config_define_histogram ::
    "cluster_config_envoy_ptr \<Rightarrow> module_buffer \<Rightarrow> module_buffer list \<Rightarrow> 'h \<Rightarrow> (metrics_result c_val \<times>
      u64 option) \<times> 'h"
  cb_cluster_config_record_histogram_value ::
    "cluster_config_envoy_ptr \<Rightarrow> u64 \<Rightarrow> module_buffer list \<Rightarrow> u64 \<Rightarrow> 'h \<Rightarrow> metrics_result c_val \<times> 'h"
  cb_cluster_lb_context_compute_hash_key ::
    "cluster_lb_context_envoy_ptr \<Rightarrow> 'h \<Rightarrow> (bool \<times> u64 option) \<times> 'h"

record 'h host_cluster_6 =
  cb_cluster_lb_context_get_downstream_headers_size ::
    "cluster_lb_context_envoy_ptr \<Rightarrow> 'h \<Rightarrow> u64 \<times> 'h"
  cb_cluster_lb_context_get_downstream_headers ::
    "cluster_lb_context_envoy_ptr \<Rightarrow> 'h \<Rightarrow> (bool \<times> envoy_http_header list) \<times> 'h"
  cb_cluster_lb_context_get_downstream_header ::
    "cluster_lb_context_envoy_ptr \<Rightarrow> module_buffer \<Rightarrow> u64 \<Rightarrow> 'h \<Rightarrow> (bool \<times> envoy_buffer option \<times> u64
      option) \<times> 'h"
  cb_cluster_lb_context_get_host_selection_retry_count ::
    "cluster_lb_context_envoy_ptr \<Rightarrow> 'h \<Rightarrow> u32 \<times> 'h"
  cb_cluster_lb_context_should_select_another_host ::
    "cluster_lb_envoy_ptr \<Rightarrow> cluster_lb_context_envoy_ptr \<Rightarrow> u32 \<Rightarrow> u64 \<Rightarrow> 'h \<Rightarrow> bool \<times> 'h"
  cb_cluster_lb_context_get_override_host ::
    "cluster_lb_context_envoy_ptr \<Rightarrow> 'h \<Rightarrow> (bool \<times> envoy_buffer option \<times> bool option) \<times> 'h"
  cb_cluster_lb_context_get_downstream_connection_sni ::
    "cluster_lb_context_envoy_ptr \<Rightarrow> 'h \<Rightarrow> (bool \<times> envoy_buffer option) \<times> 'h"
  cb_cluster_lb_context_get_filter_state_bytes ::
    "cluster_lb_context_envoy_ptr \<Rightarrow> module_buffer \<Rightarrow> 'h \<Rightarrow> (bool \<times> envoy_buffer option) \<times> 'h"
  cb_cluster_lb_context_get_filter_state_typed ::
    "cluster_lb_context_envoy_ptr \<Rightarrow> module_buffer \<Rightarrow> 'h \<Rightarrow> (bool \<times> envoy_buffer option) \<times> 'h"

record 'h host_cluster_7 =
  cb_cluster_lb_async_host_selection_complete ::
    "cluster_lb_envoy_ptr \<Rightarrow> cluster_lb_context_envoy_ptr \<Rightarrow> cluster_host_envoy_ptr \<Rightarrow> module_buffer
      \<Rightarrow> 'h \<Rightarrow> unit \<times> 'h"
  cb_cluster_http_callout ::
    "cluster_envoy_ptr \<Rightarrow> module_buffer \<Rightarrow> module_http_header list \<Rightarrow> module_buffer \<Rightarrow> u64 \<Rightarrow> 'h \<Rightarrow>
      (http_callout_init_result c_val \<times> u64 option) \<times> 'h"

record 'h host_cluster_update =
  cb_cluster_lb_get_member_update_host_address ::
    "cluster_lb_envoy_ptr \<Rightarrow> u64 \<Rightarrow> bool \<Rightarrow> 'h \<Rightarrow> (bool \<times> envoy_buffer option) \<times> 'h"

end
