(* ===== verification/AbiLoadBalancer.thy ===== *)
theory AbiLoadBalancer
  imports AbiBootstrap
begin

text \<open>
  The sections of abi/abi.h for load balancing policies and for matcher inputs.
  The conventions are those of AbiHttpHost and AbiHttpHooks: \<open>'h\<close> is Envoy's state, \<open>'m\<close> the module's,
  an array with its size is a list, and what is written through a pointer is part of the result.
\<close>

section \<open>Load balancers\<close>

type_synonym lb_config_envoy_ptr = ptr
type_synonym lb_config_module_ptr = ptr
type_synonym lb_envoy_ptr = ptr
type_synonym lb_module_ptr = ptr
type_synonym lb_context_envoy_ptr = ptr

record 'm hooks_lb =
  on_lb_config_new ::
    "lb_config_envoy_ptr \<Rightarrow> envoy_buffer \<Rightarrow> envoy_buffer \<Rightarrow> 'm \<Rightarrow> (lb_config_module_ptr \<times> 'm) go"
  on_lb_config_destroy ::
    "lb_config_module_ptr \<Rightarrow> 'm \<Rightarrow> (unit \<times> 'm) go"
  on_lb_new ::
    "lb_config_module_ptr \<Rightarrow> lb_envoy_ptr \<Rightarrow> 'm \<Rightarrow> (lb_module_ptr \<times> 'm) go"
  on_lb_choose_host ::
    "lb_envoy_ptr \<Rightarrow> lb_module_ptr \<Rightarrow> lb_context_envoy_ptr \<Rightarrow> 'm \<Rightarrow> (bool \<times> u32 option \<times> u32 option \<times>
      'm) go"
  on_lb_on_host_membership_update ::
    "lb_envoy_ptr \<Rightarrow> lb_module_ptr \<Rightarrow> u64 \<Rightarrow> u64 \<Rightarrow> 'm \<Rightarrow> (unit \<times> 'm) go"
  on_lb_destroy ::
    "lb_module_ptr \<Rightarrow> 'm \<Rightarrow> (unit \<times> 'm) go"

record 'h host_lb_1 =
  cb_lb_get_cluster_name ::
    "lb_envoy_ptr \<Rightarrow> 'h \<Rightarrow> envoy_buffer option \<times> 'h"
  cb_lb_get_hosts_count ::
    "lb_envoy_ptr \<Rightarrow> u32 \<Rightarrow> 'h \<Rightarrow> u64 \<times> 'h"
  cb_lb_get_healthy_hosts_count ::
    "lb_envoy_ptr \<Rightarrow> u32 \<Rightarrow> 'h \<Rightarrow> u64 \<times> 'h"
  cb_lb_get_degraded_hosts_count ::
    "lb_envoy_ptr \<Rightarrow> u32 \<Rightarrow> 'h \<Rightarrow> u64 \<times> 'h"
  cb_lb_get_priority_set_size ::
    "lb_envoy_ptr \<Rightarrow> 'h \<Rightarrow> u64 \<times> 'h"
  cb_lb_get_healthy_host_address ::
    "lb_envoy_ptr \<Rightarrow> u32 \<Rightarrow> u64 \<Rightarrow> 'h \<Rightarrow> (bool \<times> envoy_buffer option) \<times> 'h"
  cb_lb_get_healthy_host_weight ::
    "lb_envoy_ptr \<Rightarrow> u32 \<Rightarrow> u64 \<Rightarrow> 'h \<Rightarrow> u32 \<times> 'h"
  cb_lb_get_host_health ::
    "lb_envoy_ptr \<Rightarrow> u32 \<Rightarrow> u64 \<Rightarrow> 'h \<Rightarrow> host_health c_val \<times> 'h"
  cb_lb_get_host_health_by_address ::
    "lb_envoy_ptr \<Rightarrow> module_buffer \<Rightarrow> 'h \<Rightarrow> (bool \<times> host_health c_val option) \<times> 'h"
  cb_lb_get_host_address ::
    "lb_envoy_ptr \<Rightarrow> u32 \<Rightarrow> u64 \<Rightarrow> 'h \<Rightarrow> (bool \<times> envoy_buffer option) \<times> 'h"

record 'h host_lb_2 =
  cb_lb_get_host_weight ::
    "lb_envoy_ptr \<Rightarrow> u32 \<Rightarrow> u64 \<Rightarrow> 'h \<Rightarrow> u32 \<times> 'h"
  cb_lb_get_host_locality ::
    "lb_envoy_ptr \<Rightarrow> u32 \<Rightarrow> u64 \<Rightarrow> 'h \<Rightarrow> (bool \<times> envoy_buffer option \<times> envoy_buffer option \<times>
      envoy_buffer option) \<times> 'h"
  cb_lb_set_host_data ::
    "lb_envoy_ptr \<Rightarrow> u32 \<Rightarrow> u64 \<Rightarrow> u64 \<Rightarrow> 'h \<Rightarrow> bool \<times> 'h"
  cb_lb_get_host_data ::
    "lb_envoy_ptr \<Rightarrow> u32 \<Rightarrow> u64 \<Rightarrow> 'h \<Rightarrow> (bool \<times> u64 option) \<times> 'h"
  cb_lb_get_host_metadata_string ::
    "lb_envoy_ptr \<Rightarrow> u32 \<Rightarrow> u64 \<Rightarrow> module_buffer \<Rightarrow> module_buffer \<Rightarrow> 'h \<Rightarrow> (bool \<times> envoy_buffer option)
      \<times> 'h"
  cb_lb_get_host_metadata_number ::
    "lb_envoy_ptr \<Rightarrow> u32 \<Rightarrow> u64 \<Rightarrow> module_buffer \<Rightarrow> module_buffer \<Rightarrow> 'h \<Rightarrow> (bool \<times> f64 option) \<times> 'h"
  cb_lb_get_host_metadata_bool ::
    "lb_envoy_ptr \<Rightarrow> u32 \<Rightarrow> u64 \<Rightarrow> module_buffer \<Rightarrow> module_buffer \<Rightarrow> 'h \<Rightarrow> (bool \<times> bool option) \<times> 'h"
  cb_lb_get_locality_count ::
    "lb_envoy_ptr \<Rightarrow> u32 \<Rightarrow> 'h \<Rightarrow> u64 \<times> 'h"
  cb_lb_get_locality_host_count ::
    "lb_envoy_ptr \<Rightarrow> u32 \<Rightarrow> u64 \<Rightarrow> 'h \<Rightarrow> u64 \<times> 'h"

record 'h host_lb_3 =
  cb_lb_get_locality_host_address ::
    "lb_envoy_ptr \<Rightarrow> u32 \<Rightarrow> u64 \<Rightarrow> u64 \<Rightarrow> 'h \<Rightarrow> (bool \<times> envoy_buffer option) \<times> 'h"
  cb_lb_get_locality_weight ::
    "lb_envoy_ptr \<Rightarrow> u32 \<Rightarrow> u64 \<Rightarrow> 'h \<Rightarrow> u32 \<times> 'h"
  cb_lb_context_compute_hash_key ::
    "lb_context_envoy_ptr \<Rightarrow> 'h \<Rightarrow> (bool \<times> u64 option) \<times> 'h"
  cb_lb_context_get_downstream_headers_size ::
    "lb_context_envoy_ptr \<Rightarrow> 'h \<Rightarrow> u64 \<times> 'h"
  cb_lb_context_get_downstream_headers ::
    "lb_context_envoy_ptr \<Rightarrow> 'h \<Rightarrow> (bool \<times> envoy_http_header list) \<times> 'h"
  cb_lb_context_get_downstream_header ::
    "lb_context_envoy_ptr \<Rightarrow> module_buffer \<Rightarrow> u64 \<Rightarrow> 'h \<Rightarrow> (bool \<times> envoy_buffer option \<times> u64 option)
      \<times> 'h"
  cb_lb_context_get_host_selection_retry_count ::
    "lb_context_envoy_ptr \<Rightarrow> 'h \<Rightarrow> u32 \<times> 'h"
  cb_lb_context_should_select_another_host ::
    "lb_envoy_ptr \<Rightarrow> lb_context_envoy_ptr \<Rightarrow> u32 \<Rightarrow> u64 \<Rightarrow> 'h \<Rightarrow> bool \<times> 'h"
  cb_lb_context_get_override_host ::
    "lb_context_envoy_ptr \<Rightarrow> 'h \<Rightarrow> (bool \<times> envoy_buffer option \<times> bool option) \<times> 'h"

record 'h host_lb_4 =
  cb_lb_get_member_update_host_address ::
    "lb_envoy_ptr \<Rightarrow> u64 \<Rightarrow> bool \<Rightarrow> 'h \<Rightarrow> (bool \<times> envoy_buffer option) \<times> 'h"
  cb_lb_get_host_stat ::
    "lb_envoy_ptr \<Rightarrow> u32 \<Rightarrow> u64 \<Rightarrow> host_stat c_val \<Rightarrow> 'h \<Rightarrow> u64 \<times> 'h"
  cb_lb_config_define_counter ::
    "lb_config_envoy_ptr \<Rightarrow> module_buffer \<Rightarrow> module_buffer list \<Rightarrow> 'h \<Rightarrow> (metrics_result c_val \<times> u64
      option) \<times> 'h"
  cb_lb_config_increment_counter ::
    "lb_config_envoy_ptr \<Rightarrow> u64 \<Rightarrow> module_buffer list \<Rightarrow> u64 \<Rightarrow> 'h \<Rightarrow> metrics_result c_val \<times> 'h"
  cb_lb_config_define_gauge ::
    "lb_config_envoy_ptr \<Rightarrow> module_buffer \<Rightarrow> module_buffer list \<Rightarrow> 'h \<Rightarrow> (metrics_result c_val \<times> u64
      option) \<times> 'h"
  cb_lb_config_set_gauge ::
    "lb_config_envoy_ptr \<Rightarrow> u64 \<Rightarrow> module_buffer list \<Rightarrow> u64 \<Rightarrow> 'h \<Rightarrow> metrics_result c_val \<times> 'h"
  cb_lb_config_increment_gauge ::
    "lb_config_envoy_ptr \<Rightarrow> u64 \<Rightarrow> module_buffer list \<Rightarrow> u64 \<Rightarrow> 'h \<Rightarrow> metrics_result c_val \<times> 'h"

record 'h host_lb_5 =
  cb_lb_config_decrement_gauge ::
    "lb_config_envoy_ptr \<Rightarrow> u64 \<Rightarrow> module_buffer list \<Rightarrow> u64 \<Rightarrow> 'h \<Rightarrow> metrics_result c_val \<times> 'h"
  cb_lb_config_define_histogram ::
    "lb_config_envoy_ptr \<Rightarrow> module_buffer \<Rightarrow> module_buffer list \<Rightarrow> 'h \<Rightarrow> (metrics_result c_val \<times> u64
      option) \<times> 'h"
  cb_lb_config_record_histogram_value ::
    "lb_config_envoy_ptr \<Rightarrow> u64 \<Rightarrow> module_buffer list \<Rightarrow> u64 \<Rightarrow> 'h \<Rightarrow> metrics_result c_val \<times> 'h"

section \<open>Matchers\<close>

type_synonym matcher_config_envoy_ptr = ptr
type_synonym matcher_config_module_ptr = ptr
type_synonym matcher_input_envoy_ptr = ptr

record 'm hooks_matcher =
  on_matcher_config_new ::
    "matcher_config_envoy_ptr \<Rightarrow> envoy_buffer \<Rightarrow> envoy_buffer \<Rightarrow> 'm \<Rightarrow> (matcher_config_module_ptr \<times>
      'm) go"
  on_matcher_config_destroy ::
    "matcher_config_module_ptr \<Rightarrow> 'm \<Rightarrow> (unit \<times> 'm) go"
  on_matcher_match ::
    "matcher_config_module_ptr \<Rightarrow> matcher_input_envoy_ptr \<Rightarrow> 'm \<Rightarrow> (bool \<times> 'm) go"

record 'h host_matcher =
  cb_matcher_get_headers_size ::
    "matcher_input_envoy_ptr \<Rightarrow> http_header_type c_val \<Rightarrow> 'h \<Rightarrow> u64 \<times> 'h"
  cb_matcher_get_headers ::
    "matcher_input_envoy_ptr \<Rightarrow> http_header_type c_val \<Rightarrow> 'h \<Rightarrow> (bool \<times> envoy_http_header list) \<times> 'h"
  cb_matcher_get_header_value ::
    "matcher_input_envoy_ptr \<Rightarrow> http_header_type c_val \<Rightarrow> module_buffer \<Rightarrow> u64 \<Rightarrow> 'h \<Rightarrow> (bool \<times>
      envoy_buffer option \<times> u64 option) \<times> 'h"

end
