(* ===== verification/AbiExtensions.thy ===== *)
theory AbiExtensions
  imports AbiStructs
begin

text \<open>
  The remaining sections of abi/abi.h: certificate validators, the bridge from HTTP requests to TCP
  upstreams, tracers, DNS resolvers and transport sockets.
  The conventions are those of AbiHttpHost and AbiHttpHooks: \<open>'h\<close> is Envoy's state, \<open>'m\<close> the module's,
  an array with its size is a list, and what is written through a pointer is part of the result.
  \<open>write_buffer_get_slices\<close> takes whether the array is null (the query mode) and its capacity.
\<close>

section \<open>Certificate validators\<close>

type_synonym cert_validator_config_envoy_ptr = ptr
type_synonym cert_validator_config_module_ptr = ptr

record cert_validator_validation_result =
  vr_status :: "cert_validator_validation_status c_val"
  vr_detailed_status :: "cert_validator_client_validation_status c_val"
  vr_tls_alert :: u8
  vr_has_tls_alert :: bool


record 'm hooks_cert_validator =
  on_cert_validator_config_new ::
    "cert_validator_config_envoy_ptr \<Rightarrow> envoy_buffer \<Rightarrow> envoy_buffer \<Rightarrow> 'm \<Rightarrow>
      (cert_validator_config_module_ptr \<times> 'm) go"
  on_cert_validator_config_destroy ::
    "cert_validator_config_module_ptr \<Rightarrow> 'm \<Rightarrow> (unit \<times> 'm) go"
  on_cert_validator_do_verify_cert_chain ::
    "cert_validator_config_envoy_ptr \<Rightarrow> cert_validator_config_module_ptr \<Rightarrow> envoy_buffer list \<Rightarrow>
      envoy_buffer \<Rightarrow> bool \<Rightarrow> 'm \<Rightarrow> (cert_validator_validation_result \<times> 'm) go"
  on_cert_validator_get_ssl_verify_mode ::
    "cert_validator_config_module_ptr \<Rightarrow> bool \<Rightarrow> 'm \<Rightarrow> (i32 \<times> 'm) go"
  on_cert_validator_update_digest ::
    "cert_validator_config_module_ptr \<Rightarrow> 'm \<Rightarrow> (module_buffer option \<times> 'm) go"

record 'h host_cert_validator =
  cb_cert_validator_set_error_details ::
    "cert_validator_config_envoy_ptr \<Rightarrow> module_buffer \<Rightarrow> 'h \<Rightarrow> unit \<times> 'h"
  cb_cert_validator_set_filter_state ::
    "cert_validator_config_envoy_ptr \<Rightarrow> module_buffer \<Rightarrow> module_buffer \<Rightarrow> 'h \<Rightarrow> bool \<times> 'h"
  cb_cert_validator_get_filter_state ::
    "cert_validator_config_envoy_ptr \<Rightarrow> module_buffer \<Rightarrow> 'h \<Rightarrow> (bool \<times> envoy_buffer option) \<times> 'h"

section \<open>The upstream bridge\<close>

type_synonym upstream_http_tcp_bridge_config_envoy_ptr = ptr
type_synonym upstream_http_tcp_bridge_config_module_ptr = ptr
type_synonym upstream_http_tcp_bridge_envoy_ptr = ptr
type_synonym upstream_http_tcp_bridge_module_ptr = ptr

record 'm hooks_bridge =
  on_upstream_http_tcp_bridge_config_new ::
    "upstream_http_tcp_bridge_config_envoy_ptr \<Rightarrow> envoy_buffer \<Rightarrow> envoy_buffer \<Rightarrow> 'm \<Rightarrow>
      (upstream_http_tcp_bridge_config_module_ptr \<times> 'm) go"
  on_upstream_http_tcp_bridge_config_destroy ::
    "upstream_http_tcp_bridge_config_module_ptr \<Rightarrow> 'm \<Rightarrow> (unit \<times> 'm) go"
  on_upstream_http_tcp_bridge_new ::
    "upstream_http_tcp_bridge_config_module_ptr \<Rightarrow> upstream_http_tcp_bridge_envoy_ptr \<Rightarrow> 'm \<Rightarrow>
      (upstream_http_tcp_bridge_module_ptr \<times> 'm) go"
  on_upstream_http_tcp_bridge_encode_headers ::
    "upstream_http_tcp_bridge_envoy_ptr \<Rightarrow> upstream_http_tcp_bridge_module_ptr \<Rightarrow> bool \<Rightarrow> 'm \<Rightarrow> (unit
      \<times> 'm) go"
  on_upstream_http_tcp_bridge_encode_data ::
    "upstream_http_tcp_bridge_envoy_ptr \<Rightarrow> upstream_http_tcp_bridge_module_ptr \<Rightarrow> bool \<Rightarrow> 'm \<Rightarrow> (unit
      \<times> 'm) go"
  on_upstream_http_tcp_bridge_encode_trailers ::
    "upstream_http_tcp_bridge_envoy_ptr \<Rightarrow> upstream_http_tcp_bridge_module_ptr \<Rightarrow> 'm \<Rightarrow> (unit \<times> 'm)
      go"
  on_upstream_http_tcp_bridge_on_upstream_data ::
    "upstream_http_tcp_bridge_envoy_ptr \<Rightarrow> upstream_http_tcp_bridge_module_ptr \<Rightarrow> bool \<Rightarrow> 'm \<Rightarrow> (unit
      \<times> 'm) go"
  on_upstream_http_tcp_bridge_destroy ::
    "upstream_http_tcp_bridge_module_ptr \<Rightarrow> 'm \<Rightarrow> (unit \<times> 'm) go"

record 'h host_bridge =
  cb_upstream_http_tcp_bridge_get_request_header ::
    "upstream_http_tcp_bridge_envoy_ptr \<Rightarrow> module_buffer \<Rightarrow> u64 \<Rightarrow> 'h \<Rightarrow> (bool \<times> envoy_buffer option
      \<times> u64 option) \<times> 'h"
  cb_upstream_http_tcp_bridge_get_request_headers_size ::
    "upstream_http_tcp_bridge_envoy_ptr \<Rightarrow> 'h \<Rightarrow> u64 \<times> 'h"
  cb_upstream_http_tcp_bridge_get_request_headers ::
    "upstream_http_tcp_bridge_envoy_ptr \<Rightarrow> 'h \<Rightarrow> (bool \<times> envoy_http_header list) \<times> 'h"
  cb_upstream_http_tcp_bridge_get_request_buffer ::
    "upstream_http_tcp_bridge_envoy_ptr \<Rightarrow> 'h \<Rightarrow> (envoy_buffer list \<times> u64 option) \<times> 'h"
  cb_upstream_http_tcp_bridge_get_response_buffer ::
    "upstream_http_tcp_bridge_envoy_ptr \<Rightarrow> 'h \<Rightarrow> (envoy_buffer list \<times> u64 option) \<times> 'h"
  cb_upstream_http_tcp_bridge_send_upstream_data ::
    "upstream_http_tcp_bridge_envoy_ptr \<Rightarrow> module_buffer \<Rightarrow> bool \<Rightarrow> 'h \<Rightarrow> unit \<times> 'h"
  cb_upstream_http_tcp_bridge_send_response ::
    "upstream_http_tcp_bridge_envoy_ptr \<Rightarrow> u32 \<Rightarrow> module_http_header list \<Rightarrow> module_buffer \<Rightarrow> 'h \<Rightarrow>
      unit \<times> 'h"
  cb_upstream_http_tcp_bridge_send_response_headers ::
    "upstream_http_tcp_bridge_envoy_ptr \<Rightarrow> u32 \<Rightarrow> module_http_header list \<Rightarrow> bool \<Rightarrow> 'h \<Rightarrow> unit \<times> 'h"
  cb_upstream_http_tcp_bridge_send_response_data ::
    "upstream_http_tcp_bridge_envoy_ptr \<Rightarrow> module_buffer \<Rightarrow> bool \<Rightarrow> 'h \<Rightarrow> unit \<times> 'h"
  cb_upstream_http_tcp_bridge_send_response_trailers ::
    "upstream_http_tcp_bridge_envoy_ptr \<Rightarrow> module_http_header list \<Rightarrow> 'h \<Rightarrow> unit \<times> 'h"

section \<open>Tracers\<close>

type_synonym tracer_config_envoy_ptr = ptr
type_synonym tracer_config_module_ptr = ptr
type_synonym tracer_span_envoy_ptr = ptr
type_synonym tracer_span_module_ptr = ptr

record 'm hooks_tracer_1 =
  on_tracer_config_new ::
    "tracer_config_envoy_ptr \<Rightarrow> envoy_buffer \<Rightarrow> envoy_buffer \<Rightarrow> 'm \<Rightarrow> (tracer_config_module_ptr \<times> 'm)
      go"
  on_tracer_config_destroy ::
    "tracer_config_module_ptr \<Rightarrow> 'm \<Rightarrow> (unit \<times> 'm) go"
  on_tracer_start_span ::
    "tracer_config_module_ptr \<Rightarrow> tracer_span_envoy_ptr \<Rightarrow> envoy_buffer \<Rightarrow> bool \<Rightarrow> trace_reason c_val
      \<Rightarrow> 'm \<Rightarrow> (tracer_span_module_ptr \<times> 'm) go"
  on_tracer_span_set_operation ::
    "tracer_span_module_ptr \<Rightarrow> envoy_buffer \<Rightarrow> 'm \<Rightarrow> (unit \<times> 'm) go"
  on_tracer_span_set_tag ::
    "tracer_span_module_ptr \<Rightarrow> envoy_buffer \<Rightarrow> envoy_buffer \<Rightarrow> 'm \<Rightarrow> (unit \<times> 'm) go"
  on_tracer_span_log ::
    "tracer_span_module_ptr \<Rightarrow> i64 \<Rightarrow> envoy_buffer \<Rightarrow> 'm \<Rightarrow> (unit \<times> 'm) go"
  on_tracer_span_finish ::
    "tracer_span_module_ptr \<Rightarrow> 'm \<Rightarrow> (unit \<times> 'm) go"
  on_tracer_span_inject_context ::
    "tracer_span_module_ptr \<Rightarrow> tracer_span_envoy_ptr \<Rightarrow> 'm \<Rightarrow> (unit \<times> 'm) go"
  on_tracer_span_spawn_child ::
    "tracer_span_module_ptr \<Rightarrow> envoy_buffer \<Rightarrow> i64 \<Rightarrow> 'm \<Rightarrow> (tracer_span_module_ptr \<times> 'm) go"
  on_tracer_span_set_sampled ::
    "tracer_span_module_ptr \<Rightarrow> bool \<Rightarrow> 'm \<Rightarrow> (unit \<times> 'm) go"

record 'm hooks_tracer_2 =
  on_tracer_span_use_local_decision ::
    "tracer_span_module_ptr \<Rightarrow> 'm \<Rightarrow> (bool \<times> 'm) go"
  on_tracer_span_get_baggage ::
    "tracer_span_module_ptr \<Rightarrow> envoy_buffer \<Rightarrow> 'm \<Rightarrow> (bool \<times> module_buffer option \<times> 'm) go"
  on_tracer_span_set_baggage ::
    "tracer_span_module_ptr \<Rightarrow> envoy_buffer \<Rightarrow> envoy_buffer \<Rightarrow> 'm \<Rightarrow> (unit \<times> 'm) go"
  on_tracer_span_get_trace_id ::
    "tracer_span_module_ptr \<Rightarrow> 'm \<Rightarrow> (bool \<times> module_buffer option \<times> 'm) go"
  on_tracer_span_get_span_id ::
    "tracer_span_module_ptr \<Rightarrow> 'm \<Rightarrow> (bool \<times> module_buffer option \<times> 'm) go"
  on_tracer_span_destroy ::
    "tracer_span_module_ptr \<Rightarrow> 'm \<Rightarrow> (unit \<times> 'm) go"

record 'h host_tracer_1 =
  cb_tracer_get_trace_context_value ::
    "tracer_span_envoy_ptr \<Rightarrow> module_buffer \<Rightarrow> 'h \<Rightarrow> (bool \<times> envoy_buffer option) \<times> 'h"
  cb_tracer_set_trace_context_value ::
    "tracer_span_envoy_ptr \<Rightarrow> module_buffer \<Rightarrow> module_buffer \<Rightarrow> 'h \<Rightarrow> unit \<times> 'h"
  cb_tracer_remove_trace_context_value ::
    "tracer_span_envoy_ptr \<Rightarrow> module_buffer \<Rightarrow> 'h \<Rightarrow> unit \<times> 'h"
  cb_tracer_get_trace_context_protocol ::
    "tracer_span_envoy_ptr \<Rightarrow> 'h \<Rightarrow> (bool \<times> envoy_buffer option) \<times> 'h"
  cb_tracer_get_trace_context_host ::
    "tracer_span_envoy_ptr \<Rightarrow> 'h \<Rightarrow> (bool \<times> envoy_buffer option) \<times> 'h"
  cb_tracer_get_trace_context_path ::
    "tracer_span_envoy_ptr \<Rightarrow> 'h \<Rightarrow> (bool \<times> envoy_buffer option) \<times> 'h"
  cb_tracer_get_trace_context_method ::
    "tracer_span_envoy_ptr \<Rightarrow> 'h \<Rightarrow> (bool \<times> envoy_buffer option) \<times> 'h"
  cb_tracer_define_counter ::
    "tracer_config_envoy_ptr \<Rightarrow> module_buffer \<Rightarrow> module_buffer list \<Rightarrow> 'h \<Rightarrow> (metrics_result c_val \<times>
      u64 option) \<times> 'h"
  cb_tracer_define_gauge ::
    "tracer_config_envoy_ptr \<Rightarrow> module_buffer \<Rightarrow> module_buffer list \<Rightarrow> 'h \<Rightarrow> (metrics_result c_val \<times>
      u64 option) \<times> 'h"
  cb_tracer_define_histogram ::
    "tracer_config_envoy_ptr \<Rightarrow> module_buffer \<Rightarrow> module_buffer list \<Rightarrow> 'h \<Rightarrow> (metrics_result c_val \<times>
      u64 option) \<times> 'h"

record 'h host_tracer_2 =
  cb_tracer_increment_counter ::
    "tracer_config_envoy_ptr \<Rightarrow> u64 \<Rightarrow> module_buffer list \<Rightarrow> u64 \<Rightarrow> 'h \<Rightarrow> metrics_result c_val \<times> 'h"
  cb_tracer_record_histogram_value ::
    "tracer_config_envoy_ptr \<Rightarrow> u64 \<Rightarrow> module_buffer list \<Rightarrow> u64 \<Rightarrow> 'h \<Rightarrow> metrics_result c_val \<times> 'h"
  cb_tracer_set_gauge ::
    "tracer_config_envoy_ptr \<Rightarrow> u64 \<Rightarrow> module_buffer list \<Rightarrow> u64 \<Rightarrow> 'h \<Rightarrow> metrics_result c_val \<times> 'h"

section \<open>DNS resolvers\<close>

type_synonym dns_resolver_config_envoy_ptr = ptr
type_synonym dns_resolver_config_module_ptr = ptr
type_synonym dns_resolver_module_ptr = ptr
type_synonym dns_resolver_envoy_ptr = ptr
type_synonym dns_query_module_ptr = ptr

record dns_address =
  da_address :: module_buffer
  da_ttl_seconds :: u32


record 'm hooks_dns =
  on_dns_resolver_config_new ::
    "dns_resolver_config_envoy_ptr \<Rightarrow> envoy_buffer \<Rightarrow> envoy_buffer \<Rightarrow> 'm \<Rightarrow>
      (dns_resolver_config_module_ptr \<times> 'm) go"
  on_dns_resolver_config_destroy ::
    "dns_resolver_config_module_ptr \<Rightarrow> 'm \<Rightarrow> (unit \<times> 'm) go"
  on_dns_resolver_new ::
    "dns_resolver_config_module_ptr \<Rightarrow> dns_resolver_envoy_ptr \<Rightarrow> 'm \<Rightarrow> (dns_resolver_module_ptr \<times>
      'm) go"
  on_dns_resolver_destroy ::
    "dns_resolver_module_ptr \<Rightarrow> 'm \<Rightarrow> (unit \<times> 'm) go"
  on_dns_resolve ::
    "dns_resolver_module_ptr \<Rightarrow> envoy_buffer \<Rightarrow> dns_lookup_family c_val \<Rightarrow> u64 \<Rightarrow> 'm \<Rightarrow>
      (dns_query_module_ptr \<times> 'm) go"
  on_dns_resolve_cancel ::
    "dns_resolver_module_ptr \<Rightarrow> dns_query_module_ptr \<Rightarrow> 'm \<Rightarrow> (unit \<times> 'm) go"
  on_dns_resolver_reset_networking ::
    "dns_resolver_module_ptr \<Rightarrow> 'm \<Rightarrow> (unit \<times> 'm) go"

record 'h host_dns_1 =
  cb_dns_resolve_complete ::
    "dns_resolver_envoy_ptr \<Rightarrow> u64 \<Rightarrow> dns_resolution_status c_val \<Rightarrow> module_buffer \<Rightarrow> dns_address
      list \<Rightarrow> 'h \<Rightarrow> unit \<times> 'h"
  cb_dns_resolver_config_define_counter ::
    "dns_resolver_config_envoy_ptr \<Rightarrow> module_buffer \<Rightarrow> module_buffer list \<Rightarrow> 'h \<Rightarrow> (metrics_result
      c_val \<times> u64 option) \<times> 'h"
  cb_dns_resolver_config_increment_counter ::
    "dns_resolver_config_envoy_ptr \<Rightarrow> u64 \<Rightarrow> module_buffer list \<Rightarrow> u64 \<Rightarrow> 'h \<Rightarrow> metrics_result c_val \<times>
      'h"
  cb_dns_resolver_config_define_gauge ::
    "dns_resolver_config_envoy_ptr \<Rightarrow> module_buffer \<Rightarrow> module_buffer list \<Rightarrow> 'h \<Rightarrow> (metrics_result
      c_val \<times> u64 option) \<times> 'h"
  cb_dns_resolver_config_set_gauge ::
    "dns_resolver_config_envoy_ptr \<Rightarrow> u64 \<Rightarrow> module_buffer list \<Rightarrow> u64 \<Rightarrow> 'h \<Rightarrow> metrics_result c_val \<times>
      'h"
  cb_dns_resolver_config_increment_gauge ::
    "dns_resolver_config_envoy_ptr \<Rightarrow> u64 \<Rightarrow> module_buffer list \<Rightarrow> u64 \<Rightarrow> 'h \<Rightarrow> metrics_result c_val \<times>
      'h"

record 'h host_dns_2 =
  cb_dns_resolver_config_decrement_gauge ::
    "dns_resolver_config_envoy_ptr \<Rightarrow> u64 \<Rightarrow> module_buffer list \<Rightarrow> u64 \<Rightarrow> 'h \<Rightarrow> metrics_result c_val \<times>
      'h"
  cb_dns_resolver_config_define_histogram ::
    "dns_resolver_config_envoy_ptr \<Rightarrow> module_buffer \<Rightarrow> module_buffer list \<Rightarrow> 'h \<Rightarrow> (metrics_result
      c_val \<times> u64 option) \<times> 'h"
  cb_dns_resolver_config_record_histogram_value ::
    "dns_resolver_config_envoy_ptr \<Rightarrow> u64 \<Rightarrow> module_buffer list \<Rightarrow> u64 \<Rightarrow> 'h \<Rightarrow> metrics_result c_val \<times>
      'h"

section \<open>Transport sockets\<close>

type_synonym transport_socket_factory_config_envoy_ptr = ptr
type_synonym transport_socket_factory_config_module_ptr = ptr
type_synonym transport_socket_envoy_ptr = ptr
type_synonym transport_socket_module_ptr = ptr

record transport_socket_io_result =
  io_action :: "transport_socket_post_io_action c_val"
  io_bytes_processed :: u64
  io_end_stream_read :: bool


record 'm hooks_transport_socket_1 =
  on_transport_socket_factory_config_new ::
    "transport_socket_factory_config_envoy_ptr \<Rightarrow> envoy_buffer \<Rightarrow> envoy_buffer \<Rightarrow> bool \<Rightarrow> 'm \<Rightarrow>
      (transport_socket_factory_config_module_ptr \<times> 'm) go"
  on_transport_socket_factory_config_destroy ::
    "transport_socket_factory_config_module_ptr \<Rightarrow> 'm \<Rightarrow> (unit \<times> 'm) go"
  on_transport_socket_new ::
    "transport_socket_factory_config_module_ptr \<Rightarrow> transport_socket_envoy_ptr \<Rightarrow> 'm \<Rightarrow>
      (transport_socket_module_ptr \<times> 'm) go"
  on_transport_socket_destroy ::
    "transport_socket_module_ptr \<Rightarrow> 'm \<Rightarrow> (unit \<times> 'm) go"
  on_transport_socket_set_callbacks ::
    "transport_socket_envoy_ptr \<Rightarrow> transport_socket_module_ptr \<Rightarrow> 'm \<Rightarrow> (unit \<times> 'm) go"
  on_transport_socket_on_connected ::
    "transport_socket_envoy_ptr \<Rightarrow> transport_socket_module_ptr \<Rightarrow> 'm \<Rightarrow> (unit \<times> 'm) go"
  on_transport_socket_do_read ::
    "transport_socket_envoy_ptr \<Rightarrow> transport_socket_module_ptr \<Rightarrow> 'm \<Rightarrow> (transport_socket_io_result
      \<times> 'm) go"
  on_transport_socket_do_write ::
    "transport_socket_envoy_ptr \<Rightarrow> transport_socket_module_ptr \<Rightarrow> u64 \<Rightarrow> bool \<Rightarrow> 'm \<Rightarrow>
      (transport_socket_io_result \<times> 'm) go"
  on_transport_socket_close ::
    "transport_socket_envoy_ptr \<Rightarrow> transport_socket_module_ptr \<Rightarrow> network_connection_event c_val \<Rightarrow>
      'm \<Rightarrow> (unit \<times> 'm) go"
  on_transport_socket_get_protocol ::
    "transport_socket_envoy_ptr \<Rightarrow> transport_socket_module_ptr \<Rightarrow> 'm \<Rightarrow> (module_buffer option \<times> 'm)
      go"

record 'm hooks_transport_socket_2 =
  on_transport_socket_get_failure_reason ::
    "transport_socket_envoy_ptr \<Rightarrow> transport_socket_module_ptr \<Rightarrow> 'm \<Rightarrow> (module_buffer option \<times> 'm)
      go"
  on_transport_socket_can_flush_close ::
    "transport_socket_envoy_ptr \<Rightarrow> transport_socket_module_ptr \<Rightarrow> 'm \<Rightarrow> (bool \<times> 'm) go"

record 'h host_transport_socket_1 =
  cb_transport_socket_get_io_handle ::
    "transport_socket_envoy_ptr \<Rightarrow> 'h \<Rightarrow> ptr \<times> 'h"
  cb_transport_socket_io_handle_read ::
    "ptr \<Rightarrow> u64 \<Rightarrow> 'h \<Rightarrow> (i64 \<times> bytes \<times> u64 option) \<times> 'h"
  cb_transport_socket_io_handle_write ::
    "ptr \<Rightarrow> bytes \<Rightarrow> 'h \<Rightarrow> (i64 \<times> u64 option) \<times> 'h"
  cb_transport_socket_io_handle_fd ::
    "ptr \<Rightarrow> 'h \<Rightarrow> i32 \<times> 'h"
  cb_transport_socket_read_buffer_drain ::
    "transport_socket_envoy_ptr \<Rightarrow> u64 \<Rightarrow> 'h \<Rightarrow> unit \<times> 'h"
  cb_transport_socket_read_buffer_add ::
    "transport_socket_envoy_ptr \<Rightarrow> bytes \<Rightarrow> 'h \<Rightarrow> unit \<times> 'h"
  cb_transport_socket_read_buffer_length ::
    "transport_socket_envoy_ptr \<Rightarrow> 'h \<Rightarrow> u64 \<times> 'h"
  cb_transport_socket_write_buffer_drain ::
    "transport_socket_envoy_ptr \<Rightarrow> u64 \<Rightarrow> 'h \<Rightarrow> unit \<times> 'h"
  cb_transport_socket_write_buffer_get_slices ::
    "transport_socket_envoy_ptr \<Rightarrow> bool \<Rightarrow> u64 \<Rightarrow> 'h \<Rightarrow> (envoy_buffer list \<times> u64 option) \<times> 'h"
  cb_transport_socket_write_buffer_length ::
    "transport_socket_envoy_ptr \<Rightarrow> 'h \<Rightarrow> u64 \<times> 'h"

record 'h host_transport_socket_2 =
  cb_transport_socket_raise_event ::
    "transport_socket_envoy_ptr \<Rightarrow> network_connection_event c_val \<Rightarrow> 'h \<Rightarrow> unit \<times> 'h"
  cb_transport_socket_should_drain_read_buffer ::
    "transport_socket_envoy_ptr \<Rightarrow> 'h \<Rightarrow> bool \<times> 'h"
  cb_transport_socket_set_is_readable ::
    "transport_socket_envoy_ptr \<Rightarrow> 'h \<Rightarrow> unit \<times> 'h"
  cb_transport_socket_flush_write_buffer ::
    "transport_socket_envoy_ptr \<Rightarrow> 'h \<Rightarrow> unit \<times> 'h"

end
