(* ===== verification/Manager.thy ===== *)
theory Manager
  imports Prelude
begin

text \<open>
  The sharded registry \<open>manager[T]\<close> of abi_impl/internal.go, which pins the Go objects whose
  addresses cross the ABI: 32 maps from address to object, chosen by the address modulo 32, each
  under its own lock. Every operation locks the one shard it touches, so an operation is one step;
  any interleaving of operations is a list of steps. An object is represented by its address.
\<close>

section \<open>Operations\<close>

definition numManagerShards :: nat where
  "numManagerShards = 32"

record manager =
  mgr_data :: "(u64 \<rightharpoonup> ptr) list"

definition newManager :: manager where
  "newManager = \<lparr>mgr_data = replicate numManagerShards Map.empty\<rparr>"

definition mgr_index :: "u64 \<Rightarrow> nat" where
  "mgr_index key = unat key mod numManagerShards"

definition mgr_record :: "manager \<Rightarrow> ptr \<Rightarrow> ptr \<times> manager" where
  "mgr_record m item =
     (let index = mgr_index item
      in (item, m\<lparr>mgr_data := (mgr_data m)[index := (mgr_data m ! index)(item \<mapsto> item)]\<rparr>))"

text \<open>\<open>unwrap\<close> is the cast of the address back to an object pointer: no lookup.\<close>

definition mgr_unwrap :: "manager \<Rightarrow> ptr \<Rightarrow> ptr" where
  "mgr_unwrap m p = p"

definition mgr_search :: "manager \<Rightarrow> u64 \<Rightarrow> ptr option" where
  "mgr_search m key = (mgr_data m ! mgr_index key) key"

definition mgr_remove :: "manager \<Rightarrow> ptr \<Rightarrow> manager" where
  "mgr_remove m item =
     (let index = mgr_index item
      in m\<lparr>mgr_data := (mgr_data m)[index := (mgr_data m ! index)(item := None)]\<rparr>)"

section \<open>The contract of an object registry\<close>

text \<open>
  What the binding layer relies on: a registry is a finite set of pinned objects. The client facts,
  for any sequence of operations by any threads, are proved once from the four laws.
\<close>

datatype reg_op = RRecord ptr | RRemove ptr

locale object_registry =
  fixes inv :: "'m \<Rightarrow> bool"
    and rcd :: "'m \<Rightarrow> ptr \<Rightarrow> 'm"
    and srch :: "'m \<Rightarrow> ptr \<Rightarrow> ptr option"
    and rmv :: "'m \<Rightarrow> ptr \<Rightarrow> 'm"
    and fresh :: 'm
  assumes inv_fresh: "inv fresh" and srch_fresh: "srch fresh q = None"
    and inv_rcd: "inv m \<Longrightarrow> inv (rcd m p)"
    and srch_rcd: "inv m \<Longrightarrow> srch (rcd m p) q = (if q = p then Some p else srch m q)"
    and inv_rmv: "inv m \<Longrightarrow> inv (rmv m p)"
    and srch_rmv: "inv m \<Longrightarrow> srch (rmv m p) q = (if q = p then None else srch m q)"
begin

fun apply_op :: "'m \<Rightarrow> reg_op \<Rightarrow> 'm" where
  "apply_op m (RRecord p) = rcd m p"
| "apply_op m (RRemove p) = rmv m p"

lemma inv_apply: "inv m \<Longrightarrow> inv (apply_op m a)"
  by (cases a) (simp_all add: inv_rcd inv_rmv)

lemma inv_run: "inv m \<Longrightarrow> inv (foldl apply_op m ops)"
  by (induction ops arbitrary: m) (simp_all add: inv_apply)

text \<open>The set of objects a sequence of operations leaves pinned.\<close>

fun pinned :: "ptr set \<Rightarrow> reg_op \<Rightarrow> ptr set" where
  "pinned A (RRecord p) = insert p A"
| "pinned A (RRemove p) = A - {p}"

lemma run_refines:
  "inv m \<Longrightarrow> \<forall>q. srch m q = (if q \<in> A then Some q else None) \<Longrightarrow>
   srch (foldl apply_op m ops) q = (if q \<in> foldl pinned A ops then Some q else None)"
proof (induction ops arbitrary: m A)
  case Nil
  then show ?case by simp
next
  case (Cons a ops)
  have "\<forall>q. srch (apply_op m a) q = (if q \<in> pinned A a then Some q else None)"
    using Cons.prems by (cases a) (auto simp: srch_rcd srch_rmv)
  with Cons.IH [OF inv_apply [OF Cons.prems(1)]] show ?case by simp
qed

lemma search_run:
  "srch (foldl apply_op fresh ops) q = (if q \<in> foldl pinned {} ops then Some q else None)"
  by (rule run_refines) (simp_all add: inv_fresh srch_fresh)

lemma rmv_all: "inv m \<Longrightarrow> srch (foldl rmv m ps) q = (if q \<in> set ps then None else srch m q)"
  by (induction ps arbitrary: m) (auto simp: inv_rmv srch_rmv)

lemma inv_rmv_all: "inv m \<Longrightarrow> inv (foldl rmv m ps)"
  by (induction ps arbitrary: m) (auto simp: inv_rmv)

end

section \<open>The sharded maps implement it\<close>

definition mgr_inv :: "manager \<Rightarrow> bool" where
  "mgr_inv m \<longleftrightarrow> length (mgr_data m) = numManagerShards"

lemma mgr_index_less: "mgr_index k < numManagerShards"
  by (simp add: mgr_index_def numManagerShards_def)

interpretation mgr: object_registry mgr_inv "\<lambda>m p. snd (mgr_record m p)" mgr_search mgr_remove newManager
proof
  show "mgr_inv newManager" by (simp add: mgr_inv_def newManager_def)
  show "mgr_search newManager q = None" for q
    using mgr_index_less [of q] by (simp add: mgr_search_def newManager_def)
  show "mgr_inv m \<Longrightarrow> mgr_inv (snd (mgr_record m p))" for m p
    by (simp add: mgr_inv_def mgr_record_def Let_def)
  show "mgr_inv m \<Longrightarrow>
      mgr_search (snd (mgr_record m p)) q = (if q = p then Some p else mgr_search m q)" for m p q
    using mgr_index_less [of p]
    by (cases "mgr_index p = mgr_index q")
      (auto simp: mgr_search_def mgr_inv_def mgr_record_def Let_def)
  show "mgr_inv m \<Longrightarrow> mgr_inv (mgr_remove m p)" for m p
    by (simp add: mgr_inv_def mgr_remove_def Let_def)
  show "mgr_inv m \<Longrightarrow> mgr_search (mgr_remove m p) q = (if q = p then None else mgr_search m q)" for m p q
    using mgr_index_less [of p]
    by (cases "mgr_index p = mgr_index q")
      (auto simp: mgr_search_def mgr_inv_def mgr_remove_def Let_def)
qed

section \<open>Properties\<close>

text \<open>The code as one interleaved sequence of \<open>record\<close> and \<open>remove\<close> calls, whoever makes them.\<close>

fun mgr_step :: "manager \<Rightarrow> reg_op \<Rightarrow> manager" where
  "mgr_step m (RRecord p) = snd (mgr_record m p)"
| "mgr_step m (RRemove p) = mgr_remove m p"

definition last_op :: "reg_op list \<Rightarrow> ptr \<Rightarrow> reg_op option" where
  "last_op ops q =
     (case filter (\<lambda>a. a = RRecord q \<or> a = RRemove q) (rev ops) of [] \<Rightarrow> None | a # _ \<Rightarrow> Some a)"

lemma mgr_step_eq: "mgr_step = mgr.apply_op"
  by (intro ext, case_tac xa) simp_all

lemma pinned_last_op: "q \<in> foldl mgr.pinned {} ops \<longleftrightarrow> last_op ops q = Some (RRecord q)"
proof (induction ops rule: rev_induct)
  case Nil
  then show ?case by (simp add: last_op_def)
next
  case (snoc a ops)
  then show ?case by (cases a) (auto simp: last_op_def)
qed

text \<open>C20: the 32 shards behave as one registry under every interleaving of operations: looking up an
  address finds the object recorded there exactly when the last operation on that address was
  \<open>record\<close>; what happens to other addresses, in the same shard or not, has no effect.\<close>

theorem manager_linearizes:
  "mgr_search (foldl mgr_step newManager ops) q =
     (if last_op ops q = Some (RRecord q) then Some q else None)"
  using mgr.search_run [of ops q] by (simp only: mgr_step_eq pinned_last_op)

end
