(* ===== verification/Scheduler.thy ===== *)
theory Scheduler
  imports AbiHttpHost
begin

text \<open>
  \<open>dymScheduler\<close> of abi_impl/internal.go: it turns Envoy's "post an event id, get it back on the
  worker thread" into closures. \<open>Schedule\<close> may be called by any goroutine and has two parts, the
  registration under the lock and the call of Envoy's commit callback after it; they are two steps,
  so that every interleaving with other callers and with deliveries is covered. A closure is a
  value of \<open>'k\<close>; reading a Go map at a missing key yields nil, so the task map is a function to
  options.
\<close>

section \<open>The component\<close>

record 'k dymScheduler =
  schedulerPtr :: ptr
  nextTaskID :: u64
  tasks :: "u64 \<Rightarrow> 'k option"

definition newDymScheduler :: "ptr \<Rightarrow> 'k dymScheduler" where
  "newDymScheduler p = \<lparr>schedulerPtr = p, nextTaskID = 0, tasks = (\<lambda>_. None)\<rparr>"

text \<open>The critical section of \<open>Schedule\<close>: the task identifier and the scheduler after it.\<close>

definition sched_register :: "'k dymScheduler \<Rightarrow> 'k option \<Rightarrow> u64 \<times> 'k dymScheduler" where
  "sched_register s task =
     (let taskID = nextTaskID s
      in (taskID, s\<lparr>nextTaskID := nextTaskID s + 1, tasks := (tasks s)(taskID := task)\<rparr>))"

text \<open>\<open>Schedule\<close> run by one goroutine alone, with the host's commit function as \<open>commitFunc\<close>.\<close>

definition sched_Schedule ::
    "(ptr \<Rightarrow> u64 \<Rightarrow> 'h \<Rightarrow> unit \<times> 'h) \<Rightarrow> 'k dymScheduler \<Rightarrow> 'k option \<Rightarrow> 'h \<Rightarrow> 'k dymScheduler \<times> 'h" where
  "sched_Schedule commitFunc s task h =
     (let (taskID, s') = sched_register s task
      in (s', snd (commitFunc (schedulerPtr s) taskID h)))"

text \<open>\<open>onScheduled\<close>: the closure it runs after the lock is released, if any.\<close>

definition sched_onScheduled :: "'k dymScheduler \<Rightarrow> u64 \<Rightarrow> 'k option \<times> 'k dymScheduler" where
  "sched_onScheduled s taskID = (tasks s taskID, s\<lparr>tasks := (tasks s)(taskID := None)\<rparr>)"

section \<open>All interleavings\<close>

text \<open>
  The scheduler together with what is in flight: identifiers registered but not yet committed,
  identifiers committed to Envoy and not yet delivered, the history of registrations and the history
  of closures that were run.
\<close>

record 'k sched_sys =
  sy_sched :: "'k dymScheduler"
  sy_registered :: "(u64 \<times> 'k option) list"
  sy_uncommitted :: "u64 list"
  sy_queue :: "u64 list"
  sy_ran :: "(u64 \<times> 'k) list"

definition sys_init :: "ptr \<Rightarrow> 'k sched_sys" where
  "sys_init p = \<lparr>sy_sched = newDymScheduler p, sy_registered = [], sy_uncommitted = [],
     sy_queue = [], sy_ran = []\<rparr>"

definition sys_register :: "'k sched_sys \<Rightarrow> 'k option \<Rightarrow> 'k sched_sys" where
  "sys_register s task =
     (let (i, sc) = sched_register (sy_sched s) task
      in s\<lparr>sy_sched := sc, sy_registered := sy_registered s @ [(i, task)],
           sy_uncommitted := i # sy_uncommitted s\<rparr>)"

definition sys_commit :: "'k sched_sys \<Rightarrow> u64 \<Rightarrow> 'k sched_sys" where
  "sys_commit s i = s\<lparr>sy_uncommitted := remove1 i (sy_uncommitted s), sy_queue := sy_queue s @ [i]\<rparr>"

definition sys_deliver :: "'k sched_sys \<Rightarrow> u64 \<Rightarrow> 'k sched_sys" where
  "sys_deliver s i =
     (let (t, sc) = sched_onScheduled (sy_sched s) i
      in s\<lparr>sy_sched := sc, sy_queue := remove1 i (sy_queue s),
           sy_ran := sy_ran s @ (case t of None \<Rightarrow> [] | Some k \<Rightarrow> [(i, k)])\<rparr>)"

text \<open>
  Envoy may deliver any identifier at any time, also one that was never committed or was delivered
  before: \<open>deliver\<close> has no premise.
\<close>

inductive sched_step :: "'k sched_sys \<Rightarrow> 'k sched_sys \<Rightarrow> bool" where
  register: "sched_step s (sys_register s task)"
| commit: "i \<in> set (sy_uncommitted s) \<Longrightarrow> sched_step s (sys_commit s i)"
| deliver: "sched_step s (sys_deliver s i)"

definition sched_reachable :: "ptr \<Rightarrow> 'k sched_sys \<Rightarrow> bool" where
  "sched_reachable p s \<longleftrightarrow> sched_step\<^sup>*\<^sup>* (sys_init p) s"

section \<open>The invariant\<close>

definition sys_inv :: "'k sched_sys \<Rightarrow> bool" where
  "sys_inv s \<longleftrightarrow>
     map fst (sy_registered s) = map of_nat [0..<length (sy_registered s)] \<and>
     nextTaskID (sy_sched s) = of_nat (length (sy_registered s)) \<and>
     distinct (map fst (sy_ran s)) \<and>
     (\<forall>i k. (i, k) \<in> set (sy_ran s) \<longrightarrow> (i, Some k) \<in> set (sy_registered s)) \<and>
     (\<forall>i k. tasks (sy_sched s) i = Some k \<longrightarrow>
        (i, Some k) \<in> set (sy_registered s) \<and> i \<notin> fst ` set (sy_ran s) \<and>
        i \<in> set (sy_uncommitted s) \<union> set (sy_queue s)) \<and>
     (\<forall>i k. (i, Some k) \<in> set (sy_registered s) \<longrightarrow>
        (i, k) \<in> set (sy_ran s) \<or> tasks (sy_sched s) i = Some k)"

lemma of_nat_fresh: "n < 2 ^ 64 \<Longrightarrow> (of_nat n :: u64) \<notin> of_nat ` {0..<n}"
  by (auto simp: of_nat_u64_inject)

lemma registered_fresh:
  assumes "sys_inv s" "length (sy_registered s) < 2 ^ 64"
  shows "nextTaskID (sy_sched s) \<notin> fst ` set (sy_registered s)"
proof -
  have "fst ` set (sy_registered s) = set (map fst (sy_registered s))" by simp
  also have "\<dots> = of_nat ` {0..<length (sy_registered s)}"
    using assms(1) unfolding sys_inv_def by (metis list.set_map set_upt)
  finally show ?thesis
    using of_nat_fresh [OF assms(2)] assms(1) by (simp add: sys_inv_def)
qed

lemma sys_inv_init: "sys_inv (sys_init p)"
  by (simp add: sys_inv_def sys_init_def newDymScheduler_def)

lemma sys_inv_register:
  assumes inv: "sys_inv s" and few: "length (sy_registered s) < 2 ^ 64"
  shows "sys_inv (sys_register s task)"
proof -
  let ?i = "nextTaskID (sy_sched s)"
  have fresh: "?i \<notin> fst ` set (sy_registered s)"
    using registered_fresh [OF inv few] .
  then have unseen: "(?i, t) \<notin> set (sy_registered s)" for t by force
  have unran: "?i \<notin> fst ` set (sy_ran s)"
    using inv unseen unfolding sys_inv_def by fastforce
  have idle: "tasks (sy_sched s) ?i = None"
    using inv unseen unfolding sys_inv_def by (metis option.exhaust)
  show ?thesis
    using inv unseen unran idle
    unfolding sys_inv_def sys_register_def sched_register_def Let_def by auto
qed

lemma sys_inv_commit: "sys_inv s \<Longrightarrow> i \<in> set (sy_uncommitted s) \<Longrightarrow> sys_inv (sys_commit s i)"
  unfolding sys_inv_def sys_commit_def
  by (auto simp: in_set_remove1) (metis in_set_remove1)+

lemma sys_inv_deliver: "sys_inv s \<Longrightarrow> sys_inv (sys_deliver s i)"
  unfolding sys_inv_def sys_deliver_def sched_onScheduled_def Let_def
  by (cases "tasks (sy_sched s) i"; auto simp: in_set_remove1 split: if_splits;
      metis option.distinct(1) option.inject)

lemma registered_mono: "sched_step s s' \<Longrightarrow> length (sy_registered s) \<le> length (sy_registered s')"
  by (induction rule: sched_step.induct)
    (simp_all add: sys_register_def sys_commit_def sys_deliver_def split: prod.splits)

lemma reachable_inv:
  "sched_step\<^sup>*\<^sup>* (sys_init p) s \<Longrightarrow> length (sy_registered s) \<le> 2 ^ 64 \<Longrightarrow> sys_inv s"
proof (induction rule: rtranclp_induct)
  case base
  then show ?case by (simp add: sys_inv_init)
next
  case (step s s')
  from registered_mono [OF step.hyps(2)] step.prems step.IH have inv: "sys_inv s" by simp
  from step.hyps(2) show ?case
  proof cases
    case (register task)
    with step.prems have "length (sy_registered s) < 2 ^ 64"
      by (simp add: sys_register_def split: prod.splits)
    with inv register show ?thesis by (simp add: sys_inv_register)
  next
    case commit
    with inv show ?thesis by (simp add: sys_inv_commit)
  next
    case deliver
    with inv show ?thesis by (simp add: sys_inv_deliver)
  qed
qed

section \<open>Properties\<close>

text \<open>C12: whatever the interleaving of \<open>Schedule\<close> calls with deliveries, and whatever identifiers Envoy
  delivers (twice, or never committed), a scheduled closure runs at most once, and nothing else is
  ever run: the identifiers of the runs are distinct and each run is that of a registration. The
  bound is the range of the 64-bit identifier.\<close>

theorem scheduled_at_most_once:
  assumes "sched_reachable p s" "length (sy_registered s) \<le> 2 ^ 64"
  shows "distinct (map fst (sy_ran s)) \<and>
    (\<forall>i k. (i, k) \<in> set (sy_ran s) \<longrightarrow> (i, Some k) \<in> set (sy_registered s))"
proof -
  from assms have "sys_inv s"
    unfolding sched_reachable_def by (rule reachable_inv)
  then show ?thesis by (simp add: sys_inv_def)
qed

theorem scheduled_at_most_once_witness:
  "let s = sys_deliver (sys_deliver (sys_register (sys_init 5) (Some True)) 0) 0
   in sy_ran s = [(0, True)] \<and> distinct (map fst (sy_ran s))"
proof -
  let ?s = "sys_deliver (sys_deliver (sys_register (sys_init 5) (Some True)) 0) 0"
  have "sched_reachable 5 ?s"
    unfolding sched_reachable_def
    by (rule rtranclp.rtrancl_into_rtrancl [OF rtranclp.rtrancl_into_rtrancl
          [OF r_into_rtranclp [of sched_step]]]) (rule sched_step.intros)+
  moreover have "length (sy_registered ?s) \<le> 2 ^ 64" and "sy_ran ?s = [(0, True)]"
    by (simp_all add: sys_deliver_def sys_register_def sys_init_def newDymScheduler_def
        sched_register_def sched_onScheduled_def Let_def)
  ultimately show ?thesis
    using scheduled_at_most_once [of 5 ?s] by (simp add: Let_def)
qed

text \<open>C13: no scheduled closure is lost: in every reachable state in which no commit is outstanding and
  Envoy's queue is empty, every closure that was scheduled has run. (The registration precedes the
  commit, so a delivery always finds the closure.)\<close>

theorem scheduled_none_lost:
  assumes "sched_reachable p s" "length (sy_registered s) \<le> 2 ^ 64"
    and "sy_uncommitted s = []" "sy_queue s = []"
  shows "(i, Some k) \<in> set (sy_registered s) \<Longrightarrow> (i, k) \<in> set (sy_ran s)"
proof -
  from assms(1,2) have "sys_inv s"
    unfolding sched_reachable_def by (rule reachable_inv)
  with assms(3,4) show "(i, Some k) \<in> set (sy_registered s) \<Longrightarrow> (i, k) \<in> set (sy_ran s)"
    unfolding sys_inv_def by fastforce
qed

theorem scheduled_none_lost_witness:
  "(0, True) \<in> set (sy_ran (sys_deliver (sys_commit (sys_register (sys_init 5) (Some True)) 0) 0))"
proof -
  let ?s = "sys_deliver (sys_commit (sys_register (sys_init 5) (Some True)) 0) 0"
  note defs = sys_deliver_def sys_commit_def sys_register_def sys_init_def newDymScheduler_def
    sched_register_def sched_onScheduled_def
  have "sched_step\<^sup>*\<^sup>* (sys_init 5) (sys_commit (sys_register (sys_init 5) (Some True)) 0)"
    by (rule rtranclp.rtrancl_into_rtrancl [OF r_into_rtranclp [of sched_step]];
        rule sched_step.intros) (simp add: defs Let_def)
  then have "sched_reachable 5 ?s"
    unfolding sched_reachable_def by (rule rtranclp.rtrancl_into_rtrancl) (rule sched_step.deliver)
  moreover have "length (sy_registered ?s) \<le> 2 ^ 64" "sy_uncommitted ?s = []" "sy_queue ?s = []"
      "(0, Some True) \<in> set (sy_registered ?s)"
    by (simp_all add: defs Let_def)
  ultimately show ?thesis by (rule scheduled_none_lost)
qed

end
