(* ===== verification/Conversions.thy ===== *)
theory Conversions
  imports AbiHttpHost
begin

text \<open>
  The conversion layer of abi_impl/internal.go: view structs built over Go values before a callback
  and read back after it. None of the functions copies. What the language and its run-time leave open
  is collected in one record, so that the theorems hold for every choice of it.
\<close>

section \<open>What the Go run-time decides\<close>

text \<open>
  \<open>unsafe.StringData("")\<close> is unspecified and may be nil; the conversions to \<open>float64\<close> round;
  \<open>fmt.Sprintf\<close> is a library function; a non-ASCII string is lowered by the Unicode tables.
\<close>

datatype go_any =
    AnyNil | AnyUint u64 | AnyUint8 u8 | AnyUint16 u16 | AnyUint32 u32 | AnyUint64 u64
  | AnyInt i64 | AnyInt8 "8 word" | AnyInt16 "16 word" | AnyInt32 i32 | AnyInt64 i64
  | AnyFloat32 u32 | AnyFloat64 f64 | AnyBool bool | AnyString gostring
  | AnyError gostring | AnyOther nat

record go_runtime =
  empty_string_nil :: bool
  float64_of_int :: "int \<Rightarrow> f64"
  float64_of_float32 :: "u32 \<Rightarrow> f64"
  Sprintf :: "gostring \<Rightarrow> go_any list \<Rightarrow> gostring"
  unicode_lower :: "gostring \<Rightarrow> gostring"

text \<open>\<open>strings.ToLower\<close>: byte by byte when the string is ASCII.\<close>

definition byte_val :: "byte \<Rightarrow> nat" where
  "byte_val c = of_char c"

definition lower_byte :: "byte \<Rightarrow> byte" where
  "lower_byte c = (if 65 \<le> byte_val c \<and> byte_val c \<le> 90 then char_of (byte_val c + 32) else c)"

definition is_ascii :: "gostring \<Rightarrow> bool" where
  "is_ascii s \<longleftrightarrow> list_all (\<lambda>c. byte_val c < 128) s"

definition go_ToLower :: "go_runtime \<Rightarrow> gostring \<Rightarrow> gostring" where
  "go_ToLower rt s = (if is_ascii s then map lower_byte s else unicode_lower rt s)"

section \<open>Out parameters and arrays\<close>

text \<open>A variable after a call that may have written it; a zeroed array after one that filled it.\<close>

definition written :: "'a \<Rightarrow> 'a option \<Rightarrow> 'a" where
  "written init w = (case w of None \<Rightarrow> init | Some v \<Rightarrow> v)"

definition filled :: "nat \<Rightarrow> 'a \<Rightarrow> 'a list \<Rightarrow> 'a list" where
  "filled n zero ws = take n ws @ replicate (n - length ws) zero"

lemma written_simps [simp]: "written a None = a" "written a (Some v) = v"
  by (simp_all add: written_def)

lemma length_filled [simp]: "length (filled n z ws) = n"
  by (simp add: filled_def)

lemma filled_exact [simp]: "length ws = n \<Longrightarrow> filled n z ws = ws"
  by (simp add: filled_def)

section \<open>From Go to C\<close>

definition nullModuleBuffer :: module_buffer where
  "nullModuleBuffer = ModuleBuffer True []"

definition stringToModuleBuffer :: "go_runtime \<Rightarrow> gostring \<Rightarrow> module_buffer" where
  "stringToModuleBuffer rt str = ModuleBuffer (str = [] \<and> empty_string_nil rt) str"

text \<open>\<open>unsafe.SliceData\<close> is nil for the nil slice only.\<close>

definition bytesToModuleBuffer :: "bytes option \<Rightarrow> module_buffer" where
  "bytesToModuleBuffer b = ModuleBuffer (b = None) (case b of None \<Rightarrow> [] | Some d \<Rightarrow> d)"

definition stringArrayToModuleBufferSlice :: "go_runtime \<Rightarrow> gostring list \<Rightarrow> module_buffer list" where
  "stringArrayToModuleBufferSlice rt strs = map (stringToModuleBuffer rt) strs"

definition headersToModuleHttpHeaderSlice ::
    "go_runtime \<Rightarrow> (gostring \<times> gostring) list \<Rightarrow> module_http_header list" where
  "headersToModuleHttpHeaderSlice rt headers =
     map (\<lambda>(k, v). \<lparr>mh_key = stringToModuleBuffer rt k, mh_value = stringToModuleBuffer rt v\<rparr>) headers"

section \<open>From C to Go\<close>

text \<open>
  \<open>unsafe.String\<close> and \<open>unsafe.Slice\<close> panic on a nil pointer with a non-zero length and on a length
  that is no \<open>int\<close>; a nil pointer with length 0 gives the empty string and the nil slice.
\<close>

definition envoyBufferToStringUnsafe :: "mem \<Rightarrow> envoy_buffer \<Rightarrow> gostring go" where
  "envoyBufferToStringUnsafe m b =
     (if 2 ^ 63 \<le> eb_length b then Panic ''unsafe.String: len out of range''
      else if eb_ptr b = 0 \<and> eb_length b \<noteq> 0
        then Panic ''unsafe.String: ptr is nil and len is not zero''
      else Ret (read_mem m (eb_ptr b) (unat (eb_length b))))"

definition envoyBufferToBytesUnsafe :: "mem \<Rightarrow> envoy_buffer \<Rightarrow> bytes option go" where
  "envoyBufferToBytesUnsafe m b =
     (if 2 ^ 63 \<le> eb_length b then Panic ''unsafe.Slice: len out of range''
      else if eb_ptr b = 0 then
        (if eb_length b = 0 then Ret None else Panic ''unsafe.Slice: ptr is nil and len is not zero'')
      else Ret (Some (read_mem m (eb_ptr b) (unat (eb_length b)))))"

definition envoyBufferToUnsafeEnvoyBuffer :: "envoy_buffer \<Rightarrow> UnsafeEnvoyBuffer" where
  "envoyBufferToUnsafeEnvoyBuffer b = \<lparr>Ptr = eb_ptr b, Len = eb_length b\<rparr>"

definition envoyHttpHeaderSliceToUnsafeHeaderSlice ::
    "envoy_http_header list \<Rightarrow> (UnsafeEnvoyBuffer \<times> UnsafeEnvoyBuffer) list" where
  "envoyHttpHeaderSliceToUnsafeHeaderSlice buf =
     map (\<lambda>hd. (\<lparr>Ptr = eh_key_ptr hd, Len = eh_key_length hd\<rparr>,
                \<lparr>Ptr = eh_value_ptr hd, Len = eh_value_length hd\<rparr>)) buf"

definition envoyBufferSliceToUnsafeEnvoyBufferSlice :: "envoy_buffer list \<Rightarrow> UnsafeEnvoyBuffer list" where
  "envoyBufferSliceToUnsafeEnvoyBufferSlice buf =
     foldl (\<lambda>chunks chunk. chunks @ [\<lparr>Ptr = eb_ptr chunk, Len = eb_length chunk\<rparr>]) [] buf"

lemma envoyBufferSlice_map:
  "envoyBufferSliceToUnsafeEnvoyBufferSlice buf = map envoyBufferToUnsafeEnvoyBuffer buf"
proof -
  have "foldl (\<lambda>cs c. cs @ [\<lparr>Ptr = eb_ptr c, Len = eb_length c\<rparr>]) acc buf =
      acc @ map envoyBufferToUnsafeEnvoyBuffer buf" for acc
    by (induction buf arbitrary: acc) (simp_all add: envoyBufferToUnsafeEnvoyBuffer_def)
  then show ?thesis by (simp add: envoyBufferSliceToUnsafeEnvoyBufferSlice_def)
qed

lemma view_fun: "(\<lambda>c. \<lparr>Ptr = eb_ptr c, Len = eb_length c\<rparr>) = envoyBufferToUnsafeEnvoyBuffer"
  by (rule ext) (simp add: envoyBufferToUnsafeEnvoyBuffer_def)

text \<open>
  The idiom of every reader that returns a view: no view unless the callback succeeded with a
  non-empty value. \<open>strict\<close> is whether an empty value counts as not found; the readers differ in it.
\<close>

definition null_envoy_buffer :: envoy_buffer where
  "null_envoy_buffer = \<lparr>eb_ptr = 0, eb_length = 0\<rparr>"

definition view_of :: "bool \<Rightarrow> bool \<Rightarrow> envoy_buffer \<Rightarrow> UnsafeEnvoyBuffer \<times> bool" where
  "view_of strict ret v =
     (if \<not> ret then (empty_buffer, False)
      else if eb_ptr v = 0 \<or> eb_length v = 0 then (empty_buffer, \<not> strict)
      else (envoyBufferToUnsafeEnvoyBuffer v, True))"

lemma view_of_content:
  "ToUnsafeString m (fst (view_of strict ret v)) =
     (if ret then ToUnsafeString m (envoyBufferToUnsafeEnvoyBuffer v) else [])"
  by (auto simp: view_of_def envoyBufferToUnsafeEnvoyBuffer_def ToUnsafeString_def empty_buffer_def)

section \<open>Logging\<close>

text \<open>\<open>hostLog\<close>: the message is formatted only when Envoy has the level enabled.\<close>

definition hostLog ::
    "go_runtime \<Rightarrow> 'h host_log \<Rightarrow> u32 \<Rightarrow> gostring \<Rightarrow> go_any list \<Rightarrow> 'h \<Rightarrow> 'h" where
  "hostLog rt H level format args h =
     (let (enabled, h1) = cb_log_enabled H (CVal level) h
      in if \<not> enabled then h1
         else snd (cb_log H (CVal level) (stringToModuleBuffer rt (Sprintf rt format args)) h1))"

end
