(* ===== verification/HeaderMap.thy ===== *)
theory HeaderMap
  imports Conversions
begin

text \<open>
  Header maps: the interface \<open>shared.HeaderMap\<close> as a contract, its implementation \<open>dymHeaderMap\<close>
  over the ABI callbacks (abi_impl/internal.go) and its implementation \<open>FakeHeaderMap\<close> over a Go map
  (shared/fake/fake_stream_base.go).
\<close>

section \<open>dymHeaderMap\<close>

record dymHeaderMap =
  hm_hostPluginPtr :: http_filter_envoy_ptr
  hm_headerType :: "http_header_type c_val"

text \<open>The view and what was written through \<open>valueCount\<close>, if anything.\<close>

definition getSingleHeader ::
    "'h host_headers \<Rightarrow> go_runtime \<Rightarrow> dymHeaderMap \<Rightarrow> gostring \<Rightarrow> u64 \<Rightarrow> 'h \<Rightarrow>
      (UnsafeEnvoyBuffer \<times> u64 option) \<times> 'h" where
  "getSingleHeader H rt hm key index h =
     (let ((ret, wv, wn), h1) = cb_http_get_header H (hm_hostPluginPtr hm) (hm_headerType hm)
            (stringToModuleBuffer rt key) index h;
          valueView = written null_envoy_buffer wv
      in if \<not> ret \<or> eb_ptr valueView = 0 \<or> eb_length valueView = 0
         then ((empty_buffer, wn), h1)
         else ((envoyBufferToUnsafeEnvoyBuffer valueView, wn), h1))"

lemma getSingleHeader_eq:
  "cb_http_get_header H (hm_hostPluginPtr hm) (hm_headerType hm) (stringToModuleBuffer rt key) index h =
     ((ret, wv, wn), h1) \<Longrightarrow>
   getSingleHeader H rt hm key index h = ((fst (view_of True ret (written null_envoy_buffer wv)), wn), h1)"
  by (simp add: getSingleHeader_def view_of_def Let_def)

fun hm_get_from ::
    "'h host_headers \<Rightarrow> go_runtime \<Rightarrow> dymHeaderMap \<Rightarrow> gostring \<Rightarrow> u64 list \<Rightarrow> 'h \<Rightarrow>
      UnsafeEnvoyBuffer list \<times> 'h" where
  "hm_get_from H rt hm key [] h = ([], h)"
| "hm_get_from H rt hm key (i # is) h =
     (let ((v, _), h1) = getSingleHeader H rt hm key i h;
          (vs, h2) = hm_get_from H rt hm key is h1
      in (v # vs, h2))"

definition hm_Get ::
    "'h host_headers \<Rightarrow> go_runtime \<Rightarrow> dymHeaderMap \<Rightarrow> gostring \<Rightarrow> 'h \<Rightarrow> UnsafeEnvoyBuffer list \<times> 'h" where
  "hm_Get H rt hm key h =
     (let ((firstValue, wn), h1) = getSingleHeader H rt hm key 0 h;
          valueCount = written 0 wn
      in if valueCount = 0 then ([], h1)
         else if valueCount = 1 then ([firstValue], h1)
         else (let (vs, h2) = hm_get_from H rt hm key (map of_nat [1..<unat valueCount]) h1
               in (firstValue # vs, h2)))"

definition hm_GetOne ::
    "'h host_headers \<Rightarrow> go_runtime \<Rightarrow> dymHeaderMap \<Rightarrow> gostring \<Rightarrow> 'h \<Rightarrow> UnsafeEnvoyBuffer \<times> 'h" where
  "hm_GetOne H rt hm key h = (let ((v, _), h1) = getSingleHeader H rt hm key 0 h in (v, h1))"

text \<open>The address of \<open>out\<close> is passed to the callback as an \<open>envoy_buffer\<close>, which has the same two fields.\<close>

definition hm_GetOneInto ::
    "'h host_headers \<Rightarrow> go_runtime \<Rightarrow> dymHeaderMap \<Rightarrow> gostring \<Rightarrow> UnsafeEnvoyBuffer \<Rightarrow> 'h \<Rightarrow>
      (bool \<times> UnsafeEnvoyBuffer) \<times> 'h" where
  "hm_GetOneInto H rt hm key out h =
     (let ((ret, wv, _), h1) = cb_http_get_header H (hm_hostPluginPtr hm) (hm_headerType hm)
            (stringToModuleBuffer rt key) 0 h;
          out' = (case wv of None \<Rightarrow> out | Some v \<Rightarrow> envoyBufferToUnsafeEnvoyBuffer v)
      in ((ret \<and> Ptr out' \<noteq> 0, out'), h1))"

definition null_http_header :: envoy_http_header where
  "null_http_header =
     \<lparr>eh_key_ptr = 0, eh_key_length = 0, eh_value_ptr = 0, eh_value_length = 0\<rparr>"

definition hm_GetAll ::
    "'h host_headers \<Rightarrow> dymHeaderMap \<Rightarrow> 'h \<Rightarrow> (UnsafeEnvoyBuffer \<times> UnsafeEnvoyBuffer) list \<times> 'h" where
  "hm_GetAll H hm h =
     (let (headerCount, h1) = cb_http_get_headers_size H (hm_hostPluginPtr hm) (hm_headerType hm) h
      in if headerCount = 0 then ([], h1)
         else (let ((_, ws), h2) = cb_http_get_headers H (hm_hostPluginPtr hm) (hm_headerType hm) h1;
                   cHeaders = filled (unat headerCount) null_http_header ws
               in (map (\<lambda>hd. (\<lparr>Ptr = eh_key_ptr hd, Len = eh_key_length hd\<rparr>,
                              \<lparr>Ptr = eh_value_ptr hd, Len = eh_value_length hd\<rparr>)) cHeaders, h2)))"

definition hm_Set ::
    "'h host_headers \<Rightarrow> go_runtime \<Rightarrow> dymHeaderMap \<Rightarrow> gostring \<Rightarrow> gostring \<Rightarrow> 'h \<Rightarrow> 'h" where
  "hm_Set H rt hm key val h =
     snd (cb_http_set_header H (hm_hostPluginPtr hm) (hm_headerType hm)
       (stringToModuleBuffer rt key) (stringToModuleBuffer rt val) h)"

definition hm_Add ::
    "'h host_headers \<Rightarrow> go_runtime \<Rightarrow> dymHeaderMap \<Rightarrow> gostring \<Rightarrow> gostring \<Rightarrow> 'h \<Rightarrow> 'h" where
  "hm_Add H rt hm key val h =
     snd (cb_http_add_header H (hm_hostPluginPtr hm) (hm_headerType hm)
       (stringToModuleBuffer rt key) (stringToModuleBuffer rt val) h)"

definition hm_Remove ::
    "'h host_headers \<Rightarrow> go_runtime \<Rightarrow> dymHeaderMap \<Rightarrow> gostring \<Rightarrow> 'h \<Rightarrow> 'h" where
  "hm_Remove H rt hm key h =
     snd (cb_http_set_header H (hm_hostPluginPtr hm) (hm_headerType hm)
       (stringToModuleBuffer rt key) nullModuleBuffer h)"

section \<open>FakeHeaderMap\<close>

text \<open>
  The Go map of the fake holds Go strings; the views it returns are views of those strings, so its
  readers are modelled by the strings the views denote.
\<close>

record FakeHeaderMap =
  fk_headers :: "gostring \<Rightarrow> gostring list"
  fk_Sets :: "(gostring \<times> gostring) list"
  fk_Adds :: "(gostring \<times> gostring) list"
  fk_Removes :: "gostring list"

text \<open>
  The constructor ranges over a Go map, whose order is not specified; the list of its entries is in
  the order of the range.
\<close>

definition NewFakeHeaderMap :: "go_runtime \<Rightarrow> (gostring \<times> gostring) list \<Rightarrow> FakeHeaderMap" where
  "NewFakeHeaderMap rt entries =
     \<lparr>fk_headers = foldl (\<lambda>m (k, v). m(go_ToLower rt k := [v])) (\<lambda>_. []) entries,
      fk_Sets = [], fk_Adds = [], fk_Removes = []\<rparr>"

definition fk_Get :: "go_runtime \<Rightarrow> FakeHeaderMap \<Rightarrow> gostring \<Rightarrow> gostring list" where
  "fk_Get rt f key =
     (let values = fk_headers f (go_ToLower rt key) in if values = [] then [] else map id values)"

definition fk_GetOne :: "go_runtime \<Rightarrow> FakeHeaderMap \<Rightarrow> gostring \<Rightarrow> gostring" where
  "fk_GetOne rt f key =
     (let values = fk_headers f (go_ToLower rt key) in if values = [] then [] else hd values)"

definition fk_GetOneInto :: "go_runtime \<Rightarrow> FakeHeaderMap \<Rightarrow> gostring \<Rightarrow> gostring \<Rightarrow> bool \<times> gostring" where
  "fk_GetOneInto rt f key out =
     (let values = fk_headers f (go_ToLower rt key)
      in if values = [] then (False, out) else (True, hd values))"

definition fk_Set :: "go_runtime \<Rightarrow> gostring \<Rightarrow> gostring \<Rightarrow> FakeHeaderMap \<Rightarrow> FakeHeaderMap" where
  "fk_Set rt key val f =
     f\<lparr>fk_headers := (fk_headers f)(go_ToLower rt key := [val]), fk_Sets := fk_Sets f @ [(key, val)]\<rparr>"

definition fk_Add :: "go_runtime \<Rightarrow> gostring \<Rightarrow> gostring \<Rightarrow> FakeHeaderMap \<Rightarrow> FakeHeaderMap" where
  "fk_Add rt key val f =
     (let lower = go_ToLower rt key
      in f\<lparr>fk_headers := (fk_headers f)(lower := fk_headers f lower @ [val]),
           fk_Adds := fk_Adds f @ [(key, val)]\<rparr>)"

definition fk_Remove :: "go_runtime \<Rightarrow> gostring \<Rightarrow> FakeHeaderMap \<Rightarrow> FakeHeaderMap" where
  "fk_Remove rt key f =
     f\<lparr>fk_headers := (fk_headers f)(go_ToLower rt key := []), fk_Removes := fk_Removes f @ [key]\<rparr>"

section \<open>The contract of the readers\<close>

text \<open>
  \<open>shared.HeaderMap\<close> promises its readers: \<open>vals s k\<close> are the values of a key, and the readers return
  all of them, the first of them, or nothing. Names that differ by \<open>norm\<close> only are the same header.
\<close>

locale header_reads =
  fixes vals :: "'s \<Rightarrow> gostring \<Rightarrow> gostring list"
    and norm :: "gostring \<Rightarrow> gostring"
    and get :: "'s \<Rightarrow> gostring \<Rightarrow> gostring list"
    and get_one :: "'s \<Rightarrow> gostring \<Rightarrow> gostring"
  assumes vals_norm: "norm k = norm k' \<Longrightarrow> vals s k = vals s k'"
    and get_vals: "get s k = vals s k"
    and get_one_vals: "get_one s k = (case vals s k of [] \<Rightarrow> [] | v # _ \<Rightarrow> v)"
begin

lemma get_one_hd: "get s k \<noteq> [] \<Longrightarrow> get_one s k = hd (get s k)"
  by (cases "vals s k") (simp_all add: get_vals get_one_vals)

lemma get_one_absent: "get s k = [] \<Longrightarrow> get_one s k = []"
  by (simp add: get_vals get_one_vals)

lemma same_header: "norm k = norm k' \<Longrightarrow> get s k = get s k' \<and> get_one s k = get_one s k'"
  using vals_norm [of k k'] by (simp add: get_vals get_one_vals)

end

text \<open>With the writers: what a reader sees after each of them, and after a batch of them.\<close>

datatype header_mut = HSet gostring gostring | HAdd gostring gostring | HRemove gostring

locale header_map = header_reads vals norm get get_one
  for vals :: "'s \<Rightarrow> gostring \<Rightarrow> gostring list" and norm get get_one +
  fixes put :: "gostring \<Rightarrow> gostring \<Rightarrow> 's \<Rightarrow> 's"
    and app :: "gostring \<Rightarrow> gostring \<Rightarrow> 's \<Rightarrow> 's"
    and del :: "gostring \<Rightarrow> 's \<Rightarrow> 's"
  assumes vals_put: "vals (put k v s) q = (if norm q = norm k then [v] else vals s q)"
    and vals_app: "vals (app k v s) q = (if norm q = norm k then vals s q @ [v] else vals s q)"
    and vals_del: "vals (del k s) q = (if norm q = norm k then [] else vals s q)"
begin

fun run_mut :: "'s \<Rightarrow> header_mut \<Rightarrow> 's" where
  "run_mut s (HSet k v) = put k v s"
| "run_mut s (HAdd k v) = app k v s"
| "run_mut s (HRemove k) = del k s"

text \<open>The values of one header after a batch of writes depend on the writes to that header only.\<close>

fun mut_vals :: "gostring \<Rightarrow> gostring list \<Rightarrow> header_mut \<Rightarrow> gostring list" where
  "mut_vals q vs (HSet k v) = (if norm q = norm k then [v] else vs)"
| "mut_vals q vs (HAdd k v) = (if norm q = norm k then vs @ [v] else vs)"
| "mut_vals q vs (HRemove k) = (if norm q = norm k then [] else vs)"

lemma vals_run_mut: "vals (run_mut s m) q = mut_vals q (vals s q) m"
  by (cases m) (simp_all add: vals_put vals_app vals_del)

lemma get_batch: "get (foldl run_mut s ms) q = foldl (mut_vals q) (get s q) ms"
  by (induction ms arbitrary: s) (simp_all add: get_vals vals_run_mut)

lemma get_one_put: "norm q = norm k \<Longrightarrow> get_one (put k v s) q = v"
  by (simp add: get_one_vals vals_put)

end

section \<open>The fake keeps the contract\<close>

interpretation fake: header_map "\<lambda>f k. fk_headers f (go_ToLower rt k)" "go_ToLower rt"
    "fk_Get rt" "fk_GetOne rt" "fk_Set rt" "fk_Add rt" "fk_Remove rt" for rt
  by unfold_locales
    (auto simp: fk_Get_def fk_GetOne_def fk_Set_def fk_Add_def fk_Remove_def Let_def split: list.splits)

section \<open>The binding keeps the contract over a host that keeps the ABI's\<close>

text \<open>
  What the comment of \<open>envoy_dynamic_module_callback_http_get_header\<close> in abi.h promises: the number
  of values is reported, an index in range succeeds with the view of that value, an index out of
  range writes the null buffer; reading changes nothing. \<open>hvals\<close> are the views Envoy holds.
\<close>

locale header_host =
  fixes H :: "'h host_headers"
    and memory :: "'h \<Rightarrow> mem"
    and hvals :: "http_filter_envoy_ptr \<Rightarrow> http_header_type c_val \<Rightarrow> 'h \<Rightarrow> gostring \<Rightarrow> envoy_buffer list"
    and norm :: "gostring \<Rightarrow> gostring"
  assumes host_get: "\<exists>ok. cb_http_get_header H p t (ModuleBuffer nl k) i h =
      ((ok, Some (if unat i < length (hvals p t h k) then hvals p t h k ! unat i else null_envoy_buffer),
        Some (of_nat (length (hvals p t h k)))), h) \<and>
      (unat i < length (hvals p t h k) \<longrightarrow> ok)"
    and host_few: "length (hvals p t h k) < 2 ^ 64"
    and host_norm: "norm k = norm k' \<Longrightarrow> hvals p t h k = hvals p t h k'"
begin

definition text_of :: "'h \<Rightarrow> envoy_buffer \<Rightarrow> gostring" where
  "text_of h v = ToUnsafeString (memory h) (envoyBufferToUnsafeEnvoyBuffer v)"

definition values_of :: "dymHeaderMap \<Rightarrow> 'h \<Rightarrow> gostring \<Rightarrow> gostring list" where
  "values_of hm h k = map (text_of h) (hvals (hm_hostPluginPtr hm) (hm_headerType hm) h k)"

lemma single_in_range:
  assumes "unat i < length (values_of hm h k)"
  shows "\<exists>v. getSingleHeader H rt hm k i h = ((v, Some (of_nat (length (values_of hm h k)))), h) \<and>
    ToUnsafeString (memory h) v = values_of hm h k ! unat i"
proof -
  let ?vs = "hvals (hm_hostPluginPtr hm) (hm_headerType hm) h k"
  from assms have r: "unat i < length ?vs" by (simp add: values_of_def)
  obtain ok where "cb_http_get_header H (hm_hostPluginPtr hm) (hm_headerType hm)
        (ModuleBuffer (k = [] \<and> empty_string_nil rt) k) i h =
      ((ok, Some (?vs ! unat i), Some (of_nat (length ?vs))), h)" "ok"
    using host_get [of "hm_hostPluginPtr hm" "hm_headerType hm" "k = [] \<and> empty_string_nil rt" k i h] r
    by auto
  then have "getSingleHeader H rt hm k i h =
      ((fst (view_of True True (?vs ! unat i)), Some (of_nat (length ?vs))), h)"
    by (simp add: getSingleHeader_eq stringToModuleBuffer_def)
  with r show ?thesis by (simp add: values_of_def text_of_def view_of_content)
qed

lemma single_absent:
  assumes "values_of hm h k = []"
  shows "getSingleHeader H rt hm k i h = ((empty_buffer, Some 0), h)"
  using host_get [of "hm_hostPluginPtr hm" "hm_headerType hm" "k = [] \<and> empty_string_nil rt" k i h] assms
  by (auto simp: getSingleHeader_def stringToModuleBuffer_def values_of_def null_envoy_buffer_def)

lemma get_from:
  "\<forall>i\<in>set is. unat i < length (values_of hm h k) \<Longrightarrow>
   \<exists>vs. hm_get_from H rt hm k is h = (vs, h) \<and>
     map (ToUnsafeString (memory h)) vs = map (\<lambda>i. values_of hm h k ! unat i) is"
proof (induction "is")
  case Nil
  then show ?case by simp
next
  case (Cons i "is")
  obtain v where "getSingleHeader H rt hm k i h = ((v, Some (of_nat (length (values_of hm h k)))), h)"
      "ToUnsafeString (memory h) v = values_of hm h k ! unat i"
    using single_in_range [of i hm h k rt] Cons.prems by auto
  moreover obtain vs where "hm_get_from H rt hm k is h = (vs, h)"
      "map (ToUnsafeString (memory h)) vs = map (\<lambda>i. values_of hm h k ! unat i) is"
    using Cons by auto
  ultimately show ?case by simp
qed

lemma Get_contents:
  "\<exists>vs. hm_Get H rt hm k h = (vs, h) \<and> map (ToUnsafeString (memory h)) vs = values_of hm h k"
proof -
  let ?n = "length (values_of hm h k)"
  have few: "?n < 2 ^ 64"
    using host_few [of "hm_hostPluginPtr hm" "hm_headerType hm" h k] by (simp only: values_of_def length_map)
  then have n: "unat (of_nat ?n :: u64) = ?n" by (rule unat_of_nat_u64)
  show ?thesis
  proof (cases "values_of hm h k")
    case Nil
    then show ?thesis by (simp add: hm_Get_def single_absent)
  next
    case (Cons w ws)
    obtain v where v: "getSingleHeader H rt hm k 0 h = ((v, Some (of_nat ?n)), h)"
        "ToUnsafeString (memory h) v = w"
      using single_in_range [of 0 hm h k rt] Cons by auto
    show ?thesis
    proof (cases ws)
      case Nil
      with v \<open>values_of hm h k = w # ws\<close> show ?thesis by (simp add: hm_Get_def)
    next
      case (Cons w2 ws2)
      let ?is = "map of_nat [1..<?n] :: u64 list"
      have idx: "unat (of_nat i :: u64) = i" if "i < ?n" for i
        using that few by (intro unat_of_nat_u64) simp
      then have "\<forall>i\<in>set ?is. unat i < ?n" by simp
      then obtain vs where vs: "hm_get_from H rt hm k ?is h = (vs, h)"
          "map (ToUnsafeString (memory h)) vs = map (\<lambda>i. values_of hm h k ! unat i) ?is"
        using get_from by blast
      have "map (\<lambda>i. values_of hm h k ! unat i) ?is = map ((!) (values_of hm h k)) [1..<?n]"
        using idx by simp
      also have "\<dots> = ws"
        using map_nth_tail [of w ws] by (simp only: \<open>values_of hm h k = w # ws\<close>)
      finally have rest: "map (ToUnsafeString (memory h)) vs = ws" using vs(2) by simp
      have "(of_nat ?n :: u64) \<noteq> 0" "(of_nat ?n :: u64) \<noteq> 1"
        using n \<open>values_of hm h k = w # ws\<close> Cons by (metis length_Cons nat.distinct(1) unat_0,
          metis One_nat_def length_Cons nat.distinct(1) nat.inject unat_1)
      then have "hm_Get H rt hm k h = (v # vs, h)"
        using v(1) vs(1) n by (simp add: hm_Get_def)
      with rest v(2) \<open>values_of hm h k = w # ws\<close> show ?thesis by simp
    qed
  qed
qed

lemma GetOne_contents:
  "\<exists>v. hm_GetOne H rt hm k h = (v, h) \<and>
     ToUnsafeString (memory h) v = (case values_of hm h k of [] \<Rightarrow> [] | w # _ \<Rightarrow> w)"
proof (cases "values_of hm h k")
  case Nil
  then show ?thesis by (simp add: hm_GetOne_def single_absent)
next
  case (Cons w ws)
  then show ?thesis
    using single_in_range [of 0 hm h k rt] by (auto simp: hm_GetOne_def)
qed

end

sublocale header_host \<subseteq> reads: header_reads "values_of hm" norm
    "\<lambda>h k. map (ToUnsafeString (memory h)) (fst (hm_Get H rt hm k h))"
    "\<lambda>h k. ToUnsafeString (memory h) (fst (hm_GetOne H rt hm k h))" for rt hm
proof
  show "norm k = norm k' \<Longrightarrow> values_of hm s k = values_of hm s k'" for s k k'
    using host_norm [of k k'] by (simp add: values_of_def)
  show "map (ToUnsafeString (memory s)) (fst (hm_Get H rt hm k s)) = values_of hm s k" for s k
    using Get_contents [of rt hm k s] by auto
  show "ToUnsafeString (memory s) (fst (hm_GetOne H rt hm k s)) =
      (case values_of hm s k of [] \<Rightarrow> [] | v # _ \<Rightarrow> v)" for s k
    using GetOne_contents [of rt hm k s] by auto
qed

text \<open>
  A host that follows the comment of the callback, over a table of views: the contract can be kept.
  The other callbacks of the section do nothing here.
\<close>

record header_table =
  ht_mem :: mem
  ht_rows :: "(gostring \<times> envoy_buffer) list"

definition table_vals ::
    "http_filter_envoy_ptr \<Rightarrow> http_header_type c_val \<Rightarrow> header_table \<Rightarrow> gostring \<Rightarrow> envoy_buffer list" where
  "table_vals p t h k = take 1024 (map snd (filter (\<lambda>r. fst r = k) (ht_rows h)))"

definition table_host :: "header_table host_headers" where
  "table_host = \<lparr>
     cb_http_get_header = (\<lambda>p t k i h.
       (let vs = table_vals p t h (mb_bytes k)
        in ((unat i < length vs, Some (if unat i < length vs then vs ! unat i else null_envoy_buffer),
             Some (of_nat (length vs))), h))),
     cb_http_get_headers_size = (\<lambda>p t h. (0, h)),
     cb_http_get_headers = (\<lambda>p t h. ((False, []), h)),
     cb_http_add_header = (\<lambda>p t k v h. (False, h)),
     cb_http_set_header = (\<lambda>p t k v h. (False, h))\<rparr>"

lemma table_contract: "header_host table_host table_vals (\<lambda>k. k)"
  by unfold_locales (simp_all add: table_host_def table_vals_def Let_def)

interpretation table: header_host table_host ht_mem table_vals "\<lambda>k. k"
  by (rule table_contract)

section \<open>Properties\<close>

text \<open>\<open>GetOneInto\<close>, the variant that writes through the caller's address, agrees with \<open>GetOne\<close>
  over every host, whatever the callback answers: called with an empty buffer it makes the same
  call, and when it reports success the buffer denotes the string \<open>GetOne\<close> returns; when it reports
  failure \<open>GetOne\<close> returns the empty string.\<close>

theorem GetOneInto_agrees:
  "let ((found, out), h1) = hm_GetOneInto H rt hm key empty_buffer h;
       (v, h2) = hm_GetOne H rt hm key h
   in h1 = h2 \<and> ToUnsafeString m v = (if found then ToUnsafeString m out else [])"
proof -
  obtain ret wv wn h1 where call: "cb_http_get_header H (hm_hostPluginPtr hm) (hm_headerType hm)
      (stringToModuleBuffer rt key) 0 h = ((ret, wv, wn), h1)"
    by (metis surj_pair)
  show ?thesis
    by (cases wv) (auto simp: hm_GetOneInto_def hm_GetOne_def getSingleHeader_eq [OF call] call
        view_of_def ToUnsafeString_def envoyBufferToUnsafeEnvoyBuffer_def null_envoy_buffer_def
        empty_buffer_def)
qed

text \<open>C21: over a host that keeps the contract of the ABI comment, \<open>Get\<close> returns the values of the
  header in order, one view per value, however many there are (none, the one-value fast path, or the
  loop), and \<open>GetOne\<close> the first of them; neither changes Envoy's state.\<close>

theorem Get_returns_all_values:
  assumes "header_host H hvals norm"
  shows "\<exists>vs v. hm_Get H rt hm k h = (vs, h) \<and> hm_GetOne H rt hm k h = (v, h) \<and>
    map (ToUnsafeString (memory h)) vs =
      map (\<lambda>b. ToUnsafeString (memory h) (envoyBufferToUnsafeEnvoyBuffer b))
        (hvals (hm_hostPluginPtr hm) (hm_headerType hm) h k) \<and>
    ToUnsafeString (memory h) v = (if vs = [] then [] else ToUnsafeString (memory h) (hd vs))"
proof -
  obtain vs where vs: "hm_Get H rt hm k h = (vs, h)"
      "map (ToUnsafeString (memory h)) vs = header_host.values_of memory hvals hm h k"
    using header_host.Get_contents [OF assms] by blast
  obtain v where v: "hm_GetOne H rt hm k h = (v, h)"
      "ToUnsafeString (memory h) v =
        (case header_host.values_of memory hvals hm h k of [] \<Rightarrow> [] | w # _ \<Rightarrow> w)"
    using header_host.GetOne_contents [OF assms] by blast
  have "header_host.values_of memory hvals hm h k =
      map (\<lambda>b. ToUnsafeString (memory h) (envoyBufferToUnsafeEnvoyBuffer b))
        (hvals (hm_hostPluginPtr hm) (hm_headerType hm) h k)"
    by (simp add: header_host.values_of_def [OF assms] header_host.text_of_def [OF assms])
  moreover have "ToUnsafeString (memory h) v = (if vs = [] then [] else ToUnsafeString (memory h) (hd vs))"
    using v(2) vs(2) by (cases vs) (auto split: list.splits)
  ultimately show ?thesis using vs v by auto
qed

theorem Get_returns_all_values_witness:
  "\<forall>rt. let h = \<lparr>ht_mem = (\<lambda>a. if a < 20 then CHR ''x'' else CHR ''y''),
            ht_rows = [(''k'', \<lparr>eb_ptr = 10, eb_length = 2\<rparr>), (''k'', \<lparr>eb_ptr = 30, eb_length = 1\<rparr>)]\<rparr>;
       hm = \<lparr>hm_hostPluginPtr = 7, hm_headerType = CVal 0\<rparr>
   in map (ToUnsafeString (ht_mem h)) (fst (hm_Get table_host rt hm ''k'' h)) = [''xx'', ''y'']"
proof
  fix rt
  show "let h = \<lparr>ht_mem = (\<lambda>a. if a < 20 then CHR ''x'' else CHR ''y''),
            ht_rows = [(''k'', \<lparr>eb_ptr = 10, eb_length = 2\<rparr>), (''k'', \<lparr>eb_ptr = 30, eb_length = 1\<rparr>)]\<rparr>;
       hm = \<lparr>hm_hostPluginPtr = 7, hm_headerType = CVal 0\<rparr>
   in map (ToUnsafeString (ht_mem h)) (fst (hm_Get table_host rt hm ''k'' h)) = [''xx'', ''y'']"
  using Get_returns_all_values [OF table_contract, where memory = ht_mem and rt = rt and k = "''k''"
      and hm = "\<lparr>hm_hostPluginPtr = 7, hm_headerType = CVal 0\<rparr>"
      and h = "\<lparr>ht_mem = (\<lambda>a. if a < 20 then CHR ''x'' else CHR ''y''),
        ht_rows = [(''k'', \<lparr>eb_ptr = 10, eb_length = 2\<rparr>), (''k'', \<lparr>eb_ptr = 30, eb_length = 1\<rparr>)]\<rparr>"]
  by (auto simp: Let_def table_vals_def envoyBufferToUnsafeEnvoyBuffer_def ToUnsafeString_def
      read_mem_def upt_rec)
qed

text \<open>\<open>Set\<close> of an empty value is the call \<open>Remove\<close> makes whenever the run-time gives the empty
  string a nil data pointer, because the ABI reads a null value as a removal; for every other value,
  and when the pointer is not nil, the callback receives the value itself.\<close>

theorem Set_empty_may_remove:
  "(if val = [] \<and> empty_string_nil rt then hm_Set H rt hm key val = hm_Remove H rt hm key
    else hm_Set H rt hm key val = (\<lambda>h. snd (cb_http_set_header H (hm_hostPluginPtr hm) (hm_headerType hm)
      (stringToModuleBuffer rt key) (ModuleBuffer False val) h)))"
  by (auto simp: fun_eq_iff hm_Set_def hm_Remove_def stringToModuleBuffer_def nullModuleBuffer_def)

end
