(* ===== verification/BodyBuffer.thy ===== *)
theory BodyBuffer
  imports Conversions
begin

text \<open>
  Bodies: \<open>dymBodyBuffer\<close> over the ABI callbacks (abi_impl/internal.go), \<open>FakeBodyBuffer\<close>
  (shared/fake/fake_stream_base.go), the contract \<open>shared.BodyBuffer\<close> both keep, and the readers of a
  whole body built on it (shared/utility/utility.go).
\<close>

section \<open>dymBodyBuffer\<close>

record dymBodyBuffer =
  bb_hostPluginPtr :: http_filter_envoy_ptr
  bb_bufferType :: "http_body_type c_val"

definition bb_GetChunks :: "'h host_body \<Rightarrow> dymBodyBuffer \<Rightarrow> 'h \<Rightarrow> UnsafeEnvoyBuffer list \<times> 'h" where
  "bb_GetChunks B b h =
     (let (count, h1) = cb_http_get_body_chunks_size B (bb_hostPluginPtr b) (bb_bufferType b) h
      in if count = 0 then ([], h1)
         else (let ((_, ws), h2) = cb_http_get_body_chunks B (bb_hostPluginPtr b) (bb_bufferType b) h1;
                   cChunks = filled (unat count) null_envoy_buffer ws
               in (map (\<lambda>c. \<lparr>Ptr = eb_ptr c, Len = eb_length c\<rparr>) cChunks, h2)))"

definition bb_GetSize :: "'h host_body \<Rightarrow> dymBodyBuffer \<Rightarrow> 'h \<Rightarrow> u64 \<times> 'h" where
  "bb_GetSize B b h = cb_http_get_body_size B (bb_hostPluginPtr b) (bb_bufferType b) h"

definition bb_Append :: "'h host_body \<Rightarrow> dymBodyBuffer \<Rightarrow> bytes option \<Rightarrow> 'h \<Rightarrow> 'h" where
  "bb_Append B b data h =
     (if slice_bytes data = [] then h
      else snd (cb_http_append_body B (bb_hostPluginPtr b) (bb_bufferType b) (bytesToModuleBuffer data) h))"

definition bb_Drain :: "'h host_body \<Rightarrow> dymBodyBuffer \<Rightarrow> u64 \<Rightarrow> 'h \<Rightarrow> 'h" where
  "bb_Drain B b n h = snd (cb_http_drain_body B (bb_hostPluginPtr b) (bb_bufferType b) n h)"

section \<open>FakeBodyBuffer\<close>

text \<open>Its one chunk is a view of the whole slice, modelled by the bytes it denotes.\<close>

record FakeBodyBuffer =
  fb_Body :: bytes

definition NewFakeBodyBuffer :: "bytes option \<Rightarrow> FakeBodyBuffer" where
  "NewFakeBodyBuffer body = \<lparr>fb_Body = slice_bytes body\<rparr>"

definition fb_GetChunks :: "FakeBodyBuffer \<Rightarrow> bytes list" where
  "fb_GetChunks b = (if length (fb_Body b) = 0 then [] else [fb_Body b])"

definition fb_GetSize :: "FakeBodyBuffer \<Rightarrow> u64" where
  "fb_GetSize b = of_nat (length (fb_Body b))"

definition fb_Drain :: "u64 \<Rightarrow> FakeBodyBuffer \<Rightarrow> FakeBodyBuffer" where
  "fb_Drain n b =
     (if n \<ge> of_nat (length (fb_Body b)) then b\<lparr>fb_Body := take 0 (fb_Body b)\<rparr>
      else b\<lparr>fb_Body := drop (unat n) (fb_Body b)\<rparr>)"

definition fb_Append :: "bytes option \<Rightarrow> FakeBodyBuffer \<Rightarrow> FakeBodyBuffer" where
  "fb_Append data b = b\<lparr>fb_Body := fb_Body b @ slice_bytes data\<rparr>"

section \<open>Whole bodies\<close>

text \<open>\<open>make([]byte, 0, n)\<close> panics for a capacity beyond the range of \<open>int\<close>.\<close>

definition append_chunks :: "mem \<Rightarrow> bytes \<Rightarrow> UnsafeEnvoyBuffer list \<Rightarrow> bytes" where
  "append_chunks m body chunks = foldl (\<lambda>body c. body @ slice_bytes (ToUnsafeBytes m c)) body chunks"

definition getBodyContent ::
    "('h \<Rightarrow> mem) \<Rightarrow> 'h host_body \<Rightarrow> dymBodyBuffer \<Rightarrow> dymBodyBuffer \<Rightarrow> bool \<Rightarrow> 'h \<Rightarrow> (bytes \<times> 'h) go" where
  "getBodyContent memory B bufferedBody receivedBody isBuffered h =
     (let (bodySize, h1) = bb_GetSize B bufferedBody h;
          (bodySize, h2) = (if \<not> isBuffered
                            then (let (n, h') = bb_GetSize B receivedBody h1 in (bodySize + n, h'))
                            else (bodySize, h1))
      in if 2 ^ 63 \<le> bodySize then Panic ''makeslice: cap out of range''
         else (let (chunks, h3) = bb_GetChunks B bufferedBody h2;
                   body = append_chunks (memory h3) [] chunks
               in if isBuffered then Ret (body, h3)
                  else (let (chunks', h4) = bb_GetChunks B receivedBody h3
                        in Ret (append_chunks (memory h4) body chunks', h4))))"

lemma append_chunks_concat:
  "append_chunks m body cs = body @ concat (map (ToUnsafeString m) cs)"
  by (induction cs arbitrary: body) (simp_all add: append_chunks_def slice_ToUnsafeBytes)

section \<open>The contract\<close>

text \<open>
  \<open>shared.BodyBuffer\<close>: the chunks in order are the body, the size is its length. Lengths are those of
  Go slices, below \<open>2 ^ 63\<close>.
\<close>

locale body_reads =
  fixes contents :: "'s \<Rightarrow> bytes"
    and chunks :: "'s \<Rightarrow> bytes list"
    and size_of_body :: "'s \<Rightarrow> u64"
  assumes chunks_contents: "concat (chunks s) = contents s"
    and size_contents: "size_of_body s = of_nat (length (contents s))"
begin

lemma chunks_length: "size_of_body s = of_nat (sum_list (map length (chunks s)))"
  by (simp add: size_contents length_concat flip: chunks_contents)

lemma empty_body: "contents s = [] \<Longrightarrow> size_of_body s = 0 \<and> concat (chunks s) = []"
  by (simp add: size_contents chunks_contents)

end

locale body_buffer = body_reads contents chunks size_of_body
  for contents :: "'s \<Rightarrow> bytes" and chunks size_of_body +
  fixes app :: "bytes option \<Rightarrow> 's \<Rightarrow> 's"
    and drain :: "u64 \<Rightarrow> 's \<Rightarrow> 's"
  assumes contents_app: "contents (app d s) = contents s @ slice_bytes d"
    and contents_drain: "length (contents s) < 2 ^ 63 \<Longrightarrow> contents (drain n s) = drop (unat n) (contents s)"
begin

text \<open>Replacing a body: drain what is there, then append the new one.\<close>

lemma drain_all:
  assumes "length (contents s) < 2 ^ 63"
  shows "contents (drain (size_of_body s) s) = []"
proof -
  have "unat (of_nat (length (contents s)) :: u64) = length (contents s)"
    using assms by (intro unat_of_nat_u64) simp
  with assms show ?thesis by (simp add: contents_drain size_contents)
qed

lemma replace_body:
  "length (contents s) < 2 ^ 63 \<Longrightarrow> contents (app d (drain (size_of_body s) s)) = slice_bytes d"
  by (simp add: contents_app drain_all)

end

interpretation fake_body: body_buffer fb_Body fb_GetChunks fb_GetSize fb_Append fb_Drain
proof
  show "concat (fb_GetChunks s) = fb_Body s" for s by (simp add: fb_GetChunks_def)
  show "fb_GetSize s = of_nat (length (fb_Body s))" for s by (simp add: fb_GetSize_def)
  show "fb_Body (fb_Append d s) = fb_Body s @ slice_bytes d" for d s by (simp add: fb_Append_def)
  show "fb_Body (fb_Drain n s) = drop (unat n) (fb_Body s)" if "length (fb_Body s) < 2 ^ 63" for n s
  proof -
    have "unat (of_nat (length (fb_Body s)) :: u64) = length (fb_Body s)"
      using that by (intro unat_of_nat_u64) simp
    then show ?thesis by (auto simp: fb_Drain_def word_le_nat_alt)
  qed
qed

text \<open>What abi.h promises for the body callbacks that read; \<open>hchunks\<close> are the slices Envoy holds.\<close>

locale body_host =
  fixes B :: "'h host_body"
    and memory :: "'h \<Rightarrow> mem"
    and hchunks :: "http_filter_envoy_ptr \<Rightarrow> http_body_type c_val \<Rightarrow> 'h \<Rightarrow> envoy_buffer list"
  assumes host_chunks_size: "cb_http_get_body_chunks_size B p t h = (of_nat (length (hchunks p t h)), h)"
    and host_chunks: "\<exists>ok. cb_http_get_body_chunks B p t h = ((ok, hchunks p t h), h)"
    and host_size: "cb_http_get_body_size B p t h =
      (of_nat (length (concat (map (\<lambda>c. ToUnsafeString (memory h) (envoyBufferToUnsafeEnvoyBuffer c))
        (hchunks p t h)))), h)"
    and host_few_chunks: "length (hchunks p t h) < 2 ^ 64"
begin

definition body_of :: "dymBodyBuffer \<Rightarrow> 'h \<Rightarrow> bytes" where
  "body_of b h = concat (map (\<lambda>c. ToUnsafeString (memory h) (envoyBufferToUnsafeEnvoyBuffer c))
     (hchunks (bb_hostPluginPtr b) (bb_bufferType b) h))"

lemma GetChunks_views:
  "bb_GetChunks B b h =
     (map envoyBufferToUnsafeEnvoyBuffer (hchunks (bb_hostPluginPtr b) (bb_bufferType b) h), h)"
proof -
  let ?cs = "hchunks (bb_hostPluginPtr b) (bb_bufferType b) h"
  have n: "unat (of_nat (length ?cs) :: u64) = length ?cs"
    using host_few_chunks by (rule unat_of_nat_u64)
  have z: "(of_nat (length ?cs) :: u64) = 0 \<longleftrightarrow> ?cs = []"
    using of_nat_u64_eq_0 [OF host_few_chunks] by simp
  obtain ok where ok: "cb_http_get_body_chunks B (bb_hostPluginPtr b) (bb_bufferType b) h = ((ok, ?cs), h)"
    using host_chunks by blast
  show ?thesis
  proof (cases "?cs = []")
    case True
    then show ?thesis by (simp add: bb_GetChunks_def host_chunks_size)
  next
    case False
    with z have "(of_nat (length ?cs) :: u64) \<noteq> 0" by simp
    then show ?thesis by (simp add: bb_GetChunks_def host_chunks_size ok view_fun n)
  qed
qed

lemma GetSize_body: "bb_GetSize B b h = (of_nat (length (body_of b h)), h)"
  by (simp add: bb_GetSize_def host_size body_of_def)

lemma GetChunks_body:
  "concat (map (ToUnsafeString (memory h)) (fst (bb_GetChunks B b h))) = body_of b h"
  by (simp add: GetChunks_views body_of_def comp_def)

text \<open>The whole-body reader: the buffered part, then the received part unless it is the same.\<close>

lemma getBodyContent_whole:
  assumes "length (body_of bb h) + length (body_of rb h) < 2 ^ 63"
  shows "getBodyContent memory B bb rb isBuffered h =
    Ret (body_of bb h @ (if isBuffered then [] else body_of rb h), h)"
proof -
  have small: "\<not> 2 ^ 63 \<le> (of_nat n :: u64)" if "n < 2 ^ 63" for n :: nat
    using that by (simp add: word_le_nat_alt unat_of_nat_u64)
  have "\<not> 2 ^ 63 \<le> (of_nat (length (body_of bb h)) :: u64)"
    "\<not> 2 ^ 63 \<le> (of_nat (length (body_of bb h)) + of_nat (length (body_of rb h)) :: u64)"
    using small [of "length (body_of bb h)"] small [of "length (body_of bb h) + length (body_of rb h)"] assms
    by simp_all
  then show ?thesis
    by (simp add: getBodyContent_def GetSize_body GetChunks_views append_chunks_concat body_of_def comp_def)
qed

end

sublocale body_host \<subseteq> reads: body_reads "body_of b"
    "\<lambda>h. map (ToUnsafeString (memory h)) (fst (bb_GetChunks B b h))" "\<lambda>h. fst (bb_GetSize B b h)" for b
  by unfold_locales (simp_all add: GetChunks_body GetSize_body)

text \<open>A host that keeps this contract, over a list of slices.\<close>

record body_table =
  bt_mem :: mem
  bt_slices :: "http_body_type c_val \<Rightarrow> envoy_buffer list"

definition table_chunks ::
    "http_filter_envoy_ptr \<Rightarrow> http_body_type c_val \<Rightarrow> body_table \<Rightarrow> envoy_buffer list" where
  "table_chunks p t h = take 1024 (bt_slices h t)"

definition table_body_host :: "body_table host_body" where
  "table_body_host = \<lparr>
     cb_http_get_body_size = (\<lambda>p t h. (of_nat (length (concat (map (\<lambda>c. ToUnsafeString (bt_mem h)
       (envoyBufferToUnsafeEnvoyBuffer c)) (table_chunks p t h)))), h)),
     cb_http_get_body_chunks = (\<lambda>p t h. ((True, table_chunks p t h), h)),
     cb_http_get_body_chunks_size = (\<lambda>p t h. (of_nat (length (table_chunks p t h)), h)),
     cb_http_append_body = (\<lambda>p t d h. (False, h)),
     cb_http_drain_body = (\<lambda>p t n h. (False, h)),
     cb_http_received_buffered_request_body = (\<lambda>p h. (False, h)),
     cb_http_received_buffered_response_body = (\<lambda>p h. (False, h))\<rparr>"

lemma table_body_contract: "body_host table_body_host bt_mem table_chunks"
  by unfold_locales (auto simp: table_body_host_def table_chunks_def)

interpretation table_body: body_host table_body_host bt_mem table_chunks
  by (rule table_body_contract)

section \<open>Properties\<close>

text \<open>C22: over a host that keeps the contract of the ABI comments, reading a whole body returns the
  buffered part followed by the part received last, byte for byte, and the received part is left out
  exactly when Envoy says it is the buffered one; nothing of Envoy changes, and the reader panics for
  no body that fits a Go slice.\<close>

theorem whole_body_read:
  assumes "body_host B memory hchunks"
    and "bytes_of = (\<lambda>b. concat (map (\<lambda>c. ToUnsafeString (memory h) (envoyBufferToUnsafeEnvoyBuffer c))
      (hchunks (bb_hostPluginPtr b) (bb_bufferType b) h)))"
    and "length (bytes_of bb) + length (bytes_of rb) < 2 ^ 63"
  shows "getBodyContent memory B bb rb isBuffered h =
    Ret (bytes_of bb @ (if isBuffered then [] else bytes_of rb), h)"
  using body_host.getBodyContent_whole [OF assms(1), of bb h rb isBuffered] assms(2,3)
  by (simp add: body_host.body_of_def [OF assms(1)])

theorem whole_body_read_witness:
  "let h = \<lparr>bt_mem = (\<lambda>a. if a < 20 then CHR ''x'' else CHR ''y''),
            bt_slices = (\<lambda>t. if c_raw t = 1 then [\<lparr>eb_ptr = 10, eb_length = 2\<rparr>]
                             else [\<lparr>eb_ptr = 30, eb_length = 1\<rparr>, \<lparr>eb_ptr = 0, eb_length = 0\<rparr>])\<rparr>
   in getBodyContent bt_mem table_body_host \<lparr>bb_hostPluginPtr = 7, bb_bufferType = CVal 1\<rparr>
        \<lparr>bb_hostPluginPtr = 7, bb_bufferType = CVal 0\<rparr> False h = Ret (''xxy'', h)"
  unfolding Let_def
  by (subst whole_body_read [OF table_body_contract refl])
    (simp_all add: table_chunks_def envoyBufferToUnsafeEnvoyBuffer_def ToUnsafeString_def
      read_mem_def upt_rec)

end
