(* ===== verification/Span.thy ===== *)
theory Span
  imports Conversions
begin

text \<open>
  \<open>dymSpan\<close> and \<open>dymChildSpan\<close> of abi_impl/internal.go. A method may be called on a nil span, which is
  \<open>None\<close>; every method is a no-op there and on a span whose Envoy pointer is nil. The two records of
  tracing callbacks are the section of abi.h.
\<close>

record dymSpan =
  sp_hostPluginPtr :: http_filter_envoy_ptr
  sp_spanPtr :: span_envoy_ptr

record dymChildSpan =
  cs_span :: dymSpan
  cs_childPtr :: child_span_module_ptr

definition live_span :: "dymSpan option \<Rightarrow> dymSpan option" where
  "live_span s = (case s of None \<Rightarrow> None | Some sp \<Rightarrow> if sp_spanPtr sp = 0 then None else Some sp)"

definition span_SetTag ::
    "'h host_span_1 \<Rightarrow> go_runtime \<Rightarrow> dymSpan option \<Rightarrow> gostring \<Rightarrow> gostring \<Rightarrow> 'h \<Rightarrow> 'h" where
  "span_SetTag S rt s key val h =
     (case live_span s of None \<Rightarrow> h
      | Some sp \<Rightarrow> snd (cb_http_span_set_tag S (sp_spanPtr sp) (stringToModuleBuffer rt key)
          (stringToModuleBuffer rt val) h))"

definition span_SetOperation ::
    "'h host_span_1 \<Rightarrow> go_runtime \<Rightarrow> dymSpan option \<Rightarrow> gostring \<Rightarrow> 'h \<Rightarrow> 'h" where
  "span_SetOperation S rt s operation h =
     (case live_span s of None \<Rightarrow> h
      | Some sp \<Rightarrow> snd (cb_http_span_set_operation S (sp_spanPtr sp) (stringToModuleBuffer rt operation) h))"

definition span_Log :: "'h host_span_1 \<Rightarrow> go_runtime \<Rightarrow> dymSpan option \<Rightarrow> gostring \<Rightarrow> 'h \<Rightarrow> 'h" where
  "span_Log S rt s event h =
     (case live_span s of None \<Rightarrow> h
      | Some sp \<Rightarrow> snd (cb_http_span_log S (sp_hostPluginPtr sp) (sp_spanPtr sp)
          (stringToModuleBuffer rt event) h))"

definition span_SetSampled :: "'h host_span_1 \<Rightarrow> dymSpan option \<Rightarrow> bool \<Rightarrow> 'h \<Rightarrow> 'h" where
  "span_SetSampled S s sampled h =
     (case live_span s of None \<Rightarrow> h
      | Some sp \<Rightarrow> snd (cb_http_span_set_sampled S (sp_spanPtr sp) sampled h))"

definition span_GetBaggage ::
    "'h host_span_1 \<Rightarrow> go_runtime \<Rightarrow> dymSpan option \<Rightarrow> gostring \<Rightarrow> 'h \<Rightarrow> (UnsafeEnvoyBuffer \<times> bool) \<times> 'h" where
  "span_GetBaggage S rt s key h =
     (case live_span s of None \<Rightarrow> ((empty_buffer, False), h)
      | Some sp \<Rightarrow>
          (let ((ret, wv), h1) = cb_http_span_get_baggage S (sp_spanPtr sp) (stringToModuleBuffer rt key) h
           in (view_of False ret (written null_envoy_buffer wv), h1)))"

definition span_SetBaggage ::
    "'h host_span_1 \<Rightarrow> go_runtime \<Rightarrow> dymSpan option \<Rightarrow> gostring \<Rightarrow> gostring \<Rightarrow> 'h \<Rightarrow> 'h" where
  "span_SetBaggage S rt s key val h =
     (case live_span s of None \<Rightarrow> h
      | Some sp \<Rightarrow> snd (cb_http_span_set_baggage S (sp_spanPtr sp) (stringToModuleBuffer rt key)
          (stringToModuleBuffer rt val) h))"

definition span_GetTraceID ::
    "'h host_span_1 \<Rightarrow> dymSpan option \<Rightarrow> 'h \<Rightarrow> (UnsafeEnvoyBuffer \<times> bool) \<times> 'h" where
  "span_GetTraceID S s h =
     (case live_span s of None \<Rightarrow> ((empty_buffer, False), h)
      | Some sp \<Rightarrow>
          (let ((ret, wv), h1) = cb_http_span_get_trace_id S (sp_spanPtr sp) h
           in (view_of False ret (written null_envoy_buffer wv), h1)))"

definition span_GetSpanID ::
    "'h host_span_1 \<Rightarrow> dymSpan option \<Rightarrow> 'h \<Rightarrow> (UnsafeEnvoyBuffer \<times> bool) \<times> 'h" where
  "span_GetSpanID S s h =
     (case live_span s of None \<Rightarrow> ((empty_buffer, False), h)
      | Some sp \<Rightarrow>
          (let ((ret, wv), h1) = cb_http_span_get_span_id S (sp_spanPtr sp) h
           in (view_of False ret (written null_envoy_buffer wv), h1)))"

definition span_SpawnChild ::
    "'h host_span_1 \<Rightarrow> go_runtime \<Rightarrow> dymSpan option \<Rightarrow> gostring \<Rightarrow> 'h \<Rightarrow> dymChildSpan option \<times> 'h" where
  "span_SpawnChild S rt s operation h =
     (case live_span s of None \<Rightarrow> (None, h)
      | Some sp \<Rightarrow>
          (let (childPtr, h1) = cb_http_span_spawn_child S (sp_hostPluginPtr sp) (sp_spanPtr sp)
                 (stringToModuleBuffer rt operation) h
           in if childPtr = 0 then (None, h1)
              else (Some \<lparr>cs_span = \<lparr>sp_hostPluginPtr = sp_hostPluginPtr sp, sp_spanPtr = childPtr\<rparr>,
                         cs_childPtr = childPtr\<rparr>, h1)))"

text \<open>\<open>Finish\<close> clears both pointers, so that the span is dead for every later call.\<close>

definition childspan_Finish ::
    "'h host_span_2 \<Rightarrow> dymChildSpan option \<Rightarrow> 'h \<Rightarrow> dymChildSpan option \<times> 'h" where
  "childspan_Finish S s h =
     (case s of None \<Rightarrow> (None, h)
      | Some c \<Rightarrow>
          (if cs_childPtr c = 0 then (Some c, h)
           else (let (_, h1) = cb_http_child_span_finish S (cs_childPtr c) h
                 in (Some (c\<lparr>cs_childPtr := 0, cs_span := (cs_span c)\<lparr>sp_spanPtr := 0\<rparr>\<rparr>), h1))))"

section \<open>Properties\<close>

text \<open>The operations on a span that may reach Envoy through its pointer, as one type.\<close>

datatype span_call =
    SpanSetTag gostring gostring | SpanSetOperation gostring | SpanLog gostring
  | SpanSetSampled bool | SpanGetBaggage gostring | SpanSetBaggage gostring gostring
  | SpanGetTraceID | SpanGetSpanID | SpanSpawnChild gostring

fun run_span :: "'h host_span_1 \<Rightarrow> go_runtime \<Rightarrow> dymSpan option \<Rightarrow> span_call \<Rightarrow> 'h \<Rightarrow> 'h" where
  "run_span S rt s (SpanSetTag k v) h = span_SetTag S rt s k v h"
| "run_span S rt s (SpanSetOperation t) h = span_SetOperation S rt s t h"
| "run_span S rt s (SpanLog e) h = span_Log S rt s e h"
| "run_span S rt s (SpanSetSampled b) h = span_SetSampled S s b h"
| "run_span S rt s (SpanGetBaggage k) h = snd (span_GetBaggage S rt s k h)"
| "run_span S rt s (SpanSetBaggage k v) h = span_SetBaggage S rt s k v h"
| "run_span S rt s SpanGetTraceID h = snd (span_GetTraceID S s h)"
| "run_span S rt s SpanGetSpanID h = snd (span_GetSpanID S s h)"
| "run_span S rt s (SpanSpawnChild t) h = snd (span_SpawnChild S rt s t h)"

lemma run_dead_span: "live_span s = None \<Longrightarrow> run_span S rt s c h = h"
  by (cases c) (simp_all add: span_SetTag_def span_SetOperation_def span_Log_def span_SetSampled_def
      span_GetBaggage_def span_SetBaggage_def span_GetTraceID_def span_GetSpanID_def span_SpawnChild_def)

lemma run_dead_span_all: "live_span s = None \<Longrightarrow> fold (run_span S rt s) cs h = h"
  by (induction cs arbitrary: h) (simp_all add: run_dead_span)

text \<open>C25: a child span is finished once: after \<open>Finish\<close>, a second \<open>Finish\<close> and every other
  operation on the span, in any number and order, leave Envoy alone, so no pointer to a span that
  Envoy has released is ever passed back to it.\<close>

theorem finished_span_is_dead:
  "let (c1, h1) = childspan_Finish S2 (Some c) h
   in childspan_Finish S2 c1 h1 = (c1, h1) \<and>
      (cs_childPtr c \<noteq> 0 \<longrightarrow> fold (run_span S rt (map_option cs_span c1)) calls h1 = h1)"
  by (auto simp: childspan_Finish_def Let_def live_span_def split: prod.splits
      intro!: run_dead_span_all)

theorem finished_span_is_dead_witness:
  "\<forall>S rt. let S2 = \<lparr>cb_http_child_span_finish = (\<lambda>p h. ((), p # h))\<rparr>;
       (c1, h1) = childspan_Finish S2
         (Some \<lparr>cs_span = \<lparr>sp_hostPluginPtr = 1, sp_spanPtr = 9\<rparr>, cs_childPtr = 9\<rparr>) []
   in h1 = [9] \<and> fold (run_span S rt (map_option cs_span c1)) [SpanGetTraceID, SpanLog ''x''] h1 = h1"
proof (intro allI)
  fix S rt
  show "let S2 = \<lparr>cb_http_child_span_finish = (\<lambda>p h. ((), p # h))\<rparr>;
       (c1, h1) = childspan_Finish S2
         (Some \<lparr>cs_span = \<lparr>sp_hostPluginPtr = 1, sp_spanPtr = 9\<rparr>, cs_childPtr = 9\<rparr>) []
   in h1 = [9] \<and> fold (run_span S rt (map_option cs_span c1)) [SpanGetTraceID, SpanLog ''x''] h1 = h1"
  using finished_span_is_dead [of "\<lparr>cb_http_child_span_finish = (\<lambda>p h. ((), p # h))\<rparr>"
      "\<lparr>cs_span = \<lparr>sp_hostPluginPtr = 1, sp_spanPtr = 9\<rparr>, cs_childPtr = 9\<rparr>" "[]" S rt
      "[SpanGetTraceID, SpanLog ''x'']"]
  by (simp add: childspan_Finish_def)
qed

end
