(* ===== verification/Strconv.thy ===== *)
theory Strconv
  imports Prelude
begin

text \<open>
  The two functions of Go's strconv that the shared-data table uses: \<open>FormatUint(n, 10)\<close> and
  \<open>ParseUint(s, 10, 64)\<close>, with its errors (empty, a byte that is no digit, out of range).
\<close>

definition digit_char :: "nat \<Rightarrow> byte" where
  "digit_char d = char_of (48 + d)"

definition digit_val :: "byte \<Rightarrow> nat option" where
  "digit_val c = (let n = of_char c in if 48 \<le> n \<and> n \<le> 57 then Some (n - 48) else None)"

fun format_nat :: "nat \<Rightarrow> gostring" where
  "format_nat n = (if n < 10 then [digit_char n] else format_nat (n div 10) @ [digit_char (n mod 10)])"

declare format_nat.simps [simp del]

definition FormatUint :: "u64 \<Rightarrow> gostring" where
  "FormatUint n = format_nat (unat n)"

datatype parse_error = SyntaxError | RangeError

text \<open>The digits left to right; the range is checked as each digit is added.\<close>

fun parse_digits :: "nat \<Rightarrow> gostring \<Rightarrow> parse_error + nat" where
  "parse_digits acc [] = Inr acc"
| "parse_digits acc (c # cs) =
     (case digit_val c of
        None \<Rightarrow> Inl SyntaxError
      | Some d \<Rightarrow> if 2 ^ 64 \<le> acc * 10 + d then Inl RangeError else parse_digits (acc * 10 + d) cs)"

definition ParseUint :: "gostring \<Rightarrow> parse_error + u64" where
  "ParseUint s =
     (if s = [] then Inl SyntaxError
      else case parse_digits 0 s of Inl e \<Rightarrow> Inl e | Inr n \<Rightarrow> Inr (of_nat n))"

lemma digit_val_char: "d < 10 \<Longrightarrow> digit_val (digit_char d) = Some d"
  by (simp add: digit_val_def digit_char_def Let_def)

lemma parse_digits_append:
  "parse_digits acc (xs @ ys) =
     (case parse_digits acc xs of Inl e \<Rightarrow> Inl e | Inr a \<Rightarrow> parse_digits a ys)"
  by (induction xs arbitrary: acc) (auto split: option.splits)

lemma parse_format: "n < 2 ^ 64 \<Longrightarrow> parse_digits 0 (format_nat n) = Inr n"
proof (induction n rule: format_nat.induct)
  case (1 n)
  show ?case
  proof (cases "n < 10")
    case True
    then show ?thesis using "1.prems" by (subst format_nat.simps) (simp add: digit_val_char)
  next
    case False
    have "parse_digits 0 (format_nat (n div 10)) = Inr (n div 10)"
      using 1 False by simp
    moreover have "n div 10 * 10 + n mod 10 = n" by simp
    ultimately show ?thesis
      using False "1.prems" by (subst format_nat.simps) (simp add: parse_digits_append digit_val_char)
  qed
qed

lemma format_nat_nonempty: "format_nat n \<noteq> []"
  by (subst format_nat.simps) simp

lemma Parse_Format: "ParseUint (FormatUint n) = Inr n"
  using parse_format [OF unat_u64_less [of n]]
  by (simp add: ParseUint_def FormatUint_def format_nat_nonempty)

text \<open>At most twenty digits.\<close>

lemma format_nat_digits: "n < 10 ^ k \<Longrightarrow> 0 < k \<Longrightarrow> length (format_nat n) \<le> k"
proof (induction k arbitrary: n)
  case 0
  then show ?case by simp
next
  case (Suc k)
  show ?case
  proof (cases "n < 10")
    case True
    then show ?thesis by (subst format_nat.simps) simp
  next
    case False
    then have "0 < k" using Suc.prems by (cases k) auto
    moreover have "n div 10 < 10 ^ k" using Suc.prems by (simp add: div_less_iff_less_mult mult.commute)
    ultimately have "length (format_nat (n div 10)) \<le> k" using Suc.IH by blast
    then show ?thesis using False by (subst format_nat.simps) simp
  qed
qed

lemma FormatUint_length: "length (FormatUint n) \<le> 20"
  unfolding FormatUint_def
proof (rule format_nat_digits)
  show "unat n < 10 ^ 20" using unat_u64_less [of n] by simp
qed simp

lemma FormatUint_nonempty: "FormatUint n \<noteq> []"
  by (simp add: FormatUint_def format_nat_nonempty)

end
