(* ===== verification/HttpHandle.thy ===== *)
theory HttpHandle
  imports Manager Scheduler HeaderMap BodyBuffer Span Conformance Strconv
begin

text \<open>
  \<open>dymHttpFilterHandle\<close> of abi_impl/internal.go, the per-request handle: its state and all its
  methods, in the order of the file. A method that only calls Envoy takes the handle and Envoy's
  state and returns the result and Envoy's state; a method that changes the handle returns it too.
  References to objects of the filter author (plugins, callbacks, closures) are numbers; nil is \<open>None\<close>.
\<close>

type_synonym objref = nat

section \<open>The handle\<close>

record dymHttpFilterHandle =
  hostPluginPtr :: http_filter_envoy_ptr
  requestHeaderMap :: dymHeaderMap
  responseHeaderMap :: dymHeaderMap
  requestTrailerMap :: dymHeaderMap
  responseTrailerMap :: dymHeaderMap
  receivedRequestBody :: dymBodyBuffer
  receivedResponseBody :: dymBodyBuffer
  bufferedRequestBody :: dymBodyBuffer
  bufferedResponseBody :: dymBodyBuffer
  plugin :: "objref option"
  scheduler :: "objref dymScheduler option"
  streamCompleted :: bool
  streamDestoried :: bool
  localResponseSent :: bool
  calloutCallbacks :: "(u64 \<Rightarrow> objref option) option"
  streamCallbacks :: "(u64 \<Rightarrow> objref option) option"
  recordedSharedData :: "ptr list"
  downstreamWatermarkCallbacks :: "objref option"

text \<open>Reading a Go map that may be nil, writing one that is created on first use, deleting from it.\<close>

definition go_map_get :: "('k \<Rightarrow> 'v option) option \<Rightarrow> 'k \<Rightarrow> 'v option" where
  "go_map_get m k = (case m of None \<Rightarrow> None | Some f \<Rightarrow> f k)"

definition go_map_put :: "('k \<Rightarrow> 'v option) option \<Rightarrow> 'k \<Rightarrow> 'v option \<Rightarrow> ('k \<Rightarrow> 'v option) option" where
  "go_map_put m k v = (case m of None \<Rightarrow> Some ((\<lambda>_. None)(k := v)) | Some f \<Rightarrow> Some (f(k := v)))"

definition go_map_delete :: "('k \<Rightarrow> 'v option) option \<Rightarrow> 'k \<Rightarrow> ('k \<Rightarrow> 'v option) option" where
  "go_map_delete m k = (case m of None \<Rightarrow> None | Some f \<Rightarrow> Some (f(k := None)))"

lemma go_map_get_put [simp]: "go_map_get (go_map_put m k v) q = (if q = k then v else go_map_get m q)"
  by (simp add: go_map_get_def go_map_put_def split: option.splits)

lemma go_map_get_delete [simp]:
  "go_map_get (go_map_delete m k) q = (if q = k then None else go_map_get m q)"
  by (simp add: go_map_get_def go_map_delete_def split: option.splits)

section \<open>Dynamic metadata\<close>

definition hd_GetMetadataString ::
    "'h host_metadata_1 \<Rightarrow> go_runtime \<Rightarrow> dymHttpFilterHandle \<Rightarrow> u32 \<Rightarrow> gostring \<Rightarrow> gostring \<Rightarrow> 'h \<Rightarrow>
      (UnsafeEnvoyBuffer \<times> bool) \<times> 'h" where
  "hd_GetMetadataString M rt hnd source ns key h =
     (let ((ret, wv), h1) = cb_http_get_metadata_string M (hostPluginPtr hnd) (CVal source)
            (stringToModuleBuffer rt ns) (stringToModuleBuffer rt key) h
      in (view_of True ret (written null_envoy_buffer wv), h1))"

definition hd_GetMetadataNumber ::
    "'h host_metadata_1 \<Rightarrow> go_runtime \<Rightarrow> dymHttpFilterHandle \<Rightarrow> u32 \<Rightarrow> gostring \<Rightarrow> gostring \<Rightarrow> 'h \<Rightarrow>
      (f64 \<times> bool) \<times> 'h" where
  "hd_GetMetadataNumber M rt hnd source ns key h =
     (let ((ret, wv), h1) = cb_http_get_metadata_number M (hostPluginPtr hnd) (CVal source)
            (stringToModuleBuffer rt ns) (stringToModuleBuffer rt key) h
      in (if \<not> ret then (0, False) else (written 0 wv, True), h1))"

definition hd_GetMetadataBool ::
    "'h host_metadata_1 \<Rightarrow> go_runtime \<Rightarrow> dymHttpFilterHandle \<Rightarrow> u32 \<Rightarrow> gostring \<Rightarrow> gostring \<Rightarrow> 'h \<Rightarrow>
      (bool \<times> bool) \<times> 'h" where
  "hd_GetMetadataBool M rt hnd source ns key h =
     (let ((ret, wv), h1) = cb_http_get_metadata_bool M (hostPluginPtr hnd) (CVal source)
            (stringToModuleBuffer rt ns) (stringToModuleBuffer rt key) h
      in (if \<not> ret then (False, False) else (written False wv, True), h1))"

definition hd_GetMetadataKeys ::
    "'h host_metadata_1 \<Rightarrow> 'h host_metadata_2 \<Rightarrow> go_runtime \<Rightarrow> dymHttpFilterHandle \<Rightarrow> u32 \<Rightarrow> gostring \<Rightarrow> 'h \<Rightarrow>
      UnsafeEnvoyBuffer list \<times> 'h" where
  "hd_GetMetadataKeys M1 M2 rt hnd source ns h =
     (let (count, h1) = cb_http_get_metadata_keys_count M1 (hostPluginPtr hnd) (CVal source)
            (stringToModuleBuffer rt ns) h
      in if count = 0 then ([], h1)
         else (let ((ret, ws), h2) = cb_http_get_metadata_keys M2 (hostPluginPtr hnd) (CVal source)
                      (stringToModuleBuffer rt ns) h1;
                   buffers = filled (unat count) null_envoy_buffer ws
               in if \<not> ret then ([], h2) else (envoyBufferSliceToUnsafeEnvoyBufferSlice buffers, h2)))"

definition hd_GetMetadataNamespaces ::
    "'h host_metadata_2 \<Rightarrow> dymHttpFilterHandle \<Rightarrow> u32 \<Rightarrow> 'h \<Rightarrow> UnsafeEnvoyBuffer list \<times> 'h" where
  "hd_GetMetadataNamespaces M2 hnd source h =
     (let (count, h1) = cb_http_get_metadata_namespaces_count M2 (hostPluginPtr hnd) (CVal source) h
      in if count = 0 then ([], h1)
         else (let ((ret, ws), h2) = cb_http_get_metadata_namespaces M2 (hostPluginPtr hnd) (CVal source) h1;
                   buffers = filled (unat count) null_envoy_buffer ws
               in if \<not> ret then ([], h2) else (envoyBufferSliceToUnsafeEnvoyBufferSlice buffers, h2)))"

definition hd_AddMetadataListNumber ::
    "'h host_metadata_2 \<Rightarrow> go_runtime \<Rightarrow> dymHttpFilterHandle \<Rightarrow> gostring \<Rightarrow> gostring \<Rightarrow> f64 \<Rightarrow> 'h \<Rightarrow> bool \<times> 'h" where
  "hd_AddMetadataListNumber M2 rt hnd ns key val h =
     cb_http_add_dynamic_metadata_list_number M2 (hostPluginPtr hnd) (stringToModuleBuffer rt ns)
       (stringToModuleBuffer rt key) val h"

definition hd_AddMetadataListString ::
    "'h host_metadata_2 \<Rightarrow> go_runtime \<Rightarrow> dymHttpFilterHandle \<Rightarrow> gostring \<Rightarrow> gostring \<Rightarrow> gostring \<Rightarrow> 'h \<Rightarrow> bool \<times> 'h" where
  "hd_AddMetadataListString M2 rt hnd ns key val h =
     cb_http_add_dynamic_metadata_list_string M2 (hostPluginPtr hnd) (stringToModuleBuffer rt ns)
       (stringToModuleBuffer rt key) (stringToModuleBuffer rt val) h"

definition hd_AddMetadataListBool ::
    "'h host_metadata_2 \<Rightarrow> go_runtime \<Rightarrow> dymHttpFilterHandle \<Rightarrow> gostring \<Rightarrow> gostring \<Rightarrow> bool \<Rightarrow> 'h \<Rightarrow> bool \<times> 'h" where
  "hd_AddMetadataListBool M2 rt hnd ns key val h =
     cb_http_add_dynamic_metadata_list_bool M2 (hostPluginPtr hnd) (stringToModuleBuffer rt ns)
       (stringToModuleBuffer rt key) val h"

definition hd_GetMetadataListSize ::
    "'h host_metadata_2 \<Rightarrow> go_runtime \<Rightarrow> dymHttpFilterHandle \<Rightarrow> u32 \<Rightarrow> gostring \<Rightarrow> gostring \<Rightarrow> 'h \<Rightarrow>
      (i64 \<times> bool) \<times> 'h" where
  "hd_GetMetadataListSize M2 rt hnd source ns key h =
     (let ((ret, wn), h1) = cb_http_get_metadata_list_size M2 (hostPluginPtr hnd) (CVal source)
            (stringToModuleBuffer rt ns) (stringToModuleBuffer rt key) h
      in (if \<not> ret then (0, False) else (written 0 wn, True), h1))"

definition hd_GetMetadataListNumber ::
    "'h host_metadata_3 \<Rightarrow> go_runtime \<Rightarrow> dymHttpFilterHandle \<Rightarrow> u32 \<Rightarrow> gostring \<Rightarrow> gostring \<Rightarrow> i64 \<Rightarrow> 'h \<Rightarrow>
      (f64 \<times> bool) \<times> 'h" where
  "hd_GetMetadataListNumber M3 rt hnd source ns key index h =
     (let ((ret, wv), h1) = cb_http_get_metadata_list_number M3 (hostPluginPtr hnd) (CVal source)
            (stringToModuleBuffer rt ns) (stringToModuleBuffer rt key) index h
      in (if \<not> ret then (0, False) else (written 0 wv, True), h1))"

definition hd_GetMetadataListString ::
    "'h host_metadata_3 \<Rightarrow> go_runtime \<Rightarrow> dymHttpFilterHandle \<Rightarrow> u32 \<Rightarrow> gostring \<Rightarrow> gostring \<Rightarrow> i64 \<Rightarrow> 'h \<Rightarrow>
      (UnsafeEnvoyBuffer \<times> bool) \<times> 'h" where
  "hd_GetMetadataListString M3 rt hnd source ns key index h =
     (let ((ret, wv), h1) = cb_http_get_metadata_list_string M3 (hostPluginPtr hnd) (CVal source)
            (stringToModuleBuffer rt ns) (stringToModuleBuffer rt key) index h
      in (view_of False ret (written null_envoy_buffer wv), h1))"

definition hd_GetMetadataListBool ::
    "'h host_metadata_3 \<Rightarrow> go_runtime \<Rightarrow> dymHttpFilterHandle \<Rightarrow> u32 \<Rightarrow> gostring \<Rightarrow> gostring \<Rightarrow> i64 \<Rightarrow> 'h \<Rightarrow>
      (bool \<times> bool) \<times> 'h" where
  "hd_GetMetadataListBool M3 rt hnd source ns key index h =
     (let ((ret, wv), h1) = cb_http_get_metadata_list_bool M3 (hostPluginPtr hnd) (CVal source)
            (stringToModuleBuffer rt ns) (stringToModuleBuffer rt key) index h
      in (if \<not> ret then (False, False) else (written False wv, True), h1))"

text \<open>The type switch of \<open>SetMetadata\<close>: the number it converts to, or the string.\<close>

fun any_number :: "go_runtime \<Rightarrow> go_any \<Rightarrow> f64 option" where
  "any_number rt (AnyUint v) = Some (float64_of_int rt (uint v))"
| "any_number rt (AnyUint8 v) = Some (float64_of_int rt (uint v))"
| "any_number rt (AnyUint16 v) = Some (float64_of_int rt (uint v))"
| "any_number rt (AnyUint32 v) = Some (float64_of_int rt (uint v))"
| "any_number rt (AnyUint64 v) = Some (float64_of_int rt (uint v))"
| "any_number rt (AnyInt v) = Some (float64_of_int rt (sint v))"
| "any_number rt (AnyInt8 v) = Some (float64_of_int rt (sint v))"
| "any_number rt (AnyInt16 v) = Some (float64_of_int rt (sint v))"
| "any_number rt (AnyInt32 v) = Some (float64_of_int rt (sint v))"
| "any_number rt (AnyInt64 v) = Some (float64_of_int rt (sint v))"
| "any_number rt (AnyFloat32 v) = Some (float64_of_float32 rt v)"
| "any_number rt (AnyFloat64 v) = Some v"
| "any_number rt v = None"

definition hd_SetMetadata ::
    "'h host_metadata_1 \<Rightarrow> go_runtime \<Rightarrow> dymHttpFilterHandle \<Rightarrow> gostring \<Rightarrow> gostring \<Rightarrow> go_any \<Rightarrow> 'h \<Rightarrow> 'h" where
  "hd_SetMetadata M rt hnd ns key val h =
     (case val of
        AnyBool v \<Rightarrow> snd (cb_http_set_dynamic_metadata_bool M (hostPluginPtr hnd)
          (stringToModuleBuffer rt ns) (stringToModuleBuffer rt key) v h)
      | AnyString v \<Rightarrow> snd (cb_http_set_dynamic_metadata_string M (hostPluginPtr hnd)
          (stringToModuleBuffer rt ns) (stringToModuleBuffer rt key) (stringToModuleBuffer rt v) h)
      | _ \<Rightarrow> (case any_number rt val of
               None \<Rightarrow> h
             | Some n \<Rightarrow> snd (cb_http_set_dynamic_metadata_number M (hostPluginPtr hnd)
                 (stringToModuleBuffer rt ns) (stringToModuleBuffer rt key) n h)))"

section \<open>Attributes and filter state\<close>

definition hd_GetAttributeNumber ::
    "'h host_stream_1 \<Rightarrow> go_runtime \<Rightarrow> dymHttpFilterHandle \<Rightarrow> u32 \<Rightarrow> 'h \<Rightarrow> (f64 \<times> bool) \<times> 'h" where
  "hd_GetAttributeNumber R rt hnd attributeID h =
     (let ((ret, wv), h1) = cb_http_filter_get_attribute_int R (hostPluginPtr hnd) (CVal attributeID) h
      in (if \<not> ret then (0, False) else (float64_of_int rt (uint (written 0 wv)), True), h1))"

definition hd_GetAttributeString ::
    "'h host_stream_1 \<Rightarrow> dymHttpFilterHandle \<Rightarrow> u32 \<Rightarrow> 'h \<Rightarrow> (UnsafeEnvoyBuffer \<times> bool) \<times> 'h" where
  "hd_GetAttributeString R hnd attributeID h =
     (let ((ret, wv), h1) = cb_http_filter_get_attribute_string R (hostPluginPtr hnd) (CVal attributeID) h
      in (view_of True ret (written null_envoy_buffer wv), h1))"

definition hd_GetAttributeBool ::
    "'h host_stream_1 \<Rightarrow> dymHttpFilterHandle \<Rightarrow> u32 \<Rightarrow> 'h \<Rightarrow> (bool \<times> bool) \<times> 'h" where
  "hd_GetAttributeBool R hnd attributeID h =
     (let ((ret, wv), h1) = cb_http_filter_get_attribute_bool R (hostPluginPtr hnd) (CVal attributeID) h
      in (if \<not> ret then (False, False) else (written False wv, True), h1))"

definition hd_GetFilterStateTyped ::
    "'h host_filter_state \<Rightarrow> go_runtime \<Rightarrow> dymHttpFilterHandle \<Rightarrow> gostring \<Rightarrow> 'h \<Rightarrow>
      (UnsafeEnvoyBuffer \<times> bool) \<times> 'h" where
  "hd_GetFilterStateTyped F rt hnd key h =
     (let ((ret, wv), h1) = cb_http_get_filter_state_typed F (hostPluginPtr hnd) (stringToModuleBuffer rt key) h
      in (view_of False ret (written null_envoy_buffer wv), h1))"

definition hd_GetFilterState ::
    "'h host_filter_state \<Rightarrow> go_runtime \<Rightarrow> dymHttpFilterHandle \<Rightarrow> gostring \<Rightarrow> 'h \<Rightarrow>
      (UnsafeEnvoyBuffer \<times> bool) \<times> 'h" where
  "hd_GetFilterState F rt hnd key h =
     (let ((ret, wv), h1) = cb_http_get_filter_state_bytes F (hostPluginPtr hnd) (stringToModuleBuffer rt key) h
      in (view_of True ret (written null_envoy_buffer wv), h1))"

definition hd_SetFilterState ::
    "'h host_filter_state \<Rightarrow> go_runtime \<Rightarrow> dymHttpFilterHandle \<Rightarrow> gostring \<Rightarrow> bytes option \<Rightarrow> 'h \<Rightarrow> 'h" where
  "hd_SetFilterState F rt hnd key val h =
     snd (cb_http_set_filter_state_bytes F (hostPluginPtr hnd) (stringToModuleBuffer rt key)
       (bytesToModuleBuffer val) h)"

definition hd_SetFilterStateTyped ::
    "'h host_filter_state \<Rightarrow> go_runtime \<Rightarrow> dymHttpFilterHandle \<Rightarrow> gostring \<Rightarrow> bytes option \<Rightarrow> 'h \<Rightarrow> bool \<times> 'h" where
  "hd_SetFilterStateTyped F rt hnd key val h =
     cb_http_set_filter_state_typed F (hostPluginPtr hnd) (stringToModuleBuffer rt key)
       (bytesToModuleBuffer val) h"

section \<open>Data shared between the filters of a request\<close>

text \<open>
  A wrapper holds a Go value; it is pinned in \<open>sharedDataManager\<close> under its address and the address
  is published in the dynamic metadata as a decimal string. The wrappers that exist are a heap; the
  address of a new wrapper is the allocator's choice and is a parameter of \<open>SetData\<close>.
\<close>

record shared_data =
  sd_heap :: "ptr \<rightharpoonup> go_any"
  sd_manager :: manager

definition MetadataSourceDynamic :: u32 where
  "MetadataSourceDynamic = of_nat (MetadataSourceType_value MetadataSourceTypeDynamic)"

definition shared_data_namespace :: gostring where
  "shared_data_namespace = ''composer.shared_data''"

text \<open>\<open>any\<close> is nil when there is no data. Dereferencing a wrapper that does not exist is a crash.\<close>

definition hd_GetData ::
    "('h \<Rightarrow> mem) \<Rightarrow> 'h host_metadata_1 \<Rightarrow> go_runtime \<Rightarrow> shared_data \<Rightarrow> dymHttpFilterHandle \<Rightarrow> gostring \<Rightarrow> 'h \<Rightarrow>
      go_any go \<times> 'h" where
  "hd_GetData memory M rt sd hnd key h =
     (let ((buf, found), h1) = hd_GetMetadataString M rt hnd MetadataSourceDynamic shared_data_namespace key h
      in if \<not> found then (Ret AnyNil, h1)
         else case ParseUint (ToUnsafeString (memory h1) buf) of
                Inl _ \<Rightarrow> (Ret AnyNil, h1)
              | Inr pointer \<Rightarrow>
                  (case mgr_search (sd_manager sd) pointer of
                     None \<Rightarrow> (Ret AnyNil, h1)
                   | Some wrapper \<Rightarrow>
                       (case sd_heap sd wrapper of
                          None \<Rightarrow> (Panic ''invalid memory address or nil pointer dereference'', h1)
                        | Some data \<Rightarrow> (Ret data, h1))))"

definition hd_SetData ::
    "'h host_metadata_1 \<Rightarrow> go_runtime \<Rightarrow> shared_data \<Rightarrow> dymHttpFilterHandle \<Rightarrow> ptr \<Rightarrow> gostring \<Rightarrow> go_any \<Rightarrow> 'h \<Rightarrow>
      shared_data \<times> dymHttpFilterHandle \<times> 'h" where
  "hd_SetData M rt sd hnd alloc key val h =
     (let (pointer, m) = mgr_record (sd_manager sd) alloc;
          sd' = sd\<lparr>sd_heap := (sd_heap sd)(alloc \<mapsto> val), sd_manager := m\<rparr>;
          hnd' = hnd\<lparr>recordedSharedData := recordedSharedData hnd @ [pointer]\<rparr>
      in (sd', hnd', hd_SetMetadata M rt hnd' shared_data_namespace key (AnyString (FormatUint pointer)) h))"

definition hd_clearData :: "shared_data \<Rightarrow> dymHttpFilterHandle \<Rightarrow> shared_data" where
  "hd_clearData sd hnd = sd\<lparr>sd_manager := foldl mgr_remove (sd_manager sd) (recordedSharedData hnd)\<rparr>"

section \<open>Local responses\<close>

text \<open>The flag is set before Envoy is called: \<open>hd_sending\<close> is the handle during that call.\<close>

definition hd_sending :: "dymHttpFilterHandle \<Rightarrow> dymHttpFilterHandle" where
  "hd_sending hnd = hnd\<lparr>localResponseSent := True\<rparr>"

definition hd_SendLocalResponse ::
    "'h host_local_response \<Rightarrow> go_runtime \<Rightarrow> dymHttpFilterHandle \<Rightarrow> u32 \<Rightarrow> (gostring \<times> gostring) list \<Rightarrow>
      bytes option \<Rightarrow> gostring \<Rightarrow> 'h \<Rightarrow> dymHttpFilterHandle \<times> 'h" where
  "hd_SendLocalResponse L rt hnd statusCode headers body detail h =
     (let hnd1 = hd_sending hnd
      in (hnd1, snd (cb_http_send_response L (hostPluginPtr hnd1) statusCode
            (headersToModuleHttpHeaderSlice rt headers) (bytesToModuleBuffer body)
            (stringToModuleBuffer rt detail) h)))"

definition hd_SendResponseHeaders ::
    "'h host_local_response \<Rightarrow> go_runtime \<Rightarrow> dymHttpFilterHandle \<Rightarrow> (gostring \<times> gostring) list \<Rightarrow> bool \<Rightarrow> 'h \<Rightarrow> 'h" where
  "hd_SendResponseHeaders L rt hnd headers endOfStream h =
     snd (cb_http_send_response_headers L (hostPluginPtr hnd)
       (headersToModuleHttpHeaderSlice rt headers) endOfStream h)"

definition hd_SendResponseData ::
    "'h host_local_response \<Rightarrow> dymHttpFilterHandle \<Rightarrow> bytes option \<Rightarrow> bool \<Rightarrow> 'h \<Rightarrow> 'h" where
  "hd_SendResponseData L hnd data endOfStream h =
     snd (cb_http_send_response_data L (hostPluginPtr hnd) (bytesToModuleBuffer data) endOfStream h)"

definition hd_SendResponseTrailers ::
    "'h host_local_response \<Rightarrow> go_runtime \<Rightarrow> dymHttpFilterHandle \<Rightarrow> (gostring \<times> gostring) list \<Rightarrow> 'h \<Rightarrow> 'h" where
  "hd_SendResponseTrailers L rt hnd trailers h =
     snd (cb_http_send_response_trailers L (hostPluginPtr hnd) (headersToModuleHttpHeaderSlice rt trailers) h)"

definition hd_AddCustomFlag ::
    "'h host_filter_state \<Rightarrow> go_runtime \<Rightarrow> dymHttpFilterHandle \<Rightarrow> gostring \<Rightarrow> 'h \<Rightarrow> 'h" where
  "hd_AddCustomFlag F rt hnd flag h =
     snd (cb_http_add_custom_flag F (hostPluginPtr hnd) (stringToModuleBuffer rt flag) h)"

section \<open>Flow control, route, socket options, limits\<close>

definition hd_ContinueRequest :: "'h host_stream_3 \<Rightarrow> dymHttpFilterHandle \<Rightarrow> 'h \<Rightarrow> 'h" where
  "hd_ContinueRequest R3 hnd h = snd (cb_http_filter_continue_decoding R3 (hostPluginPtr hnd) h)"

definition hd_ContinueResponse :: "'h host_stream_3 \<Rightarrow> dymHttpFilterHandle \<Rightarrow> 'h \<Rightarrow> 'h" where
  "hd_ContinueResponse R3 hnd h = snd (cb_http_filter_continue_encoding R3 (hostPluginPtr hnd) h)"

definition hd_ClearRouteCache :: "'h host_stream_1 \<Rightarrow> dymHttpFilterHandle \<Rightarrow> 'h \<Rightarrow> 'h" where
  "hd_ClearRouteCache R hnd h = snd (cb_http_clear_route_cache R (hostPluginPtr hnd) h)"

definition hd_RefreshRouteCluster :: "'h host_control \<Rightarrow> dymHttpFilterHandle \<Rightarrow> 'h \<Rightarrow> 'h" where
  "hd_RefreshRouteCluster C hnd h = snd (cb_http_clear_route_cluster_cache C (hostPluginPtr hnd) h)"

definition hd_GetWorkerIndex :: "'h host_stream_3 \<Rightarrow> dymHttpFilterHandle \<Rightarrow> 'h \<Rightarrow> u32 \<times> 'h" where
  "hd_GetWorkerIndex R3 hnd h = cb_http_filter_get_worker_index R3 (hostPluginPtr hnd) h"

definition hd_SetSocketOptionInt ::
    "'h host_socket \<Rightarrow> dymHttpFilterHandle \<Rightarrow> i64 \<Rightarrow> i64 \<Rightarrow> u32 \<Rightarrow> u32 \<Rightarrow> i64 \<Rightarrow> 'h \<Rightarrow> bool \<times> 'h" where
  "hd_SetSocketOptionInt K hnd level name state direction val h =
     cb_http_set_socket_option_int K (hostPluginPtr hnd) level name (CVal state) (CVal direction) val h"

definition hd_SetSocketOptionBytes ::
    "'h host_socket \<Rightarrow> dymHttpFilterHandle \<Rightarrow> i64 \<Rightarrow> i64 \<Rightarrow> u32 \<Rightarrow> u32 \<Rightarrow> bytes option \<Rightarrow> 'h \<Rightarrow> bool \<times> 'h" where
  "hd_SetSocketOptionBytes K hnd level name state direction val h =
     cb_http_set_socket_option_bytes K (hostPluginPtr hnd) level name (CVal state) (CVal direction)
       (bytesToModuleBuffer val) h"

definition hd_GetSocketOptionInt ::
    "'h host_socket \<Rightarrow> dymHttpFilterHandle \<Rightarrow> i64 \<Rightarrow> i64 \<Rightarrow> u32 \<Rightarrow> u32 \<Rightarrow> 'h \<Rightarrow> (i64 \<times> bool) \<times> 'h" where
  "hd_GetSocketOptionInt K hnd level name state direction h =
     (let ((ret, wv), h1) = cb_http_get_socket_option_int K (hostPluginPtr hnd) level name
            (CVal state) (CVal direction) h
      in (if \<not> ret then (0, False) else (written 0 wv, True), h1))"

definition hd_GetSocketOptionBytes ::
    "'h host_socket \<Rightarrow> dymHttpFilterHandle \<Rightarrow> i64 \<Rightarrow> i64 \<Rightarrow> u32 \<Rightarrow> u32 \<Rightarrow> 'h \<Rightarrow> (UnsafeEnvoyBuffer \<times> bool) \<times> 'h" where
  "hd_GetSocketOptionBytes K hnd level name state direction h =
     (let ((ret, wv), h1) = cb_http_get_socket_option_bytes K (hostPluginPtr hnd) level name
            (CVal state) (CVal direction) h
      in (view_of False ret (written null_envoy_buffer wv), h1))"

definition hd_GetBufferLimit :: "'h host_socket \<Rightarrow> dymHttpFilterHandle \<Rightarrow> 'h \<Rightarrow> u64 \<times> 'h" where
  "hd_GetBufferLimit K hnd h = cb_http_get_buffer_limit K (hostPluginPtr hnd) h"

definition hd_SetBufferLimit :: "'h host_socket \<Rightarrow> dymHttpFilterHandle \<Rightarrow> u64 \<Rightarrow> 'h \<Rightarrow> 'h" where
  "hd_SetBufferLimit K hnd limit h = snd (cb_http_set_buffer_limit K (hostPluginPtr hnd) limit h)"

definition hd_GetActiveSpan :: "'h host_span_1 \<Rightarrow> dymHttpFilterHandle \<Rightarrow> 'h \<Rightarrow> dymSpan option \<times> 'h" where
  "hd_GetActiveSpan S hnd h =
     (let (spanPtr, h1) = cb_http_get_active_span S (hostPluginPtr hnd) h
      in (if spanPtr = 0 then None
          else Some \<lparr>sp_hostPluginPtr = hostPluginPtr hnd, sp_spanPtr = spanPtr\<rparr>, h1))"

section \<open>Cluster and stream control\<close>

record ClusterHostCounts =
  cc_Total :: u64
  cc_Healthy :: u64
  cc_Degraded :: u64

definition hd_GetClusterName ::
    "'h host_cluster \<Rightarrow> dymHttpFilterHandle \<Rightarrow> 'h \<Rightarrow> (UnsafeEnvoyBuffer \<times> bool) \<times> 'h" where
  "hd_GetClusterName U hnd h =
     (let ((ret, wv), h1) = cb_http_get_cluster_name U (hostPluginPtr hnd) h
      in (view_of False ret (written null_envoy_buffer wv), h1))"

definition hd_GetClusterHostCounts ::
    "'h host_cluster \<Rightarrow> dymHttpFilterHandle \<Rightarrow> u32 \<Rightarrow> 'h \<Rightarrow> (ClusterHostCounts \<times> bool) \<times> 'h" where
  "hd_GetClusterHostCounts U hnd priority h =
     (let ((ret, wt, wh, wd), h1) = cb_http_get_cluster_host_count U (hostPluginPtr hnd) priority h
      in (if \<not> ret then (\<lparr>cc_Total = 0, cc_Healthy = 0, cc_Degraded = 0\<rparr>, False)
          else (\<lparr>cc_Total = written 0 wt, cc_Healthy = written 0 wh, cc_Degraded = written 0 wd\<rparr>, True), h1))"

definition hd_SetUpstreamOverrideHost ::
    "'h host_cluster \<Rightarrow> go_runtime \<Rightarrow> dymHttpFilterHandle \<Rightarrow> gostring \<Rightarrow> bool \<Rightarrow> 'h \<Rightarrow> bool \<times> 'h" where
  "hd_SetUpstreamOverrideHost U rt hnd host strict h =
     cb_http_set_upstream_override_host U (hostPluginPtr hnd) (stringToModuleBuffer rt host) strict h"

definition hd_ResetStream ::
    "'h host_control \<Rightarrow> go_runtime \<Rightarrow> dymHttpFilterHandle \<Rightarrow> u32 \<Rightarrow> gostring \<Rightarrow> 'h \<Rightarrow> 'h" where
  "hd_ResetStream C rt hnd reason details h =
     snd (cb_http_filter_reset_stream C (hostPluginPtr hnd) (CVal reason) (stringToModuleBuffer rt details) h)"

definition hd_SendGoAwayAndClose :: "'h host_control \<Rightarrow> dymHttpFilterHandle \<Rightarrow> bool \<Rightarrow> 'h \<Rightarrow> 'h" where
  "hd_SendGoAwayAndClose C hnd graceful h =
     snd (cb_http_filter_send_go_away_and_close C (hostPluginPtr hnd) graceful h)"

definition hd_RecreateStream ::
    "'h host_control \<Rightarrow> go_runtime \<Rightarrow> dymHttpFilterHandle \<Rightarrow> (gostring \<times> gostring) list \<Rightarrow> 'h \<Rightarrow> bool \<times> 'h" where
  "hd_RecreateStream C rt hnd headers h =
     cb_http_filter_recreate_stream C (hostPluginPtr hnd) (headersToModuleHttpHeaderSlice rt headers) h"

definition hd_ReceivedBufferedRequestBody ::
    "'h host_body \<Rightarrow> dymHttpFilterHandle \<Rightarrow> 'h \<Rightarrow> bool \<times> 'h" where
  "hd_ReceivedBufferedRequestBody B hnd h =
     cb_http_received_buffered_request_body B (hostPluginPtr hnd) h"

definition hd_ReceivedBufferedResponseBody ::
    "'h host_body \<Rightarrow> dymHttpFilterHandle \<Rightarrow> 'h \<Rightarrow> bool \<times> 'h" where
  "hd_ReceivedBufferedResponseBody B hnd h =
     cb_http_received_buffered_response_body B (hostPluginPtr hnd) h"

text \<open>shared/utility/utility.go, called with this handle.\<close>

definition ReadWholeRequestBody ::
    "('h \<Rightarrow> mem) \<Rightarrow> 'h host_body \<Rightarrow> dymHttpFilterHandle \<Rightarrow> 'h \<Rightarrow> (bytes \<times> 'h) go" where
  "ReadWholeRequestBody memory B hnd h =
     (let (isBuffered, h1) = hd_ReceivedBufferedRequestBody B hnd h
      in getBodyContent memory B (bufferedRequestBody hnd) (receivedRequestBody hnd) isBuffered h1)"

definition ReadWholeResponseBody ::
    "('h \<Rightarrow> mem) \<Rightarrow> 'h host_body \<Rightarrow> dymHttpFilterHandle \<Rightarrow> 'h \<Rightarrow> (bytes \<times> 'h) go" where
  "ReadWholeResponseBody memory B hnd h =
     (let (isBuffered, h1) = hd_ReceivedBufferedResponseBody B hnd h
      in getBodyContent memory B (bufferedResponseBody hnd) (receivedResponseBody hnd) isBuffered h1)"

text \<open>
  The per-route wrapper is found by the cast \<open>unwrap\<close>, and its field read: the heap of per-route
  wrappers gives the configuration, and a pointer to no wrapper is a crash.
\<close>

definition hd_GetMostSpecificConfig ::
    "'h host_stream_3 \<Rightarrow> (ptr \<rightharpoonup> objref) \<Rightarrow> dymHttpFilterHandle \<Rightarrow> 'h \<Rightarrow> objref option go \<times> 'h" where
  "hd_GetMostSpecificConfig R3 perRoute hnd h =
     (let (perRoutePtr, h1) = cb_get_most_specific_route_config R3 (hostPluginPtr hnd) h
      in if perRoutePtr \<noteq> 0
         then (case perRoute perRoutePtr of
                 None \<Rightarrow> (Panic ''invalid memory address or nil pointer dereference'', h1)
               | Some c \<Rightarrow> (Ret (Some c), h1))
         else (Ret None, h1))"

section \<open>Scheduler and logging\<close>

definition hd_GetScheduler ::
    "'h host_schedulers \<Rightarrow> dymHttpFilterHandle \<Rightarrow> 'h \<Rightarrow> dymHttpFilterHandle \<times> 'h" where
  "hd_GetScheduler Sc hnd h =
     (case scheduler hnd of
        None \<Rightarrow> (let (p, h1) = cb_http_filter_scheduler_new Sc (hostPluginPtr hnd) h
                 in (hnd\<lparr>scheduler := Some (newDymScheduler p)\<rparr>, h1))
      | Some _ \<Rightarrow> (hnd, h))"

text \<open>\<open>handle.GetScheduler().Schedule(task)\<close>, the way the filters use it.\<close>

definition hd_Schedule ::
    "'h host_schedulers \<Rightarrow> dymHttpFilterHandle \<Rightarrow> objref option \<Rightarrow> 'h \<Rightarrow> dymHttpFilterHandle \<times> 'h" where
  "hd_Schedule Sc hnd task h =
     (let (hnd1, h1) = hd_GetScheduler Sc hnd h
      in case scheduler hnd1 of
           None \<Rightarrow> (hnd1, h1)
         | Some s \<Rightarrow> (let (s', h2) = sched_Schedule (cb_http_filter_scheduler_commit Sc) s task h1
                      in (hnd1\<lparr>scheduler := Some s'\<rparr>, h2)))"

definition hd_Log ::
    "'h host_log \<Rightarrow> go_runtime \<Rightarrow> dymHttpFilterHandle \<Rightarrow> u32 \<Rightarrow> gostring \<Rightarrow> go_any list \<Rightarrow> 'h \<Rightarrow> 'h" where
  "hd_Log G rt hnd level format args h = hostLog rt G level format args h"

definition hd_LogEnabled :: "'h host_log \<Rightarrow> dymHttpFilterHandle \<Rightarrow> u32 \<Rightarrow> 'h \<Rightarrow> bool \<times> 'h" where
  "hd_LogEnabled G hnd level h = cb_log_enabled G (CVal level) h"

section \<open>Callouts and streams\<close>

definition CalloutInitSuccess :: u32 where
  "CalloutInitSuccess = of_nat (HttpCalloutInitResult_value HttpCalloutInitSuccess)"

text \<open>
  Both methods call Envoy, and store the callback under the identifier Envoy assigned only after that
  call has returned. The two halves are definitions of their own, because Envoy may run other hooks
  before it returns; the method is their composition.
\<close>

definition hd_HttpCallout_call ::
    "'h host_stream_1 \<Rightarrow> go_runtime \<Rightarrow> dymHttpFilterHandle \<Rightarrow> gostring \<Rightarrow> (gostring \<times> gostring) list \<Rightarrow>
      bytes option \<Rightarrow> u64 \<Rightarrow> 'h \<Rightarrow> (u32 \<times> u64) \<times> 'h" where
  "hd_HttpCallout_call R rt hnd cluster headers body timeoutMs h =
     (let ((result, wid), h1) = cb_http_filter_http_callout R (hostPluginPtr hnd)
            (stringToModuleBuffer rt cluster) (headersToModuleHttpHeaderSlice rt headers)
            (bytesToModuleBuffer body) timeoutMs h
      in ((c_raw result, written 0 wid), h1))"

definition hd_HttpCallout_return ::
    "u32 \<times> u64 \<Rightarrow> objref option \<Rightarrow> dymHttpFilterHandle \<Rightarrow> (u32 \<times> u64) \<times> dymHttpFilterHandle" where
  "hd_HttpCallout_return r cb hnd =
     (let (goResult, calloutID) = r
      in if goResult \<noteq> CalloutInitSuccess then ((goResult, 0), hnd)
         else ((goResult, calloutID),
               hnd\<lparr>calloutCallbacks := go_map_put (calloutCallbacks hnd) calloutID cb\<rparr>))"

definition hd_HttpCallout ::
    "'h host_stream_1 \<Rightarrow> go_runtime \<Rightarrow> dymHttpFilterHandle \<Rightarrow> gostring \<Rightarrow> (gostring \<times> gostring) list \<Rightarrow>
      bytes option \<Rightarrow> u64 \<Rightarrow> objref option \<Rightarrow> 'h \<Rightarrow> (u32 \<times> u64) \<times> dymHttpFilterHandle \<times> 'h" where
  "hd_HttpCallout R rt hnd cluster headers body timeoutMs cb h =
     (let (r, h1) = hd_HttpCallout_call R rt hnd cluster headers body timeoutMs h;
          (res, hnd') = hd_HttpCallout_return r cb hnd
      in (res, hnd', h1))"

definition hd_StartHttpStream_call ::
    "'h host_stream_1 \<Rightarrow> go_runtime \<Rightarrow> dymHttpFilterHandle \<Rightarrow> gostring \<Rightarrow> (gostring \<times> gostring) list \<Rightarrow>
      bytes option \<Rightarrow> bool \<Rightarrow> u64 \<Rightarrow> 'h \<Rightarrow> (u32 \<times> u64) \<times> 'h" where
  "hd_StartHttpStream_call R rt hnd cluster headers body endOfStream timeoutMs h =
     (let ((result, wid), h1) = cb_http_filter_start_http_stream R (hostPluginPtr hnd)
            (stringToModuleBuffer rt cluster) (headersToModuleHttpHeaderSlice rt headers)
            (bytesToModuleBuffer body) endOfStream timeoutMs h
      in ((c_raw result, written 0 wid), h1))"

definition hd_StartHttpStream_return ::
    "u32 \<times> u64 \<Rightarrow> objref option \<Rightarrow> dymHttpFilterHandle \<Rightarrow> (u32 \<times> u64) \<times> dymHttpFilterHandle" where
  "hd_StartHttpStream_return r cb hnd =
     (let (goResult, streamID) = r
      in if goResult \<noteq> CalloutInitSuccess then ((goResult, 0), hnd)
         else ((goResult, streamID),
               hnd\<lparr>streamCallbacks := go_map_put (streamCallbacks hnd) streamID cb\<rparr>))"

definition hd_StartHttpStream ::
    "'h host_stream_1 \<Rightarrow> go_runtime \<Rightarrow> dymHttpFilterHandle \<Rightarrow> gostring \<Rightarrow> (gostring \<times> gostring) list \<Rightarrow>
      bytes option \<Rightarrow> bool \<Rightarrow> u64 \<Rightarrow> objref option \<Rightarrow> 'h \<Rightarrow> (u32 \<times> u64) \<times> dymHttpFilterHandle \<times> 'h" where
  "hd_StartHttpStream R rt hnd cluster headers body endOfStream timeoutMs cb h =
     (let (r, h1) = hd_StartHttpStream_call R rt hnd cluster headers body endOfStream timeoutMs h;
          (res, hnd') = hd_StartHttpStream_return r cb hnd
      in (res, hnd', h1))"

definition hd_SendHttpStreamData ::
    "'h host_stream_2 \<Rightarrow> dymHttpFilterHandle \<Rightarrow> u64 \<Rightarrow> bytes option \<Rightarrow> bool \<Rightarrow> 'h \<Rightarrow> bool \<times> 'h" where
  "hd_SendHttpStreamData R2 hnd streamID data endOfStream h =
     cb_http_stream_send_data R2 (hostPluginPtr hnd) streamID (bytesToModuleBuffer data) endOfStream h"

definition hd_SendHttpStreamTrailers ::
    "'h host_stream_2 \<Rightarrow> go_runtime \<Rightarrow> dymHttpFilterHandle \<Rightarrow> u64 \<Rightarrow> (gostring \<times> gostring) list \<Rightarrow> 'h \<Rightarrow> bool \<times> 'h" where
  "hd_SendHttpStreamTrailers R2 rt hnd streamID trailers h =
     cb_http_stream_send_trailers R2 (hostPluginPtr hnd) streamID
       (headersToModuleHttpHeaderSlice rt trailers) h"

definition hd_ResetHttpStream :: "'h host_stream_1 \<Rightarrow> dymHttpFilterHandle \<Rightarrow> u64 \<Rightarrow> 'h \<Rightarrow> 'h" where
  "hd_ResetHttpStream R hnd streamID h =
     snd (cb_http_filter_reset_http_stream R (hostPluginPtr hnd) streamID h)"

definition hd_SetDownstreamWatermarkCallbacks ::
    "dymHttpFilterHandle \<Rightarrow> objref option \<Rightarrow> dymHttpFilterHandle" where
  "hd_SetDownstreamWatermarkCallbacks hnd cbs = hnd\<lparr>downstreamWatermarkCallbacks := cbs\<rparr>"

definition hd_ClearDownstreamWatermarkCallbacks :: "dymHttpFilterHandle \<Rightarrow> dymHttpFilterHandle" where
  "hd_ClearDownstreamWatermarkCallbacks hnd = hnd\<lparr>downstreamWatermarkCallbacks := None\<rparr>"

section \<open>Metrics\<close>

definition hd_RecordHistogramValue ::
    "'h host_metrics_2 \<Rightarrow> go_runtime \<Rightarrow> dymHttpFilterHandle \<Rightarrow> u64 \<Rightarrow> u64 \<Rightarrow> gostring list \<Rightarrow> 'h \<Rightarrow> u32 \<times> 'h" where
  "hd_RecordHistogramValue T2 rt hnd i val tagsValues h =
     (let (ret, h1) = cb_http_filter_record_histogram_value T2 (hostPluginPtr hnd) i
            (stringArrayToModuleBufferSlice rt tagsValues) val h
      in (c_raw ret, h1))"

definition hd_SetGaugeValue ::
    "'h host_metrics_1 \<Rightarrow> go_runtime \<Rightarrow> dymHttpFilterHandle \<Rightarrow> u64 \<Rightarrow> u64 \<Rightarrow> gostring list \<Rightarrow> 'h \<Rightarrow> u32 \<times> 'h" where
  "hd_SetGaugeValue T rt hnd i val tagsValues h =
     (let (ret, h1) = cb_http_filter_set_gauge T (hostPluginPtr hnd) i
            (stringArrayToModuleBufferSlice rt tagsValues) val h
      in (c_raw ret, h1))"

definition hd_IncrementGaugeValue ::
    "'h host_metrics_1 \<Rightarrow> go_runtime \<Rightarrow> dymHttpFilterHandle \<Rightarrow> u64 \<Rightarrow> u64 \<Rightarrow> gostring list \<Rightarrow> 'h \<Rightarrow> u32 \<times> 'h" where
  "hd_IncrementGaugeValue T rt hnd i val tagsValues h =
     (let (ret, h1) = cb_http_filter_increment_gauge T (hostPluginPtr hnd) i
            (stringArrayToModuleBufferSlice rt tagsValues) val h
      in (c_raw ret, h1))"

definition hd_DecrementGaugeValue ::
    "'h host_metrics_1 \<Rightarrow> go_runtime \<Rightarrow> dymHttpFilterHandle \<Rightarrow> u64 \<Rightarrow> u64 \<Rightarrow> gostring list \<Rightarrow> 'h \<Rightarrow> u32 \<times> 'h" where
  "hd_DecrementGaugeValue T rt hnd i val tagsValues h =
     (let (ret, h1) = cb_http_filter_decrement_gauge T (hostPluginPtr hnd) i
            (stringArrayToModuleBufferSlice rt tagsValues) val h
      in (c_raw ret, h1))"

definition hd_IncrementCounterValue ::
    "'h host_metrics_1 \<Rightarrow> go_runtime \<Rightarrow> dymHttpFilterHandle \<Rightarrow> u64 \<Rightarrow> u64 \<Rightarrow> gostring list \<Rightarrow> 'h \<Rightarrow> u32 \<times> 'h" where
  "hd_IncrementCounterValue T rt hnd i val tagsValues h =
     (let (ret, h1) = cb_http_filter_increment_counter T (hostPluginPtr hnd) i
            (stringArrayToModuleBufferSlice rt tagsValues) val h
      in (c_raw ret, h1))"

section \<open>Reuse\<close>

text \<open>
  \<open>reset\<close> prepares a handle that comes from the pool; its two checks panic. \<open>zero_handle\<close> is the zero
  value of the struct, which is what the pool creates.
\<close>

definition zero_handle :: dymHttpFilterHandle where
  "zero_handle =
     (let hm = \<lparr>hm_hostPluginPtr = 0, hm_headerType = CVal 0\<rparr>;
          bb = \<lparr>bb_hostPluginPtr = 0, bb_bufferType = CVal 0\<rparr>
      in \<lparr>hostPluginPtr = 0, requestHeaderMap = hm, responseHeaderMap = hm, requestTrailerMap = hm,
          responseTrailerMap = hm, receivedRequestBody = bb, receivedResponseBody = bb,
          bufferedRequestBody = bb, bufferedResponseBody = bb, plugin = None, scheduler = None,
          streamCompleted = False, streamDestoried = False, localResponseSent = False,
          calloutCallbacks = None, streamCallbacks = None, recordedSharedData = [],
          downstreamWatermarkCallbacks = None\<rparr>)"

definition hd_reset :: "dymHttpFilterHandle \<Rightarrow> http_filter_envoy_ptr \<Rightarrow> dymHttpFilterHandle go" where
  "hd_reset hnd p =
     (if plugin hnd \<noteq> None
      then Panic ''BUG: handle pool corruption: plugin field still set when handle was reused from pool''
      else if scheduler hnd \<noteq> None
      then Panic ''BUG: handle pool corruption: scheduler field still set when handle was reused from pool''
      else Ret (hnd\<lparr>
        hostPluginPtr := p,
        requestHeaderMap := \<lparr>hm_hostPluginPtr = p, hm_headerType = CVal 0\<rparr>,
        requestTrailerMap := \<lparr>hm_hostPluginPtr = p, hm_headerType = CVal 1\<rparr>,
        responseHeaderMap := \<lparr>hm_hostPluginPtr = p, hm_headerType = CVal 2\<rparr>,
        responseTrailerMap := \<lparr>hm_hostPluginPtr = p, hm_headerType = CVal 3\<rparr>,
        receivedRequestBody := \<lparr>bb_hostPluginPtr = p, bb_bufferType = CVal 0\<rparr>,
        bufferedRequestBody := \<lparr>bb_hostPluginPtr = p, bb_bufferType = CVal 1\<rparr>,
        receivedResponseBody := \<lparr>bb_hostPluginPtr = p, bb_bufferType = CVal 2\<rparr>,
        bufferedResponseBody := \<lparr>bb_hostPluginPtr = p, bb_bufferType = CVal 3\<rparr>,
        plugin := None, scheduler := None,
        streamCompleted := False, streamDestoried := False, localResponseSent := False,
        calloutCallbacks := None, streamCallbacks := None,
        recordedSharedData := [],
        downstreamWatermarkCallbacks := None\<rparr>))"

end
