(* ===== verification/ConfigHandle.thy ===== *)
theory ConfigHandle
  imports HttpHandle
begin

text \<open>
  \<open>dymConfigHandle\<close> and \<open>dymRouteConfigHandle\<close> of abi_impl/internal.go: the handles a filter factory
  is given when a filter configuration or a route configuration is loaded.
\<close>

record dymConfigHandle =
  cf_hostConfigPtr :: http_filter_config_envoy_ptr
  cf_calloutCallbacks :: "(u64 \<Rightarrow> objref option) option"
  cf_streamCallbacks :: "(u64 \<Rightarrow> objref option) option"
  cf_scheduler :: "objref dymScheduler option"

definition new_config_handle :: "http_filter_config_envoy_ptr \<Rightarrow> dymConfigHandle" where
  "new_config_handle p =
     \<lparr>cf_hostConfigPtr = p, cf_calloutCallbacks = None, cf_streamCallbacks = None, cf_scheduler = None\<rparr>"

definition cf_Log ::
    "'h host_log \<Rightarrow> go_runtime \<Rightarrow> dymConfigHandle \<Rightarrow> u32 \<Rightarrow> gostring \<Rightarrow> go_any list \<Rightarrow> 'h \<Rightarrow> 'h" where
  "cf_Log G rt c level format args h = hostLog rt G level format args h"

definition cf_DefineHistogram ::
    "'h host_metrics_2 \<Rightarrow> go_runtime \<Rightarrow> dymConfigHandle \<Rightarrow> gostring \<Rightarrow> gostring list \<Rightarrow> 'h \<Rightarrow>
      (u64 \<times> u32) \<times> 'h" where
  "cf_DefineHistogram T2 rt c name tagKeys h =
     (let ((result, wid), h1) = cb_http_filter_config_define_histogram T2 (cf_hostConfigPtr c)
            (stringToModuleBuffer rt name) (stringArrayToModuleBufferSlice rt tagKeys) h
      in ((written 0 wid, c_raw result), h1))"

definition cf_DefineGauge ::
    "'h host_metrics_1 \<Rightarrow> go_runtime \<Rightarrow> dymConfigHandle \<Rightarrow> gostring \<Rightarrow> gostring list \<Rightarrow> 'h \<Rightarrow>
      (u64 \<times> u32) \<times> 'h" where
  "cf_DefineGauge T rt c name tagKeys h =
     (let ((result, wid), h1) = cb_http_filter_config_define_gauge T (cf_hostConfigPtr c)
            (stringToModuleBuffer rt name) (stringArrayToModuleBufferSlice rt tagKeys) h
      in ((written 0 wid, c_raw result), h1))"

definition cf_DefineCounter ::
    "'h host_metrics_1 \<Rightarrow> go_runtime \<Rightarrow> dymConfigHandle \<Rightarrow> gostring \<Rightarrow> gostring list \<Rightarrow> 'h \<Rightarrow>
      (u64 \<times> u32) \<times> 'h" where
  "cf_DefineCounter T rt c name tagKeys h =
     (let ((result, wid), h1) = cb_http_filter_config_define_counter T (cf_hostConfigPtr c)
            (stringToModuleBuffer rt name) (stringArrayToModuleBufferSlice rt tagKeys) h
      in ((written 0 wid, c_raw result), h1))"

definition cf_HttpCallout ::
    "'h host_stream_2 \<Rightarrow> go_runtime \<Rightarrow> dymConfigHandle \<Rightarrow> gostring \<Rightarrow> (gostring \<times> gostring) list \<Rightarrow>
      bytes option \<Rightarrow> u64 \<Rightarrow> objref option \<Rightarrow> 'h \<Rightarrow> (u32 \<times> u64) \<times> dymConfigHandle \<times> 'h" where
  "cf_HttpCallout R2 rt c cluster headers body timeoutMs cb h =
     (let ((result, wid), h1) = cb_http_filter_config_http_callout R2 (cf_hostConfigPtr c)
            (stringToModuleBuffer rt cluster) (headersToModuleHttpHeaderSlice rt headers)
            (bytesToModuleBuffer body) timeoutMs h;
          goResult = c_raw result;
          calloutID = written 0 wid
      in if goResult \<noteq> CalloutInitSuccess then ((goResult, 0), c, h1)
         else ((goResult, calloutID),
               c\<lparr>cf_calloutCallbacks := go_map_put (cf_calloutCallbacks c) calloutID cb\<rparr>, h1))"

definition cf_StartHttpStream ::
    "'h host_stream_2 \<Rightarrow> go_runtime \<Rightarrow> dymConfigHandle \<Rightarrow> gostring \<Rightarrow> (gostring \<times> gostring) list \<Rightarrow>
      bytes option \<Rightarrow> bool \<Rightarrow> u64 \<Rightarrow> objref option \<Rightarrow> 'h \<Rightarrow> (u32 \<times> u64) \<times> dymConfigHandle \<times> 'h" where
  "cf_StartHttpStream R2 rt c cluster headers body endOfStream timeoutMs cb h =
     (let ((result, wid), h1) = cb_http_filter_config_start_http_stream R2 (cf_hostConfigPtr c)
            (stringToModuleBuffer rt cluster) (headersToModuleHttpHeaderSlice rt headers)
            (bytesToModuleBuffer body) endOfStream timeoutMs h;
          goResult = c_raw result;
          streamID = written 0 wid
      in if goResult \<noteq> CalloutInitSuccess then ((goResult, 0), c, h1)
         else ((goResult, streamID),
               c\<lparr>cf_streamCallbacks := go_map_put (cf_streamCallbacks c) streamID cb\<rparr>, h1))"

definition cf_SendHttpStreamData ::
    "'h host_stream_2 \<Rightarrow> dymConfigHandle \<Rightarrow> u64 \<Rightarrow> bytes option \<Rightarrow> bool \<Rightarrow> 'h \<Rightarrow> bool \<times> 'h" where
  "cf_SendHttpStreamData R2 c streamID data endOfStream h =
     cb_http_filter_config_stream_send_data R2 (cf_hostConfigPtr c) streamID (bytesToModuleBuffer data)
       endOfStream h"

definition cf_SendHttpStreamTrailers ::
    "'h host_stream_3 \<Rightarrow> go_runtime \<Rightarrow> dymConfigHandle \<Rightarrow> u64 \<Rightarrow> (gostring \<times> gostring) list \<Rightarrow> 'h \<Rightarrow> bool \<times> 'h" where
  "cf_SendHttpStreamTrailers R3 rt c streamID trailers h =
     cb_http_filter_config_stream_send_trailers R3 (cf_hostConfigPtr c) streamID
       (headersToModuleHttpHeaderSlice rt trailers) h"

definition cf_ResetHttpStream :: "'h host_stream_2 \<Rightarrow> dymConfigHandle \<Rightarrow> u64 \<Rightarrow> 'h \<Rightarrow> 'h" where
  "cf_ResetHttpStream R2 c streamID h =
     snd (cb_http_filter_config_reset_http_stream R2 (cf_hostConfigPtr c) streamID h)"

definition cf_GetScheduler ::
    "'h host_schedulers \<Rightarrow> dymConfigHandle \<Rightarrow> 'h \<Rightarrow> dymConfigHandle \<times> 'h" where
  "cf_GetScheduler Sc c h =
     (case cf_scheduler c of
        None \<Rightarrow> (let (p, h1) = cb_http_filter_config_scheduler_new Sc (cf_hostConfigPtr c) h
                 in (c\<lparr>cf_scheduler := Some (newDymScheduler p)\<rparr>, h1))
      | Some _ \<Rightarrow> (c, h))"

text \<open>A route configuration can only log; its metric definitions are refused.\<close>

definition MetricsFrozen_value :: u32 where
  "MetricsFrozen_value = of_nat (MetricsResult_value MetricsFrozen)"

definition rc_Log :: "'h host_log \<Rightarrow> go_runtime \<Rightarrow> u32 \<Rightarrow> gostring \<Rightarrow> go_any list \<Rightarrow> 'h \<Rightarrow> 'h" where
  "rc_Log G rt level format args h = hostLog rt G level format args h"

definition rc_DefineHistogram :: "gostring \<Rightarrow> gostring list \<Rightarrow> u64 \<times> u32" where
  "rc_DefineHistogram name tagKeys = (0, MetricsFrozen_value)"

definition rc_DefineGauge :: "gostring \<Rightarrow> gostring list \<Rightarrow> u64 \<times> u32" where
  "rc_DefineGauge name tagKeys = (0, MetricsFrozen_value)"

definition rc_DefineCounter :: "gostring \<Rightarrow> gostring list \<Rightarrow> u64 \<times> u32" where
  "rc_DefineCounter name tagKeys = (0, MetricsFrozen_value)"

end
