(* ===== verification/SharedData.thy ===== *)
theory SharedData
  imports HttpHandle
begin

text \<open>
  What \<open>SetData\<close>, \<open>GetData\<close> and \<open>clearData\<close> of the request handle give the filters of one request:
  the value set under a key is the value read under it until the request completes, and whatever
  string the dynamic metadata holds, only a pinned wrapper is ever dereferenced.
\<close>

section \<open>The contract of the dynamic metadata\<close>

text \<open>
  Dynamic metadata belongs to the stream, which the filters of a request share: \<open>stream p\<close> is the
  stream of a filter, \<open>md s ns key h\<close> the string it holds. Reading gives a view of the string, valid
  in the state the callback leaves.
\<close>

locale metadata_host =
  fixes M :: "'h host_metadata_1"
    and memory :: "'h \<Rightarrow> mem"
    and stream :: "http_filter_envoy_ptr \<Rightarrow> nat"
    and md :: "nat \<Rightarrow> gostring \<Rightarrow> gostring \<Rightarrow> 'h \<Rightarrow> gostring option"
  assumes md_set: "md s ns' k' (snd (cb_http_set_dynamic_metadata_string M p (ModuleBuffer a ns)
      (ModuleBuffer b k) (ModuleBuffer c v) h)) =
      (if s = stream p \<and> ns' = ns \<and> k' = k then Some v else md s ns' k' h)"
    and md_get: "md (stream p) ns k h = Some v \<Longrightarrow> v \<noteq> [] \<Longrightarrow> length v < 2 ^ 32 \<Longrightarrow>
      \<exists>w h1. cb_http_get_metadata_string M p (c_const metadata_source_order metadata_source_Dynamic)
        (ModuleBuffer a ns) (ModuleBuffer b k) h = ((True, Some w), h1) \<and>
        ToUnsafeString (memory h1) (envoyBufferToUnsafeEnvoyBuffer w) = v"
begin

lemma GetMetadataString_set:
  assumes "md (stream (hostPluginPtr hnd)) ns k h = Some v" "v \<noteq> []" "length v < 2 ^ 32"
  shows "\<exists>buf h1. hd_GetMetadataString M rt hnd MetadataSourceDynamic ns k h = ((buf, True), h1) \<and>
    ToUnsafeString (memory h1) buf = v"
proof -
  have src: "CVal MetadataSourceDynamic = c_const metadata_source_order metadata_source_Dynamic"
    using mds.cast_const [of MetadataSourceTypeDynamic] by (simp add: MetadataSourceDynamic_def go_cast_def)
  obtain w h1 where w: "cb_http_get_metadata_string M (hostPluginPtr hnd) (CVal MetadataSourceDynamic)
        (stringToModuleBuffer rt ns) (stringToModuleBuffer rt k) h = ((True, Some w), h1)"
      "ToUnsafeString (memory h1) (envoyBufferToUnsafeEnvoyBuffer w) = v"
    using md_get [OF assms] unfolding src stringToModuleBuffer_def by blast
  then have "eb_ptr w \<noteq> 0" "eb_length w \<noteq> 0"
    using assms(2) by (auto simp: ToUnsafeString_def envoyBufferToUnsafeEnvoyBuffer_def split: if_splits)
  with w show ?thesis
    by (simp add: hd_GetMetadataString_def view_of_def)
qed

lemma SetMetadata_string:
  "md s ns' k' (hd_SetMetadata M rt hnd ns k (AnyString v) h) =
     (if s = stream (hostPluginPtr hnd) \<and> ns' = ns \<and> k' = k then Some v else md s ns' k' h)"
  by (simp add: hd_SetMetadata_def stringToModuleBuffer_def md_set)

text \<open>A value that is pinned and published is what \<open>GetData\<close> returns.\<close>

lemma GetData_published:
  assumes "md (stream (hostPluginPtr hnd)) shared_data_namespace key h = Some (FormatUint a)"
    and "mgr_search (sd_manager sd) a = Some a" "sd_heap sd a = Some v"
  shows "fst (hd_GetData memory M rt sd hnd key h) = Ret v"
proof -
  have "length (FormatUint a) < 2 ^ 32" using FormatUint_length [of a] by simp
  from GetMetadataString_set [OF assms(1) FormatUint_nonempty this]
  obtain buf h1 where "hd_GetMetadataString M rt hnd MetadataSourceDynamic shared_data_namespace key h =
      ((buf, True), h1)" "ToUnsafeString (memory h1) buf = FormatUint a" by blast
  with assms(2,3) show ?thesis by (simp add: hd_GetData_def Parse_Format)
qed

end

section \<open>Pinned wrappers\<close>

definition sd_inv :: "shared_data \<Rightarrow> bool" where
  "sd_inv sd \<longleftrightarrow> mgr_inv (sd_manager sd) \<and>
     (\<forall>q. mgr_search (sd_manager sd) q \<noteq> None \<longrightarrow>
        mgr_search (sd_manager sd) q = Some q \<and> sd_heap sd q \<noteq> None)"

definition sd_init :: shared_data where
  "sd_init = \<lparr>sd_heap = Map.empty, sd_manager = newManager\<rparr>"

lemma sd_inv_init: "sd_inv sd_init"
  by (simp add: sd_inv_def sd_init_def mgr.inv_fresh mgr.srch_fresh)

lemma mgr_record_eq: "mgr_record m p = (p, snd (mgr_record m p))"
  by (simp add: mgr_record_def Let_def)

lemma hd_SetData_eq:
  "hd_SetData M rt sd hnd a key v h =
    (sd\<lparr>sd_heap := (sd_heap sd)(a \<mapsto> v), sd_manager := snd (mgr_record (sd_manager sd) a)\<rparr>,
     hnd\<lparr>recordedSharedData := recordedSharedData hnd @ [a]\<rparr>,
     hd_SetMetadata M rt (hnd\<lparr>recordedSharedData := recordedSharedData hnd @ [a]\<rparr>)
       shared_data_namespace key (AnyString (FormatUint a)) h)"
  by (simp add: hd_SetData_def Let_def mgr_record_def)

lemma sd_inv_SetData: "sd_inv sd \<Longrightarrow> sd_inv (fst (hd_SetData M rt sd hnd a key v h))"
  by (auto simp: sd_inv_def hd_SetData_eq mgr.inv_rcd mgr.srch_rcd)

lemma sd_inv_clearData: "sd_inv sd \<Longrightarrow> sd_inv (hd_clearData sd hnd)"
  by (auto simp: sd_inv_def hd_clearData_def mgr.inv_rmv_all mgr.rmv_all)

lemma search_other:
  "sd_inv sd \<Longrightarrow>
   mgr_search (snd (mgr_record (sd_manager sd) a)) q = (if q = a then Some a else mgr_search (sd_manager sd) q)"
  by (simp add: sd_inv_def mgr.srch_rcd)

lemma search_SetData:
  "sd_inv sd \<Longrightarrow> mgr_search (sd_manager (fst (hd_SetData M rt sd hnd a key v h))) a = Some a"
  by (simp add: sd_inv_def hd_SetData_eq mgr.srch_rcd)

lemma search_clearData:
  "sd_inv sd \<Longrightarrow> a \<in> set (recordedSharedData hnd) \<Longrightarrow>
   mgr_search (sd_manager (hd_clearData sd hnd)) a = None"
  by (simp add: sd_inv_def hd_clearData_def mgr.rmv_all)

section \<open>A host that keeps the contract\<close>

record md_table =
  mt_md :: "nat \<Rightarrow> gostring \<Rightarrow> gostring \<Rightarrow> gostring option"
  mt_scratch :: gostring

definition md_memory :: "md_table \<Rightarrow> mem" where
  "md_memory h = (\<lambda>a. if 1 \<le> unat a \<and> unat a - 1 < length (mt_scratch h) then mt_scratch h ! (unat a - 1)
     else CHR 0x00)"

definition md_table_md :: "nat \<Rightarrow> gostring \<Rightarrow> gostring \<Rightarrow> md_table \<Rightarrow> gostring option" where
  "md_table_md s ns k h = mt_md h s ns k"

definition md_table_host :: "(http_filter_envoy_ptr \<Rightarrow> nat) \<Rightarrow> md_table host_metadata_1" where
  "md_table_host stream = \<lparr>
     cb_http_set_dynamic_metadata_number = (\<lambda>p ns k v h. ((), h)),
     cb_http_get_metadata_number = (\<lambda>p src ns k h. ((False, None), h)),
     cb_http_set_dynamic_metadata_string = (\<lambda>p ns k v h. ((), h\<lparr>mt_md := (\<lambda>s ns' k'.
       if s = stream p \<and> ns' = mb_bytes ns \<and> k' = mb_bytes k then Some (mb_bytes v) else mt_md h s ns' k')\<rparr>)),
     cb_http_get_metadata_string = (\<lambda>p src ns k h.
       case mt_md h (stream p) (mb_bytes ns) (mb_bytes k) of
         None \<Rightarrow> ((False, Some null_envoy_buffer), h)
       | Some v \<Rightarrow> ((True, Some \<lparr>eb_ptr = 1, eb_length = of_nat (length v)\<rparr>), h\<lparr>mt_scratch := v\<rparr>)),
     cb_http_set_dynamic_metadata_bool = (\<lambda>p ns k v h. ((), h)),
     cb_http_get_metadata_bool = (\<lambda>p src ns k h. ((False, None), h)),
     cb_http_get_metadata_keys_count = (\<lambda>p src ns h. (0, h))\<rparr>"

lemma read_scratch:
  assumes "length v < 2 ^ 32"
  shows "read_mem (md_memory (h\<lparr>mt_scratch := v\<rparr>)) 1 (length v) = v"
proof (rule nth_equalityI)
  fix i assume "i < length (read_mem (md_memory (h\<lparr>mt_scratch := v\<rparr>)) 1 (length v))"
  then have i: "i < length v" by simp
  have "unat (1 + of_nat i :: u64) = unat (of_nat (Suc i) :: u64)" by simp
  also have "\<dots> = Suc i" using i assms by (intro unat_of_nat_u64) simp
  finally have "unat (1 + of_nat i :: u64) = Suc i" .
  with i show "read_mem (md_memory (h\<lparr>mt_scratch := v\<rparr>)) 1 (length v) ! i = v ! i"
    by (simp add: read_mem_def md_memory_def)
qed simp

lemma md_table_contract: "metadata_host (md_table_host stream) md_memory stream md_table_md"
proof
  show "md_table_md s ns' k' (snd (cb_http_set_dynamic_metadata_string (md_table_host stream) p
      (ModuleBuffer a ns) (ModuleBuffer b k) (ModuleBuffer c v) h)) =
      (if s = stream p \<and> ns' = ns \<and> k' = k then Some v else md_table_md s ns' k' h)"
    for s ns' k' p a ns b k c v h
    by (simp add: md_table_host_def md_table_md_def)
  show "\<exists>w h1. cb_http_get_metadata_string (md_table_host stream) p
        (c_const metadata_source_order metadata_source_Dynamic)
        (ModuleBuffer a ns) (ModuleBuffer b k) h = ((True, Some w), h1) \<and>
        ToUnsafeString (md_memory h1) (envoyBufferToUnsafeEnvoyBuffer w) = v"
    if md: "md_table_md (stream p) ns k h = Some v" "v \<noteq> []" "length v < 2 ^ 32"
    for p ns k h v a b
  proof -
    have n: "unat (of_nat (length v) :: u64) = length v"
      using md(3) by (intro unat_of_nat_u64) simp
    then have "(of_nat (length v) :: u64) \<noteq> 0" using md(2) by (metis length_0_conv unat_0)
    with n md read_scratch [OF md(3), of h] show ?thesis
      by (simp add: md_table_host_def md_table_md_def ToUnsafeString_def envoyBufferToUnsafeEnvoyBuffer_def)
  qed
qed

interpretation md_table: metadata_host "md_table_host stream" md_memory stream md_table_md for stream
  by (rule md_table_contract)

section \<open>Properties\<close>

text \<open>A sequence of \<open>SetData\<close> calls by the filters of any requests, each with its new wrapper's address.\<close>

definition set_one ::
    "'h host_metadata_1 \<Rightarrow> go_runtime \<Rightarrow> shared_data \<times> 'h \<Rightarrow>
      dymHttpFilterHandle \<times> ptr \<times> gostring \<times> go_any \<Rightarrow> shared_data \<times> 'h" where
  "set_one M rt st c =
     (case (st, c) of ((sd, h), (hnd, a, key, v)) \<Rightarrow>
        (let (sd', _, h') = hd_SetData M rt sd hnd a key v h in (sd', h')))"

lemma set_one_eq:
  "set_one M rt (sd, h) (hnd, a, key, v) =
     (fst (hd_SetData M rt sd hnd a key v h), snd (snd (hd_SetData M rt sd hnd a key v h)))"
  by (simp add: set_one_def split: prod.splits)

lemma set_one_inv: "sd_inv (fst st) \<Longrightarrow> sd_inv (fst (set_one M rt st c))"
  by (cases st; cases c) (simp add: set_one_eq sd_inv_SetData)

lemma set_all_inv: "sd_inv (fst st) \<Longrightarrow> sd_inv (fst (foldl (set_one M rt) st cs))"
  by (induction cs arbitrary: st) (simp_all add: set_one_inv)

text \<open>Later calls under other keys, or by the filters of other streams, leave a key alone.\<close>

definition published ::
    "(nat \<Rightarrow> gostring \<Rightarrow> gostring \<Rightarrow> 'h \<Rightarrow> gostring option) \<Rightarrow> nat \<Rightarrow> gostring \<Rightarrow> ptr \<Rightarrow> go_any \<Rightarrow>
      shared_data \<times> 'h \<Rightarrow> bool" where
  "published md s key a v st \<longleftrightarrow>
     sd_inv (fst st) \<and> mgr_search (sd_manager (fst st)) a = Some a \<and> sd_heap (fst st) a = Some v \<and>
     md s shared_data_namespace key (snd st) = Some (FormatUint a)"

lemma published_later:
  assumes "metadata_host M memory stream md"
    and "\<forall>(hnd, b, k, w)\<in>set cs. b \<noteq> a \<and> (stream (hostPluginPtr hnd) = s \<longrightarrow> k \<noteq> key)"
  shows "published md s key a v st \<Longrightarrow> published md s key a v (foldl (set_one M rt) st cs)"
  using assms(2)
proof (induction cs arbitrary: st)
  case Nil
  then show ?case by simp
next
  case (Cons c cs)
  obtain hnd b k w where c: "c = (hnd, b, k, w)" by (cases c)
  obtain sd h where st: "st = (sd, h)" by (cases st)
  from Cons.prems(2) c have "b \<noteq> a" "stream (hostPluginPtr hnd) = s \<longrightarrow> k \<noteq> key" by auto
  with Cons.prems(1) have "published md s key a v (set_one M rt st c)"
    using sd_inv_SetData [of sd M rt hnd b k w h]
    by (auto simp: published_def c st set_one_eq hd_SetData_eq metadata_host.SetMetadata_string [OF assms(1)]
        search_other)
  with Cons.IH Cons.prems(2) show ?case by simp
qed

lemma published_now:
  assumes "metadata_host M memory stream md" "sd_inv (fst st)"
  shows "published md (stream (hostPluginPtr hnd)) key a v (set_one M rt st (hnd, a, key, v))"
proof -
  obtain sd h where st: "st = (sd, h)" by (cases st)
  show ?thesis
    using assms(2) sd_inv_SetData [of sd M rt hnd a key v h]
    by (simp add: published_def st set_one_eq hd_SetData_eq metadata_host.SetMetadata_string [OF assms(1)]
        search_other)
qed

text \<open>C18: the value a filter stores with \<open>SetData\<close> is what every filter of the same request reads with
  \<open>GetData\<close> under that key, through the decimal string in the dynamic metadata and the registry,
  whatever was stored before and whatever is stored afterwards under other keys or by other requests;
  the allocator gives live wrappers distinct addresses.\<close>

theorem shared_data_read_back:
  assumes "metadata_host M memory stream md" and "sd_inv sd0"
    and "stream (hostPluginPtr writer) = stream (hostPluginPtr reader)"
    and "\<forall>(hnd, b, k, w)\<in>set later. b \<noteq> a \<and>
      (stream (hostPluginPtr hnd) = stream (hostPluginPtr reader) \<longrightarrow> k \<noteq> key)"
  shows "let (sd, h) = foldl (set_one M rt) (sd0, h0) (earlier @ (writer, a, key, v) # later)
    in fst (hd_GetData memory M rt sd reader key h) = Ret v"
proof -
  let ?st1 = "foldl (set_one M rt) (sd0, h0) earlier"
  let ?st = "foldl (set_one M rt) (set_one M rt ?st1 (writer, a, key, v)) later"
  have "published md (stream (hostPluginPtr reader)) key a v ?st"
    using published_later [OF assms(1,4) published_now [OF assms(1), of ?st1 writer key a v rt, unfolded assms(3)]]
      set_all_inv [of "(sd0, h0)" M rt earlier] assms(2) by simp
  then show ?thesis
    using metadata_host.GetData_published [OF assms(1)]
    by (cases ?st) (auto simp: published_def)
qed

theorem shared_data_read_back_witness:
  "\<forall>rt. let a1 = zero_handle\<lparr>hostPluginPtr := 1\<rparr>; a2 = zero_handle\<lparr>hostPluginPtr := 2\<rparr>;
       (sd, h) = foldl (set_one (md_table_host (\<lambda>p. 0)) rt) (sd_init, \<lparr>mt_md = (\<lambda>s ns k. None), mt_scratch = []\<rparr>)
         ([(a2, 64, ''k'', AnyBool False)] @ (a1, 96, ''k'', AnyBool True) # [(a2, 160, ''other'', AnyNil)])
   in fst (hd_GetData md_memory (md_table_host (\<lambda>p. 0)) rt sd a2 ''k'' h) = Ret (AnyBool True)"
proof
  fix rt
  show "let a1 = zero_handle\<lparr>hostPluginPtr := 1\<rparr>; a2 = zero_handle\<lparr>hostPluginPtr := 2\<rparr>;
       (sd, h) = foldl (set_one (md_table_host (\<lambda>p. 0)) rt) (sd_init, \<lparr>mt_md = (\<lambda>s ns k. None), mt_scratch = []\<rparr>)
         ([(a2, 64, ''k'', AnyBool False)] @ (a1, 96, ''k'', AnyBool True) # [(a2, 160, ''other'', AnyNil)])
   in fst (hd_GetData md_memory (md_table_host (\<lambda>p. 0)) rt sd a2 ''k'' h) = Ret (AnyBool True)"
    using shared_data_read_back [OF md_table_contract sd_inv_init, of "\<lambda>p. 0" "zero_handle\<lparr>hostPluginPtr := 1\<rparr>"
        "zero_handle\<lparr>hostPluginPtr := 2\<rparr>" "[(zero_handle\<lparr>hostPluginPtr := 2\<rparr>, 160, ''other'', AnyNil)]" 96 "''k''"
        rt "\<lparr>mt_md = (\<lambda>s ns k. None), mt_scratch = []\<rparr>"
        "[(zero_handle\<lparr>hostPluginPtr := 2\<rparr>, 64, ''k'', AnyBool False)]" "AnyBool True"]
    by (simp add: Let_def)
qed

text \<open>C19: \<open>GetData\<close> never dereferences a wrapper that is not pinned, whatever string Envoy returns for
  the key (a forged or stale address included): it does not crash, and the value it returns is nil or
  the value of a pinned wrapper.\<close>

theorem shared_data_never_dangles:
  assumes "sd_inv sd"
  shows "\<exists>d. fst (hd_GetData memory M rt sd hnd key h) = Ret d \<and>
    (d = AnyNil \<or> (\<exists>a. mgr_search (sd_manager sd) a = Some a \<and> sd_heap sd a = Some d))"
proof -
  obtain buf found h1 where r: "hd_GetMetadataString M rt hnd MetadataSourceDynamic shared_data_namespace key h =
      ((buf, found), h1)" by (metis surj_pair)
  show ?thesis
  proof (cases "found \<and> (\<exists>q. ParseUint (ToUnsafeString (memory h1) buf) = Inr q \<and> mgr_search (sd_manager sd) q \<noteq> None)")
    case False
    then show ?thesis
      using r by (auto simp: hd_GetData_def split: sum.splits option.splits)
  next
    case True
    then obtain q where q: "found" "ParseUint (ToUnsafeString (memory h1) buf) = Inr q"
        "mgr_search (sd_manager sd) q \<noteq> None" by blast
    with assms obtain d where "mgr_search (sd_manager sd) q = Some q" "sd_heap sd q = Some d"
      unfolding sd_inv_def by blast
    with q r show ?thesis by (auto simp: hd_GetData_def)
  qed
qed

theorem shared_data_never_dangles_witness:
  "\<forall>rt. \<exists>d. fst (hd_GetData md_memory (md_table_host (\<lambda>p. 0)) rt sd_init zero_handle ''k''
     \<lparr>mt_md = (\<lambda>s ns k. Some ''96''), mt_scratch = []\<rparr>) = Ret d \<and>
    (d = AnyNil \<or> (\<exists>a. mgr_search (sd_manager sd_init) a = Some a \<and> sd_heap sd_init a = Some d))"
proof
  fix rt
  show "\<exists>d. fst (hd_GetData md_memory (md_table_host (\<lambda>p. 0)) rt sd_init zero_handle ''k''
     \<lparr>mt_md = (\<lambda>s ns k. Some ''96''), mt_scratch = []\<rparr>) = Ret d \<and>
    (d = AnyNil \<or> (\<exists>a. mgr_search (sd_manager sd_init) a = Some a \<and> sd_heap sd_init a = Some d))"
    by (rule shared_data_never_dangles [OF sd_inv_init])
qed

text \<open>Once the request has completed and its data was cleared, the metadata may still hold the
  address, but reading it gives nil for every filter of every request.\<close>

theorem shared_data_cleared:
  assumes "metadata_host M memory stream md" "sd_inv sd"
    and "a \<in> set (recordedSharedData owner)"
    and "md (stream (hostPluginPtr reader)) shared_data_namespace key h = Some (FormatUint a)"
  shows "fst (hd_GetData memory M rt (hd_clearData sd owner) reader key h) = Ret AnyNil"
proof -
  have "length (FormatUint a) < 2 ^ 32" using FormatUint_length [of a] by simp
  from metadata_host.GetMetadataString_set [OF assms(1,4) FormatUint_nonempty this]
  obtain buf h1 where "hd_GetMetadataString M rt reader MetadataSourceDynamic shared_data_namespace key h =
      ((buf, True), h1)" "ToUnsafeString (memory h1) buf = FormatUint a" by blast
  then show ?thesis
    using search_clearData [OF assms(2,3)] by (simp add: hd_GetData_def Parse_Format)
qed

theorem shared_data_cleared_witness:
  "\<forall>rt. let (sd, owner, h) = hd_SetData (md_table_host (\<lambda>p. 0)) rt sd_init zero_handle 96 ''k'' (AnyBool True)
         \<lparr>mt_md = (\<lambda>s ns k. None), mt_scratch = []\<rparr>
   in fst (hd_GetData md_memory (md_table_host (\<lambda>p. 0)) rt (hd_clearData sd owner) zero_handle ''k'' h) =
        Ret AnyNil"
proof
  fix rt
  show "let (sd, owner, h) = hd_SetData (md_table_host (\<lambda>p. 0)) rt sd_init zero_handle 96 ''k'' (AnyBool True)
         \<lparr>mt_md = (\<lambda>s ns k. None), mt_scratch = []\<rparr>
   in fst (hd_GetData md_memory (md_table_host (\<lambda>p. 0)) rt (hd_clearData sd owner) zero_handle ''k'' h) =
        Ret AnyNil"
  proof -
    let ?h0 = "\<lparr>mt_md = (\<lambda>s ns k. None), mt_scratch = []\<rparr>"
    let ?r = "hd_SetData (md_table_host (\<lambda>p. 0)) rt sd_init zero_handle 96 ''k'' (AnyBool True) ?h0"
    have "sd_inv (fst ?r)" by (intro sd_inv_SetData sd_inv_init)
    moreover have "96 \<in> set (recordedSharedData (fst (snd ?r)))" by (simp add: hd_SetData_eq)
    moreover have "md_table_md 0 shared_data_namespace ''k'' (snd (snd ?r)) = Some (FormatUint 96)"
      using metadata_host.SetMetadata_string [OF md_table_contract, of 0 shared_data_namespace "''k''" "\<lambda>p. 0"]
      by (simp add: hd_SetData_eq)
    ultimately have "fst (hd_GetData md_memory (md_table_host (\<lambda>p. 0)) rt (hd_clearData (fst ?r) (fst (snd ?r)))
        zero_handle ''k'' (snd (snd ?r))) = Ret AnyNil"
      by (intro shared_data_cleared [OF md_table_contract]) simp_all
    then show ?thesis by (simp only: Let_def split_def)
  qed
qed

end
