(* ===== verification/Registry.thy ===== *)
theory Registry
  imports Prelude
begin

text \<open>
  Registration of filters: the root package's registry of names and factory functions (filter.go) and
  the tables the binding layer looks names up in (sdk.go). A Go map is a partial map; its value may be
  nil, which is \<open>None\<close>. Ranging over a Go map visits its entries in an order that is not specified: a
  range is a list of the entries, and the theorems hold for every order. A factory's \<open>Create\<close> may act
  on its configuration handle; \<open>'s\<close> is the state it acts on, and \<open>(factory, error)\<close> is a pair.
\<close>

section \<open>Factories\<close>

record ('s, 'f, 'p) config_factory =
  fac_Create :: "bytes option \<Rightarrow> 's \<Rightarrow> ('f option \<times> gostring option) \<times> 's"
  fac_CreatePerRoute :: "bytes option \<Rightarrow> 'p option \<times> gostring option"

type_synonym ('s, 'f, 'p) factory_table = "gostring \<rightharpoonup> ('s, 'f, 'p) config_factory option"

definition factoryFuncAdapter ::
    "(bytes option \<Rightarrow> 's \<Rightarrow> ('f option \<times> gostring option) \<times> 's) \<Rightarrow> ('s, 'f, 'p) config_factory" where
  "factoryFuncAdapter fn = \<lparr>fac_Create = fn, fac_CreatePerRoute = (\<lambda>_. (None, None))\<rparr>"

text \<open>shared/api.go: the factory that does nothing.\<close>

definition EmptyHttpFilterConfigFactory :: "'f \<Rightarrow> ('s, 'f, 'p) config_factory" where
  "EmptyHttpFilterConfigFactory emptyFactory =
     \<lparr>fac_Create = (\<lambda>_ s. ((Some emptyFactory, None), s)), fac_CreatePerRoute = (\<lambda>_. (None, None))\<rparr>"

section \<open>The registry of the root package\<close>

definition RegisterRaw ::
    "gostring \<Rightarrow> ('s, 'f, 'p) config_factory option \<Rightarrow> ('s, 'f, 'p) factory_table \<Rightarrow>
      ('s, 'f, 'p) factory_table go" where
  "RegisterRaw name factory registry =
     (case registry name of
        Some _ \<Rightarrow> Panic (''BUG: luwes filter '' @ name @ '' registered twice'')
      | None \<Rightarrow> Ret (registry(name \<mapsto> factory)))"

definition Register ::
    "gostring \<Rightarrow> (bytes option \<Rightarrow> 's \<Rightarrow> ('f option \<times> gostring option) \<times> 's) \<Rightarrow>
      ('s, 'f, 'p) factory_table \<Rightarrow> ('s, 'f, 'p) factory_table go" where
  "Register name fn = RegisterRaw name (Some (factoryFuncAdapter fn))"

definition RegisterSimple ::
    "gostring \<Rightarrow> ('s \<Rightarrow> 'f option \<times> 's) \<Rightarrow> ('s, 'f, 'p) factory_table \<Rightarrow> ('s, 'f, 'p) factory_table go" where
  "RegisterSimple name fn =
     RegisterRaw name (Some (factoryFuncAdapter (\<lambda>_ s. let (f, s') = fn s in ((f, None), s'))))"

text \<open>\<open>Factories\<close> copies the map entry by entry, in the order of the range.\<close>

fun copy_entries :: "('k \<times> 'v) list \<Rightarrow> ('k \<rightharpoonup> 'v) \<Rightarrow> ('k \<rightharpoonup> 'v)" where
  "copy_entries [] out = out"
| "copy_entries ((k, v) # es) out = copy_entries es (out(k \<mapsto> v))"

definition range_order :: "('k \<times> 'v) list \<Rightarrow> ('k \<rightharpoonup> 'v) \<Rightarrow> bool" where
  "range_order es m \<longleftrightarrow> distinct (map fst es) \<and> map_of es = m"

definition Factories :: "(gostring \<times> 'v) list \<Rightarrow> (gostring \<rightharpoonup> 'v)" where
  "Factories es = copy_entries es Map.empty"

definition RegisterAccessLogger ::
    "gostring \<Rightarrow> (bytes option \<Rightarrow> 's \<Rightarrow> ('f option \<times> gostring option) \<times> 's) \<Rightarrow>
      ('s, 'f, unit) factory_table \<Rightarrow> ('s, 'f, unit) factory_table go" where
  "RegisterAccessLogger name fn registry =
     (case registry name of
        Some _ \<Rightarrow> Panic (''access logger already registered: '' @ name)
      | None \<Rightarrow> Ret (registry(name \<mapsto> Some (factoryFuncAdapter fn))))"

definition AccessLoggerFactories :: "(gostring \<times> 'v) list \<Rightarrow> (gostring \<rightharpoonup> 'v)" where
  "AccessLoggerFactories es = copy_entries es Map.empty"

section \<open>The tables of the binding layer\<close>

fun RegisterHttpFilterConfigFactories ::
    "(gostring \<times> ('s, 'f, 'p) config_factory option) list \<Rightarrow> ('s, 'f, 'p) factory_table \<Rightarrow>
      ('s, 'f, 'p) factory_table go" where
  "RegisterHttpFilterConfigFactories [] tbl = Ret tbl"
| "RegisterHttpFilterConfigFactories ((name, factory) # es) tbl =
     (case tbl name of
        Some _ \<Rightarrow> Panic (''plugin config factory already registered: '' @ name)
      | None \<Rightarrow> RegisterHttpFilterConfigFactories es (tbl(name \<mapsto> factory)))"

fun RegisterNetworkFilterConfigFactories ::
    "(gostring \<times> ('s, 'f, 'p) config_factory option) list \<Rightarrow> ('s, 'f, 'p) factory_table \<Rightarrow>
      ('s, 'f, 'p) factory_table go" where
  "RegisterNetworkFilterConfigFactories [] tbl = Ret tbl"
| "RegisterNetworkFilterConfigFactories ((name, factory) # es) tbl =
     (case tbl name of
        Some _ \<Rightarrow> Panic (''network filter config factory already registered: '' @ name)
      | None \<Rightarrow> RegisterNetworkFilterConfigFactories es (tbl(name \<mapsto> factory)))"

fun RegisterAccessLoggerConfigFactories ::
    "(gostring \<times> ('s, 'f, 'p) config_factory option) list \<Rightarrow> ('s, 'f, 'p) factory_table \<Rightarrow>
      ('s, 'f, 'p) factory_table go" where
  "RegisterAccessLoggerConfigFactories [] tbl = Ret tbl"
| "RegisterAccessLoggerConfigFactories ((name, factory) # es) tbl =
     (case tbl name of
        Some _ \<Rightarrow> Panic (''access logger config factory already registered: '' @ name)
      | None \<Rightarrow> RegisterAccessLoggerConfigFactories es (tbl(name \<mapsto> factory)))"

text \<open>Indexing the table: nil for a name that is not there.\<close>

definition GetHttpFilterConfigFactory ::
    "('s, 'f, 'p) factory_table \<Rightarrow> gostring \<Rightarrow> ('s, 'f, 'p) config_factory option" where
  "GetHttpFilterConfigFactory tbl name = (case tbl name of None \<Rightarrow> None | Some f \<Rightarrow> f)"

definition NewHttpFilterFactory ::
    "('s, 'f, 'p) factory_table \<Rightarrow> gostring \<Rightarrow> bytes option \<Rightarrow> 's \<Rightarrow> ('f option \<times> gostring option) \<times> 's" where
  "NewHttpFilterFactory tbl name unparsedConfig s =
     (case GetHttpFilterConfigFactory tbl name of
        None \<Rightarrow> ((None, Some ''failed to get plugin config factory''), s)
      | Some f \<Rightarrow> fac_Create f unparsedConfig s)"

definition GetNetworkFilterConfigFactory ::
    "('s, 'f, 'p) factory_table \<Rightarrow> gostring \<Rightarrow> ('s, 'f, 'p) config_factory option" where
  "GetNetworkFilterConfigFactory tbl name = (case tbl name of None \<Rightarrow> None | Some f \<Rightarrow> f)"

definition NewNetworkFilterFactory ::
    "('s, 'f, 'p) factory_table \<Rightarrow> gostring \<Rightarrow> bytes option \<Rightarrow> 's \<Rightarrow> ('f option \<times> gostring option) \<times> 's" where
  "NewNetworkFilterFactory tbl name unparsedConfig s =
     (case GetNetworkFilterConfigFactory tbl name of
        None \<Rightarrow> ((None, Some (''failed to get network filter config factory for '' @ name)), s)
      | Some f \<Rightarrow> fac_Create f unparsedConfig s)"

definition GetAccessLoggerConfigFactory ::
    "('s, 'f, 'p) factory_table \<Rightarrow> gostring \<Rightarrow> ('s, 'f, 'p) config_factory option" where
  "GetAccessLoggerConfigFactory tbl name = (case tbl name of None \<Rightarrow> None | Some f \<Rightarrow> f)"

definition NewAccessLoggerFactory ::
    "('s, 'f, 'p) factory_table \<Rightarrow> gostring \<Rightarrow> bytes option \<Rightarrow> 's \<Rightarrow> ('f option \<times> gostring option) \<times> 's" where
  "NewAccessLoggerFactory tbl name config s =
     (case GetAccessLoggerConfigFactory tbl name of
        None \<Rightarrow> ((None, Some (''no access logger config factory registered for '' @ name)), s)
      | Some f \<Rightarrow> fac_Create f config s)"

section \<open>A table that takes every name once\<close>

text \<open>
  The four registration loops are the same loop with different messages. \<open>add\<close> is one of them run over
  a list of entries.
\<close>

lemma map_add_shift:
  "n \<notin> fst ` set es \<Longrightarrow> t(n \<mapsto> v) ++ map_of es = t ++ map_of ((n, v) # es)"
proof -
  assume "n \<notin> fst ` set es"
  then have "n \<notin> dom (map_of es)" by (simp add: dom_map_of_conv_image_fst)
  then have "t(n \<mapsto> v) ++ map_of es = (t ++ map_of es)(n \<mapsto> v)" by (rule map_add_upd_left)
  then show ?thesis by (simp only: map_of.simps fst_conv snd_conv map_add_upd)
qed

locale once_table =
  fixes add :: "(gostring \<times> 'v) list \<Rightarrow> (gostring \<rightharpoonup> 'v) \<Rightarrow> (gostring \<rightharpoonup> 'v) go"
  assumes add_Nil: "add [] t = Ret t"
    and add_new: "t n = None \<Longrightarrow> add ((n, v) # es) t = add es (t(n \<mapsto> v))"
    and add_dup: "t n \<noteq> None \<Longrightarrow> panics (add ((n, v) # es) t)"
begin

lemma add_ok:
  "distinct (map fst es) \<Longrightarrow> \<forall>n\<in>fst ` set es. t n = None \<Longrightarrow> add es t = Ret (t ++ map_of es)"
proof (induction es arbitrary: t)
  case Nil
  then show ?case by (simp add: add_Nil)
next
  case (Cons e es)
  obtain n v where e: "e = (n, v)" by (cases e)
  have "add es (t(n \<mapsto> v)) = Ret (t(n \<mapsto> v) ++ map_of es)"
    using Cons.prems by (intro Cons.IH) (auto simp: e)
  moreover have "t(n \<mapsto> v) ++ map_of es = t ++ map_of ((n, v) # es)"
    using Cons.prems(1) by (intro map_add_shift) (simp add: e)
  moreover have "add ((n, v) # es) t = add es (t(n \<mapsto> v))"
    using Cons.prems(2) by (intro add_new) (simp add: e)
  ultimately show ?case by (simp only: e)
qed

lemma add_clash:
  "\<exists>n\<in>fst ` set es. t n \<noteq> None \<Longrightarrow> panics (add es t)"
proof (induction es arbitrary: t)
  case Nil
  then show ?case by simp
next
  case (Cons e es)
  obtain n v where e: "e = (n, v)" by (cases e)
  show ?case
  proof (cases "t n")
    case None
    with Cons.prems have "\<exists>n'\<in>fst ` set es. (t(n \<mapsto> v)) n' \<noteq> None" by (auto simp: e)
    with Cons.IH None show ?thesis by (simp add: e add_new)
  next
    case (Some x)
    then show ?thesis by (simp add: e add_dup)
  qed
qed

lemma add_repeat: "\<not> distinct (map fst es) \<Longrightarrow> panics (add es t)"
proof (induction es arbitrary: t)
  case Nil
  then show ?case by simp
next
  case (Cons e es)
  obtain n v where e: "e = (n, v)" by (cases e)
  show ?case
  proof (cases "t n")
    case None
    show ?thesis
    proof (cases "n \<in> fst ` set es")
      case True
      then have "panics (add es (t(n \<mapsto> v)))" by (intro add_clash) auto
      with None show ?thesis by (simp add: e add_new)
    next
      case False
      with Cons.prems have "\<not> distinct (map fst es)" by (simp add: e image_def)
      with Cons.IH None show ?thesis by (simp add: e add_new)
    qed
  next
    case (Some x)
    then show ?thesis by (simp add: e add_dup)
  qed
qed

lemma add_iff:
  "panics (add es t) \<longleftrightarrow> \<not> distinct (map fst es) \<or> (\<exists>n\<in>fst ` set es. t n \<noteq> None)"
  using add_ok add_clash add_repeat by (metis panics.simps(2))

end

interpretation http_table: once_table RegisterHttpFilterConfigFactories
  by unfold_locales auto

interpretation network_table: once_table RegisterNetworkFilterConfigFactories
  by unfold_locales auto

interpretation logger_table: once_table RegisterAccessLoggerConfigFactories
  by unfold_locales auto

text \<open>The root package's registry, fed by the \<open>init\<close> functions one call after another.\<close>

fun register_all ::
    "(gostring \<times> ('s, 'f, 'p) config_factory option) list \<Rightarrow> ('s, 'f, 'p) factory_table \<Rightarrow>
      ('s, 'f, 'p) factory_table go" where
  "register_all [] t = Ret t"
| "register_all ((n, f) # es) t = go_bind (RegisterRaw n f t) (register_all es)"

interpretation root_registry: once_table register_all
  by unfold_locales (auto simp: RegisterRaw_def)

lemma copy_entries_map_of: "distinct (map fst es) \<Longrightarrow> copy_entries es out = out ++ map_of es"
proof (induction es arbitrary: out)
  case Nil
  then show ?case by simp
next
  case (Cons e es)
  obtain n v where e: "e = (n, v)" by (cases e)
  have "out(n \<mapsto> v) ++ map_of es = out ++ map_of ((n, v) # es)"
    using Cons.prems by (intro map_add_shift) (simp add: e)
  moreover have "copy_entries es (out(n \<mapsto> v)) = out(n \<mapsto> v) ++ map_of es"
    using Cons by (simp add: e)
  ultimately show ?case by (simp only: e copy_entries.simps)
qed

lemma Factories_copy: "range_order es m \<Longrightarrow> Factories es = m"
  by (simp add: range_order_def Factories_def copy_entries_map_of)

section \<open>Properties\<close>

text \<open>C23: the wiring of a module is exact. When the \<open>init\<close> functions register filters under distinct
  names and \<open>main\<close> passes \<open>Factories()\<close> on, nothing panics, and afterwards loading a configuration
  calls the factory registered under its name, and is an error for every other name, in whatever
  order the two maps are ranged over.\<close>

theorem wiring_finds_registered_factory:
  assumes "distinct (map fst regs)" "range_order es1 (map_of regs)" "range_order es2 (Factories es1)"
  shows "\<exists>registry tbl. register_all regs Map.empty = Ret registry \<and> registry = map_of regs \<and>
    RegisterHttpFilterConfigFactories es2 Map.empty = Ret tbl \<and>
    NewHttpFilterFactory tbl name cfg s =
      (case map_of regs name of
         Some (Some f) \<Rightarrow> fac_Create f cfg s
       | _ \<Rightarrow> ((None, Some ''failed to get plugin config factory''), s))"
proof -
  have "register_all regs Map.empty = Ret (map_of regs)"
    using root_registry.add_ok [of regs Map.empty] assms(1) by simp
  moreover have "distinct (map fst es2)" "map_of es2 = map_of regs"
    using assms(2,3) Factories_copy [OF assms(2)] by (simp_all add: range_order_def)
  then have "RegisterHttpFilterConfigFactories es2 Map.empty = Ret (map_of regs)"
    using http_table.add_ok [of es2 Map.empty] by simp
  ultimately show ?thesis
    by (auto simp: NewHttpFilterFactory_def GetHttpFilterConfigFactory_def split: option.splits)
qed

theorem wiring_finds_registered_factory_witness:
  "let f = \<lparr>fac_Create = (\<lambda>c s. ((Some (1::nat), None), s)), fac_CreatePerRoute = (\<lambda>c. (None, None))\<rparr>
   in \<exists>tbl. RegisterHttpFilterConfigFactories [(''b'', None), (''a'', Some f)] Map.empty = Ret tbl \<and>
        NewHttpFilterFactory tbl ''a'' None () = ((Some 1, None), ())"
proof -
  let ?f = "\<lparr>fac_Create = (\<lambda>c s. ((Some (1::nat), None), s)), fac_CreatePerRoute = (\<lambda>c. (None, None))\<rparr>"
  have "range_order [(''a'', Some ?f), (''b'', None)] (map_of [(''a'', Some ?f), (''b'', None)])"
    by (simp add: range_order_def)
  moreover have "range_order [(''b'', None), (''a'', Some ?f)] (Factories [(''a'', Some ?f), (''b'', None)])"
    by (simp add: range_order_def Factories_def fun_upd_twist)
  ultimately show ?thesis
    using wiring_finds_registered_factory [of "[(''a'', Some ?f), (''b'', None)]"
        "[(''a'', Some ?f), (''b'', None)]" "[(''b'', None), (''a'', Some ?f)]" "''a''" None "()"]
    by (auto simp: Let_def)
qed

text \<open>A name can be registered once: a second registration of a name panics, in the root package and
  in each of the three tables, and nothing else does.\<close>

theorem registration_panics_iff_duplicate:
  "(panics (register_all es t) \<longleftrightarrow> \<not> distinct (map fst es) \<or> (\<exists>n\<in>fst ` set es. t n \<noteq> None)) \<and>
   (panics (RegisterHttpFilterConfigFactories es t) \<longleftrightarrow>
      \<not> distinct (map fst es) \<or> (\<exists>n\<in>fst ` set es. t n \<noteq> None)) \<and>
   (panics (RegisterNetworkFilterConfigFactories es t) \<longleftrightarrow>
      \<not> distinct (map fst es) \<or> (\<exists>n\<in>fst ` set es. t n \<noteq> None)) \<and>
   (panics (RegisterAccessLoggerConfigFactories es t) \<longleftrightarrow>
      \<not> distinct (map fst es) \<or> (\<exists>n\<in>fst ` set es. t n \<noteq> None))"
  by (intro conjI root_registry.add_iff http_table.add_iff network_table.add_iff logger_table.add_iff)

theorem registration_panics_iff_duplicate_witness:
  "panics (register_all [(''a'', None), (''a'', None)] Map.empty) \<and>
   \<not> panics (RegisterHttpFilterConfigFactories [(''a'', None), (''b'', None)] Map.empty)"
  using registration_panics_iff_duplicate [of "[(''a'', None), (''a'', None)]" Map.empty]
    registration_panics_iff_duplicate [of "[(''a'', None), (''b'', None)]" Map.empty] by simp

end
