(* ===== verification/HttpHooks.thy ===== *)
theory HttpHooks
  imports SharedData ConfigHandle Registry AbiHttpHooks
begin

text \<open>
  The exported hooks of abi_impl/internal.go over the state of the module: the handle objects, the
  pool they are reused from, the registries that pin them, and Envoy. A hook of a request does its
  own work first and ends with at most one call of the filter author's code; that call is a
  \<^emph>\<open>script\<close>, the finite list of what the code does through its handle, which may contain hooks that
  Envoy calls back inline. Every theorem holds for every script, so for every filter.
\<close>

section \<open>The filter author's code\<close>

text \<open>The hooks of a running request, with the values Envoy passes.\<close>

datatype event =
    RequestHeaders bool | RequestBody bool | RequestTrailers
  | ResponseHeaders bool | ResponseBody bool | ResponseTrailers
  | StreamComplete
  | LocalReply u32 envoy_buffer bool
  | Scheduled u64
  | CalloutDone u64 u32 "envoy_http_header list" "envoy_buffer list"
  | HttpStreamHeaders u64 "envoy_http_header list" bool
  | HttpStreamData u64 "envoy_buffer list" bool
  | HttpStreamTrailers u64 "envoy_http_header list"
  | HttpStreamComplete u64
  | HttpStreamReset u64 u32
  | AboveWatermark | BelowWatermark

text \<open>
  The calls of a handle method that change the handle or the shared data; a method that only reaches
  Envoy is \<open>ToEnvoy\<close>. The address of \<open>SetData\<close> is the allocator's choice.
\<close>

datatype 'h api_call =
    ToEnvoy "'h \<Rightarrow> 'h"
  | CallGetScheduler
  | CallSchedule "objref option"
  | CallHttpCallout gostring "(gostring \<times> gostring) list" "bytes option" u64 "objref option"
  | CallStartHttpStream gostring "(gostring \<times> gostring) list" "bytes option" bool u64 "objref option"
  | CallSetData ptr gostring go_any
  | CallSendLocalResponse u32 "(gostring \<times> gostring) list" "bytes option" gostring
  | CallSetWatermarkCallbacks "objref option"
  | CallClearWatermarkCallbacks

text \<open>
  A call of a method, with the hooks that Envoy runs before its function returns, in order; a hook runs
  code of the filter author in turn.
\<close>

datatype 'h op = Call "'h api_call" "'h inline list"
and 'h inline = Inline event ptr "'h script"
and 'h script = Script "'h op list" u32

primrec script_ops :: "'h script \<Rightarrow> 'h op list" where
  "script_ops (Script ops r) = ops"

primrec script_result :: "'h script \<Rightarrow> u32" where
  "script_result (Script ops r) = r"

text \<open>
  What is called, with the views it is given. The last three are notes on what the code itself did: it
  called \<open>SendLocalResponse\<close>, or the method that starts a callout or a stream has stored its callback.
\<close>

datatype upcall =
    UCreate objref ptr
  | UOnRequestHeaders objref dymHeaderMap bool
  | UOnRequestBody objref dymBodyBuffer bool
  | UOnRequestTrailers objref dymHeaderMap
  | UOnResponseHeaders objref dymHeaderMap bool
  | UOnResponseBody objref dymBodyBuffer bool
  | UOnResponseTrailers objref dymHeaderMap
  | UOnStreamComplete objref
  | UOnDestroy objref
  | UOnLocalReply objref u32 UnsafeEnvoyBuffer bool
  | UTask objref
  | UOnHttpCalloutDone objref u64 u32 "(UnsafeEnvoyBuffer \<times> UnsafeEnvoyBuffer) list" "UnsafeEnvoyBuffer list"
  | UOnHttpStreamHeaders objref u64 "(UnsafeEnvoyBuffer \<times> UnsafeEnvoyBuffer) list" bool
  | UOnHttpStreamData objref u64 "UnsafeEnvoyBuffer list" bool
  | UOnHttpStreamTrailers objref u64 "(UnsafeEnvoyBuffer \<times> UnsafeEnvoyBuffer) list"
  | UOnHttpStreamComplete objref u64
  | UOnHttpStreamReset objref u64 u32
  | UOnAboveWatermark objref | UOnBelowWatermark objref
  | UFactoryDestroy objref
  | NSendLocalResponse u32
  | NCalloutRegistered u64 "objref option"
  | NStreamRegistered u64 "objref option"

text \<open>
  What a module is linked with: the Go run-time, how Envoy's memory is read in Envoy's state, the table
  of registered factories (sdk.go), and the callbacks of Envoy the state-changing methods use.
\<close>

record 'h binding =
  bd_rt :: go_runtime
  bd_memory :: "'h \<Rightarrow> mem"
  bd_table :: "(dymConfigHandle \<times> 'h, objref, objref) factory_table"
  bd_log :: "'h host_log"
  bd_local :: "'h host_local_response"
  bd_sched :: "'h host_schedulers"
  bd_stream :: "'h host_stream_1"
  bd_stream2 :: "'h host_stream_2"
  bd_metadata :: "'h host_metadata_1"

text \<open>
  A method up to the return of Envoy's function, with what that function returned; and the rest of the
  method, on the handle as it is then. Only the methods that start a callout or a stream have a rest.
\<close>

fun api_effect ::
    "'h binding \<Rightarrow> 'h api_call \<Rightarrow> shared_data \<Rightarrow> dymHttpFilterHandle \<Rightarrow> 'h \<Rightarrow>
      (u32 \<times> u64) \<times> shared_data \<times> dymHttpFilterHandle \<times> 'h" where
  "api_effect b (ToEnvoy f) sd hnd h = ((0, 0), sd, hnd, f h)"
| "api_effect b CallGetScheduler sd hnd h = ((0, 0), sd, hd_GetScheduler (bd_sched b) hnd h)"
| "api_effect b (CallSchedule task) sd hnd h = ((0, 0), sd, hd_Schedule (bd_sched b) hnd task h)"
| "api_effect b (CallHttpCallout cluster headers body timeoutMs cb) sd hnd h =
     (let (r, h1) = hd_HttpCallout_call (bd_stream b) (bd_rt b) hnd cluster headers body timeoutMs h
      in (r, sd, hnd, h1))"
| "api_effect b (CallStartHttpStream cluster headers body eos timeoutMs cb) sd hnd h =
     (let (r, h1) = hd_StartHttpStream_call (bd_stream b) (bd_rt b) hnd cluster headers body eos timeoutMs h
      in (r, sd, hnd, h1))"
| "api_effect b (CallSetData alloc key val) sd hnd h =
     ((0, 0), hd_SetData (bd_metadata b) (bd_rt b) sd hnd alloc key val h)"
| "api_effect b (CallSendLocalResponse status headers body detail) sd hnd h =
     ((0, 0), sd, hd_SendLocalResponse (bd_local b) (bd_rt b) hnd status headers body detail h)"
| "api_effect b (CallSetWatermarkCallbacks cbs) sd hnd h =
     ((0, 0), sd, hd_SetDownstreamWatermarkCallbacks hnd cbs, h)"
| "api_effect b CallClearWatermarkCallbacks sd hnd h =
     ((0, 0), sd, hd_ClearDownstreamWatermarkCallbacks hnd, h)"

fun api_return :: "'h api_call \<Rightarrow> u32 \<times> u64 \<Rightarrow> dymHttpFilterHandle \<Rightarrow> dymHttpFilterHandle" where
  "api_return (CallHttpCallout cluster headers body timeoutMs cb) r hnd = snd (hd_HttpCallout_return r cb hnd)"
| "api_return (CallStartHttpStream cluster headers body eos timeoutMs cb) r hnd =
     snd (hd_StartHttpStream_return r cb hnd)"
| "api_return c r hnd = hnd"

text \<open>The notes: when \<open>SendLocalResponse\<close> calls Envoy, and when a callback has been stored.\<close>

fun note_before :: "'h api_call \<Rightarrow> upcall option" where
  "note_before (CallSendLocalResponse status headers body detail) = Some (NSendLocalResponse status)"
| "note_before c = None"

fun note_after :: "'h api_call \<Rightarrow> u32 \<times> u64 \<Rightarrow> upcall option" where
  "note_after (CallHttpCallout cluster headers body timeoutMs cb) r =
     (if fst r = CalloutInitSuccess then Some (NCalloutRegistered (snd r) cb) else None)"
| "note_after (CallStartHttpStream cluster headers body eos timeoutMs cb) r =
     (if fst r = CalloutInitSuccess then Some (NStreamRegistered (snd r) cb) else None)"
| "note_after c r = None"

section \<open>The state of the module\<close>

record httpFilterConfigWrapper =
  fw_pluginFactory :: objref
  fw_configHandle :: dymConfigHandle

text \<open>
  \<open>w_handles\<close> are the handle objects that exist, in use or in the pool; \<open>w_pool\<close> is the content of the
  \<open>sync.Pool\<close>; \<open>w_live\<close> are the module pointers that Envoy holds: returned by \<open>on_http_filter_new\<close> and not
  yet destroyed. \<open>w_trace\<close> records the calls of the filter author's code for requests, with the notes,
  and \<open>w_configTrace\<close> those for configurations.
\<close>

record 'h world =
  w_handles :: "ptr \<rightharpoonup> dymHttpFilterHandle"
  w_pool :: "ptr list"
  w_plugins :: manager
  w_shared :: shared_data
  w_configs :: "ptr \<rightharpoonup> httpFilterConfigWrapper"
  w_configManager :: manager
  w_perRoute :: "ptr \<rightharpoonup> objref"
  w_perRouteManager :: manager
  w_live :: "ptr set"
  w_liveConfigs :: "ptr set"
  w_trace :: "(ptr \<times> upcall) list"
  w_configTrace :: "(ptr \<times> upcall) list"
  w_host :: 'h

definition crash :: gostring where
  "crash = ''invalid memory address or nil pointer dereference''"

text \<open>
  \<open>pluginManager.unwrap(p)\<close> and the nil check every hook starts with: \<open>None\<close> is the nil pointer, and
  a pointer to no object is undefined behaviour, here a crash.
\<close>

definition unwrap_handle :: "'h world \<Rightarrow> ptr \<Rightarrow> dymHttpFilterHandle option go" where
  "unwrap_handle w p =
     (let q = mgr_unwrap (w_plugins w) p
      in if q = 0 then Ret None
         else case w_handles w q of None \<Rightarrow> Panic crash | Some hnd \<Rightarrow> Ret (Some hnd))"

definition set_handle :: "'h world \<Rightarrow> ptr \<Rightarrow> dymHttpFilterHandle \<Rightarrow> 'h world" where
  "set_handle w p hnd = w\<lparr>w_handles := (w_handles w)(p \<mapsto> hnd)\<rparr>"

text \<open>A hook of a request: the state before the call of the filter author's code, and that call.\<close>

type_synonym 'h hook = "'h world \<Rightarrow> (upcall option \<times> 'h world) go"

definition with_handle ::
    "ptr \<Rightarrow> (dymHttpFilterHandle \<Rightarrow> upcall option \<times> dymHttpFilterHandle) \<Rightarrow> 'h hook" where
  "with_handle p body w =
     go_bind (unwrap_handle w p) (\<lambda>m.
       case m of None \<Rightarrow> Ret (None, w)
       | Some hnd \<Rightarrow> (let (u, hnd') = body hnd in Ret (u, set_handle w p hnd')))"

section \<open>The hooks of a running request\<close>

definition on_request_headers :: "ptr \<Rightarrow> bool \<Rightarrow> 'h hook" where
  "on_request_headers p endOfStream = with_handle p (\<lambda>hnd.
     case plugin hnd of None \<Rightarrow> (None, hnd)
     | Some pl \<Rightarrow> (Some (UOnRequestHeaders pl (requestHeaderMap hnd) endOfStream), hnd))"

definition on_request_body :: "ptr \<Rightarrow> bool \<Rightarrow> 'h hook" where
  "on_request_body p endOfStream = with_handle p (\<lambda>hnd.
     case plugin hnd of None \<Rightarrow> (None, hnd)
     | Some pl \<Rightarrow> (Some (UOnRequestBody pl (receivedRequestBody hnd) endOfStream), hnd))"

definition on_request_trailers :: "ptr \<Rightarrow> 'h hook" where
  "on_request_trailers p = with_handle p (\<lambda>hnd.
     case plugin hnd of None \<Rightarrow> (None, hnd)
     | Some pl \<Rightarrow> (Some (UOnRequestTrailers pl (requestTrailerMap hnd)), hnd))"

definition on_response_headers :: "ptr \<Rightarrow> bool \<Rightarrow> 'h hook" where
  "on_response_headers p endOfStream = with_handle p (\<lambda>hnd.
     if localResponseSent hnd then (None, hnd)
     else case plugin hnd of None \<Rightarrow> (None, hnd)
     | Some pl \<Rightarrow> (Some (UOnResponseHeaders pl (responseHeaderMap hnd) endOfStream), hnd))"

definition on_response_body :: "ptr \<Rightarrow> bool \<Rightarrow> 'h hook" where
  "on_response_body p endOfStream = with_handle p (\<lambda>hnd.
     if localResponseSent hnd then (None, hnd)
     else case plugin hnd of None \<Rightarrow> (None, hnd)
     | Some pl \<Rightarrow> (Some (UOnResponseBody pl (receivedResponseBody hnd) endOfStream), hnd))"

definition on_response_trailers :: "ptr \<Rightarrow> 'h hook" where
  "on_response_trailers p = with_handle p (\<lambda>hnd.
     if localResponseSent hnd then (None, hnd)
     else case plugin hnd of None \<Rightarrow> (None, hnd)
     | Some pl \<Rightarrow> (Some (UOnResponseTrailers pl (responseTrailerMap hnd)), hnd))"

definition on_stream_complete :: "ptr \<Rightarrow> 'h hook" where
  "on_stream_complete p w =
     go_bind (unwrap_handle w p) (\<lambda>m.
       case m of None \<Rightarrow> Ret (None, w)
       | Some hnd \<Rightarrow>
           (case plugin hnd of None \<Rightarrow> Ret (None, w)
            | Some pl \<Rightarrow>
                (let hnd' = hnd\<lparr>streamCompleted := True\<rparr>
                 in Ret (Some (UOnStreamComplete pl),
                         (set_handle w p hnd')\<lparr>w_shared := hd_clearData (w_shared w) hnd'\<rparr>))))"

definition on_scheduled :: "ptr \<Rightarrow> u64 \<Rightarrow> 'h hook" where
  "on_scheduled p taskID = with_handle p (\<lambda>hnd.
     case scheduler hnd of None \<Rightarrow> (None, hnd)
     | Some s \<Rightarrow>
         (if streamCompleted hnd then (None, hnd)
          else (let (task, s') = sched_onScheduled s taskID
                in (map_option UTask task, hnd\<lparr>scheduler := Some s'\<rparr>))))"

definition on_http_callout_done ::
    "ptr \<Rightarrow> u64 \<Rightarrow> u32 \<Rightarrow> envoy_http_header list \<Rightarrow> envoy_buffer list \<Rightarrow> 'h hook" where
  "on_http_callout_done p calloutID result headers chunks = with_handle p (\<lambda>hnd.
     if streamCompleted hnd then (None, hnd)
     else (let resultHeaders = envoyHttpHeaderSliceToUnsafeHeaderSlice headers;
               resultChunks = envoyBufferSliceToUnsafeEnvoyBufferSlice chunks
           in case go_map_get (calloutCallbacks hnd) calloutID of
                None \<Rightarrow> (None, hnd)
              | Some cb \<Rightarrow>
                  (Some (UOnHttpCalloutDone cb calloutID result resultHeaders resultChunks),
                   hnd\<lparr>calloutCallbacks := go_map_delete (calloutCallbacks hnd) calloutID\<rparr>)))"

definition on_http_stream_headers :: "ptr \<Rightarrow> u64 \<Rightarrow> envoy_http_header list \<Rightarrow> bool \<Rightarrow> 'h hook" where
  "on_http_stream_headers p streamID headers endOfStream = with_handle p (\<lambda>hnd.
     if streamCompleted hnd then (None, hnd)
     else case go_map_get (streamCallbacks hnd) streamID of
            None \<Rightarrow> (None, hnd)
          | Some cb \<Rightarrow> (Some (UOnHttpStreamHeaders cb streamID
              (envoyHttpHeaderSliceToUnsafeHeaderSlice headers) endOfStream), hnd))"

definition on_http_stream_data :: "ptr \<Rightarrow> u64 \<Rightarrow> envoy_buffer list \<Rightarrow> bool \<Rightarrow> 'h hook" where
  "on_http_stream_data p streamID chunks endOfStream = with_handle p (\<lambda>hnd.
     if streamCompleted hnd then (None, hnd)
     else case go_map_get (streamCallbacks hnd) streamID of
            None \<Rightarrow> (None, hnd)
          | Some cb \<Rightarrow> (Some (UOnHttpStreamData cb streamID
              (envoyBufferSliceToUnsafeEnvoyBufferSlice chunks) endOfStream), hnd))"

definition on_http_stream_trailers :: "ptr \<Rightarrow> u64 \<Rightarrow> envoy_http_header list \<Rightarrow> 'h hook" where
  "on_http_stream_trailers p streamID trailers = with_handle p (\<lambda>hnd.
     if streamCompleted hnd then (None, hnd)
     else case go_map_get (streamCallbacks hnd) streamID of
            None \<Rightarrow> (None, hnd)
          | Some cb \<Rightarrow> (Some (UOnHttpStreamTrailers cb streamID
              (envoyHttpHeaderSliceToUnsafeHeaderSlice trailers)), hnd))"

definition on_http_stream_complete :: "ptr \<Rightarrow> u64 \<Rightarrow> 'h hook" where
  "on_http_stream_complete p streamID = with_handle p (\<lambda>hnd.
     if streamCompleted hnd then (None, hnd)
     else case go_map_get (streamCallbacks hnd) streamID of
            None \<Rightarrow> (None, hnd)
          | Some cb \<Rightarrow> (Some (UOnHttpStreamComplete cb streamID),
              hnd\<lparr>streamCallbacks := go_map_delete (streamCallbacks hnd) streamID\<rparr>))"

definition on_http_stream_reset :: "ptr \<Rightarrow> u64 \<Rightarrow> u32 \<Rightarrow> 'h hook" where
  "on_http_stream_reset p streamID reason = with_handle p (\<lambda>hnd.
     if streamCompleted hnd then (None, hnd)
     else case go_map_get (streamCallbacks hnd) streamID of
            None \<Rightarrow> (None, hnd)
          | Some cb \<Rightarrow> (Some (UOnHttpStreamReset cb streamID reason),
              hnd\<lparr>streamCallbacks := go_map_delete (streamCallbacks hnd) streamID\<rparr>))"

definition on_above_watermark :: "ptr \<Rightarrow> 'h hook" where
  "on_above_watermark p = with_handle p (\<lambda>hnd.
     if streamCompleted hnd then (None, hnd)
     else (map_option UOnAboveWatermark (downstreamWatermarkCallbacks hnd), hnd))"

definition on_below_watermark :: "ptr \<Rightarrow> 'h hook" where
  "on_below_watermark p = with_handle p (\<lambda>hnd.
     if streamCompleted hnd then (None, hnd)
     else (map_option UOnBelowWatermark (downstreamWatermarkCallbacks hnd), hnd))"

definition on_local_reply :: "ptr \<Rightarrow> u32 \<Rightarrow> envoy_buffer \<Rightarrow> bool \<Rightarrow> 'h hook" where
  "on_local_reply p response_code details reset_imminent = with_handle p (\<lambda>hnd.
     case plugin hnd of None \<Rightarrow> (None, hnd)
     | Some pl \<Rightarrow> (Some (UOnLocalReply pl response_code (envoyBufferToUnsafeEnvoyBuffer details)
         reset_imminent), hnd))"

text \<open>All of them, by the event. Without a call the hook returns status 0, which is \<open>Continue\<close>.\<close>

fun hook_of :: "event \<Rightarrow> ptr \<Rightarrow> 'h hook" where
  "hook_of (RequestHeaders eos) p = on_request_headers p eos"
| "hook_of (RequestBody eos) p = on_request_body p eos"
| "hook_of RequestTrailers p = on_request_trailers p"
| "hook_of (ResponseHeaders eos) p = on_response_headers p eos"
| "hook_of (ResponseBody eos) p = on_response_body p eos"
| "hook_of ResponseTrailers p = on_response_trailers p"
| "hook_of StreamComplete p = on_stream_complete p"
| "hook_of (LocalReply code details imminent) p = on_local_reply p code details imminent"
| "hook_of (Scheduled i) p = on_scheduled p i"
| "hook_of (CalloutDone i r hs cs) p = on_http_callout_done p i r hs cs"
| "hook_of (HttpStreamHeaders i hs eos) p = on_http_stream_headers p i hs eos"
| "hook_of (HttpStreamData i cs eos) p = on_http_stream_data p i cs eos"
| "hook_of (HttpStreamTrailers i hs) p = on_http_stream_trailers p i hs"
| "hook_of (HttpStreamComplete i) p = on_http_stream_complete p i"
| "hook_of (HttpStreamReset i r) p = on_http_stream_reset p i r"
| "hook_of AboveWatermark p = on_above_watermark p"
| "hook_of BelowWatermark p = on_below_watermark p"

text \<open>
  A handle method called by the code that holds handle \<open>p\<close>, up to the return of Envoy's function and
  from there; and the code as a whole, with the hooks Envoy runs inline. Envoy runs a hook for a filter
  that is live, or for the one whose code is running, which \<open>OnDestroy\<close> finds no longer live.
\<close>

definition log_upcall :: "ptr \<Rightarrow> upcall \<Rightarrow> 'h world \<Rightarrow> 'h world" where
  "log_upcall p u w = w\<lparr>w_trace := w_trace w @ [(p, u)]\<rparr>"

definition log_note :: "ptr \<Rightarrow> upcall option \<Rightarrow> 'h world \<Rightarrow> 'h world" where
  "log_note p n w = (case n of None \<Rightarrow> w | Some u \<Rightarrow> log_upcall p u w)"

definition call_begin :: "'h binding \<Rightarrow> ptr \<Rightarrow> 'h api_call \<Rightarrow> 'h world \<Rightarrow> ((u32 \<times> u64) \<times> 'h world) go" where
  "call_begin b p c w =
     (case w_handles w p of
        None \<Rightarrow> Panic crash
      | Some hnd \<Rightarrow>
          (let (r, sd, hnd', h') = api_effect b c (w_shared w) hnd (w_host w)
           in Ret (r, log_note p (note_before c) ((set_handle w p hnd')\<lparr>w_shared := sd, w_host := h'\<rparr>))))"

definition call_return :: "ptr \<Rightarrow> 'h api_call \<Rightarrow> u32 \<times> u64 \<Rightarrow> 'h world \<Rightarrow> 'h world go" where
  "call_return p c r w =
     (case w_handles w p of
        None \<Rightarrow> Panic crash
      | Some hnd \<Rightarrow> Ret (log_note p (note_after c r) (set_handle w p (api_return c r hnd))))"

fun run_ops :: "'h binding \<Rightarrow> ptr \<Rightarrow> 'h op list \<Rightarrow> 'h world \<Rightarrow> 'h world go"
  and run_op :: "'h binding \<Rightarrow> ptr \<Rightarrow> 'h op \<Rightarrow> 'h world \<Rightarrow> 'h world go"
  and run_inlines :: "'h binding \<Rightarrow> ptr \<Rightarrow> 'h inline list \<Rightarrow> 'h world \<Rightarrow> 'h world go"
  and run_inline :: "'h binding \<Rightarrow> ptr \<Rightarrow> 'h inline \<Rightarrow> 'h world \<Rightarrow> 'h world go"
  and run_script :: "'h binding \<Rightarrow> ptr \<Rightarrow> 'h script \<Rightarrow> 'h world \<Rightarrow> 'h world go" where
  "run_ops b p [] w = Ret w"
| "run_ops b p (a # as) w = go_bind (run_op b p a w) (\<lambda>w'. run_ops b p as w')"
| "run_op b p (Call c is) w =
     go_bind (call_begin b p c w) (\<lambda>r.
     go_bind (run_inlines b p is (snd r)) (\<lambda>w'. call_return p c (fst r) w'))"
| "run_inlines b p [] w = Ret w"
| "run_inlines b p (i # is) w = go_bind (run_inline b p i w) (\<lambda>w'. run_inlines b p is w')"
| "run_inline b p (Inline ev q sc) w =
     (if q \<notin> insert p (w_live w) then Ret w
      else go_bind (hook_of ev q w) (\<lambda>r.
        case r of (None, w1) \<Rightarrow> Ret w1
        | (Some u, w1) \<Rightarrow> run_script b q sc (log_upcall q u w1)))"
| "run_script b p (Script ops r) w = run_ops b p ops w"

definition run_event :: "'h binding \<Rightarrow> event \<Rightarrow> ptr \<Rightarrow> 'h script \<Rightarrow> 'h world \<Rightarrow> (u32 \<times> 'h world) go" where
  "run_event b ev p sc w =
     go_bind (hook_of ev p w) (\<lambda>r.
       case r of (None, w1) \<Rightarrow> Ret (0, w1)
       | (Some u, w1) \<Rightarrow> go_bind (run_script b p sc (log_upcall p u w1)) (\<lambda>w2. Ret (script_result sc, w2)))"

section \<open>Creation and destruction of a request's filter\<close>

text \<open>
  \<open>dymHttpFilterHandlePool.Get()\<close>: the pool may hand out any of its elements or call \<open>New\<close>; \<open>choice\<close> is
  its choice, an element, or the address at which a new zero handle is allocated.
\<close>

datatype pool_choice = Reuse ptr | Fresh ptr

definition pool_get :: "pool_choice \<Rightarrow> 'h world \<Rightarrow> ptr \<times> 'h world" where
  "pool_get choice w =
     (case choice of
        Reuse q \<Rightarrow> (q, w\<lparr>w_pool := remove1 q (w_pool w)\<rparr>)
      | Fresh q \<Rightarrow> (q, set_handle w q zero_handle))"

definition choice_ok :: "pool_choice \<Rightarrow> 'h world \<Rightarrow> bool" where
  "choice_ok choice w =
     (case choice of Reuse q \<Rightarrow> q \<in> set (w_pool w) | Fresh q \<Rightarrow> q \<noteq> 0 \<and> w_handles w q = None)"

definition newDymStreamPluginHandle ::
    "pool_choice \<Rightarrow> http_filter_envoy_ptr \<Rightarrow> 'h world \<Rightarrow> (ptr \<times> 'h world) go" where
  "newDymStreamPluginHandle choice host w =
     (let (q, w1) = pool_get choice w
      in case w_handles w1 q of
           None \<Rightarrow> Panic crash
         | Some hnd \<Rightarrow> go_bind (hd_reset hnd host) (\<lambda>hnd'. Ret (q, set_handle w1 q hnd')))"

text \<open>
  \<open>created\<close> is what the factory's \<open>Create\<close> returns, after it ran the script. The pointer is what the
  hook returns to Envoy.
\<close>

definition on_http_filter_new ::
    "'h binding \<Rightarrow> ptr \<Rightarrow> http_filter_envoy_ptr \<Rightarrow> pool_choice \<Rightarrow> 'h script \<Rightarrow> objref option \<Rightarrow> 'h world \<Rightarrow>
      (ptr \<times> 'h world) go" where
  "on_http_filter_new b pluginConfigPtr host choice sc created w =
     (let cfg = mgr_unwrap (w_configManager w) pluginConfigPtr
      in if cfg = 0 then Ret (0, w)
         else case w_configs w cfg of
           None \<Rightarrow> Panic crash
         | Some fw \<Rightarrow>
             go_bind (newDymStreamPluginHandle choice host w) (\<lambda>r. case r of (q, w1) \<Rightarrow>
             go_bind (run_script b q sc (log_upcall q (UCreate (fw_pluginFactory fw) q) w1)) (\<lambda>w2.
             case w_handles w2 q of
               None \<Rightarrow> Panic crash
             | Some hnd \<Rightarrow>
                 (let w3 = set_handle w2 q (hnd\<lparr>plugin := created\<rparr>);
                      (pluginPtr, m) = mgr_record (w_plugins w3) q
                  in Ret (pluginPtr, w3\<lparr>w_plugins := m, w_live := insert q (w_live w3)\<rparr>)))))"

definition on_http_filter_destroy ::
    "'h binding \<Rightarrow> ptr \<Rightarrow> 'h script \<Rightarrow> 'h world \<Rightarrow> 'h world go" where
  "on_http_filter_destroy b p sc w =
     go_bind (unwrap_handle w p) (\<lambda>m.
       case m of None \<Rightarrow> Ret w
       | Some hnd \<Rightarrow>
           (if streamDestoried hnd then Ret w
            else (let w1 = (set_handle w p (hnd\<lparr>streamDestoried := True\<rparr>))\<lparr>w_live := w_live w - {p}\<rparr>
                  in go_bind (case plugin hnd of
                                None \<Rightarrow> Ret w1
                              | Some pl \<Rightarrow> run_script b p sc (log_upcall p (UOnDestroy pl) w1)) (\<lambda>w2.
                     case w_handles w2 p of
                       None \<Rightarrow> Panic crash
                     | Some hnd2 \<Rightarrow>
                         Ret ((set_handle w2 p (hnd2\<lparr>plugin := None, scheduler := None\<rparr>))\<lparr>
                           w_plugins := mgr_remove (w_plugins w2) p,
                           w_pool := p # w_pool w2\<rparr>)))))"

end
