(* ===== verification/ConfigHooks.thy ===== *)
theory ConfigHooks
  imports HttpHooks
begin

text \<open>
  The hooks of abi_impl/internal.go for filter configurations and route configurations: loading one
  finds the factory by name and pins what it returns; a configuration has callouts, streams and a
  scheduler of its own, delivered until it is destroyed.
\<close>

section \<open>The factory author's code\<close>

datatype 'h config_call =
    ConfigToEnvoy "'h \<Rightarrow> 'h"
  | ConfigGetScheduler
  | ConfigHttpCallout gostring "(gostring \<times> gostring) list" "bytes option" u64 "objref option"
  | ConfigStartHttpStream gostring "(gostring \<times> gostring) list" "bytes option" bool u64 "objref option"

fun config_effect ::
    "'h host_schedulers \<Rightarrow> 'h host_stream_2 \<Rightarrow> go_runtime \<Rightarrow> 'h config_call \<Rightarrow>
      dymConfigHandle \<times> 'h \<Rightarrow> dymConfigHandle \<times> 'h" where
  "config_effect S R2 rt (ConfigToEnvoy f) (c, h) = (c, f h)"
| "config_effect S R2 rt ConfigGetScheduler (c, h) = cf_GetScheduler S c h"
| "config_effect S R2 rt (ConfigHttpCallout cluster headers body timeoutMs cb) (c, h) =
     snd (cf_HttpCallout R2 rt c cluster headers body timeoutMs cb h)"
| "config_effect S R2 rt (ConfigStartHttpStream cluster headers body eos timeoutMs cb) (c, h) =
     snd (cf_StartHttpStream R2 rt c cluster headers body eos timeoutMs cb h)"

definition set_config :: "'h world \<Rightarrow> ptr \<Rightarrow> httpFilterConfigWrapper \<Rightarrow> 'h world" where
  "set_config w c fw = w\<lparr>w_configs := (w_configs w)(c \<mapsto> fw)\<rparr>"

text \<open>The calls the code makes through the handle of configuration \<open>c\<close>.\<close>

definition run_config_calls ::
    "'h host_schedulers \<Rightarrow> 'h host_stream_2 \<Rightarrow> go_runtime \<Rightarrow> ptr \<Rightarrow> 'h config_call list \<Rightarrow> 'h world \<Rightarrow>
      'h world go" where
  "run_config_calls S R2 rt c calls w =
     (case w_configs w c of
        None \<Rightarrow> Panic crash
      | Some fw \<Rightarrow>
          (let (ch, h) = foldl (\<lambda>st a. config_effect S R2 rt a st) (fw_configHandle fw, w_host w) calls
           in Ret ((set_config w c (fw\<lparr>fw_configHandle := ch\<rparr>))\<lparr>w_host := h\<rparr>)))"

section \<open>Loading and unloading\<close>

definition LogLevelWarn_value :: u32 where
  "LogLevelWarn_value = of_nat (LogLevel_value LogLevelWarn)"

text \<open>An error as the argument of a format: a nil error is the nil interface.\<close>

definition any_error :: "gostring option \<Rightarrow> go_any" where
  "any_error err = (case err of None \<Rightarrow> AnyNil | Some e \<Rightarrow> AnyError e)"

text \<open>
  \<open>tbl\<close> is the table of factories (sdk.go); a factory's \<open>Create\<close> acts on the new configuration handle
  and on Envoy. \<open>alloc\<close> is the address of the wrapper. A result of 0 makes Envoy reject the
  configuration.
\<close>

definition on_http_filter_config_new ::
    "('h \<Rightarrow> mem) \<Rightarrow> 'h host_log \<Rightarrow> go_runtime \<Rightarrow> (dymConfigHandle \<times> 'h, objref, objref) factory_table \<Rightarrow>
      ptr \<Rightarrow> http_filter_config_envoy_ptr \<Rightarrow> envoy_buffer \<Rightarrow> envoy_buffer \<Rightarrow> 'h world \<Rightarrow> (ptr \<times> 'h world) go" where
  "on_http_filter_config_new memory G rt tbl alloc hostConfigPtr name config w =
     go_bind (envoyBufferToStringUnsafe (memory (w_host w)) name) (\<lambda>nameString.
     go_bind (envoyBufferToBytesUnsafe (memory (w_host w)) config) (\<lambda>configBytes.
     (case NewHttpFilterFactory tbl nameString configBytes (new_config_handle hostConfigPtr, w_host w) of
        ((factory, err), configHandle, h) \<Rightarrow>
          (if err \<noteq> None \<or> factory = None
           then Ret (0, w\<lparr>w_host := cf_Log G rt configHandle LogLevelWarn_value
                  ''Failed to load configuration: %v'' [any_error err] h\<rparr>)
           else (let (configPtr, m) = mgr_record (w_configManager w) alloc
                 in Ret (configPtr, (set_config w alloc
                      \<lparr>fw_pluginFactory = the factory, fw_configHandle = configHandle\<rparr>)\<lparr>
                        w_configManager := m, w_liveConfigs := insert alloc (w_liveConfigs w), w_host := h\<rparr>))))))"

definition log_config :: "ptr \<Rightarrow> upcall \<Rightarrow> 'h world \<Rightarrow> 'h world" where
  "log_config c u w = w\<lparr>w_configTrace := w_configTrace w @ [(c, u)]\<rparr>"

text \<open>\<open>calls\<close> is what the factory's \<open>OnDestroy\<close> does through the configuration handle.\<close>

definition on_http_filter_config_destroy ::
    "'h host_schedulers \<Rightarrow> 'h host_stream_2 \<Rightarrow> go_runtime \<Rightarrow> ptr \<Rightarrow> 'h config_call list \<Rightarrow> 'h world \<Rightarrow>
      'h world go" where
  "on_http_filter_config_destroy S R2 rt configPtr calls w =
     (let c = mgr_unwrap (w_configManager w) configPtr
      in if c = 0 then Ret w
         else case w_configs w c of
           None \<Rightarrow> Panic crash
         | Some fw \<Rightarrow>
             (let w1 = (set_config w c (fw\<lparr>fw_configHandle := (fw_configHandle fw)\<lparr>cf_scheduler := None\<rparr>\<rparr>))\<lparr>
                         w_liveConfigs := w_liveConfigs w - {c}\<rparr>
              in go_bind (run_config_calls S R2 rt c calls (log_config c (UFactoryDestroy (fw_pluginFactory fw)) w1))
                   (\<lambda>w2. Ret (w2\<lparr>w_configManager := mgr_remove (w_configManager w2) configPtr\<rparr>))))"

definition on_http_filter_per_route_config_new ::
    "('h \<Rightarrow> mem) \<Rightarrow> 'h host_log \<Rightarrow> go_runtime \<Rightarrow> (dymConfigHandle \<times> 'h, objref, objref) factory_table \<Rightarrow>
      ptr \<Rightarrow> envoy_buffer \<Rightarrow> envoy_buffer \<Rightarrow> 'h world \<Rightarrow> (ptr \<times> 'h world) go" where
  "on_http_filter_per_route_config_new memory G rt tbl alloc name config w =
     go_bind (envoyBufferToStringUnsafe (memory (w_host w)) name) (\<lambda>nameStr.
     go_bind (envoyBufferToBytesUnsafe (memory (w_host w)) config) (\<lambda>configBytes.
     (case GetHttpFilterConfigFactory tbl nameStr of
        None \<Rightarrow> Ret (0, w\<lparr>w_host := rc_Log G rt LogLevelWarn_value
                 ''Failed to load configuration: no factory for %s'' [AnyString nameStr] (w_host w)\<rparr>)
      | Some configFactory \<Rightarrow>
          (let (parsedConfig, err) = fac_CreatePerRoute configFactory configBytes
           in if err \<noteq> None \<or> parsedConfig = None
              then Ret (0, w\<lparr>w_host := rc_Log G rt LogLevelWarn_value
                     ''Failed to load per-route configuration: %v'' [any_error err] (w_host w)\<rparr>)
              else (let (configPtr, m) = mgr_record (w_perRouteManager w) alloc
                    in Ret (configPtr, w\<lparr>w_perRoute := (w_perRoute w)(alloc := parsedConfig),
                         w_perRouteManager := m\<rparr>))))))"

definition on_http_filter_per_route_config_destroy :: "ptr \<Rightarrow> 'h world \<Rightarrow> 'h world" where
  "on_http_filter_per_route_config_destroy configPtr w =
     w\<lparr>w_perRouteManager := mgr_remove (w_perRouteManager w) configPtr\<rparr>"

section \<open>The events of a configuration\<close>

definition with_config ::
    "ptr \<Rightarrow> (dymConfigHandle \<Rightarrow> upcall option \<times> dymConfigHandle) \<Rightarrow> 'h hook" where
  "with_config p body w =
     (let c = mgr_unwrap (w_configManager w) p
      in if c = 0 then Ret (None, w)
         else case w_configs w c of
           None \<Rightarrow> Panic crash
         | Some fw \<Rightarrow> (let (u, ch) = body (fw_configHandle fw)
                      in Ret (u, set_config w c (fw\<lparr>fw_configHandle := ch\<rparr>))))"

definition on_config_http_callout_done ::
    "ptr \<Rightarrow> u64 \<Rightarrow> u32 \<Rightarrow> envoy_http_header list \<Rightarrow> envoy_buffer list \<Rightarrow> 'h hook" where
  "on_config_http_callout_done p calloutID result headers chunks = with_config p (\<lambda>ch.
     (let resultHeaders = envoyHttpHeaderSliceToUnsafeHeaderSlice headers;
          resultChunks = envoyBufferSliceToUnsafeEnvoyBufferSlice chunks
      in case go_map_get (cf_calloutCallbacks ch) calloutID of
           None \<Rightarrow> (None, ch)
         | Some cb \<Rightarrow>
             (Some (UOnHttpCalloutDone cb calloutID result resultHeaders resultChunks),
              ch\<lparr>cf_calloutCallbacks := go_map_delete (cf_calloutCallbacks ch) calloutID\<rparr>)))"

definition on_config_http_stream_headers :: "ptr \<Rightarrow> u64 \<Rightarrow> envoy_http_header list \<Rightarrow> bool \<Rightarrow> 'h hook" where
  "on_config_http_stream_headers p streamID headers endOfStream = with_config p (\<lambda>ch.
     case go_map_get (cf_streamCallbacks ch) streamID of
       None \<Rightarrow> (None, ch)
     | Some cb \<Rightarrow> (Some (UOnHttpStreamHeaders cb streamID
         (envoyHttpHeaderSliceToUnsafeHeaderSlice headers) endOfStream), ch))"

definition on_config_http_stream_data :: "ptr \<Rightarrow> u64 \<Rightarrow> envoy_buffer list \<Rightarrow> bool \<Rightarrow> 'h hook" where
  "on_config_http_stream_data p streamID chunks endOfStream = with_config p (\<lambda>ch.
     case go_map_get (cf_streamCallbacks ch) streamID of
       None \<Rightarrow> (None, ch)
     | Some cb \<Rightarrow> (Some (UOnHttpStreamData cb streamID
         (envoyBufferSliceToUnsafeEnvoyBufferSlice chunks) endOfStream), ch))"

definition on_config_http_stream_trailers :: "ptr \<Rightarrow> u64 \<Rightarrow> envoy_http_header list \<Rightarrow> 'h hook" where
  "on_config_http_stream_trailers p streamID trailers = with_config p (\<lambda>ch.
     case go_map_get (cf_streamCallbacks ch) streamID of
       None \<Rightarrow> (None, ch)
     | Some cb \<Rightarrow> (Some (UOnHttpStreamTrailers cb streamID
         (envoyHttpHeaderSliceToUnsafeHeaderSlice trailers)), ch))"

definition on_config_http_stream_complete :: "ptr \<Rightarrow> u64 \<Rightarrow> 'h hook" where
  "on_config_http_stream_complete p streamID = with_config p (\<lambda>ch.
     case go_map_get (cf_streamCallbacks ch) streamID of
       None \<Rightarrow> (None, ch)
     | Some cb \<Rightarrow> (Some (UOnHttpStreamComplete cb streamID),
         ch\<lparr>cf_streamCallbacks := go_map_delete (cf_streamCallbacks ch) streamID\<rparr>))"

definition on_config_http_stream_reset :: "ptr \<Rightarrow> u64 \<Rightarrow> u32 \<Rightarrow> 'h hook" where
  "on_config_http_stream_reset p streamID reason = with_config p (\<lambda>ch.
     case go_map_get (cf_streamCallbacks ch) streamID of
       None \<Rightarrow> (None, ch)
     | Some cb \<Rightarrow> (Some (UOnHttpStreamReset cb streamID reason),
         ch\<lparr>cf_streamCallbacks := go_map_delete (cf_streamCallbacks ch) streamID\<rparr>))"

definition on_config_scheduled :: "ptr \<Rightarrow> u64 \<Rightarrow> 'h hook" where
  "on_config_scheduled p taskID = with_config p (\<lambda>ch.
     case cf_scheduler ch of
       None \<Rightarrow> (None, ch)
     | Some s \<Rightarrow> (let (task, s') = sched_onScheduled s taskID
                 in (map_option UTask task, ch\<lparr>cf_scheduler := Some s'\<rparr>)))"

datatype config_event =
    ConfigCalloutDone u64 u32 "envoy_http_header list" "envoy_buffer list"
  | ConfigStreamHeaders u64 "envoy_http_header list" bool
  | ConfigStreamData u64 "envoy_buffer list" bool
  | ConfigStreamTrailers u64 "envoy_http_header list"
  | ConfigStreamComplete u64
  | ConfigStreamReset u64 u32
  | ConfigScheduled u64

fun config_hook_of :: "config_event \<Rightarrow> ptr \<Rightarrow> 'h hook" where
  "config_hook_of (ConfigCalloutDone i r hs cs) p = on_config_http_callout_done p i r hs cs"
| "config_hook_of (ConfigStreamHeaders i hs eos) p = on_config_http_stream_headers p i hs eos"
| "config_hook_of (ConfigStreamData i cs eos) p = on_config_http_stream_data p i cs eos"
| "config_hook_of (ConfigStreamTrailers i hs) p = on_config_http_stream_trailers p i hs"
| "config_hook_of (ConfigStreamComplete i) p = on_config_http_stream_complete p i"
| "config_hook_of (ConfigStreamReset i r) p = on_config_http_stream_reset p i r"
| "config_hook_of (ConfigScheduled i) p = on_config_scheduled p i"

definition run_config_event ::
    "'h host_schedulers \<Rightarrow> 'h host_stream_2 \<Rightarrow> go_runtime \<Rightarrow> config_event \<Rightarrow> ptr \<Rightarrow> 'h config_call list \<Rightarrow>
      'h world \<Rightarrow> 'h world go" where
  "run_config_event S R2 rt ev c calls w =
     go_bind (config_hook_of ev c w) (\<lambda>r.
       case r of (None, w1) \<Rightarrow> Ret w1
       | (Some u, w1) \<Rightarrow> run_config_calls S R2 rt c calls (log_config c u w1))"

section \<open>The hooks touch configurations only\<close>

definition same_requests :: "'h world \<Rightarrow> 'h world \<Rightarrow> bool" where
  "same_requests w w' \<longleftrightarrow>
     w_handles w' = w_handles w \<and> w_pool w' = w_pool w \<and> w_live w' = w_live w \<and>
     w_plugins w' = w_plugins w \<and> w_shared w' = w_shared w \<and> w_trace w' = w_trace w"

text \<open>\<open>config_kept c\<close>: the configurations are the same ones, only the handle of \<open>c\<close> may have changed.\<close>

definition config_kept :: "ptr \<Rightarrow> 'h world \<Rightarrow> 'h world \<Rightarrow> bool" where
  "config_kept c w w' \<longleftrightarrow> same_requests w w' \<and> w_liveConfigs w' = w_liveConfigs w \<and>
     w_configManager w' = w_configManager w \<and>
     rel_option (\<lambda>a a'. fw_pluginFactory a' = fw_pluginFactory a) (w_configs w c) (w_configs w' c) \<and>
     (\<forall>d. d \<noteq> c \<longrightarrow> w_configs w' d = w_configs w d)"

lemma config_kept_trans: "config_kept c w w1 \<Longrightarrow> config_kept c w1 w2 \<Longrightarrow> config_kept c w w2"
  by (cases "w_configs w c"; cases "w_configs w1 c"; cases "w_configs w2 c")
    (simp_all add: config_kept_def same_requests_def)

lemma config_kept_log: "config_kept c w (log_config p u w)"
  by (cases "w_configs w c") (simp_all add: config_kept_def same_requests_def log_config_def)

lemma config_kept_set:
  "w_configs w c = Some fw \<Longrightarrow> config_kept c w (set_config w c (fw\<lparr>fw_configHandle := ch\<rparr>))"
  by (simp add: config_kept_def same_requests_def set_config_def)

lemma config_calls_kept:
  assumes "w_configs w c \<noteq> None"
  shows "\<exists>w'. run_config_calls S R2 rt c calls w = Ret w' \<and> config_kept c w w'"
proof -
  from assms obtain fw where "w_configs w c = Some fw" by auto
  then show ?thesis
    by (auto simp: run_config_calls_def config_kept_def same_requests_def set_config_def
        split: prod.split)
qed

lemma with_config_kept:
  assumes "c \<noteq> 0" "w_configs w c \<noteq> None"
  shows "\<exists>u w'. with_config c body w = Ret (u, w') \<and> config_kept c w w'"
proof -
  from assms(2) obtain fw where fw: "w_configs w c = Some fw" by auto
  obtain u ch where "body (fw_configHandle fw) = (u, ch)" by (metis surj_pair)
  with assms(1) fw config_kept_set [OF fw, of ch] show ?thesis
    by (simp add: with_config_def mgr_unwrap_def)
qed

lemma config_hook_kept:
  "c \<noteq> 0 \<Longrightarrow> w_configs w c \<noteq> None \<Longrightarrow> \<exists>u w'. config_hook_of ev c w = Ret (u, w') \<and> config_kept c w w'"
  by (cases ev) (simp_all add: with_config_kept on_config_http_callout_done_def
      on_config_http_stream_headers_def on_config_http_stream_data_def
      on_config_http_stream_trailers_def on_config_http_stream_complete_def
      on_config_http_stream_reset_def on_config_scheduled_def)

lemma config_kept_some: "config_kept c w w' \<Longrightarrow> w_configs w c \<noteq> None \<Longrightarrow> w_configs w' c \<noteq> None"
  by (cases "w_configs w c"; cases "w_configs w' c") (simp_all add: config_kept_def)

lemma run_config_event_kept:
  assumes "c \<noteq> 0" "w_configs w c \<noteq> None"
  shows "\<exists>w'. run_config_event S R2 rt ev c calls w = Ret w' \<and> config_kept c w w'"
proof -
  from config_hook_kept [OF assms] obtain u w1 where
    w1: "config_hook_of ev c w = Ret (u, w1)" "config_kept c w w1" by blast
  show ?thesis
  proof (cases u)
    case None
    with w1 show ?thesis by (simp add: run_config_event_def)
  next
    case (Some x)
    have k: "config_kept c w (log_config c x w1)" using w1(2) config_kept_log config_kept_trans by blast
    from config_calls_kept [OF config_kept_some [OF k assms(2)]] obtain w2 where
      "run_config_calls S R2 rt c calls (log_config c x w1) = Ret w2"
      "config_kept c (log_config c x w1) w2" by blast
    with w1(1) Some config_kept_trans [OF k] show ?thesis by (simp add: run_config_event_def)
  qed
qed

end
