(* ===== verification/History.thy ===== *)
theory History
  imports ConfigHooks
begin

text \<open>
  The history of a handle: the entries of the module's trace with its pointer. What the code of the
  filter did and was called with determines the fields of the handle that decide about later calls:
  \<open>replay\<close> computes them from the history, and \<open>lawful\<close> says that no call was made that they forbid.
  The invariant \<open>history_ok\<close> relates the two for every handle in use.
\<close>

section \<open>The state a history leads to\<close>

record path_state =
  ps_sent :: bool
  ps_callouts :: "u64 \<Rightarrow> objref option"
  ps_streams :: "u64 \<Rightarrow> objref option"

definition new_path :: path_state where
  "new_path = \<lparr>ps_sent = False, ps_callouts = (\<lambda>_. None), ps_streams = (\<lambda>_. None)\<rparr>"

fun replay_one :: "path_state \<Rightarrow> upcall \<Rightarrow> path_state" where
  "replay_one s (UCreate f q) = new_path"
| "replay_one s (NSendLocalResponse status) = s\<lparr>ps_sent := True\<rparr>"
| "replay_one s (NCalloutRegistered i cb) = s\<lparr>ps_callouts := (ps_callouts s)(i := cb)\<rparr>"
| "replay_one s (UOnHttpCalloutDone cb i r hs cs) = s\<lparr>ps_callouts := (ps_callouts s)(i := None)\<rparr>"
| "replay_one s (NStreamRegistered i cb) = s\<lparr>ps_streams := (ps_streams s)(i := cb)\<rparr>"
| "replay_one s (UOnHttpStreamComplete cb i) = s\<lparr>ps_streams := (ps_streams s)(i := None)\<rparr>"
| "replay_one s (UOnHttpStreamReset cb i r) = s\<lparr>ps_streams := (ps_streams s)(i := None)\<rparr>"
| "replay_one s u = s"

definition replay :: "path_state \<Rightarrow> upcall list \<Rightarrow> path_state" where
  "replay = foldl replay_one"

text \<open>The calls that a state forbids.\<close>

fun response_call :: "upcall \<Rightarrow> bool" where
  "response_call (UOnResponseHeaders pl hm eos) = True"
| "response_call (UOnResponseBody pl bb eos) = True"
| "response_call (UOnResponseTrailers pl hm) = True"
| "response_call u = False"

fun stream_call :: "upcall \<Rightarrow> (u64 \<times> objref) option" where
  "stream_call (UOnHttpStreamHeaders cb i hs eos) = Some (i, cb)"
| "stream_call (UOnHttpStreamData cb i cs eos) = Some (i, cb)"
| "stream_call (UOnHttpStreamTrailers cb i hs) = Some (i, cb)"
| "stream_call (UOnHttpStreamComplete cb i) = Some (i, cb)"
| "stream_call (UOnHttpStreamReset cb i r) = Some (i, cb)"
| "stream_call u = None"

fun callout_call :: "upcall \<Rightarrow> (u64 \<times> objref) option" where
  "callout_call (UOnHttpCalloutDone cb i r hs cs) = Some (i, cb)"
| "callout_call u = None"

definition permitted :: "path_state \<Rightarrow> upcall \<Rightarrow> bool" where
  "permitted s u \<longleftrightarrow> (response_call u \<longrightarrow> \<not> ps_sent s) \<and>
     (case callout_call u of None \<Rightarrow> True | Some (i, cb) \<Rightarrow> ps_callouts s i = Some cb) \<and>
     (case stream_call u of None \<Rightarrow> True | Some (i, cb) \<Rightarrow> ps_streams s i = Some cb)"

fun lawful :: "path_state \<Rightarrow> upcall list \<Rightarrow> bool" where
  "lawful s [] = True"
| "lawful s (u # us) = (permitted s u \<and> lawful (replay_one s u) us)"

lemma replay_simps [simp]:
  "replay s [] = s" "replay s (u # us) = replay (replay_one s u) us"
  "replay s (us @ vs) = replay (replay s us) vs"
  by (simp_all add: replay_def)

lemma lawful_append [simp]: "lawful s (us @ vs) \<longleftrightarrow> lawful s us \<and> lawful (replay s us) vs"
  by (induction us arbitrary: s) auto

lemma lawful_entry: "lawful s (us @ u # vs) \<Longrightarrow> permitted (replay s us) u"
  by simp

section \<open>A field and the entries that set and clear it\<close>

text \<open>
  A condition on the state that holds after an entry that sets it, and otherwise if it held before an
  entry that does not clear it: it holds at the end of a history exactly if some entry set it and none
  after that cleared it.
\<close>

locale history_field =
  fixes holds :: "path_state \<Rightarrow> bool" and sets :: "upcall \<Rightarrow> bool" and clears :: "upcall \<Rightarrow> bool"
  assumes new: "\<not> holds new_path"
    and step: "holds (replay_one s u) \<longleftrightarrow> sets u \<or> \<not> clears u \<and> holds s"
begin

lemma lasts: "holds s \<Longrightarrow> \<forall>v\<in>set us. \<not> clears v \<Longrightarrow> holds (replay s us)"
  by (induction us arbitrary: s) (simp_all add: step)

lemma was_set:
  "holds (replay new_path us) \<Longrightarrow> \<exists>as u bs. us = as @ u # bs \<and> sets u \<and> (\<forall>v\<in>set bs. \<not> clears v)"
proof (induction us rule: rev_induct)
  case Nil
  with new show ?case by simp
next
  case (snoc u us)
  show ?case
  proof (cases "sets u")
    case True
    then show ?thesis by (intro exI [of _ us] exI [of _ u] exI [of _ "[]"]) simp
  next
    case False
    with snoc.prems have "holds (replay new_path us)" "\<not> clears u" by (simp_all add: step)
    with snoc.IH obtain as v bs where "us = as @ v # bs" "sets v" "\<forall>v\<in>set bs. \<not> clears v" by blast
    with \<open>\<not> clears u\<close> show ?thesis
      by (intro exI [of _ as] exI [of _ v] exI [of _ "bs @ [u]"]) auto
  qed
qed

lemma holds_after: "sets u \<Longrightarrow> \<forall>v\<in>set vs. \<not> clears v \<Longrightarrow> holds (replay new_path (us @ u # vs))"
  using lasts [of "replay_one (replay new_path us) u" vs] step by simp

end

fun is_create :: "upcall \<Rightarrow> bool" where
  "is_create (UCreate f q) = True"
| "is_create u = False"

fun is_local_response :: "upcall \<Rightarrow> bool" where
  "is_local_response (NSendLocalResponse status) = True"
| "is_local_response u = False"

text \<open>The entries after which the callback a method stored for \<open>i\<close> is no longer the one to call.\<close>

fun settles_callout :: "u64 \<Rightarrow> upcall \<Rightarrow> bool" where
  "settles_callout i (UCreate f q) = True"
| "settles_callout i (NCalloutRegistered j cb) = (j = i)"
| "settles_callout i (UOnHttpCalloutDone cb j r hs cs) = (j = i)"
| "settles_callout i u = False"

fun settles_stream :: "u64 \<Rightarrow> upcall \<Rightarrow> bool" where
  "settles_stream i (UCreate f q) = True"
| "settles_stream i (NStreamRegistered j cb) = (j = i)"
| "settles_stream i (UOnHttpStreamComplete cb j) = (j = i)"
| "settles_stream i (UOnHttpStreamReset cb j r) = (j = i)"
| "settles_stream i u = False"

interpretation sent: history_field ps_sent is_local_response is_create
proof
  show "\<not> ps_sent new_path" by (simp add: new_path_def)
  show "ps_sent (replay_one s u) \<longleftrightarrow> is_local_response u \<or> \<not> is_create u \<and> ps_sent s" for s u
    by (cases u) (simp_all add: new_path_def)
qed

interpretation callouts: history_field "\<lambda>s. ps_callouts s i = Some cb"
  "\<lambda>u. u = NCalloutRegistered i (Some cb)" "settles_callout i" for i cb
proof
  show "ps_callouts new_path i \<noteq> Some cb" by (simp add: new_path_def)
  show "ps_callouts (replay_one s u) i = Some cb \<longleftrightarrow>
      u = NCalloutRegistered i (Some cb) \<or> \<not> settles_callout i u \<and> ps_callouts s i = Some cb" for s u
    by (cases u) (auto simp: new_path_def)
qed

interpretation streams: history_field "\<lambda>s. ps_streams s i = Some cb"
  "\<lambda>u. u = NStreamRegistered i (Some cb)" "settles_stream i" for i cb
proof
  show "ps_streams new_path i \<noteq> Some cb" by (simp add: new_path_def)
  show "ps_streams (replay_one s u) i = Some cb \<longleftrightarrow>
      u = NStreamRegistered i (Some cb) \<or> \<not> settles_stream i u \<and> ps_streams s i = Some cb" for s u
    by (cases u) (auto simp: new_path_def)
qed

section \<open>The invariant\<close>

definition history :: "ptr \<Rightarrow> (ptr \<times> upcall) list \<Rightarrow> upcall list" where
  "history p tr = map snd (filter (\<lambda>e. fst e = p) tr)"

lemma history_simps [simp]:
  "history p [] = []"
  "history p ((q, u) # tr) = (if q = p then u # history p tr else history p tr)"
  "history p (tr @ tr') = history p tr @ history p tr'"
  "history p (map (Pair q) us) = (if q = p then us else [])"
  by (simp_all add: history_def comp_def filter_map)

text \<open>What the handle itself knows; and a handle in use: by a live request, or while its filter is
  created or destroyed.\<close>

definition path_of :: "dymHttpFilterHandle \<Rightarrow> path_state" where
  "path_of hnd = \<lparr>ps_sent = localResponseSent hnd, ps_callouts = go_map_get (calloutCallbacks hnd),
     ps_streams = go_map_get (streamCallbacks hnd)\<rparr>"

definition busy :: "ptr \<Rightarrow> 'h world \<Rightarrow> bool" where
  "busy p w \<longleftrightarrow> p \<noteq> 0 \<and> p \<notin> set (w_pool w) \<and> w_handles w p \<noteq> None"

definition history_ok :: "'h world \<Rightarrow> bool" where
  "history_ok w \<longleftrightarrow> (\<forall>p. lawful new_path (history p (w_trace w)) \<and>
     (\<forall>hnd. busy p w \<longrightarrow> w_handles w p = Some hnd \<longrightarrow> path_of hnd = replay new_path (history p (w_trace w))))"

lemma history_entry:
  assumes "history_ok w" "history p (w_trace w) = xs @ u # ys"
  shows "permitted (replay new_path xs) u"
proof -
  from assms(1) have "lawful new_path (history p (w_trace w))" by (simp add: history_ok_def)
  then show ?thesis unfolding assms(2) by (rule lawful_entry)
qed

text \<open>A step of a handle from \<open>hnd\<close> to \<open>hnd'\<close> with the entry it makes.\<close>

definition entries :: "upcall option \<Rightarrow> upcall list" where
  "entries u = (case u of None \<Rightarrow> [] | Some x \<Rightarrow> [x])"

definition advances :: "dymHttpFilterHandle \<Rightarrow> upcall option \<Rightarrow> dymHttpFilterHandle \<Rightarrow> bool" where
  "advances hnd u hnd' \<longleftrightarrow> lawful (path_of hnd) (entries u) \<and> path_of hnd' = replay (path_of hnd) (entries u)"

lemma entries_simps [simp]: "entries None = []" "entries (Some x) = [x]"
  by (simp_all add: entries_def)

lemma log_note_simps [simp]:
  "w_trace (log_note p u w) = w_trace w @ map (Pair p) (entries u)"
  "w_handles (log_note p u w) = w_handles w" "w_pool (log_note p u w) = w_pool w"
  "w_live (log_note p u w) = w_live w" "w_plugins (log_note p u w) = w_plugins w"
  "w_configs (log_note p u w) = w_configs w" "w_configManager (log_note p u w) = w_configManager w"
  "w_liveConfigs (log_note p u w) = w_liveConfigs w" "w_shared (log_note p u w) = w_shared w"
  by (cases u; simp add: log_note_def log_upcall_def)+

lemma log_note_None [simp]: "log_note p None w = w" and log_note_Some [simp]: "log_note p (Some x) w = log_upcall p x w"
  by (simp_all add: log_note_def)

lemma history_ok_advance:
  assumes "history_ok w" "busy p w" "w_handles w p = Some hnd" "advances hnd u hnd'"
    and "w_handles w' = (w_handles w)(p \<mapsto> hnd')" "w_pool w' = w_pool w"
    and "w_trace w' = w_trace w @ map (Pair p) (entries u)"
  shows "history_ok w'"
  unfolding history_ok_def
proof (intro allI conjI impI)
  fix q
  have p: "path_of hnd = replay new_path (history p (w_trace w))" using assms(1-3) by (simp add: history_ok_def)
  show "lawful new_path (history q (w_trace w'))"
    using assms(1,4) p by (cases "q = p") (simp_all add: history_ok_def assms(7) advances_def)
  fix hnd2 assume q: "busy q w'" "w_handles w' q = Some hnd2"
  show "path_of hnd2 = replay new_path (history q (w_trace w'))"
  proof (cases "q = p")
    case True
    with q assms(4) p show ?thesis by (simp add: assms(5,7) advances_def)
  next
    case False
    with q assms(1) show ?thesis by (simp add: history_ok_def busy_def assms(5-7))
  qed
qed

text \<open>Entries and changes that the invariant does not look at.\<close>

lemma history_ok_same:
  assumes "history_ok w" "w_trace w' = w_trace w"
    and "\<And>q hnd'. busy q w' \<Longrightarrow> w_handles w' q = Some hnd' \<Longrightarrow>
      busy q w \<and> (\<exists>hnd. w_handles w q = Some hnd \<and> path_of hnd' = path_of hnd)"
  shows "history_ok w'"
  using assms by (fastforce simp: history_ok_def)

lemma history_ok_create:
  assumes "history_ok w" "path_of hnd = new_path" "w_handles w' = (w_handles w)(q \<mapsto> hnd)"
    and "w_pool w' = remove1 q (w_pool w)" "w_trace w' = w_trace w @ [(q, UCreate f q)]"
  shows "history_ok w'"
  unfolding history_ok_def
proof (intro allI conjI impI)
  fix p
  show "lawful new_path (history p (w_trace w'))"
    using assms(1) by (simp add: history_ok_def assms(5) permitted_def)
  fix hnd2 assume p: "busy p w'" "w_handles w' p = Some hnd2"
  show "path_of hnd2 = replay new_path (history p (w_trace w'))"
  proof (cases "p = q")
    case True
    with p assms(2) show ?thesis by (simp add: assms(3,5))
  next
    case False
    then have "set (w_pool w') - {q} = set (w_pool w) - {q}"
      by (auto simp: assms(4) dest: notin_set_remove1)
    with False p assms(1) show ?thesis by (auto simp: history_ok_def busy_def assms(3,5))
  qed
qed

end
