(* ===== verification/Lifecycle.thy ===== *)
theory Lifecycle
  imports History
begin

text \<open>
  The module as a whole under every sequence of hooks: the invariant that keeps the pool of handles,
  the registries and the live filters apart, its preservation by every hook and every script, and
  what follows for the life of a request.
\<close>

section \<open>What the code of a filter cannot change\<close>

definition keeps :: "dymHttpFilterHandle \<Rightarrow> dymHttpFilterHandle \<Rightarrow> bool" where
  "keeps a b \<longleftrightarrow> plugin b = plugin a \<and> streamDestoried b = streamDestoried a \<and>
     hostPluginPtr b = hostPluginPtr a \<and> (streamCompleted a \<longrightarrow> streamCompleted b) \<and>
     (localResponseSent a \<longrightarrow> localResponseSent b)"

lemma keeps_refl [simp]: "keeps a a"
  by (simp add: keeps_def)

lemma keeps_trans: "keeps a b \<Longrightarrow> keeps b c \<Longrightarrow> keeps a c"
  by (simp add: keeps_def)

lemma keeps_scheduler: "keeps a b \<Longrightarrow> keeps a (b\<lparr>scheduler := s\<rparr>)"
  by (simp add: keeps_def)

lemma path_of_simps [simp]:
  "path_of (hnd\<lparr>scheduler := s\<rparr>) = path_of hnd" "path_of (hnd\<lparr>recordedSharedData := xs\<rparr>) = path_of hnd"
  "path_of (hnd\<lparr>downstreamWatermarkCallbacks := cbs\<rparr>) = path_of hnd"
  "path_of (hnd\<lparr>streamCompleted := c\<rparr>) = path_of hnd" "path_of (hnd\<lparr>streamDestoried := d\<rparr>) = path_of hnd"
  "path_of (hnd\<lparr>plugin := pl\<rparr>) = path_of hnd"
  by (simp_all add: path_of_def)

lemma advances_None [simp]: "advances hnd None hnd' \<longleftrightarrow> path_of hnd' = path_of hnd"
  by (simp add: advances_def)

lemma GetScheduler_same: "keeps hnd (fst (hd_GetScheduler S hnd h)) \<and> path_of (fst (hd_GetScheduler S hnd h)) = path_of hnd"
  by (simp add: hd_GetScheduler_def keeps_def split: option.split prod.split)

lemma Schedule_same: "keeps hnd (fst (hd_Schedule S hnd task h)) \<and> path_of (fst (hd_Schedule S hnd task h)) = path_of hnd"
  using GetScheduler_same [of hnd S h]
  by (auto simp: hd_Schedule_def keeps_scheduler split: option.split prod.split)

lemma api_effect_keeps:
  assumes "api_effect b c sd hnd h = (r, sd', hnd', h')"
  shows "keeps hnd hnd' \<and> advances hnd (note_before c) hnd' \<and> (sd_inv sd \<longrightarrow> sd_inv sd')"
proof -
  have same: ?thesis if "note_before c = None" "sd' = sd" "keeps hnd hnd'" "path_of hnd' = path_of hnd"
    using that by simp
  show ?thesis
  proof (cases c)
    case CallGetScheduler
    with assms GetScheduler_same [of hnd "bd_sched b" h] show ?thesis by (intro same) auto
  next
    case (CallSchedule task)
    with assms Schedule_same [of hnd "bd_sched b" task h] show ?thesis by (intro same) auto
  next
    case (CallSetData alloc k v)
    with assms sd_inv_SetData [of sd "bd_metadata b" "bd_rt b" hnd alloc k v h] show ?thesis
      by (auto simp: hd_SetData_eq keeps_def)
  next
    case (CallSendLocalResponse status headers body detail)
    with assms show ?thesis
      by (auto simp: hd_SendLocalResponse_def hd_sending_def keeps_def advances_def permitted_def path_of_def)
  next
    case (CallSetWatermarkCallbacks cbs)
    with assms show ?thesis
      by (intro same) (auto simp: hd_SetDownstreamWatermarkCallbacks_def keeps_def)
  next
    case CallClearWatermarkCallbacks
    with assms show ?thesis
      by (intro same) (auto simp: hd_ClearDownstreamWatermarkCallbacks_def keeps_def)
  qed (use assms in \<open>auto split: prod.splits\<close>)
qed

lemma api_return_keeps:
  "keeps hnd (api_return c r hnd) \<and> advances hnd (note_after c r) (api_return c r hnd)"
  by (cases c) (auto simp: hd_HttpCallout_return_def hd_StartHttpStream_return_def advances_def permitted_def
      path_of_def keeps_def split: prod.splits)

text \<open>
  \<open>stable A w w'\<close>: between the two states only handles of \<open>A\<close> were touched, none lost or swapped its
  filter, the pool, the registries of objects and the set of live filters are the same, and the
  histories still determine the handles.
\<close>

definition stable :: "ptr set \<Rightarrow> 'h world \<Rightarrow> 'h world \<Rightarrow> bool" where
  "stable A w w' \<longleftrightarrow>
     w_pool w' = w_pool w \<and> w_live w' = w_live w \<and> w_plugins w' = w_plugins w \<and>
     w_configs w' = w_configs w \<and> w_configManager w' = w_configManager w \<and>
     w_liveConfigs w' = w_liveConfigs w \<and>
     (sd_inv (w_shared w) \<longrightarrow> sd_inv (w_shared w')) \<and> (history_ok w \<longrightarrow> history_ok w') \<and>
     (\<forall>q. rel_option keeps (w_handles w q) (w_handles w' q)) \<and>
     (\<forall>q. q \<notin> A \<longrightarrow> w_handles w' q = w_handles w q)"

lemma stable_refl [simp]: "stable A w w"
  by (simp add: stable_def option.rel_refl)

lemma stable_trans:
  assumes "stable A w w1" "stable A w1 w2"
  shows "stable A w w2"
proof -
  have r: "rel_option keeps (w_handles w q) (w_handles w2 q)" for q
  proof -
    have "rel_option keeps (w_handles w q) (w_handles w1 q)" "rel_option keeps (w_handles w1 q) (w_handles w2 q)"
      using assms by (simp_all add: stable_def)
    then show ?thesis
      by (cases "w_handles w q"; cases "w_handles w1 q"; cases "w_handles w2 q") (auto intro: keeps_trans)
  qed
  from assms show ?thesis unfolding stable_def by (intro conjI allI r) (blast | force)+
qed

lemma stable_mono: "stable A w w' \<Longrightarrow> A \<subseteq> B \<Longrightarrow> stable B w w'"
  by (auto simp: stable_def)

lemma stable_step:
  assumes "busy p w" "w_handles w p = Some hnd" "keeps hnd hnd'" "advances hnd u hnd'" "p \<in> A"
  shows "stable A w (log_note p u (set_handle w p hnd'))"
  using assms history_ok_advance [OF _ assms(1,2,4), of "log_note p u (set_handle w p hnd')"]
  by (auto simp: stable_def set_handle_def option.rel_refl)

text \<open>An entry that neither a history forbids nor a handle remembers.\<close>

lemma stable_log:
  assumes "\<And>s. permitted s u" "\<And>s. replay_one s u = s"
  shows "stable A w (log_upcall p u w)"
proof -
  have "history_ok (log_upcall p u w)" if "history_ok w"
    using that assms by (auto simp: history_ok_def log_upcall_def busy_def)
  then show ?thesis by (simp add: stable_def log_upcall_def option.rel_refl)
qed

lemma stable_handle:
  "stable A w w' \<Longrightarrow> w_handles w q = Some hnd \<Longrightarrow> \<exists>hnd'. w_handles w' q = Some hnd' \<and> keeps hnd hnd'"
  by (metis option_rel_Some1 stable_def)

section \<open>The invariant of the module\<close>

text \<open>
  A pooled handle has neither filter nor scheduler, is pooled once and belongs to no live request; a
  live pointer is a pinned handle object that has not been destroyed.
\<close>

definition pooled_ok :: "'h world \<Rightarrow> bool" where
  "pooled_ok w \<longleftrightarrow> distinct (w_pool w) \<and>
     (\<forall>q\<in>set (w_pool w). q \<noteq> 0 \<and>
        (\<exists>hnd. w_handles w q = Some hnd \<and> plugin hnd = None \<and> scheduler hnd = None))"

definition live_ok :: "'h world \<Rightarrow> bool" where
  "live_ok w \<longleftrightarrow>
     (\<forall>q\<in>w_live w. q \<noteq> 0 \<and> q \<notin> set (w_pool w) \<and> mgr_search (w_plugins w) q = Some q \<and>
        (\<exists>hnd. w_handles w q = Some hnd \<and> \<not> streamDestoried hnd))"

definition configs_ok :: "'h world \<Rightarrow> bool" where
  "configs_ok w \<longleftrightarrow>
     (\<forall>c\<in>w_liveConfigs w. c \<noteq> 0 \<and> w_configs w c \<noteq> None \<and> mgr_search (w_configManager w) c = Some c)"

definition winv :: "'h world \<Rightarrow> bool" where
  "winv w \<longleftrightarrow> mgr_inv (w_plugins w) \<and> mgr_inv (w_configManager w) \<and> sd_inv (w_shared w) \<and>
     pooled_ok w \<and> live_ok w \<and> configs_ok w"

lemma live_busy: "winv w \<Longrightarrow> q \<in> w_live w \<Longrightarrow> busy q w"
  by (auto simp: winv_def live_ok_def busy_def)

lemma stable_busy: "stable A w w' \<Longrightarrow> busy p w \<Longrightarrow> busy p w'"
  by (auto simp: busy_def dest: stable_handle) (simp_all add: stable_def)

text \<open>Touching busy handles only preserves the invariant.\<close>

lemma stable_winv:
  assumes "stable A w w'" "winv w" "A \<inter> set (w_pool w) = {}"
  shows "winv w'"
proof -
  have "pooled_ok w'"
    using assms unfolding winv_def pooled_ok_def stable_def by (metis disjoint_iff)
  moreover have "live_ok w'"
    unfolding live_ok_def
  proof
    fix q assume "q \<in> w_live w'"
    with assms(1) have q: "q \<in> w_live w" by (simp add: stable_def)
    with assms(2) obtain hnd where "w_handles w q = Some hnd" "\<not> streamDestoried hnd"
        "q \<noteq> 0" "q \<notin> set (w_pool w)" "mgr_search (w_plugins w) q = Some q"
      by (auto simp: winv_def live_ok_def)
    moreover from stable_handle [OF assms(1) this(1)] this(2)
    have "\<exists>hnd. w_handles w' q = Some hnd \<and> \<not> streamDestoried hnd" by (auto simp: keeps_def)
    moreover have "w_pool w' = w_pool w" "w_plugins w' = w_plugins w"
      using assms(1) by (simp_all add: stable_def)
    ultimately show "q \<noteq> 0 \<and> q \<notin> set (w_pool w') \<and> mgr_search (w_plugins w') q = Some q \<and>
        (\<exists>hnd. w_handles w' q = Some hnd \<and> \<not> streamDestoried hnd)" by simp
  qed
  ultimately show ?thesis using assms by (simp add: winv_def stable_def configs_ok_def)
qed

section \<open>Hooks and scripts never crash\<close>

text \<open>A hook, with the entry for the call it ends with.\<close>

lemma with_handle_stable:
  assumes "busy p w" "\<And>hnd. keeps hnd (snd (body hnd))" "\<And>hnd. advances hnd (fst (body hnd)) (snd (body hnd))"
  shows "\<exists>u w'. with_handle p body w = Ret (u, w') \<and> stable {p} w (log_note p u w')"
proof -
  from assms(1) obtain hnd where h: "p \<noteq> 0" "w_handles w p = Some hnd" by (auto simp: busy_def)
  have "stable {p} w (log_note p (fst (body hnd)) (set_handle w p (snd (body hnd))))"
    using stable_step [OF assms(1) h(2) assms(2,3)] by simp
  with h show ?thesis
    by (cases "body hnd") (simp add: with_handle_def unwrap_handle_def mgr_unwrap_def)
qed

lemma stream_complete_stable:
  assumes "busy p w"
  shows "\<exists>u w'. on_stream_complete p w = Ret (u, w') \<and> stable {p} w (log_note p u w')"
proof -
  from assms obtain hnd where h: "p \<noteq> 0" "w_handles w p = Some hnd" by (auto simp: busy_def)
  show ?thesis
  proof (cases "plugin hnd")
    case None
    with h show ?thesis by (simp add: on_stream_complete_def unwrap_handle_def mgr_unwrap_def)
  next
    case (Some pl)
    let ?h = "hnd\<lparr>streamCompleted := True\<rparr>" and ?u = "Some (UOnStreamComplete pl)"
    let ?w = "(set_handle w p ?h)\<lparr>w_shared := hd_clearData (w_shared w) ?h\<rparr>"
    have "stable {p} w (log_note p ?u (set_handle w p ?h))"
      using h by (intro stable_step [OF assms]) (auto simp: keeps_def advances_def permitted_def)
    moreover have "history_ok (log_note p ?u ?w) = history_ok (log_note p ?u (set_handle w p ?h))"
      by (simp add: history_ok_def busy_def log_upcall_def)
    ultimately have "stable {p} w (log_note p ?u ?w)"
      by (simp add: stable_def set_handle_def log_upcall_def sd_inv_clearData)
    with h Some show ?thesis by (simp add: on_stream_complete_def unwrap_handle_def mgr_unwrap_def Let_def)
  qed
qed

named_theorems hook_defs \<open>the hooks of a running request\<close>

lemmas hooks_unfold [hook_defs] =
  on_request_headers_def on_request_body_def on_request_trailers_def
  on_response_headers_def on_response_body_def on_response_trailers_def on_scheduled_def
  on_http_callout_done_def on_http_stream_headers_def on_http_stream_data_def
  on_http_stream_trailers_def on_http_stream_complete_def on_http_stream_reset_def
  on_above_watermark_def on_below_watermark_def on_local_reply_def

lemma hook_stable:
  assumes "busy p w"
  shows "\<exists>u w'. hook_of ev p w = Ret (u, w') \<and> stable {p} w (log_note p u w')"
proof (cases ev)
  case StreamComplete
  then show ?thesis using stream_complete_stable [OF assms] by simp
qed (simp_all add: hook_defs, (rule with_handle_stable [OF assms];
    auto simp: keeps_def advances_def permitted_def path_of_def Let_def map_option_case
      split: option.splits prod.splits)+)

text \<open>The code holding handle \<open>p\<close> touches \<open>p\<close>, and through inline hooks the live handles.\<close>

definition reach :: "ptr \<Rightarrow> 'h world \<Rightarrow> ptr set" where
  "reach p w = insert p (w_live w)"

lemma reach_pool: "winv w \<Longrightarrow> busy p w \<Longrightarrow> reach p w \<inter> set (w_pool w) = {}"
  by (auto simp: reach_def winv_def live_ok_def busy_def)

lemma reach_stable: "stable A w w' \<Longrightarrow> reach p w' = reach p w"
  by (simp add: reach_def stable_def)

lemma call_begin_stable:
  assumes "busy p w"
  shows "\<exists>r w'. call_begin b p c w = Ret (r, w') \<and> stable {p} w w'"
proof -
  from assms obtain hnd where h: "w_handles w p = Some hnd" by (auto simp: busy_def)
  obtain r sd hnd' h' where e: "api_effect b c (w_shared w) hnd (w_host w) = (r, sd, hnd', h')"
    by (metis surj_pair)
  let ?w = "(set_handle w p hnd')\<lparr>w_shared := sd, w_host := h'\<rparr>"
  from api_effect_keeps [OF e] have k: "keeps hnd hnd'" "advances hnd (note_before c) hnd'"
      "sd_inv (w_shared w) \<longrightarrow> sd_inv sd" by auto
  have "stable {p} w (log_note p (note_before c) (set_handle w p hnd'))"
    using stable_step [OF assms h k(1,2)] by simp
  moreover have "history_ok (log_note p (note_before c) ?w) =
      history_ok (log_note p (note_before c) (set_handle w p hnd'))"
    by (simp add: history_ok_def busy_def)
  ultimately have "stable {p} w (log_note p (note_before c) ?w)"
    using k(3) by (simp add: stable_def set_handle_def)
  with h e show ?thesis by (simp add: call_begin_def)
qed

lemma call_return_stable:
  assumes "busy p w"
  shows "\<exists>w'. call_return p c r w = Ret w' \<and> stable {p} w w'"
proof -
  from assms obtain hnd where h: "w_handles w p = Some hnd" by (auto simp: busy_def)
  with stable_step [OF assms h, of "api_return c r hnd" "note_after c r" "{p}"] api_return_keeps [of hnd c r]
  show ?thesis by (simp add: call_return_def)
qed

text \<open>What every piece of code does to the state, and how two pieces compose.\<close>

definition safe :: "ptr \<Rightarrow> 'h world \<Rightarrow> 'h world go \<Rightarrow> bool" where
  "safe p w m \<longleftrightarrow> (\<exists>w'. m = Ret w' \<and> stable (reach p w) w w')"

lemma ready_stable:
  assumes "stable A w w'" "A \<subseteq> reach p w" "winv w" "busy p w"
  shows "winv w' \<and> busy p w' \<and> reach p w' = reach p w"
  using stable_winv [OF stable_mono [OF assms(1,2)] assms(3) reach_pool [OF assms(3,4)]]
    stable_busy [OF assms(1,4)] reach_stable [OF assms(1)] by simp

lemma safe_then:
  assumes "m = Ret w1" "stable A w w1" "A \<subseteq> reach p w" "winv w" "busy p w"
    and "winv w1 \<Longrightarrow> busy p w1 \<Longrightarrow> safe p w1 (k w1)"
  shows "safe p w (go_bind m k)"
proof -
  note r = ready_stable [OF assms(2-5)]
  with assms(6) obtain w2 where "k w1 = Ret w2" "stable (reach p w) w1 w2" by (auto simp: safe_def)
  with assms(1) stable_trans [OF stable_mono [OF assms(2,3)]] show ?thesis by (auto simp: safe_def)
qed

lemma safe_seq:
  assumes "safe p w m" "winv w" "busy p w"
    and "\<And>w1. m = Ret w1 \<Longrightarrow> winv w1 \<Longrightarrow> busy p w1 \<Longrightarrow> safe p w1 (k w1)"
  shows "safe p w (go_bind m k)"
  using assms safe_then [of m _ "reach p w" w p k] by (auto simp: safe_def)

lemma run_safe:
  "winv w \<Longrightarrow> busy p w \<Longrightarrow> safe p w (run_ops b p ops w)"
  "winv w \<Longrightarrow> busy p w \<Longrightarrow> safe p w (run_op b p a w)"
  "winv w \<Longrightarrow> busy p w \<Longrightarrow> safe p w (run_inlines b p is w)"
  "winv w \<Longrightarrow> busy p w \<Longrightarrow> safe p w (run_inline b p i w)"
  "winv w \<Longrightarrow> busy p w \<Longrightarrow> safe p w (run_script b p sc w)"
proof (induction b p ops w and b p a w and b p "is" w and b p i w and b p sc w
    rule: run_ops_run_op_run_inlines_run_inline_run_script.induct)
  case (1 b p w)
  then show ?case by (simp add: safe_def)
next
  case (2 b p a as w)
  then show ?case using safe_seq [of p w "run_op b p a w"] by simp
next
  case (3 b p c "is" w)
  from call_begin_stable [OF "3.prems"(2)] obtain r w1 where
    w1: "call_begin b p c w = Ret (r, w1)" "stable {p} w w1" by blast
  have "safe p w1 (go_bind (run_inlines b p is w1) (call_return p c r))" if "winv w1" "busy p w1"
  proof (rule safe_seq [OF _ that])
    show "safe p w1 (run_inlines b p is w1)" using "3.IH" [of "(r, w1)"] that by simp
    show "safe p w2 (call_return p c r w2)" if "busy p w2" for w2
      using call_return_stable [OF that, of c r] stable_mono [of "{p}" w2 _ "reach p w2"]
      by (auto simp: safe_def reach_def)
  qed
  with safe_then [of "Ret w1" w1 "{p}" w p "\<lambda>w1. go_bind (run_inlines b p is w1) (call_return p c r)"]
    w1 "3.prems" show ?case by (simp add: reach_def)
next
  case (4 b p w)
  then show ?case by (simp add: safe_def)
next
  case (5 b p i "is" w)
  then show ?case using safe_seq [of p w "run_inline b p i w"] by simp
next
  case (6 b p ev q sc w)
  show ?case
  proof (cases "q \<in> reach p w")
    case False
    then show ?thesis by (simp add: safe_def reach_def)
  next
    case True
    with "6.prems" have bq: "busy q w" by (auto simp: reach_def intro: live_busy)
    from hook_stable [OF this] obtain u w1 where
      w1: "hook_of ev q w = Ret (u, w1)" "stable {q} w (log_note q u w1)" by blast
    then have s1: "stable (reach p w) w (log_note q u w1)"
      using True by (intro stable_mono [OF w1(2)]) simp
    show ?thesis
    proof (cases u)
      case None
      with w1 s1 True show ?thesis by (simp add: safe_def reach_def)
    next
      case (Some x)
      let ?w2 = "log_upcall q x w1"
      have inv2: "winv ?w2" "busy q ?w2"
        using ready_stable [OF s1 _ "6.prems"] stable_busy [OF s1 bq] Some by auto
      obtain w3 where w3: "run_script b q sc ?w2 = Ret w3" "stable (reach q ?w2) ?w2 w3"
        using "6.IH" [OF _ refl inv2] True by (auto simp: safe_def reach_def)
      have "stable (reach p w) ?w2 w3"
        using reach_stable [of _ w ?w2 q] s1 Some True by (intro stable_mono [OF w3(2)]) (auto simp: reach_def)
      with s1 Some have "stable (reach p w) w w3" using stable_trans by auto
      with w1 w3 Some True show ?thesis by (simp add: safe_def reach_def)
    qed
  qed
next
  case (7 b p ops r w)
  then show ?case by (simp add: safe_def)
qed

lemma script_stable:
  "winv w \<Longrightarrow> busy p w \<Longrightarrow> \<exists>w'. run_script b p sc w = Ret w' \<and> stable (reach p w) w w'"
  using run_safe(5) by (simp add: safe_def)

section \<open>The hooks as steps of the module\<close>

lemma stable_only: "stable A w w' \<Longrightarrow> w_live w' = w_live w \<and> w_pool w' = w_pool w \<and> w_plugins w' = w_plugins w"
  by (simp add: stable_def)

lemma run_event_stable:
  assumes "winv w" "p \<in> w_live w"
  shows "\<exists>r w'. run_event b ev p sc w = Ret (r, w') \<and> stable (w_live w) w w'"
proof -
  have bp: "busy p w" using live_busy assms .
  have reach: "reach p w = w_live w" using assms(2) by (auto simp: reach_def)
  from hook_stable [OF bp] obtain u w1 where
    w1: "hook_of ev p w = Ret (u, w1)" "stable {p} w (log_note p u w1)" by blast
  have s1: "stable (w_live w) w (log_note p u w1)" using assms(2) by (intro stable_mono [OF w1(2)]) simp
  show ?thesis
  proof (cases u)
    case None
    with w1 s1 show ?thesis by (simp add: run_event_def)
  next
    case (Some x)
    let ?w2 = "log_upcall p x w1"
    from ready_stable [OF s1, of p] assms(1) bp reach Some have "winv ?w2" "busy p ?w2" "reach p ?w2 = w_live w"
      by auto
    with script_stable obtain w3 where
      w3: "run_script b p sc ?w2 = Ret w3" "stable (w_live w) ?w2 w3" by metis
    with s1 Some have "stable (w_live w) w w3" using stable_trans by auto
    with w1 w3 Some show ?thesis by (simp add: run_event_def)
  qed
qed

lemma run_event_winv:
  "winv w \<Longrightarrow> p \<in> w_live w \<Longrightarrow> run_event b ev p sc w = Ret (r, w') \<Longrightarrow> winv w'"
  using run_event_stable [of w p b ev sc] stable_winv [of "w_live w" w w']
  by (auto simp: winv_def live_ok_def)

end
