(* ===== verification/Module.thy ===== *)
theory Module
  imports Lifecycle
begin

text \<open>
  The module as a step relation: Envoy loads and unloads configurations, creates filters, runs their
  hooks and destroys them, in any order its contract allows, and the run-time may drop pooled
  handles. Every reachable state satisfies the invariant of Lifecycle, and from it follow the
  properties of a request's life.
\<close>

section \<open>Creating and destroying a filter\<close>

lemma reset_clean:
  "plugin hnd = None \<Longrightarrow> scheduler hnd = None \<Longrightarrow> hd_reset hnd p = hd_reset zero_handle p"
  by (cases hnd) (simp add: hd_reset_def zero_handle_def Let_def)

lemma reset_fields:
  "hd_reset zero_handle p = Ret hnd \<Longrightarrow>
   plugin hnd = None \<and> scheduler hnd = None \<and> \<not> streamDestoried hnd \<and> hostPluginPtr hnd = p \<and>
   \<not> streamCompleted hnd \<and> \<not> localResponseSent hnd \<and> recordedSharedData hnd = [] \<and> path_of hnd = new_path"
  by (auto simp: hd_reset_def zero_handle_def Let_def path_of_def new_path_def go_map_get_def)

lemma reset_total: "\<exists>hnd. hd_reset zero_handle p = Ret hnd"
  by (simp add: hd_reset_def zero_handle_def Let_def)

lemma fst_mgr_record [simp]: "fst (mgr_record m p) = p"
  by (simp add: mgr_record_def Let_def)

lemma log_simps [simp]: "winv (log_upcall p u w) = winv w" "busy q (log_upcall p u w) = busy q w"
  "reach q (log_upcall p u w) = reach q w"
  by (simp_all add: winv_def pooled_ok_def live_ok_def configs_ok_def busy_def reach_def log_upcall_def)

text \<open>A handle from the pool, or a new one, is set up like a new one and is in nobody's use.\<close>

lemma new_handle_ok:
  assumes "winv w" "choice_ok choice w"
  shows "\<exists>q w1 hnd. newDymStreamPluginHandle choice host w = Ret (q, w1) \<and> winv w1 \<and> busy q w1 \<and>
    q \<notin> w_live w \<and> q \<noteq> 0 \<and> hd_reset zero_handle host = Ret hnd \<and> w_handles w1 q = Some hnd \<and>
    w_live w1 = w_live w \<and> w_configs w1 = w_configs w \<and> w_trace w1 = w_trace w \<and>
    w_pool w1 = remove1 q (w_pool w) \<and> w_shared w1 = w_shared w \<and> w_plugins w1 = w_plugins w \<and>
    (\<forall>r. r \<noteq> q \<longrightarrow> w_handles w1 r = w_handles w r) \<and>
    w_liveConfigs w1 = w_liveConfigs w \<and> w_configManager w1 = w_configManager w"
proof -
  obtain hnd where z: "hd_reset zero_handle host = Ret hnd" using reset_total by blast
  note f = reset_fields [OF z]
  obtain q where q: "choice = Reuse q \<or> choice = Fresh q" by (cases choice) auto
  define w1 where "w1 = w\<lparr>w_pool := remove1 q (w_pool w), w_handles := (w_handles w)(q \<mapsto> hnd)\<rparr>"
  have "q \<noteq> 0 \<and> q \<notin> w_live w \<and> q \<notin> set (remove1 q (w_pool w)) \<and>
      newDymStreamPluginHandle choice host w = Ret (q, w1)"
  proof (cases "choice = Reuse q")
    case True
    with assms obtain old where old: "w_handles w q = Some old" "plugin old = None"
        "scheduler old = None" "q \<in> set (w_pool w)" "q \<noteq> 0"
      by (auto simp: choice_ok_def winv_def pooled_ok_def)
    have "q \<notin> w_live w" using assms(1) old(4) by (auto simp: winv_def live_ok_def)
    moreover have "distinct (w_pool w)" using assms(1) by (simp add: winv_def pooled_ok_def)
    ultimately show ?thesis
      using True old reset_clean [OF old(2,3)] z
      by (simp add: newDymStreamPluginHandle_def pool_get_def set_handle_def w1_def)
  next
    case False
    with q assms have h: "q \<noteq> 0" "w_handles w q = None" "choice = Fresh q" by (auto simp: choice_ok_def)
    then have "q \<notin> w_live w" "q \<notin> set (w_pool w)"
      using assms(1) by (auto simp: winv_def live_ok_def pooled_ok_def)
    with h z show ?thesis
      by (simp add: newDymStreamPluginHandle_def pool_get_def set_handle_def w1_def remove1_idem)
  qed
  moreover from this have "winv w1"
    using assms(1) unfolding winv_def pooled_ok_def live_ok_def configs_ok_def w1_def
    by (auto simp: distinct_remove1 dest: notin_set_remove1)
  ultimately show ?thesis using z by (auto simp: busy_def w1_def)
qed

lemma winv_publish:
  assumes "winv w" "busy q w" "\<not> streamDestoried hnd"
  shows "winv ((set_handle w q hnd)\<lparr>w_plugins := snd (mgr_record (w_plugins w) q), w_live := insert q (w_live w)\<rparr>)"
    (is "winv ?w")
proof -
  have m: "mgr_inv (w_plugins w)" using assms(1) by (simp add: winv_def)
  have "pooled_ok ?w"
    using assms unfolding winv_def pooled_ok_def busy_def set_handle_def by simp
  moreover have "live_ok ?w"
    unfolding live_ok_def
  proof
    fix r assume r: "r \<in> w_live ?w"
    show "r \<noteq> 0 \<and> r \<notin> set (w_pool ?w) \<and> mgr_search (w_plugins ?w) r = Some r \<and>
        (\<exists>hnd. w_handles ?w r = Some hnd \<and> \<not> streamDestoried hnd)"
    proof (cases "r = q")
      case True
      with assms(2,3) m show ?thesis by (simp add: busy_def set_handle_def mgr.srch_rcd)
    next
      case False
      with r assms(1) m show ?thesis by (simp add: winv_def live_ok_def set_handle_def mgr.srch_rcd)
    qed
  qed
  ultimately show ?thesis
    using assms(1) by (simp add: winv_def configs_ok_def set_handle_def mgr.inv_rcd)
qed

lemma winv_release:
  assumes "winv w" "busy q w" "q \<notin> w_live w" "plugin hnd = None" "scheduler hnd = None"
  shows "winv ((set_handle w q hnd)\<lparr>w_plugins := mgr_remove (w_plugins w) q, w_pool := q # w_pool w\<rparr>)"
    (is "winv ?w")
proof -
  have m: "mgr_inv (w_plugins w)" using assms(1) by (simp add: winv_def)
  have "pooled_ok ?w"
    using assms unfolding winv_def pooled_ok_def busy_def set_handle_def by simp
  moreover have "live_ok ?w"
    unfolding live_ok_def
  proof
    fix r assume "r \<in> w_live ?w"
    then have r: "r \<in> w_live w" "r \<noteq> q" using assms(3) by (auto simp: set_handle_def)
    with assms(1) m show "r \<noteq> 0 \<and> r \<notin> set (w_pool ?w) \<and> mgr_search (w_plugins ?w) r = Some r \<and>
        (\<exists>hnd. w_handles ?w r = Some hnd \<and> \<not> streamDestoried hnd)"
      by (simp add: winv_def live_ok_def set_handle_def mgr.srch_rmv)
  qed
  ultimately show ?thesis
    using assms(1) by (simp add: winv_def configs_ok_def set_handle_def mgr.inv_rmv)
qed

text \<open>What \<open>on_http_filter_new\<close> does for a loaded configuration.\<close>

definition started ::
    "'h binding \<Rightarrow> httpFilterConfigWrapper \<Rightarrow> http_filter_envoy_ptr \<Rightarrow> 'h script \<Rightarrow> objref option \<Rightarrow> ptr \<Rightarrow>
      'h world \<Rightarrow> 'h world \<Rightarrow> bool" where
  "started b fw host sc created q w w' \<longleftrightarrow>
     (\<exists>hnd w1 w2 hnd2. hd_reset zero_handle host = Ret hnd \<and> w_handles w1 q = Some hnd \<and>
        w_trace w1 = w_trace w \<and> w_pool w1 = remove1 q (w_pool w) \<and> w_shared w1 = w_shared w \<and>
        run_script b q sc (log_upcall q (UCreate (fw_pluginFactory fw) q) w1) = Ret w2 \<and>
        w_handles w2 q = Some hnd2 \<and> keeps hnd hnd2 \<and>
        w' = (set_handle w2 q (hnd2\<lparr>plugin := created\<rparr>))\<lparr>
          w_plugins := snd (mgr_record (w_plugins w2) q), w_live := insert q (w_live w)\<rparr>)"

definition others_kept :: "ptr \<Rightarrow> 'h world \<Rightarrow> 'h world \<Rightarrow> bool" where
  "others_kept q w w' \<longleftrightarrow>
     (\<forall>r hnd. r \<noteq> q \<longrightarrow> w_handles w r = Some hnd \<longrightarrow> (\<exists>hnd'. w_handles w' r = Some hnd' \<and> keeps hnd hnd'))"

lemma stable_others: "stable A w w' \<Longrightarrow> others_kept q w w'"
  by (auto simp: others_kept_def dest: stable_handle)

lemma others_kept_trans: "others_kept q w w1 \<Longrightarrow> others_kept q w1 w2 \<Longrightarrow> others_kept q w w2"
  unfolding others_kept_def by (meson keeps_trans)

lemma others_same: "(\<And>r. r \<noteq> q \<Longrightarrow> w_handles w' r = w_handles w r) \<Longrightarrow> others_kept q w w'"
  by (simp add: others_kept_def)

lemma filter_new_ok:
  assumes "winv w" "choice_ok choice w" "c \<in> w_liveConfigs w"
  shows "\<exists>q w' fw. on_http_filter_new b c host choice sc created w = Ret (q, w') \<and> winv w' \<and>
    w_configs w c = Some fw \<and> q \<noteq> 0 \<and> q \<notin> w_live w \<and> started b fw host sc created q w w' \<and>
    w_live w' = insert q (w_live w) \<and> mgr_search (w_plugins w') q = Some q \<and> others_kept q w w' \<and>
    (history_ok w \<longrightarrow> history_ok w')"
proof -
  from assms(1,3) obtain fw where c: "c \<noteq> 0" "w_configs w c = Some fw"
    by (auto simp: winv_def configs_ok_def)
  from new_handle_ok [OF assms(1,2), of host] obtain q w1 hnd where
    w1: "newDymStreamPluginHandle choice host w = Ret (q, w1)" "winv w1" "busy q w1" "q \<notin> w_live w"
      "q \<noteq> 0" "hd_reset zero_handle host = Ret hnd" "w_handles w1 q = Some hnd" "w_live w1 = w_live w"
      "w_trace w1 = w_trace w" "w_pool w1 = remove1 q (w_pool w)" "w_shared w1 = w_shared w"
      "\<forall>r. r \<noteq> q \<longrightarrow> w_handles w1 r = w_handles w r" by blast
  let ?w1 = "log_upcall q (UCreate (fw_pluginFactory fw) q) w1"
  have i1: "winv ?w1" "busy q ?w1" using w1(2,3) by simp_all
  from script_stable [OF this] obtain w2 where
    w2: "run_script b q sc ?w1 = Ret w2" "stable (reach q ?w1) ?w1 w2" by blast
  have i2: "winv w2" "busy q w2"
    using stable_winv [OF w2(2) i1(1) reach_pool [OF i1]] stable_busy [OF w2(2) i1(2)] by auto
  have "w_handles ?w1 q = Some hnd" using w1(7) by (simp add: log_upcall_def)
  from stable_handle [OF w2(2) this] obtain hnd2 where
    h2: "w_handles w2 q = Some hnd2" "keeps hnd hnd2" by blast
  have live2: "w_live w2 = w_live w" using stable_only [OF w2(2)] w1(8) by (simp add: log_upcall_def)
  define w3 where "w3 = (set_handle w2 q (hnd2\<lparr>plugin := created\<rparr>))\<lparr>
      w_plugins := snd (mgr_record (w_plugins w2) q), w_live := insert q (w_live w)\<rparr>"
  have run: "on_http_filter_new b c host choice sc created w = Ret (q, w3)"
    using c w1(1) w2(1) h2(1) live2
    by (simp add: on_http_filter_new_def mgr_unwrap_def set_handle_def w3_def Let_def
        case_prod_beta fst_mgr_record)
  have "\<not> streamDestoried hnd2" using h2(2) reset_fields [OF w1(6)] by (simp add: keeps_def)
  then have "winv w3"
    using winv_publish [OF i2, of "hnd2\<lparr>plugin := created\<rparr>"] live2 by (simp add: w3_def)
  moreover have "started b fw host sc created q w w3"
    unfolding started_def w3_def using w1 w2(1) h2 by blast
  moreover have "mgr_search (w_plugins w3) q = Some q"
    using i2(1) by (simp add: w3_def winv_def mgr.srch_rcd)
  moreover have "others_kept q w w3"
  proof -
    have "others_kept q w ?w1" using w1(12) by (intro others_same) (simp add: log_upcall_def)
    moreover have "others_kept q ?w1 w2" using w2(2) by (rule stable_others)
    moreover have "others_kept q w2 w3" by (intro others_same) (simp add: w3_def set_handle_def)
    ultimately show ?thesis using others_kept_trans by blast
  qed
  moreover have "history_ok w3" if "history_ok w"
  proof -
    have "w_handles w1 = (w_handles w)(q \<mapsto> hnd)" using w1(7,12) by (auto simp: fun_eq_iff)
    with that reset_fields [OF w1(6)] w1(9,10) have "history_ok ?w1"
      by (intro history_ok_create [of w hnd ?w1 q]) (auto simp: log_upcall_def)
    with w2(2) have "history_ok w2" by (simp add: stable_def)
    with h2(1) show ?thesis
      by (elim history_ok_same) (auto simp: w3_def set_handle_def busy_def split: if_splits)
  qed
  ultimately show ?thesis using run c(2) w1(4,5) by (auto simp: w3_def)
qed

text \<open>
  \<open>on_http_filter_destroy\<close>: \<open>ended\<close> says what happened, \<open>OnDestroy\<close> (if there is a filter) exactly once
  and last.
\<close>

definition ended ::
    "'h binding \<Rightarrow> 'h script \<Rightarrow> ptr \<Rightarrow> 'h world \<Rightarrow> 'h world \<Rightarrow> bool" where
  "ended b sc p w w' \<longleftrightarrow>
     (\<exists>hnd w1 w2 hnd2. w_handles w p = Some hnd \<and>
        w1 = (set_handle w p (hnd\<lparr>streamDestoried := True\<rparr>))\<lparr>w_live := w_live w - {p}\<rparr> \<and>
        (case plugin hnd of
           None \<Rightarrow> w2 = w1
         | Some pl \<Rightarrow> run_script b p sc (log_upcall p (UOnDestroy pl) w1) = Ret w2) \<and>
        w_handles w2 p = Some hnd2 \<and>
        w' = (set_handle w2 p (hnd2\<lparr>plugin := None, scheduler := None\<rparr>))\<lparr>
          w_plugins := mgr_remove (w_plugins w2) p, w_pool := p # w_pool w2\<rparr>)"

lemma filter_destroy_ok:
  assumes "winv w" "p \<in> w_live w"
  shows "\<exists>w'. on_http_filter_destroy b p sc w = Ret w' \<and> winv w' \<and> ended b sc p w w' \<and>
    w_live w' = w_live w - {p} \<and> mgr_search (w_plugins w') p = None \<and> w_pool w' = p # w_pool w \<and>
    others_kept p w w' \<and> (history_ok w \<longrightarrow> history_ok w') \<and>
    (\<exists>hnd'. w_handles w' p = Some hnd' \<and> streamDestoried hnd' \<and> plugin hnd' = None \<and> scheduler hnd' = None)"
proof -
  from assms obtain hnd where h: "p \<noteq> 0" "w_handles w p = Some hnd" "\<not> streamDestoried hnd"
      "p \<notin> set (w_pool w)"
    by (auto simp: winv_def live_ok_def)
  define w1 where "w1 = (set_handle w p (hnd\<lparr>streamDestoried := True\<rparr>))\<lparr>w_live := w_live w - {p}\<rparr>"
  have pool1: "pooled_ok w1"
    using assms(1) h(4) unfolding winv_def pooled_ok_def w1_def set_handle_def by auto
  have live1: "live_ok w1"
    using assms(1) unfolding winv_def live_ok_def w1_def set_handle_def by simp
  have i1: "winv w1" "busy p w1"
    using assms(1) pool1 live1 h by (simp_all add: winv_def configs_ok_def busy_def w1_def set_handle_def)
  have "\<exists>w2. (case plugin hnd of None \<Rightarrow> Ret w1
      | Some pl \<Rightarrow> run_script b p sc (log_upcall p (UOnDestroy pl) w1)) = Ret w2 \<and> stable (reach p w1) w1 w2"
  proof (cases "plugin hnd")
    case (Some pl)
    let ?l = "log_upcall p (UOnDestroy pl) w1"
    have s: "stable (reach p w1) w1 ?l" by (intro stable_log) (simp_all add: permitted_def)
    have "winv ?l" "busy p ?l" using i1 by simp_all
    from script_stable [OF this] obtain w2 where
      "run_script b p sc ?l = Ret w2" "stable (reach p ?l) ?l w2" by blast
    with Some s show ?thesis using stable_trans by (auto simp del: log_simps(1,2))
  qed simp
  then obtain w2 where w2: "(case plugin hnd of None \<Rightarrow> Ret w1
      | Some pl \<Rightarrow> run_script b p sc (log_upcall p (UOnDestroy pl) w1)) = Ret w2"
      "stable (reach p w1) w1 w2" by blast
  have i2: "winv w2" "busy p w2"
    using stable_winv [OF w2(2) i1(1) reach_pool [OF i1]] stable_busy [OF w2(2) i1(2)] by auto
  have live2: "w_live w2 = w_live w - {p}" "w_pool w2 = w_pool w"
    using stable_only [OF w2(2)] by (simp_all add: w1_def set_handle_def)
  have "w_handles w1 p = Some (hnd\<lparr>streamDestoried := True\<rparr>)" by (simp add: w1_def set_handle_def)
  from stable_handle [OF w2(2) this] obtain hnd2 where
    h2: "w_handles w2 p = Some hnd2" "keeps (hnd\<lparr>streamDestoried := True\<rparr>) hnd2" by blast
  define w3 where "w3 = (set_handle w2 p (hnd2\<lparr>plugin := None, scheduler := None\<rparr>))\<lparr>
      w_plugins := mgr_remove (w_plugins w2) p, w_pool := p # w_pool w2\<rparr>"
  have "on_http_filter_destroy b p sc w = Ret w3"
    using h w2(1) h2(1)
    by (simp add: on_http_filter_destroy_def unwrap_handle_def mgr_unwrap_def w1_def [symmetric] w3_def)
  moreover have "winv w3"
    unfolding w3_def using i2 live2(1) by (intro winv_release) simp_all
  moreover have "ended b sc p w w3"
    unfolding ended_def
    by (rule exI [of _ hnd], rule exI [of _ w1], rule exI [of _ w2], rule exI [of _ hnd2])
      (use h(2) w2(1) h2(1) in \<open>simp add: w1_def [symmetric] w3_def split: option.splits\<close>)
  moreover have "mgr_search (w_plugins w3) p = None"
    using i2(1) by (simp add: w3_def winv_def mgr.srch_rmv)
  moreover have "others_kept p w w3"
  proof -
    have "others_kept p w w1" by (intro others_same) (simp add: w1_def set_handle_def)
    moreover have "others_kept p w1 w2" using w2(2) by (rule stable_others)
    moreover have "others_kept p w2 w3" by (intro others_same) (simp add: w3_def set_handle_def)
    ultimately show ?thesis using others_kept_trans by blast
  qed
  moreover have "history_ok w3" if "history_ok w"
  proof -
    from that h have "history_ok w1"
      by (elim history_ok_same) (auto simp: w1_def set_handle_def busy_def split: if_splits)
    with w2(2) have "history_ok w2" by (simp add: stable_def)
    with h2(1) show ?thesis
      by (elim history_ok_same) (auto simp: w3_def set_handle_def busy_def split: if_splits)
  qed
  moreover have "streamDestoried hnd2" using h2(2) by (simp add: keeps_def)
  ultimately show ?thesis using live2 by (auto simp: w3_def set_handle_def)
qed

section \<open>Configurations\<close>

lemma same_requests_winv:
  "winv w \<Longrightarrow> same_requests w w' \<Longrightarrow> mgr_inv (w_configManager w') \<Longrightarrow> configs_ok w' \<Longrightarrow> winv w'"
  by (simp add: winv_def pooled_ok_def live_ok_def same_requests_def)

lemma config_kept_winv: "winv w \<Longrightarrow> config_kept c w w' \<Longrightarrow> winv w'"
proof (rule same_requests_winv [of w w'])
  assume w: "winv w" and k: "config_kept c w w'"
  show "winv w" by (fact w)
  show "same_requests w w'" using k by (simp add: config_kept_def)
  show "mgr_inv (w_configManager w')" using w k by (simp add: winv_def config_kept_def)
  have "w_configs w' d \<noteq> None" if "w_configs w d \<noteq> None" for d
    using k config_kept_some [OF k] that by (cases "d = c") (simp_all add: config_kept_def)
  with w k show "configs_ok w'" by (simp add: winv_def configs_ok_def config_kept_def)
qed

lemma config_new_winv:
  assumes "winv w" "alloc \<noteq> 0"
    "on_http_filter_config_new mem G rt tbl alloc host name config w = Ret (c, w')"
  shows "winv w'"
proof -
  have m: "mgr_inv (w_configManager w)" using assms(1) by (simp add: winv_def)
  obtain n where n: "envoyBufferToStringUnsafe (mem (w_host w)) name = Ret n"
    using assms(3) by (cases "envoyBufferToStringUnsafe (mem (w_host w)) name")
      (simp_all add: on_http_filter_config_new_def)
  obtain cb where cb: "envoyBufferToBytesUnsafe (mem (w_host w)) config = Ret cb"
    using assms(3) n by (cases "envoyBufferToBytesUnsafe (mem (w_host w)) config")
      (simp_all add: on_http_filter_config_new_def)
  obtain f err ch h where r: "NewHttpFilterFactory tbl n cb (new_config_handle host, w_host w) = ((f, err), ch, h)"
    by (metis surj_pair)
  show ?thesis
  proof (cases "err \<noteq> None \<or> f = None")
    case True
    with assms(3) n cb r have "w' = w\<lparr>w_host := cf_Log G rt ch LogLevelWarn_value
        ''Failed to load configuration: %v'' [any_error err] h\<rparr>"
      by (simp add: on_http_filter_config_new_def)
    with assms(1) m show ?thesis
      by (intro same_requests_winv [OF assms(1)]) (simp_all add: same_requests_def configs_ok_def winv_def)
  next
    case False
    with assms(3) n cb r have w': "w' = (set_config w alloc
        \<lparr>fw_pluginFactory = the f, fw_configHandle = ch\<rparr>)\<lparr>
          w_configManager := snd (mgr_record (w_configManager w) alloc),
          w_liveConfigs := insert alloc (w_liveConfigs w), w_host := h\<rparr>"
      by (auto simp: on_http_filter_config_new_def Let_def case_prod_beta)
    then have "configs_ok w'"
      using assms(1,2) m by (simp add: winv_def configs_ok_def set_config_def mgr.srch_rcd)
    with w' m show ?thesis
      by (intro same_requests_winv [OF assms(1)])
        (simp_all add: same_requests_def set_config_def mgr.inv_rcd)
  qed
qed

lemma config_destroy_ok:
  assumes "winv w" "c \<in> w_liveConfigs w"
  shows "\<exists>w'. on_http_filter_config_destroy S R2 rt c calls w = Ret w' \<and> winv w' \<and>
    w_liveConfigs w' = w_liveConfigs w - {c} \<and> mgr_search (w_configManager w') c = None"
proof -
  from assms obtain fw where c: "c \<noteq> 0" "w_configs w c = Some fw" by (auto simp: winv_def configs_ok_def)
  define w1 where "w1 = (set_config w c (fw\<lparr>fw_configHandle := (fw_configHandle fw)\<lparr>cf_scheduler := None\<rparr>\<rparr>))\<lparr>
      w_liveConfigs := w_liveConfigs w - {c}\<rparr>"
  let ?l = "log_config c (UFactoryDestroy (fw_pluginFactory fw)) w1"
  have "winv ?l"
    using assms(1) by (intro same_requests_winv [OF assms(1)])
      (simp_all add: same_requests_def w1_def set_config_def log_config_def configs_ok_def winv_def)
  moreover obtain w2 where w2: "run_config_calls S R2 rt c calls ?l = Ret w2" "config_kept c ?l w2"
    using config_calls_kept [of ?l c S R2 rt calls] by (auto simp: w1_def set_config_def log_config_def)
  ultimately have i2: "winv w2" using config_kept_winv by blast
  have live2: "w_liveConfigs w2 = w_liveConfigs w - {c}"
    using w2(2) by (simp add: config_kept_def w1_def set_config_def log_config_def)
  define w3 where "w3 = w2\<lparr>w_configManager := mgr_remove (w_configManager w2) c\<rparr>"
  have m2: "mgr_inv (w_configManager w2)" using i2 by (simp add: winv_def)
  have "configs_ok w3"
    using i2 live2 m2 by (simp add: winv_def configs_ok_def w3_def mgr.srch_rmv)
  then have "winv w3"
    using m2 by (intro same_requests_winv [OF i2]) (simp_all add: same_requests_def w3_def mgr.inv_rmv)
  moreover have "on_http_filter_config_destroy S R2 rt c calls w = Ret w3"
    using c w2(1) by (simp add: on_http_filter_config_destroy_def mgr_unwrap_def w1_def w3_def Let_def)
  ultimately show ?thesis using live2 m2 by (auto simp: w3_def mgr.srch_rmv)
qed

lemma route_new_winv:
  assumes "winv w" "on_http_filter_per_route_config_new mem G rt tbl alloc name config w = Ret (c, w')"
  shows "winv w'"
proof -
  have "same_requests w w' \<and> w_configManager w' = w_configManager w \<and> w_liveConfigs w' = w_liveConfigs w \<and>
      w_configs w' = w_configs w"
    using assms(2)
    by (cases "envoyBufferToStringUnsafe (mem (w_host w)) name";
        cases "envoyBufferToBytesUnsafe (mem (w_host w)) config")
      (auto simp: on_http_filter_per_route_config_new_def same_requests_def Let_def
        split: option.splits prod.splits if_splits)
  with assms(1) show ?thesis
    by (intro same_requests_winv [OF assms(1)]) (simp_all add: winv_def configs_ok_def)
qed

section \<open>The steps of a module\<close>

text \<open>
  Envoy's side of the contract is in the premises: a hook is called with a pointer the module returned
  and Envoy has not destroyed. \<open>drop\<close> is the garbage collector emptying the pool; \<open>alloc\<close> and \<open>choice\<close>
  are any addresses the allocator may return.
\<close>

definition drop_pooled :: "ptr \<Rightarrow> 'h world \<Rightarrow> 'h world" where
  "drop_pooled q w = w\<lparr>w_pool := remove1 q (w_pool w), w_handles := (w_handles w)(q := None)\<rparr>"

inductive module_step :: "'h binding \<Rightarrow> 'h world \<Rightarrow> 'h world \<Rightarrow> bool" for b :: "'h binding" where
  config_load: "alloc \<noteq> 0 \<Longrightarrow> w_configs w alloc = None \<Longrightarrow>
    on_http_filter_config_new (bd_memory b) (bd_log b) (bd_rt b) (bd_table b) alloc host name config w =
      Ret (c, w') \<Longrightarrow> module_step b w w'"
| config_event: "c \<in> w_liveConfigs w \<Longrightarrow>
    run_config_event (bd_sched b) (bd_stream2 b) (bd_rt b) cev c calls w = Ret w' \<Longrightarrow> module_step b w w'"
| config_unload: "c \<in> w_liveConfigs w \<Longrightarrow>
    on_http_filter_config_destroy (bd_sched b) (bd_stream2 b) (bd_rt b) c calls w = Ret w' \<Longrightarrow>
    module_step b w w'"
| route_load: "alloc \<noteq> 0 \<Longrightarrow>
    on_http_filter_per_route_config_new (bd_memory b) (bd_log b) (bd_rt b) (bd_table b) alloc name config w =
      Ret (c, w') \<Longrightarrow> module_step b w w'"
| route_unload: "module_step b w (on_http_filter_per_route_config_destroy c w)"
| create: "c \<in> w_liveConfigs w \<Longrightarrow> choice_ok choice w \<Longrightarrow>
    on_http_filter_new b c host choice sc created w = Ret (q, w') \<Longrightarrow> module_step b w w'"
| event: "p \<in> w_live w \<Longrightarrow> run_event b ev p sc w = Ret (r, w') \<Longrightarrow> module_step b w w'"
| destroy: "p \<in> w_live w \<Longrightarrow> on_http_filter_destroy b p sc w = Ret w' \<Longrightarrow> module_step b w w'"
| drop: "q \<in> set (w_pool w) \<Longrightarrow> module_step b w (drop_pooled q w)"

definition module_init :: "'h \<Rightarrow> 'h world" where
  "module_init h =
     \<lparr>w_handles = Map.empty, w_pool = [], w_plugins = newManager, w_shared = sd_init,
      w_configs = Map.empty, w_configManager = newManager, w_perRoute = Map.empty,
      w_perRouteManager = newManager, w_live = {}, w_liveConfigs = {}, w_trace = [], w_configTrace = [], w_host = h\<rparr>"

definition module_reachable :: "'h binding \<Rightarrow> 'h \<Rightarrow> 'h world \<Rightarrow> bool" where
  "module_reachable b h w \<longleftrightarrow> (module_step b)\<^sup>*\<^sup>* (module_init h) w"

lemma winv_init: "winv (module_init h)"
  by (simp add: winv_def module_init_def pooled_ok_def live_ok_def configs_ok_def mgr.inv_fresh sd_inv_init)

lemma drop_winv: "winv w \<Longrightarrow> q \<in> set (w_pool w) \<Longrightarrow> winv (drop_pooled q w)"
  by (auto simp: winv_def pooled_ok_def live_ok_def configs_ok_def drop_pooled_def)

lemma step_winv: "module_step b w w' \<Longrightarrow> winv w \<Longrightarrow> winv w'"
proof (induction rule: module_step.induct)
  case (config_load alloc w host name config c w')
  then show ?case using config_new_winv by blast
next
  case (config_event c w cev calls w')
  then have "c \<noteq> 0" "w_configs w c \<noteq> None" by (auto simp: winv_def configs_ok_def)
  from run_config_event_kept [OF this] config_event.hyps(2)
  have "config_kept c w w'" by (metis go.inject(2))
  with config_event.prems show ?case by (rule config_kept_winv)
next
  case (config_unload c w calls w')
  then show ?case
    using config_destroy_ok [OF config_unload.prems config_unload.hyps(1),
        of "bd_sched b" "bd_stream2 b" "bd_rt b" calls] by auto
next
  case (route_load alloc name config w c w')
  then show ?case using route_new_winv by blast
next
  case (route_unload w c)
  then have "configs_ok w" "mgr_inv (w_configManager w)" by (simp_all add: winv_def)
  then show ?case
    by (intro same_requests_winv [OF route_unload])
      (simp_all add: on_http_filter_per_route_config_destroy_def same_requests_def configs_ok_def)
next
  case (create c w choice host sc created q w')
  then show ?case
    using filter_new_ok [OF create.prems create.hyps(2,1), of b host sc created] by auto
next
  case (event p w ev sc r w')
  then show ?case using run_event_winv by blast
next
  case (destroy p w sc w')
  then show ?case using filter_destroy_ok [OF destroy.prems destroy.hyps(1), of b sc] by auto
next
  case (drop q w)
  then show ?case using drop_winv by blast
qed

lemma reachable_winv: "module_reachable b h w \<Longrightarrow> winv w"
  unfolding module_reachable_def
  by (induction rule: rtranclp_induct) (auto intro: winv_init step_winv)

text \<open>The histories determine the handles in every reachable state.\<close>

lemma history_requests: "history_ok w \<Longrightarrow> same_requests w w' \<Longrightarrow> history_ok w'"
  by (simp add: history_ok_def same_requests_def busy_def)

lemma config_new_requests:
  assumes "on_http_filter_config_new mem G rt tbl alloc host name config w = Ret (c, w')"
  shows "same_requests w w'"
  using assms
  by (cases "envoyBufferToStringUnsafe (mem (w_host w)) name";
      cases "envoyBufferToBytesUnsafe (mem (w_host w)) config")
    (auto simp: on_http_filter_config_new_def same_requests_def set_config_def Let_def
      split: prod.splits if_splits)

lemma route_new_requests:
  assumes "on_http_filter_per_route_config_new mem G rt tbl alloc name config w = Ret (c, w')"
  shows "same_requests w w'"
  using assms
  by (cases "envoyBufferToStringUnsafe (mem (w_host w)) name";
      cases "envoyBufferToBytesUnsafe (mem (w_host w)) config")
    (auto simp: on_http_filter_per_route_config_new_def same_requests_def Let_def
      split: option.splits prod.splits if_splits)

lemma config_destroy_requests:
  assumes "winv w" "c \<in> w_liveConfigs w" "on_http_filter_config_destroy S R2 rt c calls w = Ret w'"
  shows "same_requests w w'"
proof -
  from assms(1,2) obtain fw where c: "c \<noteq> 0" "w_configs w c = Some fw" by (auto simp: winv_def configs_ok_def)
  with assms(3) show ?thesis
    by (auto simp: on_http_filter_config_destroy_def run_config_calls_def mgr_unwrap_def set_config_def
        log_config_def same_requests_def Let_def split: prod.splits)
qed

lemma step_history: "module_step b w w' \<Longrightarrow> winv w \<Longrightarrow> history_ok w \<Longrightarrow> history_ok w'"
proof (induction rule: module_step.induct)
  case (config_load alloc w host name config c w')
  then show ?case using config_new_requests history_requests by blast
next
  case (config_event c w cev calls w')
  then have "c \<noteq> 0" "w_configs w c \<noteq> None" by (auto simp: winv_def configs_ok_def)
  from run_config_event_kept [OF this] config_event.hyps(2)
  have "config_kept c w w'" by (metis go.inject(2))
  with config_event.prems history_requests show ?case unfolding config_kept_def by blast
next
  case (config_unload c w calls w')
  then show ?case using config_destroy_requests history_requests by blast
next
  case (route_load alloc name config w c w')
  then show ?case using route_new_requests history_requests by blast
next
  case (route_unload w c)
  then show ?case
    by (elim history_requests) (simp add: on_http_filter_per_route_config_destroy_def same_requests_def)
next
  case (create c w choice host sc created q w')
  then show ?case
    using filter_new_ok [OF create.prems(1) create.hyps(2,1), of b host sc created] by auto
next
  case (event p w ev sc r w')
  then show ?case using run_event_stable [of w p b ev sc] by (auto simp: stable_def)
next
  case (destroy p w sc w')
  then show ?case using filter_destroy_ok [OF destroy.prems(1) destroy.hyps(1), of b sc] by auto
next
  case (drop q w)
  then show ?case
    by (elim history_ok_same) (auto simp: drop_pooled_def busy_def split: if_splits)
qed

lemma reachable_history: "module_reachable b h w \<Longrightarrow> history_ok w"
  unfolding module_reachable_def
proof (induction rule: rtranclp_induct)
  case base
  show ?case by (simp add: history_ok_def module_init_def busy_def)
next
  case (step w w')
  from reachable_winv step.hyps(1) have "winv w" unfolding module_reachable_def .
  with step step_history show ?case by blast
qed

section \<open>While a request lives\<close>

text \<open>Any number of steps of the module during which the filter \<open>p\<close> is not destroyed.\<close>

definition while_live :: "'h binding \<Rightarrow> ptr \<Rightarrow> 'h world \<Rightarrow> 'h world \<Rightarrow> bool" where
  "while_live b p = (\<lambda>x y. module_step b x y \<and> p \<in> w_live y)\<^sup>*\<^sup>*"

lemma step_keeps:
  assumes "module_step b w w'" "winv w" "p \<in> w_live w" "p \<in> w_live w'" "w_handles w p = Some hnd"
  shows "\<exists>hnd'. w_handles w' p = Some hnd' \<and> keeps hnd hnd'"
  using assms(1)
proof cases
  case (config_load alloc host name config c)
  with assms(5) config_new_requests [OF config_load(3)] show ?thesis by (simp add: same_requests_def)
next
  case (config_event c cev calls)
  with assms(2) have "c \<noteq> 0" "w_configs w c \<noteq> None" by (auto simp: winv_def configs_ok_def)
  from run_config_event_kept [OF this] config_event(2)
  have "config_kept c w w'" by (metis go.inject(2))
  with assms(5) show ?thesis by (simp add: config_kept_def same_requests_def)
next
  case (config_unload c calls)
  with assms(5) config_destroy_requests [OF assms(2)] show ?thesis by (auto simp: same_requests_def)
next
  case (route_load alloc name config c)
  with assms(5) route_new_requests [OF route_load(2)] show ?thesis by (simp add: same_requests_def)
next
  case (route_unload c)
  with assms(5) show ?thesis by (simp add: on_http_filter_per_route_config_destroy_def)
next
  case (create c choice host sc created q)
  with filter_new_ok [OF assms(2) create(2,1), of b host sc created] assms(3)
  have "others_kept q w w'" "q \<noteq> p" by auto
  with assms(5) show ?thesis by (auto simp: others_kept_def)
next
  case (event q ev sc r)
  with run_event_stable [OF assms(2) event(1), of b ev sc] assms(5) show ?thesis
    by (auto dest: stable_handle)
next
  case (destroy q sc)
  with filter_destroy_ok [OF assms(2) destroy(1), of b sc] assms(4)
  have "others_kept q w w'" "q \<noteq> p" by auto
  with assms(5) show ?thesis by (auto simp: others_kept_def)
next
  case (drop q)
  with assms(2,3) have "q \<noteq> p" by (auto simp: winv_def live_ok_def)
  with assms(5) drop show ?thesis by (simp add: drop_pooled_def)
qed

lemma while_live_keeps:
  assumes "while_live b p w w'" "winv w" "p \<in> w_live w" "w_handles w p = Some hnd"
  shows "\<exists>hnd'. w_handles w' p = Some hnd' \<and> keeps hnd hnd' \<and> winv w' \<and> p \<in> w_live w'"
  using assms(1) unfolding while_live_def
proof (induction rule: rtranclp_induct)
  case base
  with assms(2-4) show ?case by simp
next
  case (step x y)
  then obtain hx where x: "w_handles x p = Some hx" "keeps hnd hx" "winv x" "p \<in> w_live x" by blast
  from step.hyps have s: "module_step b x y" "p \<in> w_live y" by auto
  from step_keeps [OF s(1) x(3,4) s(2) x(1)] obtain hy where
    "w_handles y p = Some hy" "keeps hx hy" by blast
  with x(2) keeps_trans step_winv [OF s(1) x(3)] s(2) show ?case by blast
qed

end
