(* ===== verification/Requests.thy ===== *)
theory Requests
  imports Module
begin

text \<open>
  The properties of a request's life, over every reachable state of the module, every filter and
  every order of hooks that Envoy's contract allows; and a concrete run of the module, which the
  witnesses use.
\<close>

section \<open>A run of the module\<close>

text \<open>
  One factory under the empty name; its configuration is loaded at address 8, a filter is created at
  address 16, and destroyed.
\<close>

definition demo_factory :: "(dymConfigHandle \<times> unit, objref, objref) config_factory" where
  "demo_factory = factoryFuncAdapter (\<lambda>cfg s. ((Some 7, None), s))"

definition demo_binding :: "unit binding \<Rightarrow> unit binding" where
  "demo_binding b = b\<lparr>bd_table := [[] \<mapsto> Some demo_factory]\<rparr>"

definition demo_config :: httpFilterConfigWrapper where
  "demo_config = \<lparr>fw_pluginFactory = 7, fw_configHandle = new_config_handle 1\<rparr>"

definition demo_loaded :: "unit world" where
  "demo_loaded = (set_config (module_init ()) 8 demo_config)\<lparr>
     w_configManager := snd (mgr_record newManager 8), w_liveConfigs := {8}\<rparr>"

definition demo_handle :: dymHttpFilterHandle where
  "demo_handle = (case hd_reset zero_handle 2 of Panic e \<Rightarrow> zero_handle | Ret hnd \<Rightarrow> hnd\<lparr>plugin := Some 5\<rparr>)"

definition demo_running :: "unit world" where
  "demo_running = (set_handle demo_loaded 16 demo_handle)\<lparr>
     w_plugins := snd (mgr_record newManager 16), w_live := {16}, w_trace := [(16, UCreate 7 16)]\<rparr>"

definition demo_ended :: "unit world" where
  "demo_ended = (set_handle demo_running 16
     (demo_handle\<lparr>streamDestoried := True, plugin := None, scheduler := None\<rparr>))\<lparr>
     w_plugins := mgr_remove (w_plugins demo_running) 16, w_pool := [16], w_live := {},
     w_trace := [(16, UCreate 7 16), (16, UOnDestroy 5)]\<rparr>"

lemma demo_handle_fields [simp]:
  "plugin demo_handle = Some 5" "scheduler demo_handle = None" "\<not> streamDestoried demo_handle"
  "\<not> streamCompleted demo_handle" "\<not> localResponseSent demo_handle" "hostPluginPtr demo_handle = 2"
  "requestHeaderMap demo_handle = \<lparr>hm_hostPluginPtr = 2, hm_headerType = CVal 0\<rparr>"
  "calloutCallbacks demo_handle = None" "recordedSharedData demo_handle = []"
  by (simp_all add: demo_handle_def hd_reset_def zero_handle_def Let_def)

lemma demo_load:
  "on_http_filter_config_new (bd_memory (demo_binding b)) (bd_log (demo_binding b)) (bd_rt (demo_binding b))
     (bd_table (demo_binding b)) 8 1 null_envoy_buffer null_envoy_buffer (module_init ()) = Ret (8, demo_loaded)"
  by (simp add: on_http_filter_config_new_def envoyBufferToStringUnsafe_def envoyBufferToBytesUnsafe_def
      null_envoy_buffer_def NewHttpFilterFactory_def GetHttpFilterConfigFactory_def demo_binding_def
      demo_factory_def factoryFuncAdapter_def read_mem_def Let_def case_prod_beta demo_loaded_def
      demo_config_def module_init_def set_config_def)

lemma demo_create:
  "on_http_filter_new (demo_binding b) 8 2 (Fresh 16) (Script [] 0) (Some 5) demo_loaded = Ret (16, demo_running)"
  by (simp add: on_http_filter_new_def mgr_unwrap_def newDymStreamPluginHandle_def pool_get_def
      set_handle_def hd_reset_def zero_handle_def Let_def case_prod_beta demo_loaded_def demo_config_def
      module_init_def set_config_def log_upcall_def demo_running_def demo_handle_def)

lemma demo_destroy:
  "on_http_filter_destroy (demo_binding b) 16 (Script [] 0) demo_running = Ret demo_ended"
  by (simp add: on_http_filter_destroy_def unwrap_handle_def mgr_unwrap_def set_handle_def Let_def
      log_upcall_def demo_running_def demo_ended_def demo_loaded_def module_init_def set_config_def)

lemma demo_reach_loaded: "module_reachable (demo_binding b) () demo_loaded"
  unfolding module_reachable_def
  by (rule r_into_rtranclp, rule module_step.config_load [OF _ _ demo_load]) (simp_all add: module_init_def)

lemma demo_reach_running: "module_reachable (demo_binding b) () demo_running"
  using demo_reach_loaded unfolding module_reachable_def
  by (rule rtranclp.rtrancl_into_rtrancl)
    (rule module_step.create [OF _ _ demo_create];
      simp add: demo_loaded_def choice_ok_def module_init_def set_config_def)

lemma demo_live: "16 \<in> w_live demo_running"
  by (simp add: demo_running_def)

lemma demo_running_handle: "w_handles demo_running 16 = Some demo_handle"
  by (simp add: demo_running_def set_handle_def)

lemma demo_reach_ended: "module_reachable (demo_binding b) () demo_ended"
  using demo_reach_running unfolding module_reachable_def
  by (rule rtranclp.rtrancl_into_rtrancl) (rule module_step.destroy [OF demo_live demo_destroy])

lemma demo_ended_config: "8 \<in> w_liveConfigs demo_ended" "choice_ok (Reuse 16) demo_ended"
  by (simp_all add: demo_ended_def demo_running_def demo_loaded_def set_handle_def set_config_def
      choice_ok_def)

section \<open>Consequences of a flag that stays\<close>

lemma set_handle_same: "w_handles w p = Some hnd \<Longrightarrow> set_handle w p hnd = w"
  by (simp add: set_handle_def fun_upd_idem)

text \<open>A hook whose body does nothing leaves the world as it is and returns 0.\<close>

lemma silent_hook:
  assumes "winv w" "p \<in> w_live w" "w_handles w p = Some hnd" "hook_of ev p w = with_handle p body w"
    "body hnd = (None, hnd)"
  shows "run_event b ev p sc w = Ret (0, w)"
proof -
  from assms(1,2) have "p \<noteq> 0" by (auto simp: winv_def live_ok_def)
  with assms(3-5) show ?thesis
    by (simp add: run_event_def with_handle_def unwrap_handle_def mgr_unwrap_def set_handle_same)
qed

fun late_event :: "event \<Rightarrow> bool" where
  "late_event (Scheduled i) = True"
| "late_event (CalloutDone i r hs cs) = True"
| "late_event (HttpStreamHeaders i hs eos) = True"
| "late_event (HttpStreamData i cs eos) = True"
| "late_event (HttpStreamTrailers i hs) = True"
| "late_event (HttpStreamComplete i) = True"
| "late_event (HttpStreamReset i r) = True"
| "late_event AboveWatermark = True"
| "late_event BelowWatermark = True"
| "late_event ev = False"

lemma late_silent:
  assumes "winv w" "p \<in> w_live w" "w_handles w p = Some hnd" "streamCompleted hnd" "late_event ev"
  shows "run_event b ev p sc w = Ret (0, w)"
  by (cases ev; (use assms(5) in \<open>simp; fail\<close>)?)
    (rule silent_hook [OF assms(1-3)], simp add: hook_defs,
      simp add: assms(4) Let_def split: option.split)+

lemma run_event_inv:
  assumes "winv w" "p \<in> w_live w" "run_event b ev p sc w = Ret (r, w')"
  shows "winv w' \<and> p \<in> w_live w'"
  using run_event_stable [OF assms(1,2), of b ev sc] run_event_winv [OF assms] assms(2,3)
  by (auto simp: stable_def)

lemma event_runs_script:
  assumes "winv w" "p \<in> w_live w" "hook_of ev p w = Ret (Some u, w0)"
    "run_event b ev p sc w = Ret (r, w')"
  shows "stable {p} w (log_upcall p u w0) \<and> winv (log_upcall p u w0) \<and> busy p (log_upcall p u w0) \<and>
    run_script b p sc (log_upcall p u w0) = Ret w' \<and> r = script_result sc"
proof -
  have bp: "busy p w" using live_busy assms(1,2) .
  from hook_stable [OF bp, of ev] assms(3) have s: "stable {p} w (log_upcall p u w0)" by auto
  from ready_stable [OF s _ assms(1) bp] have "winv (log_upcall p u w0)" "busy p (log_upcall p u w0)"
    by (auto simp: reach_def)
  moreover from script_stable [OF this] obtain w2 where "run_script b p sc (log_upcall p u w0) = Ret w2"
    by blast
  ultimately show ?thesis using s assms(3,4) by (simp add: run_event_def)
qed

lemma callout_done_hook:
  assumes "p \<noteq> 0" "w_handles w p = Some hnd" "\<not> streamCompleted hnd"
  shows "on_http_callout_done p i r hs cs w =
    (case go_map_get (calloutCallbacks hnd) i of
       None \<Rightarrow> Ret (None, w)
     | Some cb \<Rightarrow> Ret (Some (UOnHttpCalloutDone cb i r (envoyHttpHeaderSliceToUnsafeHeaderSlice hs)
          (map envoyBufferToUnsafeEnvoyBuffer cs)),
         set_handle w p (hnd\<lparr>calloutCallbacks := go_map_delete (calloutCallbacks hnd) i\<rparr>)))"
  using assms by (simp add: on_http_callout_done_def with_handle_def unwrap_handle_def mgr_unwrap_def
      Let_def set_handle_same envoyBufferSlice_map split: option.split)

section \<open>Properties\<close>

text \<open>C2: in every reachable state of the module a handle object is in at most one place: the pool holds
  no handle twice and none that a live request uses; a pooled handle has neither filter nor
  scheduler; and the pointer Envoy holds for a live request is a pinned, not yet destroyed handle.\<close>

theorem handles_are_separate:
  assumes "module_reachable b h w"
  shows "distinct (w_pool w) \<and> set (w_pool w) \<inter> w_live w = {} \<and>
    (\<forall>q\<in>set (w_pool w). \<exists>hnd. w_handles w q = Some hnd \<and> plugin hnd = None \<and> scheduler hnd = None) \<and>
    (\<forall>p\<in>w_live w. p \<noteq> 0 \<and> mgr_search (w_plugins w) p = Some p \<and>
       (\<exists>hnd. w_handles w p = Some hnd \<and> \<not> streamDestoried hnd))"
  using reachable_winv [OF assms] by (auto simp: winv_def pooled_ok_def live_ok_def)

theorem handles_are_separate_witness:
  "w_pool demo_ended = [16] \<and> (\<exists>hnd. w_handles demo_ended 16 = Some hnd \<and> plugin hnd = None)"
proof -
  have pool: "w_pool demo_ended = [16]" by (simp add: demo_ended_def)
  from handles_are_separate [OF demo_reach_ended] have
    "\<forall>q\<in>set (w_pool demo_ended). \<exists>hnd. w_handles demo_ended q = Some hnd \<and> plugin hnd = None" by blast
  with pool show ?thesis by simp
qed

text \<open>C1: every new request starts clean and alone. Whatever the pool hands out, \<open>on_http_filter_new\<close> for a
  loaded configuration does not panic (in particular the two pool corruption checks never fire), its
  pointer is not null and is no other live request's, the handle the factory is given is a newly
  created one set up for this stream (nothing of the request that used it before is left), and the
  handles of the other requests are as they were.\<close>

theorem request_starts_clean:
  assumes "module_reachable b h w" "c \<in> w_liveConfigs w" "choice_ok choice w"
  shows "\<exists>q w' fw. on_http_filter_new b c host choice sc created w = Ret (q, w') \<and>
    w_configs w c = Some fw \<and> q \<noteq> 0 \<and> q \<notin> w_live w \<and> w_live w' = insert q (w_live w) \<and>
    started b fw host sc created q w w' \<and> others_kept q w w'"
  using filter_new_ok [OF reachable_winv [OF assms(1)] assms(3,2), of b host sc created] by blast

theorem request_starts_clean_witness:
  "\<forall>b. \<exists>q w'. on_http_filter_new (demo_binding b) 8 3 (Reuse 16) (Script [] 0) None demo_ended = Ret (q, w') \<and>
     q \<noteq> 0 \<and> q \<in> w_live w'"
proof
  fix b
  show "\<exists>q w'. on_http_filter_new (demo_binding b) 8 3 (Reuse 16) (Script [] 0) None demo_ended = Ret (q, w') \<and>
     q \<noteq> 0 \<and> q \<in> w_live w'"
    using request_starts_clean [OF demo_reach_ended demo_ended_config, of b 3 "Script [] 0" None] by blast
qed

text \<open>C3: no hook panics. Any event for a live request, with any code of any filter (calls of the handle in
  any order, and further hooks that Envoy runs inline for this or other live requests), returns, and
  touches live requests only: the pool, the registries and the handles that are not live are the same
  after it.\<close>

theorem hooks_never_panic:
  assumes "module_reachable b h w" "p \<in> w_live w"
  shows "\<exists>r w'. run_event b ev p sc w = Ret (r, w') \<and> w_live w' = w_live w \<and> w_pool w' = w_pool w \<and>
    w_plugins w' = w_plugins w \<and> (\<forall>q. q \<notin> w_live w \<longrightarrow> w_handles w' q = w_handles w q)"
  using run_event_stable [OF reachable_winv [OF assms(1)] assms(2), of b ev sc] by (auto simp: stable_def)

theorem hooks_never_panic_witness:
  "\<forall>b. \<exists>r w'. run_event (demo_binding b) (RequestHeaders True) 16
     (Script [Call (ToEnvoy id) [Inline (LocalReply 403 null_envoy_buffer False) 16 (Script [] 0)]] 1)
     demo_running = Ret (r, w')"
  using hooks_never_panic [OF demo_reach_running demo_live] by blast

text \<open>C4: \<open>on_http_filter_destroy\<close> retires the handle: it does not panic, calls \<open>OnDestroy\<close> once and last,
  unpins the pointer and puts the handle, without filter and scheduler, into the pool; other requests
  keep their handles; and a second destroy of the pointer before the handle is reused does nothing.\<close>

theorem destroy_retires_handle:
  assumes "module_reachable b h w" "p \<in> w_live w"
  shows "\<exists>w'. on_http_filter_destroy b p sc w = Ret w' \<and> ended b sc p w w' \<and>
    w_live w' = w_live w - {p} \<and> w_pool w' = p # w_pool w \<and> mgr_search (w_plugins w') p = None \<and>
    others_kept p w w' \<and> on_http_filter_destroy b p sc' w' = Ret w'"
proof -
  have inv: "winv w" using reachable_winv [OF assms(1)] .
  from filter_destroy_ok [OF inv assms(2), of b sc] obtain w' hnd where
    w': "on_http_filter_destroy b p sc w = Ret w'" "ended b sc p w w'" "w_live w' = w_live w - {p}"
      "w_pool w' = p # w_pool w" "mgr_search (w_plugins w') p = None" "others_kept p w w'"
      "w_handles w' p = Some hnd" "streamDestoried hnd" by blast
  have "p \<noteq> 0" using inv assms(2) by (auto simp: winv_def live_ok_def)
  with w'(7,8) have "on_http_filter_destroy b p sc' w' = Ret w'"
    by (simp add: on_http_filter_destroy_def unwrap_handle_def mgr_unwrap_def)
  with w' show ?thesis by blast
qed

theorem destroy_retires_handle_witness:
  "\<forall>b. \<exists>w'. on_http_filter_destroy (demo_binding b) 16 (Script [] 0) demo_running = Ret w' \<and> w_pool w' = [16]"
proof
  fix b
  have "w_pool demo_running = []"
    by (simp add: demo_running_def demo_loaded_def module_init_def set_handle_def set_config_def)
  with destroy_retires_handle [OF demo_reach_running demo_live, of b "Script [] 0" "Script [] 0"]
  show "\<exists>w'. on_http_filter_destroy (demo_binding b) 16 (Script [] 0) demo_running = Ret w' \<and> w_pool w' = [16]"
    by auto
qed

text \<open>C5: a completed stream stays silent. Once \<open>stream_complete\<close> was delivered to a filter, no scheduled
  task, callout result, stream event or watermark event reaches the filter's code as long as the
  request lives, whatever else the module does in between: such a hook changes nothing.\<close>

theorem completed_stream_stays_silent:
  assumes "module_reachable b h w" "p \<in> w_live w" "w_handles w p = Some hnd" "plugin hnd = Some pl"
    and "run_event b StreamComplete p sc w = Ret (r, w1)" "while_live b p w1 w2" "late_event ev"
  shows "run_event b ev p sc' w2 = Ret (0, w2)"
proof -
  have inv: "winv w" using reachable_winv [OF assms(1)] .
  then have "p \<noteq> 0" using assms(2) by (auto simp: winv_def live_ok_def)
  let ?h = "hnd\<lparr>streamCompleted := True\<rparr>"
  let ?w0 = "(set_handle w p ?h)\<lparr>w_shared := hd_clearData (w_shared w) ?h\<rparr>"
  have hook: "hook_of StreamComplete p w = Ret (Some (UOnStreamComplete pl), ?w0)"
    using \<open>p \<noteq> 0\<close> assms(3,4) by (simp add: on_stream_complete_def unwrap_handle_def mgr_unwrap_def Let_def)
  from event_runs_script [OF inv assms(2) hook assms(5)] script_stable
  have "stable (reach p (log_upcall p (UOnStreamComplete pl) ?w0)) (log_upcall p (UOnStreamComplete pl) ?w0) w1"
    by (metis go.inject(2))
  moreover have "w_handles (log_upcall p (UOnStreamComplete pl) ?w0) p = Some ?h"
    by (simp add: log_upcall_def set_handle_def)
  ultimately obtain h1 where h1: "w_handles w1 p = Some h1" "streamCompleted h1"
    by (auto dest!: stable_handle simp: keeps_def)
  have i1: "winv w1" "p \<in> w_live w1"
    using run_event_inv [OF inv assms(2,5)] by auto
  from while_live_keeps [OF assms(6) i1 h1(1)] h1(2) obtain h2 where
    "w_handles w2 p = Some h2" "streamCompleted h2" "winv w2" "p \<in> w_live w2" by (auto simp: keeps_def)
  with late_silent assms(7) show ?thesis by blast
qed

theorem completed_stream_stays_silent_witness:
  "\<forall>b. \<exists>r w1. run_event (demo_binding b) StreamComplete 16 (Script [] 0) demo_running = Ret (r, w1) \<and>
     run_event (demo_binding b) (CalloutDone 3 0 [] []) 16 (Script [] 0) w1 = Ret (0, w1)"
proof
  fix b
  from hooks_never_panic [OF demo_reach_running demo_live, of b StreamComplete "Script [] 0"]
  obtain r w1 where "run_event (demo_binding b) StreamComplete 16 (Script [] 0) demo_running = Ret (r, w1)"
    by blast
  moreover from completed_stream_stays_silent [OF demo_reach_running demo_live demo_running_handle _ this,
      of 5 w1 "CalloutDone 3 0 [] []" "Script [] 0"]
  have "run_event (demo_binding b) (CalloutDone 3 0 [] []) 16 (Script [] 0) w1 = Ret (0, w1)"
    by (simp add: while_live_def)
  ultimately show "\<exists>r w1. run_event (demo_binding b) StreamComplete 16 (Script [] 0) demo_running = Ret (r, w1) \<and>
      run_event (demo_binding b) (CalloutDone 3 0 [] []) 16 (Script [] 0) w1 = Ret (0, w1)" by blast
qed

definition demo_stream :: "unit host_stream_1 \<Rightarrow> unit host_stream_1" where
  "demo_stream R = R\<lparr>cb_http_filter_http_callout := (\<lambda>p c hs bd t h. ((CVal 0, Some 9), h)),
     cb_http_filter_start_http_stream := (\<lambda>p c hs bd e t h. ((CVal 0, Some 9), h))\<rparr>"

lemmas run_simps = run_event_def hook_defs with_handle_def unwrap_handle_def mgr_unwrap_def demo_running_handle
  call_begin_def call_return_def log_upcall_def set_handle_def Let_def hd_HttpCallout_call_def
  hd_HttpCallout_return_def hd_StartHttpStream_call_def hd_StartHttpStream_return_def
  hd_SendLocalResponse_def hd_sending_def CalloutInitSuccess_def HttpCalloutInitResult_value_def
  HttpCalloutInitResult_iota_def

lemma demo_trace: "w_trace demo_running = [(16, UCreate 7 16)]" "w_live demo_running = {16}"
  by (simp_all add: demo_running_def)

lemma reach_event:
  assumes "module_reachable b h w" "p \<in> w_live w" "run_event b ev p sc w = Ret (r, w')"
  shows "module_reachable b h w'"
  using assms(1) module_step.event [OF assms(2,3)] unfolding module_reachable_def
  by (rule rtranclp.rtrancl_into_rtrancl)

text \<open>A filter that starts a callout and a stream, which then end.\<close>

lemma demo_callout:
  "\<exists>w1 hnd. module_reachable (demo_binding (b\<lparr>bd_stream := demo_stream (bd_stream b)\<rparr>)) () w1 \<and> 16 \<in> w_live w1 \<and>
     w_handles w1 16 = Some hnd \<and> \<not> streamCompleted hnd \<and>
     history 16 (w_trace w1) = [UCreate 7 16, UOnRequestHeaders 5 \<lparr>hm_hostPluginPtr = 2, hm_headerType = CVal 0\<rparr> True,
       NCalloutRegistered 9 (Some 4), NStreamRegistered 9 (Some 6)]"
proof -
  let ?b = "demo_binding (b\<lparr>bd_stream := demo_stream (bd_stream b)\<rparr>)"
  let ?sc = "Script [Call (CallHttpCallout ''auth'' [] None 100 (Some 4)) [],
    Call (CallStartHttpStream ''up'' [] None True 100 (Some 6)) []] 1"
  obtain w1 where w1: "run_event ?b (RequestHeaders True) 16 ?sc demo_running = Ret (1, w1)"
      "w_live w1 = w_live demo_running" "w_trace w1 = w_trace demo_running @
        [(16, UOnRequestHeaders 5 \<lparr>hm_hostPluginPtr = 2, hm_headerType = CVal 0\<rparr> True),
         (16, NCalloutRegistered 9 (Some 4)), (16, NStreamRegistered 9 (Some 6))]"
      "\<exists>hnd. w_handles w1 16 = Some hnd \<and> \<not> streamCompleted hnd"
    by (simp add: run_simps demo_binding_def demo_stream_def demo_trace)
  with reach_event [OF demo_reach_running demo_live w1(1)] show ?thesis by (auto simp: demo_trace)
qed

lemma demo_done:
  "\<exists>w2. module_reachable (demo_binding (b\<lparr>bd_stream := demo_stream (bd_stream b)\<rparr>)) () w2 \<and>
     history 16 (w_trace w2) = [UCreate 7 16, UOnRequestHeaders 5 \<lparr>hm_hostPluginPtr = 2, hm_headerType = CVal 0\<rparr> True,
       NCalloutRegistered 9 (Some 4), NStreamRegistered 9 (Some 6), UOnHttpCalloutDone 4 9 0 [] [],
       UOnHttpStreamReset 6 9 1]"
proof -
  let ?b = "demo_binding (b\<lparr>bd_stream := demo_stream (bd_stream b)\<rparr>)"
  obtain w1 hnd where w1: "module_reachable ?b () w1" "16 \<in> w_live w1" "w_handles w1 16 = Some hnd"
      "\<not> streamCompleted hnd" "history 16 (w_trace w1) = [UCreate 7 16,
        UOnRequestHeaders 5 \<lparr>hm_hostPluginPtr = 2, hm_headerType = CVal 0\<rparr> True,
        NCalloutRegistered 9 (Some 4), NStreamRegistered 9 (Some 6)]"
    using demo_callout by blast
  have "busy 16 w1" using reachable_winv [OF w1(1)] w1(2) live_busy by blast
  with reachable_history [OF w1(1)] w1(3,5)
  have "path_of hnd = replay new_path (history 16 (w_trace w1))" by (simp add: history_ok_def)
  with w1(5) have m: "go_map_get (calloutCallbacks hnd) 9 = Some 4" "go_map_get (streamCallbacks hnd) 9 = Some 6"
    by (auto simp: path_of_def new_path_def)
  obtain w2 hnd2 where w2: "run_event ?b (CalloutDone 9 0 [] []) 16 (Script [] 0) w1 = Ret (0, w2)"
      "w_live w2 = w_live w1" "w_trace w2 = w_trace w1 @ [(16, UOnHttpCalloutDone 4 9 0 [] [])]"
      "w_handles w2 16 = Some hnd2" "\<not> streamCompleted hnd2" "streamCallbacks hnd2 = streamCallbacks hnd"
    using w1(3,4) m by (simp add: run_simps envoyHttpHeaderSliceToUnsafeHeaderSlice_def envoyBufferSlice_map)
  obtain w3 where w3: "run_event ?b (HttpStreamReset 9 1) 16 (Script [] 0) w2 = Ret (0, w3)"
      "w_trace w3 = w_trace w2 @ [(16, UOnHttpStreamReset 6 9 1)]"
    using w2 m by (simp add: run_simps)
  have "module_reachable ?b () w3"
    using reach_event [OF reach_event [OF w1(1,2) w2(1)] _ w3(1)] w1(2) w2(2) by simp
  with w1(5) w2(3) w3(2) show ?thesis by auto
qed

text \<open>A filter that answers the request itself; the next user of its handle sees a response.\<close>

lemma demo_answered:
  "\<exists>w. module_reachable (demo_binding b) () w \<and> history 16 (w_trace w) = [UCreate 7 16,
     UOnRequestHeaders 5 \<lparr>hm_hostPluginPtr = 2, hm_headerType = CVal 0\<rparr> True, NSendLocalResponse 403, UOnDestroy 5,
     UCreate 7 16, UOnResponseTrailers 5 \<lparr>hm_hostPluginPtr = 3, hm_headerType = CVal 3\<rparr>]"
proof -
  let ?b = "demo_binding b"
  obtain w1 where w1: "run_event ?b (RequestHeaders True) 16
        (Script [Call (CallSendLocalResponse 403 [] None []) [Inline ResponseTrailers 16 (Script [] 0)]] 1)
        demo_running = Ret (1, w1)" "w_live w1 = {16}" "w_liveConfigs w1 = {8}" "w_pool w1 = []"
      "w_configs w1 8 = Some demo_config"
      "w_handles w1 16 = Some (demo_handle\<lparr>localResponseSent := True\<rparr>)"
      "w_trace w1 = [(16, UCreate 7 16),
        (16, UOnRequestHeaders 5 \<lparr>hm_hostPluginPtr = 2, hm_headerType = CVal 0\<rparr> True), (16, NSendLocalResponse 403)]"
    by (simp add: run_simps demo_trace) (simp add: demo_running_def demo_loaded_def set_handle_def set_config_def module_init_def)
  obtain w2 where w2: "on_http_filter_destroy ?b 16 (Script [] 0) w1 = Ret w2" "w_liveConfigs w2 = {8}"
      "w_pool w2 = [16]" "w_configs w2 8 = Some demo_config"
      "w_handles w2 16 = Some (demo_handle\<lparr>localResponseSent := True, streamDestoried := True, plugin := None,
        scheduler := None\<rparr>)" "w_trace w2 = w_trace w1 @ [(16, UOnDestroy 5)]"
    using w1 by (simp add: on_http_filter_destroy_def run_simps)
  obtain w3 hnd where w3: "on_http_filter_new ?b 8 3 (Reuse 16) (Script [] 0) (Some 5) w2 = Ret (16, w3)"
      "16 \<in> w_live w3" "w_handles w3 16 = Some hnd" "plugin hnd = Some 5" "\<not> localResponseSent hnd"
      "responseTrailerMap hnd = \<lparr>hm_hostPluginPtr = 3, hm_headerType = CVal 3\<rparr>"
      "w_trace w3 = w_trace w2 @ [(16, UCreate 7 16)]"
    using w2 by (simp add: on_http_filter_new_def newDymStreamPluginHandle_def pool_get_def hd_reset_def
        run_simps demo_config_def case_prod_beta)
  obtain w4 where w4: "run_event ?b ResponseTrailers 16 (Script [] 0) w3 = Ret (0, w4)"
      "w_trace w4 = w_trace w3 @ [(16, UOnResponseTrailers 5 \<lparr>hm_hostPluginPtr = 3, hm_headerType = CVal 3\<rparr>)]"
    using w3 by (simp add: run_simps)
  have r1: "module_reachable ?b () w1" using reach_event [OF demo_reach_running demo_live w1(1)] .
  have r2: "module_reachable ?b () w2"
    using r1 module_step.destroy [OF _ w2(1)] w1(2) unfolding module_reachable_def
    by (auto intro: rtranclp.rtrancl_into_rtrancl)
  have "module_reachable ?b () w3"
    using r2 module_step.create [OF _ _ w3(1)] w2(2,3) unfolding module_reachable_def
    by (auto intro: rtranclp.rtrancl_into_rtrancl simp: choice_ok_def)
  from reach_event [OF this w3(2) w4(1)] w1(7) w2(6) w3(7) w4(2) show ?thesis by auto
qed

text \<open>C6: a local response ends the response path. In the history of a handle, in every reachable state of
  the module, no call of a response hook of the filter comes after the filter called
  \<open>SendLocalResponse\<close>, unless the handle was given to a new request in between. The note of
  \<open>SendLocalResponse\<close> is made when it calls Envoy, so hooks that Envoy runs inside that call count, and so
  does a local response sent from code that runs inside another hook.\<close>

theorem local_response_ends_response_path:
  assumes "module_reachable b h w"
    and "history p (w_trace w) = xs @ NSendLocalResponse status # ys @ u # zs" "response_call u"
  shows "\<exists>f q. UCreate f q \<in> set ys"
proof (rule ccontr)
  assume "\<nexists>f q. UCreate f q \<in> set ys"
  then have "\<forall>v\<in>set ys. \<not> is_create v" by (metis is_create.elims(2))
  then have "ps_sent (replay new_path (xs @ NSendLocalResponse status # ys))"
    by (intro sent.holds_after) simp_all
  moreover have "permitted (replay new_path (xs @ NSendLocalResponse status # ys)) u"
    using history_entry [OF reachable_history [OF assms(1)]] assms(2) by (metis append_Cons append_assoc)
  ultimately show False using assms(3) by (simp add: permitted_def)
qed

theorem local_response_ends_response_path_witness:
  "\<forall>b. \<exists>w ys. module_reachable (demo_binding b) () w \<and> history 16 (w_trace w) = [UCreate 7 16,
     UOnRequestHeaders 5 \<lparr>hm_hostPluginPtr = 2, hm_headerType = CVal 0\<rparr> True, NSendLocalResponse 403] @ ys @
     [UOnResponseTrailers 5 \<lparr>hm_hostPluginPtr = 3, hm_headerType = CVal 3\<rparr>] \<and> (\<exists>f q. UCreate f q \<in> set ys)"
proof
  fix b
  let ?ys = "[UOnDestroy 5, UCreate 7 16]"
  from demo_answered obtain w where w: "module_reachable (demo_binding b) () w"
    "history 16 (w_trace w) = [UCreate 7 16, UOnRequestHeaders 5 \<lparr>hm_hostPluginPtr = 2, hm_headerType = CVal 0\<rparr> True]
      @ NSendLocalResponse 403 # ?ys @ UOnResponseTrailers 5 \<lparr>hm_hostPluginPtr = 3, hm_headerType = CVal 3\<rparr> # []"
    by (metis append_Cons append_Nil)
  from local_response_ends_response_path [OF w] have "\<exists>f q. UCreate f q \<in> set ?ys" by simp
  with w show "\<exists>w ys. module_reachable (demo_binding b) () w \<and> history 16 (w_trace w) = [UCreate 7 16,
     UOnRequestHeaders 5 \<lparr>hm_hostPluginPtr = 2, hm_headerType = CVal 0\<rparr> True, NSendLocalResponse 403] @ ys @
     [UOnResponseTrailers 5 \<lparr>hm_hostPluginPtr = 3, hm_headerType = CVal 3\<rparr>] \<and> (\<exists>f q. UCreate f q \<in> set ys)"
    by (intro exI [of _ w] exI [of _ ?ys]) simp
qed

text \<open>C8: completions reach the callback they were registered for, and each registration is used up by its
  last event. In every reachable state, whatever hooks were nested or interleaved: each call of
  \<open>OnHttpCalloutDone\<close> for \<open>i\<close> in the history of a handle went to the callback of the last \<open>HttpCallout\<close>
  that returned \<open>i\<close>, and since then that callout was not delivered before, nor the handle given to a new
  request; each stream event for \<open>i\<close> went to the callback of the last \<open>StartHttpStream\<close> that returned
  \<open>i\<close>, and since then neither a completion nor a reset of \<open>i\<close> was delivered.\<close>

theorem completions_reach_their_callback:
  assumes "module_reachable b h w" "history p (w_trace w) = xs @ u # ys"
  shows "(callout_call u = Some (i, cb) \<longrightarrow>
      (\<exists>as bs. xs = as @ NCalloutRegistered i (Some cb) # bs \<and> (\<forall>v\<in>set bs. \<not> settles_callout i v))) \<and>
    (stream_call u = Some (i, cb) \<longrightarrow>
      (\<exists>as bs. xs = as @ NStreamRegistered i (Some cb) # bs \<and> (\<forall>v\<in>set bs. \<not> settles_stream i v)))"
proof -
  have "permitted (replay new_path xs) u"
    using history_entry [OF reachable_history [OF assms(1)] assms(2)] .
  with callouts.was_set [where us = xs and i = i and cb = cb] streams.was_set [where us = xs and i = i and cb = cb]
  show ?thesis by (auto simp: permitted_def)
qed

theorem completions_reach_their_callback_witness:
  "\<forall>b. \<exists>w xs ys. module_reachable (demo_binding (b\<lparr>bd_stream := demo_stream (bd_stream b)\<rparr>)) () w \<and>
     history 16 (w_trace w) = xs @ UOnHttpCalloutDone 4 9 0 [] [] # ys \<and> NCalloutRegistered 9 (Some 4) \<in> set xs \<and>
     ys = [UOnHttpStreamReset 6 9 1] \<and> NStreamRegistered 9 (Some 6) \<in> set xs"
proof
  fix b
  let ?xs = "[UCreate 7 16, UOnRequestHeaders 5 \<lparr>hm_hostPluginPtr = 2, hm_headerType = CVal 0\<rparr> True,
       NCalloutRegistered 9 (Some 4), NStreamRegistered 9 (Some 6)]"
  from demo_done [of b] obtain w where w: "module_reachable (demo_binding (b\<lparr>bd_stream := demo_stream (bd_stream b)\<rparr>)) () w"
    "history 16 (w_trace w) = ?xs @ UOnHttpCalloutDone 4 9 0 [] [] # [UOnHttpStreamReset 6 9 1]" by auto
  then have w': "history 16 (w_trace w) = (?xs @ [UOnHttpCalloutDone 4 9 0 [] []]) @ UOnHttpStreamReset 6 9 1 # []" by simp
  have "NCalloutRegistered 9 (Some 4) \<in> set ?xs"
    using completions_reach_their_callback [OF w, of 9 4] by (metis callout_call.simps(1) in_set_conv_decomp)
  moreover have "NStreamRegistered 9 (Some 6) \<in> set (?xs @ [UOnHttpCalloutDone 4 9 0 [] []])"
    using completions_reach_their_callback [OF w(1) w', of 9 6] by (metis stream_call.simps(5) in_set_conv_decomp)
  ultimately show "\<exists>w xs ys. module_reachable (demo_binding (b\<lparr>bd_stream := demo_stream (bd_stream b)\<rparr>)) () w \<and>
     history 16 (w_trace w) = xs @ UOnHttpCalloutDone 4 9 0 [] [] # ys \<and> NCalloutRegistered 9 (Some 4) \<in> set xs \<and>
     ys = [UOnHttpStreamReset 6 9 1] \<and> NStreamRegistered 9 (Some 6) \<in> set xs"
    using w by (intro exI [of _ w] exI [of _ ?xs] exI [of _ "[UOnHttpStreamReset 6 9 1]"] conjI) simp_all
qed

text \<open>C7: a callout that was started is delivered. If an \<open>HttpCallout\<close> of a live request has returned with
  identifier \<open>i\<close> and a callback, and since then \<open>i\<close> was neither completed nor given out again, then in
  every reachable state, whatever happened in between, the completion of \<open>i\<close> calls this callback with
  Envoy's result, headers and body chunks unchanged, as long as the stream is not complete. (A
  completion that Envoy delivers before \<open>HttpCallout\<close> returns is lost, see \<open>inline_completion_lost\<close>.)\<close>

theorem registered_callout_is_delivered:
  assumes "module_reachable b h w" "p \<in> w_live w" "w_handles w p = Some hnd" "\<not> streamCompleted hnd"
    and "history p (w_trace w) = as @ NCalloutRegistered i (Some cb) # bs" "\<forall>v\<in>set bs. \<not> settles_callout i v"
  shows "\<exists>w'. hook_of (CalloutDone i r hs cs) p w =
    Ret (Some (UOnHttpCalloutDone cb i r (envoyHttpHeaderSliceToUnsafeHeaderSlice hs)
      (map envoyBufferToUnsafeEnvoyBuffer cs)), w')"
proof -
  have inv: "winv w" using reachable_winv [OF assms(1)] .
  with assms(2) have "busy p w" "p \<noteq> 0" using live_busy by (auto simp: busy_def)
  with reachable_history [OF assms(1)] assms(3) have "path_of hnd = replay new_path (history p (w_trace w))"
    by (simp add: history_ok_def)
  moreover have "ps_callouts (replay new_path (history p (w_trace w))) i = Some cb"
    unfolding assms(5) by (rule callouts.holds_after [OF refl assms(6)])
  ultimately have "ps_callouts (path_of hnd) i = Some cb" by simp
  then have "go_map_get (calloutCallbacks hnd) i = Some cb" by (simp add: path_of_def)
  with callout_done_hook [OF \<open>p \<noteq> 0\<close> assms(3,4)] show ?thesis by simp
qed

theorem registered_callout_is_delivered_witness:
  "\<forall>b. \<exists>w w'. module_reachable (demo_binding (b\<lparr>bd_stream := demo_stream (bd_stream b)\<rparr>)) () w \<and>
     hook_of (CalloutDone 9 0 [] []) 16 w = Ret (Some (UOnHttpCalloutDone 4 9 0 [] []), w')"
proof
  fix b
  obtain w hnd where w: "module_reachable (demo_binding (b\<lparr>bd_stream := demo_stream (bd_stream b)\<rparr>)) () w" "16 \<in> w_live w"
    "w_handles w 16 = Some hnd" "\<not> streamCompleted hnd" "history 16 (w_trace w) = [UCreate 7 16,
       UOnRequestHeaders 5 \<lparr>hm_hostPluginPtr = 2, hm_headerType = CVal 0\<rparr> True] @
       NCalloutRegistered 9 (Some 4) # [NStreamRegistered 9 (Some 6)]"
    using demo_callout [of b] by auto
  from registered_callout_is_delivered [OF w, of 0 "[]" "[]"] w(1)
  show "\<exists>w w'. module_reachable (demo_binding (b\<lparr>bd_stream := demo_stream (bd_stream b)\<rparr>)) () w \<and>
     hook_of (CalloutDone 9 0 [] []) 16 w = Ret (Some (UOnHttpCalloutDone 4 9 0 [] []), w')"
    by (auto simp: envoyHttpHeaderSliceToUnsafeHeaderSlice_def)
qed

text \<open>
  Envoy may complete a callout before \<open>http_callout\<close> returns. The module registers the callback after
  it, so this completion is lost: nobody is called, and the callback stays registered.
\<close>

lemma inline_completion_lost:
  assumes "p \<noteq> 0" "w_handles w p = Some hnd" "go_map_get (calloutCallbacks hnd) i = None"
    and "cb_http_filter_http_callout (bd_stream b) (hostPluginPtr hnd) (stringToModuleBuffer (bd_rt b) cluster)
       (headersToModuleHttpHeaderSlice (bd_rt b) headers) (bytesToModuleBuffer body) timeoutMs (w_host w) =
       ((res, Some i), h1)"
    and "c_raw res = CalloutInitSuccess"
  shows "\<exists>w1 hnd1. run_op b p (Call (CallHttpCallout cluster headers body timeoutMs cb)
      [Inline (CalloutDone i r hs cs) p sc]) w = Ret w1 \<and>
    w_trace w1 = w_trace w @ [(p, NCalloutRegistered i cb)] \<and>
    w_handles w1 p = Some hnd1 \<and> go_map_get (calloutCallbacks hnd1) i = cb"
  using assms by (simp add: call_begin_def call_return_def hd_HttpCallout_call_def hd_HttpCallout_return_def
      on_http_callout_done_def with_handle_def unwrap_handle_def mgr_unwrap_def set_handle_def log_upcall_def Let_def)

text \<open>The views of a handle name the right parts of the stream: the eight numeric constants that \<open>reset\<close>
  writes are the ABI's header and body types of the parts the accessors are named after, for the
  stream the handle was reset to.\<close>

theorem handle_views_name_their_parts:
  "\<exists>hnd. hd_reset zero_handle p = Ret hnd \<and>
    requestHeaderMap hnd = \<lparr>hm_hostPluginPtr = p,
      hm_headerType = c_const http_header_type_order http_header_type_RequestHeader\<rparr> \<and>
    requestTrailerMap hnd = \<lparr>hm_hostPluginPtr = p,
      hm_headerType = c_const http_header_type_order http_header_type_RequestTrailer\<rparr> \<and>
    responseHeaderMap hnd = \<lparr>hm_hostPluginPtr = p,
      hm_headerType = c_const http_header_type_order http_header_type_ResponseHeader\<rparr> \<and>
    responseTrailerMap hnd = \<lparr>hm_hostPluginPtr = p,
      hm_headerType = c_const http_header_type_order http_header_type_ResponseTrailer\<rparr> \<and>
    receivedRequestBody hnd = \<lparr>bb_hostPluginPtr = p,
      bb_bufferType = c_const http_body_type_order http_body_type_ReceivedRequestBody\<rparr> \<and>
    bufferedRequestBody hnd = \<lparr>bb_hostPluginPtr = p,
      bb_bufferType = c_const http_body_type_order http_body_type_BufferedRequestBody\<rparr> \<and>
    receivedResponseBody hnd = \<lparr>bb_hostPluginPtr = p,
      bb_bufferType = c_const http_body_type_order http_body_type_ReceivedResponseBody\<rparr> \<and>
    bufferedResponseBody hnd = \<lparr>bb_hostPluginPtr = p,
      bb_bufferType = c_const http_body_type_order http_body_type_BufferedResponseBody\<rparr>"
  by (simp add: hd_reset_def zero_handle_def Let_def c_const_def c_encode_def http_header_type_order_def
      http_body_type_order_def)

text \<open>
  \<open>clearData\<close> runs in \<open>stream_complete\<close> only: a request that is destroyed without it leaves its shared
  data pinned, and the next user of the handle starts with an empty list, so nobody unpins it.
\<close>

lemma destroy_keeps_shared_data:
  assumes "winv w" "p \<in> w_live w"
  shows "\<exists>w'. on_http_filter_destroy b p (Script [] r) w = Ret w' \<and> w_shared w' = w_shared w"
proof -
  from assms obtain hnd where "p \<noteq> 0" "w_handles w p = Some hnd" "\<not> streamDestoried hnd"
    by (auto simp: winv_def live_ok_def)
  then show ?thesis
    by (auto simp: on_http_filter_destroy_def unwrap_handle_def mgr_unwrap_def set_handle_def
        log_upcall_def Let_def split: option.split)
qed

section \<open>Loading configurations\<close>

text \<open>C24: loading a filter configuration succeeds exactly when its factory is registered under the name
  Envoy gives, returns no error and returns a filter factory: then the pointer returned is pinned and
  stands for that factory; otherwise the result is null, which makes Envoy reject the configuration,
  and the module is as before (one warning is logged).\<close>

theorem config_load_outcome:
  assumes "envoyBufferToStringUnsafe (mem (w_host w)) name = Ret nameString"
    and "envoyBufferToBytesUnsafe (mem (w_host w)) config = Ret configBytes"
    and "NewHttpFilterFactory tbl nameString configBytes (new_config_handle host, w_host w) = ((f, err), ch, h)"
    and "mgr_inv (w_configManager w)"
  shows "\<exists>c w'. on_http_filter_config_new mem G rt tbl alloc host name config w = Ret (c, w') \<and>
    (if err = None \<and> f \<noteq> None
     then c = alloc \<and> mgr_search (w_configManager w') c = Some c \<and>
       w_configs w' c = Some \<lparr>fw_pluginFactory = the f, fw_configHandle = ch\<rparr>
     else c = 0 \<and> w' = w\<lparr>w_host := hostLog rt G LogLevelWarn_value ''Failed to load configuration: %v''
       [any_error err] h\<rparr>)"
  using assms by (auto simp: on_http_filter_config_new_def Let_def case_prod_beta cf_Log_def
      set_config_def mgr.srch_rcd)

theorem config_load_outcome_witness:
  "\<forall>(G::unit host_log) rt. \<exists>w'. on_http_filter_config_new (\<lambda>_ _. CHR 0x00) G rt Map.empty 8 1
     null_envoy_buffer null_envoy_buffer (module_init ()) = Ret (0, w')"
proof (intro allI)
  fix G :: "unit host_log" and rt
  have "mgr_inv (w_configManager (module_init ()))" by (simp add: module_init_def mgr.inv_fresh)
  then show "\<exists>w'. on_http_filter_config_new (\<lambda>_ _. CHR 0x00) G rt Map.empty 8 1
     null_envoy_buffer null_envoy_buffer (module_init ()) = Ret (0, w')"
    using config_load_outcome [of "\<lambda>_ _. CHR 0x00" "module_init ()" null_envoy_buffer "[]" null_envoy_buffer
        None Map.empty 1 None "Some ''failed to get plugin config factory''" "new_config_handle 1" "()" G rt 8]
    by (auto simp: envoyBufferToStringUnsafe_def envoyBufferToBytesUnsafe_def null_envoy_buffer_def
        NewHttpFilterFactory_def GetHttpFilterConfigFactory_def read_mem_def)
qed

text \<open>A filter registered with \<open>Register\<close> or \<open>RegisterSimple\<close> takes no route configuration: its adapter
  parses none, so loading one for it returns null, which Envoy rejects, and pins nothing; only a
  factory registered with \<open>RegisterRaw\<close> can be configured per route.\<close>

theorem registered_filter_has_no_route_config:
  assumes "Register n fn registry = Ret tbl \<or> RegisterSimple n sfn registry = Ret tbl"
    and "envoyBufferToStringUnsafe (mem (w_host w)) name = Ret n"
    and "envoyBufferToBytesUnsafe (mem (w_host w)) config = Ret configBytes"
  shows "\<exists>w'. on_http_filter_per_route_config_new mem G rt tbl alloc name config w = Ret (0, w') \<and>
    w_perRoute w' = w_perRoute w \<and> w_perRouteManager w' = w_perRouteManager w"
proof -
  have "\<exists>f. tbl n = Some (Some (factoryFuncAdapter f))"
    using assms(1) by (auto simp: Register_def RegisterSimple_def RegisterRaw_def split: option.splits)
  with assms(2,3) show ?thesis
    by (auto simp: on_http_filter_per_route_config_new_def GetHttpFilterConfigFactory_def
        factoryFuncAdapter_def)
qed

theorem registered_filter_has_no_route_config_witness:
  "\<forall>(G::unit host_log) rt. \<exists>w'. on_http_filter_per_route_config_new (\<lambda>_ _. CHR 0x00) G rt
     [[] \<mapsto> Some demo_factory] 8 null_envoy_buffer null_envoy_buffer (module_init ()) = Ret (0, w')"
proof (intro allI)
  fix G :: "unit host_log" and rt
  have "Register [] (\<lambda>cfg s. ((Some 7, None), s)) Map.empty = Ret [[] \<mapsto> Some demo_factory]"
    by (simp add: Register_def RegisterRaw_def demo_factory_def)
  then show "\<exists>w'. on_http_filter_per_route_config_new (\<lambda>_ _. CHR 0x00) G rt
     [[] \<mapsto> Some demo_factory] 8 null_envoy_buffer null_envoy_buffer (module_init ()) = Ret (0, w')"
    using registered_filter_has_no_route_config [of "[]" "\<lambda>cfg s. ((Some 7, None), s)" Map.empty
        "[[] \<mapsto> Some demo_factory]" "\<lambda>s. (None, s)" "\<lambda>_ _. CHR 0x00" "module_init ()"
        null_envoy_buffer null_envoy_buffer None G rt 8]
    by (auto simp: envoyBufferToStringUnsafe_def envoyBufferToBytesUnsafe_def null_envoy_buffer_def read_mem_def)
qed

end
