(* ===== verification/Pins.thy ===== *)
theory Pins
  imports Manager
begin

text \<open>
  A registry that pins exactly a given set of pointers, as the access logger side and the network side
  keep theirs: the pointers that Envoy may still use.
\<close>

definition pins :: "manager \<Rightarrow> ptr set \<Rightarrow> bool" where
  "pins m A \<longleftrightarrow> mgr_inv m \<and> (\<forall>q. mgr_search m q = (if q \<in> A then Some q else None))"

lemma pins_new: "pins newManager {}"
  by (simp add: pins_def mgr.inv_fresh mgr.srch_fresh)

lemma pins_record: "pins m A \<Longrightarrow> pins (snd (mgr_record m p)) (insert p A)"
  by (auto simp: pins_def mgr.inv_rcd mgr.srch_rcd)

lemma pins_remove: "pins m A \<Longrightarrow> pins (mgr_remove m p) (A - {p})"
  by (auto simp: pins_def mgr.inv_rmv mgr.srch_rmv)

lemma recorded_pointer [simp]: "fst (mgr_record m p) = p"
  by (simp add: mgr_record_def Let_def)

lemma mgr_record_iff: "mgr_record m p = (q, m') \<longleftrightarrow> q = p \<and> m' = snd (mgr_record m p)"
  by (auto simp: mgr_record_def Let_def)

lemma pins_recorded: "pins m A \<Longrightarrow> mgr_record m p = (q, m') \<Longrightarrow> pins m' (insert p A)"
  by (simp add: mgr_record_iff pins_record)

end
