(* ===== verification/AccessLogger.thy ===== *)
theory AccessLogger
  imports HttpHandle Registry Pins AbiLogger
begin

text \<open>
  abi_impl/access_logger.go: the access logger side of the binding layer. A configuration is loaded
  once and pinned; each worker thread gets a logger of its own from the configuration's factory; a
  log event gives the logger a handle that reads the finished stream.
\<close>

section \<open>The handle of a configuration\<close>

record dymAccessLoggerConfigHandle =
  alc_configPtr :: access_logger_config_envoy_ptr

definition alc_Log ::
    "'h host_log \<Rightarrow> go_runtime \<Rightarrow> dymAccessLoggerConfigHandle \<Rightarrow> u32 \<Rightarrow> gostring \<Rightarrow> go_any list \<Rightarrow> 'h \<Rightarrow> 'h" where
  "alc_Log G rt c level format args h = hostLog rt G level format args h"

text \<open>The tag keys are parameters of the interface that the body does not use.\<close>

definition alc_DefineCounter ::
    "'h host_logger_9 \<Rightarrow> go_runtime \<Rightarrow> dymAccessLoggerConfigHandle \<Rightarrow> gostring \<Rightarrow> gostring list \<Rightarrow> 'h \<Rightarrow>
      (u64 \<times> u32) \<times> 'h" where
  "alc_DefineCounter L rt c name tagKeys h =
     (let ((result, wid), h1) = cb_access_logger_config_define_counter L (alc_configPtr c)
            (stringToModuleBuffer rt name) h
      in ((written 0 wid, c_raw result), h1))"

definition alc_DefineGauge ::
    "'h host_logger_9 \<Rightarrow> go_runtime \<Rightarrow> dymAccessLoggerConfigHandle \<Rightarrow> gostring \<Rightarrow> gostring list \<Rightarrow> 'h \<Rightarrow>
      (u64 \<times> u32) \<times> 'h" where
  "alc_DefineGauge L rt c name tagKeys h =
     (let ((result, wid), h1) = cb_access_logger_config_define_gauge L (alc_configPtr c)
            (stringToModuleBuffer rt name) h
      in ((written 0 wid, c_raw result), h1))"

definition alc_DefineHistogram ::
    "'h host_logger_10 \<Rightarrow> go_runtime \<Rightarrow> dymAccessLoggerConfigHandle \<Rightarrow> gostring \<Rightarrow> gostring list \<Rightarrow> 'h \<Rightarrow>
      (u64 \<times> u32) \<times> 'h" where
  "alc_DefineHistogram L rt c name tagKeys h =
     (let ((result, wid), h1) = cb_access_logger_config_define_histogram L (alc_configPtr c)
            (stringToModuleBuffer rt name) h
      in ((written 0 wid, c_raw result), h1))"

section \<open>The handle of a log event\<close>

record TimingInfo =
  StartTimeUnixNs :: i64
  RequestCompleteDurationNs :: i64
  FirstUpstreamTxByteSentNs :: i64
  LastUpstreamTxByteSentNs :: i64
  FirstUpstreamRxByteReceivedNs :: i64
  LastUpstreamRxByteReceivedNs :: i64
  FirstDownstreamTxByteSentNs :: i64
  LastDownstreamTxByteSentNs :: i64

record BytesInfo =
  BytesReceived :: u64
  BytesSent :: u64
  WireBytesReceived :: u64
  WireBytesSent :: u64

record dymAccessLoggerHandle =
  al_envoyPtr :: access_logger_envoy_ptr

definition zero_timing_info :: timing_info where
  "zero_timing_info = \<lparr>ti_start_time_unix_ns = 0, ti_request_complete_duration_ns = 0,
     ti_first_upstream_tx_byte_sent_ns = 0, ti_last_upstream_tx_byte_sent_ns = 0,
     ti_first_upstream_rx_byte_received_ns = 0, ti_last_upstream_rx_byte_received_ns = 0,
     ti_first_downstream_tx_byte_sent_ns = 0, ti_last_downstream_tx_byte_sent_ns = 0\<rparr>"

definition zero_bytes_info :: bytes_info where
  "zero_bytes_info = \<lparr>bi_bytes_received = 0, bi_bytes_sent = 0, bi_wire_bytes_received = 0,
     bi_wire_bytes_sent = 0\<rparr>"

definition al_GetTimingInfo ::
    "'h host_logger_1 \<Rightarrow> dymAccessLoggerHandle \<Rightarrow> 'h \<Rightarrow> TimingInfo \<times> 'h" where
  "al_GetTimingInfo L a h =
     (let (w, h1) = cb_access_logger_get_timing_info L (al_envoyPtr a) h;
          out = written zero_timing_info w
      in (\<lparr>StartTimeUnixNs = ti_start_time_unix_ns out,
           RequestCompleteDurationNs = ti_request_complete_duration_ns out,
           FirstUpstreamTxByteSentNs = ti_first_upstream_tx_byte_sent_ns out,
           LastUpstreamTxByteSentNs = ti_last_upstream_tx_byte_sent_ns out,
           FirstUpstreamRxByteReceivedNs = ti_first_upstream_rx_byte_received_ns out,
           LastUpstreamRxByteReceivedNs = ti_last_upstream_rx_byte_received_ns out,
           FirstDownstreamTxByteSentNs = ti_first_downstream_tx_byte_sent_ns out,
           LastDownstreamTxByteSentNs = ti_last_downstream_tx_byte_sent_ns out\<rparr>, h1))"

definition al_GetBytesInfo ::
    "'h host_logger_1 \<Rightarrow> dymAccessLoggerHandle \<Rightarrow> 'h \<Rightarrow> BytesInfo \<times> 'h" where
  "al_GetBytesInfo L a h =
     (let (w, h1) = cb_access_logger_get_bytes_info L (al_envoyPtr a) h;
          out = written zero_bytes_info w
      in (\<lparr>BytesReceived = bi_bytes_received out, BytesSent = bi_bytes_sent out,
           WireBytesReceived = bi_wire_bytes_received out, WireBytesSent = bi_wire_bytes_sent out\<rparr>, h1))"

definition al_GetResponseFlags :: "'h host_logger_1 \<Rightarrow> dymAccessLoggerHandle \<Rightarrow> 'h \<Rightarrow> u64 \<times> 'h" where
  "al_GetResponseFlags L a = cb_access_logger_get_response_flags L (al_envoyPtr a)"

definition al_GetResponseCode :: "'h host_logger_1 \<Rightarrow> dymAccessLoggerHandle \<Rightarrow> 'h \<Rightarrow> u32 \<times> 'h" where
  "al_GetResponseCode L a = cb_access_logger_get_response_code L (al_envoyPtr a)"

text \<open>A string attribute that is empty counts as not available; the readers below do not test that.\<close>

definition al_GetAttributeString ::
    "'h host_logger_9 \<Rightarrow> dymAccessLoggerHandle \<Rightarrow> u32 \<Rightarrow> 'h \<Rightarrow> (UnsafeEnvoyBuffer \<times> bool) \<times> 'h" where
  "al_GetAttributeString L a i h =
     (let ((ret, w), h1) = cb_access_logger_get_attribute_string L (al_envoyPtr a) (CVal i) h;
          valueView = written null_envoy_buffer w
      in (if \<not> ret \<or> eb_ptr valueView = 0 \<or> eb_length valueView = 0 then (empty_buffer, False)
          else (envoyBufferToUnsafeEnvoyBuffer valueView, True), h1))"

definition al_GetAttributeInt ::
    "'h host_logger_9 \<Rightarrow> dymAccessLoggerHandle \<Rightarrow> u32 \<Rightarrow> 'h \<Rightarrow> (i64 \<times> bool) \<times> 'h" where
  "al_GetAttributeInt L a i h =
     (let ((ret, w), h1) = cb_access_logger_get_attribute_int L (al_envoyPtr a) (CVal i) h
      in (if \<not> ret then (0, False) else (written 0 w, True), h1))"

definition al_GetAttributeBool ::
    "'h host_logger_9 \<Rightarrow> dymAccessLoggerHandle \<Rightarrow> u32 \<Rightarrow> 'h \<Rightarrow> (bool \<times> bool) \<times> 'h" where
  "al_GetAttributeBool L a i h =
     (let ((ret, w), h1) = cb_access_logger_get_attribute_bool L (al_envoyPtr a) (CVal i) h
      in (if \<not> ret then (False, False) else (written False w, True), h1))"

text \<open>The idiom of the readers that take whatever view a successful callback wrote.\<close>

definition raw_view :: "bool \<Rightarrow> envoy_buffer option \<Rightarrow> UnsafeEnvoyBuffer \<times> bool" where
  "raw_view ret w =
     (if \<not> ret then (empty_buffer, False)
      else (envoyBufferToUnsafeEnvoyBuffer (written null_envoy_buffer w), True))"

definition al_GetHeader ::
    "'h host_logger_1 \<Rightarrow> go_runtime \<Rightarrow> dymAccessLoggerHandle \<Rightarrow> i32 \<Rightarrow> gostring \<Rightarrow> 'h \<Rightarrow>
      (UnsafeEnvoyBuffer \<times> bool) \<times> 'h" where
  "al_GetHeader L rt a headerType key h =
     (let ((ret, w, total), h1) = cb_access_logger_get_header_value L (al_envoyPtr a)
            (CVal headerType) (stringToModuleBuffer rt key) 0 h
      in (raw_view ret w, h1))"

definition al_GetWorkerIndex :: "'h host_logger_10 \<Rightarrow> dymAccessLoggerHandle \<Rightarrow> 'h \<Rightarrow> u32 \<times> 'h" where
  "al_GetWorkerIndex L a = cb_access_logger_get_worker_index L (al_envoyPtr a)"

definition al_GetTraceID ::
    "'h host_logger_8 \<Rightarrow> dymAccessLoggerHandle \<Rightarrow> 'h \<Rightarrow> (UnsafeEnvoyBuffer \<times> bool) \<times> 'h" where
  "al_GetTraceID L a h =
     (let ((ret, w), h1) = cb_access_logger_get_trace_id L (al_envoyPtr a) h in (raw_view ret w, h1))"

definition al_GetSpanID ::
    "'h host_logger_8 \<Rightarrow> dymAccessLoggerHandle \<Rightarrow> 'h \<Rightarrow> (UnsafeEnvoyBuffer \<times> bool) \<times> 'h" where
  "al_GetSpanID L a h =
     (let ((ret, w), h1) = cb_access_logger_get_span_id L (al_envoyPtr a) h in (raw_view ret w, h1))"

definition al_IsTraceSampled :: "'h host_logger_8 \<Rightarrow> dymAccessLoggerHandle \<Rightarrow> 'h \<Rightarrow> bool \<times> 'h" where
  "al_IsTraceSampled L a = cb_access_logger_is_trace_sampled L (al_envoyPtr a)"

definition al_GetLocalReplyBody ::
    "'h host_logger_7 \<Rightarrow> dymAccessLoggerHandle \<Rightarrow> 'h \<Rightarrow> (UnsafeEnvoyBuffer \<times> bool) \<times> 'h" where
  "al_GetLocalReplyBody L a h =
     (let ((ret, w), h1) = cb_access_logger_get_local_reply_body L (al_envoyPtr a) h
      in (raw_view ret w, h1))"

definition al_GetUpstreamPoolReadyDurationNs ::
    "'h host_logger_9 \<Rightarrow> dymAccessLoggerHandle \<Rightarrow> 'h \<Rightarrow> i64 \<times> 'h" where
  "al_GetUpstreamPoolReadyDurationNs L a =
     cb_access_logger_get_upstream_pool_ready_duration_ns L (al_envoyPtr a)"

definition AttemptCount_id :: u32 where
  "AttemptCount_id = of_nat (AttributeID_value AttributeIDUpstreamRequestAttemptCount)"

text \<open>The last conversion drops the upper half of the 64-bit attribute.\<close>

definition al_GetUpstreamRequestAttemptCount ::
    "'h host_logger_9 \<Rightarrow> dymAccessLoggerHandle \<Rightarrow> 'h \<Rightarrow> u32 \<times> 'h" where
  "al_GetUpstreamRequestAttemptCount L a h =
     (let ((ok, w), h1) = cb_access_logger_get_attribute_int L (al_envoyPtr a) (CVal AttemptCount_id) h;
          result = written 0 w
      in (if \<not> ok \<or> result = 0 then 1 else ucast result, h1))"

definition al_Log ::
    "'h host_log \<Rightarrow> go_runtime \<Rightarrow> dymAccessLoggerHandle \<Rightarrow> u32 \<Rightarrow> gostring \<Rightarrow> go_any list \<Rightarrow> 'h \<Rightarrow> 'h" where
  "al_Log G rt a level format args h = hostLog rt G level format args h"

section \<open>The state of the access logger side\<close>

record accessLoggerConfigWrapper =
  alw_factory :: "objref option"
  alw_configHandle :: dymAccessLoggerConfigHandle

record accessLoggerWrapper =
  alw_logger :: objref
  alw_configPtr :: ptr

text \<open>The calls of the author's code, with the address of the wrapper they are made for.\<close>

datatype factory_call = NewLogger objref | FactoryOnDestroy objref

datatype logger_call =
    LoggerCreated objref
  | OnLog objref dymAccessLoggerHandle i32
  | LoggerFlush objref
  | LoggerOnDestroy objref

text \<open>
  \<open>lw_liveConfigs\<close> and \<open>lw_live\<close> are the module pointers Envoy holds: returned by a creation hook and
  not yet destroyed.
\<close>

record 'h logger_world =
  lw_configs :: "ptr \<rightharpoonup> accessLoggerConfigWrapper"
  lw_configManager :: manager
  lw_loggers :: "ptr \<rightharpoonup> accessLoggerWrapper"
  lw_loggerManager :: manager
  lw_liveConfigs :: "ptr set"
  lw_live :: "ptr set"
  lw_factoryCalls :: "ptr \<Rightarrow> factory_call list"
  lw_loggerCalls :: "ptr \<Rightarrow> logger_call list"
  lw_host :: 'h

definition logger_init :: "'h \<Rightarrow> 'h logger_world" where
  "logger_init h = \<lparr>lw_configs = Map.empty, lw_configManager = newManager, lw_loggers = Map.empty,
     lw_loggerManager = newManager, lw_liveConfigs = {}, lw_live = {}, lw_factoryCalls = (\<lambda>_. []),
     lw_loggerCalls = (\<lambda>_. []), lw_host = h\<rparr>"

definition factory_called :: "ptr \<Rightarrow> factory_call \<Rightarrow> 'h logger_world \<Rightarrow> 'h logger_world" where
  "factory_called c k w = w\<lparr>lw_factoryCalls := (lw_factoryCalls w)(c := lw_factoryCalls w c @ [k])\<rparr>"

definition logger_called :: "ptr \<Rightarrow> logger_call \<Rightarrow> 'h logger_world \<Rightarrow> 'h logger_world" where
  "logger_called p k w = w\<lparr>lw_loggerCalls := (lw_loggerCalls w)(p := lw_loggerCalls w p @ [k])\<rparr>"

section \<open>The hooks\<close>

definition nil_deref :: gostring where
  "nil_deref = ''invalid memory address or nil pointer dereference''"

text \<open>
  \<open>alloc\<close> is the address of the wrapper; \<open>tbl\<close> is the table of registered factories (sdk.go). A nil
  factory without an error is pinned like any other.
\<close>

definition LogLevelError_value :: u32 where
  "LogLevelError_value = of_nat (LogLevel_value LogLevelError)"

definition on_access_logger_config_new_hook ::
    "('h \<Rightarrow> mem) \<Rightarrow> 'h host_log \<Rightarrow> go_runtime \<Rightarrow>
      (dymAccessLoggerConfigHandle \<times> 'h, objref, unit) factory_table \<Rightarrow> ptr \<Rightarrow>
      access_logger_config_envoy_ptr \<Rightarrow> envoy_buffer \<Rightarrow> envoy_buffer \<Rightarrow> 'h logger_world \<Rightarrow>
      (ptr \<times> 'h logger_world) go" where
  "on_access_logger_config_new_hook memory G rt tbl alloc configEnvoyPtr name config w =
     go_bind (envoyBufferToStringUnsafe (memory (lw_host w)) name) (\<lambda>nameStr.
     go_bind (envoyBufferToBytesUnsafe (memory (lw_host w)) config) (\<lambda>configBytes.
     (case NewAccessLoggerFactory tbl nameStr configBytes (\<lparr>alc_configPtr = configEnvoyPtr\<rparr>, lw_host w) of
        ((factory, err), handle, h) \<Rightarrow>
          (case err of
             Some e \<Rightarrow> Ret (0, w\<lparr>lw_host := hostLog rt G LogLevelError_value
                 ''access_logger: config_new failed name=%s err=%s'' [AnyString nameStr, AnyString e] h\<rparr>)
           | None \<Rightarrow>
               (let (configPtr, m) = mgr_record (lw_configManager w) alloc
                in Ret (configPtr, w\<lparr>
                     lw_configs := (lw_configs w)(alloc \<mapsto> \<lparr>alw_factory = factory, alw_configHandle = handle\<rparr>),
                     lw_configManager := m, lw_liveConfigs := insert alloc (lw_liveConfigs w),
                     lw_factoryCalls := (lw_factoryCalls w)(alloc := []), lw_host := h\<rparr>))))))"

text \<open>\<open>code\<close> is what the call of the author's code does to Envoy.\<close>

definition on_access_logger_config_destroy_hook ::
    "ptr \<Rightarrow> ('h \<Rightarrow> 'h) \<Rightarrow> 'h logger_world \<Rightarrow> 'h logger_world go" where
  "on_access_logger_config_destroy_hook configModulePtr code w =
     (let p = mgr_unwrap (lw_configManager w) configModulePtr
      in if p = 0 then Ret w
         else case lw_configs w p of
           None \<Rightarrow> Panic nil_deref
         | Some wrapper \<Rightarrow>
             (case alw_factory wrapper of
                None \<Rightarrow> Panic nil_deref
              | Some factory \<Rightarrow>
                  (let w1 = factory_called p (FactoryOnDestroy factory) w
                   in Ret (w1\<lparr>lw_host := code (lw_host w1),
                        lw_configManager := mgr_remove (lw_configManager w1) configModulePtr,
                        lw_liveConfigs := lw_liveConfigs w1 - {p}\<rparr>))))"

text \<open>\<open>answer\<close> is the logger that the factory's \<open>NewLogger\<close> returns.\<close>

definition on_access_logger_new_hook ::
    "ptr \<Rightarrow> ptr \<Rightarrow> (objref \<Rightarrow> 'h \<Rightarrow> objref option \<times> 'h) \<Rightarrow> 'h logger_world \<Rightarrow> (ptr \<times> 'h logger_world) go" where
  "on_access_logger_new_hook alloc configModulePtr answer w =
     (let p = mgr_unwrap (lw_configManager w) configModulePtr
      in if p = 0 then Ret (0, w)
         else case lw_configs w p of
           None \<Rightarrow> Panic nil_deref
         | Some configWrapper \<Rightarrow>
             (case alw_factory configWrapper of
                None \<Rightarrow> Panic nil_deref
              | Some factory \<Rightarrow>
                  (let (logger, h) = answer factory (lw_host w);
                       w1 = (factory_called p (NewLogger factory) w)\<lparr>lw_host := h\<rparr>
                   in case logger of
                        None \<Rightarrow> Ret (0, w1)
                      | Some l \<Rightarrow>
                          (let (q, m) = mgr_record (lw_loggerManager w1) alloc
                           in Ret (q, w1\<lparr>
                                lw_loggers := (lw_loggers w1)(alloc \<mapsto> \<lparr>alw_logger = l, alw_configPtr = configModulePtr\<rparr>),
                                lw_loggerManager := m, lw_live := insert alloc (lw_live w1),
                                lw_loggerCalls := (lw_loggerCalls w1)(alloc := [LoggerCreated l])\<rparr>)))))"

text \<open>The hooks of a logger start by casting its pointer back.\<close>

definition with_logger ::
    "ptr \<Rightarrow> (ptr \<Rightarrow> accessLoggerWrapper \<Rightarrow> 'h logger_world \<Rightarrow> 'h logger_world) \<Rightarrow> 'h logger_world \<Rightarrow>
      'h logger_world go" where
  "with_logger loggerModulePtr body w =
     (let p = mgr_unwrap (lw_loggerManager w) loggerModulePtr
      in if p = 0 then Ret w
         else case lw_loggers w p of
           None \<Rightarrow> Panic nil_deref
         | Some wrapper \<Rightarrow> Ret (body p wrapper w))"

definition on_access_logger_log_hook ::
    "ptr \<Rightarrow> ptr \<Rightarrow> i32 \<Rightarrow> (dymAccessLoggerHandle \<Rightarrow> i32 \<Rightarrow> 'h \<Rightarrow> 'h) \<Rightarrow> 'h logger_world \<Rightarrow> 'h logger_world go" where
  "on_access_logger_log_hook loggerEnvoyPtr loggerModulePtr logType code =
     with_logger loggerModulePtr (\<lambda>p wrapper w.
       (let handle = \<lparr>al_envoyPtr = loggerEnvoyPtr\<rparr>;
            w1 = logger_called p (OnLog (alw_logger wrapper) handle logType) w
        in w1\<lparr>lw_host := code handle logType (lw_host w1)\<rparr>))"

definition on_access_logger_destroy_hook ::
    "ptr \<Rightarrow> ('h \<Rightarrow> 'h) \<Rightarrow> 'h logger_world \<Rightarrow> 'h logger_world go" where
  "on_access_logger_destroy_hook loggerModulePtr code =
     with_logger loggerModulePtr (\<lambda>p wrapper w.
       (let w1 = logger_called p (LoggerOnDestroy (alw_logger wrapper)) w
        in w1\<lparr>lw_host := code (lw_host w1),
             lw_loggerManager := mgr_remove (lw_loggerManager w1) loggerModulePtr,
             lw_live := lw_live w1 - {p}\<rparr>))"

text \<open>\<open>flushes\<close> are the loggers whose type has a \<open>Flush\<close> method.\<close>

definition on_access_logger_flush_hook ::
    "(objref \<Rightarrow> bool) \<Rightarrow> ptr \<Rightarrow> ('h \<Rightarrow> 'h) \<Rightarrow> 'h logger_world \<Rightarrow> 'h logger_world go" where
  "on_access_logger_flush_hook flushes loggerModulePtr code =
     with_logger loggerModulePtr (\<lambda>p wrapper w.
       (if flushes (alw_logger wrapper)
        then (let w1 = logger_called p (LoggerFlush (alw_logger wrapper)) w
              in w1\<lparr>lw_host := code (lw_host w1)\<rparr>)
        else w))"

section \<open>Every order of hooks\<close>

text \<open>
  Envoy loads and unloads configurations, creates loggers of loaded configurations, and calls the
  other hooks with the pointers it holds. An address is taken again only when its object is no longer
  pinned.
\<close>

inductive logger_step :: "'h logger_world \<Rightarrow> 'h logger_world \<Rightarrow> bool" where
  load: "alloc \<noteq> 0 \<Longrightarrow> alloc \<notin> lw_liveConfigs w \<Longrightarrow>
     on_access_logger_config_new_hook memory G rt tbl alloc cp name config w = Ret (r, w') \<Longrightarrow> logger_step w w'"
| unload: "c \<in> lw_liveConfigs w \<Longrightarrow> on_access_logger_config_destroy_hook c code w = Ret w' \<Longrightarrow> logger_step w w'"
| create: "c \<in> lw_liveConfigs w \<Longrightarrow> alloc \<noteq> 0 \<Longrightarrow> alloc \<notin> lw_live w \<Longrightarrow>
     on_access_logger_new_hook alloc c answer w = Ret (r, w') \<Longrightarrow> logger_step w w'"
| log: "p \<in> lw_live w \<Longrightarrow> on_access_logger_log_hook ep p t onlog w = Ret w' \<Longrightarrow> logger_step w w'"
| flush: "p \<in> lw_live w \<Longrightarrow> on_access_logger_flush_hook flushes p code w = Ret w' \<Longrightarrow> logger_step w w'"
| destroy: "p \<in> lw_live w \<Longrightarrow> on_access_logger_destroy_hook p code w = Ret w' \<Longrightarrow> logger_step w w'"

inductive logger_reachable :: "'h logger_world \<Rightarrow> bool" where
  start: "logger_reachable (logger_init h)"
| step: "logger_reachable w \<Longrightarrow> logger_step w w' \<Longrightarrow> logger_reachable w'"

text \<open>What a logger is called for, over its life.\<close>

fun serves :: "objref \<Rightarrow> logger_call \<Rightarrow> bool" where
  "serves l (OnLog l' handle t) \<longleftrightarrow> l' = l"
| "serves l (LoggerFlush l') \<longleftrightarrow> l' = l"
| "serves l k \<longleftrightarrow> False"

definition alive_history :: "objref \<Rightarrow> logger_call list \<Rightarrow> bool" where
  "alive_history l ks \<longleftrightarrow> (\<exists>evs. ks = LoggerCreated l # evs \<and> list_all (serves l) evs)"

definition closed_history :: "logger_call list \<Rightarrow> bool" where
  "closed_history ks \<longleftrightarrow> ks = [] \<or> (\<exists>l evs. alive_history l evs \<and> ks = evs @ [LoggerOnDestroy l])"

definition logger_inv :: "'h logger_world \<Rightarrow> bool" where
  "logger_inv w \<longleftrightarrow> 0 \<notin> lw_liveConfigs w \<and> 0 \<notin> lw_live w \<and>
     pins (lw_configManager w) (lw_liveConfigs w) \<and> pins (lw_loggerManager w) (lw_live w) \<and>
     (\<forall>c\<in>lw_liveConfigs w. lw_configs w c \<noteq> None) \<and>
     (\<forall>p\<in>lw_live w. \<exists>wr. lw_loggers w p = Some wr \<and> alive_history (alw_logger wr) (lw_loggerCalls w p)) \<and>
     (\<forall>p. p \<notin> lw_live w \<longrightarrow> closed_history (lw_loggerCalls w p))"

lemma alive_history_created: "alive_history l [LoggerCreated l]"
  by (simp add: alive_history_def)

lemma alive_history_serves: "alive_history l ks \<Longrightarrow> serves l k \<Longrightarrow> alive_history l (ks @ [k])"
  by (auto simp: alive_history_def)

lemma closed_history_destroy: "alive_history l ks \<Longrightarrow> closed_history (ks @ [LoggerOnDestroy l])"
  by (auto simp: closed_history_def)

lemmas logger_fields = factory_called_def logger_called_def mgr_unwrap_def Let_def

lemma logger_inv_host: "logger_inv (w\<lparr>lw_host := h\<rparr>) = logger_inv w"
  by (simp add: logger_inv_def)

lemma logger_inv_load:
  assumes "logger_inv w" and "alloc \<noteq> 0"
    and "on_access_logger_config_new_hook memory G rt tbl alloc cp name config w = Ret (r, w')"
  shows "logger_inv w'"
proof -
  obtain n b where "envoyBufferToStringUnsafe (memory (lw_host w)) name = Ret n"
      "envoyBufferToBytesUnsafe (memory (lw_host w)) config = Ret b"
    using assms(3) by (auto simp: on_access_logger_config_new_hook_def go_bind_eq_Ret)
  moreover obtain factory err handle h where
      "NewAccessLoggerFactory tbl n b (\<lparr>alc_configPtr = cp\<rparr>, lw_host w) = ((factory, err), handle, h)"
    by (cases "NewAccessLoggerFactory tbl n b (\<lparr>alc_configPtr = cp\<rparr>, lw_host w)") auto
  moreover obtain m where "mgr_record (lw_configManager w) alloc = (alloc, m)"
    by (simp add: mgr_record_iff)
  ultimately show ?thesis
    using assms by (cases err) (auto simp: on_access_logger_config_new_hook_def logger_inv_def
        intro: pins_recorded)
qed

lemma logger_inv_unload:
  "logger_inv w \<Longrightarrow> on_access_logger_config_destroy_hook c code w = Ret w' \<Longrightarrow> logger_inv w'"
  by (auto simp: on_access_logger_config_destroy_hook_def logger_inv_def logger_fields
      intro: pins_remove split: if_splits option.splits)

lemma logger_inv_create:
  "logger_inv w \<Longrightarrow> alloc \<noteq> 0 \<Longrightarrow> on_access_logger_new_hook alloc c answer w = Ret (r, w') \<Longrightarrow> logger_inv w'"
  by (auto simp: on_access_logger_new_hook_def logger_inv_def logger_fields
      intro: pins_recorded alive_history_created split: if_splits option.splits prod.splits)

lemma live_logger:
  assumes "logger_inv w" and "p \<in> lw_live w"
  obtains wr where "lw_loggers w p = Some wr" "alive_history (alw_logger wr) (lw_loggerCalls w p)"
    "\<forall>body. with_logger p body w = Ret (body p wr w)"
proof -
  obtain wr where "lw_loggers w p = Some wr" "alive_history (alw_logger wr) (lw_loggerCalls w p)"
    using assms by (auto simp: logger_inv_def)
  moreover have "p \<noteq> 0" using assms by (auto simp: logger_inv_def)
  ultimately show thesis using that by (simp add: with_logger_def logger_fields)
qed

lemma logger_inv_serve:
  assumes "logger_inv w" and "alive_history (alw_logger wr) (lw_loggerCalls w p)"
    and "p \<in> lw_live w" and "lw_loggers w p = Some wr" and "serves (alw_logger wr) k"
  shows "logger_inv ((logger_called p k w)\<lparr>lw_host := h\<rparr>)"
  using assms by (auto simp: logger_inv_def logger_called_def alive_history_serves)

lemma logger_inv_retire:
  assumes "logger_inv w" and "alive_history (alw_logger wr) (lw_loggerCalls w p)"
    and "p \<in> lw_live w" and "lw_loggers w p = Some wr"
  shows "logger_inv ((logger_called p (LoggerOnDestroy (alw_logger wr)) w)\<lparr>lw_host := h,
     lw_loggerManager := mgr_remove (lw_loggerManager w) p, lw_live := lw_live w - {p}\<rparr>)"
  using assms by (auto simp: logger_inv_def logger_called_def closed_history_destroy pins_remove)

lemma logger_served:
  assumes "logger_inv w" and "p \<in> lw_live w"
  shows "\<exists>w'. on_access_logger_log_hook ep p t onlog w = Ret w' \<and> logger_inv w'"
    and "\<exists>w'. on_access_logger_flush_hook flushes p code w = Ret w' \<and> logger_inv w'"
    and "\<exists>w'. on_access_logger_destroy_hook p code w = Ret w' \<and> logger_inv w'"
proof -
  obtain wr where wr: "lw_loggers w p = Some wr" "alive_history (alw_logger wr) (lw_loggerCalls w p)"
      "\<And>body. with_logger p body w = Ret (body p wr w)"
    using live_logger [OF assms] by metis
  note serve = logger_inv_serve [OF assms(1) wr(2) assms(2) wr(1)]
    and retire = logger_inv_retire [OF assms(1) wr(2) assms(2) wr(1)]
  show "\<exists>w'. on_access_logger_log_hook ep p t onlog w = Ret w' \<and> logger_inv w'"
    unfolding on_access_logger_log_hook_def wr(3) using serve by (simp add: Let_def)
  show "\<exists>w'. on_access_logger_flush_hook flushes p code w = Ret w' \<and> logger_inv w'"
    unfolding on_access_logger_flush_hook_def wr(3) using serve assms(1) by (simp add: Let_def)
  show "\<exists>w'. on_access_logger_destroy_hook p code w = Ret w' \<and> logger_inv w'"
    unfolding on_access_logger_destroy_hook_def wr(3) using retire
    by (simp add: Let_def logger_called_def)
qed

lemma logger_inv_step:
  assumes "logger_step w w'" and "logger_inv w"
  shows "logger_inv w'"
  using assms(1)
proof cases
  case load
  then show ?thesis using assms(2) by (blast intro: logger_inv_load)
next
  case unload
  then show ?thesis using assms(2) by (blast intro: logger_inv_unload)
next
  case create
  then show ?thesis using assms(2) by (blast intro: logger_inv_create)
next
  case (log p ep t onlog)
  then show ?thesis using logger_served(1) [OF assms(2) log(1), of ep t onlog] by simp
next
  case (flush p flushes code)
  then show ?thesis using logger_served(2) [OF assms(2) flush(1), of flushes code] by simp
next
  case (destroy p code)
  then show ?thesis using logger_served(3) [OF assms(2) destroy(1), of code] by simp
qed

lemma logger_reachable_inv: "logger_reachable w \<Longrightarrow> logger_inv w"
proof (induction rule: logger_reachable.induct)
  case (start h)
  show ?case by (simp add: logger_inv_def logger_init_def pins_new closed_history_def)
next
  case (step w w')
  then show ?case by (blast intro: logger_inv_step)
qed

section \<open>Properties\<close>

lemma word_zero_unat: "(x :: 'a::len word) = 0 \<longleftrightarrow> unat x = 0"
  by (simp add: unsigned_eq_0_iff)

definition attempts_of :: "bool \<Rightarrow> u64 option \<Rightarrow> nat" where
  "attempts_of ok w = (if ok then unat (written 0 w) else 0)"

text \<open>C17: \<open>GetUpstreamRequestAttemptCount\<close> never reports less than one attempt when the attribute is
  missing, zero or below \<open>2 ^ 32\<close>, where it is exact; it reports 0 for exactly the counts that are
  positive multiples of \<open>2 ^ 32\<close>, because the 64-bit attribute is truncated.\<close>

theorem attempt_count_bounds:
  "let ((ok, w), h1) = cb_access_logger_get_attribute_int L (al_envoyPtr a) (CVal AttemptCount_id) h;
       n = attempts_of ok w;
       (count, h2) = al_GetUpstreamRequestAttemptCount L a h
   in unat count = (if n = 0 then 1 else n mod 2 ^ 32) \<and>
      (count = 0 \<longleftrightarrow> 0 < n \<and> 2 ^ 32 dvd n) \<and> h2 = h1"
proof -
  obtain ok w h1 where "cb_access_logger_get_attribute_int L (al_envoyPtr a) (CVal AttemptCount_id) h =
      ((ok, w), h1)"
    by (metis prod.exhaust)
  moreover have "unat (ucast (written 0 w) :: 32 word) = unat (written 0 w) mod 2 ^ 32"
    by (simp add: unsigned_ucast_eq take_bit_eq_mod)
  ultimately show ?thesis
    by (auto simp: al_GetUpstreamRequestAttemptCount_def attempts_of_def word_zero_unat
        dvd_eq_mod_eq_0)
qed

text \<open>C15: over every order of hooks that Envoy may choose, the pointers Envoy holds are exactly those
  the module keeps pinned, and each logger is called as documented: created once, then only \<open>OnLog\<close>
  and \<open>Flush\<close>, then \<open>OnDestroy\<close> once, and nothing after it.\<close>

theorem access_logger_calls_ordered:
  assumes "logger_reachable w"
  shows "(p \<in> lw_live w \<longleftrightarrow> mgr_search (lw_loggerManager w) p = Some p) \<and>
     (if p \<in> lw_live w
      then \<exists>wr. lw_loggers w p = Some wr \<and> alive_history (alw_logger wr) (lw_loggerCalls w p)
      else closed_history (lw_loggerCalls w p))"
  using logger_reachable_inv [OF assms] by (auto simp: logger_inv_def pins_def)

text \<open>C16: in every reachable state the hooks of a live logger return; the two hooks that use the
  factory of a live configuration crash exactly when loading recorded a nil factory, which it does when
  the author's \<open>Create\<close> returns neither a factory nor an error.\<close>

theorem access_logger_panics_iff_nil_factory:
  assumes "logger_reachable w" and "p \<in> lw_live w" and "c \<in> lw_liveConfigs w"
  shows "\<not> panics (on_access_logger_log_hook ep p t onlog w) \<and>
     \<not> panics (on_access_logger_flush_hook flushes p code w) \<and>
     \<not> panics (on_access_logger_destroy_hook p code w) \<and>
     (\<exists>cw. lw_configs w c = Some cw \<and>
        panics (on_access_logger_new_hook alloc c answer w) = (alw_factory cw = None) \<and>
        panics (on_access_logger_config_destroy_hook c code w) = (alw_factory cw = None))"
proof -
  have inv: "logger_inv w" by (rule logger_reachable_inv [OF assms(1)])
  note served = logger_served [OF inv assms(2)]
  have "lw_configs w c \<noteq> None" "c \<noteq> 0"
    using inv assms(3) by (auto simp: logger_inv_def)
  then obtain cw where "lw_configs w c = Some cw" "c \<noteq> 0" by auto
  then have "panics (on_access_logger_new_hook alloc c answer w) = (alw_factory cw = None)"
      "panics (on_access_logger_config_destroy_hook c code w) = (alw_factory cw = None)"
      "lw_configs w c = Some cw"
    by (auto simp: on_access_logger_new_hook_def on_access_logger_config_destroy_hook_def mgr_unwrap_def
        Let_def split: option.splits prod.splits)
  then show ?thesis
    using served(1) [of ep t onlog] served(2) [of flushes code] served(3) [of code] by auto
qed

text \<open>A configuration with a factory, a logger of it, and a configuration with a nil factory.\<close>

definition demo_loggers ::
    "objref option \<Rightarrow> (dymAccessLoggerConfigHandle \<times> 'h, objref, unit) factory_table" where
  "demo_loggers factory = [''log'' \<mapsto> Some (factoryFuncAdapter (\<lambda>_ s. ((factory, None), s)))]"

definition demo_memory :: mem where
  "demo_memory p = (if p = 8 then CHR ''l'' else if p = 9 then CHR ''o'' else CHR ''g'')"

definition demo_name :: envoy_buffer where
  "demo_name = \<lparr>eb_ptr = 8, eb_length = 3\<rparr>"

definition demo_loaded :: "ptr \<Rightarrow> objref option \<Rightarrow> 'h logger_world \<Rightarrow> 'h logger_world" where
  "demo_loaded alloc factory w = w\<lparr>
     lw_configs := (lw_configs w)(alloc \<mapsto> \<lparr>alw_factory = factory, alw_configHandle = \<lparr>alc_configPtr = 1\<rparr>\<rparr>),
     lw_configManager := snd (mgr_record (lw_configManager w) alloc),
     lw_liveConfigs := insert alloc (lw_liveConfigs w),
     lw_factoryCalls := (lw_factoryCalls w)(alloc := [])\<rparr>"

lemma demo_logger_load:
  "on_access_logger_config_new_hook (\<lambda>_. demo_memory) G rt (demo_loggers factory) alloc 1 demo_name
     null_envoy_buffer w = Ret (alloc, demo_loaded alloc factory w)"
proof -
  have "read_mem demo_memory 8 3 = ''log''"
    by (simp add: read_mem_def demo_memory_def upt_rec)
  then show ?thesis
    by (simp add: on_access_logger_config_new_hook_def envoyBufferToStringUnsafe_def demo_name_def
        envoyBufferToBytesUnsafe_def null_envoy_buffer_def demo_loggers_def
        NewAccessLoggerFactory_def GetAccessLoggerConfigFactory_def factoryFuncAdapter_def
        mgr_record_def demo_loaded_def Let_def)
qed

definition demo_logging :: "unit logger_world" where
  "demo_logging = (case on_access_logger_new_hook 32 16 (\<lambda>_ _. (Some 5, ())) (demo_loaded 16 (Some 7) (logger_init ()))
     of Panic e \<Rightarrow> logger_init () | Ret (r, w) \<Rightarrow> w)"

lemma demo_logging_created:
  "on_access_logger_new_hook 32 16 (\<lambda>_ _. (Some 5, ())) (demo_loaded 16 (Some 7) (logger_init ())) =
     Ret (32, demo_logging)"
  by (simp add: demo_logging_def on_access_logger_new_hook_def logger_fields demo_loaded_def mgr_record_def)

lemma demo_logging_fields:
  "lw_live demo_logging = {32}" "lw_liveConfigs demo_logging = {16}"
  "lw_loggerCalls demo_logging 32 = [LoggerCreated 5]"
  "lw_loggers demo_logging 32 = Some \<lparr>alw_logger = 5, alw_configPtr = 16\<rparr>"
  by (simp_all add: demo_logging_def on_access_logger_new_hook_def logger_fields demo_loaded_def
      mgr_record_def logger_init_def)

lemma demo_loaded_step: "alloc \<noteq> 0 \<Longrightarrow> alloc \<notin> lw_liveConfigs w \<Longrightarrow> logger_step w (demo_loaded alloc factory w)"
  by (rule logger_step.load [OF _ _ demo_logger_load])

lemma demo_logging_reachable: "logger_reachable demo_logging"
proof (rule logger_reachable.step)
  show "logger_reachable (demo_loaded 16 (Some 7) (logger_init ()))"
    by (rule logger_reachable.step [OF logger_reachable.start demo_loaded_step])
      (simp_all add: logger_init_def)
  show "logger_step (demo_loaded 16 (Some 7) (logger_init ())) demo_logging"
    by (rule logger_step.create [OF _ _ _ demo_logging_created])
      (simp_all add: demo_loaded_def logger_init_def)
qed

theorem access_logger_calls_ordered_witness:
  "\<exists>w :: unit logger_world. logger_reachable w \<and> 32 \<notin> lw_live w \<and>
     lw_loggerCalls w 32 = [LoggerCreated 5, OnLog 5 \<lparr>al_envoyPtr = 9\<rparr> 6, LoggerOnDestroy 5] \<and>
     closed_history (lw_loggerCalls w 32) \<and> mgr_search (lw_loggerManager w) 32 \<noteq> Some 32"
proof -
  obtain w1 where 1: "on_access_logger_log_hook 9 32 6 (\<lambda>_ _ h. h) demo_logging = Ret w1"
      "w1 = (logger_called 32 (OnLog 5 \<lparr>al_envoyPtr = 9\<rparr> 6) demo_logging)\<lparr>lw_host := ()\<rparr>"
    by (simp add: on_access_logger_log_hook_def with_logger_def mgr_unwrap_def demo_logging_fields Let_def)
  have live: "32 \<in> lw_live w1" and wr: "lw_loggers w1 32 = Some \<lparr>alw_logger = 5, alw_configPtr = 16\<rparr>"
    by (simp_all add: 1(2) logger_called_def demo_logging_fields)
  obtain w2 where 2: "on_access_logger_destroy_hook 32 id w1 = Ret w2"
      "lw_live w2 = {}" "lw_loggerCalls w2 32 = [LoggerCreated 5, OnLog 5 \<lparr>al_envoyPtr = 9\<rparr> 6, LoggerOnDestroy 5]"
    by (simp add: on_access_logger_destroy_hook_def with_logger_def mgr_unwrap_def wr Let_def
        logger_called_def 1(2) demo_logging_fields)
  have "logger_reachable w1"
    by (rule logger_reachable.step [OF demo_logging_reachable logger_step.log [OF _ 1(1)]])
      (simp add: demo_logging_fields)
  then have "logger_reachable w2" by (rule logger_reachable.step [OF _ logger_step.destroy [OF live 2(1)]])
  from access_logger_calls_ordered [OF this, of 32] this show ?thesis
    by (intro exI [of _ w2]) (simp add: 2(2,3))
qed

theorem access_logger_panics_iff_nil_factory_witness:
  "\<exists>w :: unit logger_world. logger_reachable w \<and> 32 \<in> lw_live w \<and> 48 \<in> lw_liveConfigs w \<and>
     \<not> panics (on_access_logger_log_hook 9 32 6 (\<lambda>_ _ h. h) w) \<and>
     panics (on_access_logger_new_hook 64 48 (\<lambda>_ _. (Some 5, ())) w)"
proof -
  let ?w = "demo_loaded 48 None demo_logging"
  have reach: "logger_reachable ?w"
    by (rule logger_reachable.step [OF demo_logging_reachable demo_loaded_step])
      (simp_all add: demo_logging_fields)
  have live: "32 \<in> lw_live ?w" "48 \<in> lw_liveConfigs ?w" "lw_configs ?w 48 =
      Some \<lparr>alw_factory = None, alw_configHandle = \<lparr>alc_configPtr = 1\<rparr>\<rparr>"
    by (simp_all add: demo_loaded_def demo_logging_fields)
  from access_logger_panics_iff_nil_factory [OF reach live(1,2), of 9 6 "\<lambda>_ _ h. h" "\<lambda>_. True" id 64
      "\<lambda>_ _. (Some 5, ())"] show ?thesis
    using reach live by auto
qed

end
