(* ===== verification/NetworkHandle.thy ===== *)
theory NetworkHandle
  imports HttpHandle AbiNetwork
begin

text \<open>
  The objects of abi_impl/network.go that a network filter works with: \<open>dymNetworkBuffer\<close>, the two byte
  queues of a connection; \<open>dymNetworkFilterHandle\<close>, the handle of a connection; and
  \<open>dymNetworkConfigHandle\<close>, the handle a factory gets. A connection's handle is not pooled.
\<close>

section \<open>dymNetworkBuffer\<close>

record dymNetworkBuffer =
  nb_hostPluginPtr :: network_filter_envoy_ptr
  nb_readSide :: bool

text \<open>The callbacks the buffers use: those that read are in the first two groups of abi.h.\<close>

definition nb_GetChunks ::
    "'h host_network_1 \<Rightarrow> 'h host_network_2 \<Rightarrow> dymNetworkBuffer \<Rightarrow> 'h \<Rightarrow> UnsafeEnvoyBuffer list option \<times> 'h" where
  "nb_GetChunks N1 N2 b h =
     (let (chunksSize, h1) =
            (if nb_readSide b then cb_network_filter_get_read_buffer_chunks_size N1 (nb_hostPluginPtr b) h
             else cb_network_filter_get_write_buffer_chunks_size N1 (nb_hostPluginPtr b) h)
      in if chunksSize = 0 then (None, h1)
         else (let ((ok, ws), h2) =
                 (if nb_readSide b then cb_network_filter_get_read_buffer_chunks N1 (nb_hostPluginPtr b) h1
                  else cb_network_filter_get_write_buffer_chunks N2 (nb_hostPluginPtr b) h1);
                   resultChunks = filled (unat chunksSize) null_envoy_buffer ws
               in if \<not> ok then (None, h2)
                  else (Some (envoyBufferSliceToUnsafeEnvoyBufferSlice resultChunks), h2)))"

definition nb_GetSize ::
    "'h host_network_1 \<Rightarrow> 'h host_network_2 \<Rightarrow> dymNetworkBuffer \<Rightarrow> 'h \<Rightarrow> u64 \<times> 'h" where
  "nb_GetSize N1 N2 b h =
     (if nb_readSide b then cb_network_filter_get_read_buffer_size N1 (nb_hostPluginPtr b) h
      else cb_network_filter_get_write_buffer_size N2 (nb_hostPluginPtr b) h)"

definition nb_Drain :: "'h host_network_2 \<Rightarrow> dymNetworkBuffer \<Rightarrow> u64 \<Rightarrow> 'h \<Rightarrow> bool \<times> 'h" where
  "nb_Drain N2 b numBytes h =
     (if nb_readSide b then cb_network_filter_drain_read_buffer N2 (nb_hostPluginPtr b) numBytes h
      else cb_network_filter_drain_write_buffer N2 (nb_hostPluginPtr b) numBytes h)"

definition nb_Prepend :: "'h host_network_2 \<Rightarrow> dymNetworkBuffer \<Rightarrow> bytes option \<Rightarrow> 'h \<Rightarrow> bool \<times> 'h" where
  "nb_Prepend N2 b data h =
     (if nb_readSide b
      then cb_network_filter_prepend_read_buffer N2 (nb_hostPluginPtr b) (bytesToModuleBuffer data) h
      else cb_network_filter_prepend_write_buffer N2 (nb_hostPluginPtr b) (bytesToModuleBuffer data) h)"

definition nb_Append :: "'h host_network_2 \<Rightarrow> dymNetworkBuffer \<Rightarrow> bytes option \<Rightarrow> 'h \<Rightarrow> bool \<times> 'h" where
  "nb_Append N2 b data h =
     (if nb_readSide b
      then cb_network_filter_append_read_buffer N2 (nb_hostPluginPtr b) (bytesToModuleBuffer data) h
      else cb_network_filter_append_write_buffer N2 (nb_hostPluginPtr b) (bytesToModuleBuffer data) h)"

section \<open>dymNetworkFilterHandle\<close>

record dymNetworkFilterHandle =
  nf_hostPluginPtr :: network_filter_envoy_ptr
  nf_plugin :: "objref option"
  nf_readBuffer :: dymNetworkBuffer
  nf_writeBuffer :: dymNetworkBuffer
  nf_calloutCallbacks :: "(u64 \<Rightarrow> objref option) option"
  nf_scheduler :: "objref dymScheduler option"
  nf_filterDestroyed :: bool

definition newDymNetworkFilterHandle :: "network_filter_envoy_ptr \<Rightarrow> dymNetworkFilterHandle" where
  "newDymNetworkFilterHandle p =
     \<lparr>nf_hostPluginPtr = p, nf_plugin = None,
      nf_readBuffer = \<lparr>nb_hostPluginPtr = p, nb_readSide = True\<rparr>,
      nf_writeBuffer = \<lparr>nb_hostPluginPtr = p, nb_readSide = False\<rparr>,
      nf_calloutCallbacks = None, nf_scheduler = None, nf_filterDestroyed = False\<rparr>"

definition nf_ReadBuffer :: "dymNetworkFilterHandle \<Rightarrow> dymNetworkBuffer" where
  "nf_ReadBuffer f = nf_readBuffer f"

definition nf_WriteBuffer :: "dymNetworkFilterHandle \<Rightarrow> dymNetworkBuffer" where
  "nf_WriteBuffer f = nf_writeBuffer f"

text \<open>Data, closing, identity.\<close>

definition nf_Write ::
    "'h host_network_2 \<Rightarrow> dymNetworkFilterHandle \<Rightarrow> bytes option \<Rightarrow> bool \<Rightarrow> 'h \<Rightarrow> 'h" where
  "nf_Write N f data endStream h =
     snd (cb_network_filter_write N (nf_hostPluginPtr f) (bytesToModuleBuffer data) endStream h)"

definition nf_InjectReadData ::
    "'h host_network_2 \<Rightarrow> dymNetworkFilterHandle \<Rightarrow> bytes option \<Rightarrow> bool \<Rightarrow> 'h \<Rightarrow> 'h" where
  "nf_InjectReadData N f data endStream h =
     snd (cb_network_filter_inject_read_data N (nf_hostPluginPtr f) (bytesToModuleBuffer data) endStream h)"

definition nf_InjectWriteData ::
    "'h host_network_3 \<Rightarrow> dymNetworkFilterHandle \<Rightarrow> bytes option \<Rightarrow> bool \<Rightarrow> 'h \<Rightarrow> 'h" where
  "nf_InjectWriteData N f data endStream h =
     snd (cb_network_filter_inject_write_data N (nf_hostPluginPtr f) (bytesToModuleBuffer data) endStream h)"

definition nf_ContinueReading ::
    "'h host_network_3 \<Rightarrow> dymNetworkFilterHandle \<Rightarrow> 'h \<Rightarrow> 'h" where
  "nf_ContinueReading N f h =
     snd (cb_network_filter_continue_reading N (nf_hostPluginPtr f) h)"

definition nf_Close ::
    "'h host_network_3 \<Rightarrow> dymNetworkFilterHandle \<Rightarrow> u32 \<Rightarrow> 'h \<Rightarrow> 'h" where
  "nf_Close N f closeType h =
     snd (cb_network_filter_close N (nf_hostPluginPtr f) (CVal closeType) h)"

definition nf_GetConnectionID ::
    "'h host_network_3 \<Rightarrow> dymNetworkFilterHandle \<Rightarrow> 'h \<Rightarrow> u64 \<times> 'h" where
  "nf_GetConnectionID N f h =
     cb_network_filter_get_connection_id N (nf_hostPluginPtr f) h"

text \<open>The three addresses; another kind gives nothing.\<close>

definition address_of ::
    "bool \<times> envoy_buffer option \<times> u32 option \<Rightarrow> UnsafeEnvoyBuffer \<times> u32 \<times> bool" where
  "address_of r =
     (let (ret, wa, wp) = r; address = written null_envoy_buffer wa; port = written 0 wp
      in if \<not> ret then (empty_buffer, 0, False)
         else if eb_ptr address = 0 \<or> eb_length address = 0 then (empty_buffer, port, True)
         else (envoyBufferToUnsafeEnvoyBuffer address, port, True))"

definition nf_getAddress ::
    "'h host_network_3 \<Rightarrow> 'h host_network_4 \<Rightarrow> dymNetworkFilterHandle \<Rightarrow> int \<Rightarrow> 'h \<Rightarrow>
      (UnsafeEnvoyBuffer \<times> u32 \<times> bool) \<times> 'h" where
  "nf_getAddress N3 N4 f kind h =
     (if kind = 0 then (let (r, h1) = cb_network_filter_get_remote_address N3 (nf_hostPluginPtr f) h
                        in (address_of r, h1))
      else if kind = 1 then (let (r, h1) = cb_network_filter_get_local_address N3 (nf_hostPluginPtr f) h
                             in (address_of r, h1))
      else if kind = 2 then (let (r, h1) = cb_network_filter_get_direct_remote_address N4 (nf_hostPluginPtr f) h
                             in (address_of r, h1))
      else ((empty_buffer, 0, False), h))"

definition nf_GetRemoteAddress ::
    "'h host_network_3 \<Rightarrow> 'h host_network_4 \<Rightarrow> dymNetworkFilterHandle \<Rightarrow> 'h \<Rightarrow>
      (UnsafeEnvoyBuffer \<times> u32 \<times> bool) \<times> 'h" where
  "nf_GetRemoteAddress N3 N4 f = nf_getAddress N3 N4 f 0"

definition nf_GetLocalAddress ::
    "'h host_network_3 \<Rightarrow> 'h host_network_4 \<Rightarrow> dymNetworkFilterHandle \<Rightarrow> 'h \<Rightarrow>
      (UnsafeEnvoyBuffer \<times> u32 \<times> bool) \<times> 'h" where
  "nf_GetLocalAddress N3 N4 f = nf_getAddress N3 N4 f 1"

definition nf_GetDirectRemoteAddress ::
    "'h host_network_3 \<Rightarrow> 'h host_network_4 \<Rightarrow> dymNetworkFilterHandle \<Rightarrow> 'h \<Rightarrow>
      (UnsafeEnvoyBuffer \<times> u32 \<times> bool) \<times> 'h" where
  "nf_GetDirectRemoteAddress N3 N4 f = nf_getAddress N3 N4 f 2"

definition nf_IsSSL ::
    "'h host_network_3 \<Rightarrow> dymNetworkFilterHandle \<Rightarrow> 'h \<Rightarrow> bool \<times> 'h" where
  "nf_IsSSL N f h =
     cb_network_filter_is_ssl N (nf_hostPluginPtr f) h"

definition nf_DisableClose ::
    "'h host_network_3 \<Rightarrow> dymNetworkFilterHandle \<Rightarrow> bool \<Rightarrow> 'h \<Rightarrow> 'h" where
  "nf_DisableClose N f disabled h =
     snd (cb_network_filter_disable_close N (nf_hostPluginPtr f) disabled h)"

definition nf_CloseWithDetails ::
    "'h host_network_3 \<Rightarrow> go_runtime \<Rightarrow> dymNetworkFilterHandle \<Rightarrow> u32 \<Rightarrow> gostring \<Rightarrow> 'h \<Rightarrow> 'h" where
  "nf_CloseWithDetails N rt f closeType details h =
     snd (cb_network_filter_close_with_details N (nf_hostPluginPtr f) (CVal closeType)
       (stringToModuleBuffer rt details) h)"

definition nf_GetRequestedServerName ::
    "'h host_network_3 \<Rightarrow> dymNetworkFilterHandle \<Rightarrow> 'h \<Rightarrow> (UnsafeEnvoyBuffer \<times> bool) \<times> 'h" where
  "nf_GetRequestedServerName N f h =
     (let ((ret, wv), h1) = cb_network_filter_get_requested_server_name N (nf_hostPluginPtr f) h
      in (view_of False ret (written null_envoy_buffer wv), h1))"

definition nf_getSANs ::
    "'h host_network_4 \<Rightarrow> dymNetworkFilterHandle \<Rightarrow> int \<Rightarrow> 'h \<Rightarrow> UnsafeEnvoyBuffer list option \<times> 'h" where
  "nf_getSANs N f kind h =
     (if kind \<noteq> 0 \<and> kind \<noteq> 1 then (None, h)
      else (let (size, h1) = (if kind = 0 then cb_network_filter_get_ssl_uri_sans_size N (nf_hostPluginPtr f) h
                              else cb_network_filter_get_ssl_dns_sans_size N (nf_hostPluginPtr f) h)
            in if size = 0 then (None, h1)
               else (let ((ret, ws), h2) =
                       (if kind = 0 then cb_network_filter_get_ssl_uri_sans N (nf_hostPluginPtr f) h1
                        else cb_network_filter_get_ssl_dns_sans N (nf_hostPluginPtr f) h1)
                     in if \<not> ret then (None, h2)
                        else (Some (envoyBufferSliceToUnsafeEnvoyBufferSlice
                                (filled (unat size) null_envoy_buffer ws)), h2))))"

definition nf_GetSSLURISANs ::
    "'h host_network_4 \<Rightarrow> dymNetworkFilterHandle \<Rightarrow> 'h \<Rightarrow> UnsafeEnvoyBuffer list option \<times> 'h" where
  "nf_GetSSLURISANs N f = nf_getSANs N f 0"

definition nf_GetSSLDNSSANs ::
    "'h host_network_4 \<Rightarrow> dymNetworkFilterHandle \<Rightarrow> 'h \<Rightarrow> UnsafeEnvoyBuffer list option \<times> 'h" where
  "nf_GetSSLDNSSANs N f = nf_getSANs N f 1"

definition nf_GetSSLSubject ::
    "'h host_network_4 \<Rightarrow> dymNetworkFilterHandle \<Rightarrow> 'h \<Rightarrow> (UnsafeEnvoyBuffer \<times> bool) \<times> 'h" where
  "nf_GetSSLSubject N f h =
     (let ((ret, wv), h1) = cb_network_filter_get_ssl_subject N (nf_hostPluginPtr f) h
      in (view_of False ret (written null_envoy_buffer wv), h1))"

text \<open>Filter state and dynamic metadata; an empty value counts as found.\<close>

definition nf_SetFilterState ::
    "'h host_network_4 \<Rightarrow> go_runtime \<Rightarrow> dymNetworkFilterHandle \<Rightarrow> gostring \<Rightarrow> bytes option \<Rightarrow> 'h \<Rightarrow> bool \<times> 'h" where
  "nf_SetFilterState N rt f key val h =
     cb_network_set_filter_state_bytes N (nf_hostPluginPtr f) (stringToModuleBuffer rt key)
       (bytesToModuleBuffer val) h"

definition nf_GetFilterState ::
    "'h host_network_4 \<Rightarrow> go_runtime \<Rightarrow> dymNetworkFilterHandle \<Rightarrow> gostring \<Rightarrow> 'h \<Rightarrow> (UnsafeEnvoyBuffer \<times> bool) \<times> 'h" where
  "nf_GetFilterState N rt f key h =
     (let ((ret, wv), h1) = cb_network_get_filter_state_bytes N (nf_hostPluginPtr f) (stringToModuleBuffer rt key) h
      in (view_of False ret (written null_envoy_buffer wv), h1))"

definition nf_SetFilterStateTyped ::
    "'h host_network_4 \<Rightarrow> go_runtime \<Rightarrow> dymNetworkFilterHandle \<Rightarrow> gostring \<Rightarrow> bytes option \<Rightarrow> 'h \<Rightarrow> bool \<times> 'h" where
  "nf_SetFilterStateTyped N rt f key val h =
     cb_network_set_filter_state_typed N (nf_hostPluginPtr f) (stringToModuleBuffer rt key)
       (bytesToModuleBuffer val) h"

definition nf_GetFilterStateTyped ::
    "'h host_network_4 \<Rightarrow> go_runtime \<Rightarrow> dymNetworkFilterHandle \<Rightarrow> gostring \<Rightarrow> 'h \<Rightarrow> (UnsafeEnvoyBuffer \<times> bool) \<times> 'h" where
  "nf_GetFilterStateTyped N rt f key h =
     (let ((ret, wv), h1) = cb_network_get_filter_state_typed N (nf_hostPluginPtr f) (stringToModuleBuffer rt key) h
      in (view_of False ret (written null_envoy_buffer wv), h1))"

definition nf_GetMetadataString ::
    "'h host_network_5 \<Rightarrow> go_runtime \<Rightarrow> dymNetworkFilterHandle \<Rightarrow> gostring \<Rightarrow> gostring \<Rightarrow> 'h \<Rightarrow> (UnsafeEnvoyBuffer \<times> bool) \<times> 'h" where
  "nf_GetMetadataString N rt f ns key h =
     (let ((ret, wv), h1) = cb_network_get_dynamic_metadata_string N (nf_hostPluginPtr f)
            (stringToModuleBuffer rt ns) (stringToModuleBuffer rt key) h
      in (view_of False ret (written null_envoy_buffer wv), h1))"

definition nf_GetMetadataNumber ::
    "'h host_network_5 \<Rightarrow> go_runtime \<Rightarrow> dymNetworkFilterHandle \<Rightarrow> gostring \<Rightarrow> gostring \<Rightarrow> 'h \<Rightarrow> (f64 \<times> bool) \<times> 'h" where
  "nf_GetMetadataNumber N rt f ns key h =
     (let ((ret, wv), h1) = cb_network_get_dynamic_metadata_number N (nf_hostPluginPtr f)
            (stringToModuleBuffer rt ns) (stringToModuleBuffer rt key) h
      in (if \<not> ret then (0, False) else (written 0 wv, True), h1))"

definition nf_GetMetadataBool ::
    "'h host_network_5 \<Rightarrow> go_runtime \<Rightarrow> dymNetworkFilterHandle \<Rightarrow> gostring \<Rightarrow> gostring \<Rightarrow> 'h \<Rightarrow> (bool \<times> bool) \<times> 'h" where
  "nf_GetMetadataBool N rt f ns key h =
     (let ((ret, wv), h1) = cb_network_get_dynamic_metadata_bool N (nf_hostPluginPtr f)
            (stringToModuleBuffer rt ns) (stringToModuleBuffer rt key) h
      in (if \<not> ret then (False, False) else (written False wv, True), h1))"

definition nf_SetMetadata ::
    "'h host_network_5 \<Rightarrow> go_runtime \<Rightarrow> dymNetworkFilterHandle \<Rightarrow> gostring \<Rightarrow> gostring \<Rightarrow> go_any \<Rightarrow> 'h \<Rightarrow> 'h" where
  "nf_SetMetadata N rt f ns key val h =
     (case val of
        AnyBool v \<Rightarrow> snd (cb_network_set_dynamic_metadata_bool N (nf_hostPluginPtr f)
          (stringToModuleBuffer rt ns) (stringToModuleBuffer rt key) v h)
      | AnyString v \<Rightarrow> snd (cb_network_set_dynamic_metadata_string N (nf_hostPluginPtr f)
          (stringToModuleBuffer rt ns) (stringToModuleBuffer rt key) (stringToModuleBuffer rt v) h)
      | _ \<Rightarrow> (case any_number rt val of
               None \<Rightarrow> h
             | Some x \<Rightarrow> snd (cb_network_set_dynamic_metadata_number N (nf_hostPluginPtr f)
                 (stringToModuleBuffer rt ns) (stringToModuleBuffer rt key) x h)))"

text \<open>Socket options.\<close>

definition nf_SetSocketOptionInt ::
    "'h host_network_1 \<Rightarrow> dymNetworkFilterHandle \<Rightarrow> i64 \<Rightarrow> i64 \<Rightarrow> u32 \<Rightarrow> i64 \<Rightarrow> 'h \<Rightarrow> 'h" where
  "nf_SetSocketOptionInt N f level name state val h =
     snd (cb_network_set_socket_option_int N (nf_hostPluginPtr f) level name (CVal state) val h)"

definition nf_SetSocketOptionBytes ::
    "'h host_network_1 \<Rightarrow> dymNetworkFilterHandle \<Rightarrow> i64 \<Rightarrow> i64 \<Rightarrow> u32 \<Rightarrow> bytes option \<Rightarrow> 'h \<Rightarrow> 'h" where
  "nf_SetSocketOptionBytes N f level name state val h =
     snd (cb_network_set_socket_option_bytes N (nf_hostPluginPtr f) level name (CVal state)
       (bytesToModuleBuffer val) h)"

definition nf_GetSocketOptionInt ::
    "'h host_network_1 \<Rightarrow> dymNetworkFilterHandle \<Rightarrow> i64 \<Rightarrow> i64 \<Rightarrow> u32 \<Rightarrow> 'h \<Rightarrow> (i64 \<times> bool) \<times> 'h" where
  "nf_GetSocketOptionInt N f level name state h =
     (let ((ret, wv), h1) = cb_network_get_socket_option_int N (nf_hostPluginPtr f) level name (CVal state) h
      in (if \<not> ret then (0, False) else (written 0 wv, True), h1))"

definition nf_GetSocketOptionBytes ::
    "'h host_network_1 \<Rightarrow> dymNetworkFilterHandle \<Rightarrow> i64 \<Rightarrow> i64 \<Rightarrow> u32 \<Rightarrow> 'h \<Rightarrow> (UnsafeEnvoyBuffer \<times> bool) \<times> 'h" where
  "nf_GetSocketOptionBytes N f level name state h =
     (let ((ret, wv), h1) = cb_network_get_socket_option_bytes N (nf_hostPluginPtr f) level name (CVal state) h
      in (view_of False ret (written null_envoy_buffer wv), h1))"

record SocketOption =
  sk_Level :: i64
  sk_Name :: i64
  sk_State :: u32
  sk_ValueType :: u32
  sk_IntValue :: i64
  sk_BytesValue :: UnsafeEnvoyBuffer

definition zero_socket_option :: socket_option where
  "zero_socket_option = \<lparr>so_level = 0, so_name = 0, so_state = CVal 0, so_value_type = CVal 0,
     so_int_value = 0, so_byte_value = null_envoy_buffer\<rparr>"

definition nf_GetSocketOptions ::
    "'h host_network_1 \<Rightarrow> dymNetworkFilterHandle \<Rightarrow> 'h \<Rightarrow> SocketOption list option \<times> 'h" where
  "nf_GetSocketOptions N f h =
     (let (size, h1) = cb_network_get_socket_options_size N (nf_hostPluginPtr f) h
      in if size = 0 then (None, h1)
         else (let (ws, h2) = cb_network_get_socket_options N (nf_hostPluginPtr f) h1
               in (Some (map (\<lambda>s. \<lparr>sk_Level = so_level s, sk_Name = so_name s,
                      sk_State = c_raw (so_state s), sk_ValueType = c_raw (so_value_type s),
                      sk_IntValue = so_int_value s,
                      sk_BytesValue = envoyBufferToUnsafeEnvoyBuffer (so_byte_value s)\<rparr>)
                    (filled (unat size) zero_socket_option ws)), h2)))"

definition nf_Log ::
    "'h host_log \<Rightarrow> go_runtime \<Rightarrow> dymNetworkFilterHandle \<Rightarrow> u32 \<Rightarrow> gostring \<Rightarrow> go_any list \<Rightarrow> 'h \<Rightarrow> 'h" where
  "nf_Log G rt f level format args h = hostLog rt G level format args h"

text \<open>A callout's callback is stored after the call that starts it has returned.\<close>

definition nf_HttpCallout ::
    "'h host_network_5 \<Rightarrow> go_runtime \<Rightarrow> dymNetworkFilterHandle \<Rightarrow> gostring \<Rightarrow> (gostring \<times> gostring) list \<Rightarrow>
      bytes option \<Rightarrow> u64 \<Rightarrow> objref option \<Rightarrow> 'h \<Rightarrow> (u32 \<times> u64) \<times> dymNetworkFilterHandle \<times> 'h" where
  "nf_HttpCallout N rt f cluster headers body timeoutMs cb h =
     (let ((result, wid), h1) = cb_network_filter_http_callout N (nf_hostPluginPtr f)
            (stringToModuleBuffer rt cluster) (headersToModuleHttpHeaderSlice rt headers)
            (bytesToModuleBuffer body) timeoutMs h;
          goResult = c_raw result;
          calloutID = written 0 wid
      in if goResult \<noteq> CalloutInitSuccess then ((goResult, 0), f, h1)
         else ((goResult, calloutID),
               f\<lparr>nf_calloutCallbacks := go_map_put (nf_calloutCallbacks f) calloutID cb\<rparr>, h1))"

text \<open>Metrics, clusters, the upstream host, the connection.\<close>

definition nf_RecordHistogramValue ::
    "'h host_network_6 \<Rightarrow> dymNetworkFilterHandle \<Rightarrow> u64 \<Rightarrow> u64 \<Rightarrow> 'h \<Rightarrow> u32 \<times> 'h" where
  "nf_RecordHistogramValue N f i val h =
     (let (ret, h1) = cb_network_filter_record_histogram_value N (nf_hostPluginPtr f) i val h in (c_raw ret, h1))"

definition nf_SetGaugeValue ::
    "'h host_network_6 \<Rightarrow> dymNetworkFilterHandle \<Rightarrow> u64 \<Rightarrow> u64 \<Rightarrow> 'h \<Rightarrow> u32 \<times> 'h" where
  "nf_SetGaugeValue N f i val h =
     (let (ret, h1) = cb_network_filter_set_gauge N (nf_hostPluginPtr f) i val h in (c_raw ret, h1))"

definition nf_IncrementGaugeValue ::
    "'h host_network_6 \<Rightarrow> dymNetworkFilterHandle \<Rightarrow> u64 \<Rightarrow> u64 \<Rightarrow> 'h \<Rightarrow> u32 \<times> 'h" where
  "nf_IncrementGaugeValue N f i val h =
     (let (ret, h1) = cb_network_filter_increment_gauge N (nf_hostPluginPtr f) i val h in (c_raw ret, h1))"

definition nf_DecrementGaugeValue ::
    "'h host_network_6 \<Rightarrow> dymNetworkFilterHandle \<Rightarrow> u64 \<Rightarrow> u64 \<Rightarrow> 'h \<Rightarrow> u32 \<times> 'h" where
  "nf_DecrementGaugeValue N f i val h =
     (let (ret, h1) = cb_network_filter_decrement_gauge N (nf_hostPluginPtr f) i val h in (c_raw ret, h1))"

definition nf_IncrementCounterValue ::
    "'h host_network_5 \<Rightarrow> dymNetworkFilterHandle \<Rightarrow> u64 \<Rightarrow> u64 \<Rightarrow> 'h \<Rightarrow> u32 \<times> 'h" where
  "nf_IncrementCounterValue N f i val h =
     (let (ret, h1) = cb_network_filter_increment_counter N (nf_hostPluginPtr f) i val h in (c_raw ret, h1))"

definition nf_GetClusterHostCounts ::
    "'h host_network_6 \<Rightarrow> go_runtime \<Rightarrow> dymNetworkFilterHandle \<Rightarrow> gostring \<Rightarrow> u32 \<Rightarrow> 'h \<Rightarrow>
      (ClusterHostCounts \<times> bool) \<times> 'h" where
  "nf_GetClusterHostCounts N rt f cluster priority h =
     (let ((ret, wt, wh, wd), h1) = cb_network_filter_get_cluster_host_count N (nf_hostPluginPtr f)
            (stringToModuleBuffer rt cluster) priority h
      in (if \<not> ret then (\<lparr>cc_Total = 0, cc_Healthy = 0, cc_Degraded = 0\<rparr>, False)
          else (\<lparr>cc_Total = written 0 wt, cc_Healthy = written 0 wh, cc_Degraded = written 0 wd\<rparr>, True), h1))"

definition nf_GetUpstreamHostAddress ::
    "'h host_network_6 \<Rightarrow> dymNetworkFilterHandle \<Rightarrow> 'h \<Rightarrow> (UnsafeEnvoyBuffer \<times> u32 \<times> bool) \<times> 'h" where
  "nf_GetUpstreamHostAddress N f h =
     (let (r, h1) = cb_network_filter_get_upstream_host_address N (nf_hostPluginPtr f) h
      in (address_of r, h1))"

definition nf_GetUpstreamHostHostname ::
    "'h host_network_6 \<Rightarrow> dymNetworkFilterHandle \<Rightarrow> 'h \<Rightarrow> (UnsafeEnvoyBuffer \<times> bool) \<times> 'h" where
  "nf_GetUpstreamHostHostname N f h =
     (let ((ret, wv), h1) = cb_network_filter_get_upstream_host_hostname N (nf_hostPluginPtr f) h
      in (view_of False ret (written null_envoy_buffer wv), h1))"

definition nf_GetUpstreamHostCluster ::
    "'h host_network_6 \<Rightarrow> dymNetworkFilterHandle \<Rightarrow> 'h \<Rightarrow> (UnsafeEnvoyBuffer \<times> bool) \<times> 'h" where
  "nf_GetUpstreamHostCluster N f h =
     (let ((ret, wv), h1) = cb_network_filter_get_upstream_host_cluster N (nf_hostPluginPtr f) h
      in (view_of False ret (written null_envoy_buffer wv), h1))"

definition nf_HasUpstreamHost ::
    "'h host_network_7 \<Rightarrow> dymNetworkFilterHandle \<Rightarrow> 'h \<Rightarrow> bool \<times> 'h" where
  "nf_HasUpstreamHost N f h =
     cb_network_filter_has_upstream_host N (nf_hostPluginPtr f) h"

definition nf_StartUpstreamSecureTransport ::
    "'h host_network_7 \<Rightarrow> dymNetworkFilterHandle \<Rightarrow> 'h \<Rightarrow> bool \<times> 'h" where
  "nf_StartUpstreamSecureTransport N f h =
     cb_network_filter_start_upstream_secure_transport N (nf_hostPluginPtr f) h"

definition nf_GetConnectionState ::
    "'h host_network_7 \<Rightarrow> dymNetworkFilterHandle \<Rightarrow> 'h \<Rightarrow> u32 \<times> 'h" where
  "nf_GetConnectionState N f h =
     (let (ret, h1) = cb_network_filter_get_connection_state N (nf_hostPluginPtr f) h in (c_raw ret, h1))"

definition nf_ReadDisable ::
    "'h host_network_7 \<Rightarrow> dymNetworkFilterHandle \<Rightarrow> bool \<Rightarrow> 'h \<Rightarrow> u32 \<times> 'h" where
  "nf_ReadDisable N f disable h =
     (let (ret, h1) = cb_network_filter_read_disable N (nf_hostPluginPtr f) disable h in (c_raw ret, h1))"

definition nf_ReadEnabled ::
    "'h host_network_7 \<Rightarrow> dymNetworkFilterHandle \<Rightarrow> 'h \<Rightarrow> bool \<times> 'h" where
  "nf_ReadEnabled N f h =
     cb_network_filter_read_enabled N (nf_hostPluginPtr f) h"

definition nf_IsHalfCloseEnabled ::
    "'h host_network_7 \<Rightarrow> dymNetworkFilterHandle \<Rightarrow> 'h \<Rightarrow> bool \<times> 'h" where
  "nf_IsHalfCloseEnabled N f h =
     cb_network_filter_is_half_close_enabled N (nf_hostPluginPtr f) h"

definition nf_EnableHalfClose ::
    "'h host_network_7 \<Rightarrow> dymNetworkFilterHandle \<Rightarrow> bool \<Rightarrow> 'h \<Rightarrow> 'h" where
  "nf_EnableHalfClose N f enabled h =
     snd (cb_network_filter_enable_half_close N (nf_hostPluginPtr f) enabled h)"

definition nf_GetBufferLimit ::
    "'h host_network_7 \<Rightarrow> dymNetworkFilterHandle \<Rightarrow> 'h \<Rightarrow> u32 \<times> 'h" where
  "nf_GetBufferLimit N f h =
     cb_network_filter_get_buffer_limit N (nf_hostPluginPtr f) h"

definition nf_SetBufferLimits ::
    "'h host_network_7 \<Rightarrow> dymNetworkFilterHandle \<Rightarrow> u32 \<Rightarrow> 'h \<Rightarrow> 'h" where
  "nf_SetBufferLimits N f limit h =
     snd (cb_network_filter_set_buffer_limits N (nf_hostPluginPtr f) limit h)"

definition nf_AboveHighWatermark ::
    "'h host_network_7 \<Rightarrow> dymNetworkFilterHandle \<Rightarrow> 'h \<Rightarrow> bool \<times> 'h" where
  "nf_AboveHighWatermark N f h =
     cb_network_filter_above_high_watermark N (nf_hostPluginPtr f) h"

definition nf_GetScheduler ::
    "'h host_network_8 \<Rightarrow> dymNetworkFilterHandle \<Rightarrow> 'h \<Rightarrow> dymNetworkFilterHandle \<times> 'h" where
  "nf_GetScheduler N f h =
     (case nf_scheduler f of
        None \<Rightarrow> (let (p, h1) = cb_network_filter_scheduler_new N (nf_hostPluginPtr f) h
                 in (f\<lparr>nf_scheduler := Some (newDymScheduler p)\<rparr>, h1))
      | Some _ \<Rightarrow> (f, h))"

text \<open>\<open>handle.GetScheduler().Schedule(task)\<close>, the way a filter uses it.\<close>

definition nf_Schedule ::
    "'h host_network_8 \<Rightarrow> dymNetworkFilterHandle \<Rightarrow> objref option \<Rightarrow> 'h \<Rightarrow> dymNetworkFilterHandle \<times> 'h" where
  "nf_Schedule N f task h =
     (let (f1, h1) = nf_GetScheduler N f h
      in case nf_scheduler f1 of
           None \<Rightarrow> (f1, h1)
         | Some s \<Rightarrow> (let (s', h2) = sched_Schedule (cb_network_filter_scheduler_commit N) s task h1
                      in (f1\<lparr>nf_scheduler := Some s'\<rparr>, h2)))"

definition nf_GetWorkerIndex ::
    "'h host_network_8 \<Rightarrow> dymNetworkFilterHandle \<Rightarrow> 'h \<Rightarrow> u32 \<times> 'h" where
  "nf_GetWorkerIndex N f h =
     cb_network_filter_get_worker_index N (nf_hostPluginPtr f) h"

section \<open>dymNetworkConfigHandle\<close>

record dymNetworkConfigHandle =
  nc_hostConfigPtr :: network_filter_config_envoy_ptr
  nc_scheduler :: "objref dymScheduler option"

definition nc_Log ::
    "'h host_log \<Rightarrow> go_runtime \<Rightarrow> dymNetworkConfigHandle \<Rightarrow> u32 \<Rightarrow> gostring \<Rightarrow> go_any list \<Rightarrow> 'h \<Rightarrow> 'h" where
  "nc_Log G rt c level format args h = hostLog rt G level format args h"

definition nc_DefineHistogram ::
    "'h host_network_6 \<Rightarrow> go_runtime \<Rightarrow> dymNetworkConfigHandle \<Rightarrow> gostring \<Rightarrow> 'h \<Rightarrow> (u64 \<times> u32) \<times> 'h" where
  "nc_DefineHistogram N rt c name h =
     (let ((result, wid), h1) = cb_network_filter_config_define_histogram N (nc_hostConfigPtr c)
            (stringToModuleBuffer rt name) h
      in ((written 0 wid, c_raw result), h1))"

definition nc_DefineGauge ::
    "'h host_network_6 \<Rightarrow> go_runtime \<Rightarrow> dymNetworkConfigHandle \<Rightarrow> gostring \<Rightarrow> 'h \<Rightarrow> (u64 \<times> u32) \<times> 'h" where
  "nc_DefineGauge N rt c name h =
     (let ((result, wid), h1) = cb_network_filter_config_define_gauge N (nc_hostConfigPtr c)
            (stringToModuleBuffer rt name) h
      in ((written 0 wid, c_raw result), h1))"

definition nc_DefineCounter ::
    "'h host_network_5 \<Rightarrow> go_runtime \<Rightarrow> dymNetworkConfigHandle \<Rightarrow> gostring \<Rightarrow> 'h \<Rightarrow> (u64 \<times> u32) \<times> 'h" where
  "nc_DefineCounter N rt c name h =
     (let ((result, wid), h1) = cb_network_filter_config_define_counter N (nc_hostConfigPtr c)
            (stringToModuleBuffer rt name) h
      in ((written 0 wid, c_raw result), h1))"

definition nc_GetScheduler ::
    "'h host_network_8 \<Rightarrow> dymNetworkConfigHandle \<Rightarrow> 'h \<Rightarrow> dymNetworkConfigHandle \<times> 'h" where
  "nc_GetScheduler N c h =
     (case nc_scheduler c of
        None \<Rightarrow> (let (p, h1) = cb_network_filter_config_scheduler_new N (nc_hostConfigPtr c) h
                 in (c\<lparr>nc_scheduler := Some (newDymScheduler p)\<rparr>, h1))
      | Some _ \<Rightarrow> (c, h))"

definition nc_Schedule ::
    "'h host_network_8 \<Rightarrow> dymNetworkConfigHandle \<Rightarrow> objref option \<Rightarrow> 'h \<Rightarrow> dymNetworkConfigHandle \<times> 'h" where
  "nc_Schedule N c task h =
     (let (c1, h1) = nc_GetScheduler N c h
      in case nc_scheduler c1 of
           None \<Rightarrow> (c1, h1)
         | Some s \<Rightarrow> (let (s', h2) = sched_Schedule (cb_network_filter_config_scheduler_commit N) s task h1
                      in (c1\<lparr>nc_scheduler := Some s'\<rparr>, h2)))"

end
