(* ===== verification/NetworkBuffer.thy ===== *)
theory NetworkBuffer
  imports NetworkHandle
begin

text \<open>
  The contract of the two byte queues of a connection (abi/abi.h, shared/network_api.go): what was
  received from downstream and what is written to it, each read in chunks and edited at both ends.
\<close>

section \<open>The abstract queues\<close>

datatype edit = EDrain u64 | EPrepend "bytes option" | EAppend "bytes option"

fun queue_edit :: "edit \<Rightarrow> bytes \<Rightarrow> bytes" where
  "queue_edit (EDrain n) q = drop (unat n) q"
| "queue_edit (EPrepend d) q = slice_bytes d @ q"
| "queue_edit (EAppend d) q = q @ slice_bytes d"

text \<open>
  One queue for each side of each connection; an edit that reports failure changes nothing.
\<close>

fun queue_run ::
    "(dymNetworkBuffer \<times> edit) list \<Rightarrow> bool list \<Rightarrow> (dymNetworkBuffer \<Rightarrow> bytes) \<Rightarrow> dymNetworkBuffer \<Rightarrow> bytes" where
  "queue_run ((b, e) # es) (ok # oks) q =
     queue_run es oks (if ok then q(b := queue_edit e (q b)) else q)"
| "queue_run _ _ q = q"

section \<open>The code, over any host\<close>

definition nb_edit :: "'h host_network_2 \<Rightarrow> dymNetworkBuffer \<Rightarrow> edit \<Rightarrow> 'h \<Rightarrow> bool \<times> 'h" where
  "nb_edit N2 b e =
     (case e of EDrain n \<Rightarrow> nb_Drain N2 b n | EPrepend d \<Rightarrow> nb_Prepend N2 b d | EAppend d \<Rightarrow> nb_Append N2 b d)"

fun nb_run :: "'h host_network_2 \<Rightarrow> (dymNetworkBuffer \<times> edit) list \<Rightarrow> 'h \<Rightarrow> bool list \<times> 'h" where
  "nb_run N2 [] h = ([], h)"
| "nb_run N2 ((b, e) # es) h =
     (let (ok, h1) = nb_edit N2 b e h; (oks, h2) = nb_run N2 es h1 in (ok # oks, h2))"

text \<open>The bytes a filter sees: the chunks in order, none if \<open>GetChunks\<close> returns nil.\<close>

definition nb_bytes ::
    "('h \<Rightarrow> mem) \<Rightarrow> 'h host_network_1 \<Rightarrow> 'h host_network_2 \<Rightarrow> 'h \<Rightarrow> dymNetworkBuffer \<Rightarrow> bytes" where
  "nb_bytes memory N1 N2 h b =
     (case nb_GetChunks N1 N2 b h of
        (None, h1) \<Rightarrow> []
      | (Some cs, h1) \<Rightarrow> concat (map (ToUnsafeString (memory h1)) cs))"

section \<open>What abi.h promises\<close>

text \<open>\<open>slices s p h\<close> are the chunks Envoy holds for side \<open>s\<close> (true is the read side) of connection \<open>p\<close>.\<close>

definition side_bytes ::
    "('h \<Rightarrow> mem) \<Rightarrow> (bool \<Rightarrow> ptr \<Rightarrow> 'h \<Rightarrow> envoy_buffer list) \<Rightarrow> bool \<Rightarrow> ptr \<Rightarrow> 'h \<Rightarrow> bytes" where
  "side_bytes memory slices s p h =
     concat (map (\<lambda>c. ToUnsafeString (memory h) (envoyBufferToUnsafeEnvoyBuffer c)) (slices s p h))"

fun host_edit :: "'h host_network_2 \<Rightarrow> bool \<Rightarrow> ptr \<Rightarrow> edit \<Rightarrow> 'h \<Rightarrow> bool \<times> 'h" where
  "host_edit N2 True p (EDrain n) = cb_network_filter_drain_read_buffer N2 p n"
| "host_edit N2 False p (EDrain n) = cb_network_filter_drain_write_buffer N2 p n"
| "host_edit N2 True p (EPrepend d) = cb_network_filter_prepend_read_buffer N2 p (bytesToModuleBuffer d)"
| "host_edit N2 False p (EPrepend d) = cb_network_filter_prepend_write_buffer N2 p (bytesToModuleBuffer d)"
| "host_edit N2 True p (EAppend d) = cb_network_filter_append_read_buffer N2 p (bytesToModuleBuffer d)"
| "host_edit N2 False p (EAppend d) = cb_network_filter_append_write_buffer N2 p (bytesToModuleBuffer d)"

locale network_host =
  fixes N1 :: "'h host_network_1" and N2 :: "'h host_network_2"
    and memory :: "'h \<Rightarrow> mem"
    and slices :: "bool \<Rightarrow> ptr \<Rightarrow> 'h \<Rightarrow> envoy_buffer list"
  assumes read_count: "cb_network_filter_get_read_buffer_chunks_size N1 p h = (of_nat (length (slices True p h)), h)"
    and write_count: "cb_network_filter_get_write_buffer_chunks_size N1 p h = (of_nat (length (slices False p h)), h)"
    and read_chunks: "slices True p h \<noteq> [] \<Longrightarrow>
      cb_network_filter_get_read_buffer_chunks N1 p h = ((True, slices True p h), h)"
    and write_chunks: "slices False p h \<noteq> [] \<Longrightarrow>
      cb_network_filter_get_write_buffer_chunks N2 p h = ((True, slices False p h), h)"
    and read_size: "cb_network_filter_get_read_buffer_size N1 p h =
      (of_nat (length (side_bytes memory slices True p h)), h)"
    and write_size: "cb_network_filter_get_write_buffer_size N2 p h =
      (of_nat (length (side_bytes memory slices False p h)), h)"
    and few_slices: "length (slices s p h) < 2 ^ 64"
    and edits: "host_edit N2 s p e h = (ok, h') \<Longrightarrow>
      side_bytes memory slices s' p' h' =
        (if ok \<and> s' = s \<and> p' = p then queue_edit e (side_bytes memory slices s p h)
         else side_bytes memory slices s' p' h)"
begin

lemma GetChunks_slices:
  "nb_GetChunks N1 N2 b h =
     (if slices (nb_readSide b) (nb_hostPluginPtr b) h = [] then None
      else Some (map envoyBufferToUnsafeEnvoyBuffer (slices (nb_readSide b) (nb_hostPluginPtr b) h)), h)"
proof -
  let ?cs = "slices (nb_readSide b) (nb_hostPluginPtr b) h"
  have n: "unat (of_nat (length ?cs) :: u64) = length ?cs"
    by (rule unat_of_nat_u64 [OF few_slices])
  have z: "(of_nat (length ?cs) :: u64) = 0 \<longleftrightarrow> ?cs = []"
    using of_nat_u64_eq_0 [OF few_slices] by simp
  show ?thesis
    using n z by (cases "nb_readSide b")
      (auto simp: nb_GetChunks_def read_count write_count read_chunks write_chunks envoyBufferSlice_map)
qed

lemma bytes_side:
  "nb_bytes memory N1 N2 h b = side_bytes memory slices (nb_readSide b) (nb_hostPluginPtr b) h"
  by (simp add: nb_bytes_def GetChunks_slices side_bytes_def comp_def)

lemma GetSize_bytes: "nb_GetSize N1 N2 b h = (of_nat (length (nb_bytes memory N1 N2 h b)), h)"
  by (simp add: nb_GetSize_def bytes_side read_size write_size)

lemma edit_host: "nb_edit N2 b e = host_edit N2 (nb_readSide b) (nb_hostPluginPtr b) e"
  by (cases "nb_readSide b"; cases e)
    (simp_all add: nb_edit_def nb_Drain_def nb_Prepend_def nb_Append_def fun_eq_iff)

lemma edit_bytes:
  assumes "nb_edit N2 b e h = (ok, h')"
  shows "nb_bytes memory N1 N2 h' =
    (if ok then (nb_bytes memory N1 N2 h)(b := queue_edit e (nb_bytes memory N1 N2 h b))
     else nb_bytes memory N1 N2 h)"
proof (rule ext)
  fix b'
  have same: "nb_readSide b' = nb_readSide b \<and> nb_hostPluginPtr b' = nb_hostPluginPtr b \<longleftrightarrow> b' = b"
    by (cases b; cases b') auto
  show "nb_bytes memory N1 N2 h' b' =
    (if ok then (nb_bytes memory N1 N2 h)(b := queue_edit e (nb_bytes memory N1 N2 h b))
     else nb_bytes memory N1 N2 h) b'"
    using edits [OF assms [unfolded edit_host], of "nb_readSide b'" "nb_hostPluginPtr b'"] same
    by (auto simp: bytes_side)
qed

lemma run_bytes:
  "nb_run N2 ops h = (oks, h') \<Longrightarrow>
   nb_bytes memory N1 N2 h' = queue_run ops oks (nb_bytes memory N1 N2 h)"
proof (induction ops arbitrary: h h' oks)
  case Nil
  then show ?case by simp
next
  case (Cons op ops)
  obtain b e where op: "op = (b, e)" by (cases op)
  obtain ok h1 where e: "nb_edit N2 b e h = (ok, h1)" by (cases "nb_edit N2 b e h")
  obtain oks' h2 where r: "nb_run N2 ops h1 = (oks', h2)" by (cases "nb_run N2 ops h1")
  from Cons.prems have res: "oks = ok # oks'" "h' = h2" by (simp_all add: op e r)
  show ?case unfolding op res queue_run.simps Cons.IH [OF r] edit_bytes [OF e] by (rule refl)
qed

end

section \<open>A host that keeps the contract\<close>

text \<open>One connection, number 1, with at most 1024 bytes on each side.\<close>

record one_connection =
  oc_read :: bytes
  oc_write :: bytes

definition oc_bytes :: "bool \<Rightarrow> ptr \<Rightarrow> one_connection \<Rightarrow> bytes" where
  "oc_bytes s p h = (if p = 1 then take 1024 (if s then oc_read h else oc_write h) else [])"

definition oc_base :: "bool \<Rightarrow> nat" where
  "oc_base s = (if s then 4096 else 8192)"

definition oc_mem :: "one_connection \<Rightarrow> mem" where
  "oc_mem h a = (let s = unat a < 8192 in oc_bytes s 1 h ! (unat a - oc_base s))"

definition oc_slices :: "bool \<Rightarrow> ptr \<Rightarrow> one_connection \<Rightarrow> envoy_buffer list" where
  "oc_slices s p h =
     (if oc_bytes s p h = [] then []
      else [\<lparr>eb_ptr = of_nat (oc_base s), eb_length = of_nat (length (oc_bytes s p h))\<rparr>])"

definition oc_edit :: "bool \<Rightarrow> ptr \<Rightarrow> edit \<Rightarrow> one_connection \<Rightarrow> bool \<times> one_connection" where
  "oc_edit s p e h =
     (let q = queue_edit e (oc_bytes s p h)
      in if p \<noteq> 1 \<or> 1024 < length q then (False, h)
         else (True, if s then h\<lparr>oc_read := q\<rparr> else h\<lparr>oc_write := q\<rparr>))"

definition buffer_data :: "module_buffer \<Rightarrow> bytes option" where
  "buffer_data b = (if mb_nil b then None else Some (mb_bytes b))"

definition oc_N1 :: "one_connection host_network_1" where
  "oc_N1 = \<lparr>
     cb_network_set_socket_option_int = (\<lambda>p l n s v h. ((), h)),
     cb_network_set_socket_option_bytes = (\<lambda>p l n s v h. ((), h)),
     cb_network_get_socket_option_int = (\<lambda>p l n s h. ((False, None), h)),
     cb_network_get_socket_option_bytes = (\<lambda>p l n s h. ((False, None), h)),
     cb_network_get_socket_options_size = (\<lambda>p h. (0, h)),
     cb_network_get_socket_options = (\<lambda>p h. ([], h)),
     cb_network_filter_get_read_buffer_chunks_size = (\<lambda>p h. (of_nat (length (oc_slices True p h)), h)),
     cb_network_filter_get_read_buffer_size = (\<lambda>p h. (of_nat (length (oc_bytes True p h)), h)),
     cb_network_filter_get_read_buffer_chunks = (\<lambda>p h. ((oc_slices True p h \<noteq> [], oc_slices True p h), h)),
     cb_network_filter_get_write_buffer_chunks_size = (\<lambda>p h. (of_nat (length (oc_slices False p h)), h))\<rparr>"

definition oc_N2 :: "one_connection host_network_2" where
  "oc_N2 = \<lparr>
     cb_network_filter_get_write_buffer_size = (\<lambda>p h. (of_nat (length (oc_bytes False p h)), h)),
     cb_network_filter_get_write_buffer_chunks = (\<lambda>p h. ((oc_slices False p h \<noteq> [], oc_slices False p h), h)),
     cb_network_filter_drain_read_buffer = (\<lambda>p n. oc_edit True p (EDrain n)),
     cb_network_filter_drain_write_buffer = (\<lambda>p n. oc_edit False p (EDrain n)),
     cb_network_filter_prepend_read_buffer = (\<lambda>p d. oc_edit True p (EPrepend (buffer_data d))),
     cb_network_filter_append_read_buffer = (\<lambda>p d. oc_edit True p (EAppend (buffer_data d))),
     cb_network_filter_prepend_write_buffer = (\<lambda>p d. oc_edit False p (EPrepend (buffer_data d))),
     cb_network_filter_append_write_buffer = (\<lambda>p d. oc_edit False p (EAppend (buffer_data d))),
     cb_network_filter_write = (\<lambda>p d e h. ((), h)),
     cb_network_filter_inject_read_data = (\<lambda>p d e h. ((), h))\<rparr>"

lemma oc_length: "length (oc_bytes s p h) \<le> 1024"
  by (simp add: oc_bytes_def)

lemma oc_view:
  "oc_bytes s p h \<noteq> [] \<Longrightarrow>
   ToUnsafeString (oc_mem h) \<lparr>Ptr = of_nat (oc_base s), Len = of_nat (length (oc_bytes s p h))\<rparr> = oc_bytes s p h"
proof -
  assume nonempty: "oc_bytes s p h \<noteq> []"
  then have p: "p = 1" by (auto simp: oc_bytes_def split: if_splits)
  have n: "unat (of_nat (length (oc_bytes s p h)) :: u64) = length (oc_bytes s p h)"
    using oc_length [of s p h] by (intro unat_of_nat_u64) simp
  have a: "unat (of_nat (oc_base s) + of_nat i :: u64) = oc_base s + i" if "i < 1024" for i
    using that unat_of_nat_u64 [of "oc_base s + i"] by (simp add: oc_base_def)
  have "oc_mem h (of_nat (oc_base s) + of_nat i) = oc_bytes s p h ! i" if "i < length (oc_bytes s p h)" for i
    using that oc_length [of s p h] a [of i] by (simp add: oc_mem_def oc_base_def p Let_def split: if_splits)
  then have "read_mem (oc_mem h) (of_nat (oc_base s)) (length (oc_bytes s p h)) = oc_bytes s p h"
    by (auto simp: read_mem_def intro: nth_equalityI)
  moreover have "(of_nat (oc_base s) :: u64) \<noteq> 0" by (simp add: oc_base_def)
  moreover have "(of_nat (length (oc_bytes s p h)) :: u64) \<noteq> 0"
    using nonempty oc_length [of s p h] by (simp add: of_nat_u64_eq_0)
  ultimately show ?thesis by (simp add: ToUnsafeString_def n)
qed

lemma oc_side_bytes: "side_bytes oc_mem oc_slices s p h = oc_bytes s p h"
  by (simp add: side_bytes_def oc_slices_def envoyBufferToUnsafeEnvoyBuffer_def oc_view)

lemma oc_edit_bytes:
  "oc_edit s p e h = (ok, h') \<Longrightarrow>
   oc_bytes s' p' h' = (if ok \<and> s' = s \<and> p' = p then queue_edit e (oc_bytes s p h) else oc_bytes s' p' h)"
  by (auto simp: oc_edit_def oc_bytes_def Let_def split: if_splits)

lemma buffer_data_bytes: "buffer_data (bytesToModuleBuffer d) = d"
  by (simp add: buffer_data_def bytesToModuleBuffer_def split: option.splits)

lemma oc_host_edit: "host_edit oc_N2 s p e = oc_edit s p e"
  by (cases s; cases e) (simp_all add: oc_N2_def buffer_data_bytes)

lemma oc_contract: "network_host oc_N1 oc_N2 oc_mem oc_slices"
  by unfold_locales
    (simp_all add: oc_side_bytes oc_host_edit oc_edit_bytes, simp_all add: oc_N1_def oc_N2_def oc_slices_def)

interpretation one: network_host oc_N1 oc_N2 oc_mem oc_slices
  by (rule oc_contract)

section \<open>Properties\<close>

text \<open>C14: over a host that keeps the contract of the ABI comments, the two buffers of every connection are
  independent byte queues: after any sequence of \<open>Drain\<close>, \<open>Prepend\<close> and \<open>Append\<close> calls on any buffers,
  reading a buffer gives exactly what the calls on that buffer that reported success left in it, and
  \<open>GetSize\<close> is its length; no call on one side or connection shows on another.\<close>

theorem network_buffers_are_queues:
  assumes "network_host N1 N2 memory slices" and "nb_run N2 ops h = (oks, h')"
  shows "nb_bytes memory N1 N2 h' b = queue_run ops oks (nb_bytes memory N1 N2 h) b \<and>
     nb_GetSize N1 N2 b h' = (of_nat (length (nb_bytes memory N1 N2 h' b)), h')"
  using network_host.run_bytes [OF assms] network_host.GetSize_bytes [OF assms(1)] by simp

theorem network_buffers_are_queues_witness:
  "\<exists>h r w. r = \<lparr>nb_hostPluginPtr = 1, nb_readSide = True\<rparr> \<and> w = \<lparr>nb_hostPluginPtr = 1, nb_readSide = False\<rparr> \<and>
     nb_run oc_N2 [(r, EAppend (Some ''world'')), (w, EAppend (Some ''out'')),
       (r, EPrepend (Some ''hello '')), (r, EDrain 4)] \<lparr>oc_read = ''!'', oc_write = []\<rparr> =
       ([True, True, True, True], h) \<and>
     nb_bytes oc_mem oc_N1 oc_N2 h r = ''o !world'' \<and> nb_bytes oc_mem oc_N1 oc_N2 h w = ''out'' \<and>
     nb_GetSize oc_N1 oc_N2 r h = (8, h)"
proof -
  let ?r = "\<lparr>nb_hostPluginPtr = 1, nb_readSide = True\<rparr>" and ?w = "\<lparr>nb_hostPluginPtr = 1, nb_readSide = False\<rparr>"
  let ?ops = "[(?r, EAppend (Some ''world'')), (?w, EAppend (Some ''out'')),
     (?r, EPrepend (Some ''hello '')), (?r, EDrain 4)]"
  let ?h = "\<lparr>oc_read = ''!'', oc_write = []\<rparr>"
  obtain oks h where run: "nb_run oc_N2 ?ops ?h = (oks, h)" by (cases "nb_run oc_N2 ?ops ?h")
  then have oks: "oks = [True, True, True, True]"
    by (simp add: one.edit_host oc_host_edit oc_edit_def oc_bytes_def del: host_edit.simps)
  have start: "nb_bytes oc_mem oc_N1 oc_N2 ?h b = oc_bytes (nb_readSide b) (nb_hostPluginPtr b) ?h" for b
    by (simp add: one.bytes_side oc_side_bytes)
  note q = network_buffers_are_queues [OF oc_contract run]
  have "nb_bytes oc_mem oc_N1 oc_N2 h ?r = ''o !world''" "nb_bytes oc_mem oc_N1 oc_N2 h ?w = ''out''"
    using q [of ?r] q [of ?w] by (simp_all add: oks start oc_bytes_def)
  then show ?thesis using q [of ?r] run by (intro exI [of _ h] exI [of _ ?r] exI [of _ ?w]) (simp add: oks)
qed

end
