(* ===== verification/NetworkHooks.thy ===== *)
theory NetworkHooks
  imports NetworkHandle Registry
begin

text \<open>
  The exported network filter hooks of abi_impl/network.go over the state of the module. The author's
  code that a hook calls is a parameter: what it does to the state, which may contain calls of any
  handle it holds and any hook that Envoy runs meanwhile (inline or on another worker), and the status
  it returns. Lifecycle theorems quantify over it.
\<close>

section \<open>The state of the network side\<close>

record networkFilterConfigWrapper =
  nw_pluginFactory :: objref
  nw_configHandle :: dymNetworkConfigHandle

text \<open>What is called, with the views it is given.\<close>

datatype nupcall =
    NOnNewConnection objref
  | NOnRead objref dymNetworkBuffer bool
  | NOnWrite objref dymNetworkBuffer bool
  | NOnEvent objref u32
  | NOnDestroy objref
  | NOnHttpCalloutDone objref u64 u32 "(UnsafeEnvoyBuffer \<times> UnsafeEnvoyBuffer) list" "UnsafeEnvoyBuffer list"
  | NTask objref
  | NOnAboveWriteBufferHighWatermark objref
  | NOnBelowWriteBufferLowWatermark objref

datatype nfactory_call = NFactoryCreate objref ptr | NFactoryDestroy objref | NConfigTask objref

text \<open>
  \<open>nw_live\<close> and \<open>nw_liveConfigs\<close> are the module pointers Envoy may use: returned by a creation hook whose
  destruction hook has not returned yet. \<open>nw_calls\<close> records the calls of a filter's code, and
  \<open>nw_started\<close> the callouts a filter has started, with their callbacks.
\<close>

record 'h nworld =
  nw_filters :: "ptr \<rightharpoonup> dymNetworkFilterHandle"
  nw_plugins :: manager
  nw_configs :: "ptr \<rightharpoonup> networkFilterConfigWrapper"
  nw_configManager :: manager
  nw_live :: "ptr set"
  nw_liveConfigs :: "ptr set"
  nw_calls :: "ptr \<Rightarrow> nupcall list"
  nw_started :: "ptr \<Rightarrow> (u64 \<times> objref option) list"
  nw_factoryCalls :: "ptr \<Rightarrow> nfactory_call list"
  nw_host :: 'h

type_synonym 'h ncode = "'h nworld \<Rightarrow> u32 \<times> 'h nworld"

definition network_init :: "'h \<Rightarrow> 'h nworld" where
  "network_init h = \<lparr>nw_filters = Map.empty, nw_plugins = newManager, nw_configs = Map.empty,
     nw_configManager = newManager, nw_live = {}, nw_liveConfigs = {}, nw_calls = (\<lambda>_. []),
     nw_started = (\<lambda>_. []), nw_factoryCalls = (\<lambda>_. []), nw_host = h\<rparr>"

definition set_filter :: "'h nworld \<Rightarrow> ptr \<Rightarrow> dymNetworkFilterHandle \<Rightarrow> 'h nworld" where
  "set_filter w p f = w\<lparr>nw_filters := (nw_filters w)(p \<mapsto> f)\<rparr>"

definition set_nconfig :: "'h nworld \<Rightarrow> ptr \<Rightarrow> networkFilterConfigWrapper \<Rightarrow> 'h nworld" where
  "set_nconfig w c x = w\<lparr>nw_configs := (nw_configs w)(c \<mapsto> x)\<rparr>"

definition log_ncall :: "ptr \<Rightarrow> nupcall \<Rightarrow> 'h nworld \<Rightarrow> 'h nworld" where
  "log_ncall p u w = w\<lparr>nw_calls := (nw_calls w)(p := nw_calls w p @ [u])\<rparr>"

definition log_nfactory :: "ptr \<Rightarrow> nfactory_call \<Rightarrow> 'h nworld \<Rightarrow> 'h nworld" where
  "log_nfactory c u w = w\<lparr>nw_factoryCalls := (nw_factoryCalls w)(c := nw_factoryCalls w c @ [u])\<rparr>"

definition nil_dereference :: gostring where
  "nil_dereference = ''invalid memory address or nil pointer dereference''"

definition unwrap_filter :: "'h nworld \<Rightarrow> ptr \<Rightarrow> dymNetworkFilterHandle option go" where
  "unwrap_filter w p =
     (let q = mgr_unwrap (nw_plugins w) p
      in if q = 0 then Ret None
         else case nw_filters w q of None \<Rightarrow> Panic nil_dereference | Some f \<Rightarrow> Ret (Some f))"

definition NetworkContinue_value :: u32 where
  "NetworkContinue_value = of_nat (NetworkFilterStatus_value NetworkFilterStatusContinue)"

text \<open>
  The shape of every hook of a running filter: it finds the handle, changes it, and ends with at most
  one call of the author's code, whose result is the hook's; without a call the hook returns Continue.
\<close>

definition network_event ::
    "ptr \<Rightarrow> (dymNetworkFilterHandle \<Rightarrow> nupcall option \<times> dymNetworkFilterHandle) \<Rightarrow> 'h ncode \<Rightarrow> 'h nworld \<Rightarrow>
      (u32 \<times> 'h nworld) go" where
  "network_event p body code w =
     go_bind (unwrap_filter w p) (\<lambda>m.
       case m of None \<Rightarrow> Ret (NetworkContinue_value, w)
       | Some f \<Rightarrow>
           (case body f of
              (None, f') \<Rightarrow> Ret (NetworkContinue_value, set_filter w p f')
            | (Some u, f') \<Rightarrow> Ret (code (log_ncall p u (set_filter w p f')))))"

text \<open>The guard of six hooks: no filter, or a destroyed one, is not called.\<close>

definition if_running ::
    "(objref \<Rightarrow> nupcall) \<Rightarrow> dymNetworkFilterHandle \<Rightarrow> nupcall option \<times> dymNetworkFilterHandle" where
  "if_running call f =
     (case nf_plugin f of
        None \<Rightarrow> (None, f)
      | Some pl \<Rightarrow> if nf_filterDestroyed f then (None, f) else (Some (call pl), f))"

section \<open>The hooks of a running filter\<close>

definition network_new_connection :: "ptr \<Rightarrow> 'h ncode \<Rightarrow> 'h nworld \<Rightarrow> (u32 \<times> 'h nworld) go" where
  "network_new_connection p = network_event p (if_running NOnNewConnection)"

definition network_read :: "ptr \<Rightarrow> u64 \<Rightarrow> bool \<Rightarrow> 'h ncode \<Rightarrow> 'h nworld \<Rightarrow> (u32 \<times> 'h nworld) go" where
  "network_read p dataLength endStream =
     network_event p (\<lambda>f. if_running (\<lambda>pl. NOnRead pl (nf_readBuffer f) endStream) f)"

definition network_write :: "ptr \<Rightarrow> u64 \<Rightarrow> bool \<Rightarrow> 'h ncode \<Rightarrow> 'h nworld \<Rightarrow> (u32 \<times> 'h nworld) go" where
  "network_write p dataLength endStream =
     network_event p (\<lambda>f. if_running (\<lambda>pl. NOnWrite pl (nf_writeBuffer f) endStream) f)"

definition network_on_event :: "ptr \<Rightarrow> u32 \<Rightarrow> 'h ncode \<Rightarrow> 'h nworld \<Rightarrow> (u32 \<times> 'h nworld) go" where
  "network_on_event p event = network_event p (if_running (\<lambda>pl. NOnEvent pl event))"

definition network_http_callout_done ::
    "ptr \<Rightarrow> u64 \<Rightarrow> u32 \<Rightarrow> envoy_http_header list \<Rightarrow> envoy_buffer list \<Rightarrow> 'h ncode \<Rightarrow> 'h nworld \<Rightarrow>
      (u32 \<times> 'h nworld) go" where
  "network_http_callout_done p calloutID result headers chunks = network_event p (\<lambda>f.
     if nf_filterDestroyed f then (None, f)
     else (let resultHeaders = envoyHttpHeaderSliceToUnsafeHeaderSlice headers;
               resultChunks = envoyBufferSliceToUnsafeEnvoyBufferSlice chunks
           in case go_map_get (nf_calloutCallbacks f) calloutID of
                None \<Rightarrow> (None, f)
              | Some cb \<Rightarrow>
                  (Some (NOnHttpCalloutDone cb calloutID result resultHeaders resultChunks),
                   f\<lparr>nf_calloutCallbacks := go_map_delete (nf_calloutCallbacks f) calloutID\<rparr>)))"

definition network_scheduled :: "ptr \<Rightarrow> u64 \<Rightarrow> 'h ncode \<Rightarrow> 'h nworld \<Rightarrow> (u32 \<times> 'h nworld) go" where
  "network_scheduled p taskID = network_event p (\<lambda>f.
     case nf_scheduler f of
       None \<Rightarrow> (None, f)
     | Some s \<Rightarrow>
         if nf_filterDestroyed f then (None, f)
         else (let (task, s') = sched_onScheduled s taskID
               in (map_option NTask task, f\<lparr>nf_scheduler := Some s'\<rparr>)))"

definition network_above_watermark :: "ptr \<Rightarrow> 'h ncode \<Rightarrow> 'h nworld \<Rightarrow> (u32 \<times> 'h nworld) go" where
  "network_above_watermark p = network_event p (if_running NOnAboveWriteBufferHighWatermark)"

definition network_below_watermark :: "ptr \<Rightarrow> 'h ncode \<Rightarrow> 'h nworld \<Rightarrow> (u32 \<times> 'h nworld) go" where
  "network_below_watermark p = network_event p (if_running NOnBelowWriteBufferLowWatermark)"

section \<open>Creation and destruction\<close>

text \<open>
  \<open>created\<close> is what the factory's \<open>Create\<close> returns after its \<open>code\<close> ran with the new handle; \<open>alloc\<close> is
  the handle's address.
\<close>

definition network_filter_new ::
    "ptr \<Rightarrow> ptr \<Rightarrow> network_filter_envoy_ptr \<Rightarrow> ('h nworld \<Rightarrow> 'h nworld) \<Rightarrow> objref option \<Rightarrow> 'h nworld \<Rightarrow>
      (ptr \<times> 'h nworld) go" where
  "network_filter_new alloc configPtr host code created w =
     (let c = mgr_unwrap (nw_configManager w) configPtr
      in if c = 0 then Ret (0, w)
         else case nw_configs w c of
           None \<Rightarrow> Panic nil_dereference
         | Some cw \<Rightarrow>
             (let w1 = code (log_nfactory c (NFactoryCreate (nw_pluginFactory cw) alloc)
                          (set_filter w alloc (newDymNetworkFilterHandle host)))
              in case nw_filters w1 alloc of
                   None \<Rightarrow> Panic nil_dereference
                 | Some f \<Rightarrow>
                     (let w2 = set_filter w1 alloc (f\<lparr>nf_plugin := created\<rparr>)
                      in if created = None then Ret (0, w2)
                         else (let (filterPtr, m) = mgr_record (nw_plugins w2) alloc
                               in Ret (filterPtr, w2\<lparr>nw_plugins := m, nw_live := insert alloc (nw_live w2)\<rparr>)))))"

definition network_filter_destroy ::
    "ptr \<Rightarrow> ('h nworld \<Rightarrow> 'h nworld) \<Rightarrow> 'h nworld \<Rightarrow> 'h nworld go" where
  "network_filter_destroy p code w =
     go_bind (unwrap_filter w p) (\<lambda>m.
       case m of None \<Rightarrow> Ret w
       | Some f \<Rightarrow>
           (if nf_filterDestroyed f then Ret w
            else (let w1 = set_filter w p (f\<lparr>nf_filterDestroyed := True, nf_scheduler := None\<rparr>);
                      w2 = (case nf_plugin f of
                              None \<Rightarrow> w1
                            | Some pl \<Rightarrow> code (log_ncall p (NOnDestroy pl) w1))
                  in Ret (w2\<lparr>nw_plugins := mgr_remove (nw_plugins w2) p, nw_live := nw_live w2 - {p}\<rparr>))))"

definition LogLevelWarn_n :: u32 where
  "LogLevelWarn_n = of_nat (LogLevel_value LogLevelWarn)"

definition network_config_new ::
    "('h \<Rightarrow> mem) \<Rightarrow> 'h host_log \<Rightarrow> go_runtime \<Rightarrow>
      (dymNetworkConfigHandle \<times> 'h, objref, unit) factory_table \<Rightarrow> ptr \<Rightarrow>
      network_filter_config_envoy_ptr \<Rightarrow> envoy_buffer \<Rightarrow> envoy_buffer \<Rightarrow> 'h nworld \<Rightarrow> (ptr \<times> 'h nworld) go" where
  "network_config_new memory G rt tbl alloc hostConfigPtr name config w =
     go_bind (envoyBufferToStringUnsafe (memory (nw_host w)) name) (\<lambda>nameString.
     go_bind (envoyBufferToBytesUnsafe (memory (nw_host w)) config) (\<lambda>configBytes.
     (case NewNetworkFilterFactory tbl nameString configBytes
             (\<lparr>nc_hostConfigPtr = hostConfigPtr, nc_scheduler = None\<rparr>, nw_host w) of
        ((factory, err), configHandle, h) \<Rightarrow>
          (case err of
             Some e \<Rightarrow> Ret (0, w\<lparr>nw_host := nc_Log G rt configHandle LogLevelWarn_n
                 ''Failed to load network filter configuration for %q: %v'' [AnyString nameString, AnyError e] h\<rparr>)
           | None \<Rightarrow>
               (case factory of
                  None \<Rightarrow> Ret (0, w\<lparr>nw_host := nc_Log G rt configHandle LogLevelWarn_n
                      ''Failed to load network filter configuration for %q: network filter factory is nil''
                      [AnyString nameString] h\<rparr>)
                | Some fac \<Rightarrow>
                    (let (configPtr, m) = mgr_record (nw_configManager w) alloc
                     in Ret (configPtr, (set_nconfig w alloc
                          \<lparr>nw_pluginFactory = fac, nw_configHandle = configHandle\<rparr>)\<lparr>
                            nw_configManager := m, nw_liveConfigs := insert alloc (nw_liveConfigs w),
                            nw_host := h\<rparr>)))))))"

definition network_config_destroy ::
    "ptr \<Rightarrow> ('h nworld \<Rightarrow> 'h nworld) \<Rightarrow> 'h nworld \<Rightarrow> 'h nworld go" where
  "network_config_destroy configPtr code w =
     (let c = mgr_unwrap (nw_configManager w) configPtr
      in if c = 0 then Ret w
         else case nw_configs w c of
           None \<Rightarrow> Panic nil_dereference
         | Some cw \<Rightarrow>
             (let w1 = set_nconfig w c (cw\<lparr>nw_configHandle := (nw_configHandle cw)\<lparr>nc_scheduler := None\<rparr>\<rparr>);
                  w2 = code (log_nfactory c (NFactoryDestroy (nw_pluginFactory cw)) w1)
              in Ret (w2\<lparr>nw_configManager := mgr_remove (nw_configManager w2) configPtr,
                        nw_liveConfigs := nw_liveConfigs w2 - {c}\<rparr>)))"

definition network_config_scheduled ::
    "ptr \<Rightarrow> u64 \<Rightarrow> ('h nworld \<Rightarrow> 'h nworld) \<Rightarrow> 'h nworld \<Rightarrow> 'h nworld go" where
  "network_config_scheduled configPtr taskID code w =
     (let c = mgr_unwrap (nw_configManager w) configPtr
      in if c = 0 then Ret w
         else case nw_configs w c of
           None \<Rightarrow> Panic nil_dereference
         | Some cw \<Rightarrow>
             (case nc_scheduler (nw_configHandle cw) of
                None \<Rightarrow> Ret w
              | Some s \<Rightarrow>
                  (let (task, s') = sched_onScheduled s taskID;
                       w1 = set_nconfig w c (cw\<lparr>nw_configHandle := (nw_configHandle cw)\<lparr>nc_scheduler := Some s'\<rparr>\<rparr>)
                   in case task of
                        None \<Rightarrow> Ret w1
                      | Some t \<Rightarrow> Ret (code (log_nfactory c (NConfigTask t) w1)))))"

section \<open>What the author's code may do\<close>

text \<open>
  The calls of a handle method that change the handle; a method that only reaches Envoy is \<open>NToEnvoy\<close>.
\<close>

datatype 'h ncall =
    NToEnvoy "'h \<Rightarrow> 'h"
  | NGetScheduler
  | NSchedule "objref option"
  | NHttpCallout gostring "(gostring \<times> gostring) list" "bytes option" u64 "objref option"

record 'h nbinding =
  nbd_rt :: go_runtime
  nbd_memory :: "'h \<Rightarrow> mem"
  nbd_table :: "(dymNetworkConfigHandle \<times> 'h, objref, unit) factory_table"
  nbd_log :: "'h host_log"
  nbd_n5 :: "'h host_network_5"
  nbd_n8 :: "'h host_network_8"

definition ncall_run :: "'h nbinding \<Rightarrow> ptr \<Rightarrow> 'h ncall \<Rightarrow> 'h nworld \<Rightarrow> 'h nworld go" where
  "ncall_run b p c w =
     (case nw_filters w p of
        None \<Rightarrow> Panic nil_dereference
      | Some f \<Rightarrow>
          (case c of
             NToEnvoy g \<Rightarrow> Ret (w\<lparr>nw_host := g (nw_host w)\<rparr>)
           | NGetScheduler \<Rightarrow>
               (let (f', h) = nf_GetScheduler (nbd_n8 b) f (nw_host w) in Ret ((set_filter w p f')\<lparr>nw_host := h\<rparr>))
           | NSchedule task \<Rightarrow>
               (let (f', h) = nf_Schedule (nbd_n8 b) f task (nw_host w) in Ret ((set_filter w p f')\<lparr>nw_host := h\<rparr>))
           | NHttpCallout cluster headers body timeoutMs cb \<Rightarrow>
               (let ((result, i), f', h) =
                  nf_HttpCallout (nbd_n5 b) (nbd_rt b) f cluster headers body timeoutMs cb (nw_host w);
                    w' = (set_filter w p f')\<lparr>nw_host := h\<rparr>
                in Ret (if result \<noteq> CalloutInitSuccess then w'
                        else w'\<lparr>nw_started := (nw_started w)(p := nw_started w p @ [(i, cb)])\<rparr>))))"

text \<open>The hooks of a running filter, by the event.\<close>

datatype nevent =
    NewConnection | NRead u64 bool | NWrite u64 bool | NEvent u32
  | NCalloutDone u64 u32 "envoy_http_header list" "envoy_buffer list"
  | NScheduled u64 | NAbove | NBelow

fun network_hook :: "nevent \<Rightarrow> ptr \<Rightarrow> 'h ncode \<Rightarrow> 'h nworld \<Rightarrow> (u32 \<times> 'h nworld) go" where
  "network_hook NewConnection p = network_new_connection p"
| "network_hook (NRead n e) p = network_read p n e"
| "network_hook (NWrite n e) p = network_write p n e"
| "network_hook (NEvent e) p = network_on_event p e"
| "network_hook (NCalloutDone i r hs cs) p = network_http_callout_done p i r hs cs"
| "network_hook (NScheduled t) p = network_scheduled p t"
| "network_hook NAbove p = network_above_watermark p"
| "network_hook NBelow p = network_below_watermark p"

text \<open>
  \<open>does b w w'\<close>: what code and Envoy can do from \<open>w\<close>. Each hook runs to its end, and the code it calls
  may itself do anything of the kind, so hooks nest to any depth and interleave with the hooks of other
  workers at the calls. The code of a filter may use its handle at any time, also after its
  destruction. A new object has an identity no other object has.
\<close>

inductive does :: "'h nbinding \<Rightarrow> 'h nworld \<Rightarrow> 'h nworld \<Rightarrow> bool" for b where
  nothing: "does b w w"
| call: "does b w w1 \<Longrightarrow> ncall_run b p c w1 = Ret w2 \<Longrightarrow> does b w w2"
| event: "does b w w1 \<Longrightarrow> p \<in> nw_live w1 \<Longrightarrow> (\<forall>x. does b x (snd (code x))) \<Longrightarrow>
    network_hook ev p code w1 = Ret (r, w2) \<Longrightarrow> does b w w2"
| create: "does b w w1 \<Longrightarrow> c \<in> nw_liveConfigs w1 \<Longrightarrow> alloc \<noteq> 0 \<Longrightarrow> nw_filters w1 alloc = None \<Longrightarrow>
    (\<forall>x. does b x (create x)) \<Longrightarrow>
    network_filter_new alloc c host create created w1 = Ret (q, w2) \<Longrightarrow> does b w w2"
| destroy: "does b w w1 \<Longrightarrow> p \<in> nw_live w1 \<Longrightarrow> (\<forall>x. does b x (finish x)) \<Longrightarrow>
    network_filter_destroy p finish w1 = Ret w2 \<Longrightarrow> does b w w2"
| load: "does b w w1 \<Longrightarrow> alloc \<noteq> 0 \<Longrightarrow> nw_configs w1 alloc = None \<Longrightarrow>
    network_config_new (nbd_memory b) (nbd_log b) (nbd_rt b) (nbd_table b) alloc cp name config w1 = Ret (q, w2) \<Longrightarrow>
    does b w w2"
| unload: "does b w w1 \<Longrightarrow> c \<in> nw_liveConfigs w1 \<Longrightarrow> (\<forall>x. does b x (finish x)) \<Longrightarrow>
    network_config_destroy c finish w1 = Ret w2 \<Longrightarrow> does b w w2"
| config_task: "does b w w1 \<Longrightarrow> c \<in> nw_liveConfigs w1 \<Longrightarrow> (\<forall>x. does b x (finish x)) \<Longrightarrow>
    network_config_scheduled c taskID finish w1 = Ret w2 \<Longrightarrow> does b w w2"

definition network_reachable :: "'h nbinding \<Rightarrow> 'h \<Rightarrow> 'h nworld \<Rightarrow> bool" where
  "network_reachable b h w \<longleftrightarrow> does b (network_init h) w"

end
