(* ===== verification/NetworkLifecycle.thy ===== *)
theory NetworkLifecycle
  imports NetworkHooks Pins
begin

text \<open>
  What holds in every state a module with network filters can reach: the pointers Envoy may use are
  pinned, each filter's code is called in the documented order and never again after \<open>OnDestroy\<close>, and
  a callout's callback runs at most once for each time it was registered.
\<close>

section \<open>The calls of one filter\<close>

fun is_destroy :: "nupcall \<Rightarrow> bool" where
  "is_destroy (NOnDestroy pl) = True"
| "is_destroy k = False"

text \<open>The filter a call is addressed to; callbacks and tasks have an object of their own.\<close>

fun addressee :: "nupcall \<Rightarrow> objref option" where
  "addressee (NOnNewConnection pl) = Some pl"
| "addressee (NOnRead pl b e) = Some pl"
| "addressee (NOnWrite pl b e) = Some pl"
| "addressee (NOnEvent pl e) = Some pl"
| "addressee (NOnDestroy pl) = Some pl"
| "addressee (NOnAboveWriteBufferHighWatermark pl) = Some pl"
| "addressee (NOnBelowWriteBufferLowWatermark pl) = Some pl"
| "addressee k = None"

fun delivery :: "nupcall \<Rightarrow> (u64 \<times> objref) option" where
  "delivery (NOnHttpCalloutDone cb i r hs cs) = Some (i, cb)"
| "delivery k = None"

definition delivered :: "u64 \<Rightarrow> nupcall list \<Rightarrow> nat" where
  "delivered i ks = length (filter (\<lambda>k. map_option fst (delivery k) = Some i) ks)"

definition registered :: "u64 \<Rightarrow> (u64 \<times> objref option) list \<Rightarrow> nat" where
  "registered i st = length (filter (\<lambda>x. fst x = i) st)"

lemma delivered_snoc [simp]:
  "delivered i (ks @ [k]) = delivered i ks + (if map_option fst (delivery k) = Some i then 1 else 0)"
  by (simp add: delivered_def)

lemma registered_snoc [simp]:
  "registered i (st @ [x]) = registered i st + (if fst x = i then 1 else 0)"
  by (simp add: registered_def)

definition pending :: "dymNetworkFilterHandle \<Rightarrow> u64 \<Rightarrow> objref option" where
  "pending f i = go_map_get (nf_calloutCallbacks f) i"

text \<open>
  The calls so far: none is \<open>OnDestroy\<close> while the filter runs, the last and only the last one is when it
  was destroyed, and all are for this filter.
\<close>

definition order_ok :: "dymNetworkFilterHandle \<Rightarrow> nupcall list \<Rightarrow> bool" where
  "order_ok f ks \<longleftrightarrow>
     (if nf_filterDestroyed f
      then \<exists>pl pre. nf_plugin f = Some pl \<and> ks = pre @ [NOnDestroy pl] \<and> list_all (\<lambda>k. \<not> is_destroy k) pre
      else list_all (\<lambda>k. \<not> is_destroy k) ks) \<and>
     list_all (\<lambda>k. addressee k = None \<or> addressee k = nf_plugin f) ks"

definition callouts_ok :: "dymNetworkFilterHandle \<Rightarrow> nupcall list \<Rightarrow> (u64 \<times> objref option) list \<Rightarrow> bool" where
  "callouts_ok f ks st \<longleftrightarrow>
     (\<forall>i. delivered i ks + (if pending f i = None then 0 else 1) \<le> registered i st) \<and>
     (\<forall>i cb. pending f i = Some cb \<longrightarrow> (i, Some cb) \<in> set st) \<and>
     (\<forall>k\<in>set ks. \<forall>i cb. delivery k = Some (i, cb) \<longrightarrow> (i, Some cb) \<in> set st)"

section \<open>The bodies of the hooks\<close>

fun hook_body :: "nevent \<Rightarrow> dymNetworkFilterHandle \<Rightarrow> nupcall option \<times> dymNetworkFilterHandle" where
  "hook_body NewConnection f = if_running NOnNewConnection f"
| "hook_body (NRead n e) f = if_running (\<lambda>pl. NOnRead pl (nf_readBuffer f) e) f"
| "hook_body (NWrite n e) f = if_running (\<lambda>pl. NOnWrite pl (nf_writeBuffer f) e) f"
| "hook_body (NEvent e) f = if_running (\<lambda>pl. NOnEvent pl e) f"
| "hook_body (NCalloutDone i r hs cs) f =
     (if nf_filterDestroyed f then (None, f)
      else case pending f i of None \<Rightarrow> (None, f)
      | Some cb \<Rightarrow> (Some (NOnHttpCalloutDone cb i r (envoyHttpHeaderSliceToUnsafeHeaderSlice hs)
             (envoyBufferSliceToUnsafeEnvoyBufferSlice cs)),
           f\<lparr>nf_calloutCallbacks := go_map_delete (nf_calloutCallbacks f) i\<rparr>))"
| "hook_body (NScheduled t) f =
     (case nf_scheduler f of None \<Rightarrow> (None, f)
      | Some s \<Rightarrow> if nf_filterDestroyed f then (None, f)
          else (map_option NTask (fst (sched_onScheduled s t)), f\<lparr>nf_scheduler := Some (snd (sched_onScheduled s t))\<rparr>))"
| "hook_body NAbove f = if_running NOnAboveWriteBufferHighWatermark f"
| "hook_body NBelow f = if_running NOnBelowWriteBufferLowWatermark f"

lemma event_cong: "(\<And>f. B f = B' f) \<Longrightarrow> network_event p B = network_event p B'"
  by (rule arg_cong [of _ _ "network_event p"], rule ext)

lemma network_hook_body: "network_hook ev p = network_event p (hook_body ev)"
  by (cases ev; simp only: network_hook.simps network_new_connection_def network_read_def network_write_def
        network_on_event_def network_http_callout_done_def network_scheduled_def
        network_above_watermark_def network_below_watermark_def;
      rule event_cong; simp add: pending_def split_beta split: option.split)

text \<open>A destroyed filter is not called, and nothing changes.\<close>

lemma destroyed_body: "nf_filterDestroyed f \<Longrightarrow> hook_body ev f = (None, f)"
  by (cases ev) (simp_all add: if_running_def split: option.split)

lemma hook_body_frame:
  "hook_body ev f = (u, f') \<Longrightarrow> nf_plugin f' = nf_plugin f \<and> nf_filterDestroyed f' = nf_filterDestroyed f"
  by (cases ev) (auto simp: if_running_def split: option.splits if_splits)

lemma hook_body_order:
  "hook_body ev f = (Some k, f') \<Longrightarrow> \<not> nf_filterDestroyed f \<and> \<not> is_destroy k \<and>
     (addressee k = None \<or> addressee k = nf_plugin f)"
  by (cases ev) (auto simp: if_running_def split: option.splits if_splits)

lemma hook_body_pending:
  "hook_body ev f = (u, f') \<Longrightarrow>
   (case u of None \<Rightarrow> pending f' = pending f
    | Some k \<Rightarrow> (case delivery k of None \<Rightarrow> pending f' = pending f
        | Some (i, cb) \<Rightarrow> pending f i = Some cb \<and> pending f' = (pending f)(i := None)))"
  by (cases ev) (auto simp: if_running_def pending_def fun_eq_iff split: option.splits if_splits)

lemma order_ok_body:
  assumes "order_ok f ks" and "hook_body ev f = (Some k, f')"
  shows "order_ok f' (ks @ [k])"
  using assms(1) hook_body_frame [OF assms(2)] hook_body_order [OF assms(2)]
  by (simp add: order_ok_def)

lemma callouts_ok_body:
  assumes "callouts_ok f ks st" and "hook_body ev f = (Some k, f')"
  shows "callouts_ok f' (ks @ [k]) st"
proof (cases "delivery k")
  case None
  with assms(1) hook_body_pending [OF assms(2)] show ?thesis by (auto simp: callouts_ok_def)
next
  case (Some x)
  obtain i cb where x: "x = (i, cb)" by (cases x)
  have p: "pending f i = Some cb" "pending f' = (pending f)(i := None)"
    using hook_body_pending [OF assms(2)] by (simp_all add: Some x)
  have "delivered j (ks @ [k]) + (if pending f' j = None then 0 else 1) \<le> registered j st" for j
    using assms(1) [unfolded callouts_ok_def, THEN conjunct1, THEN spec, of j] p
    by (cases "j = i") (simp_all add: Some x)
  moreover have "(i, Some cb) \<in> set st" using assms(1) p(1) by (simp add: callouts_ok_def)
  moreover have "\<forall>j cb'. pending f' j = Some cb' \<longrightarrow> (j, Some cb') \<in> set st"
    using assms(1) p(2) by (simp add: callouts_ok_def)
  ultimately show ?thesis using assms(1) Some x unfolding callouts_ok_def by simp
qed

lemma same_body:
  assumes "hook_body ev f = (None, f')"
  shows "order_ok f' ks = order_ok f ks" and "callouts_ok f' ks st = callouts_ok f ks st"
  using hook_body_frame [OF assms] hook_body_pending [OF assms]
  by (simp_all add: order_ok_def callouts_ok_def)

section \<open>The invariant and what steps keep\<close>

definition filters_ok :: "'h nworld \<Rightarrow> bool" where
  "filters_ok w \<longleftrightarrow>
     (\<forall>p f. nw_filters w p = Some f \<longrightarrow>
        order_ok f (nw_calls w p) \<and> callouts_ok f (nw_calls w p) (nw_started w p)) \<and>
     (\<forall>p. nw_filters w p = None \<longrightarrow> nw_calls w p = [] \<and> nw_started w p = [])"

definition pointers_ok :: "'h nworld \<Rightarrow> bool" where
  "pointers_ok w \<longleftrightarrow>
     pins (nw_plugins w) (nw_live w) \<and> pins (nw_configManager w) (nw_liveConfigs w) \<and>
     0 \<notin> nw_live w \<and> 0 \<notin> nw_liveConfigs w \<and>
     (\<forall>c\<in>nw_liveConfigs w. nw_configs w c \<noteq> None) \<and>
     (\<forall>p\<in>nw_live w. \<exists>f. nw_filters w p = Some f \<and> nf_plugin f \<noteq> None)"

definition ninv :: "'h nworld \<Rightarrow> bool" where
  "ninv w \<longleftrightarrow> filters_ok w \<and> pointers_ok w"

text \<open>
  Between two states no object disappears, no filter is exchanged, a destroyed one stays destroyed, and
  one whose creation has not finished is not called.
\<close>

definition filter_kept ::
    "'h nworld \<Rightarrow> 'h nworld \<Rightarrow> ptr \<Rightarrow> dymNetworkFilterHandle \<Rightarrow> dymNetworkFilterHandle \<Rightarrow> bool" where
  "filter_kept w w' p f f' \<longleftrightarrow>
     nf_plugin f' = nf_plugin f \<and> (nf_filterDestroyed f \<longrightarrow> nf_filterDestroyed f') \<and>
     (p \<notin> nw_live w \<longrightarrow> p \<notin> nw_live w' \<and> nf_filterDestroyed f' = nf_filterDestroyed f \<and>
        nw_calls w' p = nw_calls w p)"

definition nframe :: "'h nworld \<Rightarrow> 'h nworld \<Rightarrow> bool" where
  "nframe w w' \<longleftrightarrow>
     (\<forall>c. nw_configs w c \<noteq> None \<longrightarrow> nw_configs w' c \<noteq> None) \<and>
     (\<forall>p f. nw_filters w p = Some f \<longrightarrow> (\<exists>f'. nw_filters w' p = Some f' \<and> filter_kept w w' p f f'))"

text \<open>A good transition: it keeps the invariant and the frame.\<close>

definition good :: "'h nworld \<Rightarrow> 'h nworld \<Rightarrow> bool" where
  "good w w' \<longleftrightarrow> (ninv w \<longrightarrow> ninv w' \<and> nframe w w')"

lemma nframe_refl [simp]: "nframe w w"
  by (auto simp: nframe_def filter_kept_def)

lemma nframe_trans: "nframe w w1 \<Longrightarrow> nframe w1 w2 \<Longrightarrow> nframe w w2"
  unfolding nframe_def filter_kept_def by (intro conjI allI impI) (blast | metis)+

lemma nframe_idle:
  "nframe w w' \<Longrightarrow> nw_filters w p = Some f \<Longrightarrow> p \<notin> nw_live w \<Longrightarrow>
   \<exists>f'. nw_filters w' p = Some f' \<and> nf_plugin f' = nf_plugin f \<and>
     nf_filterDestroyed f' = nf_filterDestroyed f \<and> p \<notin> nw_live w' \<and> nw_calls w' p = nw_calls w p"
  unfolding nframe_def filter_kept_def by blast

lemma nframe_drop:
  assumes "nframe w w'"
  shows "nframe w (w'\<lparr>nw_plugins := m, nw_live := nw_live w' - A\<rparr>)"
  unfolding nframe_def
proof (intro conjI allI impI)
  fix p f assume f: "nw_filters w p = Some f"
  with assms obtain f' where "nw_filters w' p = Some f'" "filter_kept w w' p f f'"
    unfolding nframe_def by blast
  then show "\<exists>f'. nw_filters (w'\<lparr>nw_plugins := m, nw_live := nw_live w' - A\<rparr>) p = Some f' \<and>
      filter_kept w (w'\<lparr>nw_plugins := m, nw_live := nw_live w' - A\<rparr>) p f f'"
    by (simp add: filter_kept_def)
qed (use assms in \<open>simp add: nframe_def\<close>)

lemma filters_okD:
  "ninv w \<Longrightarrow> nw_filters w p = Some f \<Longrightarrow>
   order_ok f (nw_calls w p) \<and> callouts_ok f (nw_calls w p) (nw_started w p)"
  by (simp add: ninv_def filters_ok_def)

lemma good_refl [simp]: "good w w"
  by (simp add: good_def)

lemma good_trans: "good w w1 \<Longrightarrow> good w1 w2 \<Longrightarrow> good w w2"
  using nframe_trans by (auto simp: good_def)

text \<open>Changing one handle, and logging a call on it.\<close>

lemma good_set_filter:
  assumes "nw_filters w p = Some f" and "nf_plugin f' = nf_plugin f"
    and "nf_filterDestroyed f' = nf_filterDestroyed f"
    and "callouts_ok f (nw_calls w p) (nw_started w p) \<Longrightarrow> callouts_ok f' (nw_calls w p) st"
  shows "good w (w\<lparr>nw_filters := (nw_filters w)(p \<mapsto> f'), nw_host := h, nw_started := (nw_started w)(p := st)\<rparr>)"
proof -
  have "order_ok f' ks = order_ok f ks" for ks using assms(2,3) by (simp add: order_ok_def)
  then show ?thesis
    using assms by (auto simp: good_def ninv_def filters_ok_def pointers_ok_def nframe_def filter_kept_def)
qed

lemma good_host: "good w (w\<lparr>nw_host := h\<rparr>)"
  by (simp add: good_def ninv_def filters_ok_def pointers_ok_def nframe_def filter_kept_def)

lemma good_factory: "good w (log_nfactory c k w)"
  by (simp add: good_def ninv_def filters_ok_def pointers_ok_def nframe_def filter_kept_def log_nfactory_def)

lemma good_call:
  assumes "nw_filters w p = Some f" and "p \<in> nw_live w" and "hook_body ev f = (Some k, f')"
  shows "good w (log_ncall p k (set_filter w p f'))"
  unfolding good_def
proof
  assume inv: "ninv w"
  let ?w = "log_ncall p k (set_filter w p f')"
  note frame = hook_body_frame [OF assms(3)]
  have "order_ok f' (nw_calls w p @ [k])" "callouts_ok f' (nw_calls w p @ [k]) (nw_started w p)"
    using inv assms(1) order_ok_body [OF _ assms(3)] callouts_ok_body [OF _ assms(3)]
    by (auto simp: ninv_def filters_ok_def)
  then have "filters_ok ?w"
    using inv by (auto simp: ninv_def filters_ok_def log_ncall_def set_filter_def)
  moreover have "pointers_ok ?w"
    using inv assms(1) frame by (auto simp: ninv_def pointers_ok_def log_ncall_def set_filter_def)
  moreover have "nframe w ?w"
    using assms(1,2) frame by (auto simp: nframe_def filter_kept_def log_ncall_def set_filter_def)
  ultimately show "ninv ?w \<and> nframe w ?w" by (simp add: ninv_def)
qed

section \<open>Handle calls\<close>

lemma callout_registers:
  assumes "callouts_ok f ks st"
  shows "callouts_ok (f\<lparr>nf_calloutCallbacks := go_map_put (nf_calloutCallbacks f) i cb\<rparr>) ks (st @ [(i, cb)])"
    (is "callouts_ok ?f ks ?st")
proof -
  have pend: "pending ?f j = (if j = i then cb else pending f j)" for j
    by (simp add: pending_def)
  have "delivered j ks + (if pending ?f j = None then 0 else 1) \<le> registered j ?st" for j
    using assms [unfolded callouts_ok_def, THEN conjunct1, THEN spec, of j]
    by (cases "j = i") (auto simp: pend split: if_splits)
  then show ?thesis using assms unfolding callouts_ok_def by (simp add: pend)
qed

lemma GetScheduler_field: "\<exists>s. fst (nf_GetScheduler N f h) = f\<lparr>nf_scheduler := s\<rparr>"
proof (cases "nf_scheduler f")
  case None
  then show ?thesis by (auto simp: nf_GetScheduler_def split: prod.split)
next
  case (Some s)
  then have "fst (nf_GetScheduler N f h) = f\<lparr>nf_scheduler := nf_scheduler f\<rparr>"
    by (simp add: nf_GetScheduler_def)
  then show ?thesis by blast
qed

lemma Schedule_field: "\<exists>s. fst (nf_Schedule N f t h) = f\<lparr>nf_scheduler := s\<rparr>"
proof -
  obtain g h1 where g: "nf_GetScheduler N f h = (g, h1)" by (cases "nf_GetScheduler N f h")
  with GetScheduler_field [of N f h] obtain s where "g = f\<lparr>nf_scheduler := s\<rparr>" by auto
  then show ?thesis by (auto simp: nf_Schedule_def g split: option.split prod.split)
qed

lemma good_scheduler:
  "nw_filters w p = Some f \<Longrightarrow> g = f\<lparr>nf_scheduler := s\<rparr> \<Longrightarrow> good w ((set_filter w p g)\<lparr>nw_host := h\<rparr>)"
  using good_set_filter [of w p f g "nw_started w p" h]
  by (simp add: set_filter_def callouts_ok_def pending_def)

lemma good_ncall:
  assumes "ncall_run b p c w = Ret w'"
  shows "good w w'"
proof -
  obtain f where f: "nw_filters w p = Some f"
    using assms by (auto simp: ncall_run_def split: option.splits)
  show ?thesis
  proof (cases c)
    case (NToEnvoy g)
    with assms f show ?thesis by (auto simp: ncall_run_def good_host)
  next
    case NGetScheduler
    from GetScheduler_field [of "nbd_n8 b" f "nw_host w"] obtain s where
      "fst (nf_GetScheduler (nbd_n8 b) f (nw_host w)) = f\<lparr>nf_scheduler := s\<rparr>" ..
    with assms f NGetScheduler good_scheduler [OF f] show ?thesis
      by (auto simp: ncall_run_def split_beta)
  next
    case (NSchedule task)
    from Schedule_field [of "nbd_n8 b" f task "nw_host w"] obtain s where
      "fst (nf_Schedule (nbd_n8 b) f task (nw_host w)) = f\<lparr>nf_scheduler := s\<rparr>" ..
    with assms f NSchedule good_scheduler [OF f] show ?thesis
      by (auto simp: ncall_run_def split_beta)
  next
    case (NHttpCallout cluster headers body timeoutMs cb)
    obtain result i f' h where r: "nf_HttpCallout (nbd_n5 b) (nbd_rt b) f cluster headers body timeoutMs cb
        (nw_host w) = ((result, i), f', h)"
      by (metis prod.exhaust)
    show ?thesis
    proof (cases "result = CalloutInitSuccess")
      case True
      with r have "f' = f\<lparr>nf_calloutCallbacks := go_map_put (nf_calloutCallbacks f) i cb\<rparr>"
        by (auto simp: nf_HttpCallout_def Let_def split: prod.splits if_splits)
      with assms f NHttpCallout r True show ?thesis
        using good_set_filter [OF f, of f' "nw_started w p @ [(i, cb)]" h] callout_registers
        by (simp add: ncall_run_def set_filter_def)
    next
      case False
      with r have "f' = f"
        by (auto simp: nf_HttpCallout_def Let_def split: prod.splits if_splits)
      with assms f NHttpCallout r False show ?thesis
        using good_set_filter [OF f, of f "nw_started w p" h]
        by (auto simp: ncall_run_def set_filter_def)
    qed
  qed
qed

section \<open>Hooks\<close>

text \<open>What \<open>network_event\<close> does for a pointer Envoy may use: nothing, a change of the handle, or a call.\<close>

lemma network_event_cases:
  assumes "ninv w" and "p \<in> nw_live w" and "nw_filters w p = Some f" and "hook_body ev f = (u, f')"
  shows "network_hook ev p code w =
    Ret (case u of None \<Rightarrow> (NetworkContinue_value, set_filter w p f')
         | Some k \<Rightarrow> code (log_ncall p k (set_filter w p f')))"
proof -
  have "p \<noteq> 0" using assms(1,2) by (auto simp: ninv_def pointers_ok_def)
  then show ?thesis
    using assms(3,4) by (simp add: network_hook_body network_event_def unwrap_filter_def mgr_unwrap_def
        split: option.split)
qed

lemma live_filter:
  assumes "ninv w" and "p \<in> nw_live w"
  shows "\<exists>f pl. nw_filters w p = Some f \<and> nf_plugin f = Some pl \<and> p \<noteq> 0"
  using assms by (auto simp: ninv_def pointers_ok_def)

lemma good_hook:
  assumes "p \<in> nw_live w" and "\<And>x. good x (snd (code x))" and "network_hook ev p code w = Ret (r, w')"
  shows "good w w'"
  unfolding good_def
proof
  assume inv: "ninv w"
  obtain f where f: "nw_filters w p = Some f" using live_filter [OF inv assms(1)] by blast
  obtain u f' where body: "hook_body ev f = (u, f')" by (cases "hook_body ev f")
  note run = network_event_cases [OF inv assms(1) f body, of code]
  have "good w w'"
  proof (cases u)
    case None
    with run assms(3) have w': "w' = set_filter w p f'" by simp
    from body None have none: "hook_body ev f = (None, f')" by simp
    show ?thesis
      using good_set_filter [OF f, of f' "nw_started w p" "nw_host w"] hook_body_frame [OF none] same_body [OF none]
      by (simp add: w' set_filter_def)
  next
    case (Some k)
    with run assms(3) have "(r, w') = code (log_ncall p k (set_filter w p f'))" by simp
    then have "w' = snd (code (log_ncall p k (set_filter w p f')))" by (metis snd_conv)
    moreover have "good w (log_ncall p k (set_filter w p f'))"
      using good_call [OF f assms(1), of ev k f'] body Some by simp
    ultimately show ?thesis using good_trans assms(2) by blast
  qed
  with inv show "ninv w' \<and> nframe w w'" by (simp add: good_def)
qed

lemma good_destroy:
  assumes "p \<in> nw_live w" and "\<And>x. good x (code x)" and "network_filter_destroy p code w = Ret w'"
  shows "good w w'"
  unfolding good_def
proof
  assume inv: "ninv w"
  obtain f pl where f: "nw_filters w p = Some f" "nf_plugin f = Some pl" "p \<noteq> 0"
    using live_filter [OF inv assms(1)] by blast
  show "ninv w' \<and> nframe w w'"
  proof (cases "nf_filterDestroyed f")
    case True
    with assms(3) f inv show ?thesis
      by (simp add: network_filter_destroy_def unwrap_filter_def mgr_unwrap_def)
  next
    case False
    let ?f = "f\<lparr>nf_filterDestroyed := True, nf_scheduler := None\<rparr>"
    let ?w1 = "log_ncall p (NOnDestroy pl) (set_filter w p ?f)"
    let ?w2 = "code ?w1"
    have w': "w' = ?w2\<lparr>nw_plugins := mgr_remove (nw_plugins ?w2) p, nw_live := nw_live ?w2 - {p}\<rparr>"
      using assms(3) f False by (simp add: network_filter_destroy_def unwrap_filter_def mgr_unwrap_def Let_def)
    have old: "order_ok f (nw_calls w p)" "callouts_ok f (nw_calls w p) (nw_started w p)"
      using filters_okD [OF inv f(1)] by simp_all
    have "order_ok ?f (nw_calls w p @ [NOnDestroy pl])"
        "callouts_ok ?f (nw_calls w p @ [NOnDestroy pl]) (nw_started w p)"
      using old f False by (simp_all add: order_ok_def callouts_ok_def pending_def)
    then have 1: "ninv ?w1" "nframe w ?w1"
      using inv f assms(1)
      by (auto simp: ninv_def filters_ok_def pointers_ok_def log_ncall_def set_filter_def nframe_def filter_kept_def)
    with assms(2) [of ?w1] have 2: "ninv ?w2" "nframe w ?w2"
      using nframe_trans by (auto simp: good_def)
    have "ninv w'"
      using 2(1) unfolding w' by (auto simp: ninv_def filters_ok_def pointers_ok_def pins_remove)
    moreover have "nframe w w'"
      unfolding w' by (rule nframe_drop [OF 2(2)])
    ultimately show ?thesis by simp
  qed
qed

lemma ninv_adopt:
  assumes "ninv w" and "nw_filters w p = Some f" and "nf_plugin f = None" and "\<not> nf_filterDestroyed f"
    and "p \<notin> nw_live w" and "nw_calls w p = []"
  shows "ninv (set_filter w p (f\<lparr>nf_plugin := created\<rparr>))"
proof -
  have "callouts_ok (f\<lparr>nf_plugin := created\<rparr>) [] (nw_started w p)"
    using filters_okD [OF assms(1,2)] assms(6) by (simp add: callouts_ok_def pending_def)
  moreover have "order_ok (f\<lparr>nf_plugin := created\<rparr>) []" using assms(4) by (simp add: order_ok_def)
  ultimately have "filters_ok (set_filter w p (f\<lparr>nf_plugin := created\<rparr>))"
    using assms by (simp add: ninv_def filters_ok_def set_filter_def)
  moreover have "pointers_ok (set_filter w p (f\<lparr>nf_plugin := created\<rparr>))"
    using assms by (auto simp: ninv_def pointers_ok_def set_filter_def)
  ultimately show ?thesis by (simp add: ninv_def)
qed

lemma nframe_new:
  "nframe w w' \<Longrightarrow> nw_filters w p = None \<Longrightarrow> nframe w (set_filter w' p f)"
  unfolding nframe_def filter_kept_def set_filter_def by simp

lemma nframe_publish:
  assumes "nframe w w'" and "nw_filters w a = None"
  shows "nframe w (w'\<lparr>nw_plugins := m, nw_live := insert a (nw_live w')\<rparr>)"
  unfolding nframe_def
proof (intro conjI allI impI)
  fix p f assume f: "nw_filters w p = Some f"
  with assms(1) obtain f' where "nw_filters w' p = Some f'" "filter_kept w w' p f f'"
    unfolding nframe_def by blast
  moreover have "p \<noteq> a" using f assms(2) by auto
  ultimately show "\<exists>f'. nw_filters (w'\<lparr>nw_plugins := m, nw_live := insert a (nw_live w')\<rparr>) p = Some f' \<and>
      filter_kept w (w'\<lparr>nw_plugins := m, nw_live := insert a (nw_live w')\<rparr>) p f f'"
    by (simp add: filter_kept_def)
qed (use assms in \<open>simp add: nframe_def\<close>)

lemma ninv_publish:
  assumes "ninv w" and "a \<noteq> 0" and "nw_filters w a = Some f" and "nf_plugin f \<noteq> None"
  shows "ninv (w\<lparr>nw_plugins := snd (mgr_record (nw_plugins w) a), nw_live := insert a (nw_live w)\<rparr>)"
  using assms by (auto simp: ninv_def filters_ok_def pointers_ok_def pins_record)

lemma good_create:
  assumes "alloc \<noteq> 0" and "nw_filters w alloc = None" and "\<And>x. good x (code x)"
    and "network_filter_new alloc c host code created w = Ret (q, w')"
  shows "good w w'"
  unfolding good_def
proof
  assume inv: "ninv w"
  show "ninv w' \<and> nframe w w'"
  proof (cases "c = 0")
    case True
    with assms(4) inv show ?thesis by (simp add: network_filter_new_def mgr_unwrap_def)
  next
    case False
    then obtain cw where cw: "nw_configs w c = Some cw"
      using assms(4) by (auto simp: network_filter_new_def mgr_unwrap_def split: option.splits)
    let ?f = "newDymNetworkFilterHandle host"
    let ?w1 = "log_nfactory c (NFactoryCreate (nw_pluginFactory cw) alloc) (set_filter w alloc ?f)"
    let ?w2 = "code ?w1"
    have fresh: "alloc \<notin> nw_live w" "nw_calls w alloc = []" "nw_started w alloc = []"
      using inv assms(2) by (auto simp: ninv_def filters_ok_def pointers_ok_def)
    have ok: "order_ok ?f []" "callouts_ok ?f [] []"
      by (simp_all add: newDymNetworkFilterHandle_def order_ok_def callouts_ok_def pending_def
          go_map_get_def delivered_def)
    have 1: "ninv ?w1" "nframe w ?w1"
      using inv assms(2) fresh ok
      by (auto simp: ninv_def filters_ok_def pointers_ok_def set_filter_def log_nfactory_def nframe_def
          filter_kept_def)
    with assms(3) [of ?w1] have 2: "ninv ?w2" "nframe w ?w2" "nframe ?w1 ?w2"
      using nframe_trans by (auto simp: good_def)
    have "nw_filters ?w1 alloc = Some ?f" "alloc \<notin> nw_live ?w1" "nw_calls ?w1 alloc = []"
      using fresh by (simp_all add: set_filter_def log_nfactory_def)
    from nframe_idle [OF 2(3) this(1,2)] this(3) obtain f where f: "nw_filters ?w2 alloc = Some f"
        "nf_plugin f = None" "\<not> nf_filterDestroyed f" "alloc \<notin> nw_live ?w2" "nw_calls ?w2 alloc = []"
      by (auto simp: newDymNetworkFilterHandle_def)
    let ?w3 = "set_filter ?w2 alloc (f\<lparr>nf_plugin := created\<rparr>)"
    have 3: "ninv ?w3" "nframe w ?w3"
      using ninv_adopt [OF 2(1) f] nframe_new [OF 2(2) assms(2)] by simp_all
    have w': "w' = (if created = None then ?w3
        else ?w3\<lparr>nw_plugins := snd (mgr_record (nw_plugins ?w3) alloc), nw_live := insert alloc (nw_live ?w3)\<rparr>)"
      using assms(4) f(1) cw False
      by (auto simp: network_filter_new_def mgr_unwrap_def Let_def mgr_record_iff split: if_splits prod.splits)
    show ?thesis
    proof (cases "created = None")
      case True
      with 3 show ?thesis by (simp add: w')
    next
      case False
      then have w'': "w' = ?w3\<lparr>nw_plugins := snd (mgr_record (nw_plugins ?w3) alloc),
          nw_live := insert alloc (nw_live ?w3)\<rparr>"
        by (simp only: w' if_False)
      have "nw_filters ?w3 alloc = Some (f\<lparr>nf_plugin := created\<rparr>)" by (simp add: set_filter_def)
      then have "ninv w'"
        unfolding w'' by (rule ninv_publish [OF 3(1) assms(1)]) (simp add: False)
      moreover have "nframe w w'"
        unfolding w'' by (rule nframe_publish [OF 3(2) assms(2)])
      ultimately show ?thesis by simp
    qed
  qed
qed

section \<open>Configurations\<close>

lemma good_config:
  assumes "nw_configs w c \<noteq> None"
  shows "good w (set_nconfig w c x)"
  by (auto simp: good_def ninv_def filters_ok_def pointers_ok_def nframe_def filter_kept_def set_nconfig_def)

lemma good_load:
  assumes "alloc \<noteq> 0"
    and "network_config_new memory G rt tbl alloc cp name config w = Ret (q, w')"
  shows "good w w'"
proof -
  obtain n b where "envoyBufferToStringUnsafe (memory (nw_host w)) name = Ret n"
      "envoyBufferToBytesUnsafe (memory (nw_host w)) config = Ret b"
    using assms(2) by (auto simp: network_config_new_def go_bind_eq_Ret)
  moreover obtain factory err handle h where
      "NewNetworkFilterFactory tbl n b (\<lparr>nc_hostConfigPtr = cp, nc_scheduler = None\<rparr>, nw_host w) =
        ((factory, err), handle, h)"
    by (cases "NewNetworkFilterFactory tbl n b (\<lparr>nc_hostConfigPtr = cp, nc_scheduler = None\<rparr>, nw_host w)") auto
  moreover obtain m where m: "mgr_record (nw_configManager w) alloc = (alloc, m)"
    by (simp add: mgr_record_iff)
  moreover have "pins (nw_configManager w) A \<Longrightarrow> pins m (insert alloc A)" for A
    using pins_recorded m by blast
  ultimately show ?thesis
    using assms
    by (cases err; cases factory)
      (auto simp: network_config_new_def good_def ninv_def filters_ok_def pointers_ok_def nframe_def
        filter_kept_def set_nconfig_def)
qed

lemma good_unload:
  assumes "\<And>x. good x (code x)" and "network_config_destroy c code w = Ret w'"
  shows "good w w'"
proof (cases "c = 0 \<or> nw_configs w c = None")
  case True
  with assms(2) show ?thesis by (auto simp: network_config_destroy_def mgr_unwrap_def split: if_splits)
next
  case False
  then obtain cw where cw: "nw_configs w c = Some cw" "c \<noteq> 0" by auto
  let ?w1 = "set_nconfig w c (cw\<lparr>nw_configHandle := (nw_configHandle cw)\<lparr>nc_scheduler := None\<rparr>\<rparr>)"
  let ?w2 = "code (log_nfactory c (NFactoryDestroy (nw_pluginFactory cw)) ?w1)"
  have "good w ?w2"
    using good_trans [OF good_trans [OF good_config good_factory] assms(1)] cw(1) by blast
  moreover have "w' = ?w2\<lparr>nw_configManager := mgr_remove (nw_configManager ?w2) c,
      nw_liveConfigs := nw_liveConfigs ?w2 - {c}\<rparr>"
    using assms(2) cw by (simp add: network_config_destroy_def mgr_unwrap_def Let_def)
  ultimately show ?thesis
    by (auto simp: good_def ninv_def filters_ok_def pointers_ok_def nframe_def filter_kept_def pins_remove)
qed

lemma good_config_task:
  assumes "\<And>x. good x (code x)" and "network_config_scheduled c t code w = Ret w'"
  shows "good w w'"
proof (cases "c = 0 \<or> nw_configs w c = None")
  case True
  with assms(2) show ?thesis by (auto simp: network_config_scheduled_def mgr_unwrap_def split: if_splits)
next
  case False
  then obtain cw where cw: "nw_configs w c = Some cw" "c \<noteq> 0" by auto
  then have g: "good w (set_nconfig w c x)" for x by (simp add: good_config)
  have "good w (code (log_nfactory c k (set_nconfig w c x)))" for k x
    using good_trans [OF good_trans [OF g good_factory] assms(1)] by blast
  with g show ?thesis
    using assms(2) cw by (auto simp: network_config_scheduled_def mgr_unwrap_def Let_def split: option.splits prod.splits)
qed

section \<open>All of it\<close>

lemma does_good: "does b w w' \<Longrightarrow> good w w'"
proof (induction rule: does.induct)
  case (nothing w)
  show ?case by simp
next
  case (call w w1 p c w2)
  show ?case using good_trans [OF call.IH good_ncall [OF call.hyps(2)]] .
next
  case (event w w1 p code ev r w2)
  have "\<And>x. good x (snd (code x))" using event.IH(2) by blast
  from good_trans [OF event.IH(1) good_hook [OF event.hyps(2) this event.hyps(3)]] show ?case .
next
  case (create w w1 c alloc create host created q w2)
  have "\<And>x. good x (create x)" using create.IH(2) by blast
  from good_trans [OF create.IH(1) good_create [OF create.hyps(3,4) this create.hyps(5)]] show ?case .
next
  case (destroy w w1 p finish w2)
  have "\<And>x. good x (finish x)" using destroy.IH(2) by blast
  from good_trans [OF destroy.IH(1) good_destroy [OF destroy.hyps(2) this destroy.hyps(3)]] show ?case .
next
  case (load w w1 alloc cp name config q w2)
  show ?case using good_trans [OF load.IH good_load [OF load.hyps(2,4)]] .
next
  case (unload w w1 c finish w2)
  have "\<And>x. good x (finish x)" using unload.IH(2) by blast
  from good_trans [OF unload.IH(1) good_unload [OF this unload.hyps(3)]] show ?case .
next
  case (config_task w w1 c finish taskID w2)
  have "\<And>x. good x (finish x)" using config_task.IH(2) by blast
  from good_trans [OF config_task.IH(1) good_config_task [OF this config_task.hyps(3)]] show ?case .
qed

lemma network_reachable_inv: "network_reachable b h w \<Longrightarrow> ninv w"
proof -
  assume "network_reachable b h w"
  moreover have "ninv (network_init h)"
    by (simp add: ninv_def filters_ok_def pointers_ok_def network_init_def pins_new)
  ultimately show ?thesis using does_good by (auto simp: network_reachable_def good_def)
qed

section \<open>A run\<close>

text \<open>
  A configuration at address 16, a filter at 32 whose \<open>Create\<close> starts a callout, the callout's result,
  and the end of the filter.
\<close>

definition calling :: "'h nbinding \<Rightarrow> ptr \<Rightarrow> 'h ncall \<Rightarrow> 'h nworld \<Rightarrow> 'h nworld" where
  "calling b p c x = (case ncall_run b p c x of Panic e \<Rightarrow> x | Ret y \<Rightarrow> y)"

lemma does_calling: "does b x (calling b p c x)"
  by (cases "ncall_run b p c x") (auto simp: calling_def intro: does.nothing does.call [OF does.nothing])

definition tcp_binding :: "unit nbinding \<Rightarrow> unit nbinding" where
  "tcp_binding b = b\<lparr>nbd_memory := (\<lambda>_ a. CHR ''t''),
     nbd_table := [''tt'' \<mapsto> Some (factoryFuncAdapter (\<lambda>_ s. ((Some 3, None), s)))],
     nbd_n5 := (nbd_n5 b)\<lparr>cb_network_filter_http_callout := (\<lambda>p c hs bd t h. ((CVal 0, Some 7), h))\<rparr>\<rparr>"

definition tcp_callout :: "unit ncall" where
  "tcp_callout = NHttpCallout ''auth'' [] None 100 (Some 9)"

definition tcp_loaded :: "unit nworld" where
  "tcp_loaded = (network_init ())\<lparr>
     nw_configs := [16 \<mapsto> \<lparr>nw_pluginFactory = 3,
       nw_configHandle = \<lparr>nc_hostConfigPtr = 1, nc_scheduler = None\<rparr>\<rparr>],
     nw_configManager := snd (mgr_record newManager 16), nw_liveConfigs := {16}\<rparr>"

definition tcp_filter :: dymNetworkFilterHandle where
  "tcp_filter = (newDymNetworkFilterHandle 2)\<lparr>nf_plugin := Some 5,
     nf_calloutCallbacks := go_map_put None 7 (Some 9)\<rparr>"

definition tcp_running :: "unit nworld" where
  "tcp_running = tcp_loaded\<lparr>
     nw_filters := [32 \<mapsto> tcp_filter], nw_plugins := snd (mgr_record newManager 32), nw_live := {32},
     nw_started := (\<lambda>_. [])(32 := [(7, Some 9)]),
     nw_factoryCalls := (\<lambda>_. [])(16 := [NFactoryCreate 3 32])\<rparr>"

lemma tcp_load:
  "network_config_new (nbd_memory (tcp_binding b)) G rt (nbd_table (tcp_binding b)) 16 1
     \<lparr>eb_ptr = 8, eb_length = 2\<rparr> null_envoy_buffer (network_init ()) = Ret (16, tcp_loaded)"
  by (simp add: network_config_new_def envoyBufferToStringUnsafe_def envoyBufferToBytesUnsafe_def
      null_envoy_buffer_def tcp_binding_def read_mem_def upt_rec NewNetworkFilterFactory_def
      GetNetworkFilterConfigFactory_def factoryFuncAdapter_def mgr_record_def Let_def set_nconfig_def
      tcp_loaded_def network_init_def)

lemma success_code: "CalloutInitSuccess = 0"
  by (simp add: CalloutInitSuccess_def HttpCalloutInitResult_value_def HttpCalloutInitResult_iota_def)

lemma tcp_create:
  "network_filter_new 32 16 2 (calling (tcp_binding b) 32 tcp_callout) (Some 5) tcp_loaded = Ret (32, tcp_running)"
  by (simp add: network_filter_new_def mgr_unwrap_def tcp_loaded_def network_init_def calling_def
      ncall_run_def tcp_callout_def nf_HttpCallout_def tcp_binding_def set_filter_def log_nfactory_def
      newDymNetworkFilterHandle_def success_code tcp_running_def tcp_filter_def Let_def split_beta)

lemma tcp_running_fields:
  "nw_filters tcp_running 32 = Some tcp_filter" "nw_live tcp_running = {32}"
  "nw_liveConfigs tcp_running = {16}" "nw_calls tcp_running 32 = []" "nw_started tcp_running 32 = [(7, Some 9)]"
  "pending tcp_filter 7 = Some 9" "nf_plugin tcp_filter = Some 5" "\<not> nf_filterDestroyed tcp_filter"
  by (simp_all add: tcp_running_def tcp_loaded_def network_init_def tcp_filter_def
      newDymNetworkFilterHandle_def pending_def)

lemma tcp_reachable: "network_reachable (tcp_binding b) () tcp_running"
proof -
  have "does (tcp_binding b) (network_init ()) tcp_loaded"
    by (rule does.load [OF does.nothing _ _ tcp_load]) (simp_all add: network_init_def)
  then have "does (tcp_binding b) (network_init ()) tcp_running"
    by (rule does.create [OF _ _ _ _ _ tcp_create [of b]])
      (simp_all add: tcp_loaded_def network_init_def does_calling)
  then show ?thesis by (simp add: network_reachable_def)
qed

section \<open>Properties\<close>

text \<open>C9: a network filter is called in the documented order over every nesting and interleaving of
  hooks: the pointers Envoy may use are exactly those that are pinned; every call made for a filter is
  addressed to that filter; \<open>OnDestroy\<close> is called once, when it is destroyed, and is the last call of any
  kind, so no data, event, callout result, task or watermark reaches it afterwards, not even from within
  \<open>OnDestroy\<close>.\<close>

theorem network_filter_called_in_order:
  assumes "network_reachable b h w" and "nw_filters w p = Some f"
  shows "(p \<in> nw_live w \<longleftrightarrow> mgr_search (nw_plugins w) p = Some p) \<and>
     list_all (\<lambda>k. addressee k = None \<or> addressee k = nf_plugin f) (nw_calls w p) \<and>
     (if nf_filterDestroyed f
      then \<exists>pl pre. nf_plugin f = Some pl \<and> nw_calls w p = pre @ [NOnDestroy pl] \<and>
        list_all (\<lambda>k. \<not> is_destroy k) pre
      else list_all (\<lambda>k. \<not> is_destroy k) (nw_calls w p))"
proof -
  have inv: "ninv w" by (rule network_reachable_inv [OF assms(1)])
  have "p \<in> nw_live w \<longleftrightarrow> mgr_search (nw_plugins w) p = Some p"
    using inv by (auto simp: ninv_def pointers_ok_def pins_def)
  moreover have "order_ok f (nw_calls w p)" using filters_okD [OF inv assms(2)] by blast
  ultimately show ?thesis unfolding order_ok_def by blast
qed

text \<open>C11: the callback of an HTTP callout runs at most once for each time it was registered, and only the
  callback that was registered under that identifier, whatever identifiers Envoy assigns, reuses or
  reports and however often it reports them.\<close>

theorem network_callout_delivered_at_most_once:
  assumes "network_reachable b h w"
  shows "delivered i (nw_calls w p) \<le> registered i (nw_started w p) \<and>
     (\<forall>k cb. k \<in> set (nw_calls w p) \<and> delivery k = Some (i, cb) \<longrightarrow> (i, Some cb) \<in> set (nw_started w p))"
proof (cases "nw_filters w p")
  case None
  then show ?thesis
    using network_reachable_inv [OF assms] by (simp add: ninv_def filters_ok_def delivered_def)
next
  case (Some f)
  then have ok: "callouts_ok f (nw_calls w p) (nw_started w p)"
    using filters_okD [OF network_reachable_inv [OF assms]] by blast
  then show ?thesis
    unfolding callouts_ok_def using add_leD1 by blast
qed

text \<open>C10: no hook panics in a reachable state: any event for a filter Envoy may use, its destruction, and
  the creation of a filter of a loaded configuration all return, whatever the code of the filters
  does.\<close>

theorem network_hooks_never_panic:
  assumes "network_reachable b h w" and "p \<in> nw_live w" and "c \<in> nw_liveConfigs w"
    and "alloc \<noteq> 0" and "nw_filters w alloc = None" and "\<And>x. does b x (create x)"
  shows "\<not> panics (network_hook ev p code w) \<and> \<not> panics (network_filter_destroy p finish w) \<and>
     \<not> panics (network_filter_new alloc c host create created w) \<and>
     \<not> panics (network_config_destroy c finish w) \<and> \<not> panics (network_config_scheduled c t finish w)"
proof -
  have inv: "ninv w" by (rule network_reachable_inv [OF assms(1)])
  obtain f pl where f: "nw_filters w p = Some f" "nf_plugin f = Some pl" "p \<noteq> 0"
    using live_filter [OF inv assms(2)] by blast
  obtain u f' where body: "hook_body ev f = (u, f')" by (cases "hook_body ev f")
  have "c \<noteq> 0" "nw_configs w c \<noteq> None"
    using inv assms(3) by (auto simp: ninv_def pointers_ok_def)
  then obtain cw where cw: "c \<noteq> 0" "nw_configs w c = Some cw" by auto
  let ?w1 = "log_nfactory c (NFactoryCreate (nw_pluginFactory cw) alloc)
    (set_filter w alloc (newDymNetworkFilterHandle host))"
  have "ninv ?w1"
  proof -
    have "alloc \<notin> nw_live w" "nw_calls w alloc = []" "nw_started w alloc = []"
      using inv assms(5) by (auto simp: ninv_def filters_ok_def pointers_ok_def)
    moreover have "order_ok (newDymNetworkFilterHandle host) []" "callouts_ok (newDymNetworkFilterHandle host) [] []"
      by (simp_all add: newDymNetworkFilterHandle_def order_ok_def callouts_ok_def pending_def go_map_get_def delivered_def)
    ultimately show ?thesis
      using inv by (auto simp: ninv_def filters_ok_def pointers_ok_def set_filter_def log_nfactory_def)
  qed
  with does_good [OF assms(6)] have "nframe ?w1 (create ?w1)" by (simp add: good_def)
  moreover have "nw_filters ?w1 alloc = Some (newDymNetworkFilterHandle host)"
    by (simp add: set_filter_def log_nfactory_def)
  ultimately have "\<exists>g. nw_filters (create ?w1) alloc = Some g" unfolding nframe_def by blast
  then have "\<not> panics (network_filter_new alloc c host create created w)"
    using cw by (cases created) (auto simp: network_filter_new_def mgr_unwrap_def Let_def split_beta)
  moreover have "\<not> panics (network_filter_destroy p finish w)"
    using f by (simp add: network_filter_destroy_def unwrap_filter_def mgr_unwrap_def Let_def)
  moreover have "\<not> panics (network_config_destroy c finish w)" "\<not> panics (network_config_scheduled c t finish w)"
    using cw by (auto simp: network_config_destroy_def network_config_scheduled_def mgr_unwrap_def Let_def
        split: option.split prod.split)
  ultimately show ?thesis
    using network_event_cases [OF inv assms(2) f(1) body] by simp
qed

text \<open>The callout's result, delivered and reported a second time, and the end of the filter.\<close>

definition tcp_answered :: "unit nworld" where
  "tcp_answered = log_ncall 32 (NOnHttpCalloutDone 9 7 0 [] []) (set_filter tcp_running 32
     (tcp_filter\<lparr>nf_calloutCallbacks := go_map_delete (nf_calloutCallbacks tcp_filter) 7\<rparr>))"

definition tcp_ended :: "unit nworld" where
  "tcp_ended = (case network_filter_destroy 32 id tcp_answered of Panic e \<Rightarrow> tcp_answered | Ret w \<Rightarrow> w)"

lemma tcp_answer:
  "network_hook (NCalloutDone 7 0 [] []) 32 (Pair 0) tcp_running = Ret (0, tcp_answered)"
  using network_event_cases [OF network_reachable_inv [OF tcp_reachable], of 32 tcp_filter
      "NCalloutDone 7 0 [] []"] tcp_running_fields
  by (simp add: tcp_answered_def envoyHttpHeaderSliceToUnsafeHeaderSlice_def envoyBufferSlice_map)

lemma tcp_answered_fields:
  "nw_filters tcp_answered 32 = Some (tcp_filter\<lparr>nf_calloutCallbacks := go_map_delete (nf_calloutCallbacks tcp_filter) 7\<rparr>)"
  "nw_live tcp_answered = {32}" "nw_calls tcp_answered 32 = [NOnHttpCalloutDone 9 7 0 [] []]"
  "nw_started tcp_answered 32 = [(7, Some 9)]" "nw_liveConfigs tcp_answered = {16}"
  using tcp_running_fields by (simp_all add: tcp_answered_def log_ncall_def set_filter_def)

lemma tcp_answered_reachable: "network_reachable (tcp_binding b) () tcp_answered"
  using tcp_reachable [of b] unfolding network_reachable_def
  by (rule does.event [OF _ _ _ tcp_answer]) (simp_all add: tcp_running_fields does.nothing)

lemma tcp_end: "network_filter_destroy 32 id tcp_answered = Ret tcp_ended"
  using tcp_running_fields(7,8)
  by (simp add: tcp_ended_def network_filter_destroy_def unwrap_filter_def mgr_unwrap_def tcp_answered_fields Let_def)

lemma tcp_ended_reachable: "network_reachable (tcp_binding b) () tcp_ended"
  using tcp_answered_reachable [of b] unfolding network_reachable_def
  by (rule does.destroy [OF _ _ _ tcp_end]) (simp_all add: tcp_answered_fields does.nothing)

lemma tcp_ended_fields:
  "nw_calls tcp_ended 32 = [NOnHttpCalloutDone 9 7 0 [] [], NOnDestroy 5]" "nw_live tcp_ended = {}"
  "\<exists>f. nw_filters tcp_ended 32 = Some f \<and> nf_filterDestroyed f \<and> nf_plugin f = Some 5"
  using tcp_running_fields(7,8)
  by (simp_all add: tcp_ended_def network_filter_destroy_def unwrap_filter_def mgr_unwrap_def
      tcp_answered_fields Let_def log_ncall_def set_filter_def)

theorem network_filter_called_in_order_witness:
  "nw_calls tcp_ended 32 = [NOnHttpCalloutDone 9 7 0 [] []] @ [NOnDestroy 5] \<and>
     mgr_search (nw_plugins tcp_ended) 32 \<noteq> Some 32"
proof -
  obtain f where "nw_filters tcp_ended 32 = Some f" using tcp_ended_fields(3) by blast
  from network_filter_called_in_order [OF tcp_ended_reachable this] tcp_ended_fields(1,2)
  show ?thesis by simp
qed

theorem network_callout_delivered_at_most_once_witness:
  "delivered 7 (nw_calls tcp_answered 32) = 1 \<and> registered 7 (nw_started tcp_answered 32) = 1 \<and>
     network_hook (NCalloutDone 7 0 [] []) 32 (Pair 0) tcp_answered = Ret (0, tcp_answered)"
proof -
  let ?f = "tcp_filter\<lparr>nf_calloutCallbacks := go_map_delete (nf_calloutCallbacks tcp_filter) 7\<rparr>"
  have "delivered 7 (nw_calls tcp_answered 32) \<le> registered 7 (nw_started tcp_answered 32)"
    using network_callout_delivered_at_most_once [OF tcp_answered_reachable] by blast
  moreover have body: "hook_body (NCalloutDone 7 0 [] []) ?f = (None, ?f)"
    using tcp_running_fields(8) by (simp add: pending_def)
  have "set_filter tcp_answered 32 ?f = tcp_answered"
    by (simp add: set_filter_def tcp_answered_fields fun_upd_idem)
  then have "network_hook (NCalloutDone 7 0 [] []) 32 (Pair 0) tcp_answered = Ret (0, tcp_answered)"
    using network_event_cases [OF network_reachable_inv [OF tcp_answered_reachable] _ _ body, of 32 "Pair 0"]
    by (simp add: tcp_answered_fields NetworkContinue_value_def del: network_hook.simps)
  ultimately show ?thesis
    by (simp add: tcp_answered_fields delivered_def registered_def del: network_hook.simps)
qed

theorem network_hooks_never_panic_witness:
  "\<not> panics (network_hook (NRead 3 True) 32 (Pair 1) tcp_running) \<and>
     \<not> panics (network_filter_new 48 16 2 id (Some 6) tcp_running)"
proof -
  have "nw_filters tcp_running 48 = None"
    by (simp add: tcp_running_def tcp_loaded_def network_init_def)
  from network_hooks_never_panic [OF tcp_reachable _ _ _ this, where p = 32 and c = 16 and create = id
      and ev = "NRead 3 True" and code = "Pair 1" and host = 2 and created = "Some 6"]
  show ?thesis by (simp add: tcp_running_fields does.nothing)
qed

end
