(* ===== verification/SahlApi.thy ===== *)
theory SahlApi
  imports HttpHandle
begin

text \<open>
  The interfaces of package shared that package sahl is written against: \<open>HeaderMap\<close>, \<open>BodyBuffer\<close> and
  the methods of \<open>HttpFilterHandle\<close> it calls, as records of functions over the state \<open>'h\<close> of whoever
  implements them. The handle of abi_impl is one implementation (\<open>dym_api\<close>); \<open>traced\<close> puts a recorder in
  front of any implementation, so that a theorem about the trace of calls holds for all of them.
\<close>

section \<open>The interfaces\<close>

record 'h header_api =
  hp_GetOneInto :: "gostring \<Rightarrow> UnsafeEnvoyBuffer \<Rightarrow> 'h \<Rightarrow> (bool \<times> UnsafeEnvoyBuffer) \<times> 'h"
  hp_GetAll :: "'h \<Rightarrow> (UnsafeEnvoyBuffer \<times> UnsafeEnvoyBuffer) list \<times> 'h"
  hp_Set :: "gostring \<Rightarrow> gostring \<Rightarrow> 'h \<Rightarrow> 'h"
  hp_Remove :: "gostring \<Rightarrow> 'h \<Rightarrow> 'h"

record 'h body_api =
  bp_GetChunks :: "'h \<Rightarrow> UnsafeEnvoyBuffer list \<times> 'h"
  bp_GetSize :: "'h \<Rightarrow> u64 \<times> 'h"
  bp_Append :: "bytes option \<Rightarrow> 'h \<Rightarrow> 'h"
  bp_Drain :: "u64 \<Rightarrow> 'h \<Rightarrow> 'h"

record 'h view_api =
  ha_memory :: "'h \<Rightarrow> mem"
  ha_RequestHeaders :: "'h header_api"
  ha_BufferedRequestBody :: "'h body_api"
  ha_ReceivedRequestBody :: "'h body_api"
  ha_BufferedResponseBody :: "'h body_api option"
  ha_ReceivedBufferedRequestBody :: "'h \<Rightarrow> bool \<times> 'h"
  ha_GetAttributeString :: "u32 \<Rightarrow> 'h \<Rightarrow> (UnsafeEnvoyBuffer \<times> bool) \<times> 'h"
  ha_GetAttributeNumber :: "u32 \<Rightarrow> 'h \<Rightarrow> (f64 \<times> bool) \<times> 'h"
  ha_GetAttributeBool :: "u32 \<Rightarrow> 'h \<Rightarrow> (bool \<times> bool) \<times> 'h"
  ha_GetActiveSpan :: "'h \<Rightarrow> dymSpan option \<times> 'h"
  ha_Log :: "u32 \<Rightarrow> gostring \<Rightarrow> go_any list \<Rightarrow> 'h \<Rightarrow> 'h"

record 'h control_api =
  ha_SetMetadata :: "gostring \<Rightarrow> gostring \<Rightarrow> go_any \<Rightarrow> 'h \<Rightarrow> 'h"
  ha_ClearRouteCache :: "'h \<Rightarrow> 'h"
  ha_IncrementCounterValue :: "u64 \<Rightarrow> u64 \<Rightarrow> gostring list \<Rightarrow> 'h \<Rightarrow> u32 \<times> 'h"
  ha_RecordHistogramValue :: "u64 \<Rightarrow> u64 \<Rightarrow> gostring list \<Rightarrow> 'h \<Rightarrow> u32 \<times> 'h"
  ha_ContinueRequest :: "'h \<Rightarrow> 'h"
  ha_SendLocalResponse :: "u32 \<Rightarrow> (gostring \<times> gostring) list \<Rightarrow> bytes option \<Rightarrow> gostring \<Rightarrow> 'h \<Rightarrow> 'h"
  ha_HttpCallout :: "gostring \<Rightarrow> (gostring \<times> gostring) list \<Rightarrow> bytes option \<Rightarrow> u64 \<Rightarrow> objref option \<Rightarrow> 'h \<Rightarrow>
    (u32 \<times> u64) \<times> 'h"
  ha_StartHttpStream :: "gostring \<Rightarrow> (gostring \<times> gostring) list \<Rightarrow> bytes option \<Rightarrow> bool \<Rightarrow> u64 \<Rightarrow>
    objref option \<Rightarrow> 'h \<Rightarrow> (u32 \<times> u64) \<times> 'h"
  ha_SendHttpStreamData :: "u64 \<Rightarrow> bytes option \<Rightarrow> bool \<Rightarrow> 'h \<Rightarrow> bool \<times> 'h"
  ha_SendHttpStreamTrailers :: "u64 \<Rightarrow> (gostring \<times> gostring) list \<Rightarrow> 'h \<Rightarrow> bool \<times> 'h"
  ha_ResetHttpStream :: "u64 \<Rightarrow> 'h \<Rightarrow> 'h"
  ha_GetScheduler :: "'h \<Rightarrow> 'h"
  ha_Schedule :: "objref option \<Rightarrow> 'h \<Rightarrow> 'h"

record 'h handle_api =
  ha_view :: "'h view_api"
  ha_control :: "'h control_api"

section \<open>The handle of the binding layer\<close>

text \<open>The callbacks of Envoy the handle of one request is linked with.\<close>

record 'e envoy =
  ev_rt :: go_runtime
  ev_memory :: "'e \<Rightarrow> mem"
  ev_headers :: "'e host_headers"
  ev_body :: "'e host_body"
  ev_stream :: "'e host_stream_1"
  ev_stream2 :: "'e host_stream_2"
  ev_stream3 :: "'e host_stream_3"
  ev_metadata :: "'e host_metadata_1"
  ev_metrics :: "'e host_metrics_1"
  ev_metrics2 :: "'e host_metrics_2"
  ev_local :: "'e host_local_response"
  ev_sched :: "'e host_schedulers"
  ev_span :: "'e host_span_1"
  ev_log :: "'e host_log"

text \<open>A method that only reaches Envoy, and one that changes the handle too.\<close>

definition lift_env :: "(dymHttpFilterHandle \<Rightarrow> 'e \<Rightarrow> 'e) \<Rightarrow> dymHttpFilterHandle \<times> 'e \<Rightarrow> dymHttpFilterHandle \<times> 'e" where
  "lift_env f s = (fst s, f (fst s) (snd s))"

definition lift_res ::
    "(dymHttpFilterHandle \<Rightarrow> 'e \<Rightarrow> 'r \<times> 'e) \<Rightarrow> dymHttpFilterHandle \<times> 'e \<Rightarrow> 'r \<times> dymHttpFilterHandle \<times> 'e" where
  "lift_res f s = (let (r, e) = f (fst s) (snd s) in (r, fst s, e))"

definition lift_both ::
    "(dymHttpFilterHandle \<Rightarrow> 'e \<Rightarrow> 'r \<times> dymHttpFilterHandle \<times> 'e) \<Rightarrow> dymHttpFilterHandle \<times> 'e \<Rightarrow>
      'r \<times> dymHttpFilterHandle \<times> 'e" where
  "lift_both f s = f (fst s) (snd s)"

definition dym_headers ::
    "'e envoy \<Rightarrow> (dymHttpFilterHandle \<Rightarrow> dymHeaderMap) \<Rightarrow> (dymHttpFilterHandle \<times> 'e) header_api" where
  "dym_headers E part = \<lparr>
     hp_GetOneInto = (\<lambda>k out. lift_res (\<lambda>d. hm_GetOneInto (ev_headers E) (ev_rt E) (part d) k out)),
     hp_GetAll = lift_res (\<lambda>d. hm_GetAll (ev_headers E) (part d)),
     hp_Set = (\<lambda>k v. lift_env (\<lambda>d. hm_Set (ev_headers E) (ev_rt E) (part d) k v)),
     hp_Remove = (\<lambda>k. lift_env (\<lambda>d. hm_Remove (ev_headers E) (ev_rt E) (part d) k))\<rparr>"

definition dym_body ::
    "'e envoy \<Rightarrow> (dymHttpFilterHandle \<Rightarrow> dymBodyBuffer) \<Rightarrow> (dymHttpFilterHandle \<times> 'e) body_api" where
  "dym_body E part = \<lparr>
     bp_GetChunks = lift_res (\<lambda>d. bb_GetChunks (ev_body E) (part d)),
     bp_GetSize = lift_res (\<lambda>d. bb_GetSize (ev_body E) (part d)),
     bp_Append = (\<lambda>data. lift_env (\<lambda>d. bb_Append (ev_body E) (part d) data)),
     bp_Drain = (\<lambda>n. lift_env (\<lambda>d. bb_Drain (ev_body E) (part d) n))\<rparr>"

definition dym_view :: "'e envoy \<Rightarrow> (dymHttpFilterHandle \<times> 'e) view_api" where
  "dym_view E = \<lparr>
     ha_memory = (\<lambda>s. ev_memory E (snd s)),
     ha_RequestHeaders = dym_headers E requestHeaderMap,
     ha_BufferedRequestBody = dym_body E bufferedRequestBody,
     ha_ReceivedRequestBody = dym_body E receivedRequestBody,
     ha_BufferedResponseBody = Some (dym_body E bufferedResponseBody),
     ha_ReceivedBufferedRequestBody = lift_res (hd_ReceivedBufferedRequestBody (ev_body E)),
     ha_GetAttributeString = (\<lambda>i. lift_res (\<lambda>d. hd_GetAttributeString (ev_stream E) d i)),
     ha_GetAttributeNumber = (\<lambda>i. lift_res (\<lambda>d. hd_GetAttributeNumber (ev_stream E) (ev_rt E) d i)),
     ha_GetAttributeBool = (\<lambda>i. lift_res (\<lambda>d. hd_GetAttributeBool (ev_stream E) d i)),
     ha_GetActiveSpan = lift_res (hd_GetActiveSpan (ev_span E)),
     ha_Log = (\<lambda>level format args. lift_env (\<lambda>d. hd_Log (ev_log E) (ev_rt E) d level format args))\<rparr>"

definition dym_control :: "'e envoy \<Rightarrow> (dymHttpFilterHandle \<times> 'e) control_api" where
  "dym_control E = \<lparr>
     ha_SetMetadata = (\<lambda>ns k v. lift_env (\<lambda>d. hd_SetMetadata (ev_metadata E) (ev_rt E) d ns k v)),
     ha_ClearRouteCache = lift_env (hd_ClearRouteCache (ev_stream E)),
     ha_IncrementCounterValue =
       (\<lambda>i n tags. lift_res (\<lambda>d. hd_IncrementCounterValue (ev_metrics E) (ev_rt E) d i n tags)),
     ha_RecordHistogramValue =
       (\<lambda>i n tags. lift_res (\<lambda>d. hd_RecordHistogramValue (ev_metrics2 E) (ev_rt E) d i n tags)),
     ha_ContinueRequest = lift_env (hd_ContinueRequest (ev_stream3 E)),
     ha_SendLocalResponse = (\<lambda>status headers body detail s.
       hd_SendLocalResponse (ev_local E) (ev_rt E) (fst s) status headers body detail (snd s)),
     ha_HttpCallout = (\<lambda>cluster headers body t cb.
       lift_both (\<lambda>d. hd_HttpCallout (ev_stream E) (ev_rt E) d cluster headers body t cb)),
     ha_StartHttpStream = (\<lambda>cluster headers body eos t cb.
       lift_both (\<lambda>d. hd_StartHttpStream (ev_stream E) (ev_rt E) d cluster headers body eos t cb)),
     ha_SendHttpStreamData = (\<lambda>i data eos. lift_res (\<lambda>d. hd_SendHttpStreamData (ev_stream2 E) d i data eos)),
     ha_SendHttpStreamTrailers =
       (\<lambda>i trailers. lift_res (\<lambda>d. hd_SendHttpStreamTrailers (ev_stream2 E) (ev_rt E) d i trailers)),
     ha_ResetHttpStream = (\<lambda>i. lift_env (\<lambda>d. hd_ResetHttpStream (ev_stream E) d i)),
     ha_GetScheduler = (\<lambda>s. hd_GetScheduler (ev_sched E) (fst s) (snd s)),
     ha_Schedule = (\<lambda>task s. hd_Schedule (ev_sched E) (fst s) task (snd s))\<rparr>"

definition dym_api :: "'e envoy \<Rightarrow> (dymHttpFilterHandle \<times> 'e) handle_api" where
  "dym_api E = \<lparr>ha_view = dym_view E, ha_control = dym_control E\<rparr>"

section \<open>A recorder in front of an implementation\<close>

text \<open>The calls that change the request or answer it; \<open>p\<close> is the handle they are made on.\<close>

datatype handle_call =
    CSetHeader gostring gostring
  | CSetMetadata gostring gostring go_any
  | CClearRouteCache
  | CCounter u64 u64 "gostring list"
  | CHistogram u64 u64 "gostring list"
  | CContinue
  | CLocalResponse u32 "(gostring \<times> gostring) list" "bytes option" gostring
  | CCallout gostring
  | CStream gostring
  | CDrainResponse u64
  | CAppendResponse "bytes option"

type_synonym 'h recorded = "(ptr \<times> handle_call) list \<times> 'h"

definition rec_call :: "ptr \<Rightarrow> handle_call \<Rightarrow> ('h \<Rightarrow> 'h) \<Rightarrow> 'h recorded \<Rightarrow> 'h recorded" where
  "rec_call p c f s = (fst s @ [(p, c)], f (snd s))"

definition rec_res :: "ptr \<Rightarrow> handle_call \<Rightarrow> ('h \<Rightarrow> 'r \<times> 'h) \<Rightarrow> 'h recorded \<Rightarrow> 'r \<times> 'h recorded" where
  "rec_res p c f s = (fst (f (snd s)), fst s @ [(p, c)], snd (f (snd s)))"

definition pass :: "('h \<Rightarrow> 'h) \<Rightarrow> 'h recorded \<Rightarrow> 'h recorded" where
  "pass f s = (fst s, f (snd s))"

definition pass_res :: "('h \<Rightarrow> 'r \<times> 'h) \<Rightarrow> 'h recorded \<Rightarrow> 'r \<times> 'h recorded" where
  "pass_res f s = (fst (f (snd s)), fst s, snd (f (snd s)))"

definition traced_headers :: "ptr \<Rightarrow> 'h header_api \<Rightarrow> 'h recorded header_api" where
  "traced_headers p H = \<lparr>
     hp_GetOneInto = (\<lambda>k out. pass_res (hp_GetOneInto H k out)),
     hp_GetAll = pass_res (hp_GetAll H),
     hp_Set = (\<lambda>k v. rec_call p (CSetHeader k v) (hp_Set H k v)),
     hp_Remove = (\<lambda>k. pass (hp_Remove H k))\<rparr>"

definition traced_body :: "'h body_api \<Rightarrow> 'h recorded body_api" where
  "traced_body B = \<lparr>
     bp_GetChunks = pass_res (bp_GetChunks B),
     bp_GetSize = pass_res (bp_GetSize B),
     bp_Append = (\<lambda>d. pass (bp_Append B d)),
     bp_Drain = (\<lambda>n. pass (bp_Drain B n))\<rparr>"

definition traced_response_body :: "ptr \<Rightarrow> 'h body_api \<Rightarrow> 'h recorded body_api" where
  "traced_response_body p B = \<lparr>
     bp_GetChunks = pass_res (bp_GetChunks B),
     bp_GetSize = pass_res (bp_GetSize B),
     bp_Append = (\<lambda>d. rec_call p (CAppendResponse d) (bp_Append B d)),
     bp_Drain = (\<lambda>n. rec_call p (CDrainResponse n) (bp_Drain B n))\<rparr>"

definition traced_view :: "ptr \<Rightarrow> 'h view_api \<Rightarrow> 'h recorded view_api" where
  "traced_view p V = \<lparr>
     ha_memory = (\<lambda>s. ha_memory V (snd s)),
     ha_RequestHeaders = traced_headers p (ha_RequestHeaders V),
     ha_BufferedRequestBody = traced_body (ha_BufferedRequestBody V),
     ha_ReceivedRequestBody = traced_body (ha_ReceivedRequestBody V),
     ha_BufferedResponseBody = map_option (traced_response_body p) (ha_BufferedResponseBody V),
     ha_ReceivedBufferedRequestBody = pass_res (ha_ReceivedBufferedRequestBody V),
     ha_GetAttributeString = (\<lambda>i. pass_res (ha_GetAttributeString V i)),
     ha_GetAttributeNumber = (\<lambda>i. pass_res (ha_GetAttributeNumber V i)),
     ha_GetAttributeBool = (\<lambda>i. pass_res (ha_GetAttributeBool V i)),
     ha_GetActiveSpan = pass_res (ha_GetActiveSpan V),
     ha_Log = (\<lambda>l f args. pass (ha_Log V l f args))\<rparr>"

definition traced_control :: "ptr \<Rightarrow> 'h control_api \<Rightarrow> 'h recorded control_api" where
  "traced_control p C = \<lparr>
     ha_SetMetadata = (\<lambda>ns k v. rec_call p (CSetMetadata ns k v) (ha_SetMetadata C ns k v)),
     ha_ClearRouteCache = rec_call p CClearRouteCache (ha_ClearRouteCache C),
     ha_IncrementCounterValue = (\<lambda>i n tags. rec_res p (CCounter i n tags) (ha_IncrementCounterValue C i n tags)),
     ha_RecordHistogramValue = (\<lambda>i n tags. rec_res p (CHistogram i n tags) (ha_RecordHistogramValue C i n tags)),
     ha_ContinueRequest = rec_call p CContinue (ha_ContinueRequest C),
     ha_SendLocalResponse = (\<lambda>st hs b d. rec_call p (CLocalResponse st hs b d) (ha_SendLocalResponse C st hs b d)),
     ha_HttpCallout = (\<lambda>c hs b t cb. rec_res p (CCallout c) (ha_HttpCallout C c hs b t cb)),
     ha_StartHttpStream = (\<lambda>c hs b e t cb. rec_res p (CStream c) (ha_StartHttpStream C c hs b e t cb)),
     ha_SendHttpStreamData = (\<lambda>i d e. pass_res (ha_SendHttpStreamData C i d e)),
     ha_SendHttpStreamTrailers = (\<lambda>i t. pass_res (ha_SendHttpStreamTrailers C i t)),
     ha_ResetHttpStream = (\<lambda>i. pass (ha_ResetHttpStream C i)),
     ha_GetScheduler = pass (ha_GetScheduler C),
     ha_Schedule = (\<lambda>t. pass (ha_Schedule C t))\<rparr>"

text \<open>\<open>A p\<close> is the implementation behind handle \<open>p\<close>.\<close>

definition traced :: "(ptr \<Rightarrow> 'h handle_api) \<Rightarrow> ptr \<Rightarrow> 'h recorded handle_api" where
  "traced A p = \<lparr>ha_view = traced_view p (ha_view (A p)), ha_control = traced_control p (ha_control (A p))\<rparr>"

named_theorems trace_defs \<open>the recorder and its parts\<close>

lemmas traced_unfold [trace_defs] =
  traced_def traced_view_def traced_control_def traced_headers_def traced_body_def
  traced_response_body_def rec_call_def rec_res_def pass_def pass_res_def

end
