(* ===== verification/SahlWriter.thy ===== *)
theory SahlWriter
  imports SahlApi
begin

text \<open>
  \<open>Writer\<close> of package sahl (writer.go, callout.go, stream.go): the queue of mutations a handler fills,
  the three ways it suspends a request, and the flush that applies the queue. The continuations of
  the handler author are references; \<open>p\<close> in \<open>A p\<close> is the handle the writer was reset to.
\<close>

section \<open>The writer\<close>

record counterMut =
  cm_id :: u64
  cm_n :: u64
  cm_tags :: "gostring list"
  cm_hist :: bool

record localResponseMut =
  lr_statusCode :: u32
  lr_headers :: "(gostring \<times> gostring) list"
  lr_body :: "bytes option"

record Writer =
  wr_handle :: ptr
  wr_scheduler :: bool
  wr_reqMuts :: "(gostring \<times> gostring) list"
  wr_respHdrMuts :: "(gostring \<times> gostring) list"
  wr_metaMuts :: "(gostring \<times> gostring \<times> go_any) list"
  wr_counterMuts :: "counterMut list"
  wr_localReplyDetails :: gostring
  wr_responded :: bool
  wr_routeCleared :: bool
  wr_localResp :: "localResponseMut option"
  wr_goStarted :: bool
  wr_goCancel :: "objref option"
  wr_calloutStarted :: bool
  wr_calloutFn :: "objref option"
  wr_calloutCB :: "objref option"
  wr_streamStarted :: bool
  wr_streamEventFn :: "objref option"
  wr_streamCB :: "objref option"

text \<open>\<open>&Writer{}\<close>, and \<open>reset\<close>; \<open>goCtx\<close> and \<open>goCancel\<close> are the two halves of one context, a reference.\<close>

definition zero_writer :: Writer where
  "zero_writer = \<lparr>wr_handle = 0, wr_scheduler = False, wr_reqMuts = [], wr_respHdrMuts = [],
     wr_metaMuts = [], wr_counterMuts = [], wr_localReplyDetails = [], wr_responded = False,
     wr_routeCleared = False, wr_localResp = None, wr_goStarted = False, wr_goCancel = None,
     wr_calloutStarted = False, wr_calloutFn = None, wr_calloutCB = None, wr_streamStarted = False,
     wr_streamEventFn = None, wr_streamCB = None\<rparr>"

definition w_reset :: "Writer \<Rightarrow> ptr \<Rightarrow> bool \<Rightarrow> Writer" where
  "w_reset w handle sched = w\<lparr>
     wr_handle := handle, wr_scheduler := sched, wr_reqMuts := [], wr_respHdrMuts := [],
     wr_metaMuts := [], wr_counterMuts := [], wr_localReplyDetails := [], wr_responded := False,
     wr_routeCleared := False, wr_localResp := None, wr_goStarted := False, wr_goCancel := None,
     wr_calloutStarted := False, wr_calloutFn := None, wr_calloutCB := None, wr_streamStarted := False,
     wr_streamEventFn := None, wr_streamCB := None\<rparr>"

section \<open>Queueing\<close>

definition w_SendBytes ::
    "(ptr \<Rightarrow> 'h handle_api) \<Rightarrow> i64 \<Rightarrow> bytes option \<Rightarrow> Writer \<times> 'h \<Rightarrow> Writer \<times> 'h" where
  "w_SendBytes A statusCode body st =
     (let (w, h) = st in
      if wr_responded w then (w, h)
      else (let w1 = w\<lparr>wr_responded := True\<rparr>;
                headers = wr_respHdrMuts w1
            in if wr_goStarted w1
               then (w1\<lparr>wr_localResp := Some \<lparr>lr_statusCode = ucast statusCode, lr_headers = headers,
                       lr_body = body\<rparr>\<rparr>, h)
               else (w1, ha_SendLocalResponse (ha_control (A (wr_handle w1))) (ucast statusCode) headers body
                      ''sahl'' h)))"

definition w_Send :: "(ptr \<Rightarrow> 'h handle_api) \<Rightarrow> i64 \<Rightarrow> gostring \<Rightarrow> Writer \<times> 'h \<Rightarrow> Writer \<times> 'h" where
  "w_Send A statusCode body = w_SendBytes A statusCode (Some body)"

definition w_SetResponseHeader :: "gostring \<Rightarrow> gostring \<Rightarrow> Writer \<Rightarrow> Writer" where
  "w_SetResponseHeader key val w =
     (if \<not> wr_responded w then w\<lparr>wr_respHdrMuts := wr_respHdrMuts w @ [(key, val)]\<rparr> else w)"

definition w_SetRequestHeader :: "gostring \<Rightarrow> gostring \<Rightarrow> Writer \<Rightarrow> Writer" where
  "w_SetRequestHeader key val w =
     (if \<not> wr_responded w then w\<lparr>wr_reqMuts := wr_reqMuts w @ [(key, val)]\<rparr> else w)"

definition w_SetMetadata :: "gostring \<Rightarrow> gostring \<Rightarrow> go_any \<Rightarrow> Writer \<Rightarrow> Writer" where
  "w_SetMetadata ns key val w =
     (if \<not> wr_responded w then w\<lparr>wr_metaMuts := wr_metaMuts w @ [(ns, key, val)]\<rparr> else w)"

definition w_ClearRouteCache :: "Writer \<Rightarrow> Writer" where
  "w_ClearRouteCache w = w\<lparr>wr_routeCleared := True\<rparr>"

definition w_IncrementCounter :: "u64 \<Rightarrow> u64 \<Rightarrow> gostring list \<Rightarrow> Writer \<Rightarrow> Writer" where
  "w_IncrementCounter i n tags w =
     w\<lparr>wr_counterMuts := wr_counterMuts w @ [\<lparr>cm_id = i, cm_n = n, cm_tags = tags, cm_hist = False\<rparr>]\<rparr>"

definition w_RecordHistogram :: "u64 \<Rightarrow> u64 \<Rightarrow> gostring list \<Rightarrow> Writer \<Rightarrow> Writer" where
  "w_RecordHistogram i n tags w =
     w\<lparr>wr_counterMuts := wr_counterMuts w @ [\<lparr>cm_id = i, cm_n = n, cm_tags = tags, cm_hist = True\<rparr>]\<rparr>"

definition w_Log ::
    "(ptr \<Rightarrow> 'h handle_api) \<Rightarrow> u32 \<Rightarrow> gostring \<Rightarrow> go_any list \<Rightarrow> Writer \<times> 'h \<Rightarrow> Writer \<times> 'h" where
  "w_Log A level format args st =
     (fst st, ha_Log (ha_view (A (wr_handle (fst st)))) level format args (snd st))"

definition w_GetAttributeString ::
    "(ptr \<Rightarrow> 'h handle_api) \<Rightarrow> u32 \<Rightarrow> Writer \<Rightarrow> 'h \<Rightarrow> (UnsafeEnvoyBuffer \<times> bool) \<times> 'h" where
  "w_GetAttributeString A i w h = ha_GetAttributeString (ha_view (A (wr_handle w))) i h"

definition w_GetAttributeNumber ::
    "(ptr \<Rightarrow> 'h handle_api) \<Rightarrow> u32 \<Rightarrow> Writer \<Rightarrow> 'h \<Rightarrow> (f64 \<times> bool) \<times> 'h" where
  "w_GetAttributeNumber A i w h = ha_GetAttributeNumber (ha_view (A (wr_handle w))) i h"

definition w_GetAttributeBool ::
    "(ptr \<Rightarrow> 'h handle_api) \<Rightarrow> u32 \<Rightarrow> Writer \<Rightarrow> 'h \<Rightarrow> (bool \<times> bool) \<times> 'h" where
  "w_GetAttributeBool A i w h = ha_GetAttributeBool (ha_view (A (wr_handle w))) i h"

definition w_ActiveSpan :: "(ptr \<Rightarrow> 'h handle_api) \<Rightarrow> Writer \<Rightarrow> 'h \<Rightarrow> dymSpan option \<times> 'h" where
  "w_ActiveSpan A w h = ha_GetActiveSpan (ha_view (A (wr_handle w))) h"

text \<open>\<open>BufferedResponseBody()\<close> may be nil for an implementation that has none.\<close>

definition w_SetResponseBody ::
    "(ptr \<Rightarrow> 'h handle_api) \<Rightarrow> bytes option \<Rightarrow> Writer \<times> 'h \<Rightarrow> Writer \<times> 'h" where
  "w_SetResponseBody A newBody st =
     (let (w, h) = st in
      case ha_BufferedResponseBody (ha_view (A (wr_handle w))) of
        None \<Rightarrow> (w, h)
      | Some body \<Rightarrow> (let (n, h1) = bp_GetSize body h
                     in (w, bp_Append body newBody (bp_Drain body n h1))))"

definition w_AppendResponseBody ::
    "(ptr \<Rightarrow> 'h handle_api) \<Rightarrow> bytes option \<Rightarrow> Writer \<times> 'h \<Rightarrow> Writer \<times> 'h" where
  "w_AppendResponseBody A data st =
     (let (w, h) = st in
      case ha_BufferedResponseBody (ha_view (A (wr_handle w))) of
        None \<Rightarrow> (w, h)
      | Some body \<Rightarrow> (w, bp_Append body data h))"

section \<open>Applying the queue\<close>

definition set_headers :: "'h handle_api \<Rightarrow> (gostring \<times> gostring) list \<Rightarrow> 'h \<Rightarrow> 'h" where
  "set_headers a muts h =
     foldl (\<lambda>h (k, v). hp_Set (ha_RequestHeaders (ha_view a)) k v h) h muts"

definition set_metas :: "'h handle_api \<Rightarrow> (gostring \<times> gostring \<times> go_any) list \<Rightarrow> 'h \<Rightarrow> 'h" where
  "set_metas a muts h = foldl (\<lambda>h (ns, k, v). ha_SetMetadata (ha_control a) ns k v h) h muts"

definition count_one :: "'h handle_api \<Rightarrow> 'h \<Rightarrow> counterMut \<Rightarrow> 'h" where
  "count_one a h m =
     (if cm_hist m then snd (ha_RecordHistogramValue (ha_control a) (cm_id m) (cm_n m) (cm_tags m) h)
      else snd (ha_IncrementCounterValue (ha_control a) (cm_id m) (cm_n m) (cm_tags m) h))"

definition w_flush :: "(ptr \<Rightarrow> 'h handle_api) \<Rightarrow> bool \<Rightarrow> Writer \<Rightarrow> 'h \<Rightarrow> 'h" where
  "w_flush A continueReq w h =
     (let a = A (wr_handle w) in
      case wr_localResp w of
        Some r \<Rightarrow> ha_SendLocalResponse (ha_control a) (lr_statusCode r) (lr_headers r) (lr_body r) ''sahl'' h
      | None \<Rightarrow>
          if wr_responded w then h
          else (let h1 = set_headers a (wr_reqMuts w) h;
                    h2 = set_metas a (wr_metaMuts w) h1;
                    h3 = (if wr_routeCleared w then ha_ClearRouteCache (ha_control a) h2 else h2);
                    h4 = foldl (count_one a) h3 (wr_counterMuts w)
                in if continueReq then ha_ContinueRequest (ha_control a) h4 else h4))"

definition w_flushResponseMutations :: "(ptr \<Rightarrow> 'h handle_api) \<Rightarrow> Writer \<times> 'h \<Rightarrow> Writer \<times> 'h" where
  "w_flushResponseMutations A st =
     (let (w, h) = st;
          a = A (wr_handle w);
          h1 = set_metas a (wr_metaMuts w) h;
          h2 = foldl (count_one a) h1 (wr_counterMuts w)
      in (w\<lparr>wr_metaMuts := [], wr_counterMuts := []\<rparr>, h2))"

section \<open>Suspending a request\<close>

text \<open>\<open>Go\<close>: \<open>ctx\<close> is the context of the new goroutine, whose code runs on its own.\<close>

definition w_Go :: "objref \<Rightarrow> Writer \<Rightarrow> Writer go" where
  "w_Go ctx w =
     (if wr_goStarted w then Panic ''BUG: sahl: Go called twice on the same request''
      else Ret (w\<lparr>wr_goStarted := True, wr_goCancel := Some ctx\<rparr>))"

record HTTPCalloutRequest =
  cr_Cluster :: gostring
  cr_Headers :: "(gostring \<times> gostring) list"
  cr_Body :: "bytes option"
  cr_TimeoutMs :: u64

definition InitMissingRequiredHeaders_value :: u32 where
  "InitMissingRequiredHeaders_value = of_nat (HttpCalloutInitResult_value HttpCalloutInitMissingRequiredHeaders)"

definition InitClusterNotFound_value :: u32 where
  "InitClusterNotFound_value = of_nat (HttpCalloutInitResult_value HttpCalloutInitClusterNotFound)"

definition InitDuplicateCalloutId_value :: u32 where
  "InitDuplicateCalloutId_value = of_nat (HttpCalloutInitResult_value HttpCalloutInitDuplicateCalloutId)"

definition InitCannotCreateRequest_value :: u32 where
  "InitCannotCreateRequest_value = of_nat (HttpCalloutInitResult_value HttpCalloutInitCannotCreateRequest)"

definition errCalloutInitResult :: "go_runtime \<Rightarrow> u32 \<Rightarrow> gostring option" where
  "errCalloutInitResult rt r =
     (if r = CalloutInitSuccess then None
      else if r = InitMissingRequiredHeaders_value then Some ''sahl: HTTPCallout: missing required headers''
      else if r = InitClusterNotFound_value then Some ''sahl: HTTPCallout: cluster not found''
      else if r = InitDuplicateCalloutId_value then Some ''sahl: HTTPCallout: duplicate callout ID''
      else if r = InitCannotCreateRequest_value then Some ''sahl: HTTPCallout: cannot create request''
      else Some (Sprintf rt ''sahl: HTTPCallout: unknown init result %d'' [AnyUint32 r]))"

text \<open>
  Envoy may fire the callback of a callout inline, before \<open>HttpCallout\<close> returns: \<open>during\<close> is what the handle
  does to the writer through \<open>calloutCB\<close> within the call.
\<close>

definition w_HTTPCalloutE ::
    "(ptr \<Rightarrow> 'h handle_api) \<Rightarrow> go_runtime \<Rightarrow> HTTPCalloutRequest \<Rightarrow> objref option \<Rightarrow>
      (Writer \<times> 'h \<Rightarrow> (Writer \<times> 'h) go) \<Rightarrow> Writer \<times> 'h \<Rightarrow> ((u32 \<times> gostring option) \<times> Writer \<times> 'h) go" where
  "w_HTTPCalloutE A rt req fn during st =
     (let (w, h) = st in
      if wr_calloutStarted w then Panic ''BUG: sahl: HTTPCallout called twice on the same request''
      else if wr_goStarted w
      then Panic ''BUG: sahl: HTTPCallout and Go are mutually exclusive on the same request''
      else (let w1 = w\<lparr>wr_calloutFn := fn\<rparr>;
                ((init, _), h1) = ha_HttpCallout (ha_control (A (wr_handle w1))) (cr_Cluster req) (cr_Headers req)
                  (cr_Body req) (cr_TimeoutMs req) (wr_calloutCB w1) h
            in go_bind (during (w1, h1)) (\<lambda>(w2, h2).
               if init \<noteq> CalloutInitSuccess
               then Ret ((init, errCalloutInitResult rt init), w2\<lparr>wr_calloutFn := None\<rparr>, h2)
               else Ret ((CalloutInitSuccess, None), w2\<lparr>wr_calloutStarted := True\<rparr>, h2))))"

definition w_HTTPCallout ::
    "(ptr \<Rightarrow> 'h handle_api) \<Rightarrow> go_runtime \<Rightarrow> HTTPCalloutRequest \<Rightarrow> objref option \<Rightarrow>
      (Writer \<times> 'h \<Rightarrow> (Writer \<times> 'h) go) \<Rightarrow> Writer \<times> 'h \<Rightarrow> (Writer \<times> 'h) go" where
  "w_HTTPCallout A rt req fn during st = go_bind (w_HTTPCalloutE A rt req fn during st) (\<lambda>r. Ret (snd r))"

record HTTPStreamRequest =
  sr_Cluster :: gostring
  sr_Headers :: "(gostring \<times> gostring) list"
  sr_Body :: "bytes option"
  sr_EndOfStream :: bool
  sr_TimeoutMs :: u64

definition errStreamInitResult :: "go_runtime \<Rightarrow> u32 \<Rightarrow> gostring option" where
  "errStreamInitResult rt r =
     (if r = CalloutInitSuccess then None
      else if r = InitMissingRequiredHeaders_value then Some ''sahl: HTTPStream: missing required headers''
      else if r = InitClusterNotFound_value then Some ''sahl: HTTPStream: cluster not found''
      else if r = InitDuplicateCalloutId_value then Some ''sahl: HTTPStream: duplicate stream ID''
      else if r = InitCannotCreateRequest_value then Some ''sahl: HTTPStream: cannot create request''
      else Some (Sprintf rt ''sahl: HTTPStream: unknown init result %d'' [AnyUint32 r]))"

record HTTPStream =
  hs_streamID :: u64
  hs_handle :: ptr

definition w_HTTPStream ::
    "(ptr \<Rightarrow> 'h handle_api) \<Rightarrow> go_runtime \<Rightarrow> HTTPStreamRequest \<Rightarrow> objref option \<Rightarrow>
      (Writer \<times> 'h \<Rightarrow> (Writer \<times> 'h) go) \<Rightarrow> Writer \<times> 'h \<Rightarrow> ((HTTPStream option \<times> gostring option) \<times> Writer \<times> 'h) go" where
  "w_HTTPStream A rt req fn during st =
     (let (w, h) = st in
      if wr_streamStarted w then Panic ''BUG: sahl: HTTPStream called twice on the same request''
      else if wr_calloutStarted w
      then Panic ''BUG: sahl: HTTPStream and HTTPCallout are mutually exclusive on the same request''
      else if wr_goStarted w
      then Panic ''BUG: sahl: HTTPStream and Go are mutually exclusive on the same request''
      else (let w1 = w\<lparr>wr_streamEventFn := fn\<rparr>;
                ((init, streamID), h1) = ha_StartHttpStream (ha_control (A (wr_handle w1))) (sr_Cluster req)
                  (sr_Headers req) (sr_Body req) (sr_EndOfStream req) (sr_TimeoutMs req) (wr_streamCB w1) h
            in go_bind (during (w1, h1)) (\<lambda>(w2, h2).
               if init \<noteq> CalloutInitSuccess
               then Ret ((None, errStreamInitResult rt init), w2\<lparr>wr_streamEventFn := None\<rparr>, h2)
               else Ret ((Some \<lparr>hs_streamID = streamID, hs_handle = wr_handle w2\<rparr>, None),
                         w2\<lparr>wr_streamStarted := True\<rparr>, h2))))"

definition hs_Send :: "(ptr \<Rightarrow> 'h handle_api) \<Rightarrow> bytes option \<Rightarrow> bool \<Rightarrow> HTTPStream \<Rightarrow> 'h \<Rightarrow> 'h" where
  "hs_Send A body endStream s h =
     snd (ha_SendHttpStreamData (ha_control (A (hs_handle s))) (hs_streamID s) body endStream h)"

definition hs_SendTrailers ::
    "(ptr \<Rightarrow> 'h handle_api) \<Rightarrow> (gostring \<times> gostring) list \<Rightarrow> HTTPStream \<Rightarrow> 'h \<Rightarrow> 'h" where
  "hs_SendTrailers A trailers s h =
     snd (ha_SendHttpStreamTrailers (ha_control (A (hs_handle s))) (hs_streamID s) trailers h)"

definition hs_Reset :: "(ptr \<Rightarrow> 'h handle_api) \<Rightarrow> HTTPStream \<Rightarrow> 'h \<Rightarrow> 'h" where
  "hs_Reset A s h = ha_ResetHttpStream (ha_control (A (hs_handle s))) (hs_streamID s) h"

datatype HTTPStreamEvent =
    HTTPStreamHeaders u64 "(UnsafeEnvoyBuffer \<times> UnsafeEnvoyBuffer) list" bool
  | HTTPStreamData u64 "UnsafeEnvoyBuffer list" bool
  | HTTPStreamTrailers u64 "(UnsafeEnvoyBuffer \<times> UnsafeEnvoyBuffer) list"
  | HTTPStreamComplete u64
  | HTTPStreamReset u64 u32

text \<open>
  What the completion hooks of the filter do to its writer when they are called inline. The request is
  not complete then, and \<open>code\<close> is what the continuation or event function does.
\<close>

definition w_callout_done ::
    "(ptr \<Rightarrow> 'h handle_api) \<Rightarrow> (Writer \<times> 'h \<Rightarrow> (Writer \<times> 'h) go) \<Rightarrow> Writer \<times> 'h \<Rightarrow> (Writer \<times> 'h) go" where
  "w_callout_done A code st =
     (case wr_calloutFn (fst st) of
        None \<Rightarrow> Ret st
      | Some fn \<Rightarrow> go_bind (code ((fst st)\<lparr>wr_calloutFn := None\<rparr>, snd st)) (\<lambda>(w, h). Ret (w, w_flush A True w h)))"

definition w_stream_event ::
    "(ptr \<Rightarrow> 'h handle_api) \<Rightarrow> HTTPStreamEvent \<Rightarrow> (Writer \<times> 'h \<Rightarrow> (Writer \<times> 'h) go) \<Rightarrow> Writer \<times> 'h \<Rightarrow>
      (Writer \<times> 'h) go" where
  "w_stream_event A ev code st =
     (let fn = wr_streamEventFn (fst st);
          ended = go_bind (code st) (\<lambda>(w, h). Ret (w\<lparr>wr_streamEventFn := None\<rparr>, h))
      in case ev of
           HTTPStreamComplete i \<Rightarrow>
             go_bind (if fn = None then Ret st else ended) (\<lambda>(w, h). Ret (w, w_flush A True w h))
         | HTTPStreamReset i reason \<Rightarrow>
             (if fn = None then Ret st
              else go_bind ended (\<lambda>(w, h). Ret (w, w_flush A (\<not> wr_responded w) w h)))
         | _ \<Rightarrow> if fn = None then Ret st else code st)"

section \<open>The code of a handler\<close>

text \<open>
  A handler, a continuation, a response observer or the code of a goroutine, as the list of the calls
  it makes on the writer; \<open>fn\<close> of a callout or stream is its continuation. What the handle calls back
  before a call returns comes with the call: the code of the continuation if the callout completes
  inline, and the events of the stream that arrive inline with the code the event function runs for each.
\<close>

datatype wop =
    WSend i64 gostring | WSendBytes i64 "bytes option"
  | WSetResponseHeader gostring gostring | WSetRequestHeader gostring gostring
  | WSetMetadata gostring gostring go_any | WClearRouteCache
  | WIncrementCounter u64 u64 "gostring list" | WRecordHistogram u64 u64 "gostring list"
  | WLog u32 gostring "go_any list"
  | WSetResponseBody "bytes option" | WAppendResponseBody "bytes option"
  | WGo objref
  | WHTTPCallout HTTPCalloutRequest "objref option" "wop list option"
  | WHTTPStream HTTPStreamRequest "objref option" "(HTTPStreamEvent \<times> wop list) list"
  | WStreamSend HTTPStream "bytes option" bool
  | WStreamSendTrailers HTTPStream "(gostring \<times> gostring) list" | WStreamReset HTTPStream

fun apply_wop :: "(ptr \<Rightarrow> 'h handle_api) \<Rightarrow> go_runtime \<Rightarrow> wop \<Rightarrow> Writer \<times> 'h \<Rightarrow> (Writer \<times> 'h) go"
  and run_wops :: "(ptr \<Rightarrow> 'h handle_api) \<Rightarrow> go_runtime \<Rightarrow> wop list \<Rightarrow> Writer \<times> 'h \<Rightarrow> (Writer \<times> 'h) go"
  and run_events :: "(ptr \<Rightarrow> 'h handle_api) \<Rightarrow> go_runtime \<Rightarrow> (HTTPStreamEvent \<times> wop list) list \<Rightarrow>
    Writer \<times> 'h \<Rightarrow> (Writer \<times> 'h) go" where
  "apply_wop A rt (WSend status body) st = Ret (w_Send A status body st)"
| "apply_wop A rt (WSendBytes status body) st = Ret (w_SendBytes A status body st)"
| "apply_wop A rt (WSetResponseHeader k v) st = Ret (w_SetResponseHeader k v (fst st), snd st)"
| "apply_wop A rt (WSetRequestHeader k v) st = Ret (w_SetRequestHeader k v (fst st), snd st)"
| "apply_wop A rt (WSetMetadata ns k v) st = Ret (w_SetMetadata ns k v (fst st), snd st)"
| "apply_wop A rt WClearRouteCache st = Ret (w_ClearRouteCache (fst st), snd st)"
| "apply_wop A rt (WIncrementCounter i n tags) st = Ret (w_IncrementCounter i n tags (fst st), snd st)"
| "apply_wop A rt (WRecordHistogram i n tags) st = Ret (w_RecordHistogram i n tags (fst st), snd st)"
| "apply_wop A rt (WLog l f args) st = Ret (w_Log A l f args st)"
| "apply_wop A rt (WSetResponseBody b) st = Ret (w_SetResponseBody A b st)"
| "apply_wop A rt (WAppendResponseBody b) st = Ret (w_AppendResponseBody A b st)"
| "apply_wop A rt (WGo ctx) st = go_bind (w_Go ctx (fst st)) (\<lambda>w. Ret (w, snd st))"
| "apply_wop A rt (WHTTPCallout req fn None) st = w_HTTPCallout A rt req fn Ret st"
| "apply_wop A rt (WHTTPCallout req fn (Some ops)) st =
     w_HTTPCallout A rt req fn (w_callout_done A (\<lambda>s. run_wops A rt ops s)) st"
| "apply_wop A rt (WHTTPStream req fn evs) st =
     go_bind (w_HTTPStream A rt req fn (\<lambda>s. run_events A rt evs s) st) (\<lambda>r. Ret (snd r))"
| "apply_wop A rt (WStreamSend s b eos) st = Ret (fst st, hs_Send A b eos s (snd st))"
| "apply_wop A rt (WStreamSendTrailers s t) st = Ret (fst st, hs_SendTrailers A t s (snd st))"
| "apply_wop A rt (WStreamReset s) st = Ret (fst st, hs_Reset A s (snd st))"
| "run_wops A rt [] st = Ret st"
| "run_wops A rt (op # ops) st = go_bind (apply_wop A rt op st) (\<lambda>st'. run_wops A rt ops st')"
| "run_events A rt [] st = Ret st"
| "run_events A rt ((ev, ops) # evs) st =
     go_bind (w_stream_event A ev (\<lambda>s. run_wops A rt ops s) st) (\<lambda>st'. run_events A rt evs st')"

lemma run_events_none [simp]: "run_events A rt [] = Ret"
  by (rule ext) simp

end
