(* ===== verification/SahlRequest.thy ===== *)
theory SahlRequest
  imports SahlApi
begin

text \<open>
  \<open>Request\<close> and \<open>Header\<close> of package sahl (request.go): the pseudo-headers copied at entry, the cache of
  header values, the reader of the body. The Go map of the cache is a partial map; a nil map reads as
  the empty one.
\<close>

section \<open>Header names\<close>

definition upper_byte :: "byte \<Rightarrow> bool" where
  "upper_byte c \<longleftrightarrow> 65 \<le> byte_val c \<and> byte_val c \<le> 90"

text \<open>The scan for the first upper-case letter, then the copy that is lowered from there on.\<close>

fun lower_from :: "nat \<Rightarrow> gostring \<Rightarrow> gostring" where
  "lower_from n s =
     take n s @ map (\<lambda>c. if upper_byte c then char_of (byte_val c + 32) else c) (drop n s)"

fun ascii_scan :: "nat list \<Rightarrow> gostring \<Rightarrow> gostring" where
  "ascii_scan [] s = s"
| "ascii_scan (i # is) s = (if upper_byte (s ! i) then lower_from i s else ascii_scan is s)"

definition asciiToLower :: "gostring \<Rightarrow> gostring" where
  "asciiToLower s = ascii_scan [0..<length s] s"

lemma lower_byte_eq: "lower_byte c = (if upper_byte c then char_of (byte_val c + 32) else c)"
  by (simp add: lower_byte_def upper_byte_def)

lemma lower_same: "list_all (\<lambda>c. \<not> upper_byte c) s \<Longrightarrow> map lower_byte s = s"
  by (induction s) (simp_all add: lower_byte_eq)

lemma ascii_scan_suffix:
  "i \<le> length s \<Longrightarrow> list_all (\<lambda>c. \<not> upper_byte c) (take i s) \<Longrightarrow>
   ascii_scan [i..<length s] s = map lower_byte s"
proof (induction "length s - i" arbitrary: i)
  case 0
  then show ?case by (simp add: lower_same)
next
  case (Suc n)
  then have i: "i < length s" by simp
  then have up: "[i..<length s] = i # [Suc i..<length s]" by (rule upt_conv_Cons)
  show ?case
  proof (cases "upper_byte (s ! i)")
    case True
    have "map lower_byte s = map lower_byte (take i s) @ map lower_byte (drop i s)"
      by (simp flip: map_append)
    also have "\<dots> = lower_from i s"
      unfolding lower_same [OF Suc.prems(2)] by (simp add: lower_byte_eq [abs_def])
    finally show ?thesis using True by (simp add: up del: lower_from.simps)
  next
    case False
    with i Suc.prems have "list_all (\<lambda>c. \<not> upper_byte c) (take (Suc i) s)"
      by (simp add: take_Suc_conv_app_nth)
    with Suc.hyps(1) [of "Suc i"] Suc.hyps(2) i False show ?thesis by (simp add: up)
  qed
qed

lemma asciiToLower_eq: "asciiToLower s = map lower_byte s"
  using ascii_scan_suffix [of 0 s] by (simp add: asciiToLower_def)

lemma lower_byte_idem: "lower_byte (lower_byte c) = lower_byte c"
  by (auto simp: lower_byte_def byte_val_def)

lemma asciiToLower_idem [simp]: "asciiToLower (asciiToLower s) = asciiToLower s"
  by (simp add: asciiToLower_eq lower_byte_idem)

section \<open>Header\<close>

record Header =
  hr_cache :: "gostring \<rightharpoonup> gostring"

definition Header_Get ::
    "('h \<Rightarrow> mem) \<Rightarrow> 'h header_api \<Rightarrow> gostring \<Rightarrow> Header \<times> 'h \<Rightarrow> gostring \<times> Header \<times> 'h" where
  "Header_Get memory H key st =
     (let (hr, h) = st; lower = asciiToLower key in
      case hr_cache hr lower of
        Some v \<Rightarrow> (v, hr, h)
      | None \<Rightarrow>
          (let ((found, buf), h1) = hp_GetOneInto H lower empty_buffer h
           in if \<not> found \<or> Len buf = 0 then ([], hr, h1)
              else (let v = ToString (memory h1) buf
                    in (v, hr\<lparr>hr_cache := (hr_cache hr)(lower \<mapsto> v)\<rparr>, h1))))"

definition Header_Peek ::
    "('h \<Rightarrow> mem) \<Rightarrow> 'h header_api \<Rightarrow> gostring \<Rightarrow> Header \<times> 'h \<Rightarrow> (gostring \<times> bool) \<times> Header \<times> 'h" where
  "Header_Peek memory H key st =
     (let (hr, h) = st; lower = asciiToLower key in
      case hr_cache hr lower of
        Some v \<Rightarrow> ((v, True), hr, h)
      | None \<Rightarrow>
          (let ((found, buf), h1) = hp_GetOneInto H lower empty_buffer h
           in if \<not> found \<or> Len buf = 0 then (([], False), hr, h1)
              else ((read_mem (memory h1) (Ptr buf) (unat (Len buf)), True), hr, h1)))"

definition Header_GetAll ::
    "'h header_api \<Rightarrow> 'h \<Rightarrow> (UnsafeEnvoyBuffer \<times> UnsafeEnvoyBuffer) list \<times> 'h" where
  "Header_GetAll H h = hp_GetAll H h"

text \<open>Deleting every key of the cache while ranging over it leaves the empty map.\<close>

definition Header_reset :: "Header \<Rightarrow> Header" where
  "Header_reset hr = hr\<lparr>hr_cache := Map.empty\<rparr>"

text \<open>Any number of reads.\<close>

fun read_all ::
    "('h \<Rightarrow> mem) \<Rightarrow> 'h header_api \<Rightarrow> gostring list \<Rightarrow> Header \<times> 'h \<Rightarrow> gostring list \<times> 'h" where
  "read_all memory H [] st = ([], snd st)"
| "read_all memory H (k # ks) st =
     (let (v, st') = Header_Get memory H k st; (vs, h) = read_all memory H ks st' in (v # vs, h))"

section \<open>Request\<close>

record Request =
  rq_Header :: Header
  rq_Method :: gostring
  rq_Path :: gostring
  rq_Host :: gostring
  rq_FilterName :: gostring
  rq_handle :: ptr

definition zero_request :: Request where
  "zero_request = \<lparr>rq_Header = \<lparr>hr_cache = Map.empty\<rparr>, rq_Method = [], rq_Path = [], rq_Host = [],
     rq_FilterName = [], rq_handle = 0\<rparr>"

text \<open>\<open>reset\<close> reads into one buffer, reused for the three reads.\<close>

definition req_reset ::
    "('h \<Rightarrow> mem) \<Rightarrow> 'h header_api \<Rightarrow> ptr \<Rightarrow> gostring \<Rightarrow> Request \<times> 'h \<Rightarrow> Request \<times> 'h" where
  "req_reset memory H handle name st =
     (let (r, h) = st;
          r0 = r\<lparr>rq_Header := Header_reset (rq_Header r), rq_FilterName := name, rq_handle := handle\<rparr>;
          ((found1, buf1), h1) = hp_GetOneInto H '':method'' empty_buffer h;
          r1 = r0\<lparr>rq_Method := (if found1 then ToString (memory h1) buf1 else [])\<rparr>;
          ((found2, buf2), h2) = hp_GetOneInto H '':path'' buf1 h1;
          r2 = r1\<lparr>rq_Path := (if found2 then ToString (memory h2) buf2 else [])\<rparr>;
          ((found3, buf3), h3) = hp_GetOneInto H '':authority'' buf2 h2
      in (r2\<lparr>rq_Host := (if found3 then ToString (memory h3) buf3 else [])\<rparr>, h3))"

definition req_Log ::
    "(ptr \<Rightarrow> 'h handle_api) \<Rightarrow> u32 \<Rightarrow> gostring \<Rightarrow> go_any list \<Rightarrow> Request \<Rightarrow> 'h \<Rightarrow> 'h" where
  "req_Log A level format args r h = ha_Log (ha_view (A (rq_handle r))) level format args h"

text \<open>A \<open>slog.Attr\<close> is its key and the string of its value.\<close>

fun append_attrs :: "gostring \<Rightarrow> (gostring \<times> gostring) list \<Rightarrow> gostring" where
  "append_attrs b [] = b"
| "append_attrs b ((k, v) # as) = append_attrs (b @ '' '' @ k @ ''='' @ v) as"

definition formatLogAttrs :: "gostring \<Rightarrow> (gostring \<times> gostring) list \<Rightarrow> gostring" where
  "formatLogAttrs msg attrs = (if attrs = [] then msg else append_attrs msg attrs)"

definition req_LogAttrs ::
    "(ptr \<Rightarrow> 'h handle_api) \<Rightarrow> u32 \<Rightarrow> gostring \<Rightarrow> (gostring \<times> gostring) list \<Rightarrow> Request \<Rightarrow> 'h \<Rightarrow> 'h" where
  "req_LogAttrs A level msg attrs r h =
     (let attrs = (if rq_FilterName r \<noteq> [] then (''filter'', rq_FilterName r) # attrs else attrs)
      in ha_Log (ha_view (A (rq_handle r))) level ''%s'' [AnyString (formatLogAttrs msg attrs)] h)"

lemma append_attrs_eq: "append_attrs b as = b @ concat (map (\<lambda>(k, v). '' '' @ k @ ''='' @ v) as)"
  by (induction b as rule: append_attrs.induct) simp_all

section \<open>The body\<close>

definition readBody :: "'h view_api \<Rightarrow> 'h \<Rightarrow> (bytes \<times> 'h) go" where
  "readBody V h =
     (let buf = ha_BufferedRequestBody V;
          recv = ha_ReceivedRequestBody V;
          (isBuffered, h1) = ha_ReceivedBufferedRequestBody V h;
          (n, h2) = bp_GetSize buf h1;
          (n, h3) = (if \<not> isBuffered then (let (m, h') = bp_GetSize recv h2 in (n + m, h')) else (n, h2))
      in if 2 ^ 63 \<le> n then Panic ''makeslice: cap out of range''
         else (let (chunks, h4) = bp_GetChunks buf h3;
                   body = append_chunks (ha_memory V h4) [] chunks
               in if \<not> isBuffered
                  then (let (chunks', h5) = bp_GetChunks recv h4
                        in Ret (append_chunks (ha_memory V h5) body chunks', h5))
                  else Ret (body, h4)))"

definition req_Body :: "(ptr \<Rightarrow> 'h handle_api) \<Rightarrow> Request \<Rightarrow> 'h \<Rightarrow> (bytes \<times> 'h) go" where
  "req_Body A r h = readBody (ha_view (A (rq_handle r))) h"

section \<open>The contract of a header map\<close>

text \<open>
  What \<open>Get\<close> and \<open>Peek\<close> rely on: reading does not change what the map holds, and a found value is a view
  of it. \<open>val_of k h\<close> is the first value of \<open>k\<close> in the state \<open>h\<close>.
\<close>

locale header_source =
  fixes H :: "'h header_api" and memory :: "'h \<Rightarrow> mem" and val_of :: "gostring \<Rightarrow> 'h \<Rightarrow> gostring option"
  assumes read_found: "val_of k h = Some v \<Longrightarrow> v \<noteq> [] \<Longrightarrow>
      \<exists>buf. hp_GetOneInto H k out h = ((True, buf), h) \<and> ToUnsafeString (memory h) buf = v"
    and read_missing: "val_of k h = None \<or> val_of k h = Some [] \<Longrightarrow>
      \<exists>found buf. hp_GetOneInto H k out h = ((found, buf), h) \<and> (found \<longrightarrow> Len buf = 0)"
begin

definition text_at :: "gostring \<Rightarrow> 'h \<Rightarrow> gostring" where
  "text_at k h = (case val_of k h of None \<Rightarrow> [] | Some v \<Rightarrow> v)"

text \<open>Every cached value is the value the map had in some state, and no empty value is cached.\<close>

lemma Get_miss:
  assumes "hr_cache hr (asciiToLower key) = None"
  shows "\<exists>hr'. Header_Get memory H key (hr, h) = (text_at (asciiToLower key) h, hr', h) \<and>
    hr_cache hr' = (if text_at (asciiToLower key) h = [] then hr_cache hr
      else (hr_cache hr)(asciiToLower key \<mapsto> text_at (asciiToLower key) h))"
proof (cases "text_at (asciiToLower key) h = []")
  case True
  then have "val_of (asciiToLower key) h = None \<or> val_of (asciiToLower key) h = Some []"
    by (auto simp: text_at_def split: option.splits)
  from read_missing [OF this, of empty_buffer] obtain found buf where
    "hp_GetOneInto H (asciiToLower key) empty_buffer h = ((found, buf), h)" "found \<longrightarrow> Len buf = 0" by blast
  with assms True show ?thesis by (auto simp: Header_Get_def)
next
  case False
  then obtain v where v: "val_of (asciiToLower key) h = Some v" "v \<noteq> []"
    by (auto simp: text_at_def split: option.splits)
  from read_found [OF this, of empty_buffer] obtain buf where
    b: "hp_GetOneInto H (asciiToLower key) empty_buffer h = ((True, buf), h)" "ToUnsafeString (memory h) buf = v"
    by blast
  with v(2) have "Len buf \<noteq> 0" by (auto simp: ToUnsafeString_def split: if_splits)
  with assms v b show ?thesis by (simp add: Header_Get_def text_at_def ToString_eq_ToUnsafeString)
qed

lemma Get_hit:
  "hr_cache hr (asciiToLower key) = Some v \<Longrightarrow> Header_Get memory H key (hr, h) = (v, hr, h)"
  by (simp add: Header_Get_def)

lemma Peek_agrees:
  "fst (fst (Header_Peek memory H key (hr, h))) = fst (Header_Get memory H key (hr, h)) \<and>
   fst (snd (Header_Peek memory H key (hr, h))) = hr"
proof (cases "hr_cache hr (asciiToLower key)")
  case None
  obtain found buf h1 where r: "hp_GetOneInto H (asciiToLower key) empty_buffer h = ((found, buf), h1)"
    by (metis surj_pair)
  show ?thesis
  proof (cases "found \<and> Len buf \<noteq> 0")
    case True
    have "\<not> (val_of (asciiToLower key) h = None \<or> val_of (asciiToLower key) h = Some [])"
    proof
      assume "val_of (asciiToLower key) h = None \<or> val_of (asciiToLower key) h = Some []"
      from read_missing [OF this, of empty_buffer] r have "found \<longrightarrow> Len buf = 0" by auto
      with True show False by blast
    qed
    then obtain v where v: "val_of (asciiToLower key) h = Some v" "v \<noteq> []" by auto
    from read_found [OF v, of empty_buffer] r v(2) have "ToUnsafeString (memory h1) buf \<noteq> []" by auto
    then have "Ptr buf \<noteq> 0" by (auto simp: ToUnsafeString_def)
    with None r True show ?thesis
      by (simp add: Header_Get_def Header_Peek_def ToString_def ToUnsafeString_def Let_def)
  next
    case False
    with None r show ?thesis by (auto simp: Header_Get_def Header_Peek_def Let_def)
  qed
qed (simp add: Header_Get_def Header_Peek_def)

lemma read_all_values:
  "\<forall>k v. hr_cache hr k = Some v \<longrightarrow> text_at k h = v \<Longrightarrow>
   read_all memory H ks (hr, h) = (map (\<lambda>k. text_at (asciiToLower k) h) ks, h)"
proof (induction ks arbitrary: hr)
  case Nil
  then show ?case by simp
next
  case (Cons k ks)
  show ?case
  proof (cases "hr_cache hr (asciiToLower k)")
    case None
    from Get_miss [OF None, of h] obtain hr' where
      g: "Header_Get memory H k (hr, h) = (text_at (asciiToLower k) h, hr', h)"
      "hr_cache hr' = (if text_at (asciiToLower k) h = [] then hr_cache hr
        else (hr_cache hr)(asciiToLower k \<mapsto> text_at (asciiToLower k) h))" by blast
    have "read_all memory H ks (hr', h) = (map (\<lambda>k. text_at (asciiToLower k) h) ks, h)"
      using Cons.prems by (intro Cons.IH) (auto simp: g(2) split: if_splits)
    with g(1) show ?thesis by simp
  next
    case (Some v)
    with Cons show ?thesis by (simp add: Get_hit)
  qed
qed

end

section \<open>Over the handle of the binding layer\<close>

definition first_value ::
    "('e \<Rightarrow> mem) \<Rightarrow> (http_filter_envoy_ptr \<Rightarrow> http_header_type c_val \<Rightarrow> 'e \<Rightarrow> gostring \<Rightarrow> envoy_buffer list) \<Rightarrow>
      (dymHttpFilterHandle \<Rightarrow> dymHeaderMap) \<Rightarrow> gostring \<Rightarrow> dymHttpFilterHandle \<times> 'e \<Rightarrow> gostring option" where
  "first_value memory hvals part k s =
     (case hvals (hm_hostPluginPtr (part (fst s))) (hm_headerType (part (fst s))) (snd s) k of
        [] \<Rightarrow> None
      | b # _ \<Rightarrow> Some (ToUnsafeString (memory (snd s)) (envoyBufferToUnsafeEnvoyBuffer b)))"

lemma dym_header_source:
  assumes host: "header_host (ev_headers E) hvals norm"
  shows "header_source (dym_headers E part) (\<lambda>s. ev_memory E (snd s)) (first_value (ev_memory E) hvals part)"
proof -
  let ?vs = "\<lambda>k d e. hvals (hm_hostPluginPtr (part d)) (hm_headerType (part d)) e k"
  have call: "\<exists>ok. hp_GetOneInto (dym_headers E part) k out (d, e) =
      ((ok \<and> eb_ptr (if ?vs k d e = [] then null_envoy_buffer else hd (?vs k d e)) \<noteq> 0,
        envoyBufferToUnsafeEnvoyBuffer (if ?vs k d e = [] then null_envoy_buffer else hd (?vs k d e))), (d, e)) \<and>
      (?vs k d e \<noteq> [] \<longrightarrow> ok)" for k out d e
    using header_host.host_get [OF host, of "hm_hostPluginPtr (part d)" "hm_headerType (part d)"
        "k = [] \<and> empty_string_nil (ev_rt E)" k 0 e]
    by (auto simp: dym_headers_def lift_res_def hm_GetOneInto_def stringToModuleBuffer_def
        envoyBufferToUnsafeEnvoyBuffer_def hd_conv_nth)
  show ?thesis
  proof
    fix k v out and h :: "dymHttpFilterHandle \<times> 'a"
    obtain d e where h: "h = (d, e)" by force
    assume v: "first_value (ev_memory E) hvals part k h = Some v" "v \<noteq> []"
    then obtain b bs where b: "?vs k d e = b # bs"
        "v = ToUnsafeString (ev_memory E e) (envoyBufferToUnsafeEnvoyBuffer b)"
      by (auto simp: h first_value_def split: list.splits)
    with v(2) have "eb_ptr b \<noteq> 0"
      by (auto simp: ToUnsafeString_def envoyBufferToUnsafeEnvoyBuffer_def split: if_splits)
    with call [of k out d e] b show "\<exists>buf. hp_GetOneInto (dym_headers E part) k out h = ((True, buf), h) \<and>
        ToUnsafeString (ev_memory E (snd h)) buf = v"
      by (auto simp: h)
  next
    fix k out and h :: "dymHttpFilterHandle \<times> 'a"
    obtain d e where h: "h = (d, e)" by force
    assume "first_value (ev_memory E) hvals part k h = None \<or>
      first_value (ev_memory E) hvals part k h = Some []"
    then show "\<exists>found buf. hp_GetOneInto (dym_headers E part) k out h = ((found, buf), h) \<and>
        (found \<longrightarrow> Len buf = 0)"
      using call [of k out d e]
      by (auto simp: h first_value_def ToUnsafeString_def envoyBufferToUnsafeEnvoyBuffer_def
          null_envoy_buffer_def read_mem_def unat_eq_zero split: list.splits if_splits)
  qed
qed

text \<open>The host of \<open>HeaderMap\<close> that keeps the contract, behind the other callbacks of \<open>E\<close>.\<close>

definition table_envoy :: "header_table envoy \<Rightarrow> header_table envoy" where
  "table_envoy E = E\<lparr>ev_headers := table_host, ev_memory := ht_mem\<rparr>"

lemma table_envoy_host: "header_host (ev_headers (table_envoy E)) table_vals (\<lambda>k. k)"
  by (simp add: table_envoy_def table_contract)

interpretation table_source: header_source "dym_headers (table_envoy E) part"
    "\<lambda>s. ev_memory (table_envoy E) (snd s)" "first_value (ev_memory (table_envoy E)) table_vals part"
  by (rule dym_header_source [OF table_envoy_host])

section \<open>Properties\<close>

text \<open>C38: over a host that keeps the contract of the ABI comment, any sequence of \<open>Header.Get\<close> calls of a
  request, under names in any spelling and repeated in any order, returns the first value the map holds
  under the lower-cased name each time (the empty string for an absent header), although a repeated
  read is answered from the cache; reading never changes the host.\<close>

theorem header_reads_agree_with_host:
  assumes "header_host (ev_headers E) hvals norm"
  shows "read_all (\<lambda>s. ev_memory E (snd s)) (dym_headers E part) ks (Header_reset hr, s) =
    (map (\<lambda>k. case first_value (ev_memory E) hvals part (asciiToLower k) s of None \<Rightarrow> [] | Some v \<Rightarrow> v) ks, s)"
  using header_source.read_all_values [OF dym_header_source [OF assms],
      where hr = "Header_reset hr" and h = s and ks = ks]
  by (simp add: header_source.text_at_def [OF dym_header_source [OF assms]] Header_reset_def)


theorem header_reads_agree_with_host_witness:
  "\<forall>E hr. let d = zero_handle;
       h = \<lparr>ht_mem = (\<lambda>a. if a < 20 then CHR ''x'' else CHR ''y''),
            ht_rows = [(''k'', \<lparr>eb_ptr = 10, eb_length = 2\<rparr>), (''n'', \<lparr>eb_ptr = 30, eb_length = 1\<rparr>)]\<rparr>
   in fst (read_all (\<lambda>s. ev_memory (table_envoy E) (snd s)) (dym_headers (table_envoy E) requestHeaderMap)
        [''K'', ''n'', ''k'', ''z''] (Header_reset hr, (d, h))) = [''xx'', ''y'', ''xx'', []]"
proof (intro allI)
  fix E and hr
  have names: "asciiToLower ''K'' = ''k''" "asciiToLower ''n'' = ''n''" "asciiToLower ''k'' = ''k''"
    "asciiToLower ''z'' = ''z''" by code_simp+
  show "let d = zero_handle;
       h = \<lparr>ht_mem = (\<lambda>a. if a < 20 then CHR ''x'' else CHR ''y''),
            ht_rows = [(''k'', \<lparr>eb_ptr = 10, eb_length = 2\<rparr>), (''n'', \<lparr>eb_ptr = 30, eb_length = 1\<rparr>)]\<rparr>
   in fst (read_all (\<lambda>s. ev_memory (table_envoy E) (snd s)) (dym_headers (table_envoy E) requestHeaderMap)
        [''K'', ''n'', ''k'', ''z''] (Header_reset hr, (d, h))) = [''xx'', ''y'', ''xx'', []]"
    unfolding Let_def header_reads_agree_with_host [OF table_envoy_host]
    by (simp add: names first_value_def table_vals_def table_envoy_def
        ToUnsafeString_def envoyBufferToUnsafeEnvoyBuffer_def read_mem_def upt_rec)
qed

text \<open>C39: \<open>Request.Body\<close>, written out in package sahl, is \<open>utility.ReadWholeRequestBody\<close> over every host:
  the same bytes, the same calls in the same order and the same panic for a size no slice can have.\<close>

theorem Body_is_ReadWholeRequestBody:
  "req_Body (\<lambda>p. dym_api E) r (d, e) =
     go_bind (ReadWholeRequestBody (ev_memory E) (ev_body E) d e) (\<lambda>(body, e'). Ret (body, d, e'))"
  by (auto simp: req_Body_def readBody_def ReadWholeRequestBody_def getBodyContent_def dym_api_def dym_view_def
      dym_body_def lift_res_def Let_def split: prod.splits)

end
