(* ===== verification/SahlFilter.thy ===== *)
theory SahlFilter
  imports SahlWriter SahlRequest HttpHooks
begin

text \<open>
  \<open>sahlFilter\<close> of package sahl (filter.go) and its response observer (response.go): the hooks of one
  filter over a world that holds the pooled filters, requests and writers of the process, the goroutines
  the handlers started, and the state \<open>'h\<close> behind the handles. The code of the filter author is given to
  a hook as the list of calls it makes, so that every handler is covered.
\<close>

section \<open>Data\<close>

record filterDef =
  fd_configFn :: "objref option"
  fd_factoryFn :: "objref option"
  fd_handler :: "objref option"
  fd_responseFn :: "objref option"
  fd_bodyAware :: bool
  fd_mutableResponse :: bool

text \<open>\<open>Headers\<close> is the response header map or nil, \<open>Context\<close> a pointer to the slot beside the chunk or nil.\<close>

record ResponseChunk =
  ck_StatusCode :: i64
  ck_ContentType :: gostring
  ck_ResponseFlags :: gostring
  ck_Headers :: bool
  ck_Data :: "bytes option"
  ck_EndStream :: bool
  ck_Context :: bool

record responseState =
  rs_chunk :: ResponseChunk
  rs_ctx :: "objref option"

definition responseState_reset :: "responseState \<Rightarrow> responseState" where
  "responseState_reset s = s\<lparr>rs_ctx := None, rs_chunk := \<lparr>ck_StatusCode = 0, ck_ContentType = [],
     ck_ResponseFlags = [], ck_Headers = False, ck_Data = None, ck_EndStream = False, ck_Context = False\<rparr>\<rparr>"

record sahlFilter =
  sf_name :: gostring
  sf_handler :: "filterDef option"
  sf_handle :: ptr
  sf_req :: "ptr option"
  sf_writer :: "ptr option"
  sf_respState :: responseState
  sf_bodyDone :: bool
  sf_streamDone :: bool

definition zero_filter :: sahlFilter where
  "zero_filter = \<lparr>sf_name = [], sf_handler = None, sf_handle = 0, sf_req = None, sf_writer = None,
     sf_respState = responseState_reset \<lparr>rs_chunk = \<lparr>ck_StatusCode = 0, ck_ContentType = [],
       ck_ResponseFlags = [], ck_Headers = False, ck_Data = None, ck_EndStream = False, ck_Context = False\<rparr>,
       rs_ctx = None\<rparr>,
     sf_bodyDone = False, sf_streamDone = False\<rparr>"

section \<open>The world\<close>

text \<open>
  A goroutine runs the code given to \<open>Go\<close>; when that returns, the goroutine cancels its context and
  schedules a flush on the worker thread, which Envoy runs later. It keeps the pointer to the writer.
\<close>

datatype go_phase = GoRunning | GoScheduled | GoFlushed

record goroutine =
  gr_ctx :: objref
  gr_writer :: ptr
  gr_handle :: ptr
  gr_phase :: go_phase

text \<open>What the code of the filter author was called with.\<close>

datatype user_call =
    CallHandler objref
  | CallResponse objref ResponseChunk
  | CallContinuation objref u32 "(UnsafeEnvoyBuffer \<times> UnsafeEnvoyBuffer) list" "UnsafeEnvoyBuffer list"
  | CallStreamEvent objref HTTPStreamEvent

record 'h sahl_world =
  sl_filters :: "ptr \<rightharpoonup> sahlFilter"
  sl_requests :: "ptr \<rightharpoonup> Request"
  sl_writers :: "ptr \<rightharpoonup> Writer"
  sl_filterPool :: "ptr list"
  sl_requestPool :: "ptr list"
  sl_writerPool :: "ptr list"
  sl_gos :: "goroutine list"
  sl_cancelled :: "objref list"
  sl_calls :: "(ptr \<times> user_call) list"
  sl_host :: 'h

definition set_filter :: "ptr \<Rightarrow> sahlFilter \<Rightarrow> 'h sahl_world \<Rightarrow> 'h sahl_world" where
  "set_filter p f W = W\<lparr>sl_filters := (sl_filters W)(p \<mapsto> f)\<rparr>"

definition set_request :: "ptr \<Rightarrow> Request \<Rightarrow> 'h sahl_world \<Rightarrow> 'h sahl_world" where
  "set_request p r W = W\<lparr>sl_requests := (sl_requests W)(p \<mapsto> r)\<rparr>"

definition set_writer :: "ptr \<Rightarrow> Writer \<Rightarrow> 'h sahl_world \<Rightarrow> 'h sahl_world" where
  "set_writer p w W = W\<lparr>sl_writers := (sl_writers W)(p \<mapsto> w)\<rparr>"

definition log_call :: "ptr \<Rightarrow> user_call \<Rightarrow> 'h sahl_world \<Rightarrow> 'h sahl_world" where
  "log_call handle c W = W\<lparr>sl_calls := sl_calls W @ [(handle, c)]\<rparr>"

definition nil_dereference :: gostring where
  "nil_dereference = ''runtime error: invalid memory address or nil pointer dereference''"

definition filter_at :: "ptr \<Rightarrow> 'h sahl_world \<Rightarrow> sahlFilter go" where
  "filter_at p W = (case sl_filters W p of None \<Rightarrow> Panic nil_dereference | Some f \<Rightarrow> Ret f)"

definition writer_at :: "ptr option \<Rightarrow> 'h sahl_world \<Rightarrow> Writer go" where
  "writer_at p W = (case Option.bind p (sl_writers W) of None \<Rightarrow> Panic nil_dereference | Some w \<Rightarrow> Ret w)"

definition request_at :: "ptr option \<Rightarrow> 'h sahl_world \<Rightarrow> Request go" where
  "request_at p W = (case Option.bind p (sl_requests W) of None \<Rightarrow> Panic nil_dereference | Some r \<Rightarrow> Ret r)"

definition def_of :: "sahlFilter \<Rightarrow> filterDef go" where
  "def_of f = (case sf_handler f of None \<Rightarrow> Panic nil_dereference | Some d \<Rightarrow> Ret d)"

text \<open>\<open>sync.Pool\<close>: the choice is any pooled element, or the address of a new object.\<close>

definition newSahlFilter ::
    "pool_choice \<Rightarrow> gostring \<Rightarrow> filterDef \<Rightarrow> ptr \<Rightarrow> 'h sahl_world \<Rightarrow> (ptr \<times> 'h sahl_world) go" where
  "newSahlFilter choice name def handle W =
     (let (p, W1) = (case choice of
            Reuse q \<Rightarrow> (q, W\<lparr>sl_filterPool := remove1 q (sl_filterPool W)\<rparr>)
          | Fresh q \<Rightarrow> (q, set_filter q zero_filter W))
      in go_bind (filter_at p W1) (\<lambda>f.
           if sf_handler f \<noteq> None
           then Panic ''BUG: sahl: filter pool corruption: handler still set at reuse''
           else Ret (p, set_filter p (f\<lparr>sf_name := name, sf_handler := Some def, sf_handle := handle,
                  sf_bodyDone := False, sf_streamDone := False\<rparr>) W1)))"

definition getRequest :: "pool_choice \<Rightarrow> 'h sahl_world \<Rightarrow> ptr \<times> 'h sahl_world" where
  "getRequest choice W =
     (case choice of
        Reuse q \<Rightarrow> (q, W\<lparr>sl_requestPool := remove1 q (sl_requestPool W)\<rparr>)
      | Fresh q \<Rightarrow> (q, set_request q zero_request W))"

definition putRequest :: "ptr \<Rightarrow> 'h sahl_world \<Rightarrow> 'h sahl_world" where
  "putRequest p W = W\<lparr>sl_requestPool := p # sl_requestPool W\<rparr>"

definition getWriter ::
    "pool_choice \<Rightarrow> ptr \<Rightarrow> bool \<Rightarrow> 'h sahl_world \<Rightarrow> (ptr \<times> 'h sahl_world) go" where
  "getWriter choice handle sched W =
     (let (q, W1) = (case choice of
            Reuse q \<Rightarrow> (q, W\<lparr>sl_writerPool := remove1 q (sl_writerPool W)\<rparr>)
          | Fresh q \<Rightarrow> (q, set_writer q zero_writer W))
      in go_bind (writer_at (Some q) W1) (\<lambda>w. Ret (q, set_writer q (w_reset w handle sched) W1)))"

definition putWriter :: "ptr \<Rightarrow> 'h sahl_world \<Rightarrow> 'h sahl_world" where
  "putWriter p W = W\<lparr>sl_writerPool := p # sl_writerPool W\<rparr>"

section \<open>Running the code of the filter author\<close>

text \<open>A handler reads its request and calls its writer.\<close>

datatype hop =
    OnWriter wop
  | GetHeader gostring | PeekHeader gostring | GetAllHeaders | ReadBody
  | LogRequest u32 gostring "go_any list" | LogRequestAttrs u32 gostring "(gostring \<times> gostring) list"

fun apply_hop ::
    "(ptr \<Rightarrow> 'h handle_api) \<Rightarrow> go_runtime \<Rightarrow> hop \<Rightarrow> Writer \<times> Request \<times> 'h \<Rightarrow> (Writer \<times> Request \<times> 'h) go" where
  "apply_hop A rt (OnWriter op) (w, r, h) = go_bind (apply_wop A rt op (w, h)) (\<lambda>(w', h'). Ret (w', r, h'))"
| "apply_hop A rt (GetHeader k) (w, r, h) =
     (let V = ha_view (A (rq_handle r));
          (_, hr, h') = Header_Get (ha_memory V) (ha_RequestHeaders V) k (rq_Header r, h)
      in Ret (w, r\<lparr>rq_Header := hr\<rparr>, h'))"
| "apply_hop A rt (PeekHeader k) (w, r, h) =
     (let V = ha_view (A (rq_handle r));
          (_, hr, h') = Header_Peek (ha_memory V) (ha_RequestHeaders V) k (rq_Header r, h)
      in Ret (w, r\<lparr>rq_Header := hr\<rparr>, h'))"
| "apply_hop A rt GetAllHeaders (w, r, h) =
     Ret (w, r, snd (Header_GetAll (ha_RequestHeaders (ha_view (A (rq_handle r)))) h))"
| "apply_hop A rt ReadBody (w, r, h) = go_bind (req_Body A r h) (\<lambda>(_, h'). Ret (w, r, h'))"
| "apply_hop A rt (LogRequest l f args) (w, r, h) = Ret (w, r, req_Log A l f args r h)"
| "apply_hop A rt (LogRequestAttrs l m attrs) (w, r, h) = Ret (w, r, req_LogAttrs A l m attrs r h)"

fun run_hops ::
    "(ptr \<Rightarrow> 'h handle_api) \<Rightarrow> go_runtime \<Rightarrow> hop list \<Rightarrow> Writer \<times> Request \<times> 'h \<Rightarrow> (Writer \<times> Request \<times> 'h) go" where
  "run_hops A rt [] st = Ret st"
| "run_hops A rt (op # ops) st = go_bind (apply_hop A rt op st) (run_hops A rt ops)"

text \<open>\<open>Go\<close> starts at most one goroutine between two resets of a writer: it is the one seen afterwards.\<close>

definition started_by :: "ptr \<Rightarrow> Writer \<Rightarrow> Writer \<Rightarrow> goroutine list" where
  "started_by wp w w' =
     (case wr_goCancel w' of
        Some ctx \<Rightarrow> if wr_goStarted w' \<and> \<not> wr_goStarted w
          then [\<lparr>gr_ctx = ctx, gr_writer = wp, gr_handle = wr_handle w', gr_phase = GoRunning\<rparr>] else []
      | None \<Rightarrow> [])"

definition run_handler ::
    "(ptr \<Rightarrow> 'h handle_api) \<Rightarrow> go_runtime \<Rightarrow> ptr option \<Rightarrow> ptr option \<Rightarrow> hop list \<Rightarrow> 'h sahl_world \<Rightarrow>
      'h sahl_world go" where
  "run_handler A rt wp rp ops W =
     go_bind (writer_at wp W) (\<lambda>w. go_bind (request_at rp W) (\<lambda>r.
     go_bind (run_hops A rt ops (w, r, sl_host W)) (\<lambda>(w', r', h').
       Ret (set_request (the rp) r' (set_writer (the wp) w' W)\<lparr>sl_host := h',
         sl_gos := sl_gos W @ started_by (the wp) w w'\<rparr>))))"

text \<open>Code that is given the writer only; without calls it does not matter whether the writer is nil.\<close>

definition run_on_writer ::
    "(ptr \<Rightarrow> 'h handle_api) \<Rightarrow> go_runtime \<Rightarrow> ptr option \<Rightarrow> wop list \<Rightarrow> 'h sahl_world \<Rightarrow> 'h sahl_world go" where
  "run_on_writer A rt wp ops W =
     (if ops = [] then Ret W
      else go_bind (writer_at wp W) (\<lambda>w.
           go_bind (run_wops A rt ops (w, sl_host W)) (\<lambda>(w', h').
             Ret (set_writer (the wp) w' W\<lparr>sl_host := h', sl_gos := sl_gos W @ started_by (the wp) w w'\<rparr>))))"

definition flush_writer ::
    "(ptr \<Rightarrow> 'h handle_api) \<Rightarrow> bool \<Rightarrow> ptr option \<Rightarrow> 'h sahl_world \<Rightarrow> 'h sahl_world go" where
  "flush_writer A continueReq wp W =
     go_bind (writer_at wp W) (\<lambda>w. Ret (W\<lparr>sl_host := w_flush A continueReq w (sl_host W)\<rparr>))"

section \<open>The request path\<close>

text \<open>
  The header map of the hook is the request header map of the handle. \<open>calloutCB\<close> and \<open>streamCB\<close> hold the
  filter itself.
\<close>

definition acquire ::
    "(ptr \<Rightarrow> 'h handle_api) \<Rightarrow> ptr \<Rightarrow> pool_choice \<Rightarrow> pool_choice \<Rightarrow> sahlFilter \<Rightarrow> 'h sahl_world \<Rightarrow>
      (ptr \<times> ptr \<times> 'h sahl_world) go" where
  "acquire A fp rc wc f W =
     (let a = A (sf_handle f);
          W1 = W\<lparr>sl_host := ha_GetScheduler (ha_control a) (sl_host W)\<rparr>;
          (rp, W2) = getRequest rc W1
      in go_bind (request_at (Some rp) W2) (\<lambda>r.
         (let (r', h) = req_reset (ha_memory (ha_view a)) (ha_RequestHeaders (ha_view a)) (sf_handle f)
                (sf_name f) (r, sl_host W2);
              W3 = (set_request rp r' W2)\<lparr>sl_host := h\<rparr>
          in go_bind (getWriter wc (sf_handle f) True W3) (\<lambda>(wp, W4).
             go_bind (writer_at (Some wp) W4) (\<lambda>w.
               Ret (rp, wp, set_writer wp (w\<lparr>wr_calloutCB := Some (unat fp), wr_streamCB := Some (unat fp)\<rparr>)
                 (set_filter fp (f\<lparr>sf_req := Some rp, sf_writer := Some wp\<rparr>) W4)))))))"

definition sahl_OnRequestHeaders ::
    "(ptr \<Rightarrow> 'h handle_api) \<Rightarrow> go_runtime \<Rightarrow> ptr \<Rightarrow> pool_choice \<Rightarrow> pool_choice \<Rightarrow> hop list \<Rightarrow> 'h sahl_world \<Rightarrow>
      (HeadersStatus \<times> 'h sahl_world) go" where
  "sahl_OnRequestHeaders A rt fp rc wc ops W =
     go_bind (filter_at fp W) (\<lambda>f.
     go_bind (acquire A fp rc wc f W) (\<lambda>(rp, wp, W5).
     go_bind (def_of f) (\<lambda>d.
       if fd_bodyAware d then Ret (HeadersStatusStopAllAndBuffer, W5)
       else case fd_handler d of
         None \<Rightarrow> Panic nil_dereference
       | Some fn \<Rightarrow>
           go_bind (run_handler A rt (Some wp) (Some rp) ops
             (log_call (sf_handle f) (CallHandler fn) W5)) (\<lambda>W6.
           go_bind (writer_at (Some wp) W6) (\<lambda>w'.
             if wr_goStarted w' \<or> wr_calloutStarted w' \<or> wr_streamStarted w'
             then Ret (HeadersStatusStop, W6)
             else if \<not> wr_responded w'
             then go_bind (flush_writer A False (Some wp) W6) (\<lambda>W7. Ret (HeadersStatusContinue, W7))
             else Ret (HeadersStatusStop, W6))))))"

definition sahl_OnRequestBody ::
    "(ptr \<Rightarrow> 'h handle_api) \<Rightarrow> go_runtime \<Rightarrow> ptr \<Rightarrow> bool \<Rightarrow> hop list \<Rightarrow> 'h sahl_world \<Rightarrow>
      (BodyStatus \<times> 'h sahl_world) go" where
  "sahl_OnRequestBody A rt fp endStream ops W =
     go_bind (filter_at fp W) (\<lambda>f0.
     (let f = (if endStream then f0\<lparr>sf_bodyDone := True\<rparr> else f0);
          W1 = set_filter fp f W
      in go_bind (def_of f) (\<lambda>d.
         if fd_bodyAware d \<and> endStream
         then case fd_handler d of
             None \<Rightarrow> Panic nil_dereference
           | Some fn \<Rightarrow>
               go_bind (run_handler A rt (sf_writer f) (sf_req f) ops
                 (log_call (sf_handle f) (CallHandler fn) W1)) (\<lambda>W2.
               go_bind (writer_at (sf_writer f) W2) (\<lambda>w.
                 if \<not> wr_responded w
                 then go_bind (flush_writer A False (sf_writer f) W2) (\<lambda>W3. Ret (BodyStatusContinue, W3))
                 else Ret (BodyStatusContinue, W2)))
         else if fd_bodyAware d then Ret (BodyStatusStopAndBuffer, W1)
         else Ret (BodyStatusContinue, W1))))"

section \<open>The response path\<close>

text \<open>\<open>int\<close> has 64 bits: the conversion wraps for absurdly long status strings.\<close>

fun parse_digits :: "i64 \<Rightarrow> gostring \<Rightarrow> i64" where
  "parse_digits n [] = n"
| "parse_digits n (c # cs) =
     (if byte_val c < 48 \<or> 57 < byte_val c then n
      else parse_digits (n * 10 + of_nat (byte_val c - 48)) cs)"

definition parseStatus :: "gostring \<Rightarrow> i64" where
  "parseStatus s = parse_digits 0 s"

text \<open>The three header reads; each into a buffer of its own.\<close>

definition read_response_headers ::
    "('h \<Rightarrow> mem) \<Rightarrow> 'h header_api \<Rightarrow> ResponseChunk \<Rightarrow> 'h \<Rightarrow> ResponseChunk \<times> 'h" where
  "read_response_headers memory H ck h =
     (let ((found1, b1), h1) = hp_GetOneInto H '':status'' empty_buffer h;
          ck1 = (if found1 \<and> Len b1 > 0
                 then ck\<lparr>ck_StatusCode := parseStatus (ToUnsafeString (memory h1) b1)\<rparr> else ck);
          ((found2, b2), h2) = hp_GetOneInto H ''content-type'' empty_buffer h1;
          ck2 = (if found2 \<and> Len b2 > 0 then ck1\<lparr>ck_ContentType := ToString (memory h2) b2\<rparr> else ck1);
          ((found3, b3), h3) = hp_GetOneInto H ''x-envoy-response-flags'' empty_buffer h2
      in (if found3 \<and> Len b3 > 0 then ck2\<lparr>ck_ResponseFlags := ToString (memory h3) b3\<rparr> else ck2, h3))"

definition onResponseHeaders ::
    "(ptr \<Rightarrow> 'h handle_api) \<Rightarrow> go_runtime \<Rightarrow> 'h header_api \<Rightarrow> ptr \<Rightarrow> filterDef \<Rightarrow> objref \<Rightarrow> wop list \<Rightarrow>
      sahlFilter \<Rightarrow> 'h sahl_world \<Rightarrow> 'h sahl_world go" where
  "onResponseHeaders A rt H fp d fn ops f W =
     (let (ck, h1) = read_response_headers (ha_memory (ha_view (A (sf_handle f)))) H
            (rs_chunk (sf_respState f)) (sl_host W);
          h2 = (if fd_mutableResponse d then hp_Remove H ''content-length'' h1 else h1);
          ck' = ck\<lparr>ck_Data := None, ck_EndStream := False, ck_Headers := True, ck_Context := True\<rparr>;
          W1 = (set_filter fp (f\<lparr>sf_respState := (sf_respState f)\<lparr>rs_chunk := ck'\<rparr>\<rparr>) W)\<lparr>sl_host := h2\<rparr>
      in run_on_writer A rt (sf_writer f) ops (log_call (sf_handle f) (CallResponse fn ck') W1))"

definition sahl_OnResponseHeaders ::
    "(ptr \<Rightarrow> 'h handle_api) \<Rightarrow> go_runtime \<Rightarrow> 'h header_api \<Rightarrow> ptr \<Rightarrow> wop list \<Rightarrow> 'h sahl_world \<Rightarrow>
      (HeadersStatus \<times> 'h sahl_world) go" where
  "sahl_OnResponseHeaders A rt H fp ops W =
     go_bind (filter_at fp W) (\<lambda>f. go_bind (def_of f) (\<lambda>d.
       case fd_responseFn d of
         Some fn \<Rightarrow> go_bind (onResponseHeaders A rt H fp d fn ops f W) (\<lambda>W1. Ret (HeadersStatusContinue, W1))
       | None \<Rightarrow> Ret (HeadersStatusContinue, W)))"

definition onResponseBody ::
    "(ptr \<Rightarrow> 'h handle_api) \<Rightarrow> go_runtime \<Rightarrow> 'h body_api \<Rightarrow> ptr \<Rightarrow> bool \<Rightarrow> objref \<Rightarrow> wop list \<Rightarrow>
      sahlFilter \<Rightarrow> 'h sahl_world \<Rightarrow> 'h sahl_world go" where
  "onResponseBody A rt B fp endStream fn ops f W =
     (let (chunks, h1) = bp_GetChunks B (sl_host W);
          data = (case chunks of [] \<Rightarrow> Some []
                  | c # _ \<Rightarrow> ToUnsafeBytes (ha_memory (ha_view (A (sf_handle f))) h1) c);
          ck = (rs_chunk (sf_respState f))\<lparr>ck_Data := data, ck_EndStream := endStream, ck_Headers := False,
                 ck_Context := True\<rparr>;
          W1 = (set_filter fp (f\<lparr>sf_respState := (sf_respState f)\<lparr>rs_chunk := ck\<rparr>\<rparr>) W)\<lparr>sl_host := h1\<rparr>
      in run_on_writer A rt (sf_writer f) ops (log_call (sf_handle f) (CallResponse fn ck) W1))"

definition sahl_OnResponseBody ::
    "(ptr \<Rightarrow> 'h handle_api) \<Rightarrow> go_runtime \<Rightarrow> 'h body_api \<Rightarrow> ptr \<Rightarrow> bool \<Rightarrow> wop list \<Rightarrow> 'h sahl_world \<Rightarrow>
      (BodyStatus \<times> 'h sahl_world) go" where
  "sahl_OnResponseBody A rt B fp endStream ops W =
     go_bind (filter_at fp W) (\<lambda>f. go_bind (def_of f) (\<lambda>d.
     go_bind (case fd_responseFn d of
         Some fn \<Rightarrow> onResponseBody A rt B fp endStream fn ops f W
       | None \<Rightarrow> Ret W) (\<lambda>W1.
       if fd_mutableResponse d \<and> \<not> endStream then Ret (BodyStatusStopAndBuffer, W1)
       else Ret (BodyStatusContinue, W1))))"

definition sahl_OnLocalReply ::
    "(ptr \<Rightarrow> 'h handle_api) \<Rightarrow> ptr \<Rightarrow> UnsafeEnvoyBuffer \<Rightarrow> 'h sahl_world \<Rightarrow>
      (LocalReplyStatus \<times> 'h sahl_world) go" where
  "sahl_OnLocalReply A fp details W =
     go_bind (filter_at fp W) (\<lambda>f.
       case sf_writer f of
         None \<Rightarrow> Ret (LocalReplyStatusContinue, W)
       | Some wp \<Rightarrow>
           if Len details > 0
           then go_bind (writer_at (Some wp) W) (\<lambda>w.
                  Ret (LocalReplyStatusContinue, set_writer wp (w\<lparr>wr_localReplyDetails :=
                    ToString (ha_memory (ha_view (A (sf_handle f))) (sl_host W)) details\<rparr>) W))
           else Ret (LocalReplyStatusContinue, W))"

section \<open>Completions\<close>

definition sahl_OnHttpCalloutDone ::
    "(ptr \<Rightarrow> 'h handle_api) \<Rightarrow> go_runtime \<Rightarrow> ptr \<Rightarrow> u32 \<Rightarrow> (UnsafeEnvoyBuffer \<times> UnsafeEnvoyBuffer) list \<Rightarrow>
      UnsafeEnvoyBuffer list \<Rightarrow> wop list \<Rightarrow> 'h sahl_world \<Rightarrow> 'h sahl_world go" where
  "sahl_OnHttpCalloutDone A rt fp result headers body ops W =
     go_bind (filter_at fp W) (\<lambda>f.
       if sf_streamDone f then Ret W
       else case sf_writer f of
         None \<Rightarrow> Ret W
       | Some wp \<Rightarrow>
           go_bind (writer_at (Some wp) W) (\<lambda>w.
             case wr_calloutFn w of
               None \<Rightarrow> Ret W
             | Some fn \<Rightarrow>
                 go_bind (run_on_writer A rt (Some wp) ops
                   (log_call (sf_handle f) (CallContinuation fn result headers body)
                     (set_writer wp (w\<lparr>wr_calloutFn := None\<rparr>) W))) (\<lambda>W1.
                 flush_writer A True (Some wp) W1)))"

text \<open>\<open>OnHttpStreamHeaders\<close>, \<open>OnHttpStreamData\<close> and \<open>OnHttpStreamTrailers\<close> differ in the event they pass on.\<close>

definition sahl_stream_event ::
    "(ptr \<Rightarrow> 'h handle_api) \<Rightarrow> go_runtime \<Rightarrow> ptr \<Rightarrow> HTTPStreamEvent \<Rightarrow> wop list \<Rightarrow> 'h sahl_world \<Rightarrow>
      'h sahl_world go" where
  "sahl_stream_event A rt fp ev ops W =
     go_bind (filter_at fp W) (\<lambda>f.
       case sf_writer f of
         None \<Rightarrow> Ret W
       | Some wp \<Rightarrow>
           go_bind (writer_at (Some wp) W) (\<lambda>w.
             case wr_streamEventFn w of
               None \<Rightarrow> Ret W
             | Some fn \<Rightarrow> run_on_writer A rt (Some wp) ops (log_call (sf_handle f) (CallStreamEvent fn ev) W)))"

definition sahl_OnHttpStreamHeaders ::
    "(ptr \<Rightarrow> 'h handle_api) \<Rightarrow> go_runtime \<Rightarrow> ptr \<Rightarrow> u64 \<Rightarrow> (UnsafeEnvoyBuffer \<times> UnsafeEnvoyBuffer) list \<Rightarrow>
      bool \<Rightarrow> wop list \<Rightarrow> 'h sahl_world \<Rightarrow> 'h sahl_world go" where
  "sahl_OnHttpStreamHeaders A rt fp i headers eos =
     sahl_stream_event A rt fp (HTTPStreamHeaders i headers eos)"

definition sahl_OnHttpStreamData ::
    "(ptr \<Rightarrow> 'h handle_api) \<Rightarrow> go_runtime \<Rightarrow> ptr \<Rightarrow> u64 \<Rightarrow> UnsafeEnvoyBuffer list \<Rightarrow> bool \<Rightarrow> wop list \<Rightarrow>
      'h sahl_world \<Rightarrow> 'h sahl_world go" where
  "sahl_OnHttpStreamData A rt fp i body eos = sahl_stream_event A rt fp (HTTPStreamData i body eos)"

definition sahl_OnHttpStreamTrailers ::
    "(ptr \<Rightarrow> 'h handle_api) \<Rightarrow> go_runtime \<Rightarrow> ptr \<Rightarrow> u64 \<Rightarrow> (UnsafeEnvoyBuffer \<times> UnsafeEnvoyBuffer) list \<Rightarrow>
      wop list \<Rightarrow> 'h sahl_world \<Rightarrow> 'h sahl_world go" where
  "sahl_OnHttpStreamTrailers A rt fp i trailers = sahl_stream_event A rt fp (HTTPStreamTrailers i trailers)"

definition clear_event_fn :: "ptr \<Rightarrow> 'h sahl_world \<Rightarrow> 'h sahl_world go" where
  "clear_event_fn wp W =
     go_bind (writer_at (Some wp) W) (\<lambda>w. Ret (set_writer wp (w\<lparr>wr_streamEventFn := None\<rparr>) W))"

definition sahl_OnHttpStreamComplete ::
    "(ptr \<Rightarrow> 'h handle_api) \<Rightarrow> go_runtime \<Rightarrow> ptr \<Rightarrow> u64 \<Rightarrow> wop list \<Rightarrow> 'h sahl_world \<Rightarrow> 'h sahl_world go" where
  "sahl_OnHttpStreamComplete A rt fp i ops W =
     go_bind (filter_at fp W) (\<lambda>f.
       if sf_streamDone f then Ret W
       else case sf_writer f of
         None \<Rightarrow> Ret W
       | Some wp \<Rightarrow>
           go_bind (writer_at (Some wp) W) (\<lambda>w.
           go_bind (case wr_streamEventFn w of
               None \<Rightarrow> Ret W
             | Some fn \<Rightarrow> go_bind (run_on_writer A rt (Some wp) ops
                 (log_call (sf_handle f) (CallStreamEvent fn (HTTPStreamComplete i)) W)) (clear_event_fn wp)) (\<lambda>W1.
           flush_writer A True (Some wp) W1)))"

definition sahl_OnHttpStreamReset ::
    "(ptr \<Rightarrow> 'h handle_api) \<Rightarrow> go_runtime \<Rightarrow> ptr \<Rightarrow> u64 \<Rightarrow> u32 \<Rightarrow> wop list \<Rightarrow> 'h sahl_world \<Rightarrow>
      'h sahl_world go" where
  "sahl_OnHttpStreamReset A rt fp i reason ops W =
     go_bind (filter_at fp W) (\<lambda>f.
       if sf_streamDone f then Ret W
       else case sf_writer f of
         None \<Rightarrow> Ret W
       | Some wp \<Rightarrow>
           go_bind (writer_at (Some wp) W) (\<lambda>w.
             case wr_streamEventFn w of
               None \<Rightarrow> Ret W
             | Some fn \<Rightarrow>
                 go_bind (go_bind (run_on_writer A rt (Some wp) ops
                   (log_call (sf_handle f) (CallStreamEvent fn (HTTPStreamReset i reason)) W)) (clear_event_fn wp)) (\<lambda>W1.
                 go_bind (writer_at (Some wp) W1) (\<lambda>w1. flush_writer A (\<not> wr_responded w1) (Some wp) W1))))"

section \<open>Goroutines\<close>

definition nth_go :: "nat \<Rightarrow> 'h sahl_world \<Rightarrow> goroutine option" where
  "nth_go i W = (if i < length (sl_gos W) then Some (sl_gos W ! i) else None)"

definition set_phase :: "nat \<Rightarrow> go_phase \<Rightarrow> 'h sahl_world \<Rightarrow> 'h sahl_world" where
  "set_phase i ph W = W\<lparr>sl_gos := (sl_gos W)[i := (sl_gos W ! i)\<lparr>gr_phase := ph\<rparr>]\<rparr>"

text \<open>A step of the code of a running goroutine, its return, and the closure it scheduled.\<close>

definition go_calls ::
    "(ptr \<Rightarrow> 'h handle_api) \<Rightarrow> go_runtime \<Rightarrow> nat \<Rightarrow> wop list \<Rightarrow> 'h sahl_world \<Rightarrow> 'h sahl_world go" where
  "go_calls A rt i ops W =
     (case nth_go i W of
        None \<Rightarrow> Ret W
      | Some g \<Rightarrow> if gr_phase g = GoRunning then run_on_writer A rt (Some (gr_writer g)) ops W else Ret W)"

definition go_returns :: "(ptr \<Rightarrow> 'h handle_api) \<Rightarrow> nat \<Rightarrow> 'h sahl_world \<Rightarrow> 'h sahl_world" where
  "go_returns A i W =
     (case nth_go i W of
        None \<Rightarrow> W
      | Some g \<Rightarrow>
          if gr_phase g = GoRunning
          then (set_phase i GoScheduled W)\<lparr>
                 sl_host := ha_Schedule (ha_control (A (gr_handle g))) (Some (gr_ctx g)) (sl_host W),
                 sl_cancelled := sl_cancelled W @ [gr_ctx g]\<rparr>
          else W)"

definition go_flush :: "(ptr \<Rightarrow> 'h handle_api) \<Rightarrow> nat \<Rightarrow> 'h sahl_world \<Rightarrow> 'h sahl_world go" where
  "go_flush A i W =
     (case nth_go i W of
        None \<Rightarrow> Ret W
      | Some g \<Rightarrow>
          if gr_phase g = GoScheduled then flush_writer A True (Some (gr_writer g)) (set_phase i GoFlushed W)
          else Ret W)"

section \<open>The end of a request\<close>

definition sahl_OnStreamComplete ::
    "(ptr \<Rightarrow> 'h handle_api) \<Rightarrow> ptr \<Rightarrow> 'h sahl_world \<Rightarrow> 'h sahl_world go" where
  "sahl_OnStreamComplete A fp W =
     go_bind (filter_at fp W) (\<lambda>f0.
     (let f = f0\<lparr>sf_streamDone := True\<rparr>;
          W1 = set_filter fp f W
      in case sf_writer f of
           None \<Rightarrow> Ret W1
         | Some wp \<Rightarrow>
             go_bind (writer_at (Some wp) W1) (\<lambda>w.
             (let (w1, h1) = (if Option.bind (sf_handler f) fd_responseFn \<noteq> None
                    then w_flushResponseMutations A (w, sl_host W1) else (w, sl_host W1));
                  W2 = (set_writer wp w1 W1)\<lparr>sl_host := h1\<rparr>
              in case wr_goCancel w1 of
                   None \<Rightarrow> Ret W2
                 | Some ctx \<Rightarrow> Ret (W2\<lparr>sl_cancelled := sl_cancelled W2 @ [ctx]\<rparr>)))))"

definition sahl_OnDestroy :: "ptr \<Rightarrow> 'h sahl_world \<Rightarrow> 'h sahl_world go" where
  "sahl_OnDestroy fp W =
     go_bind (filter_at fp W) (\<lambda>f.
     (let W1 = (case sf_req f of None \<Rightarrow> W | Some rp \<Rightarrow> putRequest rp W);
          W2 = (case sf_writer f of None \<Rightarrow> W1 | Some wp \<Rightarrow> putWriter wp W1)
      in Ret ((set_filter fp (f\<lparr>sf_req := None, sf_writer := None,
           sf_respState := responseState_reset (sf_respState f), sf_handler := None\<rparr>) W2)\<lparr>
             sl_filterPool := fp # sl_filterPool W2\<rparr>)))"

end
