(* ===== verification/SahlConfig.thy ===== *)
theory SahlConfig
  imports SahlFilter ConfigHandle Registry
begin

text \<open>
  Registration and configuration of sahl filters (sahl.go, and the factories of filter.go): the registry
  of definitions, the middleware chain, the configuration handle and \<open>configFactory.Create\<close>.
\<close>

section \<open>Middleware\<close>

text \<open>A handler is anything here; a middleware takes a handler and returns one.\<close>

fun chain_from :: "nat \<Rightarrow> ('f \<Rightarrow> 'f) list \<Rightarrow> 'f \<Rightarrow> 'f" where
  "chain_from 0 mw h = h"
| "chain_from (Suc i) mw h = chain_from i mw ((mw ! i) h)"

definition Chain :: "'f \<Rightarrow> ('f \<Rightarrow> 'f) list \<Rightarrow> 'f" where
  "Chain h mw = chain_from (length mw) mw h"

lemma chain_from_foldr: "i \<le> length mw \<Longrightarrow> chain_from i mw h = foldr (\<lambda>m h. m h) (take i mw) h"
  by (induction i arbitrary: h) (simp_all add: take_Suc_conv_app_nth)

lemma Chain_foldr: "Chain h mw = foldr (\<lambda>m h. m h) mw h"
  by (simp add: Chain_def chain_from_foldr)

section \<open>The registry\<close>

definition mustAdd :: "gostring \<Rightarrow> filterDef \<Rightarrow> (gostring \<rightharpoonup> filterDef) \<Rightarrow> (gostring \<rightharpoonup> filterDef) go" where
  "mustAdd name def registry =
     (case registry name of
        Some _ \<Rightarrow> Panic (''BUG: sahl filter '' @ name @ '' registered twice'')
      | None \<Rightarrow> Ret (registry(name \<mapsto> def)))"

definition zero_def :: filterDef where
  "zero_def = \<lparr>fd_configFn = None, fd_factoryFn = None, fd_handler = None, fd_responseFn = None,
     fd_bodyAware = False, fd_mutableResponse = False\<rparr>"

definition sahl_Register ::
    "gostring \<Rightarrow> objref option \<Rightarrow> (gostring \<rightharpoonup> filterDef) \<Rightarrow> (gostring \<rightharpoonup> filterDef) go" where
  "sahl_Register name h = mustAdd name (zero_def\<lparr>fd_handler := h\<rparr>)"

definition RegisterWithConfig ::
    "gostring \<Rightarrow> objref option \<Rightarrow> objref option \<Rightarrow> (gostring \<rightharpoonup> filterDef) \<Rightarrow> (gostring \<rightharpoonup> filterDef) go" where
  "RegisterWithConfig name configFn h = mustAdd name (zero_def\<lparr>fd_configFn := configFn, fd_handler := h\<rparr>)"

definition RegisterWithResponse ::
    "gostring \<Rightarrow> objref option \<Rightarrow> objref option \<Rightarrow> (gostring \<rightharpoonup> filterDef) \<Rightarrow> (gostring \<rightharpoonup> filterDef) go" where
  "RegisterWithResponse name h resp = mustAdd name (zero_def\<lparr>fd_handler := h, fd_responseFn := resp\<rparr>)"

definition RegisterWithConfigAndResponse ::
    "gostring \<Rightarrow> objref option \<Rightarrow> objref option \<Rightarrow> objref option \<Rightarrow> (gostring \<rightharpoonup> filterDef) \<Rightarrow>
      (gostring \<rightharpoonup> filterDef) go" where
  "RegisterWithConfigAndResponse name configFn h resp =
     mustAdd name (zero_def\<lparr>fd_configFn := configFn, fd_handler := h, fd_responseFn := resp\<rparr>)"

definition RegisterWithBody ::
    "gostring \<Rightarrow> objref option \<Rightarrow> (gostring \<rightharpoonup> filterDef) \<Rightarrow> (gostring \<rightharpoonup> filterDef) go" where
  "RegisterWithBody name h = mustAdd name (zero_def\<lparr>fd_handler := h, fd_bodyAware := True\<rparr>)"

definition RegisterWithBodyConfigAndResponse ::
    "gostring \<Rightarrow> objref option \<Rightarrow> objref option \<Rightarrow> objref option \<Rightarrow> (gostring \<rightharpoonup> filterDef) \<Rightarrow>
      (gostring \<rightharpoonup> filterDef) go" where
  "RegisterWithBodyConfigAndResponse name configFn h resp =
     mustAdd name (zero_def\<lparr>fd_configFn := configFn, fd_handler := h, fd_responseFn := resp, fd_bodyAware := True\<rparr>)"

definition RegisterWithBodyAndResponse ::
    "gostring \<Rightarrow> objref option \<Rightarrow> objref option \<Rightarrow> (gostring \<rightharpoonup> filterDef) \<Rightarrow> (gostring \<rightharpoonup> filterDef) go" where
  "RegisterWithBodyAndResponse name h resp =
     mustAdd name (zero_def\<lparr>fd_handler := h, fd_responseFn := resp, fd_bodyAware := True\<rparr>)"

definition RegisterWithMutableResponse ::
    "gostring \<Rightarrow> objref option \<Rightarrow> objref option \<Rightarrow> (gostring \<rightharpoonup> filterDef) \<Rightarrow> (gostring \<rightharpoonup> filterDef) go" where
  "RegisterWithMutableResponse name h resp =
     mustAdd name (zero_def\<lparr>fd_handler := h, fd_responseFn := resp, fd_mutableResponse := True\<rparr>)"

definition RegisterFactory ::
    "gostring \<Rightarrow> objref option \<Rightarrow> (gostring \<rightharpoonup> filterDef) \<Rightarrow> (gostring \<rightharpoonup> filterDef) go" where
  "RegisterFactory name factoryFn = mustAdd name (zero_def\<lparr>fd_factoryFn := factoryFn\<rparr>)"

section \<open>The configuration handle\<close>

record 'h config_api =
  ca_DefineCounter :: "gostring \<Rightarrow> gostring list \<Rightarrow> 'h \<Rightarrow> (u64 \<times> u32) \<times> 'h"
  ca_DefineHistogram :: "gostring \<Rightarrow> gostring list \<Rightarrow> 'h \<Rightarrow> (u64 \<times> u32) \<times> 'h"
  ca_Log :: "u32 \<Rightarrow> gostring \<Rightarrow> go_any list \<Rightarrow> 'h \<Rightarrow> 'h"

definition dym_config_api ::
    "'h host_metrics_1 \<Rightarrow> 'h host_metrics_2 \<Rightarrow> 'h host_log \<Rightarrow> go_runtime \<Rightarrow> dymConfigHandle \<Rightarrow> 'h config_api" where
  "dym_config_api T T2 G rt c = \<lparr>
     ca_DefineCounter = cf_DefineCounter T rt c,
     ca_DefineHistogram = cf_DefineHistogram T2 rt c,
     ca_Log = cf_Log G rt c\<rparr>"

definition MetricsSuccess_value :: u32 where
  "MetricsSuccess_value = of_nat (MetricsResult_value MetricsSuccess)"

definition impl_DefineCounter ::
    "'h config_api \<Rightarrow> go_runtime \<Rightarrow> gostring \<Rightarrow> gostring list \<Rightarrow> 'h \<Rightarrow> (u64 \<times> gostring option) \<times> 'h" where
  "impl_DefineCounter C rt name tagKeys h =
     (let ((i, res), h1) = ca_DefineCounter C name tagKeys h
      in if res \<noteq> MetricsSuccess_value
         then ((0, Some (Sprintf rt ''sahl: DefineCounter %q failed (result=%d)'' [AnyString name, AnyUint32 res])), h1)
         else ((i, None), h1))"

definition impl_DefineHistogram ::
    "'h config_api \<Rightarrow> go_runtime \<Rightarrow> gostring \<Rightarrow> gostring list \<Rightarrow> 'h \<Rightarrow> (u64 \<times> gostring option) \<times> 'h" where
  "impl_DefineHistogram C rt name tagKeys h =
     (let ((i, res), h1) = ca_DefineHistogram C name tagKeys h
      in if res \<noteq> MetricsSuccess_value
         then ((0, Some (Sprintf rt ''sahl: DefineHistogram %q failed (result=%d)''
                 [AnyString name, AnyUint32 res])), h1)
         else ((i, None), h1))"

definition impl_Log :: "'h config_api \<Rightarrow> u32 \<Rightarrow> gostring \<Rightarrow> go_any list \<Rightarrow> 'h \<Rightarrow> 'h" where
  "impl_Log C level format args h = ca_Log C level format args h"

text \<open>The calls the configuration code of a filter makes on its handle (\<open>RawConfig\<close> only reads).\<close>

datatype config_op =
    OpDefineCounter gostring "gostring list" | OpDefineHistogram gostring "gostring list"
  | OpLog u32 gostring "go_any list"

fun apply_config_op :: "'h config_api \<Rightarrow> go_runtime \<Rightarrow> config_op \<Rightarrow> 'h \<Rightarrow> 'h" where
  "apply_config_op C rt (OpDefineCounter n ks) h = snd (impl_DefineCounter C rt n ks h)"
| "apply_config_op C rt (OpDefineHistogram n ks) h = snd (impl_DefineHistogram C rt n ks h)"
| "apply_config_op C rt (OpLog l f args) h = impl_Log C l f args h"

section \<open>Configurations\<close>

record configFactory =
  cy_name :: gostring
  cy_def :: filterDef

definition newConfigFactory :: "gostring \<Rightarrow> filterDef \<Rightarrow> configFactory" where
  "newConfigFactory name def = \<lparr>cy_name = name, cy_def = def\<rparr>"

record filterFactory =
  ff_name :: gostring
  ff_def :: filterDef

definition LogLevelError_value :: u32 where
  "LogLevelError_value = of_nat (position LogLevelError LogLevel_iota)"

text \<open>
  \<open>code\<close> is what the function it is given to (the factory function or the configuration function) does:
  the calls on the handle, the handler and the error it returns.
\<close>

definition configFactory_Create ::
    "'h config_api \<Rightarrow> go_runtime \<Rightarrow> (objref \<Rightarrow> config_op list \<times> objref option \<times> gostring option) \<Rightarrow>
      configFactory \<Rightarrow> 'h \<Rightarrow> ((filterFactory option \<times> gostring option) \<times> 'h) go" where
  "configFactory_Create C rt code f h =
     (let d = cy_def f;
          def = zero_def\<lparr>fd_handler := fd_handler d, fd_responseFn := fd_responseFn d,
                  fd_bodyAware := fd_bodyAware d, fd_mutableResponse := fd_mutableResponse d\<rparr>;
          finish = (\<lambda>def h. case fd_handler def of
              None \<Rightarrow> Panic (Sprintf rt ''BUG: sahl: filter %q registered with nil handler'' [AnyString (cy_name f)])
            | Some _ \<Rightarrow> Ret ((Some \<lparr>ff_name = cy_name f, ff_def = def\<rparr>, None), h))
      in case fd_factoryFn d of
           Some fac \<Rightarrow>
             (let (ops, fn, err) = code fac; h1 = fold (apply_config_op C rt) ops h
              in case err of
                   Some e \<Rightarrow> Ret ((None, Some e), ca_Log C LogLevelError_value
                     ''sahl: filter %q factory failed: %v'' [AnyString (cy_name f), AnyError e] h1)
                 | None \<Rightarrow>
                     (case fn of
                        None \<Rightarrow>
                          (let e = Sprintf rt ''sahl: filter %q factory returned nil handler'' [AnyString (cy_name f)]
                           in Ret ((None, Some e), ca_Log C LogLevelError_value ''%v'' [AnyError e] h1))
                      | Some hf \<Rightarrow> finish (def\<lparr>fd_handler := Some hf\<rparr>) h1))
         | None \<Rightarrow>
             (case fd_configFn d of
                Some cfg \<Rightarrow>
                  (let (ops, _, err) = code cfg; h1 = fold (apply_config_op C rt) ops h
                   in case err of
                        Some e \<Rightarrow> Ret ((None, Some e), ca_Log C LogLevelError_value
                          ''sahl: filter %q config failed: %v'' [AnyString (cy_name f), AnyError e] h1)
                      | None \<Rightarrow> finish def h1)
              | None \<Rightarrow> finish def h))"

definition configFactory_CreatePerRoute :: "bytes option \<Rightarrow> objref option \<times> gostring option" where
  "configFactory_CreatePerRoute raw = (None, None)"

definition filterFactory_Create ::
    "pool_choice \<Rightarrow> filterFactory \<Rightarrow> ptr \<Rightarrow> 'h sahl_world \<Rightarrow> (ptr \<times> 'h sahl_world) go" where
  "filterFactory_Create choice f handle W = newSahlFilter choice (ff_name f) (ff_def f) handle W"

definition sahl_Factory :: "objref option \<Rightarrow> configFactory" where
  "sahl_Factory h = newConfigFactory [] (zero_def\<lparr>fd_handler := h\<rparr>)"

text \<open>\<open>Factories\<close> ranges over the registry in some order.\<close>

fun build_factories :: "(gostring \<times> filterDef) list \<Rightarrow> (gostring \<rightharpoonup> configFactory) \<Rightarrow> (gostring \<rightharpoonup> configFactory)" where
  "build_factories [] out = out"
| "build_factories ((name, def) # es) out = build_factories es (out(name \<mapsto> newConfigFactory name def))"

definition sahl_Factories :: "(gostring \<times> filterDef) list \<Rightarrow> (gostring \<rightharpoonup> configFactory)" where
  "sahl_Factories es = build_factories es Map.empty"

lemma build_factories_at:
  "distinct (map fst es) \<Longrightarrow> build_factories es out name =
     (case map_of es name of None \<Rightarrow> out name | Some def \<Rightarrow> Some (newConfigFactory name def))"
proof (induction es arbitrary: out)
  case Nil
  then show ?case by simp
next
  case (Cons e es)
  obtain n d where e: "e = (n, d)" by force
  with Cons.prems have "map_of es n = None" by (simp add: map_of_eq_None_iff)
  with Cons e show ?case by (cases "name = n") (auto split: option.splits)
qed

text \<open>The handler and the error that the configuration of \<open>d\<close> should come to.\<close>

definition config_result ::
    "filterDef \<Rightarrow> (objref \<Rightarrow> config_op list \<times> objref option \<times> gostring option) \<Rightarrow>
      objref option \<times> gostring option" where
  "config_result d code = (case fd_factoryFn d of
       Some fac \<Rightarrow> snd (code fac)
     | None \<Rightarrow> (fd_handler d, case fd_configFn d of None \<Rightarrow> None | Some cfg \<Rightarrow> snd (snd (code cfg))))"

section \<open>Properties\<close>

text \<open>A chain of middlewares runs them in the order they are written, the first outermost, around the
  handler, and leaves them in the opposite order: with middlewares that record entry and exit the record
  is the entries, the handler and the reversed exits. (The comment of \<open>Chain\<close> says the last runs first.)\<close>

theorem Chain_runs_in_written_order:
  "Chain (\<lambda>tr. tr @ [h]) (map (\<lambda>(i, out) next tr. next (tr @ [i]) @ [out]) ms) tr =
     tr @ map fst ms @ [h] @ rev (map snd ms)"
  unfolding Chain_foldr by (induction ms arbitrary: tr) (auto simp: case_prod_beta)

text \<open>C40: loading the configuration of a registered sahl filter. It panics exactly when the filter was
  registered without a handler and without a factory function, unless its configuration function returned
  an error first. Otherwise it fails exactly when the factory or configuration function returns an error
  or the factory function no handler; and when it succeeds, the filters of the configuration run the
  handler of the factory function if there is one, else the registered one, with the registered observer
  and modes.\<close>

theorem sahl_config_outcome:
  assumes "sahl_Factories es name = Some f" "range_order es registry" "registry name = Some d"
  shows "if fd_factoryFn d = None \<and> fd_handler d = None \<and> snd (config_result d code) = None
    then configFactory_Create C rt code f h =
      Panic (Sprintf rt ''BUG: sahl: filter %q registered with nil handler'' [AnyString name])
    else \<exists>r h'. configFactory_Create C rt code f h = Ret (r, h') \<and>
      (snd r = None \<longleftrightarrow> snd (config_result d code) = None \<and> fst (config_result d code) \<noteq> None) \<and>
      (snd r = None \<longrightarrow> fst r = Some \<lparr>ff_name = name, ff_def = zero_def\<lparr>fd_handler := fst (config_result d code),
         fd_responseFn := fd_responseFn d, fd_bodyAware := fd_bodyAware d,
         fd_mutableResponse := fd_mutableResponse d\<rparr>\<rparr>) \<and>
      (snd r \<noteq> None \<longrightarrow> fst r = None)"
proof -
  from assms have f: "f = newConfigFactory name d"
    by (auto simp: range_order_def sahl_Factories_def build_factories_at)
  show ?thesis
    by (auto simp: f newConfigFactory_def configFactory_Create_def config_result_def Let_def case_prod_beta
        split: option.splits)
qed


theorem sahl_config_outcome_witness:
  "let C = \<lparr>ca_DefineCounter = (\<lambda>n ks h. ((7, 0), h)), ca_DefineHistogram = (\<lambda>n ks h. ((8, 0), h)),
         ca_Log = (\<lambda>l f args h. Suc h)\<rparr>;
       d = zero_def\<lparr>fd_factoryFn := Some 1, fd_bodyAware := True\<rparr>
   in \<forall>rt. \<exists>h'. configFactory_Create C rt (\<lambda>_. ([OpDefineCounter ''n'' []], Some 5, None))
        (newConfigFactory ''a'' d) 0 =
        Ret ((Some \<lparr>ff_name = ''a'', ff_def = zero_def\<lparr>fd_handler := Some 5, fd_bodyAware := True\<rparr>\<rparr>, None), h')"
proof -
  have *: "range_order [(''a'', d)] [''a'' \<mapsto> d]" for d :: filterDef
    by (simp add: range_order_def fun_eq_iff)
  show ?thesis
    unfolding Let_def
  proof
    fix rt
    let ?d = "zero_def\<lparr>fd_factoryFn := Some 1, fd_bodyAware := True\<rparr>"
    let ?f = "newConfigFactory ''a'' ?d"
    have "sahl_Factories [(''a'', ?d)] ''a'' = Some ?f" by (simp add: sahl_Factories_def)
    from sahl_config_outcome [OF this *, of ?d "\<lambda>_. ([OpDefineCounter ''n'' []], Some 5, None)"
        "\<lparr>ca_DefineCounter = (\<lambda>n ks h. ((7, 0), h)), ca_DefineHistogram = (\<lambda>n ks h. ((8, 0), h)),
          ca_Log = (\<lambda>l f args h. Suc h)\<rparr>" rt 0]
    show "\<exists>h'. configFactory_Create \<lparr>ca_DefineCounter = (\<lambda>n ks h. ((7, 0), h)),
        ca_DefineHistogram = (\<lambda>n ks h. ((8, 0), h)), ca_Log = (\<lambda>l f args h. Suc h)\<rparr> rt
        (\<lambda>_. ([OpDefineCounter ''n'' []], Some 5, None)) ?f 0 =
      Ret ((Some \<lparr>ff_name = ''a'', ff_def = zero_def\<lparr>fd_handler := Some 5, fd_bodyAware := True\<rparr>\<rparr>, None), h')"
      by (auto simp: config_result_def zero_def_def prod_eq_iff)
  qed
qed

end
