(* ===== verification/SahlOutcome.thy ===== *)
theory SahlOutcome
  imports SahlFilter
begin

text \<open>
  What a writer promises: the abstract state of a request is the list of calls its code has made on the
  writer so far, the outcome a function of that list (\<open>outcome_calls\<close>): either one local response, or
  the queued mutations in order and one resumption. \<open>tracks\<close> relates a writer and the calls the
  handle has received to such a list; every operation of the writer keeps it and \<open>flush\<close> completes it.
\<close>

section \<open>The abstract outcome\<close>

fun is_async :: "wop \<Rightarrow> bool" where
  "is_async (WGo _) = True"
| "is_async (WHTTPCallout _ _ _) = True"
| "is_async (WHTTPStream _ _ _) = True"
| "is_async _ = False"

text \<open>Calls the handle calls back from before they return.\<close>

fun completes_inline :: "wop \<Rightarrow> bool" where
  "completes_inline (WHTTPCallout _ _ (Some _)) = True"
| "completes_inline (WHTTPStream _ _ (_ # _)) = True"
| "completes_inline _ = False"

definition no_inline :: "wop list \<Rightarrow> bool" where
  "no_inline ops \<longleftrightarrow> list_all (\<lambda>op. \<not> completes_inline op) ops"

lemma no_inline_simps [simp]:
  "no_inline []" "no_inline (op # ops) \<longleftrightarrow> \<not> completes_inline op \<and> no_inline ops"
  "no_inline (ops @ ops') \<longleftrightarrow> no_inline ops \<and> no_inline ops'"
  by (simp_all add: no_inline_def)

lemma completes_inline_async: "completes_inline op \<Longrightarrow> is_async op"
  by (cases op) simp_all

lemma sync_no_inline [simp]: "list_all (\<lambda>op. \<not> is_async op) ops \<Longrightarrow> no_inline ops"
  using completes_inline_async by (auto simp: no_inline_def list_all_iff)

fun is_send :: "wop \<Rightarrow> bool" where
  "is_send (WSend _ _) = True"
| "is_send (WSendBytes _ _) = True"
| "is_send _ = False"

text \<open>The operations before the first \<open>Send\<close>, and what each kind queues.\<close>

fun until_send :: "wop list \<Rightarrow> wop list" where
  "until_send [] = []"
| "until_send (op # ops) = (if is_send op then [] else op # until_send ops)"

fun response_header :: "wop \<Rightarrow> (gostring \<times> gostring) list" where
  "response_header (WSetResponseHeader k v) = [(k, v)]"
| "response_header _ = []"

fun request_header :: "wop \<Rightarrow> (gostring \<times> gostring) list" where
  "request_header (WSetRequestHeader k v) = [(k, v)]"
| "request_header _ = []"

fun metadata_entry :: "wop \<Rightarrow> (gostring \<times> gostring \<times> go_any) list" where
  "metadata_entry (WSetMetadata ns k v) = [(ns, k, v)]"
| "metadata_entry _ = []"

fun metric_entry :: "wop \<Rightarrow> counterMut list" where
  "metric_entry (WIncrementCounter i n tags) = [\<lparr>cm_id = i, cm_n = n, cm_tags = tags, cm_hist = False\<rparr>]"
| "metric_entry (WRecordHistogram i n tags) = [\<lparr>cm_id = i, cm_n = n, cm_tags = tags, cm_hist = True\<rparr>]"
| "metric_entry _ = []"

definition queued :: "(wop \<Rightarrow> 'a list) \<Rightarrow> wop list \<Rightarrow> 'a list" where
  "queued f ops = concat (map f ops)"

text \<open>The response the first \<open>Send\<close> makes, with the response headers queued before it.\<close>

fun send_args :: "wop \<Rightarrow> (u32 \<times> bytes option) option" where
  "send_args (WSend status body) = Some (ucast status, Some body)"
| "send_args (WSendBytes status body) = Some (ucast status, body)"
| "send_args _ = None"

definition answer :: "wop list \<Rightarrow> localResponseMut option" where
  "answer ops =
     (case find is_send ops of
        None \<Rightarrow> None
      | Some op \<Rightarrow> (case send_args op of
          None \<Rightarrow> None
        | Some (status, body) \<Rightarrow> Some \<lparr>lr_statusCode = status,
            lr_headers = queued response_header (until_send ops), lr_body = body\<rparr>))"

fun metric_call :: "counterMut \<Rightarrow> handle_call" where
  "metric_call m = (if cm_hist m then CHistogram (cm_id m) (cm_n m) (cm_tags m)
     else CCounter (cm_id m) (cm_n m) (cm_tags m))"

definition response_call :: "localResponseMut \<Rightarrow> handle_call" where
  "response_call r = CLocalResponse (lr_statusCode r) (lr_headers r) (lr_body r) ''sahl''"

definition outcome_calls :: "bool \<Rightarrow> wop list \<Rightarrow> handle_call list" where
  "outcome_calls continueReq ops =
     (case answer ops of
        Some r \<Rightarrow> [response_call r]
      | None \<Rightarrow>
          map (\<lambda>(k, v). CSetHeader k v) (queued request_header ops) @
          map (\<lambda>(ns, k, v). CSetMetadata ns k v) (queued metadata_entry ops) @
          (if WClearRouteCache \<in> set ops then [CClearRouteCache] else []) @
          map metric_call (queued metric_entry ops) @
          (if continueReq then [CContinue] else []))"

section \<open>Traces\<close>

text \<open>The calls of one handle on the request path; starting a callout and editing the response are not.\<close>

fun on_request_path :: "handle_call \<Rightarrow> bool" where
  "on_request_path (CCallout _) = False"
| "on_request_path (CStream _) = False"
| "on_request_path (CDrainResponse _) = False"
| "on_request_path (CAppendResponse _) = False"
| "on_request_path _ = True"

definition calls_of :: "ptr \<Rightarrow> (ptr \<times> handle_call) list \<Rightarrow> handle_call list" where
  "calls_of p tr = map snd (filter (\<lambda>(q, c). q = p \<and> on_request_path c) tr)"

lemma calls_of_append [simp]: "calls_of p (tr @ tr') = calls_of p tr @ calls_of p tr'"
  by (simp add: calls_of_def)

lemma calls_of_simps [simp]:
  "calls_of p [] = []"
  "calls_of p ((q, c) # tr) = (if q = p \<and> on_request_path c then c # calls_of p tr else calls_of p tr)"
  by (simp_all add: calls_of_def)

lemma calls_of_Pair: "calls_of p (map (Pair q) cs) = (if p = q then filter on_request_path cs else [])"
  by (induction cs) auto

section \<open>Flushing\<close>

definition flush_calls :: "bool \<Rightarrow> Writer \<Rightarrow> handle_call list" where
  "flush_calls continueReq w =
     (case wr_localResp w of
        Some r \<Rightarrow> [response_call r]
      | None \<Rightarrow> if wr_responded w then []
          else map (\<lambda>(k, v). CSetHeader k v) (wr_reqMuts w) @
            map (\<lambda>(ns, k, v). CSetMetadata ns k v) (wr_metaMuts w) @
            (if wr_routeCleared w then [CClearRouteCache] else []) @
            map metric_call (wr_counterMuts w) @ (if continueReq then [CContinue] else []))"

lemma set_headers_trace:
  "fst (set_headers (traced A p) muts s) = fst s @ map (Pair p) (map (\<lambda>(k, v). CSetHeader k v) muts)"
proof (induction muts arbitrary: s)
  case Nil
  then show ?case by (simp add: set_headers_def)
next
  case (Cons m muts)
  from Cons.IH [of "hp_Set (ha_RequestHeaders (ha_view (traced A p))) (fst m) (snd m) s"]
  show ?case by (cases m) (simp add: set_headers_def trace_defs)
qed

lemma set_metas_trace:
  "fst (set_metas (traced A p) muts s) = fst s @ map (Pair p) (map (\<lambda>(ns, k, v). CSetMetadata ns k v) muts)"
proof (induction muts arbitrary: s)
  case Nil
  then show ?case by (simp add: set_metas_def)
next
  case (Cons m muts)
  from Cons.IH [of "ha_SetMetadata (ha_control (traced A p)) (fst m) (fst (snd m)) (snd (snd m)) s"]
  show ?case by (cases m) (simp add: set_metas_def trace_defs)
qed

lemma count_trace:
  "fst (foldl (count_one (traced A p)) s muts) = fst s @ map (Pair p) (map metric_call muts)"
proof (induction muts arbitrary: s)
  case Nil
  then show ?case by simp
next
  case (Cons m muts)
  from Cons.IH [of "count_one (traced A p) s m"] show ?case by (simp add: count_one_def trace_defs)
qed

lemma flush_trace:
  "fst (w_flush (traced A) c w s) = fst s @ map (Pair (wr_handle w)) (flush_calls c w)"
proof (cases "wr_localResp w")
  case (Some r)
  then show ?thesis by (simp add: w_flush_def flush_calls_def response_call_def trace_defs)
next
  case None
  have route: "fst (ha_ClearRouteCache (ha_control (traced A p)) s) = fst s @ [(p, CClearRouteCache)]"
    and cont: "fst (ha_ContinueRequest (ha_control (traced A p)) s) = fst s @ [(p, CContinue)]" for p s
    by (simp_all add: trace_defs)
  from None show ?thesis
    by (simp add: w_flush_def flush_calls_def Let_def set_headers_trace set_metas_trace count_trace route cont)
qed

section \<open>The simulation\<close>

definition tracks :: "Writer \<Rightarrow> handle_call list \<Rightarrow> wop list \<Rightarrow> bool" where
  "tracks w cs ops \<longleftrightarrow>
     wr_responded w = (answer ops \<noteq> None) \<and>
     (wr_localResp w = None \<or> wr_goStarted w) \<and>
     (answer ops = None \<longrightarrow> wr_respHdrMuts w = queued response_header ops \<and>
       wr_reqMuts w = queued request_header ops \<and> wr_metaMuts w = queued metadata_entry ops) \<and>
     wr_counterMuts w = queued metric_entry ops \<and>
     wr_routeCleared w = (WClearRouteCache \<in> set ops) \<and>
     (case wr_localResp w of
        Some r \<Rightarrow> answer ops = Some r \<and> cs = []
      | None \<Rightarrow> cs = (case answer ops of None \<Rightarrow> [] | Some r \<Rightarrow> [response_call r]))"

lemma queued_simps [simp]: "queued f [] = []" "queued f (ops @ ops') = queued f ops @ queued f ops'"
    "queued f [op] = f op"
  by (simp_all add: queued_def)

lemma send_args_is_send: "send_args op = None \<longleftrightarrow> \<not> is_send op"
  by (cases op) simp_all

lemma answer_None: "answer ops = None \<longleftrightarrow> (\<forall>op\<in>set ops. \<not> is_send op)"
  using send_args_is_send
  by (auto simp: answer_def find_None_iff split: option.splits dest!: find_Some_iff [THEN iffD1])

lemma until_send_all: "answer ops = None \<Longrightarrow> until_send ops = ops"
  unfolding answer_None by (induction ops) auto

lemma find_append: "find P (xs @ ys) = (case find P xs of None \<Rightarrow> find P ys | Some x \<Rightarrow> Some x)"
  by (induction xs) auto

lemma until_send_append: "\<exists>op\<in>set ops. is_send op \<Longrightarrow> until_send (ops @ ops') = until_send ops"
  by (induction ops) auto

lemma answer_Some_append: "answer ops = Some r \<Longrightarrow> answer (ops @ ops') = Some r"
proof -
  assume a: "answer ops = Some r"
  then have "\<exists>op\<in>set ops. is_send op" using answer_None by (metis option.distinct(1))
  then have "until_send (ops @ ops') = until_send ops" by (rule until_send_append)
  with a show ?thesis by (auto simp: answer_def find_append split: option.splits)
qed

lemma answer_snoc:
  "answer ops = None \<Longrightarrow> answer (ops @ [op]) =
     (case send_args op of None \<Rightarrow> None
      | Some (status, body) \<Rightarrow> Some \<lparr>lr_statusCode = status, lr_headers = queued response_header ops, lr_body = body\<rparr>)"
proof -
  assume a: "answer ops = None"
  then have f: "find is_send ops = None" by (auto simp: answer_None find_None_iff)
  have u: "until_send (ops @ [op]) = (if is_send op then ops else ops @ [op])"
    using a unfolding answer_None by (induction ops) auto
  from f u show ?thesis
    using send_args_is_send [of op]
    by (cases "is_send op") (auto simp: answer_def find_append split: option.splits)
qed

lemma answer_Nil [simp]: "answer [] = None"
  by (simp add: answer_def)

lemma flush_completes:
  "tracks w cs ops \<Longrightarrow> cs @ flush_calls c w = outcome_calls c ops"
  by (auto simp: tracks_def flush_calls_def outcome_calls_def split: option.splits)

lemma tracks_reset: "tracks (w_reset w p sched) [] []"
  by (simp add: tracks_def w_reset_def answer_None)

text \<open>Operations that only touch fields the relation does not mention.\<close>

lemma tracks_cong:
  "wr_responded w' = wr_responded w \<Longrightarrow> wr_respHdrMuts w' = wr_respHdrMuts w \<Longrightarrow> wr_reqMuts w' = wr_reqMuts w \<Longrightarrow>
   wr_metaMuts w' = wr_metaMuts w \<Longrightarrow> wr_counterMuts w' = wr_counterMuts w \<Longrightarrow>
   wr_routeCleared w' = wr_routeCleared w \<Longrightarrow> wr_localResp w' = wr_localResp w \<Longrightarrow>
   wr_goStarted w' = wr_goStarted w \<Longrightarrow> tracks w' cs ops = tracks w cs ops"
  by (simp add: tracks_def)

lemma tracks_responded: "tracks w cs ops \<Longrightarrow> wr_responded w \<longleftrightarrow> answer ops \<noteq> None"
  by (simp add: tracks_def)


lemma answer_no_send: "send_args op = None \<Longrightarrow> answer (ops @ [op]) = answer ops"
  by (cases "answer ops") (simp_all add: answer_snoc answer_Some_append)

lemma tracks_neutral:
  assumes "send_args op = None" "response_header op = []" "request_header op = []" "metadata_entry op = []"
    "metric_entry op = []" "op \<noteq> WClearRouteCache"
  shows "tracks w cs (ops @ [op]) = tracks w cs ops"
  using assms by (cases "wr_localResp w") (auto simp: tracks_def answer_no_send)

lemma SendBytes_tracks:
  assumes t: "tracks w cs ops" and op: "send_args op = Some (ucast status, body)"
    and run: "w_SendBytes (traced A) status body (w, s) = (w', s')"
  shows "\<exists>new. fst s' = fst s @ map (Pair (wr_handle w)) new \<and>
    tracks w' (cs @ filter on_request_path new) (ops @ [op]) \<and> wr_handle w' = wr_handle w"
proof -
  have none: "response_header op = []" "request_header op = []" "metadata_entry op = []" "metric_entry op = []"
      "op \<noteq> WClearRouteCache"
    using op by (cases op; simp)+
  show ?thesis
  proof (cases "answer ops")
    case (Some r)
    with t have "wr_responded w" by (simp add: tracks_def)
    with run have w': "w' = w" "s' = s" by (simp_all add: w_SendBytes_def)
    from t Some none have "tracks w cs (ops @ [op])"
      by (cases "wr_localResp w") (auto simp: tracks_def answer_Some_append)
    then show ?thesis unfolding w' by (intro exI [of _ "[]"]) simp
  next
    case None
    with t have w: "\<not> wr_responded w" "wr_respHdrMuts w = queued response_header ops" "wr_localResp w = None" "cs = []"
      by (auto simp: tracks_def split: option.splits)
    from None op have a: "answer (ops @ [op]) = Some \<lparr>lr_statusCode = ucast status,
        lr_headers = queued response_header ops, lr_body = body\<rparr>"
      by (simp add: answer_snoc)
    show ?thesis
    proof (cases "wr_goStarted w")
      case True
      with run w have "w' = w\<lparr>wr_responded := True, wr_localResp := Some \<lparr>lr_statusCode = ucast status,
          lr_headers = queued response_header ops, lr_body = body\<rparr>\<rparr>" "s' = s"
        by (auto simp: w_SendBytes_def)
      with t None w a none True show ?thesis
        by (intro exI [of _ "[]"]) (simp add: tracks_def)
    next
      case False
      with run w have "w' = w\<lparr>wr_responded := True\<rparr>"
        "fst s' = fst s @ [(wr_handle w, CLocalResponse (ucast status) (queued response_header ops) body ''sahl'')]"
        by (auto simp: w_SendBytes_def trace_defs Let_def)
      with t None w a none show ?thesis
        by (intro exI [of _ "[CLocalResponse (ucast status) (queued response_header ops) body ''sahl'']"])
          (simp add: tracks_def response_call_def)
    qed
  qed
qed

text \<open>An operation that queues: it changes one field, unless the request is answered.\<close>

lemma tracks_queue:
  assumes t: "tracks w cs ops" and "send_args op = None" "op \<noteq> WClearRouteCache"
    and w': "w' = (if wr_responded w then w\<lparr>wr_counterMuts := wr_counterMuts w @ metric_entry op\<rparr>
      else w\<lparr>wr_respHdrMuts := wr_respHdrMuts w @ response_header op,
        wr_reqMuts := wr_reqMuts w @ request_header op, wr_metaMuts := wr_metaMuts w @ metadata_entry op,
        wr_counterMuts := wr_counterMuts w @ metric_entry op\<rparr>)"
  shows "tracks w' cs (ops @ [op])"
  using assms by (cases "wr_localResp w") (auto simp: tracks_def answer_no_send)

text \<open>An operation that leaves the fields alone, with the calls it made.\<close>

lemma tracks_same:
  assumes "tracks w cs ops" "fst s' = fst s @ map (Pair (wr_handle w)) new" "filter on_request_path new = []"
    and "send_args op = None" "response_header op = []" "request_header op = []" "metadata_entry op = []"
      "metric_entry op = []" "op \<noteq> WClearRouteCache"
  shows "\<exists>new. fst s' = fst s @ map (Pair (wr_handle w)) new \<and>
    tracks w (cs @ filter on_request_path new) (ops @ [op]) \<and> wr_handle w = wr_handle w"
  using assms by (intro exI [of _ new]) (simp add: tracks_neutral)

lemma SetResponseBody_trace:
  "\<exists>new. w_SetResponseBody (traced A) b (w, s) = (w, s') \<longrightarrow>
    fst s' = fst s @ map (Pair (wr_handle w)) new \<and> filter on_request_path new = []"
  "\<exists>new. w_AppendResponseBody (traced A) b (w, s) = (w, s') \<longrightarrow>
    fst s' = fst s @ map (Pair (wr_handle w)) new \<and> filter on_request_path new = []"
proof -
  let ?B = "ha_BufferedResponseBody (ha_view (A (wr_handle w)))"
  show "\<exists>new. w_SetResponseBody (traced A) b (w, s) = (w, s') \<longrightarrow>
    fst s' = fst s @ map (Pair (wr_handle w)) new \<and> filter on_request_path new = []"
  proof (cases ?B)
    case None
    then show ?thesis by (intro exI [of _ "[]"]) (auto simp: w_SetResponseBody_def trace_defs)
  next
    case (Some B)
    then show ?thesis
      by (intro exI [of _ "[CDrainResponse (fst (bp_GetSize B (snd s))), CAppendResponse b]"])
        (auto simp: w_SetResponseBody_def trace_defs)
  qed
  show "\<exists>new. w_AppendResponseBody (traced A) b (w, s) = (w, s') \<longrightarrow>
    fst s' = fst s @ map (Pair (wr_handle w)) new \<and> filter on_request_path new = []"
  proof (cases ?B)
    case None
    then show ?thesis by (intro exI [of _ "[]"]) (auto simp: w_AppendResponseBody_def trace_defs)
  next
    case (Some B)
    then show ?thesis
      by (intro exI [of _ "[CAppendResponse b]"]) (auto simp: w_AppendResponseBody_def trace_defs)
  qed
qed


section \<open>Every operation keeps the relation\<close>

definition recorded :: "wop \<Rightarrow> wop list" where
  "recorded op = (if is_async op then [] else [op])"

lemma callout_call:
  "ha_HttpCallout (ha_control (traced A p)) c hs b t cb s =
     (fst (ha_HttpCallout (ha_control (A p)) c hs b t cb (snd s)), fst s @ [(p, CCallout c)],
      snd (ha_HttpCallout (ha_control (A p)) c hs b t cb (snd s)))"
  by (simp add: trace_defs)

lemma stream_call:
  "ha_StartHttpStream (ha_control (traced A p)) c hs b e t cb s =
     (fst (ha_StartHttpStream (ha_control (A p)) c hs b e t cb (snd s)), fst s @ [(p, CStream c)],
      snd (ha_StartHttpStream (ha_control (A p)) c hs b e t cb (snd s)))"
  by (simp add: trace_defs)

definition same_queue :: "Writer \<Rightarrow> Writer \<Rightarrow> bool" where
  "same_queue w' w \<longleftrightarrow> wr_handle w' = wr_handle w \<and> wr_responded w' = wr_responded w \<and>
     wr_respHdrMuts w' = wr_respHdrMuts w \<and> wr_reqMuts w' = wr_reqMuts w \<and> wr_metaMuts w' = wr_metaMuts w \<and>
     wr_counterMuts w' = wr_counterMuts w \<and> wr_routeCleared w' = wr_routeCleared w \<and>
     wr_localResp w' = wr_localResp w \<and> wr_goStarted w' = wr_goStarted w"

lemma same_queue_tracks: "same_queue w' w \<Longrightarrow> wr_handle w' = wr_handle w \<and> tracks w' cs ops = tracks w cs ops"
  by (simp add: same_queue_def tracks_def)

lemma callout_trace:
  assumes "w_HTTPCalloutE (traced A) rt req fn Ret (w, s) = Ret (r, w', s')"
  shows "fst s' = fst s @ map (Pair (wr_handle w)) [CCallout (cr_Cluster req)] \<and> wr_handle w' = wr_handle w \<and>
    tracks w' cs ops = tracks w cs ops"
proof -
  from assms have "fst s' = fst s @ [(wr_handle w, CCallout (cr_Cluster req))]" and "same_queue w' w"
    by (auto simp: w_HTTPCalloutE_def callout_call Let_def case_prod_beta same_queue_def split: if_splits)
  then show ?thesis by (simp add: same_queue_tracks)
qed

lemma stream_trace:
  assumes "w_HTTPStream (traced A) rt req fn Ret (w, s) = Ret (r, w', s')"
  shows "fst s' = fst s @ map (Pair (wr_handle w)) [CStream (sr_Cluster req)] \<and> wr_handle w' = wr_handle w \<and>
    tracks w' cs ops = tracks w cs ops"
proof -
  from assms have "fst s' = fst s @ [(wr_handle w, CStream (sr_Cluster req))]" and "same_queue w' w"
    by (auto simp: w_HTTPStream_def stream_call Let_def case_prod_beta same_queue_def split: if_splits)
  then show ?thesis by (simp add: same_queue_tracks)
qed

lemma apply_tracks:
  assumes t: "tracks w cs ops" and run: "apply_wop (traced A) rt op (w, s) = Ret (w', s')"
    and later: "\<not> completes_inline op"
  shows "\<exists>new. fst s' = fst s @ map (Pair (wr_handle w)) new \<and>
    tracks w' (cs @ filter on_request_path new) (ops @ recorded op) \<and> wr_handle w' = wr_handle w"
proof -
  note same = tracks_same [OF t, where new = "[]"]
  have body: "\<exists>new. fst s' = fst s @ map (Pair (wr_handle w)) new \<and>
      tracks w (cs @ filter on_request_path new) (ops @ [op]) \<and> wr_handle w = wr_handle w"
    if "\<exists>new. fst s' = fst s @ map (Pair (wr_handle w)) new \<and> filter on_request_path new = []"
      "op = WSetResponseBody b \<or> op = WAppendResponseBody b" for b
    using that tracks_same [OF t] by fastforce
  have queue: ?thesis
    if "send_args op = None" "op \<noteq> WClearRouteCache" "\<not> is_async op" "s' = s"
      "w' = (if wr_responded w then w\<lparr>wr_counterMuts := wr_counterMuts w @ metric_entry op\<rparr>
        else w\<lparr>wr_respHdrMuts := wr_respHdrMuts w @ response_header op,
          wr_reqMuts := wr_reqMuts w @ request_header op, wr_metaMuts := wr_metaMuts w @ metadata_entry op,
          wr_counterMuts := wr_counterMuts w @ metric_entry op\<rparr>)"
    using tracks_queue [OF t that(1,2,5)] that
    by (intro exI [of _ "[]"]) (auto simp: recorded_def)
  show ?thesis
  proof (cases op)
    case (WSend status body)
    with run SendBytes_tracks [OF t, of op status "Some body"] show ?thesis
      by (simp add: w_Send_def recorded_def)
  next
    case (WSendBytes status body)
    with run SendBytes_tracks [OF t, of op status body] show ?thesis by (simp add: recorded_def)
  next
    case (WSetResponseHeader k v)
    with run show ?thesis
      by (intro queue) (cases w; auto simp: w_SetResponseHeader_def)+
  next
    case (WSetRequestHeader k v)
    with run show ?thesis
      by (intro queue) (cases w; auto simp: w_SetRequestHeader_def)+
  next
    case (WSetMetadata ns k v)
    with run show ?thesis
      by (intro queue) (cases w; auto simp: w_SetMetadata_def)+
  next
    case WClearRouteCache
    have "tracks (w\<lparr>wr_routeCleared := True\<rparr>) cs (ops @ [WClearRouteCache])"
      using t by (cases "wr_localResp w") (auto simp: tracks_def answer_no_send)
    with run WClearRouteCache show ?thesis
      by (intro exI [of _ "[]"]) (auto simp: w_ClearRouteCache_def recorded_def)
  next
    case (WIncrementCounter i n tags)
    with run show ?thesis
      by (intro queue) (cases w; auto simp: w_IncrementCounter_def)+
  next
    case (WRecordHistogram i n tags)
    with run show ?thesis
      by (intro queue) (cases w; auto simp: w_RecordHistogram_def)+
  next
    case (WLog l f args)
    with run same [where s' = s' and s = s and op = op] show ?thesis by (auto simp: w_Log_def trace_defs recorded_def)
  next
    case (WSetResponseBody b)
    with run have "w_SetResponseBody (traced A) b (w, s) = (w, s')" "w' = w"
      by (auto simp: w_SetResponseBody_def case_prod_beta split: option.splits)
    with SetResponseBody_trace(1) [of A b w s s'] body [of b] WSetResponseBody show ?thesis
      by (auto simp: recorded_def)
  next
    case (WAppendResponseBody b)
    with run have "w_AppendResponseBody (traced A) b (w, s) = (w, s')" "w' = w"
      by (auto simp: w_AppendResponseBody_def split: option.splits)
    with SetResponseBody_trace(2) [of A b w s s'] body [of b] WAppendResponseBody show ?thesis
      by (auto simp: recorded_def)
  next
    case (WGo ctx)
    with run t show ?thesis
      by (intro exI [of _ "[]"]) (auto simp: w_Go_def recorded_def tracks_def split: if_splits)
  next
    case (WHTTPCallout req fn inl)
    with run later obtain r where "w_HTTPCalloutE (traced A) rt req fn Ret (w, s) = Ret (r, w', s')"
      by (cases inl) (auto simp: w_HTTPCallout_def go_bind_eq_Ret)
    with callout_trace [OF this, of cs ops] t WHTTPCallout show ?thesis
      by (intro exI [of _ "[CCallout (cr_Cluster req)]"]) (simp add: recorded_def)
  next
    case (WHTTPStream req fn evs)
    with run later obtain r where "w_HTTPStream (traced A) rt req fn Ret (w, s) = Ret (r, w', s')"
      by (cases evs) (auto simp: go_bind_eq_Ret)
    with stream_trace [OF this, of cs ops] t WHTTPStream show ?thesis
      by (intro exI [of _ "[CStream (sr_Cluster req)]"]) (simp add: recorded_def)
  next
    case (WStreamSend st b eos)
    with run same [where s' = s' and s = s and op = op] show ?thesis by (auto simp: hs_Send_def trace_defs recorded_def)
  next
    case (WStreamSendTrailers st trailers)
    with run same [where s' = s' and s = s and op = op] show ?thesis by (auto simp: hs_SendTrailers_def trace_defs recorded_def)
  next
    case (WStreamReset st)
    with run same [where s' = s' and s = s and op = op] show ?thesis by (auto simp: hs_Reset_def trace_defs recorded_def)
  qed
qed


section \<open>Runs\<close>

definition sync_part :: "wop list \<Rightarrow> wop list" where
  "sync_part ops = filter (\<lambda>op. \<not> is_async op) ops"

lemma sync_part_simps [simp]:
  "sync_part [] = []" "sync_part (op # ops) = recorded op @ sync_part ops"
  "sync_part (ops @ ops') = sync_part ops @ sync_part ops'"
  by (simp_all add: sync_part_def recorded_def)

lemma sync_part_all: "list_all (\<lambda>op. \<not> is_async op) ops \<Longrightarrow> sync_part ops = ops"
  by (simp add: sync_part_def list_all_iff)

text \<open>\<open>grows p s s'\<close>: the calls between the two states are all on handle \<open>p\<close>.\<close>

definition grows :: "ptr \<Rightarrow> 'h recorded \<Rightarrow> 'h recorded \<Rightarrow> handle_call list \<Rightarrow> bool" where
  "grows p s s' new \<longleftrightarrow> fst s' = fst s @ map (Pair p) new"

lemma grows_refl: "grows p s s []"
  by (simp add: grows_def)

lemma grows_trans: "grows p s s' new \<Longrightarrow> grows p s' s'' new' \<Longrightarrow> grows p s s'' (new @ new')"
  by (simp add: grows_def)

lemma grows_calls:
  "grows p s s' new \<Longrightarrow> calls_of q (fst s') = calls_of q (fst s) @ (if q = p then filter on_request_path new else [])"
  by (simp add: grows_def calls_of_Pair)

lemma run_wops_tracks:
  "tracks w cs ops0 \<Longrightarrow> run_wops (traced A) rt ops (w, s) = Ret (w', s') \<Longrightarrow> no_inline ops \<Longrightarrow>
   \<exists>new. grows (wr_handle w) s s' new \<and> tracks w' (cs @ filter on_request_path new) (ops0 @ sync_part ops) \<and>
     wr_handle w' = wr_handle w"
proof (induction ops arbitrary: w cs ops0 s)
  case Nil
  then show ?case by (intro exI [of _ "[]"]) (simp add: grows_refl)
next
  case (Cons op ops)
  then obtain w1 s1 where st: "apply_wop (traced A) rt op (w, s) = Ret (w1, s1)"
      "run_wops (traced A) rt ops (w1, s1) = Ret (w', s')"
    by (auto simp: go_bind_eq_Ret)
  from apply_tracks [OF Cons.prems(1) st(1)] Cons.prems(3) obtain n1 where n1: "grows (wr_handle w) s s1 n1"
      "tracks w1 (cs @ filter on_request_path n1) (ops0 @ recorded op)" "wr_handle w1 = wr_handle w"
    by (auto simp: grows_def)
  from Cons.IH [OF n1(2) st(2)] Cons.prems(3) obtain n2 where n2: "grows (wr_handle w) s1 s' n2"
      "tracks w' ((cs @ filter on_request_path n1) @ filter on_request_path n2) ((ops0 @ recorded op) @ sync_part ops)"
      "wr_handle w' = wr_handle w"
    by (auto simp: n1(3))
  with n1(1) show ?case by (intro exI [of _ "n1 @ n2"]) (auto intro: grows_trans)
qed

text \<open>Code without \<open>Go\<close>, callouts and streams never panics.\<close>

lemma apply_sync_returns: "\<not> is_async op \<Longrightarrow> \<exists>w' s'. apply_wop A rt op (w, s) = Ret (w', s')"
  by (cases op) (auto split: prod.splits)

lemma run_sync_returns: "list_all (\<lambda>op. \<not> is_async op) ops \<Longrightarrow> \<exists>w' s'. run_wops A rt ops (w, s) = Ret (w', s')"
proof (induction ops arbitrary: w s)
  case Nil
  then show ?case by simp
next
  case (Cons op ops)
  then obtain w1 s1 where "apply_wop A rt op (w, s) = Ret (w1, s1)"
    using apply_sync_returns [of op A rt w s] by auto
  with Cons show ?case by simp
qed

text \<open>Fields only the code of \<open>Go\<close>, callouts and streams writes.\<close>

definition pending :: "Writer \<Rightarrow> bool \<times> bool \<times> bool \<times> objref option \<times> objref option \<times> objref option" where
  "pending w = (wr_goStarted w, wr_calloutStarted w, wr_streamStarted w, wr_goCancel w, wr_calloutFn w,
     wr_streamEventFn w)"

lemma apply_sync_pending:
  "\<not> is_async op \<Longrightarrow> apply_wop A rt op (w, s) = Ret (w', s') \<Longrightarrow> pending w' = pending w"
  by (cases op)
    (auto simp: pending_def w_Send_def w_SendBytes_def w_SetResponseHeader_def w_SetRequestHeader_def
      w_SetMetadata_def w_ClearRouteCache_def w_IncrementCounter_def w_RecordHistogram_def w_Log_def
      w_SetResponseBody_def w_AppendResponseBody_def Let_def case_prod_beta split: if_splits option.splits)

lemma run_sync_pending:
  "list_all (\<lambda>op. \<not> is_async op) ops \<Longrightarrow> run_wops A rt ops (w, s) = Ret (w', s') \<Longrightarrow> pending w' = pending w"
proof (induction ops arbitrary: w s)
  case Nil
  then show ?case by simp
next
  case (Cons op ops)
  then obtain w1 s1 where st: "apply_wop A rt op (w, s) = Ret (w1, s1)" "run_wops A rt ops (w1, s1) = Ret (w', s')"
    by (auto simp: go_bind_eq_Ret)
  with Cons apply_sync_pending [OF _ st(1)] show ?case by auto
qed

section \<open>Handlers\<close>

definition wops_of :: "hop list \<Rightarrow> wop list" where
  "wops_of ops = concat (map (\<lambda>op. case op of OnWriter o1 \<Rightarrow> [o1] | _ \<Rightarrow> []) ops)"

lemma wops_of_simps [simp]:
  "wops_of [] = []" "wops_of (op # ops) = (case op of OnWriter o1 \<Rightarrow> [o1] | _ \<Rightarrow> []) @ wops_of ops"
  by (simp_all add: wops_of_def)

text \<open>Reading the request makes no recorded call.\<close>

lemma read_hop_trace:
  assumes "apply_hop (traced A) rt op (w, r, s) = Ret (w', r', s')" "\<And>o1. op \<noteq> OnWriter o1"
  shows "fst s' = fst s \<and> w' = w"
  using assms
  by (cases op)
    (auto simp: Header_Get_def Header_Peek_def Header_GetAll_def req_Log_def req_LogAttrs_def req_Body_def
      readBody_def trace_defs Let_def case_prod_beta go_bind_eq_Ret split: if_splits option.splits)

lemma run_hops_tracks:
  "tracks w cs ops0 \<Longrightarrow> run_hops (traced A) rt ops (w, r, s) = Ret (w', r', s') \<Longrightarrow> no_inline (wops_of ops) \<Longrightarrow>
   \<exists>new. grows (wr_handle w) s s' new \<and> tracks w' (cs @ filter on_request_path new) (ops0 @ sync_part (wops_of ops)) \<and>
     wr_handle w' = wr_handle w"
proof (induction ops arbitrary: w cs ops0 r s)
  case Nil
  then show ?case by (intro exI [of _ "[]"]) (simp add: grows_refl)
next
  case (Cons op ops)
  then obtain w1 r1 s1 where st: "apply_hop (traced A) rt op (w, r, s) = Ret (w1, r1, s1)"
      "run_hops (traced A) rt ops (w1, r1, s1) = Ret (w', r', s')"
    by (auto simp: go_bind_eq_Ret)
  let ?o = "case op of OnWriter o1 \<Rightarrow> [o1] | _ \<Rightarrow> []"
  have "\<exists>n1. grows (wr_handle w) s s1 n1 \<and> tracks w1 (cs @ filter on_request_path n1) (ops0 @ sync_part ?o) \<and>
      wr_handle w1 = wr_handle w"
  proof (cases "\<exists>o1. op = OnWriter o1")
    case True
    then obtain o1 where op: "op = OnWriter o1" by blast
    with st(1) have "apply_wop (traced A) rt o1 (w, s) = Ret (w1, s1)"
      by (auto simp: go_bind_eq_Ret)
    from apply_tracks [OF Cons.prems(1) this] Cons.prems(3) op show ?thesis by (auto simp: grows_def)
  next
    case False
    then have "?o = []" by (cases op) auto
    with False read_hop_trace [OF st(1)] Cons.prems(1) show ?thesis
      by (intro exI [of _ "[]"]) (auto simp: grows_def)
  qed
  then obtain n1 where n1: "grows (wr_handle w) s s1 n1"
      "tracks w1 (cs @ filter on_request_path n1) (ops0 @ sync_part ?o)" "wr_handle w1 = wr_handle w"
    by blast
  from Cons.IH [OF n1(2) st(2)] Cons.prems(3) obtain n2 where n2: "grows (wr_handle w) s1 s' n2"
      "tracks w' ((cs @ filter on_request_path n1) @ filter on_request_path n2)
        ((ops0 @ sync_part ?o) @ sync_part (wops_of ops))"
      "wr_handle w' = wr_handle w"
    by (auto simp: n1(3))
  with n1(1) show ?case by (intro exI [of _ "n1 @ n2"]) (auto intro: grows_trans)
qed

end
