(* ===== verification/SahlRun.thy ===== *)
theory SahlRun
  imports SahlOutcome
begin

text \<open>
  The life of one request in a sahl filter: what \<open>OnRequestHeaders\<close> makes of a handler, how a suspended
  request is resolved by its callout, its stream or its goroutine, and what the hooks of a filter that
  reads the body do. \<open>A\<close> is any implementation of the handles; \<open>traced A\<close> records the calls.
\<close>

section \<open>Steps on one writer\<close>

text \<open>The calls recorded for a handle in a world.\<close>

definition calls_on :: "ptr \<Rightarrow> 'h recorded sahl_world \<Rightarrow> handle_call list" where
  "calls_on p W = calls_of p (fst (sl_host W))"

text \<open>The writer of filter \<open>fp\<close> works on the filter's handle and stands at the code \<open>ops\<close>.\<close>

definition follows :: "'h recorded sahl_world \<Rightarrow> ptr \<Rightarrow> wop list \<Rightarrow> bool" where
  "follows W fp ops \<longleftrightarrow> (\<exists>f wp w. sl_filters W fp = Some f \<and> sf_writer f = Some wp \<and> sl_writers W wp = Some w \<and>
     wr_handle w = sf_handle f \<and> tracks w (calls_on (sf_handle f) W) ops)"

lemmas world_defs = set_filter_def set_request_def set_writer_def log_call_def filter_at_def writer_at_def
  request_at_def def_of_def

text \<open>
  The handle has received \<open>tr\<close>: \<open>base\<close>, which was flushed before, and what the writer has sent since.
\<close>

definition stands :: "Writer \<Rightarrow> handle_call list \<Rightarrow> handle_call list \<Rightarrow> wop list \<Rightarrow> bool" where
  "stands w tr base ops \<longleftrightarrow> (\<exists>cs. tr = base @ cs \<and> tracks w cs ops)"

lemma stands_fresh [simp]: "stands w tr [] ops = tracks w tr ops"
  by (simp add: stands_def)

lemma tracks_pending [simp]:
  "tracks (w\<lparr>wr_calloutFn := x\<rparr>) tr ops = tracks w tr ops"
  "tracks (w\<lparr>wr_streamEventFn := y\<rparr>) tr ops = tracks w tr ops"
  "tracks (w\<lparr>wr_calloutStarted := b\<rparr>) tr ops = tracks w tr ops"
  by (simp_all add: tracks_def)

lemma stands_responded: "stands w tr base ops \<Longrightarrow> wr_responded w \<longleftrightarrow> answer ops \<noteq> None"
  by (auto simp: stands_def tracks_responded)

lemma run_wops_stands:
  assumes "stands w tr base ops0" "run_wops (traced A) rt ops (w, s) = Ret (w', s')" "no_inline ops"
  obtains new where "grows (wr_handle w) s s' new"
    "stands w' (tr @ filter on_request_path new) base (ops0 @ sync_part ops)" "wr_handle w' = wr_handle w"
  using assms run_wops_tracks [OF _ assms(2,3)] by (force simp: stands_def)

lemma run_hops_stands:
  assumes "stands w tr base ops0" "run_hops (traced A) rt ops (w, r, s) = Ret (w', r', s')" "no_inline (wops_of ops)"
  obtains new where "grows (wr_handle w) s s' new"
    "stands w' (tr @ filter on_request_path new) base (ops0 @ sync_part (wops_of ops))" "wr_handle w' = wr_handle w"
  using assms run_hops_tracks [OF _ assms(2,3)] by (force simp: stands_def)

text \<open>What a flush makes of it, and where the writer stands then: it is not emptied.\<close>

lemma flush_stands:
  assumes "stands w tr base ops"
  shows "tr @ flush_calls c w = base @ outcome_calls c ops"
    and "stands w (tr @ flush_calls c w)
      (if answer ops \<noteq> None \<and> wr_localResp w = None then base else base @ outcome_calls c ops) ops"
proof -
  from assms obtain cs where cs: "tr = base @ cs" "tracks w cs ops" by (auto simp: stands_def)
  from cs flush_completes [OF cs(2), of c] show *: "tr @ flush_calls c w = base @ outcome_calls c ops" by simp
  show "stands w (tr @ flush_calls c w)
      (if answer ops \<noteq> None \<and> wr_localResp w = None then base else base @ outcome_calls c ops) ops"
  proof (cases "answer ops \<noteq> None \<and> wr_localResp w = None")
    case True
    with cs(2) have "flush_calls c w = []" by (auto simp: tracks_def flush_calls_def)
    with True assms show ?thesis by simp
  next
    case False
    with cs(2) have "cs = []" by (auto simp: tracks_def split: option.splits)
    with False cs(2) * show ?thesis by (auto simp: stands_def)
  qed
qed

lemma run_on_writer_tracks:
  assumes "sl_writers W wp = Some w" "stands w (calls_on (wr_handle w) W) base ops0"
    and "run_on_writer (traced A) rt (Some wp) ops W = Ret W'" "no_inline ops"
  shows "\<exists>w'. sl_writers W' = (sl_writers W)(wp \<mapsto> w') \<and> wr_handle w' = wr_handle w \<and> sl_filters W' = sl_filters W \<and>
    sl_requests W' = sl_requests W \<and> stands w' (calls_on (wr_handle w) W') base (ops0 @ sync_part ops)"
proof (cases "ops = []")
  case True
  with assms show ?thesis by (intro exI [of _ w]) (auto simp: run_on_writer_def)
next
  case False
  with assms(1,3) obtain w' s' where r: "run_wops (traced A) rt ops (w, sl_host W) = Ret (w', s')"
    and W': "W' = set_writer wp w' W\<lparr>sl_host := s', sl_gos := sl_gos W @ started_by wp w w'\<rparr>"
    by (auto simp: run_on_writer_def writer_at_def go_bind_eq_Ret)
  from run_wops_stands [OF assms(2) r assms(4)] obtain new where "grows (wr_handle w) (sl_host W) s' new"
      "stands w' (calls_on (wr_handle w) W @ filter on_request_path new) base (ops0 @ sync_part ops)"
      "wr_handle w' = wr_handle w" .
  then show ?thesis
    by (intro exI [of _ w']) (auto simp: W' set_writer_def calls_on_def grows_calls)
qed

lemma run_on_writer_returns:
  assumes "list_all (\<lambda>op. \<not> is_async op) ops" "sl_writers W wp = Some w"
  shows "\<exists>W'. run_on_writer A rt (Some wp) ops W = Ret W'"
  using run_sync_returns [OF assms(1), of A rt w "sl_host W"] assms(2)
  by (auto simp: run_on_writer_def writer_at_def)

lemma run_on_writer_pending:
  assumes "list_all (\<lambda>op. \<not> is_async op) ops" "sl_writers W wp = Some w"
    "run_on_writer A rt (Some wp) ops W = Ret W'"
  shows "(\<exists>w'. sl_writers W' = (sl_writers W)(wp \<mapsto> w') \<and> pending w' = pending w) \<and>
    sl_filters W' = sl_filters W \<and> sl_gos W' = sl_gos W \<and> sl_calls W' = sl_calls W"
proof (cases "ops = []")
  case True
  with assms show ?thesis by (auto simp: run_on_writer_def intro!: exI [of _ w])
next
  case False
  with assms(2,3) obtain w' s' where r: "run_wops A rt ops (w, sl_host W) = Ret (w', s')"
    and W': "W' = set_writer wp w' W\<lparr>sl_host := s', sl_gos := sl_gos W @ started_by wp w w'\<rparr>"
    by (auto simp: run_on_writer_def writer_at_def go_bind_eq_Ret)
  with run_sync_pending [OF assms(1) r] show ?thesis
    by (auto simp: set_writer_def started_by_def pending_def split: option.splits)
qed

lemma flush_writer_trace:
  assumes "sl_writers W wp = Some w"
  shows "\<exists>W'. flush_writer (traced A) c (Some wp) W = Ret W' \<and> sl_filters W' = sl_filters W \<and>
    sl_writers W' = sl_writers W \<and> sl_gos W' = sl_gos W \<and> sl_calls W' = sl_calls W \<and>
    grows (wr_handle w) (sl_host W) (sl_host W') (flush_calls c w)"
  using assms by (simp add: flush_writer_def writer_at_def grows_def flush_trace)

lemma flush_path: "filter on_request_path (flush_calls c w) = flush_calls c w"
proof -
  have "list_all on_request_path (flush_calls c w)"
    by (auto simp: flush_calls_def response_call_def list_all_iff split: option.splits if_splits)
  then show ?thesis by (simp add: list_all_iff)
qed

lemma resolve:
  assumes w: "sl_writers W wp = Some w" and t: "stands w (calls_on (wr_handle w) W) base ops"
  shows "\<exists>W'. flush_writer (traced A) c (Some wp) W = Ret W' \<and> sl_filters W' = sl_filters W \<and>
    sl_writers W' = sl_writers W \<and> sl_calls W' = sl_calls W \<and> sl_gos W' = sl_gos W \<and>
    calls_on (wr_handle w) W' = base @ outcome_calls c ops \<and>
    stands w (calls_on (wr_handle w) W')
      (if answer ops \<noteq> None \<and> wr_localResp w = None then base else base @ outcome_calls c ops) ops \<and>
    (\<forall>q. q \<noteq> wr_handle w \<longrightarrow> calls_on q W' = calls_on q W)"
  using flush_writer_trace [OF w, of A c] flush_stands [OF t, of c]
  by (auto simp: calls_on_def grows_calls flush_path)

lemmas resolve_first = resolve [where base = "[]", unfolded append_Nil]

section \<open>The request path\<close>

definition pool_ok :: "pool_choice \<Rightarrow> ptr list \<Rightarrow> (ptr \<rightharpoonup> 'a) \<Rightarrow> bool" where
  "pool_ok choice pool objs =
     (case choice of Reuse q \<Rightarrow> q \<in> set pool \<and> objs q \<noteq> None | Fresh q \<Rightarrow> q \<noteq> 0 \<and> objs q = None)"

definition chosen :: "pool_choice \<Rightarrow> ptr" where
  "chosen choice = (case choice of Reuse q \<Rightarrow> q | Fresh q \<Rightarrow> q)"

lemma req_reset_trace:
  "fst (snd (req_reset memory (traced_headers p H) handle name (r, s))) = fst s"
  by (simp add: req_reset_def trace_defs Let_def case_prod_beta)

lemma view_headers_traced: "ha_RequestHeaders (ha_view (traced A p)) = traced_headers p (ha_RequestHeaders (ha_view (A p)))"
  by (simp add: traced_def traced_view_def)

lemma acquire_ok:
  assumes f: "sl_filters W fp = Some f"
    and rc: "pool_ok rc (sl_requestPool W) (sl_requests W)" and wc: "pool_ok wc (sl_writerPool W) (sl_writers W)"
  shows "\<exists>r w W5. acquire (traced A) fp rc wc f W = Ret (chosen rc, chosen wc, W5) \<and>
    sl_filters W5 = (sl_filters W)(fp \<mapsto> f\<lparr>sf_req := Some (chosen rc), sf_writer := Some (chosen wc)\<rparr>) \<and>
    sl_writers W5 = (sl_writers W)(chosen wc \<mapsto> w) \<and> sl_requests W5 (chosen rc) = Some r \<and>
    wr_handle w = sf_handle f \<and> tracks w [] [] \<and> pending w = (False, False, False, None, None, None) \<and>
    fst (sl_host W5) = fst (sl_host W) \<and> sl_gos W5 = sl_gos W \<and> sl_calls W5 = sl_calls W \<and>
    sl_cancelled W5 = sl_cancelled W \<and> sl_filterPool W5 = sl_filterPool W \<and> sl_writerPool W5 =
      (case wc of Reuse q \<Rightarrow> remove1 q (sl_writerPool W) | Fresh q \<Rightarrow> sl_writerPool W)"
proof -
  let ?a = "traced A (sf_handle f)"
  define W1 where "W1 = W\<lparr>sl_host := ha_GetScheduler (ha_control ?a) (sl_host W)\<rparr>"
  have W1: "sl_filters W1 = sl_filters W" "sl_writers W1 = sl_writers W" "fst (sl_host W1) = fst (sl_host W)"
    "sl_gos W1 = sl_gos W" "sl_cancelled W1 = sl_cancelled W" "sl_calls W1 = sl_calls W" "sl_filterPool W1 = sl_filterPool W"
    "sl_writerPool W1 = sl_writerPool W"
    by (simp_all add: W1_def trace_defs)
  obtain W2 r where W2: "getRequest rc W1 = (chosen rc, W2)" "sl_requests W2 (chosen rc) = Some r"
    "sl_filters W2 = sl_filters W1" "sl_writers W2 = sl_writers W1" "sl_host W2 = sl_host W1"
    "sl_gos W2 = sl_gos W1" "sl_cancelled W2 = sl_cancelled W1" "sl_calls W2 = sl_calls W1" "sl_filterPool W2 = sl_filterPool W1"
    "sl_writerPool W2 = sl_writerPool W1"
    using rc
    by (cases rc) (auto simp: getRequest_def chosen_def pool_ok_def W1_def set_request_def)
  obtain r' h where rr: "req_reset (ha_memory (ha_view ?a)) (ha_RequestHeaders (ha_view ?a)) (sf_handle f)
      (sf_name f) (r, sl_host W2) = (r', h)"
    by (metis surj_pair)
  then have h: "fst h = fst (sl_host W2)"
    using req_reset_trace [of _ "sf_handle f"] by (metis snd_conv view_headers_traced)
  define W3 where "W3 = set_request (chosen rc) r' W2\<lparr>sl_host := h\<rparr>"
  obtain w0 where w0: "getWriter wc (sf_handle f) True W3 =
      Ret (chosen wc, set_writer (chosen wc) (w_reset w0 (sf_handle f) True)
        (case wc of Reuse q \<Rightarrow> W3\<lparr>sl_writerPool := remove1 q (sl_writerPool W3)\<rparr>
         | Fresh q \<Rightarrow> set_writer q zero_writer W3))"
    using wc W1(2) W2(4)
    by (cases wc) (auto simp: getWriter_def chosen_def pool_ok_def W3_def set_request_def writer_at_def
        set_writer_def)
  have "acquire (traced A) fp rc wc f W = Ret (chosen rc, chosen wc,
      set_writer (chosen wc) ((w_reset w0 (sf_handle f) True)\<lparr>wr_calloutCB := Some (unat fp),
        wr_streamCB := Some (unat fp)\<rparr>)
      (set_filter fp (f\<lparr>sf_req := Some (chosen rc), sf_writer := Some (chosen wc)\<rparr>)
        (set_writer (chosen wc) (w_reset w0 (sf_handle f) True)
          (case wc of Reuse q \<Rightarrow> W3\<lparr>sl_writerPool := remove1 q (sl_writerPool W3)\<rparr>
           | Fresh q \<Rightarrow> set_writer q zero_writer W3))))"
    using W2(1,2) rr w0
    by (simp add: acquire_def W1_def [symmetric] Let_def request_at_def W3_def [symmetric])
      (simp add: writer_at_def set_writer_def)
  moreover have "tracks ((w_reset w0 (sf_handle f) True)\<lparr>wr_calloutCB := Some (unat fp),
        wr_streamCB := Some (unat fp)\<rparr>) [] []"
    using tracks_reset [of w0 "sf_handle f" True] by (subst tracks_cong) simp_all
  ultimately show ?thesis
    using W1 W2 h
    by (cases wc) (auto simp: set_writer_def set_filter_def W3_def set_request_def w_reset_def pending_def
        chosen_def fun_eq_iff)
qed


definition suspended :: "Writer \<Rightarrow> bool" where
  "suspended w \<longleftrightarrow> wr_goStarted w \<or> wr_calloutStarted w \<or> wr_streamStarted w"

lemma suspended_pending: "pending w' = pending w \<Longrightarrow> suspended w' = suspended w"
  by (simp add: pending_def suspended_def)

lemma apply_async_returns:
  "\<not> suspended w \<Longrightarrow> \<not> completes_inline op \<Longrightarrow> \<exists>w' s'. apply_wop A rt op (w, s) = Ret (w', s')"
proof (cases op)
  case (WHTTPCallout req fn inl)
  assume "\<not> suspended w" "\<not> completes_inline op"
  with WHTTPCallout show ?thesis
    by (cases inl) (auto simp: suspended_def w_HTTPCallout_def w_HTTPCalloutE_def Let_def split: prod.splits)
next
  case (WHTTPStream req fn evs)
  assume "\<not> suspended w" "\<not> completes_inline op"
  with WHTTPStream show ?thesis
    by (cases evs) (auto simp: suspended_def w_HTTPStream_def Let_def split: prod.splits)
qed (auto simp: suspended_def w_Go_def split: prod.splits)

lemma read_hop_returns:
  "op \<noteq> ReadBody \<Longrightarrow> (\<And>o1. op \<noteq> OnWriter o1) \<Longrightarrow> \<exists>r' s'. apply_hop A rt op (w, r, s) = Ret (w, r', s')"
  by (cases op) (auto simp: Let_def case_prod_beta)

lemma run_hops_returns:
  "ReadBody \<notin> set ops \<Longrightarrow> no_inline (wops_of ops) \<Longrightarrow>
   length (filter is_async (wops_of ops)) = 0 \<or> \<not> suspended w \<and> length (filter is_async (wops_of ops)) \<le> 1 \<Longrightarrow>
   \<exists>w' r' s'. run_hops A rt ops (w, r, s) = Ret (w', r', s')"
proof (induction ops arbitrary: w r s)
  case Nil
  then show ?case by simp
next
  case (Cons op ops)
  show ?case
  proof (cases "\<exists>o1. op = OnWriter o1")
    case True
    then obtain o1 where op: "op = OnWriter o1" by blast
    obtain w1 s1 where st: "apply_wop A rt o1 (w, s) = Ret (w1, s1)"
      using Cons.prems(3) apply_sync_returns [of o1 A rt w s] apply_async_returns [of w o1 A rt s] Cons.prems(2)
      by (cases "is_async o1") (auto simp: op)
    have "length (filter is_async (wops_of ops)) = 0 \<or>
        \<not> suspended w1 \<and> length (filter is_async (wops_of ops)) \<le> 1"
      using Cons.prems(3) apply_sync_pending [OF _ st] suspended_pending [of w1 w]
      by (cases "is_async o1") (auto simp: op)
    with Cons.IH Cons.prems(1,2) op have "\<exists>w' r' s'. run_hops A rt ops (w1, r, s1) = Ret (w', r', s')" by simp
    with st show ?thesis by (simp add: op)
  next
    case False
    with Cons.prems(1) obtain r1 s1 where st: "apply_hop A rt op (w, r, s) = Ret (w, r1, s1)"
      using read_hop_returns [of op A rt w r s] by auto
    have "wops_of (op # ops) = wops_of ops" using False by (cases op) auto
    with Cons.prems Cons.IH have "\<exists>w' r' s'. run_hops A rt ops (w, r1, s1) = Ret (w', r', s')" by simp
    with st show ?thesis by simp
  qed
qed

lemma run_hops_pending:
  "run_hops (traced A) rt ops (w, r, s) = Ret (w', r', s') \<Longrightarrow> filter is_async (wops_of ops) = [] \<Longrightarrow>
   pending w' = pending w"
proof (induction ops arbitrary: w r s)
  case Nil
  then show ?case by simp
next
  case (Cons op ops)
  from Cons.prems(1) obtain w1 r1 s1 where st: "apply_hop (traced A) rt op (w, r, s) = Ret (w1, r1, s1)"
      "run_hops (traced A) rt ops (w1, r1, s1) = Ret (w', r', s')"
    by (auto simp: go_bind_eq_Ret)
  show ?case
  proof (cases "\<exists>o1. op = OnWriter o1")
    case True
    then obtain o1 where op: "op = OnWriter o1" by blast
    with st(1) have "apply_wop (traced A) rt o1 (w, s) = Ret (w1, s1)" by (auto simp: go_bind_eq_Ret)
    with Cons st(2) op apply_sync_pending [of o1 "traced A" rt w s] show ?thesis by (auto split: if_splits)
  next
    case False
    then have "w1 = w" "wops_of (op # ops) = wops_of ops" using read_hop_trace [OF st(1)] by (cases op; auto)+
    with st(2) Cons show ?thesis by auto
  qed
qed

text \<open>A handler that starts one thing: an event function is not left beside a goroutine.\<close>

definition one_way :: "nat \<Rightarrow> Writer \<Rightarrow> bool" where
  "one_way n w \<longleftrightarrow> (wr_streamEventFn w \<noteq> None \<longrightarrow> \<not> wr_goStarted w \<and> n = 0) \<and>
     (wr_goStarted w \<longrightarrow> wr_streamEventFn w = None \<and> n = 0) \<and> n \<le> 1"

lemma apply_async_one_way:
  assumes "apply_wop A rt op (w, s) = Ret (w', s')" "is_async op" "\<not> completes_inline op" "one_way (Suc n) w"
  shows "one_way n w'"
proof (cases op)
  case (WHTTPCallout req fn inl)
  with assms show ?thesis
    by (cases inl) (auto simp: one_way_def w_HTTPCallout_def w_HTTPCalloutE_def Let_def case_prod_beta
        go_bind_eq_Ret split: if_splits)
next
  case (WHTTPStream req fn evs)
  with assms show ?thesis
    by (cases evs) (auto simp: one_way_def w_HTTPStream_def Let_def case_prod_beta go_bind_eq_Ret split: if_splits)
qed (use assms in \<open>auto simp: one_way_def w_Go_def go_bind_eq_Ret split: if_splits\<close>)

lemma run_hops_one_way:
  "run_hops A rt ops (w, r, s) = Ret (w', r', s') \<Longrightarrow> ReadBody \<notin> set ops \<Longrightarrow> no_inline (wops_of ops) \<Longrightarrow>
   one_way (length (filter is_async (wops_of ops))) w \<Longrightarrow> one_way 0 w'"
proof (induction ops arbitrary: w r s)
  case Nil
  then show ?case by simp
next
  case (Cons op ops)
  from Cons.prems(1) obtain w1 r1 s1 where st: "apply_hop A rt op (w, r, s) = Ret (w1, r1, s1)"
      "run_hops A rt ops (w1, r1, s1) = Ret (w', r', s')"
    by (auto simp: go_bind_eq_Ret)
  have "one_way (length (filter is_async (wops_of ops))) w1"
  proof (cases "\<exists>o1. op = OnWriter o1")
    case True
    then obtain o1 where op: "op = OnWriter o1" by blast
    with st(1) have o1: "apply_wop A rt o1 (w, s) = Ret (w1, s1)" by (auto simp: go_bind_eq_Ret)
    show ?thesis
    proof (cases "is_async o1")
      case True
      with Cons.prems(3,4) op show ?thesis by (intro apply_async_one_way [OF o1]) simp_all
    next
      case False
      with Cons.prems(4) op apply_sync_pending [OF False o1] show ?thesis by (simp add: one_way_def pending_def)
    qed
  next
    case False
    with Cons.prems(2) st(1) have "w1 = w" using read_hop_returns [of op A rt w r s] by auto
    moreover have "wops_of (op # ops) = wops_of ops" using False by (cases op) auto
    ultimately show ?thesis using Cons.prems(4) by simp
  qed
  with Cons.IH [OF st(2)] Cons.prems(2,3) show ?case by simp
qed

lemma run_hops_append:
  "run_hops A rt (ops @ ops') st = go_bind (run_hops A rt ops st) (run_hops A rt ops')"
proof (induction ops arbitrary: st)
  case Nil
  then show ?case by simp
next
  case (Cons op ops)
  show ?case by (cases "apply_hop A rt op st") (simp_all add: Cons.IH)
qed

text \<open>
  \<open>OnRequestHeaders\<close> up to the decision what to tell Envoy: the handler has run on a writer just reset.
\<close>

lemma request_hook:
  assumes f: "sl_filters W fp = Some f" "sf_handler f = Some d" "\<not> fd_bodyAware d" "fd_handler d = Some fn"
    and pools: "pool_ok rc (sl_requestPool W) (sl_requests W)" "pool_ok wc (sl_writerPool W) (sl_writers W)"
    and code: "\<And>w r s. tracks w [] [] \<Longrightarrow> pending w = (False, False, False, None, None, None) \<Longrightarrow> wr_handle w = sf_handle f \<Longrightarrow>
      \<exists>w' r' s'. run_hops (traced A) rt ops (w, r, s) = Ret (w', r', s')"
  obtains w r s w' r' W' where
    "tracks w [] []" "wr_handle w = sf_handle f" "pending w = (False, False, False, None, None, None)"
    "fst s = fst (sl_host W)" "run_hops (traced A) rt ops (w, r, s) = Ret (w', r', sl_host W')"
    "sl_writers W' (chosen wc) = Some w'"
    "sl_filters W' fp = Some (f\<lparr>sf_req := Some (chosen rc), sf_writer := Some (chosen wc)\<rparr>)"
    "sahl_OnRequestHeaders (traced A) rt fp rc wc ops W =
      (if suspended w' then Ret (HeadersStatusStop, W')
       else if \<not> wr_responded w'
       then go_bind (flush_writer (traced A) False (Some (chosen wc)) W') (\<lambda>W7. Ret (HeadersStatusContinue, W7))
       else Ret (HeadersStatusStop, W'))"
proof -
  let ?f = "f\<lparr>sf_req := Some (chosen rc), sf_writer := Some (chosen wc)\<rparr>"
  obtain r w W5 where a: "acquire (traced A) fp rc wc f W = Ret (chosen rc, chosen wc, W5)"
      "sl_filters W5 = (sl_filters W)(fp \<mapsto> ?f)" "sl_writers W5 = (sl_writers W)(chosen wc \<mapsto> w)"
      "sl_requests W5 (chosen rc) = Some r" "wr_handle w = sf_handle f" "tracks w [] []"
      "pending w = (False, False, False, None, None, None)" "fst (sl_host W5) = fst (sl_host W)"
    using acquire_ok [OF f(1) pools, of A] by blast
  let ?W5 = "log_call (sf_handle f) (CallHandler fn) W5"
  obtain w' r' s' where run: "run_hops (traced A) rt ops (w, r, sl_host W5) = Ret (w', r', s')"
    using code [OF a(6,7,5)] by blast
  define W' where "W' = set_request (chosen rc) r' (set_writer (chosen wc) w' ?W5)\<lparr>sl_host := s',
    sl_gos := sl_gos ?W5 @ started_by (chosen wc) w w'\<rparr>"
  have W': "sl_writers W' (chosen wc) = Some w'" "sl_filters W' fp = Some ?f" "sl_host W' = s'"
    using a(2) by (simp_all add: W'_def set_request_def set_writer_def log_call_def)
  have "run_handler (traced A) rt (Some (chosen wc)) (Some (chosen rc)) ops ?W5 = Ret W'"
    using a(3,4) run by (simp add: run_handler_def writer_at_def request_at_def log_call_def W'_def)
  with f a(1) W'(1) have "sahl_OnRequestHeaders (traced A) rt fp rc wc ops W =
      (if suspended w' then Ret (HeadersStatusStop, W')
       else if \<not> wr_responded w'
       then go_bind (flush_writer (traced A) False (Some (chosen wc)) W') (\<lambda>W7. Ret (HeadersStatusContinue, W7))
       else Ret (HeadersStatusStop, W'))"
    by (simp add: sahl_OnRequestHeaders_def filter_at_def def_of_def writer_at_def suspended_def)
  with that [OF a(6,5,7,8) run [folded W'(3)] W'(1,2)] show ?thesis .
qed

lemma calls_on_grows:
  assumes "fst s = fst (sl_host W)" and "grows p s (sl_host W') new"
  shows "calls_on q W' = calls_on q W @ (if q = p then filter on_request_path new else [])"
  using grows_calls [OF assms(2), of q] assms(1) by (simp add: calls_on_def)

lemma handler_runs:
  assumes f: "sl_filters W fp = Some f" "sf_handler f = Some d" "\<not> fd_bodyAware d" "fd_handler d = Some fn"
    and pools: "pool_ok rc (sl_requestPool W) (sl_requests W)" "pool_ok wc (sl_writerPool W) (sl_writers W)"
    and new: "calls_on (sf_handle f) W = []"
    and code: "ReadBody \<notin> set ops" "length (filter is_async (wops_of ops)) \<le> 1" "no_inline (wops_of ops)"
  shows "\<exists>st W' w. sahl_OnRequestHeaders (traced A) rt fp rc wc ops W = Ret (st, W') \<and>
    sl_writers W' (chosen wc) = Some w \<and>
    sl_filters W' fp = Some (f\<lparr>sf_req := Some (chosen rc), sf_writer := Some (chosen wc)\<rparr>) \<and>
    (filter is_async (wops_of ops) = [] \<longrightarrow> \<not> suspended w) \<and>
    (wr_streamEventFn w \<noteq> None \<longrightarrow> \<not> wr_goStarted w) \<and>
    (if suspended w then st = HeadersStatusStop \<and> follows W' fp (sync_part (wops_of ops))
     else st = (if answer (sync_part (wops_of ops)) = None then HeadersStatusContinue else HeadersStatusStop) \<and>
       calls_on (sf_handle f) W' = outcome_calls False (sync_part (wops_of ops))) \<and>
    (\<forall>q. q \<noteq> sf_handle f \<longrightarrow> calls_on q W' = calls_on q W)"
proof -
  let ?X = "sync_part (wops_of ops)"
  have idle: "\<exists>w' r' s'. run_hops (traced A) rt ops (w, r, s) = Ret (w', r', s')"
    if "pending w = (False, False, False, None, None, None)" for w r s
    using that run_hops_returns [OF code(1,3), of w "traced A" rt r s] code(2) by (auto simp: pending_def suspended_def)
  obtain w r s w' r' W' where h: "tracks w [] []" "wr_handle w = sf_handle f"
      "pending w = (False, False, False, None, None, None)" "fst s = fst (sl_host W)"
      "run_hops (traced A) rt ops (w, r, s) = Ret (w', r', sl_host W')" "sl_writers W' (chosen wc) = Some w'"
      "sl_filters W' fp = Some (f\<lparr>sf_req := Some (chosen rc), sf_writer := Some (chosen wc)\<rparr>)"
      "sahl_OnRequestHeaders (traced A) rt fp rc wc ops W =
      (if suspended w' then Ret (HeadersStatusStop, W')
       else if \<not> wr_responded w'
       then go_bind (flush_writer (traced A) False (Some (chosen wc)) W') (\<lambda>W7. Ret (HeadersStatusContinue, W7))
       else Ret (HeadersStatusStop, W'))"
    by (rule request_hook [OF f pools, of A rt ops]) (use idle in auto)
  have "stands w [] [] []" using h(1) by simp
  then obtain new where n: "grows (sf_handle f) s (sl_host W') new"
      "stands w' ([] @ filter on_request_path new) [] ([] @ ?X)" "wr_handle w' = sf_handle f"
    by (rule run_hops_stands [OF _ h(5) code(3)]) (use h(2) in auto)
  have calls: "calls_on q W' = calls_on q W @ (if q = sf_handle f then filter on_request_path new else [])" for q
    by (rule calls_on_grows [OF h(4) n(1)])
  have t: "stands w' (calls_on (wr_handle w') W') [] ?X" using n(2,3) calls new by simp
  have one: "wr_streamEventFn w' \<noteq> None \<longrightarrow> \<not> wr_goStarted w'"
    and sync: "filter is_async (wops_of ops) = [] \<longrightarrow> \<not> suspended w'"
    using run_hops_one_way [OF h(5) code(1,3)] code(2) h(3) run_hops_pending [OF h(5)]
      suspended_pending [of w' w] by (auto simp: one_way_def pending_def suspended_def)
  show ?thesis
  proof (cases "suspended w' \<or> wr_responded w'")
    case True
    have "follows W' fp ?X" using h(6,7) n(3) t by (auto simp: follows_def)
    moreover have "\<not> suspended w' \<Longrightarrow> calls_on (sf_handle f) W' = outcome_calls False ?X"
      using True t n(3) by (auto simp: tracks_def outcome_calls_def suspended_def split: option.splits)
    ultimately show ?thesis
      using True h(6,7,8) one sync calls tracks_responded [of w'] t by auto
  next
    case False
    obtain W7 where W7: "flush_writer (traced A) False (Some (chosen wc)) W' = Ret W7" "sl_writers W7 = sl_writers W'"
        "sl_filters W7 = sl_filters W'" "calls_on (wr_handle w') W7 = outcome_calls False ?X"
        "\<forall>q. q \<noteq> wr_handle w' \<longrightarrow> calls_on q W7 = calls_on q W'"
      using resolve_first [OF h(6) t, of A False] by blast
    with False h(6,7,8) one sync calls tracks_responded [of w'] t n(3) show ?thesis by auto
  qed
qed

section \<open>Completions\<close>

lemma continuation_runs:
  assumes w: "sl_writers W wp = Some w" and t: "stands w (calls_on (wr_handle w) W) base ops0"
    and sync: "list_all (\<lambda>op. \<not> is_async op) ops"
  shows "\<exists>w' W'. run_on_writer (traced A) rt (Some wp) ops W = Ret W' \<and> sl_writers W' = (sl_writers W)(wp \<mapsto> w') \<and>
    pending w' = pending w \<and> wr_handle w' = wr_handle w \<and> sl_filters W' = sl_filters W \<and>
    sl_requests W' = sl_requests W \<and> sl_gos W' = sl_gos W \<and>
    sl_calls W' = sl_calls W \<and> stands w' (calls_on (wr_handle w') W') base (ops0 @ ops)"
proof -
  obtain W' where r: "run_on_writer (traced A) rt (Some wp) ops W = Ret W'"
    using run_on_writer_returns [OF sync w] by blast
  obtain w1 where w1: "sl_writers W' = (sl_writers W)(wp \<mapsto> w1)" "wr_handle w1 = wr_handle w"
      "sl_filters W' = sl_filters W" "sl_requests W' = sl_requests W"
      "stands w1 (calls_on (wr_handle w) W') base (ops0 @ sync_part ops)"
    using run_on_writer_tracks [OF w t r sync_no_inline [OF sync]] by blast
  obtain w2 where w2: "sl_writers W' = (sl_writers W)(wp \<mapsto> w2)" "pending w2 = pending w"
      "sl_gos W' = sl_gos W" "sl_calls W' = sl_calls W"
    using run_on_writer_pending [OF sync w r] by blast
  from w1(1) w2(1) have "w2 = w1" by (metis fun_upd_same option.inject)
  with r w1 w2 sync_part_all [OF sync] show ?thesis by auto
qed

lemma calls_on_simps [simp]:
  "calls_on p (log_call h c W) = calls_on p W" "calls_on p (set_writer wp w W) = calls_on p W"
  "calls_on p (set_filter fp f W) = calls_on p W" "calls_on p (set_phase i ph W) = calls_on p W"
  by (simp_all add: calls_on_def log_call_def set_writer_def set_filter_def set_phase_def)

lemma callout_done_resolves:
  assumes fl: "follows W fp ops1" and f: "sl_filters W fp = Some f" "\<not> sf_streamDone f"
    and w: "Option.bind (sf_writer f) (sl_writers W) = Some w" "wr_calloutFn w = Some fn"
    and sync: "list_all (\<lambda>op. \<not> is_async op) ops2"
  shows "\<exists>W'. sahl_OnHttpCalloutDone (traced A) rt fp result headers body ops2 W = Ret W' \<and>
    calls_on (sf_handle f) W' = outcome_calls True (ops1 @ ops2) \<and>
    sl_calls W' = sl_calls W @ [(sf_handle f, CallContinuation fn result headers body)] \<and>
    (\<forall>result' headers' body' ops'.
      sahl_OnHttpCalloutDone (traced A) rt fp result' headers' body' ops' W' = Ret W')"
proof -
  from fl f(1) w(1) obtain wp where wp: "sf_writer f = Some wp" "sl_writers W wp = Some w" "wr_handle w = sf_handle f"
      "tracks w (calls_on (sf_handle f) W) ops1"
    by (auto simp: follows_def)
  let ?w = "w\<lparr>wr_calloutFn := None\<rparr>"
  let ?W1 = "log_call (sf_handle f) (CallContinuation fn result headers body) (set_writer wp ?w W)"
  have "stands ?w (calls_on (wr_handle ?w) ?W1) [] ops1"
    using wp by (simp add: calls_on_def set_writer_def log_call_def)
  then have W1: "sl_writers ?W1 wp = Some ?w" "stands ?w (calls_on (wr_handle ?w) ?W1) [] ops1"
    by (simp_all add: set_writer_def log_call_def)
  obtain w' W2 where W2: "run_on_writer (traced A) rt (Some wp) ops2 ?W1 = Ret W2"
      "sl_writers W2 = (sl_writers ?W1)(wp \<mapsto> w')" "pending w' = pending ?w" "wr_handle w' = wr_handle ?w"
      "sl_filters W2 = sl_filters ?W1" "sl_calls W2 = sl_calls ?W1"
      "stands w' (calls_on (wr_handle w') W2) [] (ops1 @ ops2)"
    using continuation_runs [OF W1 sync] by blast
  have "sl_writers W2 wp = Some w'" using W2(2) by simp
  from resolve [OF this W2(7), of A True]
  obtain W3 where W3: "flush_writer (traced A) True (Some wp) W2 = Ret W3" "sl_filters W3 = sl_filters W2"
      "sl_writers W3 = sl_writers W2" "sl_calls W3 = sl_calls W2"
      "calls_on (wr_handle w') W3 = outcome_calls True (ops1 @ ops2)"
    by auto
  have "sahl_OnHttpCalloutDone (traced A) rt fp result headers body ops2 W = Ret W3"
    using f wp w(2) W2(1) W3(1)
    by (simp add: sahl_OnHttpCalloutDone_def filter_at_def writer_at_def)
  moreover have "sahl_OnHttpCalloutDone (traced A) rt fp result' headers' body' ops' W3 = Ret W3"
    for result' headers' body' ops'
    using f wp W2 W3
    by (simp add: sahl_OnHttpCalloutDone_def filter_at_def writer_at_def log_call_def set_writer_def pending_def)
  moreover have "sl_calls W3 = sl_calls W @ [(sf_handle f, CallContinuation fn result headers body)]"
    using W2(6) W3(4) by (simp add: log_call_def set_writer_def)
  ultimately show ?thesis using W3(5) W2(4) wp(3) by auto
qed

text \<open>
  A stream that has ended with an end event: a reset after it does nothing, a completion after it flushes
  again, which repeats everything unless the request was answered.
\<close>

definition stream_ended ::
    "(ptr \<Rightarrow> 'h handle_api) \<Rightarrow> go_runtime \<Rightarrow> ptr \<Rightarrow> ptr \<Rightarrow> wop list \<Rightarrow> 'h recorded sahl_world \<Rightarrow> bool" where
  "stream_ended A rt fp p ops W \<longleftrightarrow> calls_on p W = outcome_calls True ops \<and>
     (\<forall>i reason ops'. sahl_OnHttpStreamReset (traced A) rt fp i reason ops' W = Ret W) \<and>
     (\<forall>i ops'. \<exists>W'. sahl_OnHttpStreamComplete (traced A) rt fp i ops' W = Ret W' \<and>
       calls_on p W' = outcome_calls True ops @ (if answer ops = None then outcome_calls True ops else []))"

lemma stream_endedI:
  assumes f: "sl_filters W fp = Some f" "sf_writer f = Some wp" "\<not> sf_streamDone f" and w: "sl_writers W wp = Some w"
      "wr_streamEventFn w = None" "wr_handle w = p" "\<not> wr_goStarted w"
    and t: "stands w (calls_on p W) (if answer ops \<noteq> None \<and> wr_localResp w = None then [] else outcome_calls True ops) ops"
    and calls: "calls_on p W = outcome_calls True ops"
  shows "stream_ended A rt fp p ops W"
proof -
  have "wr_localResp w = None" using t w(4) by (auto simp: stands_def tracks_def)
  with resolve [OF w(1), of "if answer ops \<noteq> None \<and> wr_localResp w = None then [] else outcome_calls True ops" ops A True]
    t w(3)
  obtain W' where "flush_writer (traced A) True (Some wp) W = Ret W'"
      "calls_on p W' = (if answer ops \<noteq> None then [] else outcome_calls True ops) @ outcome_calls True ops"
    by auto
  with f w(1,2) calls show ?thesis
    by (auto simp: stream_ended_def sahl_OnHttpStreamReset_def sahl_OnHttpStreamComplete_def filter_at_def writer_at_def)
qed

lemma flush_answered: "wr_responded w \<Longrightarrow> w_flush A c w h = w_flush A c' w h"
  by (simp add: w_flush_def Let_def split: option.split)

lemma stream_end_event:
  assumes wp: "sl_filters W fp = Some f" "\<not> sf_streamDone f" "sf_writer f = Some wp" "sl_writers W wp = Some w"
      "wr_handle w = sf_handle f" "\<not> wr_goStarted w" "tracks w (calls_on (sf_handle f) W) ops1"
    and sync: "list_all (\<lambda>op. \<not> is_async op) ops2"
  shows "\<exists>W3 W4 w'. go_bind (run_on_writer (traced A) rt (Some wp) ops2
        (log_call (sf_handle f) (CallStreamEvent fn ev) W)) (clear_event_fn wp) = Ret W3 \<and> sl_writers W3 wp = Some w' \<and>
      flush_writer (traced A) True (Some wp) W3 = Ret W4 \<and>
      flush_writer (traced A) (\<not> wr_responded w') (Some wp) W3 = Ret W4 \<and>
      stream_ended A rt fp (sf_handle f) (ops1 @ ops2) W4 \<and>
      sl_calls W4 = sl_calls W @ [(sf_handle f, CallStreamEvent fn ev)]"
proof -
  let ?X = "ops1 @ ops2"
  let ?W1 = "log_call (sf_handle f) (CallStreamEvent fn ev) W"
  have W1: "sl_writers ?W1 wp = Some w" "stands w (calls_on (wr_handle w) ?W1) [] ops1"
    using wp by (simp_all add: log_call_def calls_on_def)
  obtain w2 W2 where W2: "run_on_writer (traced A) rt (Some wp) ops2 ?W1 = Ret W2"
      "sl_writers W2 = (sl_writers ?W1)(wp \<mapsto> w2)" "wr_handle w2 = wr_handle w" "pending w2 = pending w"
      "sl_filters W2 = sl_filters ?W1" "sl_calls W2 = sl_calls ?W1" "stands w2 (calls_on (wr_handle w2) W2) [] ?X"
    using continuation_runs [OF W1 sync] by blast
  define w' where "w' = w2\<lparr>wr_streamEventFn := None\<rparr>"
  define W3 where "W3 = set_writer wp w' W2"
  have w': "wr_handle w' = sf_handle f" "wr_streamEventFn w' = None" "\<not> wr_goStarted w'"
      "stands w' (calls_on (wr_handle w') W3) [] ?X"
    using W2(3,4,7) wp by (simp_all add: w'_def W3_def pending_def)
  have W3: "sl_writers W3 wp = Some w'" "sl_filters W3 = sl_filters W" "sl_calls W3 = sl_calls ?W1"
    using W2(5,6) by (simp_all add: W3_def set_writer_def log_call_def)
  have same: "flush_writer (traced A) (\<not> wr_responded w') (Some wp) W3 = flush_writer (traced A) True (Some wp) W3"
    using flush_answered [where w = w' and A = "traced A" and c = False and c' = True]
    by (cases "wr_responded w'") (simp_all add: flush_writer_def writer_at_def W3(1))
  obtain W4 where W4: "flush_writer (traced A) True (Some wp) W3 = Ret W4" "sl_filters W4 = sl_filters W3"
      "sl_writers W4 = sl_writers W3" "sl_calls W4 = sl_calls W3" "calls_on (wr_handle w') W4 = outcome_calls True ?X"
      "stands w' (calls_on (wr_handle w') W4)
        (if answer ?X \<noteq> None \<and> wr_localResp w' = None then [] else outcome_calls True ?X) ?X"
    using resolve_first [OF W3(1) w'(4), of A True] by blast
  have "stream_ended A rt fp (sf_handle f) ?X W4"
    using wp(1-3) W3 W4 w' by (intro stream_endedI [of _ _ f wp w']) simp_all
  moreover have "go_bind (run_on_writer (traced A) rt (Some wp) ops2 ?W1) (clear_event_fn wp) = Ret W3"
    using W2(1,2) by (simp add: clear_event_fn_def writer_at_def W3_def w'_def)
  ultimately show ?thesis using W3(1,3) W4(1,4) same by (auto simp: log_call_def)
qed

lemma stream_end_resolves:
  assumes fl: "follows W fp ops1" and f: "sl_filters W fp = Some f" "\<not> sf_streamDone f"
    and w: "Option.bind (sf_writer f) (sl_writers W) = Some w" "wr_streamEventFn w = Some fn" "\<not> wr_goStarted w"
    and sync: "list_all (\<lambda>op. \<not> is_async op) ops2"
  shows "\<exists>W'. sahl_OnHttpStreamComplete (traced A) rt fp i ops2 W = Ret W' \<and>
      stream_ended A rt fp (sf_handle f) (ops1 @ ops2) W' \<and>
      sl_calls W' = sl_calls W @ [(sf_handle f, CallStreamEvent fn (HTTPStreamComplete i))]"
    and "\<exists>W'. sahl_OnHttpStreamReset (traced A) rt fp i reason ops2 W = Ret W' \<and>
      stream_ended A rt fp (sf_handle f) (ops1 @ ops2) W' \<and>
      sl_calls W' = sl_calls W @ [(sf_handle f, CallStreamEvent fn (HTTPStreamReset i reason))]"
proof -
  from fl f(1) w(1) obtain wp where wp: "sf_writer f = Some wp" "sl_writers W wp = Some w" "wr_handle w = sf_handle f"
      "tracks w (calls_on (sf_handle f) W) ops1"
    by (auto simp: follows_def)
  note event = stream_end_event [OF f wp(1-3) w(3) wp(4) sync, of A rt fn]
  show "\<exists>W'. sahl_OnHttpStreamComplete (traced A) rt fp i ops2 W = Ret W' \<and>
      stream_ended A rt fp (sf_handle f) (ops1 @ ops2) W' \<and>
      sl_calls W' = sl_calls W @ [(sf_handle f, CallStreamEvent fn (HTTPStreamComplete i))]"
    using event [of "HTTPStreamComplete i"] f wp w(2)
    by (auto simp: sahl_OnHttpStreamComplete_def filter_at_def writer_at_def)
  show "\<exists>W'. sahl_OnHttpStreamReset (traced A) rt fp i reason ops2 W = Ret W' \<and>
      stream_ended A rt fp (sf_handle f) (ops1 @ ops2) W' \<and>
      sl_calls W' = sl_calls W @ [(sf_handle f, CallStreamEvent fn (HTTPStreamReset i reason))]"
    using event [of "HTTPStreamReset i reason"] f wp w(2)
    by (auto simp: sahl_OnHttpStreamReset_def filter_at_def writer_at_def)
qed

lemma goroutine_resolves:
  assumes w: "sl_writers W (gr_writer g) = Some w" "stands w (calls_on (wr_handle w) W) base ops1"
    and g: "nth_go i W = Some g" "gr_phase g = GoRunning" and sync: "list_all (\<lambda>op. \<not> is_async op) ops2"
  shows "\<exists>W1 W2. go_calls (traced A) rt i ops2 W = Ret W1 \<and>
    go_flush (traced A) i (go_returns (traced A) i W1) = Ret W2 \<and>
    calls_on (wr_handle w) W2 = base @ outcome_calls True (ops1 @ ops2) \<and> go_flush (traced A) i W2 = Ret W2 \<and>
    gr_ctx g \<in> set (sl_cancelled (go_returns (traced A) i W1))"
proof -
  obtain w' W1 where W1: "run_on_writer (traced A) rt (Some (gr_writer g)) ops2 W = Ret W1"
      "sl_writers W1 = (sl_writers W)(gr_writer g \<mapsto> w')" "wr_handle w' = wr_handle w" "sl_gos W1 = sl_gos W"
      "stands w' (calls_on (wr_handle w') W1) base (ops1 @ ops2)"
    using continuation_runs [OF w sync] by blast
  let ?W2 = "go_returns (traced A) i W1"
  let ?W3 = "set_phase i GoFlushed ?W2"
  have i: "i < length (sl_gos W)" "sl_gos W ! i = g" using g(1) by (auto simp: nth_go_def split: if_splits)
  have W2: "sl_gos ?W2 = (sl_gos W)[i := g\<lparr>gr_phase := GoScheduled\<rparr>]" "sl_writers ?W2 = sl_writers W1"
    "fst (sl_host ?W2) = fst (sl_host W1)" "gr_ctx g \<in> set (sl_cancelled ?W2)"
    using i g(2) W1(4) by (simp_all add: go_returns_def nth_go_def set_phase_def trace_defs)
  have W3: "sl_writers ?W3 (gr_writer g) = Some w'" "stands w' (calls_on (wr_handle w') ?W3) base (ops1 @ ops2)"
    using W1(2,5) W2 by (simp_all add: set_phase_def calls_on_def)
  obtain W4 where W4: "flush_writer (traced A) True (Some (gr_writer g)) ?W3 = Ret W4" "sl_gos W4 = sl_gos ?W3"
      "calls_on (wr_handle w') W4 = base @ outcome_calls True (ops1 @ ops2)"
    using resolve [OF W3, of A True] by blast
  have "go_flush (traced A) i ?W2 = Ret W4" "go_flush (traced A) i W4 = Ret W4"
    using W4 W2 i by (simp_all add: go_flush_def nth_go_def set_phase_def)
  moreover have "go_calls (traced A) rt i ops2 W = Ret W1"
    using g(1,2) W1(1) by (simp add: go_calls_def)
  ultimately show ?thesis using W4(3) W1(3) W2(4) by auto
qed

section \<open>Filters that read the body\<close>

lemma body_filter_waits:
  assumes f: "sl_filters W fp = Some f" "sf_handler f = Some d" "fd_bodyAware d"
    and pools: "pool_ok rc (sl_requestPool W) (sl_requests W)" "pool_ok wc (sl_writerPool W) (sl_writers W)"
    and new: "calls_on (sf_handle f) W = []"
  shows "\<exists>W' w r. sahl_OnRequestHeaders (traced A) rt fp rc wc ops W = Ret (HeadersStatusStopAllAndBuffer, W') \<and>
    sl_filters W' fp = Some (f\<lparr>sf_req := Some (chosen rc), sf_writer := Some (chosen wc)\<rparr>) \<and>
    sl_writers W' (chosen wc) = Some w \<and> sl_requests W' (chosen rc) = Some r \<and> wr_handle w = sf_handle f \<and>
    stands w (calls_on (wr_handle w) W') [] [] \<and> pending w = (False, False, False, None, None, None) \<and>
    sl_gos W' = sl_gos W \<and> sl_cancelled W' = sl_cancelled W"
proof -
  obtain r w W5 where a: "acquire (traced A) fp rc wc f W = Ret (chosen rc, chosen wc, W5)"
      "sl_filters W5 = (sl_filters W)(fp \<mapsto> f\<lparr>sf_req := Some (chosen rc), sf_writer := Some (chosen wc)\<rparr>)"
      "sl_writers W5 = (sl_writers W)(chosen wc \<mapsto> w)" "sl_requests W5 (chosen rc) = Some r"
      "wr_handle w = sf_handle f" "tracks w [] []" "pending w = (False, False, False, None, None, None)"
      "fst (sl_host W5) = fst (sl_host W)" "sl_gos W5 = sl_gos W" "sl_cancelled W5 = sl_cancelled W"
    using acquire_ok [OF f(1) pools, of A] by blast
  with f new show ?thesis
    by (intro exI [of _ W5] exI [of _ w] exI [of _ r])
      (simp add: sahl_OnRequestHeaders_def filter_at_def def_of_def calls_on_def)
qed

text \<open>
  The end of the body: the handler runs, on a writer that may have been used before, and its queue is
  flushed unless the request is answered, whatever the handler started.
\<close>

lemma body_handler_runs:
  assumes f: "sl_filters W fp = Some f" "sf_handler f = Some d" "fd_bodyAware d" "fd_handler d = Some fn"
      "sf_writer f = Some wp" "sf_req f = Some rp" "sl_writers W wp = Some w" "sl_requests W rp = Some r"
    and t: "stands w (calls_on (wr_handle w) W) [] ops0"
    and run: "run_hops (traced A) rt ops (w, r, sl_host W) = Ret (w', r', s')" and later: "no_inline (wops_of ops)"
  shows "\<exists>W'. sahl_OnRequestBody (traced A) rt fp True ops W = Ret (BodyStatusContinue, W') \<and>
    sl_writers W' wp = Some w' \<and> sl_gos W' = sl_gos W @ started_by wp w w' \<and> wr_handle w' = wr_handle w \<and>
    stands w' (calls_on (wr_handle w') W')
      (if wr_responded w' then [] else outcome_calls False (ops0 @ sync_part (wops_of ops)))
      (ops0 @ sync_part (wops_of ops))"
proof -
  let ?X = "ops0 @ sync_part (wops_of ops)"
  let ?W1 = "log_call (sf_handle f) (CallHandler fn) (set_filter fp (f\<lparr>sf_bodyDone := True\<rparr>) W)"
  define W2 where "W2 = set_request rp r' (set_writer wp w' ?W1)\<lparr>sl_host := s', sl_gos := sl_gos W @ started_by wp w w'\<rparr>"
  obtain new where n: "grows (wr_handle w) (sl_host W) s' new"
      "stands w' (calls_on (wr_handle w) W @ filter on_request_path new) [] ?X" "wr_handle w' = wr_handle w"
    by (rule run_hops_stands [OF t run later])
  have W2: "sl_writers W2 wp = Some w'" "sl_gos W2 = sl_gos W @ started_by wp w w'"
      "stands w' (calls_on (wr_handle w') W2) [] ?X"
    using n by (simp_all add: W2_def set_request_def set_writer_def calls_on_def grows_calls)
  obtain W3 where W3: "flush_writer (traced A) False (Some wp) W2 = Ret W3" "sl_writers W3 = sl_writers W2"
      "sl_gos W3 = sl_gos W2" "stands w' (calls_on (wr_handle w') W3)
        (if answer ?X \<noteq> None \<and> wr_localResp w' = None then [] else outcome_calls False ?X) ?X"
    using resolve_first [OF W2(1,3), of A False] by blast
  have "run_handler (traced A) rt (Some wp) (Some rp) ops ?W1 = Ret W2"
    using f run by (simp add: run_handler_def writer_at_def request_at_def log_call_def set_filter_def W2_def)
  with f W2(1) have hook: "sahl_OnRequestBody (traced A) rt fp True ops W =
      (if \<not> wr_responded w'
       then go_bind (flush_writer (traced A) False (Some wp) W2) (\<lambda>W3. Ret (BodyStatusContinue, W3))
       else Ret (BodyStatusContinue, W2))"
    by (simp add: sahl_OnRequestBody_def filter_at_def def_of_def writer_at_def)
  show ?thesis
  proof (cases "wr_responded w'")
    case True
    with hook W2 n(3) show ?thesis by auto
  next
    case False
    moreover have "answer ?X = None" using False stands_responded [OF W2(3)] by simp
    ultimately show ?thesis using hook W2 W3 n(3) by (intro exI [of _ W3]) auto
  qed
qed

lemma stands_answered:
  assumes "stands w tr (if wr_responded w then [] else outcome_calls c ops) ops" "\<not> wr_goStarted w"
  shows "tr = outcome_calls c ops"
  using assms by (auto simp: stands_def tracks_def outcome_calls_def split: if_splits option.splits)

section \<open>A world with one filter\<close>

definition demo_def :: filterDef where
  "demo_def = \<lparr>fd_configFn = None, fd_factoryFn = None, fd_handler = Some 4, fd_responseFn = None,
     fd_bodyAware = False, fd_mutableResponse = False\<rparr>"

definition empty_sahl :: "'h \<Rightarrow> 'h sahl_world" where
  "empty_sahl h = \<lparr>sl_filters = Map.empty, sl_requests = Map.empty, sl_writers = Map.empty, sl_filterPool = [],
     sl_requestPool = [], sl_writerPool = [], sl_gos = [], sl_cancelled = [], sl_calls = [], sl_host = h\<rparr>"

definition demo_filter :: sahlFilter where
  "demo_filter = zero_filter\<lparr>sf_name := ''demo'', sf_handler := Some demo_def, sf_handle := 9\<rparr>"

definition demo_world :: "'h recorded \<Rightarrow> 'h recorded sahl_world" where
  "demo_world h = set_filter 1 demo_filter (empty_sahl ([], snd h))"


lemma demo_world_simps [simp]:
  "sl_filters (demo_world h) 1 = Some demo_filter" "sl_requests (demo_world h) = Map.empty"
  "sl_writers (demo_world h) = Map.empty" "calls_on p (demo_world h) = []" "sl_gos (demo_world h) = []"
  "sf_handler demo_filter = Some demo_def" "sf_handle demo_filter = 9" "fd_handler demo_def = Some 4"
  "\<not> fd_bodyAware demo_def" "\<not> sf_streamDone demo_filter"
  by (simp_all add: demo_world_def demo_filter_def demo_def_def empty_sahl_def set_filter_def calls_on_def
      zero_filter_def)

lemma pool_ok_Fresh [simp]: "pool_ok (Fresh q) pool objs \<longleftrightarrow> q \<noteq> 0 \<and> objs q = None"
  by (simp add: pool_ok_def)

lemma chosen_simps [simp]: "chosen (Fresh q) = q" "chosen (Reuse q) = q"
  by (simp_all add: chosen_def)

lemma demo_go:
  "\<exists>W1 w. sahl_OnRequestHeaders A rt 1 (Fresh 2) (Fresh 3) [OnWriter (WGo 7)] (demo_world h) =
      Ret (HeadersStatusStop, W1) \<and> sl_writers W1 3 = Some w \<and> suspended w \<and>
    nth_go 0 W1 = Some \<lparr>gr_ctx = 7, gr_writer = 3, gr_handle = 9, gr_phase = GoRunning\<rparr>"
  by (simp add: sahl_OnRequestHeaders_def filter_at_def acquire_def getRequest_def getWriter_def request_at_def
      writer_at_def def_of_def set_writer_def set_request_def set_filter_def log_call_def run_handler_def
      w_Go_def w_reset_def zero_writer_def started_by_def suspended_def nth_go_def case_prod_beta Let_def)

section \<open>Properties\<close>

text \<open>C30: a handler that starts nothing asynchronous: \<open>OnRequestHeaders\<close> returns, without a panic, over
  every implementation of the handle, every code of the handler and every choice of the pools, and the
  handle has received exactly the outcome of that code. If the code called \<open>Send\<close>, that is one local
  response with the response headers queued before the first \<open>Send\<close>, nothing else, and Envoy is told to
  stop; if not, it is the queued request headers, metadata, route clearing and metrics, each kind in the
  order queued, no \<open>ContinueRequest\<close>, and Envoy is told to continue. Other handles are not touched.\<close>

theorem synchronous_handler_outcome:
  assumes "sl_filters W fp = Some f" "sf_handler f = Some d" "\<not> fd_bodyAware d" "fd_handler d = Some fn"
    and "pool_ok rc (sl_requestPool W) (sl_requests W)" "pool_ok wc (sl_writerPool W) (sl_writers W)"
    and "calls_on (sf_handle f) W = []"
    and "ReadBody \<notin> set ops" "list_all (\<lambda>op. \<not> is_async op) (wops_of ops)"
  shows "\<exists>W'. sahl_OnRequestHeaders (traced A) rt fp rc wc ops W =
      Ret (if answer (wops_of ops) = None then HeadersStatusContinue else HeadersStatusStop, W') \<and>
    calls_on (sf_handle f) W' = outcome_calls False (wops_of ops) \<and>
    (\<forall>q. q \<noteq> sf_handle f \<longrightarrow> calls_on q W' = calls_on q W)"
proof -
  have none: "filter is_async (wops_of ops) = []" "sync_part (wops_of ops) = wops_of ops"
    using assms(9) by (auto simp: filter_empty_conv list_all_iff sync_part_def)
  with handler_runs [OF assms(1-8) _ sync_no_inline [OF assms(9)], of A rt] show ?thesis by auto
qed

theorem synchronous_handler_outcome_witness:
  "\<forall>A rt h. \<exists>W'. sahl_OnRequestHeaders (traced A) rt 1 (Fresh 2) (Fresh 3)
      [GetHeader ''Host'', OnWriter (WSetRequestHeader ''k'' ''v''), OnWriter (WSetResponseHeader ''a'' ''b''),
       OnWriter (WSend 403 ''no''), OnWriter (WSetRequestHeader ''x'' ''y'')] (demo_world h) =
      Ret (HeadersStatusStop, W') \<and>
    calls_on 9 W' = [CLocalResponse 403 [(''a'', ''b'')] (Some ''no'') ''sahl'']"
proof (intro allI)
  fix A rt and h :: "'a recorded"
  from synchronous_handler_outcome [of "demo_world h" 1 demo_filter demo_def 4 "Fresh 2" "Fresh 3"
      "[GetHeader ''Host'', OnWriter (WSetRequestHeader ''k'' ''v''), OnWriter (WSetResponseHeader ''a'' ''b''),
       OnWriter (WSend 403 ''no''), OnWriter (WSetRequestHeader ''x'' ''y'')]" A rt]
  show "\<exists>W'. sahl_OnRequestHeaders (traced A) rt 1 (Fresh 2) (Fresh 3)
      [GetHeader ''Host'', OnWriter (WSetRequestHeader ''k'' ''v''), OnWriter (WSetResponseHeader ''a'' ''b''),
       OnWriter (WSend 403 ''no''), OnWriter (WSetRequestHeader ''x'' ''y'')] (demo_world h) =
      Ret (HeadersStatusStop, W') \<and>
    calls_on 9 W' = [CLocalResponse 403 [(''a'', ''b'')] (Some ''no'') ''sahl'']"
    by (auto simp: answer_def outcome_calls_def response_call_def queued_def)
qed

text \<open>C31: a handler that started one callout, one stream or one goroutine, nothing of which completed before
  \<open>OnRequestHeaders\<close> returned: the hook told Envoy to stop, and the completion (with any synchronous code in
  it) brings the calls made on the handle to exactly the outcome of the code before and in the completion:
  one \<open>SendLocalResponse\<close> if any of it called \<open>Send\<close>, otherwise the mutations of both in order followed by
  one \<open>ContinueRequest\<close>. The continuation of a callout receives Envoy's arguments unchanged. A second
  completion of the callout, a second flush of the goroutine and a reset after the end of a stream do
  nothing, and the goroutine's context ends cancelled; but \<open>OnHttpStreamComplete\<close> after the end of the
  stream flushes again, which repeats everything unless the request was answered (\<open>stream_ended\<close>).\<close>

theorem suspended_request_resolved:
  assumes "sl_filters W fp = Some f" "sf_handler f = Some d" "\<not> fd_bodyAware d" "fd_handler d = Some fn"
    and "pool_ok rc (sl_requestPool W) (sl_requests W)" "pool_ok wc (sl_writerPool W) (sl_writers W)"
    and "calls_on (sf_handle f) W = []" "\<not> sf_streamDone f"
    and "ReadBody \<notin> set ops" "length (filter is_async (wops_of ops)) \<le> 1" "no_inline (wops_of ops)"
    and run: "sahl_OnRequestHeaders (traced A) rt fp rc wc ops W = Ret (st, W1)"
    and w: "sl_writers W1 (chosen wc) = Some w" "suspended w"
    and sync: "list_all (\<lambda>op. \<not> is_async op) ops2"
  shows "st = HeadersStatusStop \<and>
    (\<forall>k result hs b. wr_calloutFn w = Some k \<longrightarrow> (\<exists>W2.
      sahl_OnHttpCalloutDone (traced A) rt fp result hs b ops2 W1 = Ret W2 \<and>
      calls_on (sf_handle f) W2 = outcome_calls True (sync_part (wops_of ops) @ ops2) \<and>
      sl_calls W2 = sl_calls W1 @ [(sf_handle f, CallContinuation k result hs b)] \<and>
      (\<forall>result' hs' b' ops'. sahl_OnHttpCalloutDone (traced A) rt fp result' hs' b' ops' W2 = Ret W2))) \<and>
    (\<forall>k i reason. wr_streamEventFn w = Some k \<longrightarrow>
      (\<exists>W2. sahl_OnHttpStreamComplete (traced A) rt fp i ops2 W1 = Ret W2 \<and>
        stream_ended A rt fp (sf_handle f) (sync_part (wops_of ops) @ ops2) W2) \<and>
      (\<exists>W2. sahl_OnHttpStreamReset (traced A) rt fp i reason ops2 W1 = Ret W2 \<and>
        stream_ended A rt fp (sf_handle f) (sync_part (wops_of ops) @ ops2) W2)) \<and>
    (\<forall>i g. nth_go i W1 = Some g \<and> gr_phase g = GoRunning \<and> gr_writer g = chosen wc \<longrightarrow> (\<exists>W2 W3.
      go_calls (traced A) rt i ops2 W1 = Ret W2 \<and> go_flush (traced A) i (go_returns (traced A) i W2) = Ret W3 \<and>
      calls_on (sf_handle f) W3 = outcome_calls True (sync_part (wops_of ops) @ ops2) \<and>
      go_flush (traced A) i W3 = Ret W3 \<and> gr_ctx g \<in> set (sl_cancelled (go_returns (traced A) i W2))))"
proof -
  let ?f = "f\<lparr>sf_req := Some (chosen rc), sf_writer := Some (chosen wc)\<rparr>"
  let ?X = "sync_part (wops_of ops)"
  from handler_runs [OF assms(1-7,9-11), of A rt] run w
  have r: "st = HeadersStatusStop" "follows W1 fp ?X" "sl_filters W1 fp = Some ?f"
    and one: "wr_streamEventFn w \<noteq> None \<longrightarrow> \<not> wr_goStarted w"
    by auto
  have wr: "Option.bind (sf_writer ?f) (sl_writers W1) = Some w" "\<not> sf_streamDone ?f"
    using w(1) assms(8) by simp_all
  have t: "wr_handle w = sf_handle f" "stands w (calls_on (wr_handle w) W1) [] ?X"
    using r(2,3) w(1) by (auto simp: follows_def)
  have "\<exists>W2 W3. go_calls (traced A) rt i ops2 W1 = Ret W2 \<and>
      go_flush (traced A) i (go_returns (traced A) i W2) = Ret W3 \<and>
      calls_on (sf_handle f) W3 = outcome_calls True (?X @ ops2) \<and>
      go_flush (traced A) i W3 = Ret W3 \<and> gr_ctx g \<in> set (sl_cancelled (go_returns (traced A) i W2))"
    if "nth_go i W1 = Some g \<and> gr_phase g = GoRunning \<and> gr_writer g = chosen wc" for i g
    using goroutine_resolves [OF _ t(2), of g i ops2 A rt] that w(1) t(1) sync by auto
  moreover have "(\<exists>W2. sahl_OnHttpStreamComplete (traced A) rt fp i ops2 W1 = Ret W2 \<and>
        stream_ended A rt fp (sf_handle f) (?X @ ops2) W2) \<and>
      (\<exists>W2. sahl_OnHttpStreamReset (traced A) rt fp i reason ops2 W1 = Ret W2 \<and>
        stream_ended A rt fp (sf_handle f) (?X @ ops2) W2)" if "wr_streamEventFn w = Some k" for k i reason
  proof -
    have "\<not> wr_goStarted w" using one that by simp
    note ended = stream_end_resolves [OF r(2,3) wr(2,1) that this sync, of A rt, simplified]
    from ended(1) [of i] ended(2) [of i reason] show ?thesis by blast
  qed
  moreover note callout_done_resolves [OF r(2,3) wr(2,1) _ sync]
  ultimately show ?thesis using r(1) by simp
qed


theorem suspended_request_resolved_witness:
  "\<forall>A rt h. \<exists>W1 W2 W3. sahl_OnRequestHeaders (traced A) rt 1 (Fresh 2) (Fresh 3) [OnWriter (WGo 7)] (demo_world h) =
      Ret (HeadersStatusStop, W1) \<and> go_calls (traced A) rt 0 [WSetRequestHeader ''k'' ''v''] W1 = Ret W2 \<and>
    go_flush (traced A) 0 (go_returns (traced A) 0 W2) = Ret W3 \<and> calls_on 9 W3 = [CSetHeader ''k'' ''v'', CContinue]"
proof (intro allI)
  fix A rt and h :: "'a recorded"
  obtain W1 w where r: "sahl_OnRequestHeaders (traced A) rt 1 (Fresh 2) (Fresh 3) [OnWriter (WGo 7)] (demo_world h) =
      Ret (HeadersStatusStop, W1)" "sl_writers W1 3 = Some w" "suspended w"
    "nth_go 0 W1 = Some \<lparr>gr_ctx = 7, gr_writer = 3, gr_handle = 9, gr_phase = GoRunning\<rparr>"
    using demo_go [of "traced A" rt h] by blast
  let ?g = "\<lparr>gr_ctx = 7, gr_writer = 3, gr_handle = 9, gr_phase = GoRunning\<rparr>"
  have p: "pool_ok (Fresh 2) (sl_requestPool (demo_world h)) (sl_requests (demo_world h))"
      "pool_ok (Fresh 3) (sl_writerPool (demo_world h)) (sl_writers (demo_world h))"
      "calls_on (sf_handle demo_filter) (demo_world h) = []"
      "ReadBody \<notin> set [OnWriter (WGo 7)]" "length (filter is_async (wops_of [OnWriter (WGo 7)])) \<le> 1"
      "no_inline (wops_of [OnWriter (WGo 7)])"
      "sl_writers W1 (chosen (Fresh 3)) = Some w" "list_all (\<lambda>op. \<not> is_async op) [WSetRequestHeader ''k'' ''v'']"
    using r(2) by simp_all
  note all = suspended_request_resolved [OF demo_world_simps(1,6,9,8) p(1-3) demo_world_simps(10) p(4-6) r(1)
      p(7) r(3) p(8)]
  have "nth_go 0 W1 = Some ?g \<and> gr_phase ?g = GoRunning \<and> gr_writer ?g = chosen (Fresh 3)" using r(4) by simp
  with all [THEN conjunct2, THEN conjunct2, THEN conjunct2, THEN spec, THEN spec, of 0 ?g]
  obtain W2 W3 where "go_calls (traced A) rt 0 [WSetRequestHeader ''k'' ''v''] W1 = Ret W2"
      "go_flush (traced A) 0 (go_returns (traced A) 0 W2) = Ret W3"
      "calls_on 9 W3 = outcome_calls True [WSetRequestHeader ''k'' ''v'']"
    by (auto simp: recorded_def)
  with r(1) show "\<exists>W1 W2 W3. sahl_OnRequestHeaders (traced A) rt 1 (Fresh 2) (Fresh 3) [OnWriter (WGo 7)]
      (demo_world h) = Ret (HeadersStatusStop, W1) \<and>
    go_calls (traced A) rt 0 [WSetRequestHeader ''k'' ''v''] W1 = Ret W2 \<and>
    go_flush (traced A) 0 (go_returns (traced A) 0 W2) = Ret W3 \<and> calls_on 9 W3 = [CSetHeader ''k'' ''v'', CContinue]"
    by (auto simp: outcome_calls_def answer_def queued_def)
qed

end
