(* ===== verification/SahlMixtures.thy ===== *)
theory SahlMixtures
  imports SahlRun
begin

text \<open>
  Requests of package sahl that leave the pattern of one handler and one later completion: a callout
  that completes before \<open>HttpCallout\<close> returns, a body-aware handler that calls \<open>Go\<close>, and a goroutine that
  outlives its request. Each is a sequence of hooks Envoy may call, over every implementation of the
  handles and all code of the filter author.
\<close>

section \<open>A callout that completes inline\<close>

text \<open>The handle accepts the callout.\<close>

definition accepts :: "'h handle_api \<Rightarrow> HTTPCalloutRequest \<Rightarrow> bool" where
  "accepts a req \<longleftrightarrow> (\<forall>cb s. fst (fst (ha_HttpCallout (ha_control a) (cr_Cluster req) (cr_Headers req) (cr_Body req)
     (cr_TimeoutMs req) cb s)) = CalloutInitSuccess)"

lemma callout_inline:
  assumes t: "stands w tr [] X" and idle: "pending w = (False, False, False, None, None, None)" "wr_handle w = p"
    and acc: "accepts (A p) req" and sync: "list_all (\<lambda>op. \<not> is_async op) ops2"
  shows "\<exists>w' s' new. apply_wop (traced A) rt (WHTTPCallout req (Some k) (Some ops2)) (w, s) = Ret (w', s') \<and>
    grows p s s' new \<and> wr_handle w' = p \<and> pending w' = (False, True, False, None, None, None) \<and>
    stands w' (tr @ filter on_request_path new)
      (if answer (X @ ops2) \<noteq> None then [] else outcome_calls True (X @ ops2)) (X @ ops2) \<and>
    tr @ filter on_request_path new = outcome_calls True (X @ ops2)"
proof -
  obtain i s1 where call: "ha_HttpCallout (ha_control (traced A p)) (cr_Cluster req) (cr_Headers req) (cr_Body req)
      (cr_TimeoutMs req) (wr_calloutCB w) s = ((CalloutInitSuccess, i), s1)"
    and s1: "fst s1 = fst s @ [(p, CCallout (cr_Cluster req))]"
    using acc unfolding callout_call accepts_def by (metis fst_conv prod.collapse)
  obtain w2 s2 where run: "run_wops (traced A) rt ops2 (w, s1) = Ret (w2, s2)"
    using run_sync_returns [OF sync, of "traced A" rt w s1] by blast
  then obtain new where n: "grows p s1 s2 new" "stands w2 (tr @ filter on_request_path new) [] (X @ ops2)"
      "wr_handle w2 = p"
    using run_wops_stands [OF t run sync_no_inline [OF sync]] idle(2) sync_part_all [OF sync] by auto
  have p2: "pending w2 = (False, False, False, None, None, None)" using run_sync_pending [OF sync run] idle(1) by simp
  define w' where "w' = w2\<lparr>wr_calloutStarted := True\<rparr>"
  define s' where "s' = w_flush (traced A) True w2 s2"
  define new' where "new' = [CCallout (cr_Cluster req)] @ new @ flush_calls True w2"
  have same: "w\<lparr>wr_calloutFn := None\<rparr> = w" using idle(1) by (simp add: pending_def)
  have "apply_wop (traced A) rt (WHTTPCallout req (Some k) (Some ops2)) (w, s) = Ret (w', s')"
    using idle call run
    by (simp add: w_HTTPCallout_def w_HTTPCalloutE_def Let_def pending_def w_callout_done_def same w'_def s'_def)
  moreover have "grows p s s' new'"
    using n(1,3) by (simp add: grows_def s1 s'_def new'_def flush_trace)
  moreover have "filter on_request_path new' = filter on_request_path new @ flush_calls True w2"
    by (simp add: new'_def flush_path)
  moreover have "wr_localResp w2 = None" using n(2) p2 by (auto simp: tracks_def pending_def)
  moreover have "stands w2 (tr @ filter on_request_path new @ flush_calls True w2)
      (if answer (X @ ops2) \<noteq> None then [] else outcome_calls True (X @ ops2)) (X @ ops2)"
    using flush_stands(2) [OF n(2), of True] calculation(4) by (cases "answer (X @ ops2)") simp_all
  then have "stands w' (tr @ filter on_request_path new @ flush_calls True w2)
      (if answer (X @ ops2) \<noteq> None then [] else outcome_calls True (X @ ops2)) (X @ ops2)"
    by (simp add: w'_def stands_def)
  ultimately show ?thesis
    using flush_stands(1) [OF n(2), of True] n(3) p2
    by (intro exI [of _ w'] exI [of _ s'] exI [of _ new']) (simp add: w'_def pending_def)
qed

text \<open>The hook of a handler whose callout completes inline, in the middle of the synchronous calls it makes.\<close>

lemma run_inline_handler:
  assumes idle: "pending w = (False, False, False, None, None, None)" "wr_handle w = p" and t: "tracks w [] []"
    and acc: "accepts (A p) req"
    and sync: "list_all (\<lambda>op. \<not> is_async op) (wops_of pre)" "list_all (\<lambda>op. \<not> is_async op) ops2"
      "list_all (\<lambda>op. \<not> is_async op) (wops_of post)" "ReadBody \<notin> set pre" "ReadBody \<notin> set post"
  shows "\<exists>w' r' s' new. run_hops (traced A) rt (pre @ OnWriter (WHTTPCallout req (Some k) (Some ops2)) # post) (w, r, s) =
      Ret (w', r', s') \<and> grows p s s' new \<and> wr_handle w' = p \<and> pending w' = (False, True, False, None, None, None) \<and>
    stands w' (filter on_request_path new)
      (if answer (wops_of pre @ ops2) \<noteq> None then [] else outcome_calls True (wops_of pre @ ops2))
      (wops_of pre @ ops2 @ wops_of post)"
proof -
  have none: "filter is_async (wops_of pre) = []" "filter is_async (wops_of post) = []"
    using sync(1,3) by (auto simp: filter_empty_conv list_all_iff)
  have "stands w [] [] []" using t by simp
  obtain w1 r1 s1 where 1: "run_hops (traced A) rt pre (w, r, s) = Ret (w1, r1, s1)"
    using run_hops_returns [OF sync(4) sync_no_inline [OF sync(1)], of w "traced A" rt r s] none by auto
  obtain n1 where n1: "grows p s s1 n1" "stands w1 (filter on_request_path n1) [] (wops_of pre)" "wr_handle w1 = p"
    using run_hops_stands [OF \<open>stands w [] [] []\<close> 1 sync_no_inline [OF sync(1)]] idle(2) sync_part_all [OF sync(1)]
    by auto
  have p1: "pending w1 = (False, False, False, None, None, None)"
    using run_hops_pending [OF 1 none(1)] idle(1) by simp
  obtain w2 s2 n2 where 2: "apply_wop (traced A) rt (WHTTPCallout req (Some k) (Some ops2)) (w1, s1) = Ret (w2, s2)"
      "grows p s1 s2 n2" "wr_handle w2 = p" "pending w2 = (False, True, False, None, None, None)"
      "stands w2 (filter on_request_path n1 @ filter on_request_path n2)
        (if answer (wops_of pre @ ops2) \<noteq> None then [] else outcome_calls True (wops_of pre @ ops2)) (wops_of pre @ ops2)"
    using callout_inline [where A = A and p = p and rt = rt and k = k and s = s1, OF n1(2) p1 n1(3) acc sync(2)] by blast
  obtain w3 r3 s3 where 3: "run_hops (traced A) rt post (w2, r1, s2) = Ret (w3, r3, s3)"
    using run_hops_returns [OF sync(5) sync_no_inline [OF sync(3)], of w2 "traced A" rt r1 s2] none by auto
  obtain n3 where n3: "grows p s2 s3 n3" "wr_handle w3 = p"
      "stands w3 (filter on_request_path (n1 @ n2 @ n3))
        (if answer (wops_of pre @ ops2) \<noteq> None then [] else outcome_calls True (wops_of pre @ ops2))
        (wops_of pre @ ops2 @ wops_of post)"
    using run_hops_stands [OF 2(5) 3 sync_no_inline [OF sync(3)]] 2(3) sync_part_all [OF sync(3)] by auto
  have "pending w3 = (False, True, False, None, None, None)"
    using run_hops_pending [OF 3 none(2)] 2(4) by simp
  moreover have "grows p s s3 (n1 @ n2 @ n3)" by (intro grows_trans [OF n1(1)] grows_trans [OF 2(2)] n3(1))
  moreover have "run_hops (traced A) rt (pre @ OnWriter (WHTTPCallout req (Some k) (Some ops2)) # post) (w, r, s) =
      Ret (w3, r3, s3)"
    using 1 2(1) 3 by (simp add: run_hops_append del: apply_wop.simps)
  ultimately show ?thesis using n3(2,3) by blast
qed

definition late_answer :: "wop list \<Rightarrow> wop list \<Rightarrow> handle_call list" where
  "late_answer done ops =
     (if answer done = None then (case answer (done @ ops) of None \<Rightarrow> [] | Some r \<Rightarrow> [response_call r]) else [])"

lemma stands_late:
  assumes "stands w tr (if answer X \<noteq> None then [] else outcome_calls True X) (X @ ops)" "\<not> wr_goStarted w"
  shows "tr = outcome_calls True X @ late_answer X ops"
  using assms by (cases "answer X") (auto simp: stands_def tracks_def late_answer_def outcome_calls_def answer_Some_append
      split: option.splits)

section \<open>A goroutine beside a handler that has returned\<close>

lemma body_hook_ran:
  assumes "sahl_OnRequestBody (traced A) rt fp True ops W = Ret (st, W')"
    and "sl_filters W fp = Some f" "sf_handler f = Some d" "fd_bodyAware d" "fd_handler d = Some fn"
      "sf_writer f = Some wp" "sf_req f = Some rp" "sl_writers W wp = Some w" "sl_requests W rp = Some r"
  obtains w' r' s' where "run_hops (traced A) rt ops (w, r, sl_host W) = Ret (w', r', s')"
  using assms
  by (auto simp: sahl_OnRequestBody_def run_handler_def filter_at_def def_of_def writer_at_def request_at_def
      set_filter_def log_call_def go_bind_eq_Ret Let_def)

lemma run_hops_go:
  assumes "run_hops (traced A) rt (pre @ OnWriter (WGo ctx) # post) (w, r, s) = Ret (w', r', s')"
    and "pending w = (False, False, False, None, None, None)"
    and "filter is_async (wops_of pre) = []" "filter is_async (wops_of post) = []"
  shows "pending w' = (True, False, False, Some ctx, None, None)"
proof -
  from assms(1) obtain w1 r1 s1 where st: "run_hops (traced A) rt pre (w, r, s) = Ret (w1, r1, s1)"
      "run_hops (traced A) rt post (w1\<lparr>wr_goStarted := True, wr_goCancel := Some ctx\<rparr>, r1, s1) = Ret (w', r', s')"
    by (auto simp: run_hops_append go_bind_eq_Ret w_Go_def split: if_splits)
  from run_hops_pending [OF st(1) assms(3)] run_hops_pending [OF st(2) assms(4)] assms(2) show ?thesis
    by (simp add: pending_def)
qed

text \<open>The end of a request puts its writer back, with its goroutine still running.\<close>

lemma request_ends:
  assumes "sl_filters W fp = Some f" "sf_writer f = Some wp" "sl_writers W wp = Some w" "wr_goCancel w = Some ctx"
    and "sahl_OnStreamComplete A fp W = Ret W1" "sahl_OnDestroy fp W1 = Ret W2"
  shows "ctx \<in> set (sl_cancelled W2) \<and> wp \<in> set (sl_writerPool W2) \<and> sl_writers W2 wp \<noteq> None \<and> sl_gos W2 = sl_gos W"
  using assms
  by (auto simp: sahl_OnStreamComplete_def sahl_OnDestroy_def filter_at_def writer_at_def set_filter_def set_writer_def
      putWriter_def putRequest_def w_flushResponseMutations_def Let_def case_prod_beta split: if_splits option.splits)

lemma next_filter:
  assumes "newSahlFilter choice name d handle W = Ret (fp, W')"
  shows "\<exists>f. sl_filters W' fp = Some f \<and> sf_handler f = Some d \<and> sf_handle f = handle \<and> sl_writers W' = sl_writers W \<and>
    sl_requests W' = sl_requests W \<and> sl_writerPool W' = sl_writerPool W \<and> sl_requestPool W' = sl_requestPool W \<and>
    sl_gos W' = sl_gos W \<and> calls_on p W' = calls_on p W"
  using assms
  by (auto simp: newSahlFilter_def filter_at_def set_filter_def Let_def calls_on_def go_bind_eq_Ret
      split: pool_choice.splits if_splits option.splits)

section \<open>Properties\<close>


text \<open>C34: a writer goes back to its pool while a goroutine that \<open>Go\<close> started may still hold it. Whenever a
  request has been completed and destroyed, and so the context of its goroutine cancelled, and a filter
  that reads the body gets the writer for a new request, the calls the goroutine still makes on it before
  the body has arrived become part of the new request: what its handle receives is the outcome of those
  calls followed by the handler's own, up to a local response the goroutine of the old request sends.\<close>

theorem goroutine_outlives_request:
  assumes "sl_filters W fp = Some f" "sf_writer f = Some wp" "sl_writers W wp = Some w" "wr_goCancel w = Some (gr_ctx g)"
    and g: "nth_go i W = Some g" "gr_phase g = GoRunning" "gr_writer g = wp"
    and ended: "sahl_OnStreamComplete (traced A) fp W = Ret W1" "sahl_OnDestroy fp W1 = Ret W2"
    and fresh: "newSahlFilter choice name d handle W2 = Ret (fp', W3)" "fd_bodyAware d" "fd_handler d = Some fn"
      "calls_on handle W2 = []" "pool_ok rc (sl_requestPool W2) (sl_requests W2)"
      "sahl_OnRequestHeaders (traced A) rt fp' rc (Reuse wp) ops0 W3 = Ret (st, W4)"
    and late: "go_calls (traced A) rt i late W4 = Ret W5" "list_all (\<lambda>op. \<not> is_async op) late"
    and body: "sahl_OnRequestBody (traced A) rt fp' True ops W5 = Ret (st', W6)"
      "list_all (\<lambda>op. \<not> is_async op) (wops_of ops)"
  shows "gr_ctx g \<in> set (sl_cancelled W2) \<and> calls_on handle W6 = outcome_calls False (late @ wops_of ops)"
proof -
  note e = request_ends [OF assms(1-4) ended]
  obtain f3 where f3: "sl_filters W3 fp' = Some f3" "sf_handler f3 = Some d" "sf_handle f3 = handle"
      "sl_writers W3 = sl_writers W2" "sl_requests W3 = sl_requests W2" "sl_writerPool W3 = sl_writerPool W2"
      "sl_requestPool W3 = sl_requestPool W2" "sl_gos W3 = sl_gos W2" "calls_on handle W3 = calls_on handle W2"
    using next_filter [OF fresh(1), of handle] by blast
  have p: "pool_ok rc (sl_requestPool W3) (sl_requests W3)" "pool_ok (Reuse wp) (sl_writerPool W3) (sl_writers W3)"
      "calls_on (sf_handle f3) W3 = []"
    using fresh(4,5) e f3 by (simp_all add: pool_ok_def)
  let ?f = "f3\<lparr>sf_req := Some (chosen rc), sf_writer := Some wp\<rparr>"
  obtain w4 r where w4: "sl_filters W4 fp' = Some ?f" "sl_writers W4 wp = Some w4" "sl_requests W4 (chosen rc) = Some r"
      "wr_handle w4 = handle" "stands w4 (calls_on (wr_handle w4) W4) [] []"
      "pending w4 = (False, False, False, None, None, None)" "sl_gos W4 = sl_gos W3"
    using body_filter_waits [OF f3(1,2) fresh(2) p, of A rt ops0] fresh(6) f3(3) by (auto simp: chosen_def)
  have run: "run_on_writer (traced A) rt (Some wp) late W4 = Ret W5"
    using late(1) g e f3(8) w4(7) by (simp add: go_calls_def nth_go_def split: if_splits)
  obtain w5 where w5: "sl_writers W5 wp = Some w5" "pending w5 = pending w4" "wr_handle w5 = handle"
      "sl_filters W5 = sl_filters W4" "sl_requests W5 = sl_requests W4" "stands w5 (calls_on (wr_handle w5) W5) [] late"
    using continuation_runs [OF w4(2,5) late(2), of A rt] run w4(4) by auto
  have f5: "sl_filters W5 fp' = Some ?f" "sf_handler ?f = Some d" "sf_writer ?f = Some wp"
      "sf_req ?f = Some (chosen rc)" "sl_requests W5 (chosen rc) = Some r"
    using w4(1,3) w5(4,5) f3(2) by simp_all
  obtain w6 r6 s6 where run6: "run_hops (traced A) rt ops (w5, r, sl_host W5) = Ret (w6, r6, s6)"
    by (rule body_hook_ran [OF body(1) f5(1,2) fresh(2,3) f5(3,4) w5(1) f5(5)])
  obtain W6' where "sahl_OnRequestBody (traced A) rt fp' True ops W5 = Ret (BodyStatusContinue, W6')" "wr_handle w6 = handle"
      "stands w6 (calls_on (wr_handle w6) W6') (if wr_responded w6 then [] else outcome_calls False (late @ wops_of ops))
        (late @ wops_of ops)"
    using body_handler_runs [OF f5(1,2) fresh(2,3) f5(3,4) w5(1) f5(5) w5(6) run6 sync_no_inline [OF body(2)],
        unfolded sync_part_all [OF body(2)]] w5(3) by auto
  moreover have "\<not> wr_goStarted w6"
    using run_hops_pending [OF run6] body(2) w4(6) w5(2) by (simp add: pending_def filter_empty_conv list_all_iff)
  ultimately show ?thesis using body(1) e stands_answered by auto
qed


section \<open>Runs\<close>

definition accepting :: "(ptr \<Rightarrow> 'h handle_api) \<Rightarrow> ptr \<Rightarrow> 'h handle_api" where
  "accepting A p = (A p)\<lparr>ha_control := (ha_control (A p))\<lparr>ha_HttpCallout :=
     (\<lambda>c hs b t cb h. ((CalloutInitSuccess, 1), h))\<rparr>\<rparr>"

definition demo_body_def :: filterDef where
  "demo_body_def = demo_def\<lparr>fd_bodyAware := True\<rparr>"

definition body_world :: "'h recorded \<Rightarrow> 'h recorded sahl_world" where
  "body_world h = set_filter 1 (demo_filter\<lparr>sf_handler := Some demo_body_def\<rparr>) (empty_sahl ([], snd h))"

lemma body_world_simps [simp]:
  "sl_filters (body_world h) 1 = Some (demo_filter\<lparr>sf_handler := Some demo_body_def\<rparr>)"
  "sl_requests (body_world h) = Map.empty" "sl_writers (body_world h) = Map.empty" "calls_on p (body_world h) = []"
  "sl_gos (body_world h) = []" "fd_bodyAware demo_body_def" "fd_handler demo_body_def = Some 4"
  by (simp_all add: body_world_def demo_body_def_def demo_def_def empty_sahl_def set_filter_def calls_on_def)

lemmas run_defs = sahl_OnRequestHeaders_def sahl_OnRequestBody_def sahl_OnStreamComplete_def sahl_OnDestroy_def
  newSahlFilter_def acquire_def getRequest_def getWriter_def putRequest_def
  putWriter_def world_defs run_handler_def run_on_writer_def flush_writer_def started_by_def
  go_calls_def nth_go_def empty_sahl_def demo_def_def demo_body_def_def
  zero_filter_def zero_writer_def w_reset_def w_Go_def w_SetRequestHeader_def

lemma reset_trace [simp]:
  "fst (snd (req_reset m (ha_RequestHeaders (ha_view (traced A p))) handle name (r, s))) = fst s"
  "fst (ha_GetScheduler (ha_control (traced A p)) s) = fst s"
  by (simp_all add: view_headers_traced req_reset_trace) (simp add: trace_defs)

lemma two_requests:
  "\<exists>W W1 W2 W3 W4 W5 W6. sl_filters W 1 = Some (demo_filter\<lparr>sf_req := Some 2, sf_writer := Some 3\<rparr>) \<and>
     (\<exists>w. sl_writers W 3 = Some w \<and> wr_goCancel w = Some 7) \<and>
     nth_go 0 W = Some \<lparr>gr_ctx = 7, gr_writer = 3, gr_handle = 9, gr_phase = GoRunning\<rparr> \<and>
     sahl_OnRequestHeaders (traced A) rt 1 (Fresh 2) (Fresh 3) [OnWriter (WGo 7)] (demo_world h) = Ret (HeadersStatusStop, W) \<and>
     sahl_OnStreamComplete (traced A) 1 W = Ret W1 \<and> sahl_OnDestroy 1 W1 = Ret W2 \<and>
     newSahlFilter (Reuse 1) ''demo'' demo_body_def 10 W2 = Ret (1, W3) \<and> calls_on 10 W2 = [] \<and>
     pool_ok (Reuse 2) (sl_requestPool W2) (sl_requests W2) \<and>
     sahl_OnRequestHeaders (traced A) rt 1 (Reuse 2) (Reuse 3) [] W3 = Ret (HeadersStatusStopAllAndBuffer, W4) \<and>
     go_calls (traced A) rt 0 [WSetRequestHeader k v] W4 = Ret W5 \<and>
     sahl_OnRequestBody (traced A) rt 1 True [] W5 = Ret (BodyStatusContinue, W6)"
  by (simp add: run_defs demo_world_def demo_filter_def pool_ok_def calls_on_def case_prod_beta Let_def)

theorem goroutine_outlives_request_witness:
  "\<forall>A rt h. \<exists>W5 W6. sahl_OnRequestBody (traced A) rt 1 True [] W5 = Ret (BodyStatusContinue, W6) \<and>
     calls_on 10 W6 = [CSetHeader ''k'' ''v'']"
proof (intro allI)
  fix A :: "ptr \<Rightarrow> 'a handle_api" and rt and h :: "'a recorded"
  obtain W W1 W2 W3 W4 W5 W6 w where r: "sl_filters W 1 = Some (demo_filter\<lparr>sf_req := Some 2, sf_writer := Some 3\<rparr>)"
      "sl_writers W 3 = Some w" "wr_goCancel w = Some 7"
      "nth_go 0 W = Some \<lparr>gr_ctx = 7, gr_writer = 3, gr_handle = 9, gr_phase = GoRunning\<rparr>"
      "sahl_OnStreamComplete (traced A) 1 W = Ret W1" "sahl_OnDestroy 1 W1 = Ret W2"
      "newSahlFilter (Reuse 1) ''demo'' demo_body_def 10 W2 = Ret (1, W3)" "calls_on 10 W2 = []"
      "pool_ok (Reuse 2) (sl_requestPool W2) (sl_requests W2)"
      "sahl_OnRequestHeaders (traced A) rt 1 (Reuse 2) (Reuse 3) [] W3 = Ret (HeadersStatusStopAllAndBuffer, W4)"
      "go_calls (traced A) rt 0 [WSetRequestHeader ''k'' ''v''] W4 = Ret W5"
      "sahl_OnRequestBody (traced A) rt 1 True [] W5 = Ret (BodyStatusContinue, W6)"
    using two_requests [of A rt h "''k''" "''v''"] by blast
  let ?g = "\<lparr>gr_ctx = 7, gr_writer = 3, gr_handle = 9, gr_phase = GoRunning\<rparr>"
  have "sf_writer (demo_filter\<lparr>sf_req := Some 2, sf_writer := Some 3\<rparr>) = Some 3" "wr_goCancel w = Some (gr_ctx ?g)"
    using r(3) by simp_all
  with goroutine_outlives_request [OF r(1) _ r(2) _ r(4) _ _ r(5-7) _ _ r(8-11) _ r(12)]
  have "calls_on 10 W6 = outcome_calls False ([WSetRequestHeader ''k'' ''v''] @ wops_of [])" by simp
  with r(12) show "\<exists>W5 W6. sahl_OnRequestBody (traced A) rt 1 True [] W5 = Ret (BodyStatusContinue, W6) \<and>
     calls_on 10 W6 = [CSetHeader ''k'' ''v'']"
    by (auto simp: outcome_calls_def answer_def queued_def)
qed

lemma body_run:
  "\<exists>W1 W2. sahl_OnRequestHeaders (traced A) rt 1 (Fresh 2) (Fresh 3) [] (body_world h) =
       Ret (HeadersStatusStopAllAndBuffer, W1) \<and>
     sahl_OnRequestBody (traced A) rt 1 True ([OnWriter (WSetRequestHeader k v)] @ OnWriter (WGo 7) # []) W1 =
       Ret (BodyStatusContinue, W2)"
  by (simp add: run_defs body_world_def demo_filter_def case_prod_beta Let_def)



end
