(* ===== verification/SahlDo.thy ===== *)
theory SahlDo
  imports SahlWriter
begin

text \<open>
  \<open>Do\<close> of package sahl (do.go): a callout that a goroutine waits for. The worker thread starts the
  callout from a scheduled closure and its callback sends the result on a channel of capacity one; the
  goroutine selects on the channel and on its context. Worker, Envoy and goroutine take steps in any
  order. The closure reads the handle of the writer when it runs, which is another request's if the
  writer has been reused meanwhile.
\<close>

section \<open>The state of one call\<close>

record HTTPCalloutResponse =
  hr_Result :: u32
  hr_Headers :: "(UnsafeEnvoyBuffer \<times> UnsafeEnvoyBuffer) list"
  hr_Body :: "UnsafeEnvoyBuffer list"

type_synonym do_result = "HTTPCalloutResponse option \<times> gostring option"

text \<open>
  \<open>dw_handle\<close> is the handle in the writer. \<open>dw_chan\<close> is the content of the channel and \<open>dw_blocked\<close> the sends that found it full and block their
  thread. \<open>dw_task\<close>: the closure is scheduled and has not run; \<open>dw_armed\<close>: the callout is in flight;
  \<open>dw_init\<close> and \<open>dw_delivered\<close>: what starting it gave and what its callback got; \<open>dw_ctx\<close>: the error of the
  cancelled context; \<open>dw_return\<close>: what \<open>Do\<close> returned.
\<close>

record 'h do_world =
  dw_host :: 'h
  dw_handle :: ptr
  dw_chan :: "do_result list"
  dw_blocked :: "do_result list"
  dw_task :: bool
  dw_armed :: bool
  dw_init :: "u32 option"
  dw_delivered :: "HTTPCalloutResponse option"
  dw_ctx :: "gostring option"
  dw_return :: "do_result option"

definition do_chan_cap :: nat where
  "do_chan_cap = 1"

definition chan_send :: "do_result \<Rightarrow> 'h do_world \<Rightarrow> 'h do_world" where
  "chan_send v W =
     (if length (dw_chan W) < do_chan_cap then W\<lparr>dw_chan := dw_chan W @ [v]\<rparr>
      else W\<lparr>dw_blocked := dw_blocked W @ [v]\<rparr>)"

section \<open>The pieces of \<open>Do\<close>\<close>

text \<open>The check, the channel and \<open>Schedule\<close>; \<open>task\<close> stands for the closure.\<close>

definition w_Do ::
    "(ptr \<Rightarrow> 'h handle_api) \<Rightarrow> objref \<Rightarrow> Writer \<Rightarrow> 'h \<Rightarrow> 'h do_world go" where
  "w_Do A task w h =
     (if \<not> wr_goStarted w
      then Panic ''BUG: sahl: w.Do called outside w.Go: only valid inside a Go goroutine''
      else Ret \<lparr>dw_host = ha_Schedule (ha_control (A (wr_handle w))) (Some task) h, dw_handle = wr_handle w, dw_chan = [], dw_blocked = [],
             dw_task = True, dw_armed = False, dw_init = None, dw_delivered = None, dw_ctx = None,
             dw_return = None\<rparr>)"

text \<open>The callback: it wraps what it is given and sends it.\<close>

definition do_callback :: "HTTPCalloutResponse \<Rightarrow> 'h do_world \<Rightarrow> 'h do_world" where
  "do_callback r W = chan_send (Some r, None) (W\<lparr>dw_armed := False, dw_delivered := Some r\<rparr>)"

text \<open>
  The closure, on the worker thread. \<open>inline\<close> is a completion that arrives before \<open>HttpCallout\<close> returns.
\<close>

definition do_closure ::
    "(ptr \<Rightarrow> 'h handle_api) \<Rightarrow> go_runtime \<Rightarrow> HTTPCalloutRequest \<Rightarrow> objref \<Rightarrow>
      HTTPCalloutResponse option \<Rightarrow> 'h do_world \<Rightarrow> 'h do_world" where
  "do_closure A rt req cb inline W =
     (let ((init, _), h) = ha_HttpCallout (ha_control (A (dw_handle W))) (cr_Cluster req) (cr_Headers req) (cr_Body req)
            (cr_TimeoutMs req) (Some cb) (dw_host W);
          W1 = W\<lparr>dw_host := h, dw_task := False, dw_init := Some init, dw_armed := init = CalloutInitSuccess\<rparr>;
          W2 = (case inline of None \<Rightarrow> W1 | Some r \<Rightarrow> do_callback r W1)
      in if init \<noteq> CalloutInitSuccess then chan_send (None, errCalloutInitResult rt init) W2 else W2)"

text \<open>The two branches of the select, and what \<open>Do\<close> returns in each.\<close>

definition do_receive :: "'h do_world \<Rightarrow> 'h do_world" where
  "do_receive W =
     (case dw_chan W of [] \<Rightarrow> W
      | v # rest \<Rightarrow>
          (case dw_blocked W of
             [] \<Rightarrow> W\<lparr>dw_chan := rest, dw_return := Some v\<rparr>
           | b # bs \<Rightarrow> W\<lparr>dw_chan := rest @ [b], dw_blocked := bs, dw_return := Some v\<rparr>))"

definition do_give_up :: "gostring \<Rightarrow> 'h do_world \<Rightarrow> 'h do_world" where
  "do_give_up err W = W\<lparr>dw_return := Some (None, Some (''sahl: w.Do: context cancelled: '' @ err))\<rparr>"

section \<open>Every order of the steps\<close>

text \<open>
  Envoy runs the closure at most once and calls the callback of a callout that was started at most
  once, inline or later, and never after a failed start. Its own state changes at any time, and so may
  the writer's handle, when the request has ended.
\<close>

inductive do_step ::
    "(ptr \<Rightarrow> 'h handle_api) \<Rightarrow> go_runtime \<Rightarrow> HTTPCalloutRequest \<Rightarrow> objref \<Rightarrow> 'h do_world \<Rightarrow>
      'h do_world \<Rightarrow> bool" for A rt req cb where
  closure: "dw_task W \<Longrightarrow>
    W' = do_closure A rt req cb inline W \<Longrightarrow>
    inline = None \<or> dw_init W' = Some CalloutInitSuccess \<Longrightarrow> do_step A rt req cb W W'"
| completion: "dw_armed W \<Longrightarrow> do_step A rt req cb W (do_callback r W)"
| receive: "dw_return W = None \<Longrightarrow> dw_chan W \<noteq> [] \<Longrightarrow> do_step A rt req cb W (do_receive W)"
| cancel: "dw_ctx W = None \<Longrightarrow> do_step A rt req cb W (W\<lparr>dw_ctx := Some err\<rparr>)"
| give_up: "dw_return W = None \<Longrightarrow> dw_ctx W = Some err \<Longrightarrow> do_step A rt req cb W (do_give_up err W)"
| elsewhere: "do_step A rt req cb W (W\<lparr>dw_host := h\<rparr>)"
| reuse: "do_step A rt req cb W (W\<lparr>dw_handle := p\<rparr>)"

definition do_reachable ::
    "(ptr \<Rightarrow> 'h handle_api) \<Rightarrow> go_runtime \<Rightarrow> HTTPCalloutRequest \<Rightarrow> objref \<Rightarrow> Writer \<Rightarrow> 'h \<Rightarrow> 'h do_world \<Rightarrow> bool" where
  "do_reachable A rt req cb w h W \<longleftrightarrow>
     (\<exists>W0. w_Do A cb w h = Ret W0 \<and> (do_step A rt req cb)\<^sup>*\<^sup>* W0 W)"

inductive_cases do_stepE: "do_step A rt req cb W W'"

section \<open>The invariant\<close>

text \<open>What a call may return, or have in its channel: the callback's response or the error of the start.\<close>

definition outcome :: "go_runtime \<Rightarrow> 'h do_world \<Rightarrow> do_result \<Rightarrow> bool" where
  "outcome rt W v \<longleftrightarrow>
     (\<exists>r. v = (Some r, None) \<and> dw_delivered W = Some r \<and> dw_init W = Some CalloutInitSuccess) \<or>
     (\<exists>i. v = (None, errCalloutInitResult rt i) \<and> dw_init W = Some i \<and> i \<noteq> CalloutInitSuccess)"

text \<open>
  There is one token: in the scheduled closure, the callout in flight, the channel, or received; only
  after giving up can it be received or still on its way while \<open>Do\<close> has returned.
\<close>

definition tokens :: "'h do_world \<Rightarrow> nat" where
  "tokens W = (if dw_task W then 1 else 0) + (if dw_armed W then 1 else 0) + length (dw_chan W)"

definition do_inv :: "go_runtime \<Rightarrow> 'h do_world \<Rightarrow> bool" where
  "do_inv rt W \<longleftrightarrow> dw_blocked W = [] \<and> tokens W \<le> 1 \<and>
     (dw_return W = None \<longrightarrow> tokens W = 1) \<and>
     (\<forall>v\<in>set (dw_chan W). outcome rt W v) \<and>
     (dw_task W \<longrightarrow> dw_init W = None \<and> dw_delivered W = None) \<and>
     (dw_armed W \<longrightarrow> dw_init W = Some CalloutInitSuccess \<and> dw_delivered W = None) \<and>
     (\<forall>v. dw_return W = Some v \<longrightarrow> outcome rt W v \<or>
        (\<exists>e. dw_ctx W = Some e \<and> v = (None, Some (''sahl: w.Do: context cancelled: '' @ e))))"

lemma do_inv_start: "w_Do A task w h = Ret W \<Longrightarrow> do_inv rt W"
  by (auto simp: w_Do_def do_inv_def tokens_def split: if_splits)

lemma outcome_same:
  "dw_init W' = dw_init W \<Longrightarrow> dw_delivered W' = dw_delivered W \<Longrightarrow> outcome rt W' = outcome rt W"
  by (simp add: outcome_def fun_eq_iff)

lemma do_inv_callback:
  assumes "do_inv rt W" and "dw_armed W"
  shows "do_inv rt (do_callback r W)"
proof -
  have "dw_chan W = []" "\<not> dw_task W" using assms by (auto simp: do_inv_def tokens_def split: if_splits)
  with assms show ?thesis
    by (auto simp: do_callback_def chan_send_def do_chan_cap_def do_inv_def tokens_def outcome_def)
qed

lemma init_kept [simp]: "dw_init (chan_send v W) = dw_init W" "dw_init (do_callback r W) = dw_init W"
  by (simp_all add: chan_send_def do_callback_def)

lemma do_inv_closure:
  assumes "do_inv rt W" and "dw_task W" and "W' = do_closure A rt req cb inline W"
    and "inline = None \<or> dw_init W' = Some CalloutInitSuccess"
  shows "do_inv rt W'"
proof -
  have idle: "dw_chan W = []" "\<not> dw_armed W" "dw_init W = None" "dw_delivered W = None"
    using assms(1,2) by (auto simp: do_inv_def tokens_def split: if_splits)
  obtain init i h where c: "ha_HttpCallout (ha_control (A (dw_handle W))) (cr_Cluster req) (cr_Headers req) (cr_Body req)
      (cr_TimeoutMs req) (Some cb) (dw_host W) = ((init, i), h)"
    by (metis prod.exhaust)
  let ?W1 = "W\<lparr>dw_host := h, dw_task := False, dw_init := Some init, dw_armed := init = CalloutInitSuccess\<rparr>"
  show ?thesis
  proof (cases "init = CalloutInitSuccess")
    case True
    have "do_inv rt ?W1"
      using assms(1,2) idle True by (auto simp: do_inv_def tokens_def outcome_def)
    with True assms(3) c show ?thesis
      using do_inv_callback [of rt ?W1] by (cases inline) (simp_all add: do_closure_def Let_def)
  next
    case False
    then have "inline = None"
      using assms(3,4) c by (cases inline) (auto simp: do_closure_def Let_def)
    with False assms(1-3) idle c show ?thesis
      by (auto simp: do_closure_def chan_send_def do_chan_cap_def do_inv_def tokens_def outcome_def)
  qed
qed

lemma do_inv_step: "do_step A rt req cb W W' \<Longrightarrow> do_inv rt W \<Longrightarrow> do_inv rt W'"
proof (induction rule: do_step.induct)
  case (closure W W' inline)
  then show ?case using do_inv_closure by blast
next
  case (completion W r)
  then show ?case by (simp add: do_inv_callback)
next
  case (receive W)
  then obtain v where "dw_chan W = [v]" by (cases "dw_chan W") (auto simp: do_inv_def tokens_def split: if_splits)
  with receive show ?case
    by (auto simp: do_receive_def do_inv_def tokens_def outcome_def split: list.splits if_splits)
next
  case (cancel W err)
  then show ?case by (auto simp: do_inv_def tokens_def outcome_def)
next
  case (give_up W err)
  then show ?case by (auto simp: do_give_up_def do_inv_def tokens_def outcome_def)
next
  case (elsewhere W h)
  then show ?case by (auto simp: do_inv_def tokens_def outcome_def)
next
  case (reuse W p)
  then show ?case by (auto simp: do_inv_def tokens_def outcome_def)
qed

lemma do_reachable_inv: "do_reachable A rt req cb w h W \<Longrightarrow> do_inv rt W"
proof -
  assume "do_reachable A rt req cb w h W"
  then obtain W0 where "w_Do A cb w h = Ret W0" "(do_step A rt req cb)\<^sup>*\<^sup>* W0 W"
    by (auto simp: do_reachable_def)
  from this(2,1) show ?thesis
    by (induction rule: rtranclp_induct) (auto intro: do_inv_start do_inv_step)
qed

section \<open>Properties\<close>

text \<open>C36: \<open>Do\<close> never blocks a worker thread and never strands the goroutine: in every order of the steps
  the channel holds at most one result and no send finds it full, also after the goroutine gave up; and
  while \<open>Do\<close> has not returned, exactly one of these holds: its closure is still scheduled, its callout is
  in flight, or a result is waiting for it.\<close>

theorem do_never_blocks_the_worker:
  assumes "do_reachable A rt req cb w h W"
  shows "dw_blocked W = [] \<and> length (dw_chan W) \<le> do_chan_cap \<and>
     (dw_return W = None \<longrightarrow> tokens W = 1)"
  using do_reachable_inv [OF assms] by (simp add: do_inv_def tokens_def do_chan_cap_def)

text \<open>C37: what \<open>Do\<close> returns is what happened: the response the callout's callback was given, or the error
  of a callout that could not be started, or, only if the context was cancelled, the cancellation
  error. A cancelled context always lets it return.\<close>

theorem do_returns_what_happened:
  assumes "do_reachable A rt req cb w h W"
  shows "(case dw_return W of
       Some v \<Rightarrow> outcome rt W v \<or>
         (\<exists>e. dw_ctx W = Some e \<and> v = (None, Some (''sahl: w.Do: context cancelled: '' @ e)))
     | None \<Rightarrow> (case dw_ctx W of None \<Rightarrow> True | Some e \<Rightarrow> do_step A rt req cb W (do_give_up e W)))"
  using do_reachable_inv [OF assms] by (auto simp: do_inv_def intro: do_step.give_up split: option.split)

text \<open>An implementation of the handles whose callouts start, and a response.\<close>

definition starting_handles :: "(ptr \<Rightarrow> 'h handle_api) \<Rightarrow> ptr \<Rightarrow> 'h handle_api" where
  "starting_handles A p = (A p)\<lparr>ha_control := (ha_control (A p))\<lparr>
     ha_HttpCallout := (\<lambda>c hs b t cb h. ((CalloutInitSuccess, 1), h))\<rparr>\<rparr>"

definition user_reply :: HTTPCalloutResponse where
  "user_reply = \<lparr>hr_Result = 0, hr_Headers = [], hr_Body = [\<lparr>Ptr = 64, Len = 1\<rparr>]\<rparr>"

abbreviation do_writer :: Writer where
  "do_writer \<equiv> zero_writer\<lparr>wr_goStarted := True\<rparr>"

lemma do_run:
  "\<exists>W. do_reachable (starting_handles A) rt req cb do_writer h W \<and> dw_return W = Some (Some user_reply, None)"
proof -
  let ?A = "starting_handles A"
  obtain W0 where W0: "w_Do ?A cb do_writer h = Ret W0" "dw_task W0" "dw_chan W0 = []" "dw_return W0 = None"
      "dw_blocked W0 = []"
    by (simp add: w_Do_def)
  define W1 where "W1 = do_closure ?A rt req cb None W0"
  have f1: "dw_armed W1" "dw_chan W1 = []" "dw_return W1 = None" "dw_blocked W1 = []"
    using W0 by (simp_all add: W1_def do_closure_def starting_handles_def)
  define W2 where "W2 = do_callback user_reply W1"
  have f2: "dw_chan W2 = [(Some user_reply, None)]" "dw_return W2 = None" "dw_blocked W2 = []"
    using f1 by (simp_all add: W2_def do_callback_def chan_send_def do_chan_cap_def)
  have "do_step ?A rt req cb W0 W1" by (rule do_step.closure [OF W0(2) W1_def]) simp
  moreover have "do_step ?A rt req cb W1 W2" unfolding W2_def by (rule do_step.completion [OF f1(1)])
  moreover have "do_step ?A rt req cb W2 (do_receive W2)" using f2 by (intro do_step.receive) simp_all
  ultimately have "(do_step ?A rt req cb)\<^sup>*\<^sup>* W0 (do_receive W2)"
    by (meson r_into_rtranclp rtranclp.rtrancl_into_rtrancl)
  with W0(1) f2 show ?thesis
    unfolding do_reachable_def by (intro exI [of _ "do_receive W2"]) (auto simp: do_receive_def)
qed

theorem do_never_blocks_the_worker_witness:
  "\<forall>A rt req cb h. \<exists>W. do_reachable (starting_handles A) rt req cb do_writer h W \<and>
     dw_task W \<and> dw_blocked W = [] \<and> tokens W = 1"
proof (intro allI)
  fix A :: "ptr \<Rightarrow> 'h handle_api" and rt :: go_runtime and req cb and h :: 'h
  obtain W0 where W0: "w_Do (starting_handles A) cb do_writer h = Ret W0" "dw_task W0" "dw_return W0 = None"
    by (simp add: w_Do_def)
  then have "do_reachable (starting_handles A) rt req cb do_writer h W0"
    unfolding do_reachable_def by blast
  from do_never_blocks_the_worker [OF this] this W0
  show "\<exists>W. do_reachable (starting_handles A) rt req cb do_writer h W \<and>
     dw_task W \<and> dw_blocked W = [] \<and> tokens W = 1" by blast
qed

theorem do_returns_what_happened_witness:
  "\<forall>A rt req cb h. \<exists>W. dw_return W = Some (Some user_reply, None) \<and> outcome rt W (Some user_reply, None) \<and>
     do_reachable (starting_handles A) rt req cb do_writer h W"
proof (intro allI)
  fix A :: "ptr \<Rightarrow> 'h handle_api" and rt :: go_runtime and req cb and h :: 'h
  obtain W where "do_reachable (starting_handles A) rt req cb do_writer h W" "dw_return W = Some (Some user_reply, None)"
    using do_run [of A rt req cb h] by blast
  from do_returns_what_happened [OF this(1)] this
  show "\<exists>W. dw_return W = Some (Some user_reply, None) \<and> outcome rt W (Some user_reply, None) \<and>
      do_reachable (starting_handles A) rt req cb do_writer h W"
    by auto
qed

end
