(* ===== verification/FakeHandle.thy ===== *)
theory FakeHandle
  imports SahlRequest BodyBuffer
begin

text \<open>
  The handles of shared/fake that unit tests and benchmarks run filters on: \<open>FakeFilterHandle\<close>
  (fake_filter_handle.go), which records what a filter does to it, and the parts of \<open>BenchFilterHandle\<close>
  (bench_handle.go), which do not. \<open>fake_api\<close> is the interface SahlApi asks for, implemented by fakes.
  Where the views they return lie in Go's memory is a parameter.
\<close>

section \<open>The handle\<close>

text \<open>
  \<open>'u\<close> is the state of the test: the functions that replace \<open>HttpCallout\<close> and \<open>StartHttpStream\<close> are the
  test's. What such a function does by firing the callback is the next event of a run.
\<close>

type_synonym 'u HTTPCalloutFn =
  "gostring \<Rightarrow> (gostring \<times> gostring) list \<Rightarrow> bytes option \<Rightarrow> u64 \<Rightarrow> objref option \<Rightarrow> 'u \<Rightarrow> (u32 \<times> u64) \<times> 'u"

type_synonym 'u HTTPStreamFn =
  "gostring \<Rightarrow> (gostring \<times> gostring) list \<Rightarrow> bytes option \<Rightarrow> bool \<Rightarrow> u64 \<Rightarrow> objref option \<Rightarrow> 'u \<Rightarrow> (u32 \<times> u64) \<times> 'u"

record CounterIncrement =
  ci_ID :: u64
  ci_N :: u64
  ci_Tags :: "gostring list"
  ci_Hist :: bool

record LocalResponse =
  lp_Status :: u32
  lp_Headers :: "(gostring \<times> gostring) list"
  lp_Body :: "bytes option"
  lp_Detail :: gostring

record 'u FakeFilterHandle =
  ff_reqHeaders :: FakeHeaderMap
  ff_respHeaders :: FakeHeaderMap
  ff_reqBody :: FakeBodyBuffer
  ff_respBody :: FakeBodyBuffer
  ff_receivedReqBody :: FakeBodyBuffer
  ff_receivedRespBody :: FakeBodyBuffer
  ff_bufferedReq :: bool
  ff_bufferedResp :: bool
  ff_metadata :: "gostring \<rightharpoonup> (gostring \<rightharpoonup> go_any)"
  ff_activeSpan :: "dymSpan option"
  ff_logEnabled :: bool
  ff_httpCalloutFn :: "'u HTTPCalloutFn option"
  ff_httpStreamFn :: "'u HTTPStreamFn option"
  ff_LocalResponses :: "LocalResponse list"
  ff_ContinuedReq :: i64
  ff_ContinuedResp :: i64
  ff_ClearedRouteCache :: i64
  ff_CounterIncrements :: "CounterIncrement list"

section \<open>Construction\<close>

definition WithHeaders :: "go_runtime \<Rightarrow> (gostring \<times> gostring) list \<Rightarrow> 'u FakeFilterHandle \<Rightarrow> 'u FakeFilterHandle" where
  "WithHeaders rt headers h = h\<lparr>ff_reqHeaders := NewFakeHeaderMap rt headers\<rparr>"

definition WithResponseHeaders ::
    "go_runtime \<Rightarrow> (gostring \<times> gostring) list \<Rightarrow> 'u FakeFilterHandle \<Rightarrow> 'u FakeFilterHandle" where
  "WithResponseHeaders rt headers h = h\<lparr>ff_respHeaders := NewFakeHeaderMap rt headers\<rparr>"

definition WithRequestBody :: "bytes option \<Rightarrow> 'u FakeFilterHandle \<Rightarrow> 'u FakeFilterHandle" where
  "WithRequestBody body h = h\<lparr>ff_reqBody := NewFakeBodyBuffer body, ff_bufferedReq := True\<rparr>"

definition WithReceivedRequestBody :: "bytes option \<Rightarrow> 'u FakeFilterHandle \<Rightarrow> 'u FakeFilterHandle" where
  "WithReceivedRequestBody body h = h\<lparr>ff_receivedReqBody := NewFakeBodyBuffer body\<rparr>"

definition WithResponseBody :: "bytes option \<Rightarrow> 'u FakeFilterHandle \<Rightarrow> 'u FakeFilterHandle" where
  "WithResponseBody body h = h\<lparr>ff_respBody := NewFakeBodyBuffer body\<rparr>"

definition WithReceivedResponseBody :: "bytes option \<Rightarrow> 'u FakeFilterHandle \<Rightarrow> 'u FakeFilterHandle" where
  "WithReceivedResponseBody body h = h\<lparr>ff_receivedRespBody := NewFakeBodyBuffer body\<rparr>"

definition WithActiveSpan :: "dymSpan option \<Rightarrow> 'u FakeFilterHandle \<Rightarrow> 'u FakeFilterHandle" where
  "WithActiveSpan span h = h\<lparr>ff_activeSpan := span\<rparr>"

definition WithLogEnabled :: "bool \<Rightarrow> 'u FakeFilterHandle \<Rightarrow> 'u FakeFilterHandle" where
  "WithLogEnabled enabled h = h\<lparr>ff_logEnabled := enabled\<rparr>"

definition WithHTTPCalloutFn :: "'u HTTPCalloutFn option \<Rightarrow> 'u FakeFilterHandle \<Rightarrow> 'u FakeFilterHandle" where
  "WithHTTPCalloutFn fn h = h\<lparr>ff_httpCalloutFn := fn\<rparr>"

definition WithHTTPStreamFn :: "'u HTTPStreamFn option \<Rightarrow> 'u FakeFilterHandle \<Rightarrow> 'u FakeFilterHandle" where
  "WithHTTPStreamFn fn h = h\<lparr>ff_httpStreamFn := fn\<rparr>"

definition NewFilterHandle ::
    "go_runtime \<Rightarrow> ('u FakeFilterHandle \<Rightarrow> 'u FakeFilterHandle) list \<Rightarrow> 'u FakeFilterHandle" where
  "NewFilterHandle rt opts =
     foldl (\<lambda>h opt. opt h)
       \<lparr>ff_reqHeaders = NewFakeHeaderMap rt [], ff_respHeaders = NewFakeHeaderMap rt [],
        ff_reqBody = NewFakeBodyBuffer None, ff_respBody = NewFakeBodyBuffer None,
        ff_receivedReqBody = NewFakeBodyBuffer None, ff_receivedRespBody = NewFakeBodyBuffer None,
        ff_bufferedReq = False, ff_bufferedResp = False, ff_metadata = Map.empty, ff_activeSpan = None,
        ff_logEnabled = False, ff_httpCalloutFn = None, ff_httpStreamFn = None, ff_LocalResponses = [],
        ff_ContinuedReq = 0, ff_ContinuedResp = 0, ff_ClearedRouteCache = 0, ff_CounterIncrements = []\<rparr> opts"

section \<open>Methods\<close>

definition ff_SetRequestBody :: "bytes option \<Rightarrow> 'u FakeFilterHandle \<Rightarrow> 'u FakeFilterHandle" where
  "ff_SetRequestBody body h = h\<lparr>ff_reqBody := NewFakeBodyBuffer body\<rparr>"

definition ff_SetReceivedBufferedRequestBody :: "bool \<Rightarrow> 'u FakeFilterHandle \<Rightarrow> 'u FakeFilterHandle" where
  "ff_SetReceivedBufferedRequestBody v h = h\<lparr>ff_bufferedReq := v\<rparr>"

definition ff_SetReceivedBufferedResponseBody :: "bool \<Rightarrow> 'u FakeFilterHandle \<Rightarrow> 'u FakeFilterHandle" where
  "ff_SetReceivedBufferedResponseBody v h = h\<lparr>ff_bufferedResp := v\<rparr>"

definition ff_ContinueRequest :: "'u FakeFilterHandle \<Rightarrow> 'u FakeFilterHandle" where
  "ff_ContinueRequest h = h\<lparr>ff_ContinuedReq := ff_ContinuedReq h + 1\<rparr>"

definition ff_ContinueResponse :: "'u FakeFilterHandle \<Rightarrow> 'u FakeFilterHandle" where
  "ff_ContinueResponse h = h\<lparr>ff_ContinuedResp := ff_ContinuedResp h + 1\<rparr>"

definition ff_ClearRouteCache :: "'u FakeFilterHandle \<Rightarrow> 'u FakeFilterHandle" where
  "ff_ClearRouteCache h = h\<lparr>ff_ClearedRouteCache := ff_ClearedRouteCache h + 1\<rparr>"

definition ff_SendLocalResponse ::
    "u32 \<Rightarrow> (gostring \<times> gostring) list \<Rightarrow> bytes option \<Rightarrow> gostring \<Rightarrow> 'u FakeFilterHandle \<Rightarrow> 'u FakeFilterHandle" where
  "ff_SendLocalResponse status headers body detail h =
     h\<lparr>ff_LocalResponses := ff_LocalResponses h @
        [\<lparr>lp_Status = status, lp_Headers = headers, lp_Body = body, lp_Detail = detail\<rparr>]\<rparr>"

definition ff_SetMetadata :: "gostring \<Rightarrow> gostring \<Rightarrow> go_any \<Rightarrow> 'u FakeFilterHandle \<Rightarrow> 'u FakeFilterHandle" where
  "ff_SetMetadata ns key value h =
     (let inner = (case ff_metadata h ns of None \<Rightarrow> Map.empty | Some m \<Rightarrow> m)
      in h\<lparr>ff_metadata := (ff_metadata h)(ns \<mapsto> inner(key \<mapsto> value))\<rparr>)"

definition ff_lookup :: "gostring \<Rightarrow> gostring \<Rightarrow> 'u FakeFilterHandle \<Rightarrow> go_any option" where
  "ff_lookup ns key h = Option.bind (ff_metadata h ns) (\<lambda>m. m key)"

text \<open>The string a found value denotes; the address of the first byte of an empty one does not exist.\<close>

definition ff_GetMetadataString :: "gostring \<Rightarrow> gostring \<Rightarrow> 'u FakeFilterHandle \<Rightarrow> (gostring \<times> bool) go" where
  "ff_GetMetadataString ns key h =
     (case ff_lookup ns key h of
        Some (AnyString s) \<Rightarrow>
          if s = [] then Panic ''runtime error: index out of range [0] with length 0'' else Ret (s, True)
      | _ \<Rightarrow> Ret ([], False))"

definition ff_GetMetadataNumber :: "gostring \<Rightarrow> gostring \<Rightarrow> 'u FakeFilterHandle \<Rightarrow> f64 \<times> bool" where
  "ff_GetMetadataNumber ns key h =
     (case ff_lookup ns key h of Some (AnyFloat64 f) \<Rightarrow> (f, True) | _ \<Rightarrow> (0, False))"

definition ff_GetMetadataBool :: "gostring \<Rightarrow> gostring \<Rightarrow> 'u FakeFilterHandle \<Rightarrow> bool \<times> bool" where
  "ff_GetMetadataBool ns key h =
     (case ff_lookup ns key h of Some (AnyBool b) \<Rightarrow> (b, True) | _ \<Rightarrow> (False, False))"

definition ff_LogEnabled :: "u32 \<Rightarrow> 'u FakeFilterHandle \<Rightarrow> bool" where
  "ff_LogEnabled level h = ff_logEnabled h"

text \<open>\<open>Schedule\<close> of the fake scheduler runs the closure at once; \<open>run\<close> is what it does.\<close>

definition fs_Schedule :: "(objref \<Rightarrow> 's \<Rightarrow> 's) \<Rightarrow> objref \<Rightarrow> 's \<Rightarrow> 's" where
  "fs_Schedule run fn s = run fn s"

definition InitClusterNotFound :: u32 where
  "InitClusterNotFound = of_nat (HttpCalloutInitResult_value HttpCalloutInitClusterNotFound)"

definition ff_HttpCallout ::
    "gostring \<Rightarrow> (gostring \<times> gostring) list \<Rightarrow> bytes option \<Rightarrow> u64 \<Rightarrow> objref option \<Rightarrow> 'u FakeFilterHandle \<Rightarrow> 'u \<Rightarrow>
      (u32 \<times> u64) \<times> 'u" where
  "ff_HttpCallout cluster headers body timeoutMs cb h u =
     (case ff_httpCalloutFn h of
        Some fn \<Rightarrow> fn cluster headers body timeoutMs cb u
      | None \<Rightarrow> ((InitClusterNotFound, 0), u))"

definition ff_StartHttpStream ::
    "gostring \<Rightarrow> (gostring \<times> gostring) list \<Rightarrow> bytes option \<Rightarrow> bool \<Rightarrow> u64 \<Rightarrow> objref option \<Rightarrow> 'u FakeFilterHandle \<Rightarrow>
      'u \<Rightarrow> (u32 \<times> u64) \<times> 'u" where
  "ff_StartHttpStream cluster headers body endOfStream timeoutMs cb h u =
     (case ff_httpStreamFn h of
        Some fn \<Rightarrow> fn cluster headers body endOfStream timeoutMs cb u
      | None \<Rightarrow> ((InitClusterNotFound, 0), u))"

definition MetricsSuccess_n :: u32 where
  "MetricsSuccess_n = of_nat (MetricsResult_value MetricsSuccess)"

definition ff_RecordHistogramValue ::
    "u64 \<Rightarrow> u64 \<Rightarrow> gostring list \<Rightarrow> 'u FakeFilterHandle \<Rightarrow> u32 \<times> 'u FakeFilterHandle" where
  "ff_RecordHistogramValue i n tags h =
     (MetricsSuccess_n, h\<lparr>ff_CounterIncrements := ff_CounterIncrements h @
        [\<lparr>ci_ID = i, ci_N = n, ci_Tags = tags, ci_Hist = True\<rparr>]\<rparr>)"

definition ff_IncrementCounterValue ::
    "u64 \<Rightarrow> u64 \<Rightarrow> gostring list \<Rightarrow> 'u FakeFilterHandle \<Rightarrow> u32 \<times> 'u FakeFilterHandle" where
  "ff_IncrementCounterValue i n tags h =
     (MetricsSuccess_n, h\<lparr>ff_CounterIncrements := ff_CounterIncrements h @
        [\<lparr>ci_ID = i, ci_N = n, ci_Tags = tags, ci_Hist = False\<rparr>]\<rparr>)"

section \<open>The parts of the benchmark handle\<close>

text \<open>The header map without records: the reads are those of the fake it embeds.\<close>

definition bench_asciiToLower :: "go_runtime \<Rightarrow> gostring \<Rightarrow> gostring" where
  "bench_asciiToLower rt s = (if list_ex upper_byte s then go_ToLower rt s else s)"

definition sh_Set :: "go_runtime \<Rightarrow> gostring \<Rightarrow> gostring \<Rightarrow> FakeHeaderMap \<Rightarrow> FakeHeaderMap" where
  "sh_Set rt key value f = f\<lparr>fk_headers := (fk_headers f)(bench_asciiToLower rt key := [value])\<rparr>"

definition sh_Add :: "go_runtime \<Rightarrow> gostring \<Rightarrow> gostring \<Rightarrow> FakeHeaderMap \<Rightarrow> FakeHeaderMap" where
  "sh_Add rt key value f =
     (let lower = bench_asciiToLower rt key
      in f\<lparr>fk_headers := (fk_headers f)(lower := fk_headers f lower @ [value])\<rparr>)"

text \<open>For ASCII keys the silent map holds what the recording one holds.\<close>

lemma bench_lower_ascii: "is_ascii key \<Longrightarrow> bench_asciiToLower rt key = go_ToLower rt key"
  using lower_same [of key] by (auto simp: bench_asciiToLower_def go_ToLower_def list_ex_iff list_all_iff)

lemma silent_holds_the_same:
  assumes "is_ascii key"
  shows "fk_headers (sh_Set rt key v f) = fk_headers (fk_Set rt key v f)"
    and "fk_headers (sh_Add rt key v f) = fk_headers (fk_Add rt key v f)"
  using bench_lower_ascii [OF assms] by (simp_all add: sh_Set_def sh_Add_def fk_Set_def fk_Add_def Let_def)

text \<open>
  The body whose chunk list is allocated once: \<open>sb_slot\<close> is what its one view denotes, nothing for the
  zero view.
\<close>

record SilentBodyBuffer =
  sb_inner :: FakeBodyBuffer
  sb_slot :: "bytes option"

definition NewSilentBodyBuffer :: "bytes option \<Rightarrow> SilentBodyBuffer" where
  "NewSilentBodyBuffer body =
     \<lparr>sb_inner = NewFakeBodyBuffer body,
      sb_slot = (if length (slice_bytes body) > 0 then Some (slice_bytes body) else None)\<rparr>"

definition sb_GetChunks :: "SilentBodyBuffer \<Rightarrow> bytes list \<times> SilentBodyBuffer" where
  "sb_GetChunks b =
     (if length (fb_Body (sb_inner b)) = 0 then ([], b)
      else ([fb_Body (sb_inner b)], b\<lparr>sb_slot := Some (fb_Body (sb_inner b))\<rparr>))"

lemma silent_chunks: "fst (sb_GetChunks b) = fb_GetChunks (sb_inner b)"
  by (simp add: sb_GetChunks_def fb_GetChunks_def)

section \<open>The interface\<close>

text \<open>
  A state of the interface is the fakes of a test, by address, and the state of the test. The
  parameters are Go's: \<open>gp_string\<close> is \<open>unsafe.StringData\<close>, \<open>gp_slice\<close> the address of the array of a slice,
  \<open>gp_memory\<close> the memory, \<open>gp_range\<close> the order in which the keys of a map are ranged over.
\<close>

type_synonym 'u fakes = "(ptr \<Rightarrow> 'u FakeFilterHandle) \<times> 'u"

record 'u go_places =
  gp_string :: "gostring \<Rightarrow> ptr"
  gp_slice :: "bytes \<Rightarrow> ptr"
  gp_memory :: "'u fakes \<Rightarrow> mem"
  gp_range :: "FakeHeaderMap \<Rightarrow> gostring list"

definition on_fake :: "ptr \<Rightarrow> ('u FakeFilterHandle \<Rightarrow> 'u FakeFilterHandle) \<Rightarrow> 'u fakes \<Rightarrow> 'u fakes" where
  "on_fake p f s = ((fst s)(p := f (fst s p)), snd s)"

definition on_fake_res ::
    "ptr \<Rightarrow> ('u FakeFilterHandle \<Rightarrow> 'r \<times> 'u FakeFilterHandle) \<Rightarrow> 'u fakes \<Rightarrow> 'r \<times> 'u fakes" where
  "on_fake_res p f s = (fst (f (fst s p)), (fst s)(p := snd (f (fst s p))), snd s)"

definition of_fake :: "ptr \<Rightarrow> ('u FakeFilterHandle \<Rightarrow> 'r) \<Rightarrow> 'u fakes \<Rightarrow> 'r \<times> 'u fakes" where
  "of_fake p f s = (f (fst s p), s)"

definition by_test :: "ptr \<Rightarrow> ('u FakeFilterHandle \<Rightarrow> 'u \<Rightarrow> 'r \<times> 'u) \<Rightarrow> 'u fakes \<Rightarrow> 'r \<times> 'u fakes" where
  "by_test p f s = (fst (f (fst s p) (snd s)), fst s, snd (f (fst s p) (snd s)))"

definition view_string :: "'u go_places \<Rightarrow> gostring \<Rightarrow> UnsafeEnvoyBuffer" where
  "view_string G v = \<lparr>Ptr = gp_string G v, Len = of_nat (length v)\<rparr>"

definition view_slice :: "'u go_places \<Rightarrow> bytes \<Rightarrow> UnsafeEnvoyBuffer" where
  "view_slice G b = \<lparr>Ptr = gp_slice G b, Len = of_nat (length b)\<rparr>"

text \<open>A map and a body of a fake; the last argument writes the changed one back.\<close>

definition fake_headers ::
    "'u go_places \<Rightarrow> go_runtime \<Rightarrow> ptr \<Rightarrow> ('u FakeFilterHandle \<Rightarrow> FakeHeaderMap) \<Rightarrow>
      ((FakeHeaderMap \<Rightarrow> FakeHeaderMap) \<Rightarrow> 'u FakeFilterHandle \<Rightarrow> 'u FakeFilterHandle) \<Rightarrow> 'u fakes header_api" where
  "fake_headers G rt p part change = \<lparr>
     hp_GetOneInto = (\<lambda>k out. of_fake p (\<lambda>h.
       (let (found, v) = fk_GetOneInto rt (part h) k []
        in if found then (True, view_string G v) else (False, out)))),
     hp_GetAll = of_fake p (\<lambda>h. concat (map (\<lambda>k. map (\<lambda>v. (view_string G k, view_string G v))
       (fk_headers (part h) k)) (gp_range G (part h)))),
     hp_Set = (\<lambda>k v. on_fake p (change (fk_Set rt k v))),
     hp_Remove = (\<lambda>k. on_fake p (change (fk_Remove rt k)))\<rparr>"

definition fake_body ::
    "'u go_places \<Rightarrow> ptr \<Rightarrow> ('u FakeFilterHandle \<Rightarrow> FakeBodyBuffer) \<Rightarrow>
      ((FakeBodyBuffer \<Rightarrow> FakeBodyBuffer) \<Rightarrow> 'u FakeFilterHandle \<Rightarrow> 'u FakeFilterHandle) \<Rightarrow> 'u fakes body_api" where
  "fake_body G p part change = \<lparr>
     bp_GetChunks = of_fake p (\<lambda>h. map (view_slice G) (fb_GetChunks (part h))),
     bp_GetSize = of_fake p (\<lambda>h. fb_GetSize (part h)),
     bp_Append = (\<lambda>d. on_fake p (change (fb_Append d))),
     bp_Drain = (\<lambda>n. on_fake p (change (fb_Drain n)))\<rparr>"

text \<open>The methods that return a constant are written in place.\<close>

definition fake_view :: "'u go_places \<Rightarrow> go_runtime \<Rightarrow> ptr \<Rightarrow> 'u fakes view_api" where
  "fake_view G rt p = \<lparr>
     ha_memory = gp_memory G,
     ha_RequestHeaders = fake_headers G rt p ff_reqHeaders ff_reqHeaders_update,
     ha_BufferedRequestBody = fake_body G p ff_reqBody ff_reqBody_update,
     ha_ReceivedRequestBody = fake_body G p ff_receivedReqBody ff_receivedReqBody_update,
     ha_BufferedResponseBody = Some (fake_body G p ff_respBody ff_respBody_update),
     ha_ReceivedBufferedRequestBody = of_fake p ff_bufferedReq,
     ha_GetAttributeString = (\<lambda>i. of_fake p (\<lambda>_. (empty_buffer, False))),
     ha_GetAttributeNumber = (\<lambda>i. of_fake p (\<lambda>_. (0, False))),
     ha_GetAttributeBool = (\<lambda>i. of_fake p (\<lambda>_. (False, False))),
     ha_GetActiveSpan = of_fake p ff_activeSpan,
     ha_Log = (\<lambda>level format args s. s)\<rparr>"

text \<open>The closure that \<open>Schedule\<close> runs at once is, in a run of sahl, the next step of its goroutine.\<close>

definition fake_control :: "ptr \<Rightarrow> 'u fakes control_api" where
  "fake_control p = \<lparr>
     ha_SetMetadata = (\<lambda>ns k v. on_fake p (ff_SetMetadata ns k v)),
     ha_ClearRouteCache = on_fake p ff_ClearRouteCache,
     ha_IncrementCounterValue = (\<lambda>i n tags. on_fake_res p (ff_IncrementCounterValue i n tags)),
     ha_RecordHistogramValue = (\<lambda>i n tags. on_fake_res p (ff_RecordHistogramValue i n tags)),
     ha_ContinueRequest = on_fake p ff_ContinueRequest,
     ha_SendLocalResponse = (\<lambda>status hs b d. on_fake p (ff_SendLocalResponse status hs b d)),
     ha_HttpCallout = (\<lambda>c hs b t cb. by_test p (ff_HttpCallout c hs b t cb)),
     ha_StartHttpStream = (\<lambda>c hs b e t cb. by_test p (ff_StartHttpStream c hs b e t cb)),
     ha_SendHttpStreamData = (\<lambda>i d e. of_fake p (\<lambda>_. False)),
     ha_SendHttpStreamTrailers = (\<lambda>i t. of_fake p (\<lambda>_. False)),
     ha_ResetHttpStream = (\<lambda>i s. s),
     ha_GetScheduler = (\<lambda>s. s),
     ha_Schedule = (\<lambda>fn s. case fn of None \<Rightarrow> s | Some t \<Rightarrow> fs_Schedule (\<lambda>_ s. s) t s)\<rparr>"

definition fake_api :: "'u go_places \<Rightarrow> go_runtime \<Rightarrow> ptr \<Rightarrow> 'u fakes handle_api" where
  "fake_api G rt p = \<lparr>ha_view = fake_view G rt p, ha_control = fake_control p\<rparr>"

text \<open>
  The benchmark handle is a fake whose request headers are the silent map over the fake's own map.
\<close>

definition NewBenchFilterHandle ::
    "go_runtime \<Rightarrow> ('u FakeFilterHandle \<Rightarrow> 'u FakeFilterHandle) list \<Rightarrow> 'u FakeFilterHandle" where
  "NewBenchFilterHandle rt opts = NewFilterHandle rt opts"

definition bench_view :: "'u go_places \<Rightarrow> go_runtime \<Rightarrow> ptr \<Rightarrow> 'u fakes view_api" where
  "bench_view G rt p = (fake_view G rt p)\<lparr>ha_RequestHeaders :=
     (fake_headers G rt p ff_reqHeaders ff_reqHeaders_update)\<lparr>
       hp_Set := (\<lambda>k v. on_fake p (ff_reqHeaders_update (sh_Set rt k v)))\<rparr>\<rparr>"

definition bench_api :: "'u go_places \<Rightarrow> go_runtime \<Rightarrow> ptr \<Rightarrow> 'u fakes handle_api" where
  "bench_api G rt p = \<lparr>ha_view = bench_view G rt p, ha_control = fake_control p\<rparr>"

end
