(* ===== verification/SahlSimulation.thy ===== *)
theory SahlSimulation
  imports SahlFilter
begin

text \<open>
  Package sahl reaches Envoy through the interfaces of SahlApi only, so it cannot tell two
  implementations of them apart: if the states of two implementations are related by \<open>R\<close> and every
  method keeps them related and gives the same result, every hook of sahl does the same over both
  (locale \<open>api_simulation\<close>). The two instances are the recorder and what it records (here), and the
  recorded fake handle and the plain one (FakeRun).
\<close>

section \<open>Relations\<close>

definition rel_upd :: "('a \<Rightarrow> 'b \<Rightarrow> bool) \<Rightarrow> ('a \<Rightarrow> 'a) \<Rightarrow> ('b \<Rightarrow> 'b) \<Rightarrow> bool" where
  "rel_upd R f g \<longleftrightarrow> (\<forall>x y. R x y \<longrightarrow> R (f x) (g y))"

definition rel_res :: "('a \<Rightarrow> 'b \<Rightarrow> bool) \<Rightarrow> ('a \<Rightarrow> 'r \<times> 'a) \<Rightarrow> ('b \<Rightarrow> 'r \<times> 'b) \<Rightarrow> bool" where
  "rel_res R f g \<longleftrightarrow> (\<forall>x y. R x y \<longrightarrow> fst (f x) = fst (g y) \<and> R (snd (f x)) (snd (g y)))"

definition rel_headers :: "('a \<Rightarrow> 'b \<Rightarrow> bool) \<Rightarrow> 'a header_api \<Rightarrow> 'b header_api \<Rightarrow> bool" where
  "rel_headers R H K \<longleftrightarrow>
     (\<forall>k out. rel_res R (hp_GetOneInto H k out) (hp_GetOneInto K k out)) \<and>
     rel_res R (hp_GetAll H) (hp_GetAll K) \<and>
     (\<forall>k v. rel_upd R (hp_Set H k v) (hp_Set K k v)) \<and> (\<forall>k. rel_upd R (hp_Remove H k) (hp_Remove K k))"

definition rel_body :: "('a \<Rightarrow> 'b \<Rightarrow> bool) \<Rightarrow> 'a body_api \<Rightarrow> 'b body_api \<Rightarrow> bool" where
  "rel_body R B C \<longleftrightarrow>
     rel_res R (bp_GetChunks B) (bp_GetChunks C) \<and> rel_res R (bp_GetSize B) (bp_GetSize C) \<and>
     (\<forall>d. rel_upd R (bp_Append B d) (bp_Append C d)) \<and> (\<forall>n. rel_upd R (bp_Drain B n) (bp_Drain C n))"

definition rel_view :: "('a \<Rightarrow> 'b \<Rightarrow> bool) \<Rightarrow> 'a view_api \<Rightarrow> 'b view_api \<Rightarrow> bool" where
  "rel_view R V U \<longleftrightarrow>
     (\<forall>x y. R x y \<longrightarrow> ha_memory V x = ha_memory U y) \<and>
     rel_headers R (ha_RequestHeaders V) (ha_RequestHeaders U) \<and>
     rel_body R (ha_BufferedRequestBody V) (ha_BufferedRequestBody U) \<and>
     rel_body R (ha_ReceivedRequestBody V) (ha_ReceivedRequestBody U) \<and>
     rel_option (rel_body R) (ha_BufferedResponseBody V) (ha_BufferedResponseBody U) \<and>
     rel_res R (ha_ReceivedBufferedRequestBody V) (ha_ReceivedBufferedRequestBody U) \<and>
     (\<forall>l f args. rel_upd R (ha_Log V l f args) (ha_Log U l f args))"

definition rel_control :: "('a \<Rightarrow> 'b \<Rightarrow> bool) \<Rightarrow> 'a control_api \<Rightarrow> 'b control_api \<Rightarrow> bool" where
  "rel_control R C D \<longleftrightarrow>
     (\<forall>ns k v. rel_upd R (ha_SetMetadata C ns k v) (ha_SetMetadata D ns k v)) \<and>
     rel_upd R (ha_ClearRouteCache C) (ha_ClearRouteCache D) \<and>
     (\<forall>i n tags. rel_res R (ha_IncrementCounterValue C i n tags) (ha_IncrementCounterValue D i n tags)) \<and>
     (\<forall>i n tags. rel_res R (ha_RecordHistogramValue C i n tags) (ha_RecordHistogramValue D i n tags)) \<and>
     rel_upd R (ha_ContinueRequest C) (ha_ContinueRequest D) \<and>
     (\<forall>s hs b d. rel_upd R (ha_SendLocalResponse C s hs b d) (ha_SendLocalResponse D s hs b d)) \<and>
     (\<forall>c hs b t cb. rel_res R (ha_HttpCallout C c hs b t cb) (ha_HttpCallout D c hs b t cb)) \<and>
     (\<forall>c hs b e t cb. rel_res R (ha_StartHttpStream C c hs b e t cb) (ha_StartHttpStream D c hs b e t cb)) \<and>
     (\<forall>i d e. rel_res R (ha_SendHttpStreamData C i d e) (ha_SendHttpStreamData D i d e)) \<and>
     (\<forall>i t. rel_res R (ha_SendHttpStreamTrailers C i t) (ha_SendHttpStreamTrailers D i t)) \<and>
     (\<forall>i. rel_upd R (ha_ResetHttpStream C i) (ha_ResetHttpStream D i)) \<and>
     rel_upd R (ha_GetScheduler C) (ha_GetScheduler D) \<and>
     (\<forall>t. rel_upd R (ha_Schedule C t) (ha_Schedule D t))"

lemma rel_updD: "rel_upd R f g \<Longrightarrow> R x y \<Longrightarrow> R (f x) (g y)"
  by (simp add: rel_upd_def)

lemma rel_resE:
  assumes "rel_res R f g" and "R x y"
  obtains r x1 y1 where "f x = (r, x1)" "g y = (r, y1)" "R x1 y1"
  using assms by (auto simp: rel_res_def) (metis prod.collapse)

lemma rel_res_snd: "rel_res R f g \<Longrightarrow> R x y \<Longrightarrow> R (snd (f x)) (snd (g y))"
  by (simp add: rel_res_def)

lemma go_bind_rel:
  "rel_go S m n \<Longrightarrow> (\<And>x y. S x y \<Longrightarrow> rel_go T (f x) (g y)) \<Longrightarrow> rel_go T (go_bind m f) (go_bind n g)"
  by (cases m; cases n) auto

lemma go_bind_same: "(\<And>x. rel_go T (f x) (g x)) \<Longrightarrow> rel_go T (go_bind m f) (go_bind m g)"
  by (cases m) auto

text \<open>Code on a writer that keeps the states behind the handles related.\<close>

definition rel_step ::
    "('a \<Rightarrow> 'b \<Rightarrow> bool) \<Rightarrow> (Writer \<times> 'a \<Rightarrow> (Writer \<times> 'a) go) \<Rightarrow> (Writer \<times> 'b \<Rightarrow> (Writer \<times> 'b) go) \<Rightarrow> bool" where
  "rel_step R f g \<longleftrightarrow> (\<forall>w h k. R h k \<longrightarrow> rel_go (rel_prod (=) R) (f (w, h)) (g (w, k)))"

lemma rel_stepD: "rel_step R f g \<Longrightarrow> R h k \<Longrightarrow> rel_go (rel_prod (=) R) (f (w, h)) (g (w, k))"
  by (simp add: rel_step_def)

text \<open>Two worlds that differ behind the handles only.\<close>

definition rel_world :: "('a \<Rightarrow> 'b \<Rightarrow> bool) \<Rightarrow> 'a sahl_world \<Rightarrow> 'b sahl_world \<Rightarrow> bool" where
  "rel_world R W U \<longleftrightarrow> R (sl_host W) (sl_host U) \<and>
     sl_filters W = sl_filters U \<and> sl_requests W = sl_requests U \<and> sl_writers W = sl_writers U \<and>
     sl_filterPool W = sl_filterPool U \<and> sl_requestPool W = sl_requestPool U \<and>
     sl_writerPool W = sl_writerPool U \<and> sl_gos W = sl_gos U \<and> sl_cancelled W = sl_cancelled U \<and>
     sl_calls W = sl_calls U"

section \<open>Reading a request\<close>

lemma headersD:
  assumes "rel_headers R H K"
  shows "rel_res R (hp_GetOneInto H k out) (hp_GetOneInto K k out)" "rel_res R (hp_GetAll H) (hp_GetAll K)"
    "rel_upd R (hp_Set H k v) (hp_Set K k v)" "rel_upd R (hp_Remove H k) (hp_Remove K k)"
  using assms by (simp_all add: rel_headers_def)

lemma bodyD:
  assumes "rel_body R B C"
  shows "rel_res R (bp_GetChunks B) (bp_GetChunks C)" "rel_res R (bp_GetSize B) (bp_GetSize C)"
    "rel_upd R (bp_Append B d) (bp_Append C d)" "rel_upd R (bp_Drain B n) (bp_Drain C n)"
  using assms by (simp_all add: rel_body_def)

lemma Header_Get_rel:
  assumes H: "rel_headers R H K" and m: "\<And>x y. R x y \<Longrightarrow> m x = m' y" and h: "R h k"
  shows "rel_prod (=) (rel_prod (=) R) (Header_Get m H key (hr, h)) (Header_Get m' K key (hr, k))"
proof -
  obtain r h1 k1 where "hp_GetOneInto H (asciiToLower key) empty_buffer h = (r, h1)"
      "hp_GetOneInto K (asciiToLower key) empty_buffer k = (r, k1)" "R h1 k1"
    by (rule rel_resE [OF headersD(1) [OF H] h])
  with h m show ?thesis by (cases r) (auto simp: Header_Get_def Let_def split: option.splits)
qed

lemma Header_Peek_rel:
  assumes H: "rel_headers R H K" and m: "\<And>x y. R x y \<Longrightarrow> m x = m' y" and h: "R h k"
  shows "rel_prod (=) (rel_prod (=) R) (Header_Peek m H key (hr, h)) (Header_Peek m' K key (hr, k))"
proof -
  obtain r h1 k1 where "hp_GetOneInto H (asciiToLower key) empty_buffer h = (r, h1)"
      "hp_GetOneInto K (asciiToLower key) empty_buffer k = (r, k1)" "R h1 k1"
    by (rule rel_resE [OF headersD(1) [OF H] h])
  with h m show ?thesis by (cases r) (auto simp: Header_Peek_def Let_def split: option.splits)
qed

lemma req_reset_rel:
  assumes H: "rel_headers R H K" and m: "\<And>x y. R x y \<Longrightarrow> m x = m' y" and h: "R h k"
  shows "rel_prod (=) R (req_reset m H p name (r, h)) (req_reset m' K p name (r, k))"
proof -
  note one = headersD(1) [OF H]
  obtain f1 b1 h1 k1 where 1: "hp_GetOneInto H '':method'' empty_buffer h = ((f1, b1), h1)"
      "hp_GetOneInto K '':method'' empty_buffer k = ((f1, b1), k1)" "R h1 k1"
    by (rule rel_resE [OF one h]) auto
  obtain f2 b2 h2 k2 where 2: "hp_GetOneInto H '':path'' b1 h1 = ((f2, b2), h2)"
      "hp_GetOneInto K '':path'' b1 k1 = ((f2, b2), k2)" "R h2 k2"
    by (rule rel_resE [OF one 1(3)]) auto
  obtain f3 b3 h3 k3 where 3: "hp_GetOneInto H '':authority'' b2 h2 = ((f3, b3), h3)"
      "hp_GetOneInto K '':authority'' b2 k2 = ((f3, b3), k3)" "R h3 k3"
    by (rule rel_resE [OF one 2(3)]) auto
  from 1 2 3 show ?thesis using m by (simp add: req_reset_def Let_def)
qed

lemma readBody_rel:
  assumes V: "rel_view R V U" and h: "R h k"
  shows "rel_go (rel_prod (=) R) (readBody V h) (readBody U k)"
proof -
  from V have b: "rel_body R (ha_BufferedRequestBody V) (ha_BufferedRequestBody U)"
    and c: "rel_body R (ha_ReceivedRequestBody V) (ha_ReceivedRequestBody U)"
    and f: "rel_res R (ha_ReceivedBufferedRequestBody V) (ha_ReceivedBufferedRequestBody U)"
    and m: "\<And>x y. R x y \<Longrightarrow> ha_memory V x = ha_memory U y"
    by (simp_all add: rel_view_def)
  obtain buffered h1 k1 where 1: "ha_ReceivedBufferedRequestBody V h = (buffered, h1)"
      "ha_ReceivedBufferedRequestBody U k = (buffered, k1)" "R h1 k1"
    by (rule rel_resE [OF f h])
  obtain n h2 k2 where 2: "bp_GetSize (ha_BufferedRequestBody V) h1 = (n, h2)"
      "bp_GetSize (ha_BufferedRequestBody U) k1 = (n, k2)" "R h2 k2"
    by (rule rel_resE [OF bodyD(2) [OF b] 1(3)])
  obtain n' h3 k3 where 3: "bp_GetSize (ha_ReceivedRequestBody V) h2 = (n', h3)"
      "bp_GetSize (ha_ReceivedRequestBody U) k2 = (n', k3)" "R h3 k3"
    by (rule rel_resE [OF bodyD(2) [OF c] 2(3)])
  show ?thesis
  proof (cases buffered)
    case True
    obtain cs h4 k4 where 4: "bp_GetChunks (ha_BufferedRequestBody V) h2 = (cs, h4)"
        "bp_GetChunks (ha_BufferedRequestBody U) k2 = (cs, k4)" "R h4 k4"
      by (rule rel_resE [OF bodyD(1) [OF b] 2(3)])
    from True 1 2 4 show ?thesis using m by (simp add: readBody_def)
  next
    case False
    obtain cs h4 k4 where 4: "bp_GetChunks (ha_BufferedRequestBody V) h3 = (cs, h4)"
        "bp_GetChunks (ha_BufferedRequestBody U) k3 = (cs, k4)" "R h4 k4"
      by (rule rel_resE [OF bodyD(1) [OF b] 3(3)])
    obtain ds h5 k5 where 5: "bp_GetChunks (ha_ReceivedRequestBody V) h4 = (ds, h5)"
        "bp_GetChunks (ha_ReceivedRequestBody U) k4 = (ds, k5)" "R h5 k5"
      by (rule rel_resE [OF bodyD(1) [OF c] 4(3)])
    from False 1 2 3 4 5 show ?thesis using m by (simp add: readBody_def)
  qed
qed

section \<open>The writer\<close>

locale api_simulation =
  fixes A :: "ptr \<Rightarrow> 'a handle_api" and B :: "ptr \<Rightarrow> 'b handle_api" and R :: "'a \<Rightarrow> 'b \<Rightarrow> bool"
  assumes view: "rel_view R (ha_view (A p)) (ha_view (B p))"
    and control: "rel_control R (ha_control (A p)) (ha_control (B p))"
begin

lemma viewD:
  shows "R h k \<Longrightarrow> ha_memory (ha_view (A p)) h = ha_memory (ha_view (B p)) k"
    and "rel_headers R (ha_RequestHeaders (ha_view (A p))) (ha_RequestHeaders (ha_view (B p)))"
    and "rel_option (rel_body R) (ha_BufferedResponseBody (ha_view (A p))) (ha_BufferedResponseBody (ha_view (B p)))"
    and "R h k \<Longrightarrow> R (ha_Log (ha_view (A p)) l f args h) (ha_Log (ha_view (B p)) l f args k)"
  using view [of p] by (auto simp: rel_view_def rel_upd_def)

lemma controlD:
  assumes "R h k"
  shows "R (ha_SetMetadata (ha_control (A p)) ns x v h) (ha_SetMetadata (ha_control (B p)) ns x v k)"
    and "R (ha_ClearRouteCache (ha_control (A p)) h) (ha_ClearRouteCache (ha_control (B p)) k)"
    and "R (ha_ContinueRequest (ha_control (A p)) h) (ha_ContinueRequest (ha_control (B p)) k)"
    and "R (ha_SendLocalResponse (ha_control (A p)) s hs b d h) (ha_SendLocalResponse (ha_control (B p)) s hs b d k)"
    and "R (ha_ResetHttpStream (ha_control (A p)) i h) (ha_ResetHttpStream (ha_control (B p)) i k)"
    and "R (ha_GetScheduler (ha_control (A p)) h) (ha_GetScheduler (ha_control (B p)) k)"
    and "R (ha_Schedule (ha_control (A p)) t h) (ha_Schedule (ha_control (B p)) t k)"
  using control [of p] assms by (simp_all add: rel_control_def rel_upd_def)

lemma controlE:
  shows "rel_res R (ha_IncrementCounterValue (ha_control (A p)) i n tags) (ha_IncrementCounterValue (ha_control (B p)) i n tags)"
    and "rel_res R (ha_RecordHistogramValue (ha_control (A p)) i n tags) (ha_RecordHistogramValue (ha_control (B p)) i n tags)"
    and "rel_res R (ha_HttpCallout (ha_control (A p)) c hs b t cb) (ha_HttpCallout (ha_control (B p)) c hs b t cb)"
    and "rel_res R (ha_StartHttpStream (ha_control (A p)) c hs b e t cb) (ha_StartHttpStream (ha_control (B p)) c hs b e t cb)"
    and "rel_res R (ha_SendHttpStreamData (ha_control (A p)) i b e) (ha_SendHttpStreamData (ha_control (B p)) i b e)"
    and "rel_res R (ha_SendHttpStreamTrailers (ha_control (A p)) i hs) (ha_SendHttpStreamTrailers (ha_control (B p)) i hs)"
  using control [of p] by (simp_all add: rel_control_def)

lemma set_headers_rel: "R h k \<Longrightarrow> R (set_headers (A p) muts h) (set_headers (B p) muts k)"
proof (induction muts arbitrary: h k)
  case Nil
  then show ?case by (simp add: set_headers_def)
next
  case (Cons m muts)
  obtain x v where m: "m = (x, v)" by force
  from rel_updD [OF headersD(3) [OF viewD(2)] Cons.prems] Cons.IH show ?case by (simp add: set_headers_def m)
qed

lemma set_metas_rel: "R h k \<Longrightarrow> R (set_metas (A p) muts h) (set_metas (B p) muts k)"
proof (induction muts arbitrary: h k)
  case Nil
  then show ?case by (simp add: set_metas_def)
next
  case (Cons m muts)
  obtain ns x v where m: "m = (ns, x, v)" by (cases m) auto
  from controlD(1) [OF Cons.prems] Cons.IH show ?case by (simp add: set_metas_def m)
qed

lemma count_rel: "R h k \<Longrightarrow> R (foldl (count_one (A p)) h muts) (foldl (count_one (B p)) k muts)"
proof (induction muts arbitrary: h k)
  case Nil
  then show ?case by simp
next
  case (Cons m muts)
  have "R (count_one (A p) h m) (count_one (B p) k m)"
    using rel_res_snd [OF controlE(1) Cons.prems] rel_res_snd [OF controlE(2) Cons.prems]
    by (simp add: count_one_def)
  with Cons.IH show ?case by simp
qed

lemma flush_rel: "R h k \<Longrightarrow> R (w_flush A c w h) (w_flush B c w k)"
  by (auto simp: w_flush_def Let_def split: option.split
      intro!: controlD set_headers_rel set_metas_rel count_rel)

lemma flush_response_rel:
  "R h k \<Longrightarrow> rel_prod (=) R (w_flushResponseMutations A (w, h)) (w_flushResponseMutations B (w, k))"
  by (simp add: w_flushResponseMutations_def Let_def set_metas_rel count_rel)

lemma SendBytes_rel: "R h k \<Longrightarrow> rel_prod (=) R (w_SendBytes A status body (w, h)) (w_SendBytes B status body (w, k))"
  by (simp add: w_SendBytes_def Let_def controlD)

lemma SetResponseBody_rel: "R h k \<Longrightarrow> rel_prod (=) R (w_SetResponseBody A b (w, h)) (w_SetResponseBody B b (w, k))"
proof -
  assume h: "R h k"
  from viewD(3) [of "wr_handle w"] show ?thesis
  proof (cases rule: option.rel_cases)
    case None
    with h show ?thesis by (simp add: w_SetResponseBody_def)
  next
    case (Some C D)
    obtain n h1 k1 where 1: "bp_GetSize C h = (n, h1)" "bp_GetSize D k = (n, k1)" "R h1 k1"
      by (rule rel_resE [OF bodyD(2) [OF Some(3)] h])
    from rel_updD [OF bodyD(3) [OF Some(3)] rel_updD [OF bodyD(4) [OF Some(3)] 1(3)]] Some(1,2) 1(1,2)
    show ?thesis by (simp add: w_SetResponseBody_def)
  qed
qed

lemma AppendResponseBody_rel:
  "R h k \<Longrightarrow> rel_prod (=) R (w_AppendResponseBody A b (w, h)) (w_AppendResponseBody B b (w, k))"
  using viewD(3) [of "wr_handle w"] rel_updD [OF bodyD(3)]
  by (cases rule: option.rel_cases) (fastforce simp: w_AppendResponseBody_def)+

lemma HTTPCalloutE_rel:
  assumes h: "R h k" and during: "rel_step R f g"
  shows "rel_go (rel_prod (=) (rel_prod (=) R)) (w_HTTPCalloutE A rt req fn f (w, h)) (w_HTTPCalloutE B rt req fn g (w, k))"
proof -
  obtain r i h1 k1 where call: "ha_HttpCallout (ha_control (A (wr_handle w))) (cr_Cluster req) (cr_Headers req) (cr_Body req)
        (cr_TimeoutMs req) (wr_calloutCB w) h = ((r, i), h1)"
      "ha_HttpCallout (ha_control (B (wr_handle w))) (cr_Cluster req) (cr_Headers req) (cr_Body req)
        (cr_TimeoutMs req) (wr_calloutCB w) k = ((r, i), k1)" "R h1 k1"
    by (rule rel_resE [OF controlE(3) h]) auto
  from call(1,2) rel_stepD [OF during call(3), of "w\<lparr>wr_calloutFn := fn\<rparr>"] show ?thesis
    by (auto simp: w_HTTPCalloutE_def Let_def intro!: go_bind_rel)
qed

lemma HTTPStream_rel:
  assumes h: "R h k" and during: "rel_step R f g"
  shows "rel_go (rel_prod (=) (rel_prod (=) R)) (w_HTTPStream A rt req fn f (w, h)) (w_HTTPStream B rt req fn g (w, k))"
proof -
  obtain r i h1 k1 where call: "ha_StartHttpStream (ha_control (A (wr_handle w))) (sr_Cluster req) (sr_Headers req) (sr_Body req)
        (sr_EndOfStream req) (sr_TimeoutMs req) (wr_streamCB w) h = ((r, i), h1)"
      "ha_StartHttpStream (ha_control (B (wr_handle w))) (sr_Cluster req) (sr_Headers req) (sr_Body req)
        (sr_EndOfStream req) (sr_TimeoutMs req) (wr_streamCB w) k = ((r, i), k1)" "R h1 k1"
    by (rule rel_resE [OF controlE(4) h]) auto
  from call(1,2) rel_stepD [OF during call(3), of "w\<lparr>wr_streamEventFn := fn\<rparr>"] show ?thesis
    by (auto simp: w_HTTPStream_def Let_def intro!: go_bind_rel)
qed

lemma HTTPCallout_rel:
  assumes during: "rel_step R f g"
  shows "rel_step R (w_HTTPCallout A rt req fn f) (w_HTTPCallout B rt req fn g)"
  unfolding rel_step_def w_HTTPCallout_def
  by (intro allI impI, rule go_bind_rel, rule HTTPCalloutE_rel [OF _ during]) (auto simp: rel_prod_sel)

text \<open>What the handle calls back within a call.\<close>

lemma callout_done_rel:
  "rel_step R f g \<Longrightarrow> rel_step R (w_callout_done A f) (w_callout_done B g)"
  by (auto simp: rel_step_def w_callout_done_def flush_rel split: option.split intro!: go_bind_rel)

lemma ended_rel:
  "rel_step R f g \<Longrightarrow> rel_step R (\<lambda>st. go_bind (f st) (\<lambda>(w, h). Ret (w\<lparr>wr_streamEventFn := None\<rparr>, h)))
     (\<lambda>st. go_bind (g st) (\<lambda>(w, h). Ret (w\<lparr>wr_streamEventFn := None\<rparr>, h)))"
  unfolding rel_step_def by (auto intro!: go_bind_rel [where S = "rel_prod (=) R"])

lemma inline_event_rel:
  assumes "rel_step R f g"
  shows "rel_step R (w_stream_event A ev f) (w_stream_event B ev g)"
  using assms ended_rel [OF assms]
  by (cases ev) (auto simp: rel_step_def w_stream_event_def Let_def flush_rel
      intro!: go_bind_rel [where S = "rel_prod (=) R"])

lemma run_wops_rel_each:
  "(\<And>op. op \<in> set ops \<Longrightarrow> rel_step R (apply_wop A rt op) (apply_wop B rt op)) \<Longrightarrow>
   rel_step R (run_wops A rt ops) (run_wops B rt ops)"
proof (induction ops)
  case Nil
  then show ?case by (simp add: rel_step_def)
next
  case (Cons op ops)
  then have "rel_step R (apply_wop A rt op) (apply_wop B rt op)" "rel_step R (run_wops A rt ops) (run_wops B rt ops)"
    by simp_all
  then show ?case by (auto simp: rel_step_def intro!: go_bind_rel [where S = "rel_prod (=) R"])
qed

lemma run_events_rel_each:
  "(\<And>ev ops. (ev, ops) \<in> set evs \<Longrightarrow> rel_step R (run_wops A rt ops) (run_wops B rt ops)) \<Longrightarrow>
   rel_step R (run_events A rt evs) (run_events B rt evs)"
proof (induction evs)
  case Nil
  then show ?case by (simp add: rel_step_def)
next
  case (Cons e evs)
  obtain ev ops where e: "e = (ev, ops)" by force
  with Cons have "rel_step R (run_wops A rt ops) (run_wops B rt ops)" "rel_step R (run_events A rt evs) (run_events B rt evs)"
    by auto
  with inline_event_rel [OF this(1), of ev] show ?case
    by (auto simp: e rel_step_def intro!: go_bind_rel [where S = "rel_prod (=) R"])
qed

lemma apply_wop_rel_step: "rel_step R (apply_wop A rt op) (apply_wop B rt op)"
proof (induction op)
  case (WHTTPCallout req fn inl)
  show ?case
  proof (cases inl)
    case None
    have "rel_step R Ret Ret" by (simp add: rel_step_def)
    from HTTPCallout_rel [OF this] None show ?thesis by (simp add: rel_step_def)
  next
    case (Some ops)
    have "rel_step R (run_wops A rt ops) (run_wops B rt ops)"
      by (rule run_wops_rel_each) (use WHTTPCallout Some in auto)
    from HTTPCallout_rel [OF callout_done_rel [OF this]] Some show ?thesis by (simp add: rel_step_def)
  qed
next
  case (WHTTPStream req fn evs)
  have "rel_step R (run_events A rt evs) (run_events B rt evs)"
    by (rule run_events_rel_each, rule run_wops_rel_each) (use WHTTPStream in fastforce)
  from HTTPStream_rel [OF _ this] show ?case
    unfolding rel_step_def apply_wop.simps
    by (intro allI impI, rule go_bind_rel) (auto simp: rel_prod_sel)
next
  case (WGo ctx)
  then show ?case by (simp add: rel_step_def w_Go_def)
qed (simp_all add: rel_step_def w_Send_def SendBytes_rel w_Log_def viewD SetResponseBody_rel AppendResponseBody_rel
      hs_Send_def hs_SendTrailers_def hs_Reset_def controlD rel_res_snd [OF controlE(5)] rel_res_snd [OF controlE(6)])

lemma apply_wop_rel:
  "R h k \<Longrightarrow> rel_go (rel_prod (=) R) (apply_wop A rt op (w, h)) (apply_wop B rt op (w, k))"
  by (rule rel_stepD [OF apply_wop_rel_step])

lemma run_wops_rel:
  "R h k \<Longrightarrow> rel_go (rel_prod (=) R) (run_wops A rt ops (w, h)) (run_wops B rt ops (w, k))"
  by (rule rel_stepD [OF run_wops_rel_each [OF apply_wop_rel_step]])

section \<open>The code of the filter author\<close>

lemma apply_hop_rel:
  assumes h: "R h k"
  shows "rel_go (rel_prod (=) (rel_prod (=) R)) (apply_hop A rt op (w, r, h)) (apply_hop B rt op (w, r, k))"
proof (cases op)
  case (OnWriter o1)
  show ?thesis unfolding OnWriter apply_hop.simps
    by (rule go_bind_rel [OF apply_wop_rel [OF h]]) auto
next
  case (GetHeader key)
  have "rel_prod (=) (rel_prod (=) R)
      (Header_Get (ha_memory (ha_view (A (rq_handle r)))) (ha_RequestHeaders (ha_view (A (rq_handle r)))) key (rq_Header r, h))
      (Header_Get (ha_memory (ha_view (B (rq_handle r)))) (ha_RequestHeaders (ha_view (B (rq_handle r)))) key (rq_Header r, k))"
    by (rule Header_Get_rel [OF viewD(2) viewD(1) h])
  then show ?thesis by (auto simp: GetHeader Let_def rel_prod_sel case_prod_beta)
next
  case (PeekHeader key)
  have "rel_prod (=) (rel_prod (=) R)
      (Header_Peek (ha_memory (ha_view (A (rq_handle r)))) (ha_RequestHeaders (ha_view (A (rq_handle r)))) key (rq_Header r, h))
      (Header_Peek (ha_memory (ha_view (B (rq_handle r)))) (ha_RequestHeaders (ha_view (B (rq_handle r)))) key (rq_Header r, k))"
    by (rule Header_Peek_rel [OF viewD(2) viewD(1) h])
  then show ?thesis by (auto simp: PeekHeader Let_def rel_prod_sel case_prod_beta)
next
  case GetAllHeaders
  from rel_res_snd [OF headersD(2) [OF viewD(2)] h] show ?thesis by (simp add: GetAllHeaders Header_GetAll_def)
next
  case ReadBody
  show ?thesis unfolding ReadBody apply_hop.simps req_Body_def
    by (rule go_bind_rel [OF readBody_rel [OF view h]]) auto
next
  case (LogRequest l f args)
  with h show ?thesis by (simp add: req_Log_def viewD)
next
  case (LogRequestAttrs l m attrs)
  with h show ?thesis by (simp add: req_LogAttrs_def viewD Let_def)
qed

lemma run_hops_rel:
  "R h k \<Longrightarrow> rel_go (rel_prod (=) (rel_prod (=) R)) (run_hops A rt ops (w, r, h)) (run_hops B rt ops (w, r, k))"
proof (induction ops arbitrary: w r h k)
  case Nil
  then show ?case by simp
next
  case (Cons op ops)
  then show ?case
    by (auto intro!: go_bind_rel [OF apply_hop_rel])
qed

end

section \<open>Worlds\<close>

lemma rel_world_update:
  assumes "rel_world R W U"
  shows "rel_world R (set_filter p f W) (set_filter p f U)" "rel_world R (set_writer p w W) (set_writer p w U)"
    "rel_world R (set_request p r W) (set_request p r U)" "rel_world R (log_call q c W) (log_call q c U)"
    "rel_world R (set_phase i ph W) (set_phase i ph U)"
    "rel_world R (W\<lparr>sl_cancelled := cs\<rparr>) (U\<lparr>sl_cancelled := cs\<rparr>)" "rel_world R (W\<lparr>sl_gos := gs\<rparr>) (U\<lparr>sl_gos := gs\<rparr>)"
    "R h k \<Longrightarrow> rel_world R (W\<lparr>sl_host := h\<rparr>) (U\<lparr>sl_host := k\<rparr>)"
    "rel_world R (W\<lparr>sl_requestPool := ps\<rparr>) (U\<lparr>sl_requestPool := ps\<rparr>)"
    "rel_world R (W\<lparr>sl_writerPool := ps\<rparr>) (U\<lparr>sl_writerPool := ps\<rparr>)"
    "rel_world R (W\<lparr>sl_filterPool := ps\<rparr>) (U\<lparr>sl_filterPool := ps\<rparr>)"
  using assms
  by (simp_all add: rel_world_def set_filter_def set_writer_def set_request_def log_call_def set_phase_def)

lemma rel_world_reads:
  assumes "rel_world R W U"
  shows "filter_at p W = filter_at p U" "writer_at o1 W = writer_at o1 U" "request_at o1 W = request_at o1 U"
    "nth_go i W = nth_go i U" "sl_gos W = sl_gos U" "sl_cancelled W = sl_cancelled U"
    "sl_requestPool W = sl_requestPool U" "sl_writerPool W = sl_writerPool U" "sl_filterPool W = sl_filterPool U"
    "R (sl_host W) (sl_host U)"
  using assms by (simp_all add: rel_world_def filter_at_def writer_at_def request_at_def nth_go_def)

text \<open>Reading an object of the world, then going on.\<close>

lemma read_bind:
  assumes "rel_world R W U"
  shows "(\<And>f. rel_go T (F f) (G f)) \<Longrightarrow> rel_go T (go_bind (filter_at p W) F) (go_bind (filter_at p U) G)"
    "(\<And>w. rel_go T (F' w) (G' w)) \<Longrightarrow> rel_go T (go_bind (writer_at wp W) F') (go_bind (writer_at wp U) G')"
  using rel_world_reads [OF assms] by (simp_all add: go_bind_same)

lemma getRequest_rel: "rel_world R W U \<Longrightarrow> rel_prod (=) (rel_world R) (getRequest c W) (getRequest c U)"
  by (auto simp: getRequest_def rel_world_reads rel_world_update split: pool_choice.splits)

lemma getWriter_rel:
  assumes "rel_world R W U"
  shows "rel_go (rel_prod (=) (rel_world R)) (getWriter c p sched W) (getWriter c p sched U)"
proof -
  obtain q W1 U1 where "(case c of Reuse q \<Rightarrow> (q, W\<lparr>sl_writerPool := remove1 q (sl_writerPool W)\<rparr>)
        | Fresh q \<Rightarrow> (q, set_writer q zero_writer W)) = (q, W1)"
      "(case c of Reuse q \<Rightarrow> (q, U\<lparr>sl_writerPool := remove1 q (sl_writerPool U)\<rparr>)
        | Fresh q \<Rightarrow> (q, set_writer q zero_writer U)) = (q, U1)" "rel_world R W1 U1"
    using assms by (cases c) (auto simp: rel_world_reads rel_world_update)
  then show ?thesis
    by (auto simp: getWriter_def rel_world_reads intro!: go_bind_same rel_world_update)
qed

text \<open>The end of \<open>acquire\<close>: the writer is taken, bound to the filter and stored in it.\<close>

lemma hand_over_rel:
  assumes "rel_world R W U"
  shows "rel_go (rel_prod (=) (rel_prod (=) (rel_world R)))
     (go_bind (getWriter wc p sched W) (\<lambda>(wp, W4). go_bind (writer_at (Some wp) W4) (\<lambda>w.
        Ret (rp, wp, set_writer wp (g w) (set_filter fp (f wp) W4)))))
     (go_bind (getWriter wc p sched U) (\<lambda>(wp, W4). go_bind (writer_at (Some wp) W4) (\<lambda>w.
        Ret (rp, wp, set_writer wp (g w) (set_filter fp (f wp) W4)))))"
  by (rule go_bind_rel [where S = "rel_prod (=) (rel_world R)"])
    (auto simp: rel_world_reads getWriter_rel [OF assms] intro!: go_bind_same rel_world_update)

context api_simulation
begin

lemma run_handler_rel:
  assumes "rel_world R W U"
  shows "rel_go (rel_world R) (run_handler A rt wp rp ops W) (run_handler B rt wp rp ops U)"
  unfolding run_handler_def rel_world_reads [OF assms]
  by (intro go_bind_same go_bind_rel [OF run_hops_rel [OF rel_world_reads(10) [OF assms]]])
    (auto simp: assms intro!: rel_world_update)

lemma run_on_writer_rel:
  assumes "rel_world R W U"
  shows "rel_go (rel_world R) (run_on_writer A rt wp ops W) (run_on_writer B rt wp ops U)"
proof (cases "ops = []")
  case False
  then show ?thesis
    unfolding run_on_writer_def rel_world_reads [OF assms] if_not_P [OF False]
    by (intro go_bind_same go_bind_rel [OF run_wops_rel [OF rel_world_reads(10) [OF assms]]])
      (auto simp: assms intro!: rel_world_update)
qed (simp add: run_on_writer_def assms)

lemma flush_writer_rel:
  assumes "rel_world R W U"
  shows "rel_go (rel_world R) (flush_writer A c wp W) (flush_writer B c wp U)"
  unfolding flush_writer_def rel_world_reads [OF assms]
  by (intro go_bind_same) (simp add: assms rel_world_update flush_rel rel_world_reads(10) [OF assms])

lemma acquire_rel:
  assumes W: "rel_world R W U"
  shows "rel_go (rel_prod (=) (rel_prod (=) (rel_world R))) (acquire A fp rc wc f W) (acquire B fp rc wc f U)"
proof -
  let ?a = "A (sf_handle f)" and ?b = "B (sf_handle f)"
  let ?W = "W\<lparr>sl_host := ha_GetScheduler (ha_control ?a) (sl_host W)\<rparr>"
  let ?U = "U\<lparr>sl_host := ha_GetScheduler (ha_control ?b) (sl_host U)\<rparr>"
  have "rel_world R ?W ?U" by (intro rel_world_update W controlD rel_world_reads(10))
  from getRequest_rel [OF this, of rc] obtain rp W2 U2 where
    2: "getRequest rc ?W = (rp, W2)" "getRequest rc ?U = (rp, U2)" "rel_world R W2 U2"
    by (cases "getRequest rc ?W"; cases "getRequest rc ?U") auto
  show ?thesis
    unfolding acquire_def Let_def 2(1,2) prod.case rel_world_reads(3) [OF 2(3)]
  proof (rule go_bind_same)
    fix r
    have "rel_prod (=) R
        (req_reset (ha_memory (ha_view ?a)) (ha_RequestHeaders (ha_view ?a)) (sf_handle f) (sf_name f) (r, sl_host W2))
        (req_reset (ha_memory (ha_view ?b)) (ha_RequestHeaders (ha_view ?b)) (sf_handle f) (sf_name f) (r, sl_host U2))"
      by (rule req_reset_rel [OF viewD(2) viewD(1) rel_world_reads(10) [OF 2(3)]])
    then obtain r' h k where
      "req_reset (ha_memory (ha_view ?a)) (ha_RequestHeaders (ha_view ?a)) (sf_handle f) (sf_name f) (r, sl_host W2) = (r', h)"
      "req_reset (ha_memory (ha_view ?b)) (ha_RequestHeaders (ha_view ?b)) (sf_handle f) (sf_name f) (r, sl_host U2) = (r', k)"
      "R h k"
      by (auto simp: rel_prod_sel) (metis prod.collapse)
    then show "rel_go (rel_prod (=) (rel_prod (=) (rel_world R)))
       (case req_reset (ha_memory (ha_view ?a)) (ha_RequestHeaders (ha_view ?a)) (sf_handle f) (sf_name f) (r, sl_host W2) of
         (r', h) \<Rightarrow> go_bind (getWriter wc (sf_handle f) True (set_request rp r' W2\<lparr>sl_host := h\<rparr>)) (\<lambda>(wp, W4).
           go_bind (writer_at (Some wp) W4) (\<lambda>w. Ret (rp, wp,
             set_writer wp (w\<lparr>wr_calloutCB := Some (unat fp), wr_streamCB := Some (unat fp)\<rparr>)
              (set_filter fp (f\<lparr>sf_req := Some rp, sf_writer := Some wp\<rparr>) W4)))))
       (case req_reset (ha_memory (ha_view ?b)) (ha_RequestHeaders (ha_view ?b)) (sf_handle f) (sf_name f) (r, sl_host U2) of
         (r', h) \<Rightarrow> go_bind (getWriter wc (sf_handle f) True (set_request rp r' U2\<lparr>sl_host := h\<rparr>)) (\<lambda>(wp, W4).
           go_bind (writer_at (Some wp) W4) (\<lambda>w. Ret (rp, wp,
             set_writer wp (w\<lparr>wr_calloutCB := Some (unat fp), wr_streamCB := Some (unat fp)\<rparr>)
              (set_filter fp (f\<lparr>sf_req := Some rp, sf_writer := Some wp\<rparr>) W4)))))"
      by (simp add: hand_over_rel rel_world_update 2(3))
  qed
qed

section \<open>The hooks\<close>

lemmas hook_intros = read_bind rel_world_update go_bind_same
  go_bind_rel [OF run_handler_rel] go_bind_rel [OF run_on_writer_rel] go_bind_rel [OF flush_writer_rel]
  run_on_writer_rel flush_writer_rel

lemma OnRequestHeaders_rel:
  assumes W: "rel_world R W U"
  shows "rel_go (rel_prod (=) (rel_world R)) (sahl_OnRequestHeaders A rt fp rc wc ops W)
    (sahl_OnRequestHeaders B rt fp rc wc ops U)"
  unfolding sahl_OnRequestHeaders_def using W
  by (auto split: option.split intro!: hook_intros go_bind_rel [OF acquire_rel [OF W]])

lemma OnRequestBody_rel:
  assumes W: "rel_world R W U"
  shows "rel_go (rel_prod (=) (rel_world R)) (sahl_OnRequestBody A rt fp eos ops W) (sahl_OnRequestBody B rt fp eos ops U)"
  unfolding sahl_OnRequestBody_def Let_def using W
  by (auto split: option.split intro!: hook_intros)

lemma OnHttpCalloutDone_rel:
  assumes W: "rel_world R W U"
  shows "rel_go (rel_world R) (sahl_OnHttpCalloutDone A rt fp result hs b ops W)
    (sahl_OnHttpCalloutDone B rt fp result hs b ops U)"
  unfolding sahl_OnHttpCalloutDone_def using W
  by (auto split: option.split intro!: hook_intros)

lemma stream_event_rel:
  assumes W: "rel_world R W U"
  shows "rel_go (rel_world R) (sahl_stream_event A rt fp ev ops W) (sahl_stream_event B rt fp ev ops U)"
  unfolding sahl_stream_event_def using W
  by (auto split: option.split intro!: hook_intros)

lemma clear_event_fn_rel:
  "rel_world R W U \<Longrightarrow> rel_go (rel_world R) (clear_event_fn wp W) (clear_event_fn wp U)"
  unfolding clear_event_fn_def by (auto intro!: hook_intros)

lemma OnHttpStreamComplete_rel:
  assumes W: "rel_world R W U"
  shows "rel_go (rel_world R) (sahl_OnHttpStreamComplete A rt fp i ops W) (sahl_OnHttpStreamComplete B rt fp i ops U)"
  unfolding sahl_OnHttpStreamComplete_def using W
  by (auto simp: go_bind_assoc split: option.split intro!: hook_intros go_bind_rel [OF clear_event_fn_rel])

lemma OnHttpStreamReset_rel:
  assumes W: "rel_world R W U"
  shows "rel_go (rel_world R) (sahl_OnHttpStreamReset A rt fp i reason ops W)
    (sahl_OnHttpStreamReset B rt fp i reason ops U)"
  unfolding sahl_OnHttpStreamReset_def using W
  by (auto simp: go_bind_assoc split: option.split intro!: hook_intros go_bind_rel [OF clear_event_fn_rel])

lemma go_calls_rel:
  assumes W: "rel_world R W U"
  shows "rel_go (rel_world R) (go_calls A rt i ops W) (go_calls B rt i ops U)"
  unfolding go_calls_def rel_world_reads(4) [OF W] using W
  by (auto split: option.split intro!: hook_intros)

lemma go_returns_rel:
  assumes W: "rel_world R W U"
  shows "rel_world R (go_returns A i W) (go_returns B i U)"
  unfolding go_returns_def rel_world_reads(4) [OF W] using W rel_world_reads(6,10) [OF W]
  by (auto split: option.split intro!: rel_world_update controlD)

lemma go_flush_rel:
  assumes W: "rel_world R W U"
  shows "rel_go (rel_world R) (go_flush A i W) (go_flush B i U)"
  unfolding go_flush_def rel_world_reads(4) [OF W] using W
  by (auto split: option.split intro!: hook_intros)

lemma OnLocalReply_rel:
  assumes W: "rel_world R W U"
  shows "rel_go (rel_prod (=) (rel_world R)) (sahl_OnLocalReply A fp details W) (sahl_OnLocalReply B fp details U)"
  unfolding sahl_OnLocalReply_def using W
  by (auto simp: viewD(1) [OF rel_world_reads(10) [OF W]] split: option.split intro!: hook_intros)

lemma OnStreamComplete_rel:
  assumes W: "rel_world R W U"
  shows "rel_go (rel_world R) (sahl_OnStreamComplete A fp W) (sahl_OnStreamComplete B fp U)"
proof -
  have finish: "rel_go (rel_world R)
      (let (w1, h1) = (if c then w_flushResponseMutations A (w, sl_host W1) else (w, sl_host W1));
           W2 = (set_writer wp w1 W1)\<lparr>sl_host := h1\<rparr>
       in case wr_goCancel w1 of None \<Rightarrow> Ret W2 | Some ctx \<Rightarrow> Ret (W2\<lparr>sl_cancelled := sl_cancelled W2 @ [ctx]\<rparr>))
      (let (w1, h1) = (if c then w_flushResponseMutations B (w, sl_host U1) else (w, sl_host U1));
           W2 = (set_writer wp w1 U1)\<lparr>sl_host := h1\<rparr>
       in case wr_goCancel w1 of None \<Rightarrow> Ret W2 | Some ctx \<Rightarrow> Ret (W2\<lparr>sl_cancelled := sl_cancelled W2 @ [ctx]\<rparr>))"
    if 1: "rel_world R W1 U1" for c w wp W1 U1
  proof -
    obtain w1 h1 k1 where r: "(if c then w_flushResponseMutations A (w, sl_host W1) else (w, sl_host W1)) = (w1, h1)"
        "(if c then w_flushResponseMutations B (w, sl_host U1) else (w, sl_host U1)) = (w1, k1)" "R h1 k1"
      using flush_response_rel [OF rel_world_reads(10) [OF 1], of w] rel_world_reads(10) [OF 1]
      by (cases c) (auto simp: rel_prod_sel, metis prod.collapse)
    have "rel_world R ((set_writer wp w1 W1)\<lparr>sl_host := h1\<rparr>) ((set_writer wp w1 U1)\<lparr>sl_host := k1\<rparr>)"
      by (intro rel_world_update 1 r(3))
    then show ?thesis
      unfolding r Let_def prod.case
      by (auto simp: rel_world_reads(6) split: option.split intro!: rel_world_update)
  qed
  show ?thesis
    unfolding sahl_OnStreamComplete_def Let_def using W
    by (auto split: option.split intro!: hook_intros finish [unfolded Let_def])
qed

lemma onResponseHeaders_rel:
  assumes H: "rel_headers R H K" and W: "rel_world R W U"
  shows "rel_go (rel_world R) (onResponseHeaders A rt H fp d fn ops f W) (onResponseHeaders B rt K fp d fn ops f U)"
proof -
  let ?m = "ha_memory (ha_view (A (sf_handle f)))" and ?m' = "ha_memory (ha_view (B (sf_handle f)))"
  note h = rel_world_reads(10) [OF W]
  have "rel_prod (=) R (read_response_headers ?m H ck (sl_host W)) (read_response_headers ?m' K ck (sl_host U))" for ck
  proof -
    note one = headersD(1) [OF H]
    obtain f1 b1 h1 k1 where 1: "hp_GetOneInto H '':status'' empty_buffer (sl_host W) = ((f1, b1), h1)"
        "hp_GetOneInto K '':status'' empty_buffer (sl_host U) = ((f1, b1), k1)" "R h1 k1"
      by (rule rel_resE [OF one h]) auto
    obtain f2 b2 h2 k2 where 2: "hp_GetOneInto H ''content-type'' empty_buffer h1 = ((f2, b2), h2)"
        "hp_GetOneInto K ''content-type'' empty_buffer k1 = ((f2, b2), k2)" "R h2 k2"
      by (rule rel_resE [OF one 1(3)]) auto
    obtain f3 b3 h3 k3 where 3: "hp_GetOneInto H ''x-envoy-response-flags'' empty_buffer h2 = ((f3, b3), h3)"
        "hp_GetOneInto K ''x-envoy-response-flags'' empty_buffer k2 = ((f3, b3), k3)" "R h3 k3"
      by (rule rel_resE [OF one 2(3)]) auto
    from 1 2 3 viewD(1) show ?thesis by (auto simp: read_response_headers_def Let_def)
  qed
  then obtain ck h1 k1 where r: "read_response_headers ?m H (rs_chunk (sf_respState f)) (sl_host W) = (ck, h1)"
      "read_response_headers ?m' K (rs_chunk (sf_respState f)) (sl_host U) = (ck, k1)" "R h1 k1"
    by (metis rel_prod_sel prod.collapse)
  show ?thesis
    unfolding onResponseHeaders_def r Let_def prod.case
    by (auto intro!: run_on_writer_rel rel_world_update W r(3) rel_updD [OF headersD(4) [OF H]])
qed

lemma onResponseBody_rel:
  assumes C: "rel_body R C D" and W: "rel_world R W U"
  shows "rel_go (rel_world R) (onResponseBody A rt C fp eos fn ops f W) (onResponseBody B rt D fp eos fn ops f U)"
proof -
  obtain cs h1 k1 where r: "bp_GetChunks C (sl_host W) = (cs, h1)" "bp_GetChunks D (sl_host U) = (cs, k1)" "R h1 k1"
    by (rule rel_resE [OF bodyD(1) [OF C] rel_world_reads(10) [OF W]])
  show ?thesis
    unfolding onResponseBody_def r Let_def prod.case viewD(1) [OF r(3)]
    by (intro run_on_writer_rel rel_world_update W r(3))
qed

lemma OnResponseHeaders_rel:
  assumes H: "rel_headers R H K" and W: "rel_world R W U"
  shows "rel_go (rel_prod (=) (rel_world R)) (sahl_OnResponseHeaders A rt H fp ops W) (sahl_OnResponseHeaders B rt K fp ops U)"
  unfolding sahl_OnResponseHeaders_def using W
  by (auto split: option.split intro!: hook_intros go_bind_rel [OF onResponseHeaders_rel [OF H]])

lemma OnResponseBody_rel:
  assumes C: "rel_body R C D" and W: "rel_world R W U"
  shows "rel_go (rel_prod (=) (rel_world R)) (sahl_OnResponseBody A rt C fp eos ops W) (sahl_OnResponseBody B rt D fp eos ops U)"
proof -
  have step: "rel_go (rel_world R)
      (case o1 of None \<Rightarrow> Ret W | Some fn \<Rightarrow> onResponseBody A rt C fp eos fn ops f W)
      (case o1 of None \<Rightarrow> Ret U | Some fn \<Rightarrow> onResponseBody B rt D fp eos fn ops f U)" for o1 f
    using onResponseBody_rel [OF C W] W by (simp split: option.split)
  show ?thesis
    unfolding sahl_OnResponseBody_def using W
    by (auto intro!: hook_intros go_bind_rel [OF step])
qed

end

section \<open>Everything that happens to a filter\<close>

text \<open>
  One hook, or one step of a goroutine, with the choices of the pools and the calls the author's code
  makes in it. \<open>RH q\<close> and \<open>RB q\<close> are the response header map and body that the binding layer passes for
  handle \<open>q\<close>.
\<close>

datatype sahl_event =
    NewFilter pool_choice gostring filterDef ptr
  | RequestHeaders ptr pool_choice pool_choice "hop list"
  | RequestBody ptr bool "hop list"
  | ResponseHeaders ptr ptr "wop list"
  | ResponseBody ptr ptr bool "wop list"
  | LocalReply ptr UnsafeEnvoyBuffer
  | CalloutDone ptr u32 "(UnsafeEnvoyBuffer \<times> UnsafeEnvoyBuffer) list" "UnsafeEnvoyBuffer list" "wop list"
  | StreamHeaders ptr u64 "(UnsafeEnvoyBuffer \<times> UnsafeEnvoyBuffer) list" bool "wop list"
  | StreamData ptr u64 "UnsafeEnvoyBuffer list" bool "wop list"
  | StreamTrailers ptr u64 "(UnsafeEnvoyBuffer \<times> UnsafeEnvoyBuffer) list" "wop list"
  | StreamComplete ptr u64 "wop list"
  | StreamReset ptr u64 u32 "wop list"
  | GoCalls nat "wop list" | GoReturns nat | GoFlush nat
  | RequestComplete ptr | Destroy ptr

datatype sahl_result =
    Nothing | NewPtr ptr | OfHeaders HeadersStatus | OfBody BodyStatus | OfReply LocalReplyStatus

definition giving :: "('s \<Rightarrow> sahl_result) \<Rightarrow> ('s \<times> 'w) go \<Rightarrow> (sahl_result \<times> 'w) go" where
  "giving f m = go_bind m (\<lambda>(s, W). Ret (f s, W))"

definition quiet :: "'w go \<Rightarrow> (sahl_result \<times> 'w) go" where
  "quiet m = go_bind m (\<lambda>W. Ret (Nothing, W))"

fun sahl_hook ::
    "(ptr \<Rightarrow> 'h handle_api) \<Rightarrow> (ptr \<Rightarrow> 'h header_api) \<Rightarrow> (ptr \<Rightarrow> 'h body_api) \<Rightarrow> go_runtime \<Rightarrow> sahl_event \<Rightarrow>
      'h sahl_world \<Rightarrow> (sahl_result \<times> 'h sahl_world) go" where
  "sahl_hook A RH RB rt (NewFilter c name d q) W = giving NewPtr (newSahlFilter c name d q W)"
| "sahl_hook A RH RB rt (RequestHeaders fp rc wc ops) W = giving OfHeaders (sahl_OnRequestHeaders A rt fp rc wc ops W)"
| "sahl_hook A RH RB rt (RequestBody fp eos ops) W = giving OfBody (sahl_OnRequestBody A rt fp eos ops W)"
| "sahl_hook A RH RB rt (ResponseHeaders fp q ops) W = giving OfHeaders (sahl_OnResponseHeaders A rt (RH q) fp ops W)"
| "sahl_hook A RH RB rt (ResponseBody fp q eos ops) W = giving OfBody (sahl_OnResponseBody A rt (RB q) fp eos ops W)"
| "sahl_hook A RH RB rt (LocalReply fp details) W = giving OfReply (sahl_OnLocalReply A fp details W)"
| "sahl_hook A RH RB rt (CalloutDone fp r hs b ops) W = quiet (sahl_OnHttpCalloutDone A rt fp r hs b ops W)"
| "sahl_hook A RH RB rt (StreamHeaders fp i hs eos ops) W = quiet (sahl_OnHttpStreamHeaders A rt fp i hs eos ops W)"
| "sahl_hook A RH RB rt (StreamData fp i b eos ops) W = quiet (sahl_OnHttpStreamData A rt fp i b eos ops W)"
| "sahl_hook A RH RB rt (StreamTrailers fp i ts ops) W = quiet (sahl_OnHttpStreamTrailers A rt fp i ts ops W)"
| "sahl_hook A RH RB rt (StreamComplete fp i ops) W = quiet (sahl_OnHttpStreamComplete A rt fp i ops W)"
| "sahl_hook A RH RB rt (StreamReset fp i reason ops) W = quiet (sahl_OnHttpStreamReset A rt fp i reason ops W)"
| "sahl_hook A RH RB rt (GoCalls i ops) W = quiet (go_calls A rt i ops W)"
| "sahl_hook A RH RB rt (GoReturns i) W = quiet (Ret (go_returns A i W))"
| "sahl_hook A RH RB rt (GoFlush i) W = quiet (go_flush A i W)"
| "sahl_hook A RH RB rt (RequestComplete fp) W = quiet (sahl_OnStreamComplete A fp W)"
| "sahl_hook A RH RB rt (Destroy fp) W = quiet (sahl_OnDestroy fp W)"

fun sahl_run ::
    "(ptr \<Rightarrow> 'h handle_api) \<Rightarrow> (ptr \<Rightarrow> 'h header_api) \<Rightarrow> (ptr \<Rightarrow> 'h body_api) \<Rightarrow> go_runtime \<Rightarrow> sahl_event list \<Rightarrow>
      'h sahl_world \<Rightarrow> (sahl_result list \<times> 'h sahl_world) go" where
  "sahl_run A RH RB rt [] W = Ret ([], W)"
| "sahl_run A RH RB rt (ev # evs) W =
     go_bind (sahl_hook A RH RB rt ev W) (\<lambda>(r, W1).
     go_bind (sahl_run A RH RB rt evs W1) (\<lambda>(rs, W2). Ret (r # rs, W2)))"

lemma giving_rel: "rel_go (rel_prod (=) Q) m n \<Longrightarrow> rel_go (rel_prod (=) Q) (giving f m) (giving f n)"
  unfolding giving_def by (rule go_bind_rel [where S = "rel_prod (=) Q"]) auto

lemma quiet_rel: "rel_go Q m n \<Longrightarrow> rel_go (rel_prod (=) Q) (quiet m) (quiet n)"
  unfolding quiet_def by (rule go_bind_rel) auto

lemma newSahlFilter_rel:
  assumes "rel_world R W U"
  shows "rel_go (rel_prod (=) (rel_world R)) (newSahlFilter c name d q W) (newSahlFilter c name d q U)"
  using assms
  by (cases c) (auto simp: newSahlFilter_def rel_world_reads(9) [OF assms] intro!: read_bind rel_world_update)

lemma OnDestroy_rel:
  assumes W: "rel_world R W U"
  shows "rel_go (rel_world R) (sahl_OnDestroy fp W) (sahl_OnDestroy fp U)"
  unfolding sahl_OnDestroy_def using W
  by (auto simp: putRequest_def putWriter_def set_filter_def rel_world_def Let_def
      split: option.split intro!: read_bind [OF W])

context api_simulation
begin

lemma hook_rel:
  assumes H: "\<And>q. rel_headers R (RH q) (RH' q)" and C: "\<And>q. rel_body R (RB q) (RB' q)" and W: "rel_world R W U"
  shows "rel_go (rel_prod (=) (rel_world R)) (sahl_hook A RH RB rt ev W) (sahl_hook B RH' RB' rt ev U)"
  using W
  by (cases ev)
    (auto simp: sahl_OnHttpStreamHeaders_def sahl_OnHttpStreamData_def sahl_OnHttpStreamTrailers_def
      intro!: giving_rel quiet_rel newSahlFilter_rel OnRequestHeaders_rel OnRequestBody_rel
        OnResponseHeaders_rel [OF H] OnResponseBody_rel [OF C] OnLocalReply_rel OnHttpCalloutDone_rel
        stream_event_rel OnHttpStreamComplete_rel OnHttpStreamReset_rel go_calls_rel go_returns_rel
        go_flush_rel OnStreamComplete_rel OnDestroy_rel)

lemma run_rel:
  assumes H: "\<And>q. rel_headers R (RH q) (RH' q)" and C: "\<And>q. rel_body R (RB q) (RB' q)"
  shows "rel_world R W U \<Longrightarrow>
    rel_go (rel_prod (=) (rel_world R)) (sahl_run A RH RB rt evs W) (sahl_run B RH' RB' rt evs U)"
proof (induction evs arbitrary: W U)
  case Nil
  then show ?case by simp
next
  case (Cons ev evs)
  have "rel_go (rel_prod (=) (rel_world R)) (sahl_hook A RH RB rt ev W) (sahl_hook B RH' RB' rt ev U)"
    by (rule hook_rel [OF H C Cons.prems])
  then show ?case
    by (auto intro!: go_bind_rel [where S = "rel_prod (=) (rel_world R)"] Cons.IH)
qed

end

section \<open>The recorder\<close>

lemma traced_rel:
  "rel_headers (\<lambda>s h. snd s = h) (traced_headers p H) H"
  "rel_body (\<lambda>s h. snd s = h) (traced_body C) C"
  "rel_body (\<lambda>s h. snd s = h) (traced_response_body p C) C"
  by (auto simp: rel_headers_def rel_body_def rel_res_def rel_upd_def trace_defs)

interpretation recorder: api_simulation "traced A" A "\<lambda>s h. snd s = h" for A
proof
  fix p
  show "rel_view (\<lambda>s h. snd s = h) (ha_view (traced A p)) (ha_view (A p))"
    by (auto simp: rel_view_def traced_def traced_view_def option.rel_map rel_res_def rel_upd_def pass_def
        pass_res_def intro!: traced_rel option.rel_refl_strong)
  show "rel_control (\<lambda>s h. snd s = h) (ha_control (traced A p)) (ha_control (A p))"
    by (simp add: rel_control_def rel_res_def rel_upd_def trace_defs)
qed

definition forget :: "'h recorded sahl_world \<Rightarrow> 'h sahl_world" where
  "forget W = \<lparr>sl_filters = sl_filters W, sl_requests = sl_requests W, sl_writers = sl_writers W,
     sl_filterPool = sl_filterPool W, sl_requestPool = sl_requestPool W, sl_writerPool = sl_writerPool W,
     sl_gos = sl_gos W, sl_cancelled = sl_cancelled W, sl_calls = sl_calls W, sl_host = snd (sl_host W)\<rparr>"

lemma rel_world_forget: "rel_world (\<lambda>s h. snd s = h) W U \<longleftrightarrow> U = forget W"
  by (cases U) (auto simp: rel_world_def forget_def)

text \<open>The recorder the theorems on sahl are stated with changes nothing. Over every implementation of
  the handle, every sequence of hooks, of calls by the author's code and of steps of goroutines, and
  every choice of the pools, the run without the recorder returns or panics exactly as the recorded one
  does, gives Envoy the same answers and leaves the same state, with the record forgotten.\<close>

theorem recorder_is_transparent:
  "sahl_run A RH RB rt evs (forget W) =
     map_go (map_prod id forget)
       (sahl_run (traced A) (\<lambda>q. traced_headers q (RH q)) (\<lambda>q. traced_response_body q (RB q)) rt evs W)"
proof -
  have "rel_go (rel_prod (=) (rel_world (\<lambda>s h. snd s = h)))
      (sahl_run (traced A) (\<lambda>q. traced_headers q (RH q)) (\<lambda>q. traced_response_body q (RB q)) rt evs W)
      (sahl_run A RH RB rt evs (forget W))"
    by (rule recorder.run_rel) (simp_all add: traced_rel rel_world_forget)
  then show ?thesis
    by (cases rule: go.rel_cases) (auto simp: rel_prod_sel rel_world_forget prod_eq_iff)
qed

end
