(* ===== verification/FakeRun.thy ===== *)
theory FakeRun
  imports FakeHandle SahlRun SahlSimulation
begin

text \<open>
  What a unit test sees: the records of a \<open>FakeFilterHandle\<close> after sahl has run a handler on it are
  exactly the outcome of the handler's code. The plain fakes and the recorded ones are a second
  instance of \<open>api_simulation\<close>, whose relation says that the records replay the trace.
\<close>

section \<open>The records of a fake\<close>

record observed =
  ob_Sets :: "(gostring \<times> gostring) list"
  ob_metadata :: "gostring \<rightharpoonup> (gostring \<rightharpoonup> go_any)"
  ob_ClearedRouteCache :: i64
  ob_CounterIncrements :: "CounterIncrement list"
  ob_ContinuedReq :: i64
  ob_LocalResponses :: "LocalResponse list"

definition observed_of :: "'u FakeFilterHandle \<Rightarrow> observed" where
  "observed_of h = \<lparr>ob_Sets = fk_Sets (ff_reqHeaders h), ob_metadata = ff_metadata h,
     ob_ClearedRouteCache = ff_ClearedRouteCache h, ob_CounterIncrements = ff_CounterIncrements h,
     ob_ContinuedReq = ff_ContinuedReq h, ob_LocalResponses = ff_LocalResponses h\<rparr>"

definition put_metadata ::
    "(gostring \<rightharpoonup> (gostring \<rightharpoonup> go_any)) \<Rightarrow> gostring \<times> gostring \<times> go_any \<Rightarrow> gostring \<rightharpoonup> (gostring \<rightharpoonup> go_any)" where
  "put_metadata M e =
     (let (ns, k, v) = e in M(ns \<mapsto> (case M ns of None \<Rightarrow> Map.empty | Some m \<Rightarrow> m)(k \<mapsto> v)))"

fun observe :: "observed \<Rightarrow> handle_call \<Rightarrow> observed" where
  "observe ob (CSetHeader k v) = ob\<lparr>ob_Sets := ob_Sets ob @ [(k, v)]\<rparr>"
| "observe ob (CSetMetadata ns k v) = ob\<lparr>ob_metadata := put_metadata (ob_metadata ob) (ns, k, v)\<rparr>"
| "observe ob CClearRouteCache = ob\<lparr>ob_ClearedRouteCache := ob_ClearedRouteCache ob + 1\<rparr>"
| "observe ob (CCounter i n tags) = ob\<lparr>ob_CounterIncrements := ob_CounterIncrements ob @
     [\<lparr>ci_ID = i, ci_N = n, ci_Tags = tags, ci_Hist = False\<rparr>]\<rparr>"
| "observe ob (CHistogram i n tags) = ob\<lparr>ob_CounterIncrements := ob_CounterIncrements ob @
     [\<lparr>ci_ID = i, ci_N = n, ci_Tags = tags, ci_Hist = True\<rparr>]\<rparr>"
| "observe ob CContinue = ob\<lparr>ob_ContinuedReq := ob_ContinuedReq ob + 1\<rparr>"
| "observe ob (CLocalResponse s hs b d) = ob\<lparr>ob_LocalResponses := ob_LocalResponses ob @
     [\<lparr>lp_Status = s, lp_Headers = hs, lp_Body = b, lp_Detail = d\<rparr>]\<rparr>"
| "observe ob _ = ob"

definition nothing_observed :: observed where
  "nothing_observed = \<lparr>ob_Sets = [], ob_metadata = Map.empty, ob_ClearedRouteCache = 0,
     ob_CounterIncrements = [], ob_ContinuedReq = 0, ob_LocalResponses = []\<rparr>"

lemma observe_off_path: "\<not> on_request_path c \<Longrightarrow> observe ob c = ob"
  by (cases c) simp_all

lemma observe_calls_of:
  "foldl observe ob (map snd (filter (\<lambda>c. fst c = p) tr)) = foldl observe ob (calls_of p tr)"
proof (induction tr arbitrary: ob)
  case Nil
  then show ?case by simp
next
  case (Cons c tr)
  obtain q x where c: "c = (q, x)" by force
  show ?case using Cons observe_off_path [of x] by (cases "on_request_path x") (simp_all add: c)
qed

section \<open>The records replay the trace\<close>

definition replays :: "(ptr \<Rightarrow> observed) \<Rightarrow> 'u fakes recorded \<Rightarrow> 'u fakes \<Rightarrow> bool" where
  "replays base s t \<longleftrightarrow> snd s = t \<and>
     (\<forall>p. observed_of (fst t p) = foldl observe (base p) (map snd (filter (\<lambda>c. fst c = p) (fst s))))"

text \<open>What an operation of a fake does to the records.\<close>

lemma observed_ops [simp]:
  "observed_of (ff_reqHeaders_update (fk_Set rt k v) h) = observe (observed_of h) (CSetHeader k v)"
  "observed_of (ff_SetMetadata ns k x h) = observe (observed_of h) (CSetMetadata ns k x)"
  "observed_of (ff_ClearRouteCache h) = observe (observed_of h) CClearRouteCache"
  "observed_of (snd (ff_IncrementCounterValue i n tags h)) = observe (observed_of h) (CCounter i n tags)"
  "observed_of (snd (ff_RecordHistogramValue i n tags h)) = observe (observed_of h) (CHistogram i n tags)"
  "observed_of (ff_ContinueRequest h) = observe (observed_of h) CContinue"
  "observed_of (ff_SendLocalResponse st hs b d h) = observe (observed_of h) (CLocalResponse st hs b d)"
  "observed_of (ff_reqHeaders_update (fk_Remove rt k) h) = observed_of h"
  "observed_of (ff_reqBody_update g h) = observed_of h"
  "observed_of (ff_receivedReqBody_update g h) = observed_of h"
  "observed_of (ff_respBody_update g h) = observed_of h"
  by (simp_all add: observed_of_def fk_Set_def fk_Remove_def ff_SetMetadata_def put_metadata_def
      ff_ClearRouteCache_def ff_IncrementCounterValue_def ff_RecordHistogramValue_def ff_ContinueRequest_def
      ff_SendLocalResponse_def Let_def)

lemmas fake_ops = replays_def on_fake_def on_fake_res_def of_fake_def by_test_def

lemma replays_view: "rel_view (replays base) (ha_view (traced (fake_api G rt) p)) (ha_view (fake_api G rt p))"
  by (auto simp: rel_view_def rel_headers_def rel_body_def rel_res_def rel_upd_def trace_defs fake_api_def
      fake_view_def fake_headers_def fake_body_def fake_ops)

lemma replays_control:
  "rel_control (replays base) (ha_control (traced (fake_api G rt) p)) (ha_control (fake_api G rt p))"
  by (auto simp: rel_control_def rel_res_def rel_upd_def trace_defs fake_api_def fake_control_def fake_ops
      fs_Schedule_def split: option.split)

interpretation fakes: api_simulation "traced (fake_api G rt)" "fake_api G rt" "replays base" for G rt base
  by unfold_locales (rule replays_view, rule replays_control)

section \<open>The outcome, as a fake records it\<close>

definition counted :: "counterMut \<Rightarrow> CounterIncrement" where
  "counted m = \<lparr>ci_ID = cm_id m, ci_N = cm_n m, ci_Tags = cm_tags m, ci_Hist = cm_hist m\<rparr>"

definition responded_with :: "localResponseMut \<Rightarrow> LocalResponse" where
  "responded_with r = \<lparr>lp_Status = lr_statusCode r, lp_Headers = lr_headers r, lp_Body = lr_body r, lp_Detail = ''sahl''\<rparr>"

lemma observe_sets: "foldl observe ob (map (\<lambda>(k, v). CSetHeader k v) kvs) = ob\<lparr>ob_Sets := ob_Sets ob @ kvs\<rparr>"
  by (induction kvs arbitrary: ob) auto

lemma observe_metas:
  "foldl observe ob (map (\<lambda>(ns, k, v). CSetMetadata ns k v) es) = ob\<lparr>ob_metadata := foldl put_metadata (ob_metadata ob) es\<rparr>"
  by (induction es arbitrary: ob) auto

lemma observe_metrics:
  "foldl observe ob (map metric_call ms) = ob\<lparr>ob_CounterIncrements := ob_CounterIncrements ob @ map counted ms\<rparr>"
  by (induction ms arbitrary: ob) (auto simp: counted_def)

definition outcome_observed :: "bool \<Rightarrow> wop list \<Rightarrow> observed" where
  "outcome_observed continueReq ops =
     (case answer ops of
        Some r \<Rightarrow> nothing_observed\<lparr>ob_LocalResponses := [responded_with r]\<rparr>
      | None \<Rightarrow> \<lparr>ob_Sets = queued request_header ops,
          ob_metadata = foldl put_metadata Map.empty (queued metadata_entry ops),
          ob_ClearedRouteCache = (if WClearRouteCache \<in> set ops then 1 else 0),
          ob_CounterIncrements = map counted (queued metric_entry ops),
          ob_ContinuedReq = (if continueReq then 1 else 0), ob_LocalResponses = []\<rparr>)"

lemma observe_outcome: "foldl observe nothing_observed (outcome_calls c ops) = outcome_observed c ops"
  by (simp add: outcome_calls_def outcome_observed_def response_call_def responded_with_def nothing_observed_def
      observe_sets observe_metas observe_metrics split: option.split)

section \<open>A world of fakes, recorded\<close>

text \<open>The same world with an empty record in front of the fakes.\<close>

definition remember :: "'h sahl_world \<Rightarrow> 'h recorded sahl_world" where
  "remember U = \<lparr>sl_filters = sl_filters U, sl_requests = sl_requests U, sl_writers = sl_writers U,
     sl_filterPool = sl_filterPool U, sl_requestPool = sl_requestPool U, sl_writerPool = sl_writerPool U,
     sl_gos = sl_gos U, sl_cancelled = sl_cancelled U, sl_calls = sl_calls U, sl_host = ([], sl_host U)\<rparr>"

lemma remember_related: "rel_world (replays (\<lambda>p. observed_of (fst (sl_host U) p))) (remember U) U"
  by (simp add: rel_world_def remember_def replays_def)

text \<open>In two related worlds the records of a fake are those of the calls.\<close>

lemma records_of_calls:
  assumes "rel_world (replays base) W U"
  shows "observed_of (fst (sl_host U) p) = foldl observe (base p) (calls_on p W)"
  using assms by (simp add: rel_world_def replays_def calls_on_def observe_calls_of)

text \<open>C32: a unit test sees what the handler's code says. When sahl runs a handler that starts nothing
  asynchronous on a fresh \<open>FakeFilterHandle\<close>, the hook answers as over Envoy, and the records the test
  asserts on are exactly the outcome of the code: one local response with its headers, body and detail
  and nothing else if the code sent one; otherwise every queued header, metadata entry, counter and
  histogram, each kind in order, the route cache cleared at most once, and no continuation.\<close>

theorem unit_test_sees_outcome:
  assumes "sl_filters U fp = Some f" "sf_handler f = Some d" "\<not> fd_bodyAware d" "fd_handler d = Some fn"
    and "pool_ok rc (sl_requestPool U) (sl_requests U)" "pool_ok wc (sl_writerPool U) (sl_writers U)"
    and "observed_of (fst (sl_host U) (sf_handle f)) = nothing_observed"
    and "ReadBody \<notin> set ops" "list_all (\<lambda>op. \<not> is_async op) (wops_of ops)"
  shows "\<exists>U'. sahl_OnRequestHeaders (fake_api G rt) rt fp rc wc ops U =
      Ret (if answer (wops_of ops) = None then HeadersStatusContinue else HeadersStatusStop, U') \<and>
    observed_of (fst (sl_host U') (sf_handle f)) = outcome_observed False (wops_of ops) \<and>
    (\<forall>q. q \<noteq> sf_handle f \<longrightarrow> observed_of (fst (sl_host U') q) = observed_of (fst (sl_host U) q))"
proof -
  let ?base = "\<lambda>p. observed_of (fst (sl_host U) p)"
  have no_calls: "calls_on q (remember U) = []" for q by (simp add: calls_on_def remember_def)
  have sync: "filter is_async (wops_of ops) = []" "sync_part (wops_of ops) = wops_of ops"
    using assms(9) by (auto simp: filter_empty_conv list_all_iff sync_part_def)
  obtain W' where W': "sahl_OnRequestHeaders (traced (fake_api G rt)) rt fp rc wc ops (remember U) =
      Ret (if answer (wops_of ops) = None then HeadersStatusContinue else HeadersStatusStop, W')"
    "calls_on (sf_handle f) W' = outcome_calls False (wops_of ops)"
    "\<forall>q. q \<noteq> sf_handle f \<longrightarrow> calls_on q W' = []"
    using handler_runs [of "remember U" fp f d fn rc wc ops "fake_api G rt" rt] sync_no_inline [OF assms(9)] assms
      no_calls sync
    by (auto simp: remember_def)
  have "rel_go (rel_prod (=) (rel_world (replays ?base)))
      (sahl_OnRequestHeaders (traced (fake_api G rt)) rt fp rc wc ops (remember U))
      (sahl_OnRequestHeaders (fake_api G rt) rt fp rc wc ops U)"
    by (rule fakes.OnRequestHeaders_rel [OF remember_related])
  with W'(1) obtain U' where U': "sahl_OnRequestHeaders (fake_api G rt) rt fp rc wc ops U =
      Ret (if answer (wops_of ops) = None then HeadersStatusContinue else HeadersStatusStop, U')"
    "rel_world (replays ?base) W' U'"
    by (cases "sahl_OnRequestHeaders (fake_api G rt) rt fp rc wc ops U") auto
  with records_of_calls [OF U'(2)] W'(2,3) assms(7) show ?thesis
    by (auto simp: observe_outcome)
qed

definition test_world :: "go_runtime \<Rightarrow> 'u \<Rightarrow> 'u fakes sahl_world" where
  "test_world rt u = set_filter 1 demo_filter
     (empty_sahl ((\<lambda>_. NewFilterHandle rt [WithHeaders rt [(''Host'', ''a.b'')], WithLogEnabled True]), u))"

lemma test_world_simps:
  "sl_filters (test_world rt u) 1 = Some demo_filter" "sl_requests (test_world rt u) = Map.empty"
  "sl_writers (test_world rt u) = Map.empty"
  "observed_of (fst (sl_host (test_world rt u)) p) = nothing_observed"
  by (simp_all add: test_world_def empty_sahl_def set_filter_def NewFilterHandle_def WithHeaders_def
      WithLogEnabled_def observed_of_def nothing_observed_def NewFakeHeaderMap_def)

theorem unit_test_sees_outcome_witness:
  "\<forall>G rt (u :: 'u). \<exists>U'. sahl_OnRequestHeaders (fake_api G rt) rt 1 (Fresh 2) (Fresh 3)
      [GetHeader ''Host'', OnWriter (WSetRequestHeader ''k'' ''v''), OnWriter (WIncrementCounter 5 1 [])]
      (test_world rt u) = Ret (HeadersStatusContinue, U') \<and>
    observed_of (fst (sl_host U') 9) = nothing_observed\<lparr>ob_Sets := [(''k'', ''v'')],
      ob_CounterIncrements := [\<lparr>ci_ID = 5, ci_N = 1, ci_Tags = [], ci_Hist = False\<rparr>]\<rparr>"
proof (intro allI)
  fix G rt and u :: 'u
  let ?ops = "[GetHeader ''Host'', OnWriter (WSetRequestHeader ''k'' ''v''), OnWriter (WIncrementCounter 5 1 [])]"
  from unit_test_sees_outcome [of "test_world rt u" 1 demo_filter demo_def 4 "Fresh 2" "Fresh 3" ?ops G rt]
  show "\<exists>U'. sahl_OnRequestHeaders (fake_api G rt) rt 1 (Fresh 2) (Fresh 3) ?ops (test_world rt u) =
      Ret (HeadersStatusContinue, U') \<and>
    observed_of (fst (sl_host U') 9) = nothing_observed\<lparr>ob_Sets := [(''k'', ''v'')],
      ob_CounterIncrements := [\<lparr>ci_ID = 5, ci_N = 1, ci_Tags = [], ci_Hist = False\<rparr>]\<rparr>"
    by (auto simp: test_world_simps pool_ok_Fresh answer_def outcome_observed_def nothing_observed_def
        queued_def counted_def)
qed

end
