(* ===== verification/Spec2Isabelle.thy ===== *)
theory Spec2Isabelle
  imports RingBuffer Conformance AbiHttpHost AbiHttpHooks AbiNetwork AbiNetworkHooks AbiLogger
    AbiListener AbiBootstrap AbiCluster AbiLoadBalancer AbiExtensions
    Manager Scheduler Conversions HeaderMap BodyBuffer Span Strconv HttpHandle ConfigHandle SharedData
    Registry HttpHooks ConfigHooks Lifecycle Module Requests
    AccessLogger NetworkBuffer NetworkLifecycle
    SahlConfig SahlMixtures SahlDo FakeRun
begin

text \<open>
  \<^bold>\<open>luwes\<close> is a Go SDK for Envoy's dynamic modules: filters written in Go are compiled to a shared
  library that Envoy loads and drives through the C interface of abi/abi.h. This library models the
  interface and the SDK and proves what makes them correct.

  \<^bold>\<open>The parts of the program and the theories that model them\<close>

  \<^item> abi/abi.h, the interface. AbiEnums has its enumerations (a C enumerator is its position, a value
    that crosses the boundary is a 32-bit number that may be none), AbiStructs its structs and
    pointers. Envoy implements the callbacks and the module the hooks: a group of callbacks is
    a record of functions over Envoy's state \<open>'h\<close> (AbiHttpHost, AbiNetwork, AbiLogger), a group of hooks
    a record over the module's state (AbiHttpHooks, AbiNetworkHooks). AbiListener, AbiBootstrap,
    AbiCluster, AbiLoadBalancer and AbiExtensions are the same for the extension points for which the SDK
    has no Go side. Out parameters are optional results: \<open>None\<close> when the callback may leave the variable
    alone. What Envoy does is never defined; the contracts of the comments are locales (\<open>header_host\<close> in HeaderMap, \<open>body_host\<close> in BodyBuffer,
    \<open>metadata_host\<close> in SharedData), each interpreted on an executable host that keeps it.
  \<^item> shared/, the interfaces filters are written against. GoEnums has the Go constants, Shared the
    view struct \<open>UnsafeEnvoyBuffer\<close> and its readers, Conformance the proof that every number the SDK
    casts to or from C means the same on both sides (locale \<open>enum_cast\<close>, interpreted for every
    enumeration the SDK uses).
  \<^item> abi_impl/internal.go, the binding layer. Manager is the sharded registry that pins objects (locale
    \<open>object_registry\<close>), Scheduler the task table, Conversions the views over Go and Envoy memory,
    HeaderMap and BodyBuffer the accessors (with the fakes of shared/fake and the readers of
    shared/utility), Span the tracing spans, HttpHandle the handle of a request with all its methods,
    ConfigHandle those of configurations, SharedData the data filters of a request share, Strconv the
    two functions of strconv it goes through.
  \<^item> The exported hooks of the same file. HttpHooks: the state of the module (\<open>world\<close>: handle objects, the
    pool, the registries, the live filters, the trace of calls made to the filter author's code), one
    definition per hook, and the code of a filter as a \<^emph>\<open>script\<close>: the list of its calls of the handle,
    each with the hooks Envoy runs inline before the call returns, and with their scripts. A call has a
    first half, up to the return of Envoy (\<open>call_begin\<close>), and a second (\<open>call_return\<close>): what the method stores
    before and after it called Envoy is visible to the inline hooks. The trace also notes when a local
    response is sent and when a callout or stream is registered. ConfigHooks: the hooks of configurations.
    History: the part of the trace of one handle, the state of the handle it determines (\<open>replay\<close>) and the
    calls that state forbids (locale \<open>history_field\<close>, interpreted for the three fields). Lifecycle: what a script can and cannot change, the invariant \<open>winv\<close>, and that hooks and scripts
    preserve it and never crash. Module: the step relation \<open>module_step\<close> of a loaded module, with
    Envoy's side of the contract as premises, and the invariant of its reachable states. Requests: the
    properties of a request's life, and a concrete run for the witnesses.
  \<^item> abi_impl/network.go, TCP filters. NetworkHandle: the handles and the buffers with all their methods.
    NetworkBuffer: what the ABI comments promise of the two buffers of a connection (locale
    \<open>network_host\<close>) and the abstract queues they refine. NetworkHooks: the state of the network side
    (\<open>nworld\<close>) and one definition per exported hook. The code of a filter is a function of the state; what
    it may be is the inductive relation \<open>does\<close>: any sequence of calls of its handles, of hooks that Envoy
    runs inline and of changes in Envoy itself. NetworkLifecycle: the invariant \<open>ninv\<close> of the states
    reached that way, by rule induction.
  \<^item> abi_impl/access_logger.go: AccessLogger, handles and hooks, with the step relation \<open>logger_step\<close> and
    its invariant. Pins has the facts on pinned pointers both files share.
  \<^item> sdk.go and filter.go, the registries of filters: Registry (locale \<open>once_table\<close>, one loop with four
    instances).
  \<^item> sahl/, the handler framework, over any implementation of the handle. SahlApi: the interfaces it calls
    as records of functions, the handle of the binding layer as one instance (\<open>dym_api\<close>), and a recorder
    (\<open>traced\<close>) in front of any implementation. SahlWriter: the writer (writer.go, callout.go, stream.go).
    SahlRequest: the request and its header cache (request.go; locale \<open>header_source\<close>). SahlFilter: the
    filter's hooks, the pools and the goroutines (filter.go, response.go). SahlConfig: registration,
    middleware and configuration (sahl.go). SahlDo: \<open>Do\<close> of do.go as the pieces that run on different
    threads, in any order (\<open>do_step\<close>). SahlOutcome: the abstract outcome of a handler's code and the
    simulation \<open>tracks\<close> between it and a writer. A call of the writer carries what the
    handle calls back before it returns. SahlRun: the life of a request whose completion comes later.
    SahlMixtures: completions that come inline, body-aware handlers that call \<open>Go\<close>, and goroutines that
    outlive their request.
    SahlSimulation: sahl cannot tell two implementations of the handle apart that a relation keeps
    together (locale \<open>api_simulation\<close>, over every hook and goroutine step, \<open>sahl_run\<close>), so the recorder
    changes nothing (\<open>recorder_is_transparent\<close>).
  \<^item> shared/fake/, the handles of unit tests: FakeHandle, as a third implementation of the interface, and
    FakeRun, what its records say after a run of sahl.
  \<^item> buffer/buffer.go, the stream buffers: RingBuffer.

  \<^bold>\<open>What the groups of theorems show\<close>

  The properties carry the numbers of the manifest; the other theorems are their library.

  \<^item> Requests: every request has a clean handle of its own in every reachable state, no hook panics,
    destruction retires the handle, nothing reaches a completed stream or, on the response path, a filter
    that answered locally, a registered callout is delivered and no registration is used twice, and when
    loading a configuration succeeds.
  \<^item> NetworkLifecycle: a TCP filter is called in the documented order under every nesting of hooks, no
    hook panics, callout results are delivered at most once. NetworkBuffer: its buffers are queues.
  \<^item> AccessLogger: a logger is called in the documented order, which hooks crash for a nil factory, and
    the bounds of the attempt count.
  \<^item> Scheduler: scheduled closures run at most once and none is lost, under every interleaving.
  \<^item> SharedData: shared data reads back, never dangles, and is gone after the request.
  \<^item> Manager, HeaderMap, BodyBuffer, Span, Registry: the registry of pinned objects, the accessors, the
    spans and the registries of filters do what their comments promise.
  \<^item> SahlRun: what a handler's code says is what happens to the request, at once or after its callout,
    stream or goroutine. SahlRequest, SahlConfig: the request's reads, and configurations. SahlDo: \<open>Do\<close>
    blocks no worker and returns what happened. FakeRun: what a unit test asserts on is the outcome of the
    handler's code. SahlMixtures: what becomes of a request whose callout completes inline, of one whose
    body-aware handler calls \<open>Go\<close> (its queue is applied twice), and of the calls a goroutine makes after
    its request has ended (they become part of the next request).
  \<^item> Conformance: the numbers of the statuses and results agree with the interface.
  \<^item> RingBuffer: the stream buffers keep what they promise, and a ring of capacity 0 diverges.

  \<^bold>\<open>Modelling choices\<close>

  Memory is a function from 64-bit addresses to bytes; a view is a pointer and a length, the null
  pointer is 0. Machine integers are words of their width; an index into a Go slice is a nat. Go
  objects of the filter author (plugins, callbacks, closures) are references. A Go panic is the value
  \<open>Panic\<close> of type \<open>go\<close>; dereferencing a pointer to no object is one too. A hook runs to its end before
  the next hook of another worker: handles of different requests share only the pool, the registries
  and the tables of tasks, and each operation on those is one locked step, so a schedule of the
  workers is a sequence of hooks; the scheduler, whose \<open>Schedule\<close> is called by any goroutine and is not
  one locked step, is modelled step by step. The choices of the allocator and of \<open>sync.Pool\<close>, the
  order of ranging over a Go map and what Go leaves open (\<open>unsafe.StringData\<close> of the empty string,
  rounding, \<open>fmt.Sprintf\<close>) are parameters. No loop of the modelled code needs fuel but the write loop of
  the ring, which is a partial function, because it does not return for a ring of size 0.

  \<^bold>\<open>Not modelled\<close>

  The module side of the extension points the SDK does not support (listeners, UDP, bootstrap, clusters,
  load balancers, matchers, certificates, bridges, tracers, DNS, transport sockets): the repository has
  no code of it, only the types and prototypes of abi.h.
  Finalizers and \<open>runtime.KeepAlive\<close>: they belong to the garbage collector. Mocks are generated; examples, benchmarks, end-to-end tests, scripts and tools use
  the library and are not part of it; \<open>StartPprof\<close> starts a server of the standard library.
\<close>

end
